(* ===== verification/Prelude.thy ===== *)
theory Prelude
  imports Main "HOL-Library.Code_Target_Nat" "HOL-Library.Multiset" "HOL-Library.AList"
begin

text \<open>
  What every component theory shares.

  \<^item> Exceptions as values: \<open>js_error\<close> has the \<open>AppError\<close> of core/shared/errors.ts (code,
    message, HTTP status) and every other thrown value; a function that may throw returns
    \<open>'a result\<close>, with \<open>bindR\<close> and \<open>traverseR\<close> for sequencing.
  \<^item> \<open>Array.prototype.sort\<close>: stable since ECMAScript 2019, so for a consistent comparator the
    result is unique (\<open>js_sort_unique\<close>), and insertion sort computes it.
  \<^item> \<open>Map\<close> of JavaScript: keys keep the order of their first insertion, which is the
    association list of HOL-Library.AList with its \<open>update\<close>; the locale \<open>grouping\<close> is the
    fold of a row list into such a map, as three components of the code do it.
\<close>

named_theorems result_simps "evaluation of the result combinators"

section \<open>Exceptions as values\<close>

datatype js_error =
    AppError (err_code: string) (err_message: string) (err_status: nat)
  | Thrown string

type_synonym 'a result = "js_error + 'a"

text \<open>What a statement throws that violates a constraint: its SQLSTATE.\<close>

definition sqlstate :: "string \<Rightarrow> js_error" where
  "sqlstate s = Thrown s"

definition bindR :: "'e + 'a \<Rightarrow> ('a \<Rightarrow> 'e + 'b) \<Rightarrow> 'e + 'b" where
  "bindR m f = (case m of Inl e \<Rightarrow> Inl e | Inr x \<Rightarrow> f x)"

lemma bindR_Inl [simp, result_simps]: "bindR (Inl e) f = Inl e"
  and bindR_Inr [simp, result_simps]: "bindR (Inr x) f = f x"
  by (simp_all add: bindR_def)

lemma bindR_eq_Inr: "bindR m f = Inr y \<longleftrightarrow> (\<exists>x. m = Inr x \<and> f x = Inr y)"
  by (cases m) simp_all

lemma bindR_eq_Inl: "bindR m f = Inl e \<longleftrightarrow> m = Inl e \<or> (\<exists>x. m = Inr x \<and> f x = Inl e)"
  by (cases m) simp_all

text \<open>A value that must be there, else the error.\<close>

definition orElse :: "'a option \<Rightarrow> 'e \<Rightarrow> 'e + 'a" where
  "orElse v e = (case v of None \<Rightarrow> Inl e | Some x \<Rightarrow> Inr x)"

lemma orElse_simps [simp, result_simps]: "orElse None e = Inl e" "orElse (Some x) e = Inr x"
  by (simp_all add: orElse_def)

lemma orElse_Inr [simp]: "orElse v e = Inr x \<longleftrightarrow> v = Some x"
  by (cases v) simp_all

lemma orElse_Inl [simp]: "orElse v e = Inl e' \<longleftrightarrow> v = None \<and> e' = e"
  by (cases v) auto

text \<open>\<open>Array.prototype.map\<close> with a callback that may throw: the first exception wins.\<close>

fun traverseR :: "('a \<Rightarrow> 'e + 'b) \<Rightarrow> 'a list \<Rightarrow> 'e + 'b list" where
  "traverseR f [] = Inr []"
| "traverseR f (x # xs) = bindR (f x) (\<lambda>y. bindR (traverseR f xs) (\<lambda>ys. Inr (y # ys)))"

lemma traverseR_Inr: "traverseR f xs = Inr ys \<longleftrightarrow> map f xs = map Inr ys"
proof (induction xs arbitrary: ys)
  case (Cons x xs)
  show ?case by (cases ys) (auto simp: bindR_eq_Inr Cons.IH)
qed auto

lemma traverseR_length: "traverseR f xs = Inr ys \<Longrightarrow> length ys = length xs"
  by (drule traverseR_Inr [THEN iffD1]) (auto dest: arg_cong [of _ _ length])

lemma traverseR_set: "traverseR f xs = Inr ys \<Longrightarrow> y \<in> set ys \<Longrightarrow> \<exists>x\<in>set xs. f x = Inr y"
proof -
  assume t: "traverseR f xs = Inr ys" and y: "y \<in> set ys"
  from t have "map f xs = map Inr ys" by (rule traverseR_Inr [THEN iffD1])
  then have "f ` set xs = Inr ` set ys" by (metis set_map)
  with y show ?thesis by (metis imageE imageI)
qed

lemma traverseR_projr:
  "traverseR f xs = Inr ys \<Longrightarrow> ys = map (\<lambda>x. projr (f x)) xs \<and> (\<forall>x\<in>set xs. f x = Inr (projr (f x)))"
proof (induction xs arbitrary: ys)
  case (Cons x xs)
  then obtain z zs where "f x = Inr z" "traverseR f xs = Inr zs" "ys = z # zs" by (auto simp: bindR_eq_Inr)
  with Cons.IH [of zs] show ?case by simp
qed simp

definition ok :: "'e + 'a \<Rightarrow> bool" where
  "ok r = (case r of Inl _ \<Rightarrow> False | Inr _ \<Rightarrow> True)"

lemma ok_simps [simp, result_simps]: "ok (Inr x)" "\<not> ok (Inl e)"
  by (simp_all add: ok_def)

section \<open>Looking up rows\<close>

lemma find_map_same: "(\<And>x. x \<in> set xs \<Longrightarrow> P (f x) = P x) \<Longrightarrow> find P (map f xs) = map_option f (find P xs)"
  by (induction xs) auto

lemma find_snoc: "find P xs = None \<Longrightarrow> find P (xs @ [x]) = (if P x then Some x else None)"
  by (induction xs) (auto split: if_splits)

section \<open>Sorting with a comparator\<close>

text \<open>
  Comparators return a number: negative, zero or positive. \<open>js_insert\<close> puts an element before
  the first one it does not exceed, so an earlier element stays before its equals.
\<close>

fun js_insert :: "('a \<Rightarrow> 'a \<Rightarrow> int) \<Rightarrow> 'a \<Rightarrow> 'a list \<Rightarrow> 'a list" where
  "js_insert cmp x [] = [x]"
| "js_insert cmp x (y # ys) = (if cmp x y \<le> 0 then x # y # ys else y # js_insert cmp x ys)"

fun js_sort :: "('a \<Rightarrow> 'a \<Rightarrow> int) \<Rightarrow> 'a list \<Rightarrow> 'a list" where
  "js_sort cmp [] = []"
| "js_sort cmp (x # xs) = js_insert cmp x (js_sort cmp xs)"

lemma mset_js_insert [simp]: "mset (js_insert cmp x xs) = add_mset x (mset xs)"
  by (induction xs) auto

lemma mset_js_sort [simp]: "mset (js_sort cmp xs) = mset xs"
  by (induction xs) auto

lemma set_js_sort [simp]: "set (js_sort cmp xs) = set xs"
  by (metis mset_js_sort set_mset_mset)

lemma length_js_sort [simp]: "length (js_sort cmp xs) = length xs"
  by (metis mset_js_sort size_mset)

lemma set_js_insert [simp]: "set (js_insert cmp x xs) = insert x (set xs)"
  by (metis mset_js_insert set_mset_add_mset_insert set_mset_mset)

text \<open>The contract a comparator has to meet for the standard to fix the result of a sort.\<close>

locale comparator =
  fixes cmp :: "'a \<Rightarrow> 'a \<Rightarrow> int"
  assumes cmp_flip: "cmp x y \<le> 0 \<longleftrightarrow> 0 \<le> cmp y x"
    and cmp_trans: "cmp x y \<le> 0 \<Longrightarrow> cmp y z \<le> 0 \<Longrightarrow> cmp x z \<le> 0"
begin

definition le :: "'a \<Rightarrow> 'a \<Rightarrow> bool" where
  "le x y \<longleftrightarrow> cmp x y \<le> 0"

definition eqv :: "'a \<Rightarrow> 'a \<Rightarrow> bool" where
  "eqv x y \<longleftrightarrow> le x y \<and> le y x"

lemma le_total: "le x y \<or> le y x"
  unfolding le_def using cmp_flip [of y x] by linarith

lemma le_refl [simp]: "le x x"
  using le_total by blast

lemma eqv_refl [simp]: "eqv x x"
  by (simp add: eqv_def)

lemma le_trans: "le x y \<Longrightarrow> le y z \<Longrightarrow> le x z"
  unfolding le_def by (rule cmp_trans)

lemma js_insert_sorted: "sorted_wrt le xs \<Longrightarrow> sorted_wrt le (js_insert cmp x xs)"
proof (induction xs)
  case (Cons y ys)
  show ?case
  proof (cases "cmp x y \<le> 0")
    case True
    with Cons.prems show ?thesis by (auto simp: le_def intro: cmp_trans)
  next
    case False
    with le_total [of x y] have "le y x" by (simp add: le_def)
    with Cons False show ?thesis by auto
  qed
qed simp

lemma js_sort_sorted: "sorted_wrt le (js_sort cmp xs)"
  by (induction xs) (auto intro: js_insert_sorted)

lemma js_insert_stable:
  "filter (eqv a) (js_insert cmp x xs) = (if eqv a x then x # filter (eqv a) xs else filter (eqv a) xs)"
proof (induction xs)
  case (Cons y ys)
  show ?case
  proof (cases "cmp x y \<le> 0")
    case False
    then have "\<not> le x y" by (simp add: le_def)
    then have "\<not> (eqv a x \<and> eqv a y)" unfolding eqv_def using le_trans by blast
    with False Cons show ?thesis by auto
  qed auto
qed simp

lemma js_sort_stable: "filter (eqv a) (js_sort cmp xs) = filter (eqv a) xs"
  by (induction xs) (auto simp: js_insert_stable)

text \<open>
  A sorted list is fixed by its equivalence classes: whatever algorithm an engine uses, a stable
  sort under a consistent comparator returns this list.
\<close>

lemma sorted_classes_eq:
  "sorted_wrt le xs \<Longrightarrow> sorted_wrt le ys \<Longrightarrow> (\<And>a. filter (eqv a) xs = filter (eqv a) ys) \<Longrightarrow> xs = ys"
proof (induction xs arbitrary: ys)
  case Nil
  have "filter (eqv (hd ys)) ys = []" using Nil(3) [of "hd ys"] by simp
  then show ?case by (cases ys) (auto simp: eqv_def)
next
  case (Cons x xs)
  have fx: "filter (eqv x) ys = x # filter (eqv x) xs"
    using Cons.prems(3) [of x] by (simp add: eqv_refl)
  then have "x \<in> set (filter (eqv x) ys)" by simp
  then have "ys \<noteq> []" "x \<in> set ys" by auto
  then obtain y ys' where ys: "ys = y # ys'" by (cases ys) auto
  from \<open>x \<in> set ys\<close> ys Cons.prems(2) have "le y x" by auto
  have "y \<in> set (x # xs)"
  proof -
    have "y \<in> set (filter (eqv y) ys)" by (simp add: ys)
    then show ?thesis unfolding Cons.prems(3) [of y, symmetric] by (auto split: if_splits)
  qed
  with Cons.prems(1) have "le x y" by auto
  with \<open>le y x\<close> have "eqv x y" by (simp add: eqv_def)
  with fx ys have "y = x" by simp
  have "filter (eqv a) xs = filter (eqv a) ys'" for a
    using Cons.prems(3) [of a] ys \<open>y = x\<close> by (simp split: if_splits)
  with Cons.IH [of ys'] Cons.prems ys \<open>y = x\<close> show ?case by simp
qed

lemma js_sort_unique:
  "sorted_wrt le ys \<Longrightarrow> (\<And>a. filter (eqv a) ys = filter (eqv a) xs) \<Longrightarrow> ys = js_sort cmp xs"
  by (rule sorted_classes_eq) (auto simp: js_sort_sorted js_sort_stable)

lemma js_sort_first:
  "js_sort cmp xs = y # ys \<Longrightarrow> x \<in> set xs \<Longrightarrow> le y x"
proof -
  assume e: "js_sort cmp xs = y # ys" and x: "x \<in> set xs"
  from js_sort_sorted [of xs] have "\<forall>z\<in>set ys. le y z" by (simp add: e)
  moreover from x have "x \<in> set (y # ys)" by (metis e set_js_sort)
  ultimately show "le y x" by auto
qed

text \<open>The first element that passes a test is the least of those that pass it.\<close>

lemma js_sort_first_filtered:
  assumes "filter p (js_sort cmp xs) = y # ys" and "x \<in> set xs" and "p x"
  shows "le y x"
proof -
  have "sorted_wrt le (filter p (js_sort cmp xs))"
    by (rule sorted_wrt_filter [OF js_sort_sorted])
  then have "\<forall>z\<in>set ys. le y z" by (simp add: assms(1))
  moreover have "x \<in> set (filter p (js_sort cmp xs))" using assms(2,3) by simp
  then have "x \<in> set (y # ys)" by (simp only: assms(1))
  ultimately show ?thesis by auto
qed

end

section \<open>Grouping rows in a Map\<close>

text \<open>
  The loop \<open>for (row of rows) \{ key = \<dots>; current = m.get(key) ?? init(row); \<dots>; m.set(key, current') \}\<close>.
\<close>

definition group_step :: "('r \<Rightarrow> 'k) \<Rightarrow> ('r \<Rightarrow> 's) \<Rightarrow> ('s \<Rightarrow> 'r \<Rightarrow> 's) \<Rightarrow> ('k \<times> 's) list \<Rightarrow> 'r \<Rightarrow> ('k \<times> 's) list" where
  "group_step key init upd m r =
     AList.update (key r) (upd (case map_of m (key r) of None \<Rightarrow> init r | Some s \<Rightarrow> s) r) m"

definition js_group :: "('r \<Rightarrow> 'k) \<Rightarrow> ('r \<Rightarrow> 's) \<Rightarrow> ('s \<Rightarrow> 'r \<Rightarrow> 's) \<Rightarrow> 'r list \<Rightarrow> ('k \<times> 's) list" where
  "js_group key init upd rows = foldl (group_step key init upd) [] rows"

lemma js_group_Nil [simp]: "js_group key init upd [] = []"
  by (simp add: js_group_def)

lemma js_group_snoc:
  "js_group key init upd (rs @ [r]) = group_step key init upd (js_group key init upd rs) r"
  by (simp add: js_group_def)

lemma js_group_keys: "fst ` set (js_group key init upd rows) = key ` set rows"
  by (induction rows rule: rev_induct) (auto simp: js_group_snoc group_step_def AList.dom_update)

lemma js_group_distinct: "distinct (map fst (js_group key init upd rows))"
  by (induction rows rule: rev_induct) (auto simp: js_group_snoc group_step_def AList.distinct_update)

lemma js_group_lookup_iff:
  "(k, s) \<in> set (js_group key init upd rows) \<longleftrightarrow> map_of (js_group key init upd rows) k = Some s"
  by (simp add: js_group_distinct)

locale grouping =
  fixes key :: "'r \<Rightarrow> 'k"
    and init :: "'r \<Rightarrow> 's"
    and upd :: "'s \<Rightarrow> 'r \<Rightarrow> 's"
    and valid :: "'r \<Rightarrow> bool"
  assumes init_cong: "valid r \<Longrightarrow> valid r' \<Longrightarrow> key r = key r' \<Longrightarrow> init r = init r'"
begin

lemma lookup_group:
  assumes "\<forall>r\<in>set rows. valid r" and "r0 \<in> set rows" and "key r0 = k"
  shows "map_of (js_group key init upd rows) k
           = Some (foldl upd (init r0) (filter (\<lambda>r. key r = k) rows))"
  using assms
proof (induction rows arbitrary: r0 rule: rev_induct)
  case (snoc r rs)
  have v: "\<forall>r\<in>set rs. valid r" "valid r" "valid r0" using snoc.prems by auto
  show ?case
  proof (cases "\<exists>r1\<in>set rs. key r1 = k")
    case True
    then obtain r1 where r1: "r1 \<in> set rs" "key r1 = k" by blast
    from snoc.IH [OF v(1) r1] have
      "map_of (js_group key init upd rs) k = Some (foldl upd (init r1) (filter (\<lambda>r. key r = k) rs))" .
    moreover have "init r1 = init r0" using init_cong v r1 snoc.prems by metis
    ultimately show ?thesis by (auto simp: js_group_snoc group_step_def AList.update_conv')
  next
    case False
    then have "map_of (js_group key init upd rs) k = None"
      by (metis image_iff js_group_keys map_of_eq_None_iff)
    moreover have "key r = k" "init r0 = init r"
      using False snoc.prems by auto
    moreover have "filter (\<lambda>r. key r = k) rs = []" using False by (auto simp: filter_empty_conv)
    ultimately show ?thesis by (simp add: js_group_snoc group_step_def AList.update_conv')
  qed
qed simp

lemma group_entry:
  assumes "\<forall>r\<in>set rows. valid r" and "(k, s) \<in> set (js_group key init upd rows)"
  obtains r0 where "r0 \<in> set rows" "key r0 = k"
    and "s = foldl upd (init r0) (filter (\<lambda>r. key r = k) rows)"
proof -
  from assms(2) have "k \<in> key ` set rows"
    by (metis fst_conv image_eqI js_group_keys)
  then obtain r0 where r0: "r0 \<in> set rows" "key r0 = k" by blast
  with lookup_group [OF assms(1) r0] assms(2) that show thesis
    by (metis js_group_lookup_iff option.inject)
qed

end

text \<open>Grouping loses no row: summing a measure over the groups gives the measure of the rows.\<close>

lemma sum_by_key:
  fixes f :: "'r \<Rightarrow> int"
  assumes "distinct ks" and "key ` set rows \<subseteq> set ks"
  shows "(\<Sum>k\<leftarrow>ks. \<Sum>r\<leftarrow>filter (\<lambda>r. key r = k) rows. f r) = (\<Sum>r\<leftarrow>rows. f r)"
  using assms
proof (induction rows)
  case (Cons r rs)
  have "(\<Sum>k\<leftarrow>ks. if key r = k then f r else 0) = f r"
    using Cons.prems by (simp add: sum_list_distinct_conv_sum_set)
  moreover have "(\<Sum>k\<leftarrow>ks. \<Sum>x\<leftarrow>filter (\<lambda>x. key x = k) (r # rs). f x)
      = (\<Sum>k\<leftarrow>ks. (if key r = k then f r else 0) + (\<Sum>x\<leftarrow>filter (\<lambda>x. key x = k) rs. f x))"
    by (rule arg_cong [where f = sum_list]) (auto intro!: map_cong)
  ultimately show ?case using Cons by (simp add: sum_list_addf)
qed simp

section \<open>Lists\<close>

lemma foldl_add: "foldl (\<lambda>a x. a + f x) (b :: int) xs = b + (\<Sum>x\<leftarrow>xs. f x)"
  by (induction xs arbitrary: b) auto

lemma foldl_commute_map: "(\<And>s x. h (g s x) = g' (h s) x) \<Longrightarrow> h (foldl g s xs) = foldl g' (h s) xs"
  by (induction xs arbitrary: s) auto

lemma filter_hd_in: "filter p xs = y # ys \<Longrightarrow> y \<in> set xs \<and> p y"
  by (metis filter_eq_ConsD in_set_conv_decomp)

lemma sum_indicator_distinct:
  "distinct ks \<Longrightarrow> (\<Sum>x\<leftarrow>ks. if x = k then 1 else 0 :: nat) = (if k \<in> set ks then 1 else 0)"
  by (induction ks) auto

lemma sum_list_le_len_mult:
  fixes c :: int
  assumes "\<And>x. x \<in> set xs \<Longrightarrow> f x \<le> c"
  shows "(\<Sum>x\<leftarrow>xs. f x) \<le> c * int (length xs)"
  using assms by (induction xs) (fastforce simp: algebra_simps)+

lemma sum_list_ge_len_mult:
  fixes c :: int
  assumes "\<And>x. x \<in> set xs \<Longrightarrow> c \<le> f x"
  shows "c * int (length xs) \<le> (\<Sum>x\<leftarrow>xs. f x)"
  using assms by (induction xs) (fastforce simp: algebra_simps)+

end
