(* ===== verification/Js_Text.thy ===== *)
theory Js_Text
  imports Prelude "HOL-Library.Sublist" "HOL-Library.Char_ord" "HOL-Library.List_Lexorder"
begin

text \<open>
  Strings, decimal text and JSON values, as the TypeScript sources use them.

  A JavaScript string is a sequence of UTF-16 code units. The model's strings are Isabelle's
  \<open>char list\<close>, that is the strings whose code units are at most 255 (Latin-1). On these strings
  \<open>s.normalize('NFC')\<close> is the identity (every Latin-1 character is its own NFC form), so the
  definitions below leave it out; code units, code points and \<open>[...s]\<close> agree; and comparison of
  strings with \<open><\<close> is the lexicographic order of HOL-Library.List_Lexorder.
\<close>

section \<open>Characters and white space\<close>

definition code :: "char \<Rightarrow> nat" where
  "code c = of_char c"

text \<open>WhiteSpace and LineTerminator of ECMAScript, restricted to Latin-1.\<close>

definition is_ws :: "char \<Rightarrow> bool" where
  "is_ws c = (code c \<in> {9, 10, 11, 12, 13, 32, 160})"

definition trim :: "string \<Rightarrow> string" where
  "trim s = rev (dropWhile is_ws (rev (dropWhile is_ws s)))"

definition control_char :: "char \<Rightarrow> bool" where
  "control_char c = (code c \<le> 31 \<or> (127 \<le> code c \<and> code c \<le> 159))"

definition is_digit :: "char \<Rightarrow> bool" where
  "is_digit c = (48 \<le> code c \<and> code c \<le> 57)"

definition is_lower :: "char \<Rightarrow> bool" where
  "is_lower c = (97 \<le> code c \<and> code c \<le> 122)"

definition is_upper :: "char \<Rightarrow> bool" where
  "is_upper c = (65 \<le> code c \<and> code c \<le> 90)"

definition lower_ascii :: "char \<Rightarrow> char" where
  "lower_ascii c = (if is_upper c then char_of (code c + 32) else c)"

lemma trim_id: "s = [] \<or> (\<not> is_ws (hd s) \<and> \<not> is_ws (last s)) \<Longrightarrow> trim s = s"
proof -
  assume a: "s = [] \<or> (\<not> is_ws (hd s) \<and> \<not> is_ws (last s))"
  then have d: "dropWhile is_ws s = s" by (auto simp: dropWhile_eq_self_iff)
  from a have "dropWhile is_ws (rev s) = rev s" by (auto simp: dropWhile_eq_self_iff hd_rev)
  with d show ?thesis by (simp add: trim_def)
qed

lemma trim_hd_last: "trim s \<noteq> [] \<Longrightarrow> \<not> is_ws (hd (trim s)) \<and> \<not> is_ws (last (trim s))"
proof -
  assume ne: "trim s \<noteq> []"
  define u where "u = dropWhile is_ws s"
  have t: "trim s = rev (dropWhile is_ws (rev u))" by (simp add: trim_def u_def)
  from ne t have ne': "dropWhile is_ws (rev u) \<noteq> []" by auto
  have "\<not> is_ws (last (trim s))" using ne' by (simp add: t last_rev hd_dropWhile)
  moreover have "\<not> is_ws (hd (trim s))"
  proof -
    have "u \<noteq> []" using ne' by auto
    then have "\<not> is_ws (hd u)" unfolding u_def by (rule hd_dropWhile)
    moreover obtain w where "rev u = w @ dropWhile is_ws (rev u)"
      by (metis takeWhile_dropWhile_id)
    then have "u = trim s @ rev w" by (metis rev_append rev_rev_ident t)
    with ne have "hd (trim s) = hd u" by (metis hd_append2)
    ultimately show ?thesis by simp
  qed
  ultimately show ?thesis by simp
qed

lemma trim_trim [simp]: "trim (trim s) = trim s"
  using trim_id [of "trim s"] trim_hd_last [of s] by blast

lemma digit_not_ws: "is_digit c \<Longrightarrow> \<not> is_ws c"
  by (auto simp: is_digit_def is_ws_def)

section \<open>String operations\<close>

text \<open>\<open>s.split(c)\<close> for a one-character separator.\<close>

fun split_on :: "char \<Rightarrow> string \<Rightarrow> string list" where
  "split_on c [] = [[]]"
| "split_on c (x # xs) =
     (if x = c then [] # split_on c xs
      else case split_on c xs of [] \<Rightarrow> [[x]] | y # ys \<Rightarrow> (x # y) # ys)"

definition slice :: "nat \<Rightarrow> nat \<Rightarrow> string \<Rightarrow> string" where
  "slice a b s = drop a (take b s)"

definition pad_end :: "nat \<Rightarrow> char \<Rightarrow> string \<Rightarrow> string" where
  "pad_end n c s = s @ replicate (n - length s) c"

definition pad_start :: "nat \<Rightarrow> char \<Rightarrow> string \<Rightarrow> string" where
  "pad_start n c s = replicate (n - length s) c @ s"

text \<open>\<open>s.includes(p)\<close>.\<close>

fun str_includes :: "string \<Rightarrow> string \<Rightarrow> bool" where
  "str_includes p [] = (p = [])"
| "str_includes p (x # xs) = (prefix p (x # xs) \<or> str_includes p xs)"

definition str_includes_ci :: "string \<Rightarrow> string \<Rightarrow> bool" where
  "str_includes_ci p s = str_includes (map lower_ascii p) (map lower_ascii s)"

text \<open>\<open>xs.indexOf(x)\<close>; None is -1.\<close>

fun index_of :: "'a list \<Rightarrow> 'a \<Rightarrow> nat option" where
  "index_of [] x = None"
| "index_of (y # ys) x = (if y = x then Some 0 else map_option Suc (index_of ys x))"

lemma index_of_None: "index_of xs x = None \<longleftrightarrow> x \<notin> set xs"
  by (induction xs) auto

lemma index_of_Some: "index_of xs x = Some i \<Longrightarrow> i < length xs \<and> xs ! i = x"
  by (induction xs arbitrary: i) (auto split: if_splits)

lemma index_of_distinct: "distinct xs \<Longrightarrow> i < length xs \<Longrightarrow> index_of xs (xs ! i) = Some i"
proof (induction xs arbitrary: i)
  case (Cons y ys)
  then show ?case by (cases i) auto
qed simp

lemma split_on_ne [simp]: "split_on c s \<noteq> []"
  by (cases s) (auto split: list.splits)

lemma split_on_no_sep: "c \<notin> set s \<Longrightarrow> split_on c s = [s]"
  by (induction s) auto

lemma split_on_append: "c \<notin> set s \<Longrightarrow> split_on c (s @ c # t) = s # split_on c t"
  by (induction s) auto

section \<open>Decimal text\<close>

definition digit_char :: "nat \<Rightarrow> char" where
  "digit_char d = char_of (48 + d)"

definition digit_val :: "char \<Rightarrow> nat" where
  "digit_val c = code c - 48"

fun show_nat :: "nat \<Rightarrow> string" where
  "show_nat n = (if n < 10 then [digit_char n] else show_nat (n div 10) @ [digit_char (n mod 10)])"

declare show_nat.simps [simp del]

definition show_int :: "int \<Rightarrow> string" where
  "show_int i = (if i < 0 then CHR ''-'' # show_nat (nat (- i)) else show_nat (nat i))"

definition dec_val :: "string \<Rightarrow> nat" where
  "dec_val s = foldl (\<lambda>a c. 10 * a + digit_val c) 0 s"

lemma code_digit_char: "d < 10 \<Longrightarrow> code (digit_char d) = 48 + d"
  by (simp add: code_def digit_char_def of_char_of)

lemma digit_char_val [simp]: "d < 10 \<Longrightarrow> digit_val (digit_char d) = d"
  by (simp add: digit_val_def code_digit_char)

lemma digit_char_digit [simp]: "d < 10 \<Longrightarrow> is_digit (digit_char d)"
  by (simp add: is_digit_def code_digit_char)

lemma digit_val_lt: "is_digit c \<Longrightarrow> digit_val c < 10"
  by (simp add: is_digit_def digit_val_def) linarith

lemma digit_val_char [simp]: "is_digit c \<Longrightarrow> digit_char (digit_val c) = c"
  by (simp add: is_digit_def digit_val_def digit_char_def code_def char_of_char)

lemma digit_val_zero: "is_digit c \<Longrightarrow> digit_val c = 0 \<Longrightarrow> c = CHR ''0''"
proof -
  assume "is_digit c" and "digit_val c = 0"
  then have "c = digit_char 0" by (metis digit_val_char)
  also have "\<dots> = CHR ''0''" by code_simp
  finally show ?thesis .
qed

lemma dec_val_snoc [simp]: "dec_val (s @ [c]) = 10 * dec_val s + digit_val c"
  by (simp add: dec_val_def)

lemma dec_val_Nil [simp]: "dec_val [] = 0"
  by (simp add: dec_val_def)

lemma show_nat_digits: "\<forall>c\<in>set (show_nat n). is_digit c"
  by (induction n rule: show_nat.induct) (subst show_nat.simps, auto)

lemma show_nat_ne [simp]: "show_nat n \<noteq> []"
  by (subst show_nat.simps) auto

lemma dec_val_show_nat [simp]: "dec_val (show_nat n) = n"
proof (induction n rule: show_nat.induct)
  case (1 n)
  show ?case
  proof (cases "n < 10")
    case True
    then show ?thesis by (subst show_nat.simps) (simp add: dec_val_def)
  next
    case False
    with 1 show ?thesis by (subst show_nat.simps) simp
  qed
qed

lemma show_nat_hd: "0 < n \<Longrightarrow> hd (show_nat n) \<noteq> CHR ''0''"
proof (induction n rule: show_nat.induct)
  case (1 n)
  show ?case
  proof (cases "n < 10")
    case True
    have "digit_char n \<noteq> CHR ''0''"
    proof
      assume "digit_char n = CHR ''0''"
      with True have "n = digit_val (CHR ''0'')" by (metis digit_char_val)
      with 1 show False by (simp add: digit_val_def code_def)
    qed
    with True show ?thesis by (subst show_nat.simps) simp
  next
    case False
    with 1 show ?thesis by (subst show_nat.simps) simp
  qed
qed

text \<open>
  A digit string without a leading zero is the text of its value: decimal text is canonical.
\<close>

definition canonical_dec :: "string \<Rightarrow> bool" where
  "canonical_dec s = (s \<noteq> [] \<and> (\<forall>c\<in>set s. is_digit c) \<and> (hd s = CHR ''0'' \<longrightarrow> s = ''0''))"

lemma canonical_show_nat: "canonical_dec (show_nat n)"
proof (cases "n = 0")
  case True
  then show ?thesis
    by (subst show_nat.simps) (simp add: canonical_dec_def is_digit_def digit_char_def code_def)
next
  case False
  then show ?thesis using show_nat_hd [of n] show_nat_digits [of n] by (simp add: canonical_dec_def)
qed

lemma dec_val_pos: "s \<noteq> [] \<Longrightarrow> \<forall>c\<in>set s. is_digit c \<Longrightarrow> hd s \<noteq> CHR ''0'' \<Longrightarrow> 0 < dec_val s"
proof (induction s rule: rev_induct)
  case (snoc c s)
  show ?case
  proof (cases "s = []")
    case True
    with snoc.prems have "digit_val c \<noteq> 0" by (auto dest: digit_val_zero)
    with True show ?thesis by (simp add: dec_val_def)
  next
    case False
    with snoc have "0 < dec_val s" by simp
    then show ?thesis by simp
  qed
qed simp

lemma show_nat_dec_val: "canonical_dec s \<Longrightarrow> show_nat (dec_val s) = s"
proof (induction s rule: rev_induct)
  case (snoc c s)
  have c: "is_digit c" using snoc.prems by (simp add: canonical_dec_def)
  show ?case
  proof (cases "s = []")
    case True
    then show ?thesis using c digit_val_lt [OF c]
      by (subst show_nat.simps) (simp add: dec_val_def)
  next
    case False
    from snoc.prems False have hd0: "hd s \<noteq> CHR ''0''"
      by (cases s) (auto simp: canonical_dec_def)
    with snoc.prems False have s: "canonical_dec s" by (auto simp: canonical_dec_def)
    have "0 < dec_val s" using s hd0 by (auto simp: canonical_dec_def intro: dec_val_pos)
    then have "\<not> 10 * dec_val s + digit_val c < 10" by simp
    moreover have "(10 * dec_val s + digit_val c) div 10 = dec_val s"
      and "(10 * dec_val s + digit_val c) mod 10 = digit_val c"
      using digit_val_lt [OF c] by simp_all
    ultimately show ?thesis
      using snoc.IH [OF s] c by (subst show_nat.simps) simp
  qed
qed (simp add: canonical_dec_def)

lemma canonical_inj: "canonical_dec s \<Longrightarrow> canonical_dec t \<Longrightarrow> dec_val s = dec_val t \<Longrightarrow> s = t"
  by (metis show_nat_dec_val)

lemma show_int_nat: "0 \<le> i \<Longrightarrow> show_int i = show_nat (nat i)"
  by (simp add: show_int_def)

lemma show_int_inj: "show_int i = show_int j \<longleftrightarrow> i = j"
proof
  assume e: "show_int i = show_int j"
  have "CHR ''-'' # x \<noteq> show_nat n" for x n
  proof
    assume "CHR ''-'' # x = show_nat n"
    then have "is_digit (CHR ''-'')" by (metis list.set_intros(1) show_nat_digits)
    then show False by (simp add: is_digit_def code_def)
  qed
  note m = this this [symmetric]
  from e m have "(i < 0) = (j < 0)" unfolding show_int_def by (auto split: if_splits)
  moreover from e calculation have "nat \<bar>i\<bar> = nat \<bar>j\<bar>"
    unfolding show_int_def by (metis abs_of_neg abs_of_nonneg dec_val_show_nat list.inject not_le)
  ultimately show "i = j" by linarith
qed simp

lemma dec_val_bound: "\<forall>c\<in>set s. is_digit c \<Longrightarrow> dec_val s < 10 ^ length s"
proof (induction s rule: rev_induct)
  case (snoc c s)
  then have "dec_val s < 10 ^ length s" "digit_val c < 10" by (auto intro: digit_val_lt)
  then have "10 * dec_val s + digit_val c < 10 * (dec_val s + 1)" by simp
  also have "\<dots> \<le> 10 * 10 ^ length s" using \<open>dec_val s < 10 ^ length s\<close> by simp
  finally show ?case by simp
qed simp

lemma dec_val_zeros [simp]: "dec_val (replicate n (CHR ''0'') @ s) = dec_val s"
  by (induction n) (simp_all add: dec_val_def digit_val_def code_def)

lemma show_nat_length: "0 < n \<Longrightarrow> 10 ^ (length (show_nat n) - 1) \<le> n"
proof (induction n rule: show_nat.induct)
  case (1 n)
  show ?case
  proof (cases "n < 10")
    case True
    with 1 show ?thesis by (subst show_nat.simps) simp
  next
    case False
    then have "0 < n div 10" by auto
    with 1 False have "10 ^ (length (show_nat (n div 10)) - 1) \<le> n div 10" by simp
    then have "10 * 10 ^ (length (show_nat (n div 10)) - 1) \<le> n" by linarith
    moreover have "0 < length (show_nat (n div 10))" by simp
    ultimately have "10 ^ length (show_nat (n div 10)) \<le> n"
      by (metis Suc_diff_1 power_Suc)
    with False show ?thesis by (subst show_nat.simps) simp
  qed
qed

lemma show_nat_short: "n < 10 ^ Suc k \<Longrightarrow> length (show_nat n) \<le> Suc k"
proof (cases "n = 0")
  case True
  then show ?thesis by (subst show_nat.simps) simp
next
  case False
  assume n: "n < 10 ^ Suc k"
  from False show_nat_length [of n] n have "(10::nat) ^ (length (show_nat n) - 1) < 10 ^ Suc k" by linarith
  then have "length (show_nat n) - 1 < Suc k" by (rule power_less_imp_less_exp [rotated]) simp
  then show ?thesis by linarith
qed

lemma zero_digit [simp]: "is_digit (CHR ''0'')"
  by (simp add: is_digit_def code_def)

lemma pad_digits: "\<forall>c\<in>set (pad_start n (CHR ''0'') (show_nat m)). is_digit c"
  using show_nat_digits by (auto simp: pad_start_def)

section \<open>BigInt\<close>

text \<open>
  \<open>BigInt(s)\<close> of a string (StringToBigInt of ECMA-262): white space is trimmed, the empty text
  is 0, decimal digits may have a sign, the prefixes 0x, 0o and 0b give the other radices; any
  other text throws a SyntaxError (None). BigInts are unbounded: \<open>int\<close>.
\<close>

definition hex_val :: "char \<Rightarrow> nat option" where
  "hex_val c = (if is_digit c then Some (digit_val c)
     else if 97 \<le> code c \<and> code c \<le> 102 then Some (code c - 87)
     else if 65 \<le> code c \<and> code c \<le> 70 then Some (code c - 55) else None)"

fun radix_val :: "nat \<Rightarrow> nat \<Rightarrow> string \<Rightarrow> nat option" where
  "radix_val b a [] = Some a"
| "radix_val b a (c # cs) =
     (case hex_val c of None \<Rightarrow> None | Some d \<Rightarrow> if d < b then radix_val b (b * a + d) cs else None)"

definition dec_digits :: "string \<Rightarrow> int option" where
  "dec_digits s = (if s \<noteq> [] \<and> (\<forall>c\<in>set s. is_digit c) then Some (int (dec_val s)) else None)"

definition radix_prefix :: "string \<Rightarrow> nat option" where
  "radix_prefix p =
     (if p = ''0x'' \<or> p = ''0X'' then Some 16
      else if p = ''0o'' \<or> p = ''0O'' then Some 8
      else if p = ''0b'' \<or> p = ''0B'' then Some 2 else None)"

definition bigint_of :: "string \<Rightarrow> int option" where
  "bigint_of s =
     (let t = trim s in
      if t = [] then Some 0
      else if hd t = CHR ''-'' then map_option uminus (dec_digits (tl t))
      else if hd t = CHR ''+'' then dec_digits (tl t)
      else case radix_prefix (take 2 t) of
          Some b \<Rightarrow> if drop 2 t = [] then None else map_option int (radix_val b 0 (drop 2 t))
        | None \<Rightarrow> dec_digits t)"

text \<open>The value of a text known to be a BigInt literal; 0 stands for the SyntaxError.\<close>

definition bigint :: "string \<Rightarrow> int" where
  "bigint s = (case bigint_of s of None \<Rightarrow> 0 | Some i \<Rightarrow> i)"

lemma radix_prefix_nondigit: "radix_prefix p \<noteq> None \<Longrightarrow> \<exists>c\<in>set p. \<not> is_digit c"
  by (auto simp: radix_prefix_def is_digit_def code_def split: if_splits)

lemma digits_bigint_of:
  assumes "s \<noteq> []" and d: "\<forall>c\<in>set s. is_digit c"
  shows "bigint_of s = Some (int (dec_val s))"
proof -
  have t: "trim s = s" using assms by (intro trim_id) (auto simp: digit_not_ws)
  have h: "is_digit (hd s)" using assms by simp
  then have "hd s \<noteq> CHR ''-''" "hd s \<noteq> CHR ''+''" by (auto simp: is_digit_def code_def)
  moreover have "radix_prefix (take 2 s) = None"
  proof -
    have "\<forall>c\<in>set (take 2 s). is_digit c" using d by (meson in_set_takeD)
    then show ?thesis using radix_prefix_nondigit [of "take 2 s"] by blast
  qed
  ultimately show ?thesis using assms t by (simp add: bigint_of_def Let_def dec_digits_def)
qed

lemma bigint_of_show_nat [simp]: "bigint_of (show_nat n) = Some (int n)"
  using digits_bigint_of [of "show_nat n"] show_nat_digits by simp

lemma bigint_of_show_int [simp]: "bigint_of (show_int i) = Some i"
proof (cases "i < 0")
  case True
  let ?s = "CHR ''-'' # show_nat (nat (- i))"
  have l: "is_digit (last (show_nat (nat (- i))))" using show_nat_digits by (meson last_in_set show_nat_ne)
  have "\<not> is_ws (CHR ''-'')" by (simp add: is_ws_def code_def)
  with digit_not_ws [OF l] have "trim ?s = ?s" by (intro trim_id) simp
  then show ?thesis using True show_nat_digits
    by (simp add: show_int_def bigint_of_def Let_def dec_digits_def)
next
  case False
  then show ?thesis by (simp add: show_int_def)
qed

lemma bigint_show_int [simp]: "bigint (show_int i) = i"
  by (simp add: bigint_def)

lemma show_int_zero [simp]: "show_int 0 = ''0''"
  by code_simp

lemma bigint_zero [simp]: "bigint ''0'' = 0"
  using bigint_show_int [of 0] by simp

text \<open>BigInt division truncates towards zero (a zero divisor throws: callers check it).\<close>

definition tdiv :: "int \<Rightarrow> int \<Rightarrow> int" where
  "tdiv a b = sgn a * sgn b * (\<bar>a\<bar> div \<bar>b\<bar>)"

definition trem :: "int \<Rightarrow> int \<Rightarrow> int" where
  "trem a b = a - b * tdiv a b"

lemma tdiv_nonneg: "0 \<le> a \<Longrightarrow> 0 < b \<Longrightarrow> tdiv a b = a div b"
  by (cases "a = 0") (simp_all add: tdiv_def)

lemma trem_nonneg: "0 \<le> a \<Longrightarrow> 0 < b \<Longrightarrow> trem a b = a mod b"
  by (simp add: trem_def tdiv_nonneg minus_mult_div_eq_mod)

section \<open>JSON values\<close>

text \<open>
  The values the sources call \<open>unknown\<close>. \<open>JInt\<close> is a number whose value is an integer
  (\<open>Number.isInteger\<close>), \<open>JFloat\<close> any other number, by its text. \<open>JObj\<close> lists the own enumerable
  properties in enumeration order.
\<close>

datatype json =
    JUndefined
  | JNull
  | JBool bool
  | JInt int
  | JFloat string
  | JStr string
  | JArr "json list"
  | JObj "(string \<times> json) list"

definition json_prop :: "(string \<times> json) list \<Rightarrow> string \<Rightarrow> json" where
  "json_prop kvs k = (case map_of kvs k of None \<Rightarrow> JUndefined | Some v \<Rightarrow> v)"

definition object_keys :: "(string \<times> json) list \<Rightarrow> string list" where
  "object_keys kvs = map fst kvs"

definition string_value :: "json \<Rightarrow> string option" where
  "string_value j = (case j of JStr s \<Rightarrow> Some s | _ \<Rightarrow> None)"

definition is_string :: "json \<Rightarrow> bool" where
  "is_string j = (case j of JStr _ \<Rightarrow> True | _ \<Rightarrow> False)"

text \<open>\<open>JSON.stringify\<close>: the text of a value (an undefined array element is null, an undefined
  property is left out).\<close>

definition hex_digit :: "nat \<Rightarrow> char" where
  "hex_digit d = (if d < 10 then char_of (48 + d) else char_of (87 + d))"

definition json_escape :: "char \<Rightarrow> string" where
  "json_escape c =
     (if c = CHR 0x22 \<or> c = CHR 0x5C then [CHR 0x5C, c]
      else if code c = 8 then [CHR 0x5C, CHR ''b'']
      else if code c = 9 then [CHR 0x5C, CHR ''t'']
      else if code c = 10 then [CHR 0x5C, CHR ''n'']
      else if code c = 12 then [CHR 0x5C, CHR ''f'']
      else if code c = 13 then [CHR 0x5C, CHR ''r'']
      else if code c < 32 then [CHR 0x5C] @ ''u00'' @ [hex_digit (code c div 16), hex_digit (code c mod 16)]
      else [c])"

definition json_string :: "string \<Rightarrow> string" where
  "json_string s = [CHR 0x22] @ concat (map json_escape s) @ [CHR 0x22]"

fun comma_join :: "string list \<Rightarrow> string" where
  "comma_join [] = []"
| "comma_join [s] = s"
| "comma_join (s # t # ts) = s @ '','' @ comma_join (t # ts)"

fun stringify :: "json \<Rightarrow> string" where
  "stringify JUndefined = ''null''"
| "stringify JNull = ''null''"
| "stringify (JBool b) = (if b then ''true'' else ''false'')"
| "stringify (JInt i) = show_int i"
| "stringify (JFloat s) = s"
| "stringify (JStr s) = json_string s"
| "stringify (JArr js) = ''['' @ comma_join (map stringify js) @ '']''"
| "stringify (JObj kvs) =
     ''{'' @ comma_join (map (\<lambda>(k, v). json_string k @ '':'' @ stringify v)
       (filter (\<lambda>(k, v). v \<noteq> JUndefined) kvs)) @ ''}''"

end
