(* ===== verification/Csv.thy ===== *)
theory Csv
  imports Js_Text
begin

text \<open>
  core/imports/csv.ts: the CSV reader of the import parsers. The loop over \<open>index\<close> is
  \<open>csv_scan\<close>, over the text that is left, with the loop's variables (\<open>quoted\<close>, \<open>cell\<close>, \<open>row\<close>,
  \<open>rows\<close>) as arguments. The lemmas show that every table can be written so that the reader
  returns it, and what the reader ignores.
\<close>

fun csv_scan :: "bool \<Rightarrow> string \<Rightarrow> string list \<Rightarrow> string list list \<Rightarrow> string
    \<Rightarrow> string \<times> string list \<times> string list list" where
  "csv_scan quoted cell row rows [] = (cell, row, rows)"
| "csv_scan True cell row rows (c # cs) =
     (if c = CHR 0x22 \<and> take 1 cs = [CHR 0x22] then csv_scan True (cell @ [CHR 0x22]) row rows (tl cs)
      else if c = CHR 0x22 then csv_scan False cell row rows cs
      else csv_scan True (cell @ [c]) row rows cs)"
| "csv_scan False cell row rows (c # cs) =
     (if c = CHR 0x22 then csv_scan True cell row rows cs
      else if c = CHR '','' then csv_scan False [] (row @ [cell]) rows cs
      else if c = CHR 0x0A then csv_scan False [] [] (rows @ [row @ [cell]]) cs
      else if c \<noteq> CHR 0x0D then csv_scan False (cell @ [c]) row rows cs
      else csv_scan False cell row rows cs)"

definition nonblank :: "string list \<Rightarrow> bool" where
  "nonblank record = (\<exists>v\<in>set record. trim v \<noteq> [])"

definition parseCsv :: "string \<Rightarrow> string list list" where
  "parseCsv text =
     (let (cell, row, rows) = csv_scan False [] [] [] text;
          rows' = (if cell \<noteq> [] \<or> row \<noteq> [] then rows @ [row @ [cell]] else rows)
      in filter nonblank rows')"

section \<open>Writing a table\<close>

definition quote_cell :: "string \<Rightarrow> string" where
  "quote_cell cell = [CHR 0x22] @ concat (map (\<lambda>c. if c = CHR 0x22 then [c, c] else [c]) cell) @ [CHR 0x22]"

fun write_row :: "string list \<Rightarrow> string" where
  "write_row [] = []"
| "write_row [cell] = quote_cell cell @ [CHR 0x0A]"
| "write_row (cell # d # ds) = quote_cell cell @ [CHR '',''] @ write_row (d # ds)"

definition write_csv :: "string list list \<Rightarrow> string" where
  "write_csv rows = concat (map write_row rows)"

lemma scan_quoted:
  "take 1 rest \<noteq> [CHR 0x22] \<Longrightarrow>
   csv_scan True acc row rows (concat (map (\<lambda>c. if c = CHR 0x22 then [c, c] else [c]) cell) @ CHR 0x22 # rest)
     = csv_scan False (acc @ cell) row rows rest"
  by (induction cell arbitrary: acc) auto

lemma scan_cell:
  "take 1 rest \<noteq> [CHR 0x22] \<Longrightarrow>
   csv_scan False [] row rows (quote_cell cell @ rest) = csv_scan False cell row rows rest"
  using scan_quoted [of rest "[]" row rows cell] by (simp add: quote_cell_def)

lemma scan_row:
  "r \<noteq> [] \<Longrightarrow>
   csv_scan False [] row rows (write_row r @ rest) = csv_scan False [] [] (rows @ [row @ r]) rest"
  by (induction r arbitrary: row rule: write_row.induct) (auto simp: scan_cell)

lemma scan_rows:
  "\<forall>r\<in>set rs. r \<noteq> [] \<Longrightarrow> csv_scan False [] [] rows (write_csv rs) = ([], [], rows @ rs)"
  by (induction rs arbitrary: rows) (auto simp: write_csv_def scan_row)

lemma parse_written: "\<forall>r\<in>set rows. r \<noteq> [] \<Longrightarrow> parseCsv (write_csv rows) = filter nonblank rows"
  by (simp add: parseCsv_def scan_rows)

text \<open>
  C21: The CSV reader inverts quoting. Write any table of non-empty rows with every cell quoted
  (double quotes doubled), cells separated by commas, rows ended by a newline: the reader returns
  exactly the rows that hold a cell which is not blank, in order, whatever commas, quotes, carriage
  returns or newlines the cells contain.
\<close>

theorem parseCsv_write_csv:
  assumes "\<forall>r\<in>set rows. r \<noteq> []"
  shows "parseCsv (write_csv rows) = filter nonblank rows"
  using assms by (rule parse_written)

theorem parseCsv_write_csv_witness:
  "parseCsv (write_csv [[''a,b'', [CHR 0x22, CHR 0x0A]], ['' '']]) = [[''a,b'', [CHR 0x22, CHR 0x0A]]]"
proof -
  have "nonblank [''a,b'', [CHR 0x22, CHR 0x0A]]" and "\<not> nonblank ['' '']"
    by code_simp+
  then show ?thesis
    using parseCsv_write_csv [of "[[''a,b'', [CHR 0x22, CHR 0x0A]], ['' '']]"] by simp
qed

lemma scan_no_cr:
  "CHR 0x22 \<notin> set t \<Longrightarrow>
   csv_scan False cell row rows (filter (\<lambda>c. c \<noteq> CHR 0x0D) t) = csv_scan False cell row rows t"
  by (induction t arbitrary: cell row rows) auto

text \<open>
  Line ends. In text without quotes a carriage return never matters, so a file with CRLF line
  ends reads as the same file with LF line ends; and every record the reader returns holds a cell
  that is not blank.
\<close>

lemma parseCsv_line_ends:
  "(CHR 0x22 \<notin> set t \<longrightarrow> parseCsv (filter (\<lambda>c. c \<noteq> CHR 0x0D) t) = parseCsv t)
   \<and> (\<forall>r\<in>set (parseCsv t). nonblank r \<and> r \<noteq> [])"
  by (auto simp: parseCsv_def scan_no_cr nonblank_def Let_def split: prod.splits if_splits)

lemma parseCsv_line_ends_witness:
  "parseCsv (''a,b'' @ [CHR 0x0A] @ ''c'') = parseCsv (''a,b'' @ [CHR 0x0D, CHR 0x0A] @ ''c'')
   \<and> nonblank [''a'', ''b'']"
proof -
  let ?t = "''a,b'' @ [CHR 0x0D, CHR 0x0A] @ ''c''"
  have "parseCsv ?t = [[''a'', ''b''], [''c'']]" by code_simp
  then show ?thesis using parseCsv_line_ends [of ?t] by simp
qed

end
