(* ===== verification/Js_Dates.thy ===== *)
theory Js_Dates
  imports Js_Text
begin

text \<open>
  Dates: a time value is a number of milliseconds since 1970-01-01T00:00:00Z, an \<open>int\<close>. The
  calendar is the proleptic Gregorian one of ECMA-262. \<open>Date.parse\<close> itself is a parameter of the
  definitions that call it (a function \<open>string \<Rightarrow> int option\<close>, None for NaN): outside the ISO
  format its result is implementation defined, and for a date-time without offset it depends on
  the time zone of the process.
\<close>

definition ms_per_day :: int where
  "ms_per_day = 86400000"

text \<open>Year, month and day of a day number; March-based years of 400-year eras.\<close>

definition civil_from_days :: "int \<Rightarrow> int \<times> int \<times> int" where
  "civil_from_days z =
     (let z' = z + 719468;
          era = z' div 146097;
          doe = z' mod 146097;
          yoe = (doe - doe div 1460 + doe div 36524 - doe div 146096) div 365;
          doy = doe - (365 * yoe + yoe div 4 - yoe div 100);
          mp = (5 * doy + 2) div 153;
          d = doy - (153 * mp + 2) div 5 + 1;
          m = (if mp < 10 then mp + 3 else mp - 9)
      in (yoe + era * 400 + (if m \<le> 2 then 1 else 0), m, d))"

text \<open>The day number of the first day of a month (month 1 to 12).\<close>

definition days_from_civil :: "int \<Rightarrow> int \<Rightarrow> int \<Rightarrow> int" where
  "days_from_civil y m d =
     (let y' = (if m \<le> 2 then y - 1 else y);
          era = y' div 400;
          yoe = y' mod 400;
          doy = (153 * (if m > 2 then m - 3 else m + 9) + 2) div 5 + d - 1;
          doe = yoe * 365 + yoe div 4 - yoe div 100 + doy
      in era * 146097 + doe - 719468)"

definition pad_int :: "nat \<Rightarrow> int \<Rightarrow> string" where
  "pad_int n i = pad_start n (CHR ''0'') (show_int i)"

definition year_text :: "int \<Rightarrow> string" where
  "year_text y =
     (if 0 \<le> y \<and> y \<le> 9999 then pad_int 4 y
      else if y < 0 then CHR ''-'' # pad_int 6 (- y) else CHR ''+'' # pad_int 6 y)"

text \<open>\<open>Date.prototype.toISOString\<close>.\<close>

definition iso_string :: "int \<Rightarrow> string" where
  "iso_string t =
     (let days = t div ms_per_day; ms = t mod ms_per_day; (y, m, d) = civil_from_days days
      in year_text y @ ''-'' @ pad_int 2 m @ ''-'' @ pad_int 2 d @ ''T''
         @ pad_int 2 (ms div 3600000) @ '':'' @ pad_int 2 (ms div 60000 mod 60) @ '':''
         @ pad_int 2 (ms div 1000 mod 60) @ ''.'' @ pad_int 3 (ms mod 1000) @ ''Z'')"

lemma iso_string_example: "iso_string 1782777600123 = ''2026-06-30T00:00:00.123Z''"
  by code_simp

lemma iso_string_ne [simp]: "iso_string t \<noteq> []"
  by (simp add: iso_string_def Let_def split: prod.splits)

text \<open>\<open>Date.parse(a) <= Date.parse(b)\<close>: false when one of them is NaN.\<close>

definition date_le :: "(string \<Rightarrow> int option) \<Rightarrow> string \<Rightarrow> string \<Rightarrow> bool" where
  "date_le date_parse a b =
     (case (date_parse a, date_parse b) of (Some x, Some y) \<Rightarrow> x \<le> y | _ \<Rightarrow> False)"

section \<open>The first of a month\<close>

text \<open>\<open>civil_from_days\<close> inverts \<open>days_from_civil\<close> on the first day of a month.\<close>

definition month_start :: "int \<Rightarrow> int" where
  "month_start m = (153 * (if m > 2 then m - 3 else m + 9) + 2) div 5"

lemma month_cases:
  fixes m :: int
  assumes "1 \<le> m" "m \<le> 12"
  shows "m = 1 \<or> m = 2 \<or> m = 3 \<or> m = 4 \<or> m = 5 \<or> m = 6 \<or> m = 7 \<or> m = 8 \<or> m = 9 \<or> m = 10 \<or> m = 11 \<or> m = 12"
  using assms by arith

lemma month_start_bounds:
  assumes "1 \<le> m" "m \<le> 12"
  shows "0 \<le> month_start m \<and> month_start m \<le> 337"
  using month_cases [OF assms] by (elim disjE) (simp_all add: month_start_def)

lemma month_of_start:
  assumes "1 \<le> m" "m \<le> 12"
  defines "mp \<equiv> (5 * month_start m + 2) div 153"
  shows "(if mp < 10 then mp + 3 else mp - 9) = m" and "month_start m - (153 * mp + 2) div 5 = 0"
  using month_cases [OF assms(1,2)] unfolding mp_def by (elim disjE; simp add: month_start_def)+

text \<open>Year of era and day of year, back from the day of era.\<close>

lemma year_of_era:
  fixes y d :: int
  assumes y: "0 \<le> y" "y < 400" and d: "0 \<le> d" "d \<le> 337"
  defines "doe \<equiv> y * 365 + y div 4 - y div 100 + d"
  shows "0 \<le> doe" and "doe < 146097"
    and "(doe - doe div 1460 + doe div 36524 - doe div 146096) div 365 = y"
proof -
  define q r c b where "q = y div 4" and "r = y mod 4" and "c = y div 100" and "b = y mod 100"
  have yq: "y = 4 * q + r" "0 \<le> r" "r \<le> 3" and yc: "y = 100 * c + b" "0 \<le> b" "b \<le> 99"
    unfolding q_def r_def c_def b_def by presburger+
  have c: "0 \<le> c" "c \<le> 3" and q: "25 * c \<le> q" "q \<le> 25 * c + 24" using yq yc y by linarith+
  have doe: "doe = y * 365 + q - c + d" by (simp add: doe_def q_def c_def)
  show d0: "0 \<le> doe" and d1: "doe < 146097" using doe y d q c by linarith+
  have "doe div 146096 = 0" using doe yq yc q c d y by (intro div_pos_pos_trivial) linarith+
  moreover have "doe div 36524 = c"
    by (rule int_div_pos_eq [where r = "365 * b + (q - 25 * c) + d"]) (use doe yc q d in linarith)+
  moreover have "doe div 1460 = q + (365 * r + q - c + d) div 1460"
  proof -
    have "doe = (365 * r + q - c + d) + q * 1460" using doe yq(1) by linarith
    then show ?thesis by simp
  qed
  moreover have "(365 * r + q - c + d) div 1460 = (if 365 * r + q - c + d < 1460 then 0 else 1)"
  proof (cases "365 * r + q - c + d < 1460")
    case True
    then show ?thesis using yq q c d by (simp add: div_pos_pos_trivial)
  next
    case False
    then have "(365 * r + q - c + d) div 1460 = 1"
      by (intro int_div_pos_eq [where r = "365 * r + q - c + d - 1460"]) (use yq q c d in linarith)+
    with False show ?thesis by simp
  qed
  ultimately have e: "doe - doe div 1460 + doe div 36524 - doe div 146096
      = 365 * y + (d - (if 365 * r + q - c + d < 1460 then 0 else 1))" using doe by linarith
  show "(doe - doe div 1460 + doe div 36524 - doe div 146096) div 365 = y"
    unfolding e using yq q c d by (intro int_div_pos_eq [where r = "d - (if 365 * r + q - c + d < 1460 then 0 else 1)"]) (auto split: if_splits)
qed

lemma civil_of_month_start:
  assumes "1 \<le> m" "m \<le> 12"
  shows "civil_from_days (days_from_civil y m 1) = (y, m, 1)"
proof -
  define y' yoe d where "y' = (if m \<le> 2 then y - 1 else y)" and "yoe = y' mod 400" and "d = month_start m"
  define doe where "doe = yoe * 365 + yoe div 4 - yoe div 100 + d"
  have yoe: "0 \<le> yoe" "yoe < 400" by (simp_all add: yoe_def)
  have d: "0 \<le> d" "d \<le> 337" using month_start_bounds [OF assms] by (simp_all add: d_def)
  note e = year_of_era [OF yoe d, folded doe_def]
  have z: "days_from_civil y m 1 + 719468 = y' div 400 * 146097 + doe"
    by (simp add: days_from_civil_def Let_def y'_def [symmetric] yoe_def doe_def d_def month_start_def)
  have q: "(y' div 400 * 146097 + doe) div 146097 = y' div 400" "(y' div 400 * 146097 + doe) mod 146097 = doe"
    using e(1,2) by simp_all
  have doy: "doe - (365 * yoe + yoe div 4 - yoe div 100) = d" by (simp add: doe_def)
  have yy: "yoe + y' div 400 * 400 = y'" by (simp add: yoe_def)
  have mm: "(if (5 * d + 2) div 153 < 10 then (5 * d + 2) div 153 + 3 else (5 * d + 2) div 153 - 9) = m"
    and dd: "d - (153 * ((5 * d + 2) div 153) + 2) div 5 = 0"
    using month_of_start [OF assms] unfolding d_def by blast+
  show ?thesis
    unfolding civil_from_days_def Let_def z q e(3) doy mm dd yy by (simp add: y'_def)
qed

text \<open>The month a time value falls in, as the first seven characters of its ISO text.\<close>

definition month_label :: "int \<Rightarrow> string" where
  "month_label k = pad_int 4 (k div 12) @ ''-'' @ pad_int 2 (k mod 12 + 1)"

lemma pad_int_length: "0 \<le> i \<Longrightarrow> i < 10 ^ n \<Longrightarrow> 0 < n \<Longrightarrow> length (pad_int n i) = n"
proof -
  assume "0 \<le> i" "i < 10 ^ n" "0 < n"
  then obtain k where n: "n = Suc k" by (cases n) auto
  have "nat i < 10 ^ Suc k" using \<open>i < 10 ^ n\<close> \<open>0 \<le> i\<close> n by (simp add: nat_less_iff)
  then have "length (show_nat (nat i)) \<le> Suc k" by (rule show_nat_short)
  then show ?thesis using \<open>0 \<le> i\<close> n by (simp add: pad_int_def pad_start_def show_int_nat)
qed

lemma iso_month_label:
  assumes "0 \<le> y" "y \<le> 9999" "1 \<le> m" "m \<le> 12"
  shows "slice 0 7 (iso_string (days_from_civil y m 1 * ms_per_day)) = month_label (12 * y + (m - 1))"
proof -
  have t: "days_from_civil y m 1 * ms_per_day div ms_per_day = days_from_civil y m 1"
    by (simp add: ms_per_day_def)
  have l: "length (pad_int 4 y) = 4" "length (pad_int 2 m) = 2"
    using assms pad_int_length [of y 4] pad_int_length [of m 2] by simp_all
  have k: "(12 * y + (m - 1)) div 12 = y" "(12 * y + (m - 1)) mod 12 = m - 1"
    using assms(3,4) by simp_all
  show ?thesis
    using assms l unfolding iso_string_def Let_def t civil_of_month_start [OF assms(3,4)] month_label_def k
    by (simp add: year_text_def slice_def)
qed

end
