(* ===== verification/Domain.thy ===== *)
theory Domain
  imports Js_Text
begin

text \<open>
  The enumerations that several components share: cloud providers and commitment instruments,
  with their texts and the pairs the code allows (the CHECK constraint
  \<open>optimizer_runs_provider_instrument_check\<close> of migration 0018 and the optimizer's
  \<open>requireInstrument\<close> calls).
\<close>

section \<open>Providers\<close>

datatype provider = Aws | Azure | Gcp

definition provider_text :: "provider \<Rightarrow> string" where
  "provider_text p = (case p of Aws \<Rightarrow> ''aws'' | Azure \<Rightarrow> ''azure'' | Gcp \<Rightarrow> ''gcp'')"

definition provider_of :: "string \<Rightarrow> provider option" where
  "provider_of s = (if s = ''aws'' then Some Aws else if s = ''azure'' then Some Azure
     else if s = ''gcp'' then Some Gcp else None)"

lemma provider_of_text [simp]: "provider_of (provider_text p) = Some p"
  by (cases p) (simp_all add: provider_of_def provider_text_def)

lemma provider_of_Some: "provider_of s = Some p \<longleftrightarrow> s = provider_text p"
  by (cases p) (auto simp: provider_of_def provider_text_def)

lemma provider_text_inj: "provider_text p = provider_text q \<longleftrightarrow> p = q"
  by (metis option.inject provider_of_text)

section \<open>Instruments\<close>

datatype instrument =
    AwsComputeSavingsPlan
  | AwsReservedInstance
  | AzureSavingsPlan
  | AzureReservation
  | GcpCommittedUseDiscount

definition instrument_text :: "instrument \<Rightarrow> string" where
  "instrument_text i = (case i of
      AwsComputeSavingsPlan \<Rightarrow> ''aws_compute_savings_plan''
    | AwsReservedInstance \<Rightarrow> ''aws_reserved_instance''
    | AzureSavingsPlan \<Rightarrow> ''azure_savings_plan''
    | AzureReservation \<Rightarrow> ''azure_reservation''
    | GcpCommittedUseDiscount \<Rightarrow> ''gcp_committed_use_discount'')"

definition instrument_provider :: "instrument \<Rightarrow> provider" where
  "instrument_provider i = (case i of
      AwsComputeSavingsPlan \<Rightarrow> Aws
    | AwsReservedInstance \<Rightarrow> Aws
    | AzureSavingsPlan \<Rightarrow> Azure
    | AzureReservation \<Rightarrow> Azure
    | GcpCommittedUseDiscount \<Rightarrow> Gcp)"

section \<open>Roles\<close>

datatype user_role = TenantAdmin | FinopsAnalyst | FinanceApprover | ReadOnlyAuditor

definition role_text :: "user_role \<Rightarrow> string" where
  "role_text r = (case r of TenantAdmin \<Rightarrow> ''tenant_admin'' | FinopsAnalyst \<Rightarrow> ''finops_analyst''
     | FinanceApprover \<Rightarrow> ''finance_approver'' | ReadOnlyAuditor \<Rightarrow> ''read_only_auditor'')"

datatype actor_type = UserActor | ApiKeyActor

text \<open>A request context is a user's, with the user's role, or an API key's, with the role of analysts.\<close>

record request_context =
  ctx_tenantId :: string
  ctx_actorType :: actor_type
  ctx_actorUserId :: "string option"
  ctx_apiKeyId :: "string option"
  ctx_role :: user_role
  ctx_requestId :: string

definition API_KEY_ROLE :: user_role where
  "API_KEY_ROLE = FinopsAnalyst"

definition createUserRequestContext :: "string \<Rightarrow> string \<Rightarrow> user_role \<Rightarrow> string \<Rightarrow> request_context" where
  "createUserRequestContext tenantId actorUserId role requestId =
     \<lparr>ctx_tenantId = tenantId, ctx_actorType = UserActor, ctx_actorUserId = Some actorUserId, ctx_apiKeyId = None,
      ctx_role = role, ctx_requestId = requestId\<rparr>"

definition createApiKeyRequestContext :: "string \<Rightarrow> string \<Rightarrow> string \<Rightarrow> request_context" where
  "createApiKeyRequestContext tenantId apiKeyId requestId =
     \<lparr>ctx_tenantId = tenantId, ctx_actorType = ApiKeyActor, ctx_actorUserId = None, ctx_apiKeyId = Some apiKeyId,
      ctx_role = API_KEY_ROLE, ctx_requestId = requestId\<rparr>"

section \<open>Numbers\<close>

text \<open>\<open>BigInt(text)\<close> as it throws.\<close>

definition bigintR :: "string \<Rightarrow> int result" where
  "bigintR s = orElse (bigint_of s) (Thrown ''SyntaxError'')"

lemma bigintR_Inr [simp]: "bigintR s = Inr i \<longleftrightarrow> bigint_of s = Some i"
  by (simp add: bigintR_def)

lemma bigintR_show_int [simp]: "bigintR (show_int i) = Inr i"
  by simp

text \<open>\<open>Number(text)\<close> on a text of digits; any other text is NaN here (the dates come from
  \<open>to_char(\<dots>, 'YYYY-MM-DD')\<close>).\<close>

definition number_of :: "string \<Rightarrow> int option" where
  "number_of s = (if s \<noteq> [] \<and> (\<forall>c\<in>set s. is_digit c) then Some (int (dec_val s)) else None)"

section \<open>Reading snapshots\<close>

text \<open>\<open>objectAt\<close> and \<open>stringAt\<close>: an absent or ill-typed property is \<open>\{\}\<close> or \<open>'0'\<close>.\<close>

definition objectAt :: "(string \<times> json) list \<Rightarrow> string \<Rightarrow> (string \<times> json) list" where
  "objectAt source key = (case json_prop source key of JObj kvs \<Rightarrow> kvs | _ \<Rightarrow> [])"

definition stringAt :: "(string \<times> json) list \<Rightarrow> string \<Rightarrow> string" where
  "stringAt source key = (case json_prop source key of JStr s \<Rightarrow> s | _ \<Rightarrow> ''0'')"

definition providerValue :: "(string \<times> json) list \<Rightarrow> string \<Rightarrow> provider" where
  "providerValue source key =
     (case json_prop source key of
        JStr s \<Rightarrow> (case provider_of s of Some p \<Rightarrow> p | None \<Rightarrow> Aws)
      | _ \<Rightarrow> Aws)"

definition integerAt :: "(string \<times> json) list \<Rightarrow> string \<Rightarrow> int \<Rightarrow> int" where
  "integerAt source key fallback = (case json_prop source key of JInt i \<Rightarrow> i | _ \<Rightarrow> fallback)"

text \<open>\<open>point && typeof point === 'object' ? point : \{\}\<close>; an array is an object with index keys.\<close>

definition as_object :: "json \<Rightarrow> (string \<times> json) list" where
  "as_object v = (case v of
       JObj kvs \<Rightarrow> kvs
     | JArr vs \<Rightarrow> zip (map show_nat [0..<length vs]) vs
     | _ \<Rightarrow> [])"

end
