(* ===== verification/Usage_Types.thy ===== *)
theory Usage_Types
  imports Csv Js_Dates Domain
begin

text \<open>
  What the three usage parsers of core/imports share: the types of imports-types.ts, the cell
  validators, and the reconciliation of the parsed rows with the control totals the client
  declared. The three files (synthetic-csv-parser.ts, canonical-usage-parser.ts,
  aws-cur-csv-parser.ts) each have their own copy of these functions, with the same text; they
  are modelled once, from synthetic-csv-parser.ts.
\<close>

section \<open>Types\<close>

record usage_line =
  u_provider :: provider
  u_serviceCode :: string
  u_sku :: string
  u_region :: string
  u_usageStart :: string
  u_usageEnd :: string
  u_usageQuantity :: string
  u_usageUnit :: string
  u_onDemandCostCents :: string
  u_realizedCostCents :: string
  u_commitmentAppliedCents :: string
  u_tags :: "(string \<times> json) list"

record control_total =
  ct_provider :: provider
  ct_serviceCode :: string
  ct_region :: string
  ct_month :: string
  ct_lineCount :: string
  ct_usageQuantity :: string
  ct_onDemandCostCents :: string
  ct_realizedCostCents :: string
  ct_commitmentAppliedCents :: string

datatype error_details =
    CodeMessage string string
  | SchemaDrift "string list"
  | RowInvalid nat string
  | ControlTotalMismatch

datatype parser_warning = UnknownOptionalField string

datatype parse_result =
    Parsed nat "usage_line list" "parser_warning list"
  | Quarantined nat error_details "parser_warning list"

definition quarantine :: "nat \<Rightarrow> string \<Rightarrow> string \<Rightarrow> parse_result" where
  "quarantine lineCount error_code message = Quarantined lineCount (CodeMessage error_code message) []"

section \<open>Cells\<close>

definition hasControlCharacter :: "string \<Rightarrow> bool" where
  "hasControlCharacter s = (\<exists>c\<in>set s. control_char c)"

text \<open>\<open>None\<close> is the exception the caller's \<open>catch\<close> turns into a row error.\<close>

definition text_cell :: "string \<Rightarrow> string option" where
  "text_cell v = (let t = trim v in if t = [] \<or> hasControlCharacter t then None else Some t)"

definition decimal_8_pattern :: "string \<Rightarrow> bool" where
  "decimal_8_pattern s =
     (case split_on (CHR ''.'') s of
        [w, f] \<Rightarrow> canonical_dec w \<and> length w \<le> 20 \<and> length f = 8 \<and> (\<forall>c\<in>set f. is_digit c)
      | _ \<Rightarrow> False)"

definition unsigned_integer_pattern :: "string \<Rightarrow> bool" where
  "unsigned_integer_pattern s = (canonical_dec s \<and> length s \<le> 19)"

definition decimal_cell :: "string \<Rightarrow> string option" where
  "decimal_cell v = (let t = trim v in if decimal_8_pattern t then Some t else None)"

definition integer_cell :: "string \<Rightarrow> string option" where
  "integer_cell v = (let t = trim v in if unsigned_integer_pattern t then Some t else None)"

definition isoDate :: "(string \<Rightarrow> int option) \<Rightarrow> string \<Rightarrow> string option" where
  "isoDate date_parse v = map_option iso_string (date_parse v)"

definition secret_tags :: "string \<Rightarrow> bool" where
  "secret_tags s = (\<exists>w\<in>set [''password'', ''secret'', ''token'', ''credential'']. str_includes_ci w s)"

definition tags_of_value :: "json \<Rightarrow> (string \<times> json) list option" where
  "tags_of_value v = (case v of
       JObj kvs \<Rightarrow> if secret_tags (stringify v) then None else Some kvs
     | _ \<Rightarrow> None)"

definition parseTags :: "(string \<Rightarrow> json option) \<Rightarrow> string \<Rightarrow> (string \<times> json) list option" where
  "parseTags json_parse v = Option.bind (json_parse v) tags_of_value"

definition parseScaledDecimal :: "string \<Rightarrow> int" where
  "parseScaledDecimal v =
     (case split_on (CHR ''.'') v of
        w # f # _ \<Rightarrow> bigint w * 100000000 + bigint f
      | _ \<Rightarrow> 0)"

definition scaledDecimalText :: "int \<Rightarrow> string" where
  "scaledDecimalText v =
     show_int (tdiv v 100000000) @ ''.'' @ pad_start 8 (CHR ''0'') (show_int (trem v 100000000))"

section \<open>Control totals\<close>

record mutable_total =
  mt_provider :: provider
  mt_serviceCode :: string
  mt_region :: string
  mt_month :: string
  mt_lineCount :: int
  mt_usageQuantity :: int
  mt_onDemandCostCents :: int
  mt_realizedCostCents :: int
  mt_commitmentAppliedCents :: int

definition totalKey :: "provider \<Rightarrow> string \<Rightarrow> string \<Rightarrow> string \<Rightarrow> string" where
  "totalKey provider serviceCode region month =
     provider_text provider @ [CHR 0x00] @ serviceCode @ [CHR 0x00] @ region @ [CHR 0x00] @ month"

definition controlTotalKey :: "control_total \<Rightarrow> string" where
  "controlTotalKey t = totalKey (ct_provider t) (ct_serviceCode t) (ct_region t) (ct_month t)"

definition row_month :: "usage_line \<Rightarrow> string" where
  "row_month r = slice 0 7 (u_usageStart r)"

definition row_key :: "usage_line \<Rightarrow> string" where
  "row_key r = totalKey (u_provider r) (u_serviceCode r) (u_region r) (row_month r)"

definition init_total :: "usage_line \<Rightarrow> mutable_total" where
  "init_total r = \<lparr>mt_provider = u_provider r, mt_serviceCode = u_serviceCode r, mt_region = u_region r,
     mt_month = row_month r, mt_lineCount = 0, mt_usageQuantity = 0, mt_onDemandCostCents = 0,
     mt_realizedCostCents = 0, mt_commitmentAppliedCents = 0\<rparr>"

definition add_row :: "mutable_total \<Rightarrow> usage_line \<Rightarrow> mutable_total" where
  "add_row t r = t\<lparr>
     mt_lineCount := mt_lineCount t + 1,
     mt_usageQuantity := mt_usageQuantity t + parseScaledDecimal (u_usageQuantity r),
     mt_onDemandCostCents := mt_onDemandCostCents t + bigint (u_onDemandCostCents r),
     mt_realizedCostCents := mt_realizedCostCents t + bigint (u_realizedCostCents r),
     mt_commitmentAppliedCents := mt_commitmentAppliedCents t + bigint (u_commitmentAppliedCents r)\<rparr>"

definition matchesTotal :: "mutable_total \<Rightarrow> control_total \<Rightarrow> bool" where
  "matchesTotal a e =
     (show_int (mt_lineCount a) = ct_lineCount e
      \<and> scaledDecimalText (mt_usageQuantity a) = ct_usageQuantity e
      \<and> show_int (mt_onDemandCostCents a) = ct_onDemandCostCents e
      \<and> show_int (mt_realizedCostCents a) = ct_realizedCostCents e
      \<and> show_int (mt_commitmentAppliedCents a) = ct_commitmentAppliedCents e)"

definition actual_totals :: "usage_line list \<Rightarrow> (string \<times> mutable_total) list" where
  "actual_totals rows = js_group row_key init_total add_row rows"

text \<open>\<open>new Map(entries)\<close>: a later entry replaces the value of an earlier one with its key.\<close>

definition expected_totals :: "control_total list \<Rightarrow> (string \<times> control_total) list" where
  "expected_totals expected = foldl (\<lambda>m t. AList.update (controlTotalKey t) t m) [] expected"

definition validateControlTotals :: "usage_line list \<Rightarrow> control_total list \<Rightarrow> error_details option" where
  "validateControlTotals rows expected =
     (let actual = actual_totals rows; expectedMap = expected_totals expected in
      if length actual \<noteq> length expectedMap then Some ControlTotalMismatch
      else if \<forall>(key, total) \<in> set actual.
            (case map_of expectedMap key of None \<Rightarrow> False | Some c \<Rightarrow> matchesTotal total c)
      then None else Some ControlTotalMismatch)"

section \<open>A usage row\<close>

text \<open>
  The body of \<open>parseUsageRow\<close> in the synthetic and canonical parsers: they differ in how a column
  is read (\<open>value\<close>) and in what \<open>parseTags\<close> accepts. \<open>Inl\<close> carries the field of \<open>rowError\<close>.
\<close>

definition usage_row :: "(string \<Rightarrow> int option) \<Rightarrow> (string \<Rightarrow> string) \<Rightarrow> (string \<times> json) list option
    \<Rightarrow> provider \<Rightarrow> string + usage_line" where
  "usage_row date_parse value tags accountProvider =
     bindR (orElse (provider_of (value ''provider'')) ''provider'') (\<lambda>provider.
     if provider \<noteq> accountProvider then Inl ''provider'' else
     bindR (orElse (isoDate date_parse (value ''usage_start'')) ''usage_period'') (\<lambda>usageStart.
     bindR (orElse (isoDate date_parse (value ''usage_end'')) ''usage_period'') (\<lambda>usageEnd.
     if date_le date_parse usageEnd usageStart then Inl ''usage_period'' else
     bindR (orElse (integer_cell (value ''on_demand_cost_cents'')) ''required_field'') (\<lambda>onDemand.
     bindR (orElse (integer_cell (value ''realized_cost_cents'')) ''required_field'') (\<lambda>realized.
     bindR (orElse (integer_cell (value ''commitment_applied_cents'')) ''required_field'') (\<lambda>applied.
     if bigint applied > bigint onDemand then Inl ''commitment_applied_cents'' else
     bindR (orElse tags ''tags'') (\<lambda>tags.
     bindR (orElse (text_cell (value ''service_code'')) ''required_field'') (\<lambda>serviceCode.
     bindR (orElse (text_cell (value ''sku'')) ''required_field'') (\<lambda>sku.
     bindR (orElse (text_cell (value ''region'')) ''required_field'') (\<lambda>region.
     bindR (orElse (decimal_cell (value ''usage_quantity'')) ''required_field'') (\<lambda>quantity.
     bindR (orElse (text_cell (value ''usage_unit'')) ''required_field'') (\<lambda>unit.
       Inr \<lparr>u_provider = provider, u_serviceCode = serviceCode, u_sku = sku, u_region = region,
            u_usageStart = usageStart, u_usageEnd = usageEnd, u_usageQuantity = quantity,
            u_usageUnit = unit, u_onDemandCostCents = onDemand, u_realizedCostCents = realized,
            u_commitmentAppliedCents = applied, u_tags = tags\<rparr>))))))))))))"


section \<open>Scaled decimals\<close>

lemma digit_not_dot: "\<forall>c\<in>set s. is_digit c \<Longrightarrow> CHR ''.'' \<notin> set s"
  by (auto simp: is_digit_def code_def)

lemma canonical_digits: "canonical_dec s \<Longrightarrow> \<forall>c\<in>set s. is_digit c"
  by (simp add: canonical_dec_def)

lemma bigint_digits: "s \<noteq> [] \<Longrightarrow> \<forall>c\<in>set s. is_digit c \<Longrightarrow> bigint s = int (dec_val s)"
  by (simp add: bigint_def digits_bigint_of)

lemma split_number:
  "\<forall>c\<in>set w. is_digit c \<Longrightarrow> \<forall>c\<in>set f. is_digit c \<Longrightarrow>
   split_on (CHR ''.'') (w @ CHR ''.'' # f) = [w, f]"
  by (simp add: split_on_append split_on_no_sep digit_not_dot)

lemma parseScaledDecimal_number:
  assumes "w \<noteq> []" "f \<noteq> []" "\<forall>c\<in>set w. is_digit c" "\<forall>c\<in>set f. is_digit c"
  shows "parseScaledDecimal (w @ CHR ''.'' # f) = int (dec_val w) * 100000000 + int (dec_val f)"
  using assms by (simp add: parseScaledDecimal_def split_number bigint_digits)

lemma split_on_join: "split_on c s = [w, f] \<Longrightarrow> s = w @ c # f"
proof (induction s arbitrary: w)
  case (Cons x xs)
  show ?case
  proof (cases "x = c")
    case True
    with Cons.prems have "w = []" "split_on c xs = [f]" by auto
    moreover have "split_on c xs = [f] \<Longrightarrow> xs = f" for xs f
      by (induction xs arbitrary: f) (auto split: if_splits list.splits)
    ultimately show ?thesis using True by simp
  next
    case False
    with Cons.prems obtain y where "split_on c xs = [y, f]" "w = x # y"
      by (auto split: list.splits)
    with Cons.IH [of y] show ?thesis by simp
  qed
qed simp

lemma decimal_8_pattern_iff:
  "decimal_8_pattern s \<longleftrightarrow>
   (\<exists>w f. s = w @ CHR ''.'' # f \<and> canonical_dec w \<and> length w \<le> 20 \<and> length f = 8 \<and> (\<forall>c\<in>set f. is_digit c))"
proof
  assume "decimal_8_pattern s"
  then obtain w f where "split_on (CHR ''.'') s = [w, f]"
    and "canonical_dec w \<and> length w \<le> 20 \<and> length f = 8 \<and> (\<forall>c\<in>set f. is_digit c)"
    by (auto simp: decimal_8_pattern_def split: list.splits)
  then show "\<exists>w f. s = w @ CHR ''.'' # f \<and> canonical_dec w \<and> length w \<le> 20 \<and> length f = 8 \<and> (\<forall>c\<in>set f. is_digit c)"
    using split_on_join by blast
next
  assume "\<exists>w f. s = w @ CHR ''.'' # f \<and> canonical_dec w \<and> length w \<le> 20 \<and> length f = 8 \<and> (\<forall>c\<in>set f. is_digit c)"
  then show "decimal_8_pattern s"
    by (auto simp: decimal_8_pattern_def split_number canonical_digits)
qed

text \<open>A digit string is its value, padded to its length.\<close>

lemma digits_eqI:
  "length s = length t \<Longrightarrow> \<forall>c\<in>set s. is_digit c \<Longrightarrow> \<forall>c\<in>set t. is_digit c \<Longrightarrow>
   dec_val s = dec_val t \<Longrightarrow> s = t"
proof (induction s arbitrary: t rule: rev_induct)
  case (snoc c s)
  then obtain u d where t: "t = u @ [d]" by (metis length_0_conv rev_exhaust snoc_eq_iff_butlast)
  from snoc.prems t have e: "10 * dec_val s + digit_val c = 10 * dec_val u + digit_val d" by simp
  moreover have "digit_val c < 10" "digit_val d < 10" using snoc.prems t by (auto intro: digit_val_lt)
  ultimately have "dec_val s = dec_val u" "digit_val c = digit_val d" by presburger+
  moreover from this have "s = u" using snoc.IH [of u] snoc.prems t by auto
  ultimately show ?case using snoc.prems t by (metis digit_val_char in_set_conv_decomp)
qed simp

lemma scaledDecimalText_eq:
  assumes "0 \<le> v"
  shows "scaledDecimalText v = show_nat (nat (v div 100000000)) @ CHR ''.'' #
    pad_start 8 (CHR ''0'') (show_nat (nat (v mod 100000000)))"
  using assms by (simp add: scaledDecimalText_def tdiv_nonneg trem_nonneg show_int_nat)

lemma parseScaledDecimal_text [simp]:
  assumes "0 \<le> v" shows "parseScaledDecimal (scaledDecimalText v) = v"
proof -
  have ne: "pad_start 8 (CHR ''0'') (show_nat m) \<noteq> []" for m by (simp add: pad_start_def)
  have "dec_val (pad_start 8 (CHR ''0'') (show_nat m)) = m" for m by (simp add: pad_start_def)
  moreover have "0 \<le> v div 100000000" using assms by simp
  ultimately show ?thesis using assms unfolding scaledDecimalText_eq [OF assms]
    by (simp add: parseScaledDecimal_number pad_digits show_nat_digits ne)
qed

lemma scaledDecimalText_parse:
  assumes "decimal_8_pattern s" shows "scaledDecimalText (parseScaledDecimal s) = s"
proof -
  from assms obtain w f where s: "s = w @ CHR ''.'' # f" and w: "canonical_dec w"
    and f: "length f = 8" "\<forall>c\<in>set f. is_digit c" by (auto simp: decimal_8_pattern_iff)
  let ?v = "parseScaledDecimal s"
  have "w \<noteq> []" "f \<noteq> []" using w f by (auto simp: canonical_dec_def)
  then have v: "?v = int (dec_val w) * 100000000 + int (dec_val f)"
    using s w f by (simp add: parseScaledDecimal_number canonical_digits)
  have b: "dec_val f < 100000000" using dec_val_bound [OF f(2)] f(1) by simp
  then have q: "nat (?v div 100000000) = dec_val w" "nat (?v mod 100000000) = dec_val f"
    unfolding v by (simp_all add: nat_div_distrib)
  have "pad_start 8 (CHR ''0'') (show_nat (dec_val f)) = f"
  proof (rule digits_eqI)
    show "length (pad_start 8 (CHR ''0'') (show_nat (dec_val f))) = length f"
      using show_nat_short [of "dec_val f" 7] b f(1) by (simp add: pad_start_def)
  qed (use f pad_digits in \<open>auto simp: pad_start_def\<close>)
  then show ?thesis
    using q v w s show_nat_dec_val [OF w] by (simp add: scaledDecimalText_eq)
qed


section \<open>Reconciliation with the control totals\<close>

text \<open>
  What a control total promises: it covers the rows of its provider, service, region and month,
  and declares their number and their sums.
\<close>

definition covers :: "control_total \<Rightarrow> usage_line \<Rightarrow> bool" where
  "covers t r = (u_provider r = ct_provider t \<and> u_serviceCode r = ct_serviceCode t
     \<and> u_region r = ct_region t \<and> row_month r = ct_month t)"

definition declares :: "control_total \<Rightarrow> usage_line list \<Rightarrow> bool" where
  "declares t rows =
     (ct_lineCount t = show_int (int (length rows))
      \<and> ct_usageQuantity t = scaledDecimalText (\<Sum>r\<leftarrow>rows. parseScaledDecimal (u_usageQuantity r))
      \<and> ct_onDemandCostCents t = show_int (\<Sum>r\<leftarrow>rows. bigint (u_onDemandCostCents r))
      \<and> ct_realizedCostCents t = show_int (\<Sum>r\<leftarrow>rows. bigint (u_realizedCostCents r))
      \<and> ct_commitmentAppliedCents t = show_int (\<Sum>r\<leftarrow>rows. bigint (u_commitmentAppliedCents r)))"

definition row_clean :: "usage_line \<Rightarrow> bool" where
  "row_clean r = (\<not> hasControlCharacter (u_serviceCode r) \<and> \<not> hasControlCharacter (u_region r))"

definition total_clean :: "control_total \<Rightarrow> bool" where
  "total_clean t = (\<not> hasControlCharacter (ct_serviceCode t) \<and> \<not> hasControlCharacter (ct_region t))"

lemma clean_no_nul: "\<not> hasControlCharacter s \<Longrightarrow> CHR 0x00 \<notin> set s"
  by (auto simp: hasControlCharacter_def control_char_def code_def)

lemma provider_no_nul: "CHR 0x00 \<notin> set (provider_text p)"
  by (cases p) (simp_all add: provider_text_def)

lemma append_sep_inj: "c \<notin> set a \<Longrightarrow> c \<notin> set b \<Longrightarrow> a @ c # x = b @ c # y \<longleftrightarrow> a = b \<and> x = y"
proof (induction a arbitrary: b)
  case Nil
  then show ?case by (cases b) auto
next
  case (Cons d a)
  then show ?case by (cases b) auto
qed

lemma totalKey_inj:
  assumes "\<not> hasControlCharacter a" "\<not> hasControlCharacter b"
    and "\<not> hasControlCharacter a'" "\<not> hasControlCharacter b'"
  shows "totalKey p a b m = totalKey p' a' b' m' \<longleftrightarrow> p = p' \<and> a = a' \<and> b = b' \<and> m = m'"
  using assms
  by (simp add: totalKey_def append_sep_inj clean_no_nul provider_no_nul provider_text_inj)

lemma covers_iff_key:
  "row_clean r \<Longrightarrow> total_clean t \<Longrightarrow> covers t r \<longleftrightarrow> row_key r = controlTotalKey t"
  unfolding row_clean_def total_clean_def covers_def row_key_def controlTotalKey_def
  by (auto simp: totalKey_inj)

lemma init_total_cong:
  assumes "row_clean r" "row_clean r'" "row_key r = row_key r'"
  shows "init_total r = init_total r'"
  using assms by (simp add: row_clean_def row_key_def totalKey_inj init_total_def)

interpretation ut: grouping row_key init_total add_row row_clean
  by unfold_locales (rule init_total_cong)

lemma foldl_add_row:
  "mt_lineCount (foldl add_row t rows) = mt_lineCount t + int (length rows)
   \<and> mt_usageQuantity (foldl add_row t rows)
       = mt_usageQuantity t + (\<Sum>r\<leftarrow>rows. parseScaledDecimal (u_usageQuantity r))
   \<and> mt_onDemandCostCents (foldl add_row t rows)
       = mt_onDemandCostCents t + (\<Sum>r\<leftarrow>rows. bigint (u_onDemandCostCents r))
   \<and> mt_realizedCostCents (foldl add_row t rows)
       = mt_realizedCostCents t + (\<Sum>r\<leftarrow>rows. bigint (u_realizedCostCents r))
   \<and> mt_commitmentAppliedCents (foldl add_row t rows)
       = mt_commitmentAppliedCents t + (\<Sum>r\<leftarrow>rows. bigint (u_commitmentAppliedCents r))"
  by (induction rows arbitrary: t) (simp_all add: add_row_def)

lemma matchesTotal_group: "matchesTotal (foldl add_row (init_total r) rows) t \<longleftrightarrow> declares t rows"
  unfolding matchesTotal_def declares_def by (auto simp: foldl_add_row init_total_def)

lemma actual_totals_entry:
  assumes "\<forall>r\<in>set rows. row_clean r" and "(k, tot) \<in> set (actual_totals rows)"
  shows "matchesTotal tot t \<longleftrightarrow> declares t (filter (\<lambda>r. row_key r = k) rows)"
  using ut.group_entry [OF assms(1) assms(2) [unfolded actual_totals_def]] matchesTotal_group by metis

lemma actual_totals_keys: "set (map fst (actual_totals rows)) = row_key ` set rows"
  and actual_totals_distinct: "distinct (map fst (actual_totals rows))"
  by (simp_all add: actual_totals_def js_group_keys js_group_distinct)

text \<open>
  Totals may repeat a scope. The ones in force are those that no later total of the same scope replaces.
\<close>

definition same_scope :: "control_total \<Rightarrow> control_total \<Rightarrow> bool" where
  "same_scope x t = (ct_provider x = ct_provider t \<and> ct_serviceCode x = ct_serviceCode t \<and> ct_region x = ct_region t \<and> ct_month x = ct_month t)"

definition in_force :: "control_total list \<Rightarrow> control_total \<Rightarrow> bool" where
  "in_force totals t = (\<exists>before after. totals = before @ t # after \<and> (\<forall>x\<in>set after. \<not> same_scope x t))"

definition last_of_key :: "control_total list \<Rightarrow> control_total \<Rightarrow> bool" where
  "last_of_key totals t = (\<exists>before after. totals = before @ t # after \<and> (\<forall>x\<in>set after. controlTotalKey x \<noteq> controlTotalKey t))"

lemma last_of_key_snoc: "last_of_key (es @ [x]) t \<longleftrightarrow> t = x \<or> last_of_key es t \<and> controlTotalKey x \<noteq> controlTotalKey t"
proof
  assume "last_of_key (es @ [x]) t"
  then obtain b a where e: "es @ [x] = b @ t # a" and k: "\<forall>y\<in>set a. controlTotalKey y \<noteq> controlTotalKey t"
    by (auto simp: last_of_key_def)
  show "t = x \<or> last_of_key es t \<and> controlTotalKey x \<noteq> controlTotalKey t"
  proof (cases a rule: rev_cases)
    case (snoc a' y)
    with e have "es = b @ t # a'" "y = x" by auto
    with k snoc show ?thesis by (auto simp: last_of_key_def)
  qed (use e in simp)
next
  assume "t = x \<or> last_of_key es t \<and> controlTotalKey x \<noteq> controlTotalKey t"
  then show "last_of_key (es @ [x]) t"
  proof
    assume "t = x"
    then show ?thesis unfolding last_of_key_def by (intro exI [of _ es] exI [of _ "[]"]) simp
  next
    assume "last_of_key es t \<and> controlTotalKey x \<noteq> controlTotalKey t"
    then obtain b a where "es = b @ t # a" "\<forall>y\<in>set a. controlTotalKey y \<noteq> controlTotalKey t" "controlTotalKey x \<noteq> controlTotalKey t"
      by (auto simp: last_of_key_def)
    then show ?thesis unfolding last_of_key_def by (intro exI [of _ b] exI [of _ "a @ [x]"]) simp
  qed
qed

lemma last_of_key_in: "last_of_key es t \<Longrightarrow> t \<in> set es"
  by (auto simp: last_of_key_def)

lemma expected_totals_lookup: "map_of (expected_totals es) k = Some t \<longleftrightarrow> last_of_key es t \<and> controlTotalKey t = k"
proof (induction es rule: rev_induct)
  case (snoc x es)
  have "expected_totals (es @ [x]) = AList.update (controlTotalKey x) x (expected_totals es)" by (simp add: expected_totals_def)
  then show ?case using snoc by (auto simp: AList.update_conv' last_of_key_snoc simp del: map_of_eq_Some_iff)
qed (simp add: expected_totals_def last_of_key_def)

lemma expected_totals_keys:
  "distinct (map fst (expected_totals es)) \<and> set (map fst (expected_totals es)) = controlTotalKey ` set es"
proof (induction es rule: rev_induct)
  case (snoc x es)
  have "expected_totals (es @ [x]) = AList.update (controlTotalKey x) x (expected_totals es)" by (simp add: expected_totals_def)
  then show ?case using snoc by (auto simp: AList.distinct_update AList.dom_update)
qed (simp add: expected_totals_def)

lemma last_of_key_exists: "t \<in> set es \<Longrightarrow> \<exists>x. last_of_key es x \<and> controlTotalKey x = controlTotalKey t"
proof (induction es rule: rev_induct)
  case (snoc y es)
  show ?case
  proof (cases "controlTotalKey y = controlTotalKey t")
    case True
    then show ?thesis by (intro exI [of _ y]) (simp add: last_of_key_snoc)
  next
    case False
    with snoc.prems have "t \<in> set es" by auto
    with snoc.IH obtain x where "last_of_key es x" "controlTotalKey x = controlTotalKey t" by blast
    with False show ?thesis by (intro exI [of _ x]) (simp add: last_of_key_snoc)
  qed
qed simp

text \<open>Two distinct key lists of one length, one inside the other, hold the same keys.\<close>

lemma keys_eq_of_length:
  "distinct ks \<Longrightarrow> distinct ks' \<Longrightarrow> length ks = length ks' \<Longrightarrow> set ks \<subseteq> set ks' \<Longrightarrow> set ks = set ks'"
  by (metis List.finite_set card_subset_eq distinct_card)

lemma validateControlTotals_keys:
  assumes "\<forall>r\<in>set rows. row_clean r"
  shows "validateControlTotals rows es = None \<longleftrightarrow>
    row_key ` set rows = controlTotalKey ` set es
    \<and> (\<forall>t. last_of_key es t \<longrightarrow> declares t (filter (\<lambda>r. row_key r = controlTotalKey t) rows))"
    (is "?L \<longleftrightarrow> ?R")
proof -
  let ?a = "actual_totals rows" and ?e = "expected_totals es"
  have sa: "set (map fst ?a) = row_key ` set rows" "distinct (map fst ?a)"
    by (rule actual_totals_keys, rule actual_totals_distinct)
  have se: "set (map fst ?e) = controlTotalKey ` set es" "distinct (map fst ?e)"
    using expected_totals_keys [of es] by auto
  have each: "(case map_of ?e k of None \<Rightarrow> False | Some c \<Rightarrow> matchesTotal tot c) \<longleftrightarrow>
      (\<exists>t. last_of_key es t \<and> controlTotalKey t = k \<and> declares t (filter (\<lambda>r. row_key r = k) rows))"
    if "(k, tot) \<in> set ?a" for k tot
  proof -
    have "(case map_of ?e k of None \<Rightarrow> False | Some c \<Rightarrow> matchesTotal tot c)
        \<longleftrightarrow> (\<exists>c. map_of ?e k = Some c \<and> matchesTotal tot c)"
      by (cases "map_of ?e k") simp_all
    then show ?thesis
      unfolding actual_totals_entry [OF assms that] expected_totals_lookup by blast
  qed
  have L: "?L \<longleftrightarrow> length ?a = length ?e \<and> (\<forall>k\<in>row_key ` set rows. \<exists>t. last_of_key es t \<and>
      controlTotalKey t = k \<and> declares t (filter (\<lambda>r. row_key r = k) rows))"
  proof -
    have "(\<forall>(k, tot)\<in>set ?a. (case map_of ?e k of None \<Rightarrow> False | Some c \<Rightarrow> matchesTotal tot c)) \<longleftrightarrow>
        (\<forall>(k, tot)\<in>set ?a. \<exists>t. last_of_key es t \<and> controlTotalKey t = k \<and> declares t (filter (\<lambda>r. row_key r = k) rows))"
      by (rule ball_cong [OF refl]) (auto simp only: each split: prod.splits)
    then show ?thesis
      unfolding validateControlTotals_def Let_def sa(1) [symmetric] by (simp add: split_def)
  qed
  show ?thesis
  proof
    assume ?L
    then have l: "length (map fst ?a) = length (map fst ?e)" and
      d: "\<forall>k\<in>row_key ` set rows. \<exists>t. last_of_key es t \<and> controlTotalKey t = k \<and> declares t (filter (\<lambda>r. row_key r = k) rows)"
      using L by simp_all
    from d have "set (map fst ?a) \<subseteq> set (map fst ?e)" unfolding sa se by (metis image_eqI last_of_key_in subsetI)
    then have k: "row_key ` set rows = controlTotalKey ` set es"
      using keys_eq_of_length [OF sa(2) se(2) l] sa se by simp
    have "declares t (filter (\<lambda>r. row_key r = controlTotalKey t) rows)" if t: "last_of_key es t" for t
    proof -
      have "controlTotalKey t \<in> row_key ` set rows" using last_of_key_in [OF t] by (simp add: k)
      with d obtain u where u: "last_of_key es u" "controlTotalKey u = controlTotalKey t"
          "declares u (filter (\<lambda>r. row_key r = controlTotalKey t) rows)" by blast
      have "map_of ?e (controlTotalKey t) = Some u" "map_of ?e (controlTotalKey t) = Some t"
        using u t by (simp_all add: expected_totals_lookup)
      with u(3) show ?thesis by simp
    qed
    with k show ?R by blast
  next
    assume r: ?R
    then have "length ?a = length ?e"
      using sa se by (metis distinct_card length_map)
    with r L last_of_key_exists show ?L by auto metis
  qed
qed

lemma in_force_key: "\<forall>t\<in>set es. total_clean t \<Longrightarrow> last_of_key es t \<longleftrightarrow> in_force es t"
proof -
  assume c: "\<forall>t\<in>set es. total_clean t"
  have k: "controlTotalKey x = controlTotalKey y \<longleftrightarrow> same_scope x y" if "x \<in> set es" "y \<in> set es" for x y
    using c that by (auto simp: controlTotalKey_def total_clean_def totalKey_inj same_scope_def)
  have "(\<forall>x\<in>set after. controlTotalKey x \<noteq> controlTotalKey t) = (\<forall>x\<in>set after. \<not> same_scope x t)" if "es = before @ t # after" for before after
    using k that by auto
  then show ?thesis unfolding last_of_key_def in_force_def by blast
qed

lemma in_force_last: "in_force (es @ [t]) t"
  unfolding in_force_def by (intro exI [of _ es] exI [of _ "[]"]) simp

theorem validateControlTotals_covers:
  assumes "\<forall>r\<in>set rows. row_clean r" and "\<forall>t\<in>set es. total_clean t"
  shows "validateControlTotals rows es = None \<longleftrightarrow>
    (\<forall>r\<in>set rows. \<exists>t\<in>set es. covers t r)
    \<and> (\<forall>t. in_force es t \<longrightarrow> (\<exists>r\<in>set rows. covers t r) \<and> declares t (filter (covers t) rows))"
proof -
  note force = in_force_key [OF assms(2)]
  have c: "covers t r \<longleftrightarrow> row_key r = controlTotalKey t" if "r \<in> set rows" "t \<in> set es" for r t
    using covers_iff_key assms(1,2) that by blast
  have f: "filter (covers t) rows = filter (\<lambda>r. row_key r = controlTotalKey t) rows" if "t \<in> set es" for t
    using c that by (auto intro: filter_cong)
  have "row_key ` set rows = controlTotalKey ` set es \<longleftrightarrow>
      (\<forall>r\<in>set rows. \<exists>t\<in>set es. covers t r) \<and> (\<forall>t\<in>set es. \<exists>r\<in>set rows. covers t r)"
    using c by (auto simp: set_eq_iff image_iff) metis+
  also have "(\<forall>t\<in>set es. \<exists>r\<in>set rows. covers t r) \<longleftrightarrow> (\<forall>t. last_of_key es t \<longrightarrow> (\<exists>r\<in>set rows. covers t r))"
    using c last_of_key_exists [of _ es] last_of_key_in [of es] by (metis (no_types, lifting))
  finally have "validateControlTotals rows es = None \<longleftrightarrow> (\<forall>r\<in>set rows. \<exists>t\<in>set es. covers t r)
      \<and> (\<forall>t. last_of_key es t \<longrightarrow> (\<exists>r\<in>set rows. covers t r) \<and> declares t (filter (\<lambda>r. row_key r = controlTotalKey t) rows))"
    unfolding validateControlTotals_keys [OF assms(1)] by blast
  also have "\<dots> \<longleftrightarrow> (\<forall>r\<in>set rows. \<exists>t\<in>set es. covers t r)
      \<and> (\<forall>t. last_of_key es t \<longrightarrow> (\<exists>r\<in>set rows. covers t r) \<and> declares t (filter (covers t) rows))"
    using f last_of_key_in [of es] by metis
  finally show ?thesis unfolding force .
qed

end
