(* ===== verification/Usage_Parser.thy ===== *)
theory Usage_Parser
  imports Usage_Types
begin

text \<open>
  The contract of a usage parser, as core/imports/imports-service.ts uses it: what it returns as
  \<open>parsed\<close> is a list of valid rows of the account's provider that agrees with the control
  totals. The locale \<open>usage_parser\<close> states the two laws and derives what the importer relies on;
  the theories of the three parsers interpret it. The theory also holds the two pieces of code
  the parsers share: the header check and the row loop.
\<close>

section \<open>Header and row loop\<close>

definition REQUIRED_COLUMNS :: "string list" where
  "REQUIRED_COLUMNS = [''provider'', ''service_code'', ''sku'', ''region'', ''usage_start'', ''usage_end'',
     ''usage_quantity'', ''usage_unit'', ''on_demand_cost_cents'', ''realized_cost_cents'',
     ''commitment_applied_cents'', ''tags'']"

definition validateHeader :: "string list \<Rightarrow> error_details + parser_warning list" where
  "validateHeader header =
     (let missing = filter (\<lambda>column. column \<notin> set header) REQUIRED_COLUMNS in
      if missing \<noteq> [] then Inl (SchemaDrift missing)
      else Inr (map UnknownOptionalField (filter (\<lambda>column. column \<notin> set REQUIRED_COLUMNS) header)))"

text \<open>The loop over the rows: the first row that does not parse ends it.\<close>

fun parse_loop :: "('r \<Rightarrow> nat \<Rightarrow> error_details + usage_line) \<Rightarrow> 'r list \<Rightarrow> nat \<Rightarrow> error_details + usage_line list" where
  "parse_loop parse [] line = Inr []"
| "parse_loop parse (row # rows) line =
     bindR (parse row line) (\<lambda>u. bindR (parse_loop parse rows (line + 1)) (\<lambda>us. Inr (u # us)))"

text \<open>What follows the loop in every parser.\<close>

definition conclude :: "nat \<Rightarrow> usage_line list \<Rightarrow> control_total list \<Rightarrow> parser_warning list \<Rightarrow> parse_result" where
  "conclude lineCount rows totals warnings =
     (case validateControlTotals rows totals of
        Some e \<Rightarrow> Quarantined lineCount e warnings
      | None \<Rightarrow> Parsed lineCount rows warnings)"

lemma parse_loop_Inr:
  "parse_loop parse rows line = Inr us \<longleftrightarrow>
     length us = length rows \<and> (\<forall>i<length rows. parse (rows ! i) (line + i) = Inr (us ! i))"
proof (induction rows arbitrary: us line)
  case (Cons row rows)
  show ?case
  proof (cases us)
    case Nil
    then show ?thesis by (simp add: bindR_eq_Inr)
  next
    case (Cons u us')
    have "parse_loop parse (row # rows) line = Inr (u # us') \<longleftrightarrow>
        parse row line = Inr u \<and> parse_loop parse rows (line + 1) = Inr us'"
      by (auto simp: bindR_eq_Inr)
    then show ?thesis
      unfolding Cons Cons.IH by (auto simp: less_Suc_eq_0_disj)
  qed
qed auto

lemma parse_loop_Inl:
  "parse_loop parse rows line = Inl e \<longleftrightarrow>
     (\<exists>i<length rows. parse (rows ! i) (line + i) = Inl e \<and> (\<forall>j<i. ok (parse (rows ! j) (line + j))))"
proof (induction rows arbitrary: line)
  case (Cons row rows)
  show ?case
  proof (cases "parse row line")
    case (Inl e')
    show ?thesis
    proof
      assume "parse_loop parse (row # rows) line = Inl e"
      with Inl show "\<exists>i<length (row # rows). parse ((row # rows) ! i) (line + i) = Inl e
          \<and> (\<forall>j<i. ok (parse ((row # rows) ! j) (line + j)))"
        by (intro exI [of _ 0]) simp
    next
      assume "\<exists>i<length (row # rows). parse ((row # rows) ! i) (line + i) = Inl e
          \<and> (\<forall>j<i. ok (parse ((row # rows) ! j) (line + j)))"
      then obtain i where "parse ((row # rows) ! i) (line + i) = Inl e"
        and "\<forall>j<i. ok (parse ((row # rows) ! j) (line + j))" by blast
      moreover from this Inl have "i = 0" by (cases i) (auto dest: spec [of _ 0])
      ultimately show "parse_loop parse (row # rows) line = Inl e" using Inl by simp
    qed
  next
    case (Inr u)
    then have "parse_loop parse (row # rows) line = Inl e \<longleftrightarrow> parse_loop parse rows (line + 1) = Inl e"
      by (auto simp: bindR_eq_Inl)
    also have "\<dots> \<longleftrightarrow> (\<exists>i<length (row # rows). parse ((row # rows) ! i) (line + i) = Inl e
          \<and> (\<forall>j<i. ok (parse ((row # rows) ! j) (line + j))))"
      unfolding Cons.IH using Inr by (simp add: Ex_less_Suc2 All_less_Suc2)
    finally show ?thesis .
  qed
qed simp

lemma conclude_Parsed:
  "conclude n rows totals w = Parsed n' rows' w' \<longleftrightarrow>
     n' = n \<and> rows' = rows \<and> w' = w \<and> validateControlTotals rows totals = None"
  by (auto simp: conclude_def split: option.splits)

lemma checked_import_Parsed:
  "(case header of Inl e \<Rightarrow> Quarantined k e ws1
     | Inr ws \<Rightarrow> (case loop of Inl e \<Rightarrow> Quarantined k e (ws2 ws) | Inr us \<Rightarrow> conclude k us totals ws))
     = Parsed n rows w \<longleftrightarrow>
   header = Inr w \<and> loop = Inr rows \<and> n = k \<and> validateControlTotals rows totals = None"
  by (cases header; cases loop) (auto simp: conclude_Parsed)

lemma parse_loop_all:
  assumes "parse_loop f rows line = Inr us" and "\<And>row line u. f row line = Inr u \<Longrightarrow> P u" and "u \<in> set us"
  shows "P u"
  using assms by (metis in_set_conv_nth parse_loop_Inr)

section \<open>Valid rows\<close>

definition clean_text :: "string \<Rightarrow> bool" where
  "clean_text s = (s \<noteq> [] \<and> trim s = s \<and> \<not> hasControlCharacter s)"

definition line_valid :: "(string \<Rightarrow> int option) \<Rightarrow> provider \<Rightarrow> usage_line \<Rightarrow> bool" where
  "line_valid date_parse p u =
     (u_provider u = p
      \<and> clean_text (u_serviceCode u) \<and> clean_text (u_sku u) \<and> clean_text (u_region u) \<and> clean_text (u_usageUnit u)
      \<and> (\<exists>v. isoDate date_parse v = Some (u_usageStart u))
      \<and> (\<exists>v. isoDate date_parse v = Some (u_usageEnd u))
      \<and> \<not> date_le date_parse (u_usageEnd u) (u_usageStart u)
      \<and> decimal_8_pattern (u_usageQuantity u)
      \<and> canonical_dec (u_onDemandCostCents u) \<and> canonical_dec (u_realizedCostCents u)
      \<and> canonical_dec (u_commitmentAppliedCents u)
      \<and> bigint (u_commitmentAppliedCents u) \<le> bigint (u_onDemandCostCents u))"

lemma text_cell_clean: "text_cell v = Some t \<Longrightarrow> clean_text t"
  by (auto simp: text_cell_def clean_text_def Let_def split: if_splits)

lemma integer_cell_pattern: "integer_cell v = Some t \<Longrightarrow> unsigned_integer_pattern t"
  by (auto simp: integer_cell_def Let_def split: if_splits)

lemma integer_cell_canonical: "integer_cell v = Some t \<Longrightarrow> canonical_dec t"
  by (drule integer_cell_pattern) (simp add: unsigned_integer_pattern_def)

lemma decimal_cell_pattern: "decimal_cell v = Some t \<Longrightarrow> decimal_8_pattern t"
  by (auto simp: decimal_cell_def Let_def split: if_splits)

lemma isoDate_Some: "isoDate date_parse v = Some t \<longleftrightarrow> (\<exists>s. date_parse v = Some s \<and> t = iso_string s)"
  by (auto simp: isoDate_def)

lemma line_valid_clean: "line_valid date_parse p u \<Longrightarrow> row_clean u"
  by (simp add: line_valid_def clean_text_def row_clean_def)

text \<open>
  \<open>Date.parse(new Date(t).toISOString()) = t\<close> (ECMA-262, Date.parse): under this law of the
  parameter the period of a valid row is not empty.
\<close>

definition date_roundtrip :: "(string \<Rightarrow> int option) \<Rightarrow> bool" where
  "date_roundtrip date_parse = (\<forall>v t. date_parse v = Some t \<longrightarrow> date_parse (iso_string t) = Some t)"

lemma line_valid_period:
  assumes "date_roundtrip date_parse" and "line_valid date_parse p u"
  shows "\<exists>s e. u_usageStart u = iso_string s \<and> u_usageEnd u = iso_string e \<and> s < e"
proof -
  from assms(2) obtain v w s e where v: "date_parse v = Some s" "u_usageStart u = iso_string s"
    and w: "date_parse w = Some e" "u_usageEnd u = iso_string e"
    by (auto simp: line_valid_def isoDate_Some)
  with assms have "s < e" by (force simp: line_valid_def date_roundtrip_def date_le_def)
  with v w show ?thesis by blast
qed

lemma usage_row_valid:
  assumes "usage_row date_parse value tags p = Inr u"
  shows "line_valid date_parse p u"
  using assms unfolding usage_row_def line_valid_def
  by (auto simp: bindR_eq_Inr text_cell_clean integer_cell_canonical decimal_cell_pattern
      split: if_splits)

section \<open>The contract\<close>

locale usage_parser =
  fixes date_parse :: "string \<Rightarrow> int option"
    and parse :: "'src \<Rightarrow> provider \<Rightarrow> control_total list \<Rightarrow> parse_result"
  assumes parsed_valid: "parse src p totals = Parsed n rows w \<Longrightarrow> u \<in> set rows \<Longrightarrow> line_valid date_parse p u"
    and parsed_totals: "parse src p totals = Parsed n rows w \<Longrightarrow> validateControlTotals rows totals = None"
    and parsed_count: "parse src p totals = Parsed n rows w \<Longrightarrow> length rows = n"
begin

lemma accepted_reconciles:
  assumes "parse src p totals = Parsed n rows w"
    and "\<forall>t\<in>set totals. total_clean t"
  shows "(\<forall>u\<in>set rows. \<exists>t\<in>set totals. covers t u)
    \<and> (\<forall>t. in_force totals t \<longrightarrow> (\<exists>u\<in>set rows. covers t u) \<and> declares t (filter (covers t) rows))"
  using validateControlTotals_covers [THEN iffD1, OF _ assms(2) parsed_totals [OF assms(1)]]
    parsed_valid [OF assms(1)] line_valid_clean by blast

end

end
