(* ===== verification/Synthetic_Csv.thy ===== *)
theory Synthetic_Csv
  imports Usage_Parser
begin

text \<open>
  core/imports/synthetic-csv-parser.ts. \<open>bytes.toString('utf8')\<close> is the argument \<open>t\<close>; \<open>Date.parse\<close>
  and \<open>JSON.parse\<close> are the parameters \<open>date_parse\<close> and \<open>json_parse\<close>. A column is read at the
  first position of its name in the header.
\<close>

definition column_value :: "string list \<Rightarrow> string list \<Rightarrow> string \<Rightarrow> string" where
  "column_value header row column =
     (case index_of header column of
        None \<Rightarrow> []
      | Some i \<Rightarrow> if i < length row then row ! i else [])"

definition parseUsageRow :: "(string \<Rightarrow> int option) \<Rightarrow> (string \<Rightarrow> json option) \<Rightarrow> provider \<Rightarrow> string list
    \<Rightarrow> string list \<Rightarrow> nat \<Rightarrow> error_details + usage_line" where
  "parseUsageRow date_parse json_parse accountProvider header row line =
     (let value = column_value header row in
      case usage_row date_parse value (parseTags json_parse (value ''tags'')) accountProvider of
        Inl field \<Rightarrow> Inl (RowInvalid line field)
      | Inr u \<Rightarrow> Inr u)"

definition parseSyntheticCsvImport :: "(string \<Rightarrow> int option) \<Rightarrow> (string \<Rightarrow> json option) \<Rightarrow> string
    \<Rightarrow> provider \<Rightarrow> control_total list \<Rightarrow> parse_result" where
  "parseSyntheticCsvImport date_parse json_parse t accountProvider controlTotals =
     (let records = parseCsv t in
      if length records < 2 then quarantine 0 ''IMPORT_EMPTY'' ''Synthetic CSV has no usage rows.''
      else
        let header = hd records; rows = tl records in
        case validateHeader header of
          Inl e \<Rightarrow> Quarantined (length rows) e []
        | Inr warnings \<Rightarrow>
            (case parse_loop (parseUsageRow date_parse json_parse accountProvider header) rows 2 of
               Inl e \<Rightarrow> Quarantined (length rows) e []
             | Inr parsedRows \<Rightarrow> conclude (length rows) parsedRows controlTotals warnings))"

lemma parseUsageRow_Inr:
  "parseUsageRow dp jp p header row line = Inr u \<Longrightarrow> line_valid dp p u"
  by (auto simp: parseUsageRow_def Let_def split: sum.splits intro: usage_row_valid)

lemma synthetic_parsed:
  assumes "parseSyntheticCsvImport dp jp t p totals = Parsed n rows w"
  shows "parse_loop (parseUsageRow dp jp p (hd (parseCsv t))) (tl (parseCsv t)) 2 = Inr rows
    \<and> validateHeader (hd (parseCsv t)) = Inr w
    \<and> n = length (tl (parseCsv t)) \<and> validateControlTotals rows totals = None"
  using assms unfolding parseSyntheticCsvImport_def Let_def quarantine_def
  by (simp add: checked_import_Parsed split: if_splits)

interpretation syn: usage_parser date_parse "parseSyntheticCsvImport date_parse json_parse"
  for date_parse json_parse
proof
  fix src p totals n rows w u
  assume a: "parseSyntheticCsvImport date_parse json_parse src p totals = Parsed n rows w"
  show "u \<in> set rows \<Longrightarrow> line_valid date_parse p u"
    using synthetic_parsed [OF a] parseUsageRow_Inr by (blast intro: parse_loop_all)
  show "validateControlTotals rows totals = None" using synthetic_parsed [OF a] by blast
  show "length rows = n" using synthetic_parsed [OF a] by (auto simp: parse_loop_Inr)
qed


section \<open>Properties\<close>

text \<open>
  C34: Every usage row the synthetic parser accepts is of the account's provider, has trimmed,
  non-empty text fields without control characters, canonical unsigned amounts, a commitment of
  at most the on-demand cost, and a period whose start is before its end, for a Date.parse that reads back the
  instants that toISOString writes.
\<close>

theorem synthetic_rows_valid:
  assumes "parseSyntheticCsvImport date_parse json_parse t p totals = Parsed n rows w"
    and "date_roundtrip date_parse" and "u \<in> set rows"
  shows "line_valid date_parse p u
    \<and> (\<exists>s e. u_usageStart u = iso_string s \<and> u_usageEnd u = iso_string e \<and> s < e)"
  using syn.parsed_valid [OF assms(1,3)] line_valid_period [OF assms(2)] by blast

text \<open>
  C4: An accepted import agrees with its control totals. Totals come from the input parser, which lets no
  control characters into their service codes and regions, and may name the same provider, service, region
  and month twice; only the last total of a scope is in force. Every row is covered by a declared total, and
  every total in force covers a row and declares exactly the number of the rows it covers and the sums of
  their quantity, on-demand, realized and commitment amounts. A replaced total is not compared with anything.
\<close>

theorem synthetic_reconciles:
  assumes "parseSyntheticCsvImport date_parse json_parse t p totals = Parsed n rows w"
    and "\<forall>x\<in>set totals. total_clean x"
  shows "(\<forall>u\<in>set rows. \<exists>x\<in>set totals. covers x u)
    \<and> (\<forall>x. in_force totals x \<longrightarrow> (\<exists>u\<in>set rows. covers x u) \<and> declares x (filter (covers x) rows))"
  by (rule syn.accepted_reconciles [OF assms])

text \<open>
  A row error names the first bad row: the import is quarantined with IMPORT_ROW_INVALID at a
  line exactly when that record of the file (the header is line 1) does not parse, with the field
  named, and every record before it parses.
\<close>

theorem synthetic_first_bad_row:
  "parseSyntheticCsvImport date_parse json_parse t p totals = Quarantined n (RowInvalid line field) w \<longleftrightarrow>
     (let header = hd (parseCsv t); rows = tl (parseCsv t);
          parse = parseUsageRow date_parse json_parse p header in
      2 \<le> length (parseCsv t) \<and> set REQUIRED_COLUMNS \<subseteq> set header \<and> n = length rows \<and> w = []
      \<and> (\<exists>i<length rows. parse (rows ! i) (2 + i) = Inl (RowInvalid line field) \<and> line = 2 + i
           \<and> (\<forall>j<i. ok (parse (rows ! j) (2 + j)))))"
proof -
  let ?h = "hd (parseCsv t)" and ?rs = "tl (parseCsv t)"
  let ?f = "parseUsageRow date_parse json_parse p ?h"
  have line: "?f r l = Inl (RowInvalid line field) \<Longrightarrow> l = line" for r l
    by (auto simp: parseUsageRow_def Let_def split: sum.splits)
  have c: "conclude k us totals ws \<noteq> Quarantined n (RowInvalid line field) w" for k us ws
    by (auto simp: conclude_def validateControlTotals_def Let_def split: option.splits if_splits)
  have h: "(\<exists>ws. validateHeader ?h = Inr ws) \<longleftrightarrow> set REQUIRED_COLUMNS \<subseteq> set ?h"
    by (auto simp: validateHeader_def Let_def filter_empty_conv)
  have hl: "validateHeader ?h \<noteq> Inl (RowInvalid line field)"
    by (simp add: validateHeader_def Let_def)
  have "parseSyntheticCsvImport date_parse json_parse t p totals = Quarantined n (RowInvalid line field) w \<longleftrightarrow>
      2 \<le> length (parseCsv t) \<and> (\<exists>ws. validateHeader ?h = Inr ws) \<and> n = length ?rs \<and> w = []
      \<and> parse_loop ?f ?rs 2 = Inl (RowInvalid line field)"
    unfolding parseSyntheticCsvImport_def Let_def quarantine_def
    using c hl by (cases "validateHeader ?h"; cases "parse_loop ?f ?rs 2") auto
  then show ?thesis
    unfolding Let_def h parse_loop_Inl using line by (metis (no_types, lifting))
qed

section \<open>Witnesses\<close>

definition sample_dates :: "string \<Rightarrow> int option" where
  "sample_dates v = (if v = ''s'' \<or> v = iso_string 0 then Some 0
     else if v = ''e'' \<or> v = iso_string 3600000 then Some 3600000 else None)"

definition sample_json :: "string \<Rightarrow> json option" where
  "sample_json v = (if v = ''{}'' then Some (JObj []) else None)"

definition sample_row :: "string list" where
  "sample_row = [''aws'', ''EC2'', ''m5'', ''eu-1'', ''s'', ''e'', ''1.50000000'', ''h'', ''1000'', ''800'', ''200'', ''{}'']"

definition sample_csv :: "string" where
  "sample_csv = write_csv [REQUIRED_COLUMNS, sample_row, sample_row]"

definition sample_bad_csv :: "string" where
  "sample_bad_csv = write_csv [REQUIRED_COLUMNS, sample_row, sample_row[0 := ''gcp'']]"

definition sample_total :: control_total where
  "sample_total = \<lparr>ct_provider = Aws, ct_serviceCode = ''EC2'', ct_region = ''eu-1'', ct_month = ''1970-01'',
     ct_lineCount = ''2'', ct_usageQuantity = ''3.00000000'', ct_onDemandCostCents = ''2000'',
     ct_realizedCostCents = ''1600'', ct_commitmentAppliedCents = ''400''\<rparr>"

definition sample_line :: usage_line where
  "sample_line = \<lparr>u_provider = Aws, u_serviceCode = ''EC2'', u_sku = ''m5'', u_region = ''eu-1'',
     u_usageStart = iso_string 0, u_usageEnd = iso_string 3600000, u_usageQuantity = ''1.50000000'',
     u_usageUnit = ''h'', u_onDemandCostCents = ''1000'', u_realizedCostCents = ''800'',
     u_commitmentAppliedCents = ''200'', u_tags = []\<rparr>"

lemma sample_dates_roundtrip: "date_roundtrip sample_dates"
proof -
  have "iso_string 0 \<noteq> ''e''" "iso_string 3600000 \<noteq> ''s''" by code_simp+
  moreover have "iso_string 3600000 \<noteq> iso_string 0" by code_simp
  ultimately show ?thesis by (simp add: date_roundtrip_def sample_dates_def)
qed

lemma sample_parsed:
  "parseSyntheticCsvImport sample_dates sample_json sample_csv Aws [sample_total]
     = Parsed 2 [sample_line, sample_line] []"
  by code_simp

theorem synthetic_rows_valid_witness:
  "line_valid sample_dates Aws sample_line
    \<and> (\<exists>s e. u_usageStart sample_line = iso_string s \<and> u_usageEnd sample_line = iso_string e \<and> s < e)"
  by (rule synthetic_rows_valid [OF sample_parsed sample_dates_roundtrip]) simp

text \<open>A total of the same scope with other numbers precedes the one in force.\<close>

lemma sample_parsed_replaced:
  "parseSyntheticCsvImport sample_dates sample_json sample_csv Aws ([sample_total\<lparr>ct_lineCount := ''7''\<rparr>] @ [sample_total])
     = Parsed 2 [sample_line, sample_line] []"
  by code_simp

theorem synthetic_reconciles_witness:
  "covers sample_total sample_line \<and> declares sample_total [sample_line, sample_line]"
proof -
  have "total_clean sample_total" "total_clean (sample_total\<lparr>ct_lineCount := ''7''\<rparr>)" by code_simp+
  then have "\<forall>x\<in>set ([sample_total\<lparr>ct_lineCount := ''7''\<rparr>] @ [sample_total]). total_clean x" by simp
  from synthetic_reconciles [OF sample_parsed_replaced this] in_force_last [of "[sample_total\<lparr>ct_lineCount := ''7''\<rparr>]" sample_total]
  show ?thesis by (metis (no_types, lifting) filter.simps(1,2) list.set_cases set_ConsD empty_iff empty_set)
qed

theorem synthetic_first_bad_row_witness:
  "parseUsageRow sample_dates sample_json Aws REQUIRED_COLUMNS (sample_row[0 := ''gcp'']) 3
     = Inl (RowInvalid 3 ''provider'')"
proof -
  have e: "parseSyntheticCsvImport sample_dates sample_json sample_bad_csv Aws [sample_total]
      = Quarantined 2 (RowInvalid 3 ''provider'') []" by code_simp
  have r: "parseCsv sample_bad_csv = [REQUIRED_COLUMNS, sample_row, sample_row[0 := ''gcp'']]" by code_simp
  show ?thesis
    using e unfolding synthetic_first_bad_row r Let_def by (auto simp: less_Suc_eq numeral_eq_Suc)
qed

end
