(* ===== verification/Canonical_Usage.thy ===== *)
theory Canonical_Usage
  imports Synthetic_Csv
begin

text \<open>
  core/imports/canonical-usage-parser.ts: the canonical CSV, Parquet and JSON imports. A row is
  an object with property values of any JSON type; the three formats meet in
  \<open>parseCanonicalRows\<close>. The Parquet reader (package hyparquet) is the parameter \<open>parquet\<close>: the
  bytes to the rows' objects, or the exception it rejects with. Line numbers count the rows from
  1 here, and a column named twice has its last value (\<open>Object.fromEntries\<close>).
\<close>

datatype format = CsvFormat | ParquetFormat | JsonApiSnapshot | ManualOverride

section \<open>Rows\<close>

definition stringValue :: "json \<Rightarrow> string" where
  "stringValue v = (case v of JStr s \<Rightarrow> s | _ \<Rightarrow> [])"

definition canonical_parseTags :: "(string \<Rightarrow> json option) \<Rightarrow> json \<Rightarrow> (string \<times> json) list option" where
  "canonical_parseTags json_parse v =
     (case v of JStr s \<Rightarrow> Option.bind (json_parse s) tags_of_value | _ \<Rightarrow> tags_of_value v)"

definition canonical_parseUsageRow :: "(string \<Rightarrow> int option) \<Rightarrow> (string \<Rightarrow> json option) \<Rightarrow> provider
    \<Rightarrow> (string \<times> json) list \<Rightarrow> nat \<Rightarrow> error_details + usage_line" where
  "canonical_parseUsageRow date_parse json_parse accountProvider row line =
     (case usage_row date_parse (\<lambda>column. stringValue (json_prop row column))
             (canonical_parseTags json_parse (json_prop row ''tags'')) accountProvider of
        Inl field \<Rightarrow> Inl (RowInvalid line field)
      | Inr u \<Rightarrow> Inr u)"

definition parseCanonicalRows :: "(string \<Rightarrow> int option) \<Rightarrow> (string \<Rightarrow> json option)
    \<Rightarrow> (string \<times> json) list list \<Rightarrow> provider \<Rightarrow> control_total list \<Rightarrow> string \<Rightarrow> parser_warning list
    \<Rightarrow> parse_result" where
  "parseCanonicalRows date_parse json_parse rows accountProvider controlTotals label parserWarnings =
     (if length rows < 1 then quarantine 0 ''IMPORT_EMPTY'' (label @ '' has no usage rows.'')
      else case parse_loop (canonical_parseUsageRow date_parse json_parse accountProvider) rows 1 of
          Inl e \<Rightarrow> Quarantined (length rows) e parserWarnings
        | Inr parsedRows \<Rightarrow> conclude (length rows) parsedRows controlTotals parserWarnings)"

section \<open>Formats\<close>

text \<open>\<open>Object.fromEntries(header.map((name, index) => [name, row[index] ?? '']))\<close>.\<close>

definition csv_object :: "string list \<Rightarrow> string list \<Rightarrow> (string \<times> json) list" where
  "csv_object header row =
     foldl (\<lambda>obj index. AList.update (header ! index)
        (JStr (if index < length row then row ! index else [])) obj) [] [0..<length header]"

definition parseCanonicalCsvImport :: "(string \<Rightarrow> int option) \<Rightarrow> (string \<Rightarrow> json option) \<Rightarrow> string
    \<Rightarrow> provider \<Rightarrow> control_total list \<Rightarrow> parse_result" where
  "parseCanonicalCsvImport date_parse json_parse t accountProvider controlTotals =
     (let records = parseCsv t in
      if length records < 2 then quarantine 0 ''IMPORT_EMPTY'' ''Canonical CSV has no usage rows.''
      else
        let header = hd records; rows = tl records in
        case validateHeader header of
          Inl e \<Rightarrow> Quarantined (length rows) e []
        | Inr warnings \<Rightarrow>
            parseCanonicalRows date_parse json_parse (map (csv_object header) rows) accountProvider
              controlTotals ''Canonical CSV'' warnings)"

definition parseCanonicalJsonImport :: "(string \<Rightarrow> int option) \<Rightarrow> (string \<Rightarrow> json option) \<Rightarrow> string
    \<Rightarrow> provider \<Rightarrow> control_total list \<Rightarrow> format \<Rightarrow> parse_result" where
  "parseCanonicalJsonImport date_parse json_parse t accountProvider controlTotals fmt =
     (case json_parse t of
        None \<Rightarrow> quarantine 0 ''IMPORT_SCHEMA_DRIFT'' ''Import JSON snapshot must be valid JSON.''
      | Some (JObj object) \<Rightarrow>
          let expectedSchema =
            (if fmt = ManualOverride then ''manual_usage_override:v1'' else ''canonical_usage_snapshot:v1'') in
          (case (json_prop object ''schema_version'', json_prop object ''rows'') of
             (JStr schema, JArr rows) \<Rightarrow>
               if schema \<noteq> expectedSchema
               then quarantine 0 ''IMPORT_SCHEMA_DRIFT'' ''Import JSON snapshot schema is unsupported.''
               else if fmt = ManualOverride \<and> length rows > 100
               then quarantine 0 ''IMPORT_MANUAL_OVERRIDE_TOO_LARGE'' ''Manual overrides accept at most 100 rows.''
               else parseCanonicalRows date_parse json_parse (map as_object rows) accountProvider controlTotals
                 (if fmt = ManualOverride then ''Manual override'' else ''Canonical JSON snapshot'') []
           | _ \<Rightarrow> quarantine 0 ''IMPORT_SCHEMA_DRIFT'' ''Import JSON snapshot schema is unsupported.'')
      | Some _ \<Rightarrow> quarantine 0 ''IMPORT_SCHEMA_DRIFT'' ''Import JSON snapshot must be an object.'')"

text \<open>The bytes are an argument of their own: text for \<open>toString\<close>, raw for the Parquet reader.\<close>

definition parseCanonicalUsageImport :: "(string \<Rightarrow> int option) \<Rightarrow> (string \<Rightarrow> json option)
    \<Rightarrow> ('bytes \<Rightarrow> js_error + (string \<times> json) list list) \<Rightarrow> ('bytes \<Rightarrow> string)
    \<Rightarrow> 'bytes \<Rightarrow> provider \<Rightarrow> control_total list \<Rightarrow> format \<Rightarrow> parse_result result" where
  "parseCanonicalUsageImport date_parse json_parse parquet utf8 bytes accountProvider controlTotals fmt =
     (case fmt of
        CsvFormat \<Rightarrow> Inr (parseCanonicalCsvImport date_parse json_parse (utf8 bytes) accountProvider controlTotals)
      | ParquetFormat \<Rightarrow> bindR (parquet bytes) (\<lambda>rows.
          Inr (parseCanonicalRows date_parse json_parse rows accountProvider controlTotals ''Canonical Parquet'' []))
      | _ \<Rightarrow> Inr (parseCanonicalJsonImport date_parse json_parse (utf8 bytes) accountProvider controlTotals fmt))"

section \<open>Lemmas\<close>

lemma canonical_parseUsageRow_Inr:
  "canonical_parseUsageRow dp jp p row line = Inr u \<Longrightarrow> line_valid dp p u"
  by (auto simp: canonical_parseUsageRow_def split: sum.splits intro: usage_row_valid)

lemma canonical_rows_Parsed:
  "parseCanonicalRows dp jp rows p totals label ws = Parsed n us w \<longleftrightarrow>
     rows \<noteq> [] \<and> parse_loop (canonical_parseUsageRow dp jp p) rows 1 = Inr us
     \<and> n = length rows \<and> w = ws \<and> validateControlTotals us totals = None"
  unfolding parseCanonicalRows_def quarantine_def
  by (cases rows; cases "parse_loop (canonical_parseUsageRow dp jp p) rows 1")
    (auto simp: conclude_Parsed)

text \<open>Every format ends in \<open>parseCanonicalRows\<close>: what it accepts, that accepted.\<close>

lemma canonical_import_Parsed:
  assumes "parseCanonicalUsageImport dp jp parquet utf8 bytes p totals fmt = Inr (Parsed n us w)"
  obtains rows label ws where "parseCanonicalRows dp jp rows p totals label ws = Parsed n us w"
  using assms
  by (auto simp: parseCanonicalUsageImport_def parseCanonicalCsvImport_def parseCanonicalJsonImport_def
      bindR_eq_Inr quarantine_def Let_def
      split: format.splits if_splits sum.splits option.splits json.splits)

definition canonical_result :: "parse_result result \<Rightarrow> parse_result" where
  "canonical_result r = (case r of Inr x \<Rightarrow> x | Inl _ \<Rightarrow> Quarantined 0 ControlTotalMismatch [])"

interpretation can: usage_parser date_parse
    "\<lambda>(bytes, fmt) p totals. canonical_result
       (parseCanonicalUsageImport date_parse json_parse parquet utf8 bytes p totals fmt)"
  for date_parse json_parse parquet utf8
proof
  fix src :: "'a \<times> format" and p totals n rows w u
  assume a: "(case src of (bytes, fmt) \<Rightarrow> \<lambda>p totals. canonical_result
       (parseCanonicalUsageImport date_parse json_parse parquet utf8 bytes p totals fmt)) p totals = Parsed n rows w"
  then obtain bytes fmt where "parseCanonicalUsageImport date_parse json_parse parquet utf8 bytes p totals fmt
      = Inr (Parsed n rows w)"
    by (auto simp: canonical_result_def split: prod.splits sum.splits)
  then obtain rs label ws where "parseCanonicalRows date_parse json_parse rs p totals label ws = Parsed n rows w"
    by (rule canonical_import_Parsed)
  then have c: "parse_loop (canonical_parseUsageRow date_parse json_parse p) rs 1 = Inr rows"
    "n = length rs" "validateControlTotals rows totals = None" by (simp_all add: canonical_rows_Parsed)
  show "u \<in> set rows \<Longrightarrow> line_valid date_parse p u"
    using c(1) canonical_parseUsageRow_Inr by (blast intro: parse_loop_all)
  show "validateControlTotals rows totals = None" by (rule c(3))
  show "length rows = n" using c by (auto simp: parse_loop_Inr)
qed


section \<open>The CSV formats agree\<close>

lemma csv_object_lookup:
  assumes "distinct header" and "i < length header"
  shows "map_of (csv_object header row) (header ! i)
    = Some (JStr (if i < length row then row ! i else []))"
proof -
  let ?v = "\<lambda>k. JStr (if k < length row then row ! k else [])"
  have "map_of (foldl (\<lambda>obj k. AList.update (header ! k) (?v k) obj) [] [0..<n]) (header ! i)
      = (if i < n then Some (?v i) else None)" if "n \<le> length header" for n
    using that
  proof (induction n)
    case (Suc n)
    then have "header ! n = header ! i \<longleftrightarrow> n = i"
      using assms by (simp add: nth_eq_iff_index_eq)
    with Suc show ?case by (auto simp: AList.update_conv' less_Suc_eq)
  qed simp
  from this [of "length header"] assms(2) show ?thesis by (simp add: csv_object_def)
qed

lemma csv_object_prop:
  assumes "distinct header" and "column \<in> set header"
  shows "json_prop (csv_object header row) column = JStr (column_value header row column)"
proof -
  from assms(2) obtain i where i: "i < length header" "header ! i = column"
    by (auto simp: in_set_conv_nth)
  then have "index_of header column = Some i" using index_of_distinct assms(1) by metis
  with csv_object_lookup [OF assms(1) i(1), of row] i(2) show ?thesis
    by (simp add: json_prop_def column_value_def)
qed

lemma usage_row_cong:
  "\<forall>c\<in>set REQUIRED_COLUMNS. value c = value' c \<Longrightarrow>
   usage_row dp value tags p = usage_row dp value' tags p"
  by (simp add: usage_row_def REQUIRED_COLUMNS_def cong: if_cong)

lemma rows_agree:
  assumes "distinct header" and "set REQUIRED_COLUMNS \<subseteq> set header"
  shows "canonical_parseUsageRow dp jp p (csv_object header row) line = parseUsageRow dp jp p header row line"
proof -
  have v: "stringValue (json_prop (csv_object header row) c) = column_value header row c"
    if "c \<in> set REQUIRED_COLUMNS" for c
    using csv_object_prop [of header c row] assms that by (auto simp: stringValue_def)
  have "''tags'' \<in> set REQUIRED_COLUMNS" by (simp add: REQUIRED_COLUMNS_def)
  then have t: "canonical_parseTags jp (json_prop (csv_object header row) ''tags'')
      = parseTags jp (column_value header row ''tags'')"
    using csv_object_prop [of header "''tags''" row] assms
    by (auto simp: canonical_parseTags_def parseTags_def)
  show ?thesis
    unfolding canonical_parseUsageRow_def parseUsageRow_def Let_def t
    using usage_row_cong [of "\<lambda>c. stringValue (json_prop (csv_object header row) c)" "column_value header row"] v
    by simp
qed

lemma row_line_free:
  "parseUsageRow dp jp p header row l = Inr u \<longleftrightarrow> parseUsageRow dp jp p header row l' = Inr u"
  by (auto simp: parseUsageRow_def Let_def split: sum.splits)

text \<open>
  On a file whose header names no column twice, the canonical CSV import and the synthetic one
  accept the same files, with the same rows and warnings; they differ in error messages only.
\<close>

theorem canonical_csv_agrees:
  assumes "distinct (hd (parseCsv t))"
  shows "parseCanonicalCsvImport date_parse json_parse t p totals = Parsed n rows w \<longleftrightarrow>
    parseSyntheticCsvImport date_parse json_parse t p totals = Parsed n rows w"
proof -
  let ?h = "hd (parseCsv t)" and ?rs = "tl (parseCsv t)"
  have "parse_loop (canonical_parseUsageRow date_parse json_parse p) (map (csv_object ?h) ?rs) 1 = Inr us
      \<longleftrightarrow> parse_loop (parseUsageRow date_parse json_parse p ?h) ?rs 2 = Inr us"
    if "validateHeader ?h = Inr ws" for ws us
  proof -
    have req: "set REQUIRED_COLUMNS \<subseteq> set ?h"
      using that by (auto simp: validateHeader_def Let_def filter_empty_conv split: if_splits)
    show ?thesis
      unfolding parse_loop_Inr
      by (auto simp: rows_agree [OF assms req]) (metis row_line_free)+
  qed
  then have "parseCanonicalCsvImport date_parse json_parse t p totals = Parsed n rows w \<longleftrightarrow>
      2 \<le> length (parseCsv t) \<and> validateHeader ?h = Inr w \<and> n = length ?rs
      \<and> parse_loop (parseUsageRow date_parse json_parse p ?h) ?rs 2 = Inr rows
      \<and> validateControlTotals rows totals = None"
    unfolding parseCanonicalCsvImport_def Let_def quarantine_def
    by (cases "validateHeader ?h"; cases "parseCsv t" rule: remdups_adj.cases) (auto simp: canonical_rows_Parsed)
  also have "\<dots> \<longleftrightarrow> parseSyntheticCsvImport date_parse json_parse t p totals = Parsed n rows w"
    unfolding parseSyntheticCsvImport_def Let_def quarantine_def by (auto simp: checked_import_Parsed)
  finally show ?thesis .
qed

theorem canonical_csv_agrees_witness:
  "parseCanonicalCsvImport sample_dates sample_json sample_csv Aws [sample_total]
     = Parsed 2 [sample_line, sample_line] []"
proof -
  have "distinct (hd (parseCsv sample_csv))" by code_simp
  from canonical_csv_agrees [OF this] show ?thesis using sample_parsed by blast
qed

text \<open>
  In every format (CSV, Parquet, JSON snapshot, manual override) a canonical import that is
  accepted holds only valid rows of the account's provider and agrees with its control totals;
  a manual override has at most 100 rows.
\<close>

theorem canonical_accepted:
  assumes "parseCanonicalUsageImport date_parse json_parse parquet utf8 bytes p totals fmt = Inr (Parsed n rows w)"
    and "\<forall>x\<in>set totals. total_clean x"
  shows "(\<forall>u\<in>set rows. line_valid date_parse p u \<and> (\<exists>x\<in>set totals. covers x u))
    \<and> (\<forall>x. in_force totals x \<longrightarrow> declares x (filter (covers x) rows))
    \<and> (fmt = ManualOverride \<longrightarrow> n \<le> 100)"
proof -
  have r: "(case (bytes, fmt) of (bytes, fmt) \<Rightarrow> \<lambda>p totals. canonical_result
      (parseCanonicalUsageImport date_parse json_parse parquet utf8 bytes p totals fmt)) p totals = Parsed n rows w"
    using assms(1) by (simp add: canonical_result_def)
  have "n \<le> 100" if "fmt = ManualOverride"
    using assms(1) that
    by (auto simp: parseCanonicalUsageImport_def parseCanonicalJsonImport_def quarantine_def Let_def
        canonical_rows_Parsed split: if_splits option.splits json.splits)
  with can.accepted_reconciles [OF r assms(2)] can.parsed_valid [OF r] show ?thesis by blast
qed

text \<open>A manual override of one row, as the JSON text \<open>J\<close>.\<close>

definition sample_override :: json where
  "sample_override = JObj [(''schema_version'', JStr ''manual_usage_override:v1''),
     (''rows'', JArr [JObj (zip REQUIRED_COLUMNS (map JStr sample_row)),
                      JObj (zip REQUIRED_COLUMNS (map JStr sample_row))])]"

definition sample_override_json :: "string \<Rightarrow> json option" where
  "sample_override_json v = (if v = ''J'' then Some sample_override else sample_json v)"

lemma sample_override_parsed:
  "parseCanonicalUsageImport sample_dates sample_override_json (\<lambda>b. Inl (Thrown [])) (\<lambda>b. b) ''J'' Aws
     [sample_total] ManualOverride = Inr (Parsed 2 [sample_line, sample_line] [])"
  by code_simp

theorem canonical_accepted_witness:
  "covers sample_total sample_line \<and> declares sample_total [sample_line, sample_line]"
proof -
  have "total_clean sample_total" by code_simp
  then have "\<forall>x\<in>set [sample_total]. total_clean x" by simp
  from canonical_accepted [OF sample_override_parsed this] in_force_last [of "[]" sample_total] show ?thesis by (auto split: if_splits)
qed

end
