(* ===== verification/Aws_Cur.thy ===== *)
theory Aws_Cur
  imports Synthetic_Csv
begin

text \<open>
  core/imports/aws-cur-csv-parser.ts: the AWS Cost and Usage Report. Money is decimal text with up
  to ten fraction digits, rounded half up to cents; the commitment applied to a line is what the
  realized cost is below the public on-demand cost. The cell validators and the control totals
  are the ones of Usage_Types (the file has its own copies of them).
\<close>

definition AWS_REQUIRED_COLUMNS :: "string list" where
  "AWS_REQUIRED_COLUMNS = [''lineItem/UsageAccountId'', ''lineItem/ProductCode'', ''lineItem/UsageType'',
     ''product/region'', ''lineItem/UsageStartDate'', ''lineItem/UsageEndDate'', ''lineItem/UsageAmount'',
     ''lineItem/UsageUnit'', ''pricing/publicOnDemandCost'', ''lineItem/UnblendedCost'']"

definition KNOWN_OPTIONAL_COLUMNS :: "string list" where
  "KNOWN_OPTIONAL_COLUMNS = [''savingsPlan/SavingsPlanEffectiveCost'', ''resourceTags/user:Environment'']"

definition aws_validateHeader :: "string list \<Rightarrow> error_details + parser_warning list" where
  "aws_validateHeader header =
     (let missing = filter (\<lambda>column. column \<notin> set header) AWS_REQUIRED_COLUMNS in
      if missing \<noteq> [] then Inl (SchemaDrift missing)
      else Inr (map UnknownOptionalField
        (filter (\<lambda>column. column \<notin> set AWS_REQUIRED_COLUMNS \<and> column \<notin> set KNOWN_OPTIONAL_COLUMNS) header)))"

section \<open>Money\<close>

text \<open>MONEY_PATTERN: up to 18 whole digits without leading zero, an optional fraction of 1 to 10
  digits. The pair is \<open>trimmed.split('.')\<close> with the fraction's default.\<close>

definition money_parts :: "string \<Rightarrow> (string \<times> string) option" where
  "money_parts s =
     (case split_on (CHR ''.'') s of
        [w] \<Rightarrow> if canonical_dec w \<and> length w \<le> 18 then Some (w, []) else None
      | [w, f] \<Rightarrow> if canonical_dec w \<and> length w \<le> 18 \<and> 1 \<le> length f \<and> length f \<le> 10 \<and> (\<forall>c\<in>set f. is_digit c)
          then Some (w, f) else None
      | _ \<Rightarrow> None)"

definition moneyCents :: "string \<Rightarrow> string option" where
  "moneyCents v =
     (case money_parts (trim v) of
        None \<Rightarrow> None
      | Some (whole, fraction) \<Rightarrow>
          let scale = 10000000000;
              scaled = bigint whole * scale + bigint (pad_end 10 (CHR ''0'') fraction)
          in Some (show_int (tdiv (scaled * 100 + tdiv scale 2) scale)))"

section \<open>Rows\<close>

definition tag_prefix :: string where
  "tag_prefix = ''resourceTags/user:''"

text \<open>
  \<open>result[key] = raw\<close>, in the order of the header; assigning a string to \<open>__proto__\<close> does
  nothing. (An engine lists keys that are array indices first; no code reads this order.)
\<close>

definition aws_tags :: "string list \<Rightarrow> string list \<Rightarrow> (string \<times> json) list" where
  "aws_tags header row =
     foldl (\<lambda>result column.
        if \<not> prefix tag_prefix column then result
        else let raw = trim (column_value header row column); key = drop (length tag_prefix) column in
          if raw \<noteq> [] \<and> key \<noteq> ''__proto__'' then AList.update key (JStr raw) result else result)
       [] header"

text \<open>\<open>a || b\<close> on strings.\<close>

definition str_or :: "string \<Rightarrow> string \<Rightarrow> string" where
  "str_or a b = (if a \<noteq> [] then a else b)"

definition aws_usage_row :: "(string \<Rightarrow> int option) \<Rightarrow> string list \<Rightarrow> string list \<Rightarrow> string + usage_line" where
  "aws_usage_row date_parse header row =
     (let value = column_value header row in
     bindR (orElse (isoDate date_parse (value ''lineItem/UsageStartDate'')) ''usage_period'') (\<lambda>usageStart.
     bindR (orElse (isoDate date_parse (value ''lineItem/UsageEndDate'')) ''usage_period'') (\<lambda>usageEnd.
     if date_le date_parse usageEnd usageStart then Inl ''usage_period'' else
     bindR (orElse (moneyCents (value ''pricing/publicOnDemandCost'')) ''required_field'') (\<lambda>onDemand.
     bindR (orElse (moneyCents (str_or (value ''savingsPlan/SavingsPlanEffectiveCost'')
       (value ''lineItem/UnblendedCost''))) ''required_field'') (\<lambda>realized.
     let applied = (if bigint onDemand > bigint realized then show_int (bigint onDemand - bigint realized)
                    else ''0'') in
     bindR (orElse (text_cell (value ''lineItem/ProductCode'')) ''required_field'') (\<lambda>serviceCode.
     bindR (orElse (text_cell (value ''lineItem/UsageType'')) ''required_field'') (\<lambda>sku.
     bindR (orElse (text_cell (value ''product/region'')) ''required_field'') (\<lambda>region.
     bindR (orElse (decimal_cell (value ''lineItem/UsageAmount'')) ''required_field'') (\<lambda>quantity.
     bindR (orElse (text_cell (value ''lineItem/UsageUnit'')) ''required_field'') (\<lambda>unit.
       Inr \<lparr>u_provider = Aws, u_serviceCode = serviceCode, u_sku = sku, u_region = region,
            u_usageStart = usageStart, u_usageEnd = usageEnd, u_usageQuantity = quantity,
            u_usageUnit = unit, u_onDemandCostCents = onDemand, u_realizedCostCents = realized,
            u_commitmentAppliedCents = applied, u_tags = aws_tags header row\<rparr>))))))))))"

definition aws_parseUsageRow :: "(string \<Rightarrow> int option) \<Rightarrow> string list \<Rightarrow> string list \<Rightarrow> nat
    \<Rightarrow> error_details + usage_line" where
  "aws_parseUsageRow date_parse header row line =
     (case aws_usage_row date_parse header row of
        Inl field \<Rightarrow> Inl (RowInvalid line field)
      | Inr u \<Rightarrow> Inr u)"

definition parseAwsCurCsvImport :: "(string \<Rightarrow> int option) \<Rightarrow> string \<Rightarrow> provider \<Rightarrow> control_total list
    \<Rightarrow> parse_result" where
  "parseAwsCurCsvImport date_parse t accountProvider controlTotals =
     (if accountProvider \<noteq> Aws
      then quarantine 0 ''IMPORT_ACCOUNT_PROVIDER_MISMATCH'' ''AWS CUR imports require an AWS account.''
      else let records = parseCsv t in
        if length records < 2 then quarantine 0 ''IMPORT_EMPTY'' ''AWS CUR CSV has no usage rows.''
        else
          let header = hd records; rows = tl records in
          case aws_validateHeader header of
            Inl e \<Rightarrow> Quarantined (length rows) e []
          | Inr warnings \<Rightarrow>
              (case parse_loop (aws_parseUsageRow date_parse header) rows 2 of
                 Inl e \<Rightarrow> Quarantined (length rows) e warnings
               | Inr parsedRows \<Rightarrow> conclude (length rows) parsedRows controlTotals warnings))"

section \<open>Lemmas\<close>

text \<open>Decimal money of at most ten fraction digits, in units of 10^-10.\<close>

definition money_units :: "string \<times> string \<Rightarrow> int" where
  "money_units p = int (dec_val (fst p)) * 10000000000 + int (dec_val (snd p)) * 10 ^ (10 - length (snd p))"

lemma dec_val_app_zeros: "dec_val (s @ replicate n (CHR ''0'')) = dec_val s * 10 ^ n"
proof (induction n)
  case (Suc n)
  have "s @ replicate (Suc n) (CHR ''0'') = (s @ replicate n (CHR ''0'')) @ [CHR ''0'']"
    by (metis append.assoc replicate_Suc replicate_append_same)
  then have "dec_val (s @ replicate (Suc n) (CHR ''0'')) = 10 * (dec_val s * 10 ^ n)"
    using Suc by (simp only: dec_val_snoc) (simp add: digit_val_def code_def)
  then show ?case by simp
qed simp

lemma money_parts_Some:
  "money_parts s = Some (w, f) \<Longrightarrow>
   canonical_dec w \<and> length f \<le> 10 \<and> (\<forall>c\<in>set f. is_digit c)"
  by (auto simp: money_parts_def split: list.splits if_splits)

lemma moneyCents_value:
  "moneyCents v = Some c \<longleftrightarrow> (\<exists>p. money_parts (trim v) = Some p
     \<and> c = show_int ((money_units p * 100 + 5000000000) div 10000000000))"
proof (cases "money_parts (trim v)")
  case (Some p)
  obtain w f where p: "p = (w, f)" by (cases p)
  with Some money_parts_Some have m: "canonical_dec w" "length f \<le> 10" "\<forall>c\<in>set f. is_digit c" by blast+
  have "bigint (pad_end 10 (CHR ''0'') f) = int (dec_val f) * 10 ^ (10 - length f)"
  proof -
    let ?d = "pad_end 10 (CHR ''0'') f"
    have "?d \<noteq> []" "\<forall>c\<in>set ?d. is_digit c" using m by (auto simp: pad_end_def)
    from bigint_digits [OF this] show ?thesis by (simp add: pad_end_def dec_val_app_zeros)
  qed
  moreover have "bigint w = int (dec_val w)"
    using m(1) by (intro bigint_digits) (auto simp: canonical_dec_def)
  ultimately have u: "bigint w * 10000000000 + bigint (pad_end 10 (CHR ''0'') f) = money_units p"
    by (simp add: money_units_def p)
  have "0 \<le> money_units p" by (simp add: money_units_def)
  then have "tdiv (money_units p * 100 + tdiv 10000000000 2) 10000000000
      = (money_units p * 100 + 5000000000) div 10000000000"
    by (simp add: tdiv_nonneg)
  then show ?thesis unfolding moneyCents_def Let_def Some p option.case prod.case u [unfolded p] by auto
qed (simp add: moneyCents_def)

lemma money_units_nonneg: "0 \<le> money_units p"
  by (simp add: money_units_def)

lemma moneyCents_canonical:
  assumes "moneyCents v = Some c" shows "canonical_dec c"
proof -
  from assms obtain p where "c = show_int ((money_units p * 100 + 5000000000) div 10000000000)"
    by (auto simp: moneyCents_value)
  moreover have "0 \<le> (money_units p * 100 + 5000000000) div 10000000000"
    using money_units_nonneg [of p] by simp
  ultimately show ?thesis by (simp add: show_int_nat canonical_show_nat)
qed

lemma show_pos_canonical: "0 \<le> i \<Longrightarrow> canonical_dec (show_int i)"
  by (simp add: show_int_nat canonical_show_nat)

lemma canonical_bigint_nonneg: "canonical_dec s \<Longrightarrow> 0 \<le> bigint s"
  by (simp add: canonical_dec_def bigint_digits)

lemma show_int_is_zero [simp]: "show_int i = ''0'' \<longleftrightarrow> i = 0"
  by (metis show_int_inj show_int_zero)

lemma aws_row_valid:
  assumes "aws_usage_row dp header row = Inr u"
  shows "line_valid dp Aws u"
    and "bigint (u_commitmentAppliedCents u)
      = max 0 (bigint (u_onDemandCostCents u) - bigint (u_realizedCostCents u))"
proof -
  have z: "canonical_dec ''0''" by code_simp
  note c = moneyCents_canonical [THEN canonical_bigint_nonneg]
  show "line_valid dp Aws u"
    using assms unfolding aws_usage_row_def line_valid_def Let_def
    by (auto simp: bindR_eq_Inr text_cell_clean moneyCents_canonical decimal_cell_pattern z
        show_pos_canonical c split: if_splits)
  show "bigint (u_commitmentAppliedCents u)
      = max 0 (bigint (u_onDemandCostCents u) - bigint (u_realizedCostCents u))"
    using assms unfolding aws_usage_row_def Let_def
    by (auto simp: bindR_eq_Inr max_def split: if_splits)
qed

lemma aws_parseUsageRow_Inr:
  "aws_parseUsageRow dp header row line = Inr u \<longleftrightarrow> aws_usage_row dp header row = Inr u"
  by (simp add: aws_parseUsageRow_def split: sum.splits)

lemma aws_parsed:
  assumes "parseAwsCurCsvImport dp t p totals = Parsed n rows w"
  shows "p = Aws \<and> parse_loop (aws_parseUsageRow dp (hd (parseCsv t))) (tl (parseCsv t)) 2 = Inr rows
    \<and> n = length (tl (parseCsv t)) \<and> validateControlTotals rows totals = None"
  using assms unfolding parseAwsCurCsvImport_def Let_def quarantine_def
  by (simp add: checked_import_Parsed split: if_splits)

interpretation aws: usage_parser date_parse "parseAwsCurCsvImport date_parse" for date_parse
proof
  fix src p totals n rows w u
  assume a: "parseAwsCurCsvImport date_parse src p totals = Parsed n rows w"
  note c = aws_parsed [OF a]
  show "u \<in> set rows \<Longrightarrow> line_valid date_parse p u"
    using c parse_loop_all [of _ _ _ _ "line_valid date_parse Aws"] aws_row_valid(1)
    by (metis aws_parseUsageRow_Inr)
  show "validateControlTotals rows totals = None" using c by blast
  show "length rows = n" using c by (auto simp: parse_loop_Inr)
qed


section \<open>Properties\<close>

text \<open>
  An AWS import that is accepted is of an AWS account, its rows are valid and agree with the
  control totals, and the commitment of each row is the saving over the on-demand cost,
  max(0, on-demand - realized).
\<close>

theorem aws_accepted:
  assumes "parseAwsCurCsvImport date_parse t p totals = Parsed n rows w"
    and "\<forall>x\<in>set totals. total_clean x"
  shows "p = Aws
    \<and> (\<forall>u\<in>set rows. line_valid date_parse Aws u \<and> (\<exists>x\<in>set totals. covers x u)
        \<and> bigint (u_commitmentAppliedCents u)
          = max 0 (bigint (u_onDemandCostCents u) - bigint (u_realizedCostCents u)))
    \<and> (\<forall>x. in_force totals x \<longrightarrow> declares x (filter (covers x) rows))"
proof -
  note c = aws_parsed [OF assms(1)]
  have "line_valid date_parse Aws u
      \<and> bigint (u_commitmentAppliedCents u)
          = max 0 (bigint (u_onDemandCostCents u) - bigint (u_realizedCostCents u))" if "u \<in> set rows" for u
    by (rule parse_loop_all [OF c [THEN conjunct2, THEN conjunct1] _ that])
      (simp add: aws_parseUsageRow_Inr aws_row_valid)
  with aws.accepted_reconciles [OF assms] aws_parsed [OF assms(1)] show ?thesis by blast
qed

text \<open>
  Money is rounded half up to the cent: the text of an amount of dollars (in units of 10^-10,
  exact) becomes canonical cents that differ from the amount by at most half a cent, and a tie is
  rounded up. Any other text is refused.
\<close>

lemma moneyCents_rounds:
  "case money_parts (trim v) of
     None \<Rightarrow> moneyCents v = None
   | Some m \<Rightarrow> \<exists>cents. moneyCents v = Some (show_int cents) \<and> 0 \<le> cents
       \<and> money_units m * 100 - 5000000000 < cents * 10000000000
       \<and> cents * 10000000000 \<le> money_units m * 100 + 5000000000"
proof (cases "money_parts (trim v)")
  case (Some m)
  let ?n = "money_units m * 100 + 5000000000"
  have "moneyCents v = Some (show_int (?n div 10000000000))" by (simp add: moneyCents_value Some)
  moreover have "0 \<le> ?n div 10000000000" using money_units_nonneg [of m] by simp
  moreover have "?n div 10000000000 * 10000000000 \<le> ?n" "?n < ?n div 10000000000 * 10000000000 + 10000000000"
    using div_mult_mod_eq [of ?n 10000000000] pos_mod_bound [of 10000000000 ?n] pos_mod_sign [of 10000000000 ?n]
    by linarith+
  ultimately show ?thesis unfolding Some option.case
    by (intro exI [of _ "?n div 10000000000"]) linarith
qed (simp add: moneyCents_def)

definition sample_aws_row :: "string list" where
  "sample_aws_row = [''1'', ''EC2'', ''m5'', ''eu-1'', ''s'', ''e'', ''1.50000000'', ''h'', ''10.005'', ''8'']"

definition sample_aws_line :: usage_line where
  "sample_aws_line = sample_line \<lparr>u_onDemandCostCents := ''1001'', u_realizedCostCents := ''800'',
     u_commitmentAppliedCents := ''201''\<rparr>"

definition sample_aws_total :: control_total where
  "sample_aws_total = sample_total \<lparr>ct_lineCount := ''1'', ct_usageQuantity := ''1.50000000'',
     ct_onDemandCostCents := ''1001'', ct_realizedCostCents := ''800'', ct_commitmentAppliedCents := ''201''\<rparr>"

lemma sample_aws_parsed:
  "parseAwsCurCsvImport sample_dates (write_csv [AWS_REQUIRED_COLUMNS, sample_aws_row]) Aws [sample_aws_total]
     = Parsed 1 [sample_aws_line] []"
  by code_simp

theorem aws_accepted_witness:
  "line_valid sample_dates Aws sample_aws_line \<and> covers sample_aws_total sample_aws_line"
proof -
  have "total_clean sample_aws_total" by code_simp
  then have "\<forall>x\<in>set [sample_aws_total]. total_clean x" by simp
  note a = aws_accepted [OF sample_aws_parsed this]
  have "sample_aws_line \<in> set [sample_aws_line]" "\<And>x. x \<in> set [sample_aws_total] \<longleftrightarrow> x = sample_aws_total" by auto
  with a show ?thesis by metis
qed

end
