(* ===== verification/Optimizer.thy ===== *)
theory Optimizer
  imports Domain
begin

text \<open>
  core/optimizer-runs/optimizer-worker.ts, the computation: from a run, its snapshot, its forecast
  and the frozen price items to the ranked candidates. Amounts are BigInts, \<open>int\<close> here; a text
  that is not a BigInt literal throws. \<open>percentile\<close> computes \<open>Math.ceil((pct / 100) * n)\<close> in
  doubles; for pct 50 and 95 and any array length this is the integer ceiling of pct * n / 100
  (a product that should be an integer is rounded to it, the others are at least 0.05 away from
  one), which the definition states with integers.
\<close>

section \<open>Arithmetic\<close>

definition sortBigInt :: "int \<Rightarrow> int \<Rightarrow> int" where
  "sortBigInt left right = (if left = right then 0 else if left > right then 1 else - 1)"

definition percentile :: "int list \<Rightarrow> nat \<Rightarrow> int" where
  "percentile values pct =
     (if values = [] then 0
      else values ! ((pct * length values + 99) div 100 - 1))"

definition roundedDiv :: "int \<Rightarrow> int \<Rightarrow> int" where
  "roundedDiv numerator denominator =
     (if denominator = 0 then 0
      else if numerator \<ge> 0 then tdiv (numerator + tdiv denominator 2) denominator
      else - tdiv (- numerator + tdiv denominator 2) denominator)"

definition meanRounded :: "int list \<Rightarrow> int" where
  "meanRounded values =
     (if values = [] then 0
      else roundedDiv (foldl (\<lambda>sum value. sum + value) 0 values) (int (length values)))"

definition minBigInt2 :: "int \<Rightarrow> int \<Rightarrow> int" where
  "minBigInt2 left right = (if left < right then left else right)"

definition minBigInt :: "int list \<Rightarrow> int" where
  "minBigInt values =
     (case values of
        [] \<Rightarrow> 0
      | first # rest \<Rightarrow> foldl (\<lambda>minimum value. if value < minimum then value else minimum) first rest)"

definition maxBigInt :: "int list \<Rightarrow> int" where
  "maxBigInt values =
     (case values of
        [] \<Rightarrow> 0
      | first # rest \<Rightarrow> foldl (\<lambda>maximum value. if value > maximum then value else maximum) first rest)"

definition decimalPercentToBps :: "string \<Rightarrow> int result" where
  "decimalPercentToBps value =
     (let parts = split_on (CHR ''.'') value;
          whole = hd parts;
          fraction = (if length parts > 1 then parts ! 1 else []) in
      bindR (bigintR whole) (\<lambda>w.
      bindR (bigintR (slice 0 2 (pad_end 2 (CHR ''0'') fraction))) (\<lambda>f.
      Inr (w * 100 + f))))"

definition formatBps :: "int \<Rightarrow> string" where
  "formatBps value =
     show_int (tdiv value 100) @ ''.'' @ pad_start 2 (CHR ''0'') (show_int (trem value 100))"

section \<open>Data\<close>

record optimizer_run =
  r_id :: string
  r_tenantId :: string
  r_provider :: provider
  r_instrument :: instrument
  r_priceTableVersionIds :: "string list"
  r_inputSnapshotUri :: string

record price_item =
  i_sku :: string
  i_region :: string
  i_termMonths :: int
  i_paymentOption :: string
  i_hourlyRateCents :: string
  i_upfrontCents :: string
  i_coverageRules :: "(string \<times> json) list"

record forecast_point =
  p_month :: string
  p_provider :: provider
  p_service_code :: string
  p_region :: string
  p_cost :: string

datatype risk_band = Low | Medium | High | Blocked

datatype binding_constraint = RiskBudget | MinimumExpectedSavings | UtilizationGap

record candidate =
  c_provider :: provider
  c_instrument :: instrument
  c_service_code :: string
  c_region :: string
  c_term_months :: int
  c_payment_option :: string
  c_commitment_amount_cents :: string
  c_expected_savings_cents :: string
  c_p95_downside_loss_cents :: string
  c_utilization_p50_pct :: string
  c_utilization_p95_pct :: string
  c_confidence_score :: string
  c_risk_band :: risk_band
  c_feasible :: bool
  c_binding_constraints :: "binding_constraint list"

record policy_snapshot =
  maxDownsideLossCents :: int
  minExpectedSavingsCents :: int
  maxUtilizationGapBps :: int
  approvalThresholdCents :: int
  liquidityPenaltyBps :: int

section \<open>Inputs\<close>

definition policySnapshot :: "(string \<times> json) list \<Rightarrow> policy_snapshot result" where
  "policySnapshot snapshot =
     (let policy = objectAt snapshot ''policy''; config = objectAt policy ''config'' in
      bindR (bigintR (stringAt policy ''maxDownsideLossCents'')) (\<lambda>maxDownside.
      bindR (bigintR (stringAt policy ''minExpectedSavingsCents'')) (\<lambda>minExpected.
      bindR (decimalPercentToBps (stringAt policy ''maxUtilizationGapPct'')) (\<lambda>maxGap.
      bindR (bigintR (stringAt policy ''approvalThresholdCents'')) (\<lambda>threshold.
      Inr \<lparr>maxDownsideLossCents = maxDownside, minExpectedSavingsCents = minExpected,
           maxUtilizationGapBps = maxGap, approvalThresholdCents = threshold,
           liquidityPenaltyBps = integerAt config ''liquidity_penalty_bps'' 0\<rparr>)))))"

definition forecastOutputUri :: "(string \<times> json) list \<Rightarrow> string" where
  "forecastOutputUri snapshot = stringAt (objectAt snapshot ''forecast_run'') ''outputUri''"

definition forecastPoints :: "(string \<times> json) list \<Rightarrow> forecast_point list" where
  "forecastPoints forecast =
     (case json_prop forecast ''forecast_points'' of
        JArr points \<Rightarrow> map (\<lambda>point. let row = as_object point in
          \<lparr>p_month = stringAt row ''month'', p_provider = providerValue row ''provider'',
           p_service_code = stringAt row ''service_code'', p_region = stringAt row ''region'',
           p_cost = stringAt row ''forecast_on_demand_cost_cents''\<rparr>) points
      | _ \<Rightarrow> [])"

text \<open>\<open>rules.service_code ?? rules.service\<close>, if it is a text that is not blank.\<close>

definition coverageServiceCode :: "price_item \<Rightarrow> string option" where
  "coverageServiceCode item =
     (let first = json_prop (i_coverageRules item) ''service_code'';
          value = (if first = JUndefined \<or> first = JNull then json_prop (i_coverageRules item) ''service'' else first) in
      case value of JStr s \<Rightarrow> if trim s \<noteq> [] then Some s else None | _ \<Rightarrow> None)"

definition serviceCode :: "forecast_point \<Rightarrow> price_item \<Rightarrow> string" where
  "serviceCode point item = (case coverageServiceCode item of Some s \<Rightarrow> s | None \<Rightarrow> p_service_code point)"

definition pointsForItem :: "forecast_point list \<Rightarrow> price_item \<Rightarrow> forecast_point list" where
  "pointsForItem points item =
     filter (\<lambda>point. p_region point = i_region item
       \<and> (case coverageServiceCode item of None \<Rightarrow> True | Some s \<Rightarrow> p_service_code point = s)) points"

section \<open>Evaluation of an item\<close>

definition HOURS_PER_MONTH :: int where
  "HOURS_PER_MONTH = 730"

definition bindingConstraints :: "policy_snapshot \<Rightarrow> int \<Rightarrow> int \<Rightarrow> int \<Rightarrow> binding_constraint list" where
  "bindingConstraints policy expected p95Downside utilizationGapBps =
     (if p95Downside > maxDownsideLossCents policy then [RiskBudget] else [])
     @ (if expected < minExpectedSavingsCents policy then [MinimumExpectedSavings] else [])
     @ (if utilizationGapBps > maxUtilizationGapBps policy then [UtilizationGap] else [])"

definition riskBand :: "int \<Rightarrow> int \<Rightarrow> risk_band" where
  "riskBand p95Downside maxDownside =
     (if p95Downside = 0 then Low else if p95Downside \<le> maxDownside then Medium else High)"

text \<open>The amounts of an evaluation, by the names of the source's constants.\<close>

definition net :: "int \<Rightarrow> int \<Rightarrow> int \<Rightarrow> int \<Rightarrow> int \<Rightarrow> int" where
  "net commitment monthlyEffectiveCost upfrontAmortization liquidityPenalty cost =
     (let unusedWaste = (if commitment > cost then commitment - cost else 0) in
      cost - monthlyEffectiveCost - unusedWaste - upfrontAmortization - liquidityPenalty)"

definition utilization :: "int \<Rightarrow> int \<Rightarrow> int" where
  "utilization commitment cost =
     (if commitment = 0 then 0 else tdiv (minBigInt2 cost commitment * 10000) commitment)"

definition evaluate_costs :: "optimizer_run \<Rightarrow> policy_snapshot \<Rightarrow> forecast_point \<Rightarrow> price_item
    \<Rightarrow> int \<Rightarrow> int \<Rightarrow> int list \<Rightarrow> candidate" where
  "evaluate_costs run policy point item hourlyRate upfront eligibleCosts =
     (let commitment = percentile eligibleCosts 50;
          monthlyEffectiveCost = hourlyRate * HOURS_PER_MONTH;
          upfrontAmortization = roundedDiv upfront (i_termMonths item);
          liquidityPenalty = roundedDiv (upfront * liquidityPenaltyBps policy) 10000;
          nets = map (net commitment monthlyEffectiveCost upfrontAmortization liquidityPenalty) eligibleCosts;
          downside = js_sort sortBigInt (map (\<lambda>value. if value < 0 then - value else 0) nets);
          expected = meanRounded nets;
          p95Downside = percentile downside 95;
          utilizations = map (utilization commitment) eligibleCosts;
          utilizationP50 = percentile (js_sort sortBigInt utilizations) 50;
          utilizationP95 = percentile (js_sort sortBigInt (js_sort sortBigInt utilizations)) 95;
          utilizationGapBps = 10000 - utilizationP50;
          binding = bindingConstraints policy expected p95Downside utilizationGapBps
      in \<lparr>c_provider = r_provider run, c_instrument = r_instrument run,
          c_service_code = serviceCode point item, c_region = i_region item,
          c_term_months = i_termMonths item, c_payment_option = i_paymentOption item,
          c_commitment_amount_cents = show_int commitment,
          c_expected_savings_cents = (if expected > 0 then show_int expected else ''0''),
          c_p95_downside_loss_cents = show_int p95Downside,
          c_utilization_p50_pct = formatBps utilizationP50,
          c_utilization_p95_pct = formatBps utilizationP95,
          c_confidence_score = ''0.9000'',
          c_risk_band = riskBand p95Downside (maxDownsideLossCents policy),
          c_feasible = (binding = []), c_binding_constraints = binding\<rparr>)"

definition evaluateItem :: "optimizer_run \<Rightarrow> policy_snapshot \<Rightarrow> forecast_point list \<Rightarrow> price_item
    \<Rightarrow> candidate list result" where
  "evaluateItem run policy points item =
     (if points = [] then Inr []
      else bindR (traverseR (\<lambda>point. bigintR (p_cost point)) points) (\<lambda>costs.
        let eligibleCosts = js_sort sortBigInt costs in
        bindR (bigintR (i_hourlyRateCents item)) (\<lambda>hourlyRate.
        bindR (bigintR (i_upfrontCents item)) (\<lambda>upfront.
        Inr [evaluate_costs run policy (hd points) item hourlyRate upfront eligibleCosts]))))"

section \<open>Ranking\<close>

definition compareCandidates :: "candidate \<Rightarrow> candidate \<Rightarrow> int" where
  "compareCandidates left right =
     (if c_feasible left \<noteq> c_feasible right then (if c_feasible left then - 1 else 1)
      else let expected = bigint (c_expected_savings_cents right) - bigint (c_expected_savings_cents left) in
        if expected \<noteq> 0 then (if expected > 0 then 1 else - 1)
        else let downside = bigint (c_p95_downside_loss_cents left) - bigint (c_p95_downside_loss_cents right) in
          if downside = 0 then 0 else if downside > 0 then 1 else - 1)"

definition optimizeCommitmentInstrument :: "optimizer_run \<Rightarrow> (string \<times> json) list \<Rightarrow> (string \<times> json) list
    \<Rightarrow> price_item list \<Rightarrow> candidate list result" where
  "optimizeCommitmentInstrument run snapshot forecast priceItems =
     (let points = filter (\<lambda>point. p_provider point = r_provider run \<and> p_region point \<noteq> [])
            (forecastPoints forecast) in
      bindR (policySnapshot snapshot) (\<lambda>policy.
      bindR (traverseR (\<lambda>item. evaluateItem run policy (pointsForItem points item) item) priceItems) (\<lambda>lists.
      Inr (js_sort compareCandidates (concat lists)))))"

definition requireInstrument :: "optimizer_run \<Rightarrow> provider \<Rightarrow> instrument \<Rightarrow> unit result" where
  "requireInstrument run provider instrument =
     (if r_provider run \<noteq> provider \<or> r_instrument run \<noteq> instrument
      then Inl (Thrown ''optimizer instrument mismatch'') else Inr ())"

definition optimizeFor :: "provider \<Rightarrow> instrument \<Rightarrow> optimizer_run \<Rightarrow> (string \<times> json) list
    \<Rightarrow> (string \<times> json) list \<Rightarrow> price_item list \<Rightarrow> candidate list result" where
  "optimizeFor provider instrument run snapshot forecast priceItems =
     bindR (requireInstrument run provider instrument) (\<lambda>_.
       optimizeCommitmentInstrument run snapshot forecast priceItems)"

definition optimizeCommitmentRun :: "optimizer_run \<Rightarrow> (string \<times> json) list \<Rightarrow> (string \<times> json) list
    \<Rightarrow> price_item list \<Rightarrow> candidate list result" where
  "optimizeCommitmentRun run snapshot forecast priceItems =
     (case r_instrument run of
        AwsComputeSavingsPlan \<Rightarrow> optimizeFor Aws AwsComputeSavingsPlan run snapshot forecast priceItems
      | AwsReservedInstance \<Rightarrow> optimizeFor Aws AwsReservedInstance run snapshot forecast priceItems
      | AzureSavingsPlan \<Rightarrow> optimizeFor Azure AzureSavingsPlan run snapshot forecast priceItems
      | AzureReservation \<Rightarrow> optimizeFor Azure AzureReservation run snapshot forecast priceItems
      | GcpCommittedUseDiscount \<Rightarrow> optimizeFor Gcp GcpCommittedUseDiscount run snapshot forecast priceItems)"


section \<open>Lemmas on the arithmetic\<close>

interpretation bi: comparator sortBigInt
  by unfold_locales (auto simp: sortBigInt_def split: if_splits)

interpretation cc: comparator compareCandidates
  by unfold_locales (auto simp: compareCandidates_def Let_def split: if_splits)

lemma sortBigInt_le: "bi.le x y \<longleftrightarrow> x \<le> y"
  by (auto simp: bi.le_def sortBigInt_def)

lemma js_sort_bigint [simp]: "js_sort sortBigInt xs = sort xs"
proof (rule properties_for_sort [symmetric])
  show "sorted (js_sort sortBigInt xs)"
    using bi.js_sort_sorted [of xs] by (simp add: sortBigInt_le [abs_def])
qed simp

lemma sort_eq_Nil [simp]: "sort xs = [] \<longleftrightarrow> xs = []"
  by (metis length_0_conv length_sort)

lemma percentile_index:
  fixes n pct :: nat
  assumes "0 < n" and "0 < pct" and "pct \<le> 100"
  shows "(pct * n + 99) div 100 - 1 < n"
    and "pct * n \<le> 100 * ((pct * n + 99) div 100 - 1 + 1)"
    and "100 * ((pct * n + 99) div 100 - 1) < pct * n"
proof -
  let ?k = "(pct * n + 99) div 100"
  have p: "0 < pct * n" using assms by simp
  then have k: "0 < ?k" by (simp add: div_greater_zero_iff)
  have "pct * n \<le> 100 * n" using assms by simp
  then have "?k \<le> (100 * n + 99) div 100" by (intro div_le_mono) simp
  then have "?k \<le> n" by simp
  with k show "?k - 1 < n" by linarith
  have "pct * n + 99 < 100 * ?k + 100" using dividend_less_times_div [of 100 "pct * n + 99"] by simp
  with k show "pct * n \<le> 100 * (?k - 1 + 1)" by simp
  have "100 * ?k \<le> pct * n + 99" by simp
  with k show "100 * (?k - 1) < pct * n" by (simp add: diff_mult_distrib2)
qed

lemma percentile_mem: "vs \<noteq> [] \<Longrightarrow> 0 < pct \<Longrightarrow> pct \<le> 100 \<Longrightarrow> percentile vs pct \<in> set vs"
  unfolding percentile_def using percentile_index(1) [of "length vs" pct] by simp

text \<open>The percentile of a sorted list has at least its share of the values at or below it, and
  less than its share strictly below it.\<close>

lemma percentile_share:
  assumes "vs \<noteq> []" and "0 < pct" and "pct \<le> 100"
  shows "pct * length vs \<le> 100 * length (filter (\<lambda>v. v \<le> percentile (sort vs) pct) vs)"
    and "100 * length (filter (\<lambda>v. v < percentile (sort vs) pct) vs) < pct * length vs"
proof -
  let ?s = "sort vs" and ?k = "(pct * length vs + 99) div 100 - 1"
  have n: "0 < length vs" using assms by simp
  note k = percentile_index [OF n assms(2,3)]
  have "?s \<noteq> []" using assms(1) by (metis length_0_conv length_sort)
  then have p: "percentile ?s pct = ?s ! ?k" by (simp add: percentile_def)
  have len: "length (filter P vs) = length (filter P ?s)" for P
    by (metis filter_sort length_sort)
  have "set (take (?k + 1) ?s) \<subseteq> {v. v \<le> ?s ! ?k}"
  proof (safe, elim in_set_conv_nth [THEN iffD1, elim_format], safe)
    fix j assume "j < length (take (?k + 1) ?s)"
    with k(1) show "take (?k + 1) ?s ! j \<le> ?s ! ?k" by (simp add: sorted_nth_mono)
  qed
  then have "filter (\<lambda>v. v \<le> ?s ! ?k) (take (?k + 1) ?s) = take (?k + 1) ?s"
    by (simp add: filter_id_conv subset_iff)
  then have "?k + 1 \<le> length (filter (\<lambda>v. v \<le> ?s ! ?k) (take (?k + 1) ?s @ drop (?k + 1) ?s))"
    using k(1) by (simp del: append_take_drop_id)
  then have "?k + 1 \<le> length (filter (\<lambda>v. v \<le> percentile ?s pct) vs)"
    unfolding len p by simp
  with k(2) show "pct * length vs \<le> 100 * length (filter (\<lambda>v. v \<le> percentile ?s pct) vs)" by linarith
  have "\<forall>v\<in>set (drop ?k ?s). \<not> v < ?s ! ?k"
  proof
    fix v assume "v \<in> set (drop ?k ?s)"
    then obtain j where "j < length (drop ?k ?s)" "v = drop ?k ?s ! j" by (auto simp: in_set_conv_nth)
    then show "\<not> v < ?s ! ?k" by (simp add: not_less sorted_nth_mono)
  qed
  then have "filter (\<lambda>v. v < ?s ! ?k) (drop ?k ?s) = []" by (simp add: filter_empty_conv)
  then have "length (filter (\<lambda>v. v < ?s ! ?k) (take ?k ?s @ drop ?k ?s)) \<le> ?k"
    using length_filter_le [of "\<lambda>v. v < ?s ! ?k" "take ?k ?s"] by (simp del: append_take_drop_id)
  then have "length (filter (\<lambda>v. v < percentile ?s pct) vs) \<le> ?k" unfolding len p by simp
  with k(3) show "100 * length (filter (\<lambda>v. v < percentile ?s pct) vs) < pct * length vs" by linarith
qed

lemma roundedDiv_pos:
  assumes "0 < d" shows "roundedDiv n d = (if 0 \<le> n then (n + d div 2) div d else - ((- n + d div 2) div d))"
  using assms by (simp add: roundedDiv_def tdiv_nonneg)

lemma roundedDiv_error:
  assumes "0 < d" shows "2 * \<bar>d * roundedDiv n d - n\<bar> \<le> d"
proof -
  have e: "2 * \<bar>d * ((m + d div 2) div d) - m\<bar> \<le> d" for m
  proof -
    define h r p where "h = d div 2" and "r = (m + h) mod d" and "p = d * ((m + h) div d)"
    then have "p + r = m + h" by simp
    moreover have "0 \<le> r" "r < d" using assms by (simp_all add: r_def)
    moreover have "2 * h \<le> d" "d \<le> 2 * h + 1" unfolding h_def by linarith+
    ultimately have "2 * \<bar>p - m\<bar> \<le> d" by arith
    then show ?thesis by (simp add: p_def h_def)
  qed
  show ?thesis
    using e [of n] e [of "- n"] unfolding roundedDiv_pos [OF assms] by (auto simp: abs_if split: if_splits)
qed

lemma meanRounded_error:
  "2 * \<bar>int (length vs) * meanRounded vs - sum_list vs\<bar> \<le> int (length vs)"
proof (cases "vs = []")
  case False
  have "foldl (\<lambda>sum value. sum + value) 0 vs = sum_list vs"
    using foldl_add [of "\<lambda>x. x" 0 vs] by simp
  with False roundedDiv_error [of "int (length vs)" "sum_list vs"] show ?thesis
    by (simp add: meanRounded_def)
qed (simp add: meanRounded_def)

lemma utilization_bounds:
  assumes "0 \<le> cost" "0 \<le> commitment"
  shows "0 \<le> utilization commitment cost \<and> utilization commitment cost \<le> 10000"
proof (cases "commitment = 0")
  case False
  with assms have c: "0 < commitment" by simp
  let ?m = "minBigInt2 cost commitment * 10000"
  have "0 \<le> ?m" "?m \<le> 10000 * commitment" using assms by (auto simp: minBigInt2_def)
  moreover from this c have "?m div commitment \<le> 10000 * commitment div commitment"
    by (intro zdiv_mono1) auto
  ultimately show ?thesis using c by (simp add: utilization_def tdiv_nonneg pos_imp_zdiv_nonneg_iff)
qed (simp add: utilization_def)

lemma foldl_min_bound:
  fixes a :: int
  shows "(let m = foldl (\<lambda>m v. if v < m then v else m) a vs in
     m \<in> insert a (set vs) \<and> (\<forall>v\<in>insert a (set vs). m \<le> v))"
  by (induction vs arbitrary: a) (fastforce simp: Let_def)+

lemma foldl_max_bound:
  fixes a :: int
  shows "(let m = foldl (\<lambda>m v. if v > m then v else m) a vs in
     m \<in> insert a (set vs) \<and> (\<forall>v\<in>insert a (set vs). v \<le> m))"
  by (induction vs arbitrary: a) (fastforce simp: Let_def)+

lemma foldl_min: "foldl (\<lambda>m v. if v < m then v else m) a vs = Min (insert a (set vs))" for a :: int
  using foldl_min_bound [of a vs] by (intro Min_eqI [symmetric]) (auto simp: Let_def)

lemma foldl_max: "foldl (\<lambda>m v. if v > m then v else m) a vs = Max (insert a (set vs))" for a :: int
  using foldl_max_bound [of a vs] by (intro Max_eqI [symmetric]) (auto simp: Let_def)

lemma minBigInt_Min: "vs \<noteq> [] \<Longrightarrow> minBigInt vs = Min (set vs)"
  by (cases vs) (simp_all add: minBigInt_def foldl_min)

lemma maxBigInt_Max: "vs \<noteq> [] \<Longrightarrow> maxBigInt vs = Max (set vs)"
  by (cases vs) (simp_all add: maxBigInt_def foldl_max)


section \<open>Lemmas on the candidates\<close>

lemma optimizeCommitmentRun_eq:
  "optimizeCommitmentRun run snapshot forecast items =
     (if r_provider run = instrument_provider (r_instrument run)
      then optimizeCommitmentInstrument run snapshot forecast items
      else Inl (Thrown ''optimizer instrument mismatch''))"
  by (cases "r_instrument run")
    (simp_all add: optimizeCommitmentRun_def optimizeFor_def requireInstrument_def instrument_provider_def)

definition eligible_points :: "optimizer_run \<Rightarrow> (string \<times> json) list \<Rightarrow> price_item \<Rightarrow> forecast_point list" where
  "eligible_points run forecast item =
     pointsForItem (filter (\<lambda>point. p_provider point = r_provider run \<and> p_region point \<noteq> [])
       (forecastPoints forecast)) item"

lemma evaluateItem_Inr:
  "evaluateItem run policy points item = Inr cs \<longleftrightarrow>
     (if points = [] then cs = []
      else \<exists>costs hourly upfront. traverseR (\<lambda>point. bigintR (p_cost point)) points = Inr costs
        \<and> bigint_of (i_hourlyRateCents item) = Some hourly \<and> bigint_of (i_upfrontCents item) = Some upfront
        \<and> cs = [evaluate_costs run policy (hd points) item hourly upfront (sort costs)])"
  by (auto simp: evaluateItem_def bindR_eq_Inr Let_def)

lemma optimizer_result:
  assumes "optimizeCommitmentRun run snapshot forecast items = Inr cs"
  obtains policy lists where "policySnapshot snapshot = Inr policy"
    and "map (\<lambda>item. evaluateItem run policy (eligible_points run forecast item) item) items = map Inr lists"
    and "cs = js_sort compareCandidates (concat lists)"
    and "r_provider run = instrument_provider (r_instrument run)"
  using assms
  by (auto simp: optimizeCommitmentRun_eq optimizeCommitmentInstrument_def bindR_eq_Inr Let_def
      traverseR_Inr eligible_points_def split: if_splits)

text \<open>Where a candidate comes from.\<close>

lemma optimizer_candidate:
  assumes "optimizeCommitmentRun run snapshot forecast items = Inr cs" and "c \<in> set cs"
  obtains policy item costs hourly upfront where "policySnapshot snapshot = Inr policy" and "item \<in> set items"
    and "eligible_points run forecast item \<noteq> []"
    and "traverseR (\<lambda>point. bigintR (p_cost point)) (eligible_points run forecast item) = Inr costs"
    and "bigint_of (i_hourlyRateCents item) = Some hourly" and "bigint_of (i_upfrontCents item) = Some upfront"
    and "c = evaluate_costs run policy (hd (eligible_points run forecast item)) item hourly upfront (sort costs)"
proof -
  from assms(1) obtain policy lists where p: "policySnapshot snapshot = Inr policy"
    and m: "map (\<lambda>item. evaluateItem run policy (eligible_points run forecast item) item) items = map Inr lists"
    and cs: "cs = js_sort compareCandidates (concat lists)"
    by (rule optimizer_result)
  from assms(2) cs obtain l where l: "l \<in> set lists" "c \<in> set l" by auto
  from m have "(\<lambda>item. evaluateItem run policy (eligible_points run forecast item) item) ` set items = Inr ` set lists"
    by (metis set_map)
  with l(1) obtain item where i: "item \<in> set items"
    and e: "evaluateItem run policy (eligible_points run forecast item) item = Inr l"
    by (metis (no_types, lifting) imageE imageI)
  from e l(2) have "eligible_points run forecast item \<noteq> []" by (auto simp: evaluateItem_Inr)
  with e l(2) p i that show thesis by (auto simp: evaluateItem_Inr)
qed

definition ranked_before :: "candidate \<Rightarrow> candidate \<Rightarrow> bool" where
  "ranked_before c d \<longleftrightarrow>
     bigint (c_expected_savings_cents c) > bigint (c_expected_savings_cents d)
     \<or> (bigint (c_expected_savings_cents c) = bigint (c_expected_savings_cents d)
        \<and> bigint (c_p95_downside_loss_cents c) \<le> bigint (c_p95_downside_loss_cents d))"

lemma le_ranked: "cc.le c d \<Longrightarrow> c_feasible c = c_feasible d \<Longrightarrow> ranked_before c d"
  by (auto simp: cc.le_def compareCandidates_def ranked_before_def Let_def split: if_splits)

lemma evaluate_fields:
  fixes costs :: "int list"
  defines "n \<equiv> \<lambda>commitment policy item hourly upfront.
    net commitment (hourly * 730) (roundedDiv upfront (i_termMonths item))
      (roundedDiv (upfront * liquidityPenaltyBps policy) 10000)"
  assumes "c = evaluate_costs run policy point item hourly upfront costs"
  shows "bigint (c_commitment_amount_cents c) = percentile costs 50"
    and "bigint (c_expected_savings_cents c)
      = max 0 (meanRounded (map (n (percentile costs 50) policy item hourly upfront) costs))"
    and "bigint (c_p95_downside_loss_cents c)
      = percentile (sort (map (\<lambda>v. max 0 (- v)) (map (n (percentile costs 50) policy item hourly upfront) costs))) 95"
    and "c_utilization_p50_pct c = formatBps (percentile (sort (map (utilization (percentile costs 50)) costs)) 50)"
    and "c_utilization_p95_pct c = formatBps (percentile (sort (map (utilization (percentile costs 50)) costs)) 95)"
    and "c_binding_constraints c = bindingConstraints policy
      (meanRounded (map (n (percentile costs 50) policy item hourly upfront) costs))
      (bigint (c_p95_downside_loss_cents c))
      (10000 - percentile (sort (map (utilization (percentile costs 50)) costs)) 50)"
    and "c_feasible c \<longleftrightarrow> c_binding_constraints c = []"
    and "c_risk_band c = riskBand (bigint (c_p95_downside_loss_cents c)) (maxDownsideLossCents policy)"
proof -
  have m: "(if v < 0 then - v else 0) = max 0 (- v)" for v :: int by simp
  have s: "sort (sort xs) = sort xs" for xs :: "int list" by (simp add: sort_key_id_if_sorted)
  note d = assms(2) [unfolded evaluate_costs_def Let_def] n_def HOURS_PER_MONTH_def
  show "bigint (c_commitment_amount_cents c) = percentile costs 50" by (simp add: d)
  show "bigint (c_expected_savings_cents c)
      = max 0 (meanRounded (map (n (percentile costs 50) policy item hourly upfront) costs))" by (simp add: d)
  show p: "bigint (c_p95_downside_loss_cents c)
      = percentile (sort (map (\<lambda>v. max 0 (- v)) (map (n (percentile costs 50) policy item hourly upfront) costs))) 95"
    by (simp add: d m comp_def)
  show "c_utilization_p50_pct c = formatBps (percentile (sort (map (utilization (percentile costs 50)) costs)) 50)"
    by (simp add: d)
  show "c_utilization_p95_pct c = formatBps (percentile (sort (map (utilization (percentile costs 50)) costs)) 95)"
    by (simp add: d s)
  show "c_binding_constraints c = bindingConstraints policy
      (meanRounded (map (n (percentile costs 50) policy item hourly upfront) costs))
      (bigint (c_p95_downside_loss_cents c))
      (10000 - percentile (sort (map (utilization (percentile costs 50)) costs)) 50)"
    by (simp add: d)
  show "c_feasible c \<longleftrightarrow> c_binding_constraints c = []" by (simp add: d)
  show "c_risk_band c = riskBand (bigint (c_p95_downside_loss_cents c)) (maxDownsideLossCents policy)"
    by (simp add: d)
qed

lemma binding_empty:
  "bindingConstraints policy expected downside gap = [] \<longleftrightarrow>
     downside \<le> maxDownsideLossCents policy \<and> minExpectedSavingsCents policy \<le> expected
     \<and> gap \<le> maxUtilizationGapBps policy"
  by (auto simp: bindingConstraints_def)

end
