(* ===== verification/Optimizer_Claims.thy ===== *)
theory Optimizer_Claims
  imports Optimizer
begin

text \<open>
  The properties of the optimizer's computation (theory Optimizer): which candidate is selected,
  what a feasible candidate guarantees, and what its statistics mean.
\<close>

section \<open>A run to evaluate\<close>

definition sample_snapshot :: "(string \<times> json) list" where
  "sample_snapshot = [(''policy'', JObj [(''maxDownsideLossCents'', JStr ''300000''),
     (''minExpectedSavingsCents'', JStr ''1000''), (''maxUtilizationGapPct'', JStr ''25.00''),
     (''approvalThresholdCents'', JStr ''50000''), (''config'', JObj [(''liquidity_penalty_bps'', JInt 10)])]),
     (''forecast_run'', JObj [(''outputUri'', JStr ''f'')])]"

definition sample_point :: "string \<Rightarrow> json" where
  "sample_point cost = JObj [(''month'', JStr ''2026-01''), (''provider'', JStr ''aws''),
     (''service_code'', JStr ''EC2''), (''region'', JStr ''eu-1''), (''forecast_on_demand_cost_cents'', JStr cost)]"

definition sample_forecast :: "(string \<times> json) list" where
  "sample_forecast = [(''forecast_points'',
     JArr [sample_point ''100000'', sample_point ''80000'', sample_point ''120000''])]"

definition sample_run :: optimizer_run where
  "sample_run = \<lparr>r_id = ''r'', r_tenantId = ''t'', r_provider = Aws, r_instrument = AwsReservedInstance,
     r_priceTableVersionIds = [''v''], r_inputSnapshotUri = ''s''\<rparr>"

definition sample_item :: "string \<Rightarrow> price_item" where
  "sample_item rate = \<lparr>i_sku = ''m5'', i_region = ''eu-1'', i_termMonths = 12, i_paymentOption = ''monthly'',
     i_hourlyRateCents = rate, i_upfrontCents = ''1200'', i_coverageRules = [(''service_code'', JStr ''EC2'')]\<rparr>"

definition sample_items :: "price_item list" where
  "sample_items = [sample_item ''100'', sample_item ''90'', sample_item ''600'']"

definition sample_policy :: policy_snapshot where
  "sample_policy = \<lparr>maxDownsideLossCents = 300000, minExpectedSavingsCents = 1000, maxUtilizationGapBps = 2500,
     approvalThresholdCents = 50000, liquidityPenaltyBps = 10\<rparr>"

definition sample_candidate :: "string \<Rightarrow> candidate" where
  "sample_candidate rate = evaluate_costs sample_run sample_policy (hd (forecastPoints sample_forecast))
     (sample_item rate) (bigint rate) 1200 [80000, 100000, 120000]"

definition sample_candidates :: "candidate list" where
  "sample_candidates = [sample_candidate ''90'', sample_candidate ''100'', sample_candidate ''600'']"

lemma sample_policy_ok: "policySnapshot sample_snapshot = Inr sample_policy"
  by code_simp

lemma sample_points: "eligible_points sample_run sample_forecast (sample_item rate) = forecastPoints sample_forecast"
proof -
  have "coverageServiceCode (sample_item rate) = coverageServiceCode (sample_item [])"
    "i_region (sample_item rate) = i_region (sample_item [])"
    by (simp_all add: coverageServiceCode_def sample_item_def Let_def)
  then have "eligible_points sample_run sample_forecast (sample_item rate)
      = eligible_points sample_run sample_forecast (sample_item [])"
    by (simp add: eligible_points_def pointsForItem_def)
  also have "\<dots> = forecastPoints sample_forecast" by code_simp
  finally show ?thesis .
qed

lemma sample_costs:
  "traverseR (\<lambda>point. bigintR (p_cost point)) (forecastPoints sample_forecast) = Inr [100000, 80000, 120000]"
  by code_simp

lemma sample_evaluated:
  assumes "bigint_of rate = Some r"
  shows "evaluateItem sample_run sample_policy (eligible_points sample_run sample_forecast (sample_item rate))
    (sample_item rate) = Inr [sample_candidate rate]"
proof -
  have "forecastPoints sample_forecast \<noteq> []" by code_simp
  moreover have "bigint_of (i_hourlyRateCents (sample_item rate)) = Some (bigint rate)"
    using assms by (simp add: sample_item_def bigint_def)
  moreover have "bigint_of (i_upfrontCents (sample_item rate)) = Some 1200"
    unfolding sample_item_def by code_simp
  ultimately show ?thesis
    unfolding evaluateItem_Inr sample_points sample_candidate_def using sample_costs by auto
qed

lemma sample_fields:
  "c_feasible (sample_candidate ''90'')" "c_feasible (sample_candidate ''100'')" "\<not> c_feasible (sample_candidate ''600'')"
  "c_expected_savings_cents (sample_candidate ''90'') = ''27532''"
  "c_expected_savings_cents (sample_candidate ''100'') = ''20232''"
  by code_simp+

lemma sample_candidates_ok:
  "optimizeCommitmentRun sample_run sample_snapshot sample_forecast sample_items = Inr sample_candidates"
proof -
  have b: "bigint_of ''90'' = Some 90" "bigint_of ''100'' = Some 100" "bigint_of ''600'' = Some 600"
    by code_simp+
  have c: "compareCandidates (sample_candidate ''100'') (sample_candidate ''90'') > 0"
    "compareCandidates (sample_candidate ''100'') (sample_candidate ''600'') \<le> 0"
    "compareCandidates (sample_candidate ''90'') (sample_candidate ''600'') \<le> 0"
  proof -
    have "bigint ''27532'' = 27532" "bigint ''20232'' = 20232" by code_simp+
    then show "compareCandidates (sample_candidate ''100'') (sample_candidate ''90'') > 0"
      "compareCandidates (sample_candidate ''100'') (sample_candidate ''600'') \<le> 0"
      "compareCandidates (sample_candidate ''90'') (sample_candidate ''600'') \<le> 0"
      by (simp_all add: compareCandidates_def sample_fields Let_def)
  qed
  have "r_provider sample_run = instrument_provider (r_instrument sample_run)" by code_simp
  then show ?thesis
    using sample_evaluated [OF b(1)] sample_evaluated [OF b(2)] sample_evaluated [OF b(3)] c
    by (simp add: optimizeCommitmentRun_eq optimizeCommitmentInstrument_def sample_policy_ok sample_items_def
        sample_candidates_def eligible_points_def Let_def)
qed

section \<open>Selection\<close>

text \<open>
  C1: The optimizer selects the best feasible candidate: whenever some candidate is feasible, the
  first feasible one of the ranking (the worker's \<open>feasible[0]\<close>) exists and no feasible candidate
  has higher expected savings, or equal savings and a lower p95 downside loss.
\<close>

theorem optimizer_selects_best:
  assumes "optimizeCommitmentRun run snapshot forecast items = Inr cs" and "c \<in> set cs" and "c_feasible c"
  shows "\<exists>sel rest. filter c_feasible cs = sel # rest \<and> sel \<in> set cs \<and> ranked_before sel c"
proof -
  from assms(1) obtain lists where cs: "cs = js_sort compareCandidates (concat lists)" by (rule optimizer_result)
  have "c \<in> set (filter c_feasible cs)" using assms(2,3) by simp
  then obtain sel rest where s: "filter c_feasible cs = sel # rest" by (cases "filter c_feasible cs") auto
  then have "sel \<in> set cs" "c_feasible sel" using filter_hd_in [OF s] by auto
  moreover have "cc.le sel c"
    using cc.js_sort_first_filtered [of c_feasible "concat lists" sel rest c] s assms(2,3) unfolding cs by simp
  ultimately show ?thesis using s le_ranked assms(3) by blast
qed

theorem optimizer_selects_best_witness:
  "\<exists>sel rest. filter c_feasible sample_candidates = sel # rest \<and> sel \<in> set sample_candidates
     \<and> ranked_before sel (sample_candidate ''100'')"
  by (rule optimizer_selects_best [OF sample_candidates_ok]) (simp_all add: sample_candidates_def sample_fields)

text \<open>
  C33: Every item is considered, and nothing else: a run that succeeds has exactly one candidate per
  price item with a matching forecast point, feasible candidates are listed before infeasible ones,
  and each of the two groups is in decreasing order of savings (ties by increasing downside).
\<close>

theorem optimizer_ranking_complete:
  assumes "optimizeCommitmentRun run snapshot forecast items = Inr cs"
  shows "length cs = length (filter (\<lambda>item. eligible_points run forecast item \<noteq> []) items)
    \<and> mset (map c_region cs) = mset (map i_region (filter (\<lambda>item. eligible_points run forecast item \<noteq> []) items))
    \<and> sorted_wrt (\<lambda>c d. (c_feasible c \<and> \<not> c_feasible d) \<or> (c_feasible c = c_feasible d \<and> ranked_before c d)) cs"
proof -
  from assms obtain policy lists where
    m: "map (\<lambda>item. evaluateItem run policy (eligible_points run forecast item) item) items = map Inr lists"
    and cs: "cs = js_sort compareCandidates (concat lists)" by (rule optimizer_result)
  have one: "map c_region (concat lists) = map i_region (filter (\<lambda>item. eligible_points run forecast item \<noteq> []) items)"
    using m
  proof (induction items arbitrary: lists)
    case (Cons item items)
    then obtain l ls where ls: "lists = l # ls" by (cases lists) auto
    with Cons have "map c_region (concat ls) = map i_region (filter (\<lambda>item. eligible_points run forecast item \<noteq> []) items)"
      and "evaluateItem run policy (eligible_points run forecast item) item = Inr l" by auto
    then show ?case by (auto simp: ls evaluateItem_Inr evaluate_costs_def Let_def)
  qed simp
  then have "length (concat lists) = length (filter (\<lambda>item. eligible_points run forecast item \<noteq> []) items)"
    by (metis length_map)
  moreover have "mset (map c_region cs) = mset (map c_region (concat lists))" by (simp add: cs)
  moreover have "sorted_wrt (\<lambda>c d. (c_feasible c \<and> \<not> c_feasible d) \<or> (c_feasible c = c_feasible d \<and> ranked_before c d)) cs"
  proof (rule sorted_wrt_mono_rel)
    show "sorted_wrt cc.le cs" unfolding cs by (rule cc.js_sort_sorted)
    show "\<And>c d. cc.le c d \<Longrightarrow> (c_feasible c \<and> \<not> c_feasible d) \<or> (c_feasible c = c_feasible d \<and> ranked_before c d)"
      using le_ranked by (auto simp: cc.le_def compareCandidates_def Let_def split: if_splits)
  qed
  ultimately show ?thesis using one by (simp add: cs)
qed

theorem optimizer_ranking_complete_witness:
  "length sample_candidates = length (filter (\<lambda>item. eligible_points sample_run sample_forecast item \<noteq> []) sample_items)"
  using optimizer_ranking_complete [OF sample_candidates_ok] by blast

section \<open>Feasibility and statistics\<close>

text \<open>
  A feasible candidate respects the policy of the snapshot: its p95 downside loss is within the
  budget, its expected savings reach the minimum, its median utilization leaves a gap of at most
  the allowed one, no binding constraint is listed, and its risk band is not high. A candidate that
  is not feasible names a constraint.
\<close>

theorem feasible_respects_policy:
  assumes "optimizeCommitmentRun run snapshot forecast items = Inr cs" and "c \<in> set cs"
  shows "\<exists>policy u. policySnapshot snapshot = Inr policy \<and> c_utilization_p50_pct c = formatBps u
    \<and> (if c_feasible c
       then bigint (c_p95_downside_loss_cents c) \<le> maxDownsideLossCents policy
          \<and> minExpectedSavingsCents policy \<le> bigint (c_expected_savings_cents c)
          \<and> 10000 - u \<le> maxUtilizationGapBps policy
          \<and> c_binding_constraints c = [] \<and> c_risk_band c \<in> {Low, Medium}
       else c_binding_constraints c \<noteq> [])"
proof -
  from assms obtain policy item costs hourly upfront where p: "policySnapshot snapshot = Inr policy"
    and c: "c = evaluate_costs run policy (hd (eligible_points run forecast item)) item hourly upfront (sort costs)"
    by (rule optimizer_candidate)
  note f = evaluate_fields [OF c]
  let ?u = "percentile (sort (map (utilization (percentile (sort costs) 50)) (sort costs))) 50"
  have "c_utilization_p50_pct c = formatBps ?u" by (rule f(4))
  moreover have "bigint (c_p95_downside_loss_cents c) \<le> maxDownsideLossCents policy
          \<and> minExpectedSavingsCents policy \<le> bigint (c_expected_savings_cents c)
          \<and> 10000 - ?u \<le> maxUtilizationGapBps policy \<and> c_risk_band c \<in> {Low, Medium}"
    if "c_feasible c"
  proof -
    from that f(7) f(6) have "bindingConstraints policy
      (meanRounded (map (net (percentile (sort costs) 50) (hourly * 730) (roundedDiv upfront (i_termMonths item))
        (roundedDiv (upfront * liquidityPenaltyBps policy) 10000)) (sort costs)))
      (bigint (c_p95_downside_loss_cents c)) (10000 - ?u) = []" by simp
    then show ?thesis unfolding binding_empty f(2) f(8) riskBand_def by auto
  qed
  ultimately show ?thesis using p f(7) by (intro exI [of _ policy] exI [of _ ?u]) auto
qed

theorem feasible_respects_policy_witness:
  "bigint (c_p95_downside_loss_cents (sample_candidate ''90'')) \<le> 300000
    \<and> 1000 \<le> bigint (c_expected_savings_cents (sample_candidate ''90''))"
proof -
  have "sample_candidate ''90'' \<in> set sample_candidates" by (simp add: sample_candidates_def)
  from feasible_respects_policy [OF sample_candidates_ok this] sample_policy_ok show ?thesis
    by (auto simp: sample_fields sample_policy_def)
qed

definition monthly_nets :: "price_item \<Rightarrow> policy_snapshot \<Rightarrow> int \<Rightarrow> int \<Rightarrow> int list \<Rightarrow> int list" where
  "monthly_nets item policy hourly upfront costs =
     map (net (percentile (sort costs) 50) (hourly * 730) (roundedDiv upfront (i_termMonths item))
       (roundedDiv (upfront * liquidityPenaltyBps policy) 10000)) (sort costs)"

text \<open>
  What the numbers of a candidate say of the forecast months: in at least 95 percent of the
  months the loss is at most the p95 downside loss, which no smaller amount achieves; the
  commitment is a median of the monthly costs; and the expected savings are the mean monthly net,
  rounded to within half a cent, cut off at zero.
\<close>

theorem candidate_statistics:
  assumes "costs \<noteq> []"
  shows "let nets = monthly_nets item policy hourly upfront costs; c = evaluate_costs run policy point item hourly upfront (sort costs);
        loss = \<lambda>v. max 0 (- v); p95 = bigint (c_p95_downside_loss_cents c); n = length costs in
      95 * n \<le> 100 * length (filter (\<lambda>v. loss v \<le> p95) nets)
      \<and> 100 * length (filter (\<lambda>v. loss v < p95) nets) < 95 * n \<and> 0 \<le> p95
      \<and> n \<le> 2 * length (filter (\<lambda>x. x \<le> bigint (c_commitment_amount_cents c)) costs)
      \<and> 2 * length (filter (\<lambda>x. x < bigint (c_commitment_amount_cents c)) costs) < n
      \<and> (\<exists>mean. 2 * \<bar>int n * mean - sum_list nets\<bar> \<le> int n
            \<and> bigint (c_expected_savings_cents c) = max 0 mean)"
proof -
  define nets where "nets = monthly_nets item policy hourly upfront costs"
  define c where "c = evaluate_costs run policy point item hourly upfront (sort costs)"
  note f = evaluate_fields [OF c_def, folded monthly_nets_def, folded nets_def]
  let ?ls = "map (\<lambda>v. max 0 (- v)) nets"
  have ne: "?ls \<noteq> []" and len: "length nets = length costs"
    using assms by (simp_all add: nets_def monthly_nets_def)
  have fl: "length (filter P ?ls) = length (filter (\<lambda>v. P (max 0 (- v))) nets)" for P
    by (simp add: filter_map comp_def)
  have "bigint (c_p95_downside_loss_cents c) \<in> set (sort ?ls)"
    unfolding f(3) using ne by (intro percentile_mem) simp_all
  then have "0 \<le> bigint (c_p95_downside_loss_cents c)" by auto
  moreover have "95 * length costs \<le> 100 * length (filter (\<lambda>v. max 0 (- v) \<le> bigint (c_p95_downside_loss_cents c)) nets)"
    and "100 * length (filter (\<lambda>v. max 0 (- v) < bigint (c_p95_downside_loss_cents c)) nets) < 95 * length costs"
    using percentile_share [OF ne, of 95] unfolding f(3) fl by (simp_all add: len)
  moreover have "length costs \<le> 2 * length (filter (\<lambda>x. x \<le> bigint (c_commitment_amount_cents c)) costs)"
    and "2 * length (filter (\<lambda>x. x < bigint (c_commitment_amount_cents c)) costs) < length costs"
    using percentile_share [OF assms, of 50] unfolding f(1) by simp_all
  moreover have "\<exists>mean. 2 * \<bar>int (length costs) * mean - sum_list nets\<bar> \<le> int (length costs)
            \<and> bigint (c_expected_savings_cents c) = max 0 mean"
    using meanRounded_error [of nets] f(2) len by (intro exI [of _ "meanRounded nets"]) simp
  ultimately show ?thesis unfolding Let_def c_def [symmetric] nets_def [symmetric] by blast
qed

theorem candidate_statistics_witness:
  "2 * length (filter (\<lambda>x. x < bigint (c_commitment_amount_cents
     (evaluate_costs sample_run sample_policy (hd (forecastPoints sample_forecast)) (sample_item ''100'') 100 1200
       (sort [5, 3, 9])))) [5, 3, 9 :: int]) < length [5, 3, 9 :: int]"
proof -
  have "[5, 3, 9 :: int] \<noteq> []" by simp
  from candidate_statistics [OF this, where run = sample_run and policy = sample_policy
      and point = "hd (forecastPoints sample_forecast)" and item = "sample_item ''100''" and hourly = 100
      and upfront = 1200]
  show ?thesis unfolding Let_def by blast
qed

text \<open>
  Utilization percentages are between 0 and 100 (the CHECK constraint of the recommendations
  table): for forecast costs that are not negative, both utilization figures are the text of a
  number of basis points between 0 and 10000.
\<close>

lemma utilization_within_bounds:
  assumes "optimizeCommitmentRun run snapshot forecast items = Inr cs" and "c \<in> set cs"
    and "\<forall>point\<in>set (forecastPoints forecast). \<exists>i. bigint_of (p_cost point) = Some i \<and> 0 \<le> i"
  shows "\<exists>u v. c_utilization_p50_pct c = formatBps u \<and> 0 \<le> u \<and> u \<le> 10000
    \<and> c_utilization_p95_pct c = formatBps v \<and> 0 \<le> v \<and> v \<le> 10000"
proof -
  from assms(1,2) obtain policy item costs hourly upfront where
    ne: "eligible_points run forecast item \<noteq> []"
    and t: "traverseR (\<lambda>point. bigintR (p_cost point)) (eligible_points run forecast item) = Inr costs"
    and c: "c = evaluate_costs run policy (hd (eligible_points run forecast item)) item hourly upfront (sort costs)"
    by (rule optimizer_candidate)
  note f = evaluate_fields [OF c]
  have "set (eligible_points run forecast item) \<subseteq> set (forecastPoints forecast)"
    by (auto simp: eligible_points_def pointsForItem_def)
  then have pos: "\<forall>x\<in>set costs. 0 \<le> x"
    using traverseR_set [OF t] assms(3) by fastforce
  have ne': "sort costs \<noteq> []" using ne traverseR_length [OF t] by (metis length_0_conv length_sort)
  then have "percentile (sort costs) 50 \<in> set (sort costs)" by (rule percentile_mem) simp_all
  with pos have k: "0 \<le> percentile (sort costs) 50" by simp
  let ?us = "sort (map (utilization (percentile (sort costs) 50)) (sort costs))"
  have "?us \<noteq> []" using ne' by (metis length_0_conv length_map length_sort)
  then have "percentile ?us 50 \<in> set ?us" and "percentile ?us 95 \<in> set ?us"
    by (rule percentile_mem, simp, simp)+
  then have "0 \<le> percentile ?us p \<and> percentile ?us p \<le> 10000" if "p = 50 \<or> p = 95" for p
    using that pos utilization_bounds [OF _ k] by auto
  with f(4,5) show ?thesis by blast
qed

lemma utilization_within_bounds_witness:
  "\<exists>u v. c_utilization_p50_pct (sample_candidate ''90'') = formatBps u \<and> 0 \<le> u \<and> u \<le> 10000
    \<and> c_utilization_p95_pct (sample_candidate ''90'') = formatBps v \<and> 0 \<le> v \<and> v \<le> 10000"
proof (rule utilization_within_bounds [OF sample_candidates_ok])
  have "forecastPoints sample_forecast = map (\<lambda>cost. \<lparr>p_month = ''2026-01'', p_provider = Aws,
      p_service_code = ''EC2'', p_region = ''eu-1'', p_cost = cost\<rparr>) [''100000'', ''80000'', ''120000'']"
    by code_simp
  moreover have "bigint_of ''100000'' = Some 100000" "bigint_of ''80000'' = Some 80000"
    "bigint_of ''120000'' = Some 120000" by code_simp+
  ultimately show "\<forall>point\<in>set (forecastPoints sample_forecast). \<exists>i. bigint_of (p_cost point) = Some i \<and> 0 \<le> i"
    by simp
qed (simp add: sample_candidates_def)

text \<open>
  An instrument is only optimized for its own provider: the run fails with the mismatch error
  exactly when its provider is not the instrument's (its other failures are BigInt syntax errors).
\<close>

lemma instrument_mismatch:
  "optimizeCommitmentRun run snapshot forecast items = Inl (Thrown ''optimizer instrument mismatch'')
     \<longleftrightarrow> r_provider run \<noteq> instrument_provider (r_instrument run)"
proof -
  have b: "bigintR s \<noteq> Inl (Thrown ''optimizer instrument mismatch'')" for s by (simp add: bigintR_def)
  have d: "decimalPercentToBps s \<noteq> Inl (Thrown ''optimizer instrument mismatch'')" for s
    by (auto simp: decimalPercentToBps_def Let_def bindR_eq_Inl b)
  have tr: "traverseR f xs \<noteq> Inl e" if "\<And>x. f x \<noteq> Inl e" for f :: "'a \<Rightarrow> 'b result" and xs e
    using that by (induction xs) (auto simp: bindR_eq_Inl)
  have p: "policySnapshot snapshot \<noteq> Inl (Thrown ''optimizer instrument mismatch'')"
    by (auto simp: policySnapshot_def Let_def bindR_eq_Inl b d)
  have e: "evaluateItem run policy points item \<noteq> Inl (Thrown ''optimizer instrument mismatch'')" for policy points item
    by (auto simp: evaluateItem_def Let_def bindR_eq_Inl b tr)
  have "optimizeCommitmentInstrument run snapshot forecast items \<noteq> Inl (Thrown ''optimizer instrument mismatch'')"
    by (auto simp: optimizeCommitmentInstrument_def Let_def bindR_eq_Inl p e tr)
  then show ?thesis by (simp add: optimizeCommitmentRun_eq)
qed

end
