(* ===== verification/Effects.thy ===== *)
theory Effects
  imports Prelude
begin

text \<open>
  Sequences of calls that may throw. A worker's world is its database and its object store; a
  computation takes the world to a result and a new world. Every call to the outside goes through
  \<open>call\<close>, which asks a fault schedule what happens to the n-th call: it succeeds, it throws before
  it has any effect, or it takes effect and its acknowledgement is lost. \<open>valid\<close> is the Hoare
  triple with an exception postcondition: it holds for every fault schedule.
\<close>

datatype fault = NoFault | FailBefore | FailAfter

type_synonym ('w, 'a) eff = "nat \<times> 'w \<Rightarrow> 'a result \<times> (nat \<times> 'w)"

definition returnM :: "'a \<Rightarrow> ('w, 'a) eff" where
  "returnM x e = (Inr x, e)"

definition liftM :: "'a result \<Rightarrow> ('w, 'a) eff" where
  "liftM r e = (r, e)"

definition bindM :: "('w, 'a) eff \<Rightarrow> ('a \<Rightarrow> ('w, 'b) eff) \<Rightarrow> ('w, 'b) eff" where
  "bindM m f e = (case m e of (Inl err, e') \<Rightarrow> (Inl err, e') | (Inr x, e') \<Rightarrow> f x e')"

text \<open>\<open>try \{ m \} catch \{ h \}\<close>.\<close>

definition catchM :: "('w, 'a) eff \<Rightarrow> ('w, 'a) eff \<Rightarrow> ('w, 'a) eff" where
  "catchM m h e = (case m e of (Inl err, e') \<Rightarrow> h e' | (Inr x, e') \<Rightarrow> (Inr x, e'))"

definition call :: "(nat \<Rightarrow> fault) \<Rightarrow> ('w \<Rightarrow> 'a result \<times> 'w) \<Rightarrow> ('w, 'a) eff" where
  "call faults operation e =
     (let n = fst e; w = snd e in
      case faults n of
        NoFault \<Rightarrow> (fst (operation w), (n + 1, snd (operation w)))
      | FailBefore \<Rightarrow> (Inl (Thrown ''connection lost''), (n + 1, w))
      | FailAfter \<Rightarrow> (Inl (Thrown ''connection lost''), (n + 1, snd (operation w))))"

text \<open>The shape of the three workers' \<open>processNext\<close>.\<close>

definition process_next :: "('w, 'run option) eff \<Rightarrow> 'a \<Rightarrow> ('run \<Rightarrow> ('w, 'a) eff) \<Rightarrow> ('run \<Rightarrow> ('w, 'a) eff) \<Rightarrow> ('w, 'a) eff" where
  "process_next claim idle body on_fail =
     bindM claim (\<lambda>nxt. case nxt of
        None \<Rightarrow> returnM idle
      | Some run \<Rightarrow> catchM (body run) (on_fail run))"

section \<open>Hoare triples\<close>

definition valid :: "('w \<Rightarrow> bool) \<Rightarrow> ('w, 'a) eff \<Rightarrow> ('a \<Rightarrow> 'w \<Rightarrow> bool) \<Rightarrow> ('w \<Rightarrow> bool) \<Rightarrow> bool" where
  "valid P m Q E \<longleftrightarrow>
     (\<forall>n w. P w \<longrightarrow> (case m (n, w) of (Inr x, (_, w')) \<Rightarrow> Q x w' | (Inl _, (_, w')) \<Rightarrow> E w'))"

lemma valid_return: "(\<And>w. P w \<Longrightarrow> Q x w) \<Longrightarrow> valid P (returnM x) Q E"
  by (simp add: valid_def returnM_def)

lemma valid_lift: "(\<And>w x. P w \<Longrightarrow> r = Inr x \<Longrightarrow> Q x w) \<Longrightarrow> (\<And>w. P w \<Longrightarrow> E w) \<Longrightarrow> valid P (liftM r) Q E"
  by (cases r) (auto simp: valid_def liftM_def)

lemma valid_bind:
  assumes "valid P m R E" and "\<And>x. valid (R x) (f x) Q E"
  shows "valid P (bindM m f) Q E"
  unfolding valid_def
proof (intro allI impI)
  fix n w assume "P w"
  with assms(1) have m: "case m (n, w) of (Inr x, (_, w')) \<Rightarrow> R x w' | (Inl _, (_, w')) \<Rightarrow> E w'"
    by (simp add: valid_def)
  show "case bindM m f (n, w) of (Inr x, (_, w')) \<Rightarrow> Q x w' | (Inl _, (_, w')) \<Rightarrow> E w'"
  proof -
    obtain r n' w' where "m (n, w) = (r, n', w')" by (metis prod_cases3)
    with m assms(2) show ?thesis
      unfolding valid_def bindM_def by (cases r) (simp_all split: prod.splits sum.splits)
  qed
qed

lemma valid_step: "valid P m (\<lambda>_. P) E \<Longrightarrow> (\<And>x. valid P (f x) Q E) \<Longrightarrow> valid P (bindM m f) Q E"
  by (rule valid_bind)

lemma valid_catch:
  assumes "valid P m Q R" and "valid R h Q E"
  shows "valid P (catchM m h) Q E"
  unfolding valid_def
proof (intro allI impI)
  fix n w assume "P w"
  with assms(1) have m: "case m (n, w) of (Inr x, (_, w')) \<Rightarrow> Q x w' | (Inl _, (_, w')) \<Rightarrow> R w'"
    by (simp add: valid_def)
  show "case catchM m h (n, w) of (Inr x, (_, w')) \<Rightarrow> Q x w' | (Inl _, (_, w')) \<Rightarrow> E w'"
  proof -
    obtain r n' w' where "m (n, w) = (r, n', w')" by (metis prod_cases3)
    with m assms(2) show ?thesis
      unfolding valid_def catchM_def by (cases r) (simp_all split: prod.splits sum.splits)
  qed
qed

lemma valid_call:
  assumes "\<And>w x. P w \<Longrightarrow> fst (operation w) = Inr x \<Longrightarrow> Q x (snd (operation w))"
    and "\<And>w. P w \<Longrightarrow> E (snd (operation w))" and "\<And>w. P w \<Longrightarrow> E w"
  shows "valid P (call faults operation) Q E"
  unfolding valid_def call_def
proof (intro allI impI)
  fix n w assume "P w"
  with assms show "case (let n' = fst (n, w); w' = snd (n, w) in case faults n' of
        NoFault \<Rightarrow> (fst (operation w'), (n' + 1, snd (operation w')))
      | FailBefore \<Rightarrow> (Inl (Thrown ''connection lost''), (n' + 1, w'))
      | FailAfter \<Rightarrow> (Inl (Thrown ''connection lost''), (n' + 1, snd (operation w')))) of
      (Inr x, (_, w')) \<Rightarrow> Q x w' | (Inl _, (_, w')) \<Rightarrow> E w'"
    by (cases "fst (operation w)"; cases "faults n") auto
qed

lemma valid_weaken:
  "valid P' m Q' E' \<Longrightarrow> (\<And>w. P w \<Longrightarrow> P' w) \<Longrightarrow> (\<And>x w. Q' x w \<Longrightarrow> Q x w) \<Longrightarrow> (\<And>w. E' w \<Longrightarrow> E w)
   \<Longrightarrow> valid P m Q E"
  unfolding valid_def by (fastforce split: prod.splits sum.splits)

lemma valid_absurd: "(\<And>w. \<not> P w) \<Longrightarrow> valid P m Q E"
  by (simp add: valid_def)

text \<open>A triple may speak of the world it starts in.\<close>

lemma valid_start: "(\<And>w0. P w0 \<Longrightarrow> valid (\<lambda>w. w = w0) m Q E) \<Longrightarrow> valid P m Q E"
  by (simp add: valid_def)

lemma validD:
  "valid P m Q E \<Longrightarrow> P w \<Longrightarrow> m (n, w) = (r, (n', w')) \<Longrightarrow> (case r of Inr x \<Rightarrow> Q x w' | Inl _ \<Rightarrow> E w')"
  unfolding valid_def by (drule spec [of _ n], drule spec [of _ w]) (simp split: sum.splits)

lemma valid_process:
  assumes "valid P claim R E"
    and "\<And>w. R None w \<Longrightarrow> Q idle w"
    and "\<And>run. valid (R (Some run)) (body run) Q (F run)"
    and "\<And>run. valid (F run) (on_fail run) Q E"
  shows "valid P (process_next claim idle body on_fail) Q E"
  unfolding process_next_def
proof (rule valid_bind [OF assms(1)])
  fix nxt show "valid (R nxt) (case nxt of None \<Rightarrow> returnM idle | Some run \<Rightarrow> catchM (body run) (on_fail run)) Q E"
    using assms by (cases nxt) (auto intro: valid_return valid_catch)
qed

end
