(* ===== verification/Job_Queue.thy ===== *)
theory Job_Queue
  imports Effects Js_Text
begin

text \<open>
  The run tables of the forecast, backtest and optimizer workers: a row has an id, a status and a
  creation time. \<open>claim_next\<close> is the transaction that claims the oldest queued row
  (\<open>ORDER BY created_at ASC, id ASC FOR UPDATE SKIP LOCKED LIMIT 1\<close>, then the guarded UPDATE);
  \<open>update_job\<close> is an \<open>UPDATE \<dots> WHERE id = $1 AND status = \<dots>\<close>. The locale \<open>job_worker\<close> is the
  contract between a worker and its repository, with what every worker guarantees under it.
\<close>

datatype job_status = Queued | Running | Completed | Failed | Infeasible | Cancelled

definition terminal_status :: "job_status \<Rightarrow> bool" where
  "terminal_status s = (s \<in> {Completed, Failed, Infeasible, Cancelled})"

text \<open>The transitions the lifecycle triggers of the run tables allow (migrations 0015, 0018, 0022).\<close>

definition status_transition :: "job_status \<Rightarrow> job_status \<Rightarrow> bool" where
  "status_transition old new =
     ((old = Queued \<and> new \<in> {Running, Failed, Cancelled})
      \<or> (old = Running \<and> new \<in> {Completed, Failed, Infeasible, Cancelled}))"

record 'd job =
  j_id :: string
  j_status :: job_status
  j_created_at :: int
  j_data :: 'd

definition queue_order :: "'d job \<Rightarrow> 'd job \<Rightarrow> int" where
  "queue_order a b =
     (if j_created_at a \<noteq> j_created_at b then j_created_at a - j_created_at b
      else if j_id a = j_id b then 0 else if j_id a < j_id b then - 1 else 1)"

definition update_job :: "string \<Rightarrow> job_status \<Rightarrow> job_status \<Rightarrow> ('d \<Rightarrow> 'd) \<Rightarrow> 'd job list \<Rightarrow> 'd job list" where
  "update_job jid guard status set_data jobs =
     map (\<lambda>j. if j_id j = jid \<and> j_status j = guard
              then j\<lparr>j_status := status, j_data := set_data (j_data j)\<rparr> else j) jobs"

definition find_job :: "'d job list \<Rightarrow> string \<Rightarrow> 'd job option" where
  "find_job jobs jid = find (\<lambda>j. j_id j = jid) jobs"

definition claim_next :: "'d job list \<Rightarrow> 'd job option \<times> 'd job list" where
  "claim_next jobs =
     (case js_sort queue_order (filter (\<lambda>j. j_status j = Queued) jobs) of
        [] \<Rightarrow> (None, jobs)
      | candidate # _ \<Rightarrow>
          let jobs' = update_job (j_id candidate) Queued Running (\<lambda>d. d) jobs
          in (find_job jobs' (j_id candidate), jobs'))"

definition unique_ids :: "'d job list \<Rightarrow> bool" where
  "unique_ids jobs = distinct (map j_id jobs)"

definition statuses :: "'d job list \<Rightarrow> string \<Rightarrow> job_status option" where
  "statuses jobs jid = map_option j_status (find_job jobs jid)"

lemma update_job_ids [simp]: "map j_id (update_job jid g s f jobs) = map j_id jobs"
  by (auto simp: update_job_def)

lemma unique_ids_update [simp]: "unique_ids (update_job jid g s f jobs) = unique_ids jobs"
  by (simp add: unique_ids_def)

lemma find_job_Some: "find_job jobs jid = Some j \<Longrightarrow> j \<in> set jobs \<and> j_id j = jid"
  by (induction jobs) (auto simp: find_job_def split: if_splits)

lemma find_job_unique: "unique_ids jobs \<Longrightarrow> j \<in> set jobs \<Longrightarrow> find_job jobs (j_id j) = Some j"
  by (induction jobs) (auto simp: find_job_def unique_ids_def)

lemma find_job_update:
  "find_job (update_job jid g s f jobs) k =
     map_option (\<lambda>j. if k = jid \<and> j_status j = g then j\<lparr>j_status := s, j_data := f (j_data j)\<rparr> else j)
       (find_job jobs k)"
  by (induction jobs) (auto simp: find_job_def update_job_def)

lemma statuses_update:
  "statuses (update_job jid g s f jobs) =
     (if statuses jobs jid = Some g then (statuses jobs)(jid \<mapsto> s) else statuses jobs)"
proof
  fix k
  show "statuses (update_job jid g s f jobs) k =
     (if statuses jobs jid = Some g then (statuses jobs)(jid \<mapsto> s) else statuses jobs) k"
    by (cases "find_job jobs k"; cases "k = jid") (auto simp: statuses_def find_job_update)
qed

interpretation qo: comparator "queue_order :: 'd job \<Rightarrow> 'd job \<Rightarrow> int"
proof
  fix x y z :: "'d job"
  show "queue_order x y \<le> 0 \<longleftrightarrow> 0 \<le> queue_order y x"
    by (auto simp: queue_order_def)
  show "queue_order x y \<le> 0 \<Longrightarrow> queue_order y z \<le> 0 \<Longrightarrow> queue_order x z \<le> 0"
    by (auto simp: queue_order_def split: if_splits)
qed

lemma claim_next_None:
  "fst (claim_next jobs) = None \<Longrightarrow> snd (claim_next jobs) = jobs \<and> (\<forall>j\<in>set jobs. j_status j \<noteq> Queued)"
proof -
  assume n: "fst (claim_next jobs) = None"
  let ?q = "js_sort queue_order (filter (\<lambda>j. j_status j = Queued) jobs)"
  show ?thesis
  proof (cases ?q)
    case Nil
    then have "filter (\<lambda>j. j_status j = Queued) jobs = []" by (metis length_0_conv length_js_sort)
    then show ?thesis using Nil by (auto simp: claim_next_def filter_empty_conv)
  next
    case (Cons c cs)
    then have "c \<in> set ?q" by simp
    then have "c \<in> set jobs" by simp
    then have "find_job (update_job (j_id c) Queued Running (\<lambda>d. d) jobs) (j_id c) \<noteq> None"
      by (induction jobs) (auto simp: find_job_def update_job_def)
    with n Cons show ?thesis by (simp add: claim_next_def Let_def)
  qed
qed

text \<open>The claimed row is the oldest queued one; nothing but its status changes.\<close>

lemma claim_next_Some:
  assumes "fst (claim_next jobs) = Some run" and "unique_ids jobs"
  obtains old where "old \<in> set jobs" and "j_status old = Queued" and "run = old\<lparr>j_status := Running\<rparr>"
    and "\<forall>j\<in>set jobs. j_status j = Queued \<longrightarrow> queue_order old j \<le> 0"
    and "snd (claim_next jobs) = update_job (j_id run) Queued Running (\<lambda>d. d) jobs"
    and "statuses (snd (claim_next jobs)) = (statuses jobs)(j_id run \<mapsto> Running)"
    and "statuses jobs (j_id run) = Some Queued"
proof -
  let ?q = "js_sort queue_order (filter (\<lambda>j. j_status j = Queued) jobs)"
  from assms(1) obtain old rest where q: "?q = old # rest"
    by (auto simp: claim_next_def split: list.splits)
  then have "old \<in> set ?q" by simp
  then have o: "old \<in> set jobs" "j_status old = Queued" by simp_all
  from q assms(1) have c: "find_job (update_job (j_id old) Queued Running (\<lambda>d. d) jobs) (j_id old) = Some run"
    and s: "snd (claim_next jobs) = update_job (j_id old) Queued Running (\<lambda>d. d) jobs"
    by (simp_all add: claim_next_def Let_def)
  have f: "find_job jobs (j_id old) = Some old" by (rule find_job_unique [OF assms(2) o(1)])
  with c o have r: "run = old\<lparr>j_status := Running\<rparr>" by (simp add: find_job_update)
  have least: "\<forall>j\<in>set jobs. j_status j = Queued \<longrightarrow> queue_order old j \<le> 0"
    using qo.js_sort_first [OF q] by (simp add: qo.le_def)
  have st: "statuses jobs (j_id old) = Some Queued" using f o by (simp add: statuses_def)
  show thesis
    by (rule that [OF o r least]) (use s st r in \<open>simp_all add: statuses_update\<close>)
qed

definition job_keys :: "'d job list \<Rightarrow> (string \<times> 'd) list" where
  "job_keys jobs = map (\<lambda>j. (j_id j, j_data j)) jobs"

lemma unique_ids_keys: "unique_ids jobs = distinct (map fst (job_keys jobs))"
  by (simp add: unique_ids_def job_keys_def comp_def)

lemma job_keys_update: "job_keys (update_job jid g s (\<lambda>d. d) jobs) = job_keys jobs"
  by (auto simp: job_keys_def update_job_def)

lemma job_keys_claim: "job_keys (snd (claim_next jobs)) = job_keys jobs"
  by (auto simp: claim_next_def Let_def job_keys_update split: list.splits)

lemma claim_next_statuses:
  assumes "unique_ids jobs"
  shows "case fst (claim_next jobs) of
      None \<Rightarrow> snd (claim_next jobs) = jobs
    | Some run \<Rightarrow> statuses jobs (j_id run) = Some Queued
        \<and> statuses (snd (claim_next jobs)) = (statuses jobs)(j_id run \<mapsto> Running)
        \<and> (j_id run, j_data run) \<in> set (job_keys jobs)"
proof (cases "fst (claim_next jobs)")
  case None
  then show ?thesis using claim_next_None [OF None] by simp
next
  case (Some run)
  from claim_next_Some [OF Some assms] obtain old where "old \<in> set jobs" "run = old\<lparr>j_status := Running\<rparr>"
    and "statuses (snd (claim_next jobs)) = (statuses jobs)(j_id run \<mapsto> Running)"
    and "statuses jobs (j_id run) = Some Queued" by metis
  then show ?thesis using Some by (auto simp: job_keys_def)
qed

section \<open>The contract of a worker\<close>

text \<open>
  \<open>st\<close> reads the statuses of the run table. The three laws: a claim moves one queued run to
  running or changes nothing; the body of the worker leaves its run alone or ends it; the
  failure handler ends its run if it is still running. Faults may happen in each of them.
\<close>

locale job_worker =
  fixes st :: "'w \<Rightarrow> string \<Rightarrow> job_status option"
    and inv :: "'w \<Rightarrow> bool"
    and run_id :: "'run \<Rightarrow> string"
    and claim :: "('w, 'run option) eff"
    and idle :: 'a
    and body :: "'run \<Rightarrow> ('w, 'a) eff"
    and on_fail :: "'run \<Rightarrow> ('w, 'a) eff"
  assumes claim_law: "valid (\<lambda>w. inv w \<and> st w = s) claim
      (\<lambda>nxt w. inv w \<and> (case nxt of None \<Rightarrow> st w = s
         | Some run \<Rightarrow> s (run_id run) = Some Queued \<and> st w = s(run_id run \<mapsto> Running)))
      (\<lambda>w. inv w \<and> (st w = s \<or> (\<exists>jid. s jid = Some Queued \<and> st w = s(jid \<mapsto> Running))))"
    and body_law: "s (run_id run) = Some Running \<Longrightarrow>
      valid (\<lambda>w. inv w \<and> st w = s) (body run)
      (\<lambda>_ w. inv w \<and> (\<exists>t. terminal_status t \<and> st w = s(run_id run \<mapsto> t)))
      (\<lambda>w. inv w \<and> (st w = s \<or> (\<exists>t. terminal_status t \<and> st w = s(run_id run \<mapsto> t))))"
    and fail_law: "valid (\<lambda>w. inv w \<and> st w = s) (on_fail run)
      (\<lambda>_ w. inv w \<and> st w = (if s (run_id run) = Some Running then s(run_id run \<mapsto> Failed) else s))
      (\<lambda>w. inv w \<and> (st w = s \<or> st w = (if s (run_id run) = Some Running then s(run_id run \<mapsto> Failed) else s)))"
begin

text \<open>
  When the worker returns, it has ended one queued run, or had none to take; when it throws, the run
  it took may be left running. No other run changes status.
\<close>

lemma worker_ends_run:
  "valid (\<lambda>w. inv w \<and> st w = s) (process_next claim idle body on_fail)
     (\<lambda>_ w. inv w \<and> (st w = s \<or> (\<exists>jid t. s jid = Some Queued \<and> terminal_status t \<and> st w = s(jid \<mapsto> t))))
     (\<lambda>w. inv w \<and> (st w = s \<or> (\<exists>jid t. s jid = Some Queued \<and> (t = Running \<or> terminal_status t) \<and> st w = s(jid \<mapsto> t))))"
    (is "valid ?P _ ?Q ?E")
proof (rule valid_process)
  let ?R = "\<lambda>nxt w. inv w \<and> (case nxt of None \<Rightarrow> st w = s
      | Some run \<Rightarrow> s (run_id run) = Some Queued \<and> st w = s(run_id run \<mapsto> Running))"
  let ?F = "\<lambda>run w. inv w \<and> s (run_id run) = Some Queued
      \<and> (st w = s(run_id run \<mapsto> Running) \<or> (\<exists>t. terminal_status t \<and> st w = s(run_id run \<mapsto> t)))"
  show "valid ?P claim ?R ?E" by (rule valid_weaken [OF claim_law [of s]]) auto
  show "?R None w \<Longrightarrow> ?Q idle w" for w by simp
  show "valid (?R (Some run)) (body run) ?Q (?F run)" for run
  proof (cases "s (run_id run) = Some Queued")
    case True
    show ?thesis
      by (rule valid_weaken [OF body_law [of "s(run_id run \<mapsto> Running)" run]]) (use True in auto)
  qed (simp add: valid_def)
  show "valid (?F run) (on_fail run) ?Q ?E" for run
  proof -
    have q: "valid (\<lambda>w. inv w \<and> st w = s') (on_fail run) ?Q ?E"
      if "s (run_id run) = Some Queued" "s' = s(run_id run \<mapsto> t)" "t = Running \<or> terminal_status t" for s' t
    proof -
      have "\<not> terminal_status Running" "terminal_status Failed" by (simp_all add: terminal_status_def)
      with that show ?thesis by (intro valid_weaken [OF fail_law [of s' run]]) (auto split: if_splits)
    qed
    show ?thesis
      unfolding valid_def
    proof (intro allI impI)
      fix n w assume f: "?F run w"
      then obtain t where "st w = s(run_id run \<mapsto> t)" "t = Running \<or> terminal_status t" by blast
      with f have "valid (\<lambda>w'. inv w' \<and> st w' = st w) (on_fail run) ?Q ?E" using q [of "st w" t] by simp
      from this [unfolded valid_def, rule_format, of w n] f show "case on_fail run (n, w) of
          (Inr x, (_, w')) \<Rightarrow> ?Q x w' | (Inl _, (_, w')) \<Rightarrow> ?E w'"
        by simp
    qed
  qed
qed

end

end
