(* ===== verification/Optimizer_Worker.thy ===== *)
theory Optimizer_Worker
  imports Optimizer Job_Queue
begin

text \<open>
  core/optimizer-runs/optimizer-worker.ts, the worker, with the repository calls it makes
  (core/optimizer-runs/optimizer-runs-repository.ts) and the constraints of migrations 0018 and
  0019 that its writes meet. The world is the tables it touches and the object store. The JSON
  parser is a parameter; \<open>faults\<close> is the fault schedule of theory Effects.
\<close>

section \<open>Documents\<close>

definition risk_band_text :: "risk_band \<Rightarrow> string" where
  "risk_band_text b = (case b of Low \<Rightarrow> ''low'' | Medium \<Rightarrow> ''medium'' | High \<Rightarrow> ''high'' | Blocked \<Rightarrow> ''blocked'')"

definition constraint_text :: "binding_constraint \<Rightarrow> string" where
  "constraint_text c = (case c of RiskBudget \<Rightarrow> ''risk_budget''
     | MinimumExpectedSavings \<Rightarrow> ''minimum_expected_savings'' | UtilizationGap \<Rightarrow> ''utilization_gap'')"

definition candidate_json :: "candidate \<Rightarrow> json" where
  "candidate_json c = JObj
     [(''provider'', JStr (provider_text (c_provider c))),
      (''instrument'', JStr (instrument_text (c_instrument c))),
      (''service_code'', JStr (c_service_code c)),
      (''region'', JStr (c_region c)),
      (''term_months'', JInt (c_term_months c)),
      (''payment_option'', JStr (c_payment_option c)),
      (''commitment_amount_cents'', JStr (c_commitment_amount_cents c)),
      (''expected_savings_cents'', JStr (c_expected_savings_cents c)),
      (''p95_downside_loss_cents'', JStr (c_p95_downside_loss_cents c)),
      (''utilization_p50_pct'', JStr (c_utilization_p50_pct c)),
      (''utilization_p95_pct'', JStr (c_utilization_p95_pct c)),
      (''confidence_score'', JStr (c_confidence_score c)),
      (''risk_band'', JStr (risk_band_text (c_risk_band c))),
      (''feasible'', JBool (c_feasible c)),
      (''binding_constraints'', JArr (map (JStr \<circ> constraint_text) (c_binding_constraints c)))]"

definition buildOutput :: "optimizer_run \<Rightarrow> candidate \<Rightarrow> json" where
  "buildOutput run selected = JObj
     [(''schema_version'', JStr ''optimizer-run-output:v1''),
      (''optimizer_run_id'', JStr (r_id run)),
      (''selected_candidate'', candidate_json selected)]"

definition opt_string :: "string option \<Rightarrow> json" where
  "opt_string s = (case s of None \<Rightarrow> JNull | Some t \<Rightarrow> JStr t)"

definition frontier_summary :: "candidate list \<Rightarrow> candidate option \<Rightarrow> (string \<times> json) list" where
  "frontier_summary candidates selected =
     [(''candidate_count'', JInt (int (length candidates))),
      (''feasible_count'', JInt (int (length (filter c_feasible candidates)))),
      (''best_expected_savings_cents'',
         JStr (show_int (maxBigInt (map (bigint \<circ> c_expected_savings_cents) candidates)))),
      (''lowest_p95_downside_loss_cents'',
         JStr (show_int (minBigInt (map (bigint \<circ> c_p95_downside_loss_cents) candidates)))),
      (''selected_expected_savings_cents'', opt_string (map_option c_expected_savings_cents selected)),
      (''selected_p95_downside_loss_cents'', opt_string (map_option c_p95_downside_loss_cents selected))]"

definition buildFrontier :: "optimizer_run \<Rightarrow> candidate list \<Rightarrow> candidate option \<Rightarrow> json" where
  "buildFrontier run candidates selected = JObj
     [(''schema_version'', JStr ''optimizer-frontier:v1''),
      (''optimizer_run_id'', JStr (r_id run)),
      (''summary'', JObj (frontier_summary candidates selected)),
      (''points'', JArr (map candidate_json candidates))]"

definition infeasibilityDetails :: "candidate list \<Rightarrow> json" where
  "infeasibilityDetails candidates = JObj
     [(''reason'', JStr ''NO_FEASIBLE_CANDIDATES''),
      (''ranked_relaxations'', JArr
        [JObj [(''field'', JStr ''min_expected_savings_cents''), (''suggested_value'', JStr ''0'')],
         JObj [(''field'', JStr ''max_downside_loss_cents''),
               (''suggested_value'', JStr (show_int (minBigInt (map (bigint \<circ> c_p95_downside_loss_cents) candidates))))]])]"

text \<open>\<open>bytes(payload)\<close>.\<close>

definition json_bytes :: "json \<Rightarrow> string" where
  "json_bytes payload = stringify payload @ [CHR 0x0A]"

definition frontier_uri :: "optimizer_run \<Rightarrow> string" where
  "frontier_uri run = ''optimizer-runs/'' @ r_id run @ ''/frontier.json''"

definition output_uri :: "optimizer_run \<Rightarrow> string" where
  "output_uri run = ''optimizer-runs/'' @ r_id run @ ''/output.json''"

section \<open>Recommendations\<close>

datatype recommendation_status = Draft | Ready | PendingApproval | Approved | Rejected | Superseded | Executed | Expired

record recommendation_input =
  ri_recommendationType :: string
  ri_provider :: provider
  ri_instrument :: instrument
  ri_serviceCode :: string
  ri_region :: string
  ri_termMonths :: int
  ri_commitmentAmountCents :: string
  ri_expectedSavingsCents :: string
  ri_p95DownsideLossCents :: string
  ri_utilizationP50Pct :: string
  ri_utilizationP95Pct :: string
  ri_confidenceScore :: string
  ri_riskBand :: risk_band
  ri_status :: recommendation_status
  ri_approvalRequired :: bool
  ri_explanation :: json

definition recommendationInput :: "optimizer_run \<Rightarrow> (string \<times> json) list \<Rightarrow> candidate \<Rightarrow> recommendation_input result" where
  "recommendationInput run snapshot selected =
     bindR (policySnapshot snapshot) (\<lambda>policy.
     bindR (bigintR (c_commitment_amount_cents selected)) (\<lambda>commitment.
     let approvalRequired = (commitment \<ge> approvalThresholdCents policy) in
     Inr \<lparr>ri_recommendationType = ''buy'', ri_provider = c_provider selected,
       ri_instrument = c_instrument selected, ri_serviceCode = c_service_code selected,
       ri_region = c_region selected, ri_termMonths = c_term_months selected,
       ri_commitmentAmountCents = c_commitment_amount_cents selected,
       ri_expectedSavingsCents = c_expected_savings_cents selected,
       ri_p95DownsideLossCents = c_p95_downside_loss_cents selected,
       ri_utilizationP50Pct = c_utilization_p50_pct selected,
       ri_utilizationP95Pct = c_utilization_p95_pct selected,
       ri_confidenceScore = c_confidence_score selected, ri_riskBand = c_risk_band selected,
       ri_status = (if approvalRequired then PendingApproval else Ready),
       ri_approvalRequired = approvalRequired,
       ri_explanation = JObj
         [(''baseline_name'', JStr ''on_demand''),
          (''binding_constraints'', JArr [JStr ''risk_budget'']),
          (''price_table_version_ids'', JArr (map JStr (r_priceTableVersionIds run))),
          (''frontier_uri'', JStr (frontier_uri run))]\<rparr>))"

record recommendation_row =
  rec_tenantId :: string
  rec_runId :: string
  rec_input :: recommendation_input

text \<open>The CHECK constraints of the recommendations table that the inserted values can violate.\<close>

definition column_text_ok :: "string \<Rightarrow> bool" where
  "column_text_ok s = (s \<noteq> [] \<and> hd s \<noteq> CHR '' '' \<and> last s \<noteq> CHR '' '' \<and> length s \<le> 128
     \<and> (\<forall>c\<in>set s. \<not> control_char c))"

definition column_bigint_ok :: "string \<Rightarrow> bool" where
  "column_bigint_ok s = (case bigint_of s of None \<Rightarrow> False | Some i \<Rightarrow> 0 \<le> i \<and> i \<le> 9223372036854775807)"

definition column_percent_ok :: "string \<Rightarrow> bool" where
  "column_percent_ok s =
     (case split_on (CHR ''.'') s of
        [w, f] \<Rightarrow> w \<noteq> [] \<and> (\<forall>c\<in>set (w @ f). is_digit c) \<and> length f = 2 \<and> dec_val w * 100 + dec_val f \<le> 10000
      | _ \<Rightarrow> False)"

definition recommendation_check :: "recommendation_input \<Rightarrow> bool" where
  "recommendation_check i =
     (instrument_provider (ri_instrument i) = ri_provider i
      \<and> column_text_ok (ri_serviceCode i) \<and> column_text_ok (ri_region i)
      \<and> 0 < ri_termMonths i \<and> ri_termMonths i \<le> 2147483647
      \<and> column_bigint_ok (ri_commitmentAmountCents i) \<and> column_bigint_ok (ri_expectedSavingsCents i)
      \<and> column_bigint_ok (ri_p95DownsideLossCents i)
      \<and> column_percent_ok (ri_utilizationP50Pct i) \<and> column_percent_ok (ri_utilizationP95Pct i)
      \<and> (ri_approvalRequired i \<or> ri_status i \<in> {Draft, Ready, Superseded}))"

section \<open>World and repository\<close>

record run_data =
  d_run :: optimizer_run
  d_outputUri :: "string option"
  d_frontierUri :: "string option"
  d_infeasibilityDetails :: json
  d_errorDetails :: json

record price_row =
  pr_tenantId :: string
  pr_versionId :: string
  pr_provider :: provider
  pr_instrument :: instrument
  pr_item :: price_item

text \<open>The price rows are listed in the order of the query (region, sku, term, payment option).\<close>

record opt_world =
  w_runs :: "run_data job list"
  w_prices :: "price_row list"
  w_objects :: "(string \<times> string) list"
  w_recommendations :: "recommendation_row list"

definition claimNextQueuedOptimizerRun :: "opt_world \<Rightarrow> run_data job option result \<times> opt_world" where
  "claimNextQueuedOptimizerRun w =
     (let (run, runs) = claim_next (w_runs w) in (Inr run, w\<lparr>w_runs := runs\<rparr>))"

definition listFrozenPriceItems :: "optimizer_run \<Rightarrow> opt_world \<Rightarrow> price_item list result \<times> opt_world" where
  "listFrozenPriceItems run w =
     (Inr (map pr_item (filter (\<lambda>r. pr_tenantId r = r_tenantId run
         \<and> pr_versionId r \<in> set (r_priceTableVersionIds run) \<and> pr_provider r = r_provider run
         \<and> pr_instrument r = r_instrument run) (w_prices w))), w)"

definition insertRecommendation :: "optimizer_run \<Rightarrow> recommendation_input \<Rightarrow> opt_world \<Rightarrow> unit result \<times> opt_world" where
  "insertRecommendation run input w =
     (if recommendation_check input
         \<and> ri_provider input = r_provider run \<and> ri_instrument input = r_instrument run
      then (Inr (), w\<lparr>w_recommendations := w_recommendations w
              @ [\<lparr>rec_tenantId = r_tenantId run, rec_runId = r_id run, rec_input = input\<rparr>]\<rparr>)
      else (Inl (Thrown ''check_violation''), w))"

definition completeOptimizerRun :: "string \<Rightarrow> string \<Rightarrow> string \<Rightarrow> opt_world \<Rightarrow> unit result \<times> opt_world" where
  "completeOptimizerRun runId outputUri frontierUri w =
     (Inr (), w\<lparr>w_runs := update_job runId Running Completed
        (\<lambda>d. d\<lparr>d_outputUri := Some outputUri, d_frontierUri := Some frontierUri,
               d_infeasibilityDetails := JObj [], d_errorDetails := JObj []\<rparr>) (w_runs w)\<rparr>)"

definition markOptimizerRunInfeasible :: "string \<Rightarrow> string \<Rightarrow> json \<Rightarrow> opt_world \<Rightarrow> unit result \<times> opt_world" where
  "markOptimizerRunInfeasible runId frontierUri details w =
     (Inr (), w\<lparr>w_runs := update_job runId Running Infeasible
        (\<lambda>d. d\<lparr>d_outputUri := None, d_frontierUri := Some frontierUri,
               d_infeasibilityDetails := details, d_errorDetails := JObj []\<rparr>) (w_runs w)\<rparr>)"

definition failOptimizerRun :: "string \<Rightarrow> string \<Rightarrow> opt_world \<Rightarrow> unit result \<times> opt_world" where
  "failOptimizerRun runId error_code w =
     (Inr (), w\<lparr>w_runs := update_job runId Running Failed
        (\<lambda>d. d\<lparr>d_outputUri := None, d_frontierUri := None,
               d_infeasibilityDetails := JObj [], d_errorDetails := JObj [(''code'', JStr error_code)]\<rparr>) (w_runs w)\<rparr>)"

definition store_put :: "string \<Rightarrow> string \<Rightarrow> opt_world \<Rightarrow> unit result \<times> opt_world" where
  "store_put key bytes w = (Inr (), w\<lparr>w_objects := AList.update key bytes (w_objects w)\<rparr>)"

definition store_get :: "string \<Rightarrow> opt_world \<Rightarrow> string result \<times> opt_world" where
  "store_get key w = (orElse (map_of (w_objects w) key) (Thrown ''OBJECT_NOT_FOUND''), w)"

definition readJson :: "(string \<Rightarrow> json option) \<Rightarrow> (nat \<Rightarrow> fault) \<Rightarrow> string \<Rightarrow> (opt_world, (string \<times> json) list) eff" where
  "readJson json_parse faults key =
     bindM (call faults (store_get key)) (\<lambda>bytes.
     bindM (liftM (orElse (json_parse bytes) (Thrown ''SyntaxError''))) (\<lambda>parsed.
     returnM (case parsed of JObj kvs \<Rightarrow> kvs | _ \<Rightarrow> [])))"

section \<open>The worker\<close>

datatype worker_result =
    NotProcessed
  | Processed (res_run: string) (res_status: job_status) (res_output: "string option")
      (res_frontier: "string option") (res_count: nat)

definition process_body :: "(string \<Rightarrow> json option) \<Rightarrow> (nat \<Rightarrow> fault) \<Rightarrow> run_data job \<Rightarrow> (opt_world, worker_result) eff" where
  "process_body json_parse faults job =
     (let run = d_run (j_data job) in
     bindM (readJson json_parse faults (r_inputSnapshotUri run)) (\<lambda>snapshot.
     bindM (readJson json_parse faults (forecastOutputUri snapshot)) (\<lambda>forecast.
     bindM (call faults (listFrozenPriceItems run)) (\<lambda>priceItems.
     bindM (liftM (optimizeCommitmentRun run snapshot forecast priceItems)) (\<lambda>candidates.
     let feasible = filter c_feasible candidates;
         selected = (case feasible of [] \<Rightarrow> None | c # _ \<Rightarrow> Some c) in
     bindM (call faults (store_put (frontier_uri run) (json_bytes (buildFrontier run candidates selected)))) (\<lambda>_.
     case selected of
       None \<Rightarrow>
         bindM (call faults (markOptimizerRunInfeasible (j_id job) (frontier_uri run) (infeasibilityDetails candidates))) (\<lambda>_.
         returnM (Processed (j_id job) Infeasible None (Some (frontier_uri run)) 0))
     | Some selected \<Rightarrow>
         bindM (call faults (store_put (output_uri run) (json_bytes (buildOutput run selected)))) (\<lambda>_.
         bindM (liftM (recommendationInput run snapshot selected)) (\<lambda>input.
         bindM (call faults (insertRecommendation run input)) (\<lambda>_.
         bindM (call faults (completeOptimizerRun (j_id job) (output_uri run) (frontier_uri run))) (\<lambda>_.
         returnM (Processed (j_id job) Completed (Some (output_uri run)) (Some (frontier_uri run)) 1)))))))))))"

definition process_failure :: "(nat \<Rightarrow> fault) \<Rightarrow> run_data job \<Rightarrow> (opt_world, worker_result) eff" where
  "process_failure faults job =
     bindM (call faults (failOptimizerRun (j_id job) ''OPTIMIZER_WORKER_FAILED'')) (\<lambda>_.
     returnM (Processed (j_id job) Failed None None 0))"

definition processNext :: "(string \<Rightarrow> json option) \<Rightarrow> (nat \<Rightarrow> fault) \<Rightarrow> (opt_world, worker_result) eff" where
  "processNext json_parse faults =
     process_next (call faults claimNextQueuedOptimizerRun) NotProcessed
       (process_body json_parse faults) (process_failure faults)"


section \<open>The worker meets the contract of its queue\<close>

definition opt_wf :: "opt_world \<Rightarrow> bool" where
  "opt_wf w = (unique_ids (w_runs w) \<and> (\<forall>j\<in>set (w_runs w). r_id (d_run (j_data j)) = j_id j))"

abbreviation opt_statuses :: "opt_world \<Rightarrow> string \<Rightarrow> job_status option" where
  "opt_statuses w \<equiv> statuses (w_runs w)"

lemma opt_wf_update:
  assumes "opt_wf w" and "\<And>d. d_run (f d) = d_run d"
  shows "opt_wf (w\<lparr>w_runs := update_job jid g s f (w_runs w)\<rparr>)"
  using assms by (auto simp: opt_wf_def) (auto simp: update_job_def split: if_splits)

lemma claim_step:
  assumes "opt_wf w"
  shows "opt_wf (snd (claimNextQueuedOptimizerRun w))"
    and "w_recommendations (snd (claimNextQueuedOptimizerRun w)) = w_recommendations w"
    and "fst (claimNextQueuedOptimizerRun w) = Inr None \<Longrightarrow> snd (claimNextQueuedOptimizerRun w) = w"
    and "fst (claimNextQueuedOptimizerRun w) = Inr (Some run) \<Longrightarrow>
      opt_statuses w (j_id run) = Some Queued
      \<and> opt_statuses (snd (claimNextQueuedOptimizerRun w)) = (opt_statuses w)(j_id run \<mapsto> Running)
      \<and> r_id (d_run (j_data run)) = j_id run"
    and "fst (claimNextQueuedOptimizerRun w) = Inl e \<Longrightarrow> False"
proof -
  have u: "unique_ids (w_runs w)" using assms by (simp add: opt_wf_def)
  have c: "claimNextQueuedOptimizerRun w
      = (Inr (fst (claim_next (w_runs w))), w\<lparr>w_runs := snd (claim_next (w_runs w))\<rparr>)"
    by (simp add: claimNextQueuedOptimizerRun_def split_def Let_def)
  show "w_recommendations (snd (claimNextQueuedOptimizerRun w)) = w_recommendations w" by (simp add: c)
  show "fst (claimNextQueuedOptimizerRun w) = Inl e \<Longrightarrow> False" by (simp add: c)
  show none: "fst (claimNextQueuedOptimizerRun w) = Inr None \<Longrightarrow> snd (claimNextQueuedOptimizerRun w) = w"
    using claim_next_None [of "w_runs w"] by (simp add: c)
  show "fst (claimNextQueuedOptimizerRun w) = Inr (Some run) \<Longrightarrow>
      opt_statuses w (j_id run) = Some Queued
      \<and> opt_statuses (snd (claimNextQueuedOptimizerRun w)) = (opt_statuses w)(j_id run \<mapsto> Running)
      \<and> r_id (d_run (j_data run)) = j_id run"
  proof -
    assume "fst (claimNextQueuedOptimizerRun w) = Inr (Some run)"
    then have "fst (claim_next (w_runs w)) = Some run" by (simp add: c)
    from claim_next_Some [OF this u] obtain old where "old \<in> set (w_runs w)" "run = old\<lparr>j_status := Running\<rparr>"
      and "statuses (snd (claim_next (w_runs w))) = (opt_statuses w)(j_id run \<mapsto> Running)"
      and "opt_statuses w (j_id run) = Some Queued" by metis
    with assms show ?thesis by (simp add: c opt_wf_def)
  qed
  show "opt_wf (snd (claimNextQueuedOptimizerRun w))"
  proof (cases "fst (claim_next (w_runs w))")
    case None
    then show ?thesis using none assms by (simp add: c)
  next
    case (Some run)
    from claim_next_Some [OF this u] have
      "snd (claim_next (w_runs w)) = update_job (j_id run) Queued Running (\<lambda>d. d) (w_runs w)" by metis
    then show ?thesis using opt_wf_update [OF assms, of "\<lambda>d. d"] by (simp add: c)
  qed
qed

lemma valid_store_put:
  assumes "\<And>w k b. P (w\<lparr>w_objects := AList.update k b (w_objects w)\<rparr>) = P w" and "\<And>w. P w \<Longrightarrow> E w"
  shows "valid P (call faults (store_put key bytes)) (\<lambda>_. P) E"
  by (rule valid_call) (use assms in \<open>auto simp: store_put_def\<close>)

lemma valid_readJson:
  assumes "\<And>w. P w \<Longrightarrow> E w"
  shows "valid P (readJson json_parse faults key) (\<lambda>_. P) E"
  unfolding readJson_def
  by (intro valid_bind [where R = "\<lambda>_. P"] valid_call valid_lift valid_return)
    (use assms in \<open>auto simp: store_get_def\<close>)

lemma valid_listFrozenPriceItems:
  assumes "\<And>w. P w \<Longrightarrow> E w"
  shows "valid P (call faults (listFrozenPriceItems run)) (\<lambda>_. P) E"
  by (rule valid_call) (use assms in \<open>auto simp: listFrozenPriceItems_def\<close>)

text \<open>
  What a run of the worker may do to the world, seen from the world \<open>w0\<close> it started in: nothing;
  or one queued run changes status, with the recommendations this status allows.
\<close>

definition allowed_recommendations :: "job_status \<Rightarrow> nat \<Rightarrow> bool" where
  "allowed_recommendations t k = (case t of
      Running \<Rightarrow> k \<le> 1 | Failed \<Rightarrow> k \<le> 1 | Completed \<Rightarrow> k = 1 | Infeasible \<Rightarrow> k = 0 | _ \<Rightarrow> False)"

definition run_moved :: "opt_world \<Rightarrow> run_data job \<Rightarrow> job_status \<Rightarrow> nat \<Rightarrow> opt_world \<Rightarrow> bool" where
  "run_moved w0 job t k w \<longleftrightarrow>
     opt_wf w \<and> opt_statuses w = (opt_statuses w0)(j_id job \<mapsto> t)
     \<and> (\<exists>extra. w_recommendations w = w_recommendations w0 @ extra \<and> length extra = k
          \<and> (\<forall>r\<in>set extra. rec_runId r = r_id (d_run (j_data job))))"

lemma run_moved_objects [simp]: "run_moved w0 job t k (w\<lparr>w_objects := obj\<rparr>) = run_moved w0 job t k w"
  by (simp add: run_moved_def opt_wf_def)

lemma run_moved_update:
  assumes "run_moved w0 job Running k w" and "\<And>d. d_run (f d) = d_run d"
  shows "run_moved w0 job t k (w\<lparr>w_runs := update_job (j_id job) Running t f (w_runs w)\<rparr>)"
  using assms opt_wf_update [of w f "j_id job" Running t] by (auto simp: run_moved_def statuses_update)

lemma run_moved_kept:
  assumes "run_moved w0 job t k w" and "t \<noteq> Running" and "\<And>d. d_run (f d) = d_run d"
  shows "run_moved w0 job t k (w\<lparr>w_runs := update_job (j_id job) Running t' f (w_runs w)\<rparr>)"
  using assms opt_wf_update [of w f "j_id job" Running t'] by (auto simp: run_moved_def statuses_update)

lemma process_body_moves:
  shows "valid (run_moved w0 job Running 0) (process_body json_parse faults job)
    (\<lambda>r w. \<exists>t k. terminal_status t \<and> allowed_recommendations t k \<and> run_moved w0 job t k w
        \<and> res_run r = j_id job \<and> res_status r = t \<and> r \<noteq> NotProcessed)
    (\<lambda>w. \<exists>t k. t \<in> {Running, Completed, Infeasible} \<and> allowed_recommendations t k \<and> run_moved w0 job t k w)"
    (is "valid ?P _ ?Q ?E")
proof -
  have PE: "?P w \<Longrightarrow> ?E w" for w by (auto simp: allowed_recommendations_def intro!: exI [of _ Running])
  have P1E: "run_moved w0 job Running 1 w \<Longrightarrow> ?E w" for w
    by (auto simp: allowed_recommendations_def intro!: exI [of _ Running] exI [of _ 1])
  have insertion: "valid ?P (call faults (insertRecommendation (d_run (j_data job)) input))
      (\<lambda>_. run_moved w0 job Running 1) ?E" for input
  proof -
    have "run_moved w0 job Running 1 (snd (insertRecommendation (d_run (j_data job)) input w))"
      if "?P w" "ok (fst (insertRecommendation (d_run (j_data job)) input w))" for w
      using that by (auto simp: insertRecommendation_def run_moved_def opt_wf_def split: if_splits)
    moreover have "snd (insertRecommendation (d_run (j_data job)) input w) = w"
      if "\<not> ok (fst (insertRecommendation (d_run (j_data job)) input w))" for w
      using that by (auto simp: insertRecommendation_def split: if_splits)
    ultimately show ?thesis using PE P1E by (intro valid_call) (force+)
  qed
  have infeasible: "valid ?P (bindM (call faults (markOptimizerRunInfeasible (j_id job) uri details)) (\<lambda>_.
      returnM (Processed (j_id job) Infeasible None (Some uri) 0))) ?Q ?E" for uri details
  proof (rule valid_bind [where R = "\<lambda>_. run_moved w0 job Infeasible 0"])
    have m: "?P w \<Longrightarrow> run_moved w0 job Infeasible 0 (snd (markOptimizerRunInfeasible (j_id job) uri details w))" for w
      by (simp add: markOptimizerRunInfeasible_def run_moved_update)
    show "valid ?P (call faults (markOptimizerRunInfeasible (j_id job) uri details))
        (\<lambda>_. run_moved w0 job Infeasible 0) ?E"
      using m PE by (intro valid_call) (auto simp: allowed_recommendations_def intro!: exI [of _ Infeasible])
    show "valid (run_moved w0 job Infeasible 0) (returnM (Processed (j_id job) Infeasible None (Some uri) 0)) ?Q ?E"
      by (rule valid_return) (auto simp: terminal_status_def allowed_recommendations_def)
  qed
  have complete: "valid (run_moved w0 job Running 1) (bindM (call faults (completeOptimizerRun (j_id job) out fr)) (\<lambda>_.
      returnM (Processed (j_id job) Completed (Some out) (Some fr) 1))) ?Q ?E" for out fr
  proof (rule valid_bind [where R = "\<lambda>_. run_moved w0 job Completed 1"])
    have m: "run_moved w0 job Running 1 w \<Longrightarrow>
        run_moved w0 job Completed 1 (snd (completeOptimizerRun (j_id job) out fr w))" for w
      by (simp add: completeOptimizerRun_def run_moved_update)
    show "valid (run_moved w0 job Running 1) (call faults (completeOptimizerRun (j_id job) out fr))
        (\<lambda>_. run_moved w0 job Completed 1) ?E"
      using m P1E by (intro valid_call) (auto simp: allowed_recommendations_def intro!: exI [of _ Completed])
    show "valid (run_moved w0 job Completed 1) (returnM (Processed (j_id job) Completed (Some out) (Some fr) 1)) ?Q ?E"
      by (rule valid_return) (auto simp: terminal_status_def allowed_recommendations_def)
  qed
  have tail: "valid ?P (case (case filter c_feasible candidates of [] \<Rightarrow> None | c # _ \<Rightarrow> Some c) of
       None \<Rightarrow> bindM (call faults (markOptimizerRunInfeasible (j_id job) uri details)) (\<lambda>_.
         returnM (Processed (j_id job) Infeasible None (Some uri) 0))
     | Some selected \<Rightarrow>
         bindM (call faults (store_put out (bytes selected))) (\<lambda>_.
         bindM (liftM (input selected)) (\<lambda>input.
         bindM (call faults (insertRecommendation (d_run (j_data job)) input)) (\<lambda>_.
         bindM (call faults (completeOptimizerRun (j_id job) out uri)) (\<lambda>_.
         returnM (Processed (j_id job) Completed (Some out) (Some uri) 1)))))) ?Q ?E"
    for candidates uri details out bytes input
  proof (cases "filter c_feasible candidates")
    case Nil
    then show ?thesis using infeasible by simp
  next
    case (Cons c cs)
    have "valid ?P (bindM (call faults (store_put out (bytes c))) (\<lambda>_.
         bindM (liftM (input c)) (\<lambda>input.
         bindM (call faults (insertRecommendation (d_run (j_data job)) input)) (\<lambda>_.
         bindM (call faults (completeOptimizerRun (j_id job) out uri)) (\<lambda>_.
         returnM (Processed (j_id job) Completed (Some out) (Some uri) 1)))))) ?Q ?E"
    proof (rule valid_bind [where R = "\<lambda>_. ?P"])
      show "valid ?P (call faults (store_put out (bytes c))) (\<lambda>_. ?P) ?E"
        by (rule valid_store_put) (simp, rule PE)
      show "valid ?P (bindM (liftM (input c)) (\<lambda>input.
         bindM (call faults (insertRecommendation (d_run (j_data job)) input)) (\<lambda>_.
         bindM (call faults (completeOptimizerRun (j_id job) out uri)) (\<lambda>_.
         returnM (Processed (j_id job) Completed (Some out) (Some uri) 1))))) ?Q ?E"
        by (rule valid_bind [where R = "\<lambda>_. ?P", OF valid_lift [OF _ PE] valid_bind [OF insertion complete]])
    qed
    then show ?thesis using Cons by simp
  qed
  show ?thesis
    unfolding process_body_def Let_def
    by (rule valid_step, rule valid_readJson, erule PE, rule valid_step, rule valid_readJson, erule PE,
        rule valid_step, rule valid_listFrozenPriceItems, erule PE, rule valid_step, rule valid_lift, assumption,
        erule PE, rule valid_step, rule valid_store_put, simp, erule PE, rule tail)
qed


lemma process_failure_moves:
  assumes "t0 \<in> {Running, Completed, Infeasible}"
  shows "valid (run_moved w0 job t0 k) (process_failure faults job)
    (\<lambda>r w. r = Processed (j_id job) Failed None None 0
       \<and> run_moved w0 job (if t0 = Running then Failed else t0) k w)
    (\<lambda>w. run_moved w0 job t0 k w \<or> run_moved w0 job (if t0 = Running then Failed else t0) k w)"
    (is "valid ?P _ ?Q ?E")
proof -
  let ?t = "if t0 = Running then Failed else t0"
  have m: "run_moved w0 job ?t k (snd (failOptimizerRun (j_id job) cd w))" if "?P w" for w cd
    using that by (cases "t0 = Running") (simp_all add: failOptimizerRun_def run_moved_update run_moved_kept)
  show ?thesis
    unfolding process_failure_def
  proof (rule valid_bind [where R = "\<lambda>_. run_moved w0 job ?t k"])
    show "valid ?P (call faults (failOptimizerRun (j_id job) ''OPTIMIZER_WORKER_FAILED''))
        (\<lambda>_. run_moved w0 job ?t k) ?E"
      using m by (intro valid_call) blast+
  qed (auto intro!: valid_return)
qed

lemma run_moved_start: "opt_wf w \<Longrightarrow> opt_statuses w (j_id job) = Some t \<Longrightarrow> run_moved w job t 0 w"
  by (simp add: run_moved_def fun_upd_idem)

lemma run_moved_statuses: "run_moved w0 job t k w \<Longrightarrow> opt_wf w \<and> opt_statuses w = (opt_statuses w0)(j_id job \<mapsto> t)"
  by (simp add: run_moved_def)

interpretation ow: job_worker opt_statuses opt_wf j_id "call faults claimNextQueuedOptimizerRun" NotProcessed
    "process_body json_parse faults" "process_failure faults"
  for json_parse faults
proof
  fix s :: "string \<Rightarrow> job_status option" and run :: "run_data job"
  show "valid (\<lambda>w. opt_wf w \<and> opt_statuses w = s) (call faults claimNextQueuedOptimizerRun)
      (\<lambda>nxt w. opt_wf w \<and> (case nxt of None \<Rightarrow> opt_statuses w = s
         | Some run \<Rightarrow> s (j_id run) = Some Queued \<and> opt_statuses w = s(j_id run \<mapsto> Running)))
      (\<lambda>w. opt_wf w \<and> (opt_statuses w = s \<or> (\<exists>jid. s jid = Some Queued \<and> opt_statuses w = s(jid \<mapsto> Running))))"
  proof (rule valid_call)
    fix w x assume "opt_wf w \<and> opt_statuses w = s" "fst (claimNextQueuedOptimizerRun w) = Inr x"
    then show "opt_wf (snd (claimNextQueuedOptimizerRun w)) \<and> (case x of
        None \<Rightarrow> opt_statuses (snd (claimNextQueuedOptimizerRun w)) = s
      | Some run \<Rightarrow> s (j_id run) = Some Queued \<and> opt_statuses (snd (claimNextQueuedOptimizerRun w)) = s(j_id run \<mapsto> Running))"
      using claim_step by (cases x) auto
  next
    fix w assume w: "opt_wf w \<and> opt_statuses w = s"
    obtain x where "fst (claimNextQueuedOptimizerRun w) = Inr x"
      using claim_step(5) w by (cases "fst (claimNextQueuedOptimizerRun w)") auto
    with w claim_step(1,3,4) [of w] show "opt_wf (snd (claimNextQueuedOptimizerRun w))
        \<and> (opt_statuses (snd (claimNextQueuedOptimizerRun w)) = s
          \<or> (\<exists>jid. s jid = Some Queued \<and> opt_statuses (snd (claimNextQueuedOptimizerRun w)) = s(jid \<mapsto> Running)))"
      by (cases x) (simp, metis)
  qed simp
  show "valid (\<lambda>w. opt_wf w \<and> opt_statuses w = s) (process_body json_parse faults run)
      (\<lambda>_ w. opt_wf w \<and> (\<exists>t. terminal_status t \<and> opt_statuses w = s(j_id run \<mapsto> t)))
      (\<lambda>w. opt_wf w \<and> (opt_statuses w = s \<or> (\<exists>t. terminal_status t \<and> opt_statuses w = s(j_id run \<mapsto> t))))"
    if r: "s (j_id run) = Some Running"
  proof (rule valid_start)
    fix w0 assume w0: "opt_wf w0 \<and> opt_statuses w0 = s"
    show "valid (\<lambda>w. w = w0) (process_body json_parse faults run)
      (\<lambda>_ w. opt_wf w \<and> (\<exists>t. terminal_status t \<and> opt_statuses w = s(j_id run \<mapsto> t)))
      (\<lambda>w. opt_wf w \<and> (opt_statuses w = s \<or> (\<exists>t. terminal_status t \<and> opt_statuses w = s(j_id run \<mapsto> t))))"
    proof (rule valid_weaken [OF process_body_moves [of w0 run]])
      show "w = w0 \<Longrightarrow> run_moved w0 run Running 0 w" for w using w0 r by (simp add: run_moved_start)
      fix res w
      assume "\<exists>t k. terminal_status t \<and> allowed_recommendations t k \<and> run_moved w0 run t k w
          \<and> res_run res = j_id run \<and> res_status res = t \<and> res \<noteq> NotProcessed"
      then obtain t k where "terminal_status t" "run_moved w0 run t k w" by blast
      with w0 show "opt_wf w \<and> (\<exists>t. terminal_status t \<and> opt_statuses w = s(j_id run \<mapsto> t))"
        using run_moved_statuses by blast
    next
      fix w
      assume "\<exists>t k. t \<in> {Running, Completed, Infeasible} \<and> allowed_recommendations t k \<and> run_moved w0 run t k w"
      then obtain t k where t: "t = Running \<or> terminal_status t" and "run_moved w0 run t k w"
        by (auto simp: terminal_status_def)
      then have "opt_wf w" "opt_statuses w = s(j_id run \<mapsto> t)" using w0 run_moved_statuses by blast+
      with t r show "opt_wf w \<and> (opt_statuses w = s \<or> (\<exists>t. terminal_status t \<and> opt_statuses w = s(j_id run \<mapsto> t)))"
        by (auto simp: fun_upd_idem)
    qed
  qed
  show "valid (\<lambda>w. opt_wf w \<and> opt_statuses w = s) (process_failure faults run)
      (\<lambda>_ w. opt_wf w \<and> opt_statuses w = (if s (j_id run) = Some Running then s(j_id run \<mapsto> Failed) else s))
      (\<lambda>w. opt_wf w \<and> (opt_statuses w = s \<or> opt_statuses w = (if s (j_id run) = Some Running then s(j_id run \<mapsto> Failed) else s)))"
    unfolding process_failure_def
    by (rule valid_bind [where R = "\<lambda>_ w. opt_wf w
          \<and> opt_statuses w = (if s (j_id run) = Some Running then s(j_id run \<mapsto> Failed) else s)", OF valid_call valid_return])
      (auto simp: failOptimizerRun_def statuses_update opt_wf_update)
qed

end
