(* ===== verification/Optimizer_Worker_Claims.thy ===== *)
theory Optimizer_Worker_Claims
  imports Optimizer_Worker Optimizer_Claims
begin

text \<open>
  The properties of the optimizer worker (theory Optimizer_Worker): what one call of
  \<open>processNextOptimizerRun\<close> may do to the database under every fault schedule, and what it does when
  no call fails.
\<close>

section \<open>A world to run it in\<close>

definition sample_documents :: "string \<Rightarrow> json option" where
  "sample_documents b = (if b = ''S'' then Some (JObj sample_snapshot)
     else if b = ''F'' then Some (JObj sample_forecast) else None)"

definition sample_job :: "run_data job" where
  "sample_job = \<lparr>j_id = ''r'', j_status = Queued, j_created_at = 0, j_data = \<lparr>d_run = sample_run,
     d_outputUri = None, d_frontierUri = None, d_infeasibilityDetails = JObj [], d_errorDetails = JObj []\<rparr>\<rparr>"

definition sample_world :: opt_world where
  "sample_world = \<lparr>w_runs = [sample_job],
     w_prices = map (\<lambda>item. \<lparr>pr_tenantId = ''t'', pr_versionId = ''v'', pr_provider = Aws,
        pr_instrument = AwsReservedInstance, pr_item = item\<rparr>) sample_items,
     w_objects = [(''s'', ''S''), (''f'', ''F'')], w_recommendations = []\<rparr>"

lemma sample_world_wf: "opt_wf sample_world"
  by (simp add: opt_wf_def sample_world_def unique_ids_def sample_job_def sample_run_def)

lemma sample_world_claim: "fst (claim_next (w_runs sample_world)) = Some (sample_job\<lparr>j_status := Running\<rparr>)"
  by (simp add: claim_next_def sample_world_def sample_job_def update_job_def find_job_def Let_def)

section \<open>Every fault schedule\<close>

text \<open>
  C35: However the calls to the database and the object store fail, one call of the worker changes the
  status of at most one run, and that run was queued. When the worker returns, the run it took has
  ended (completed, failed or infeasible); only a call that throws can leave it running.
\<close>

theorem optimizer_worker_ends_run:
  assumes "opt_wf w" and "processNext json_parse faults (n, w) = (r, (n', w'))"
  shows "opt_wf w' \<and> (opt_statuses w' = opt_statuses w
    \<or> (\<exists>jid t. opt_statuses w jid = Some Queued \<and> opt_statuses w' = (opt_statuses w)(jid \<mapsto> t)
         \<and> (terminal_status t \<or> (t = Running \<and> \<not> ok r))))"
proof -
  have "case r of
      Inr x \<Rightarrow> opt_wf w' \<and> (opt_statuses w' = opt_statuses w \<or> (\<exists>jid t. opt_statuses w jid = Some Queued
        \<and> terminal_status t \<and> opt_statuses w' = (opt_statuses w)(jid \<mapsto> t)))
    | Inl e \<Rightarrow> opt_wf w' \<and> (opt_statuses w' = opt_statuses w \<or> (\<exists>jid t. opt_statuses w jid = Some Queued
        \<and> (t = Running \<or> terminal_status t) \<and> opt_statuses w' = (opt_statuses w)(jid \<mapsto> t)))"
    by (rule validD [OF ow.worker_ends_run [of "opt_statuses w" faults json_parse, folded processNext_def]])
      (use assms in auto)
  then show ?thesis by (cases r) auto
qed

theorem optimizer_worker_ends_run_witness:
  "opt_wf (snd (snd (processNext sample_documents (\<lambda>n. FailAfter) (0, sample_world))))"
proof -
  obtain r n' w' where "processNext sample_documents (\<lambda>n. FailAfter) (0, sample_world) = (r, (n', w'))"
    by (metis prod_cases3)
  with optimizer_worker_ends_run [OF sample_world_wf this] show ?thesis by simp
qed

definition worker_post :: "opt_world \<Rightarrow> worker_result option \<Rightarrow> opt_world \<Rightarrow> bool" where
  "worker_post w0 r w \<longleftrightarrow> (w = w0 \<and> r \<in> {None, Some NotProcessed})
     \<or> (\<exists>job t k. opt_statuses w0 (j_id job) = Some Queued \<and> r_id (d_run (j_data job)) = j_id job
          \<and> allowed_recommendations t k \<and> run_moved w0 job t k w
          \<and> (\<forall>res. r = Some res \<longrightarrow> terminal_status t \<and> res \<noteq> NotProcessed \<and> res_run res = j_id job
               \<and> res_status res \<in> {t, Failed}))"

lemma processNext_post:
  assumes "opt_wf w0"
  shows "valid (\<lambda>w. w = w0) (processNext json_parse faults) (\<lambda>r. worker_post w0 (Some r)) (worker_post w0 None)"
  unfolding processNext_def
proof (rule valid_process)
  let ?J = "\<lambda>job. opt_statuses w0 (j_id job) = Some Queued \<and> r_id (d_run (j_data job)) = j_id job"
  let ?R = "\<lambda>nxt w. case nxt of None \<Rightarrow> w = w0 | Some job \<Rightarrow> ?J job \<and> run_moved w0 job Running 0 w"
  let ?F = "\<lambda>job w. ?J job \<and> (\<exists>t k. t \<in> {Running, Completed, Infeasible} \<and> allowed_recommendations t k \<and> run_moved w0 job t k w)"
  note c = claim_step [OF assms]
  have claimed: "?J job \<and> run_moved w0 job Running 0 (snd (claimNextQueuedOptimizerRun w0))"
    if "fst (claimNextQueuedOptimizerRun w0) = Inr (Some job)" for job
    using c(1) c(2) c(4) [OF that] by (simp add: run_moved_def)
  obtain x where x: "fst (claimNextQueuedOptimizerRun w0) = Inr x"
    using c(5) by (cases "fst (claimNextQueuedOptimizerRun w0)") auto
  have "?R x (snd (claimNextQueuedOptimizerRun w0))"
    using x claimed c(3) by (cases x) auto
  moreover have "worker_post w0 None w" if "?R x w" for w
    using that by (cases x) (auto simp: worker_post_def allowed_recommendations_def intro!: exI [of _ Running])
  ultimately show "valid (\<lambda>w. w = w0) (call faults claimNextQueuedOptimizerRun) ?R (worker_post w0 None)"
    using x by (intro valid_call) (auto simp: worker_post_def)
  show "?R None w \<Longrightarrow> worker_post w0 (Some NotProcessed) w" for w by (simp add: worker_post_def)
  show "valid (?R (Some job)) (process_body json_parse faults job) (\<lambda>r. worker_post w0 (Some r)) (?F job)" for job
  proof (cases "?J job")
    case True
    then show ?thesis
      by (intro valid_weaken [OF process_body_moves [of w0 job json_parse faults]]) (auto simp: worker_post_def)
  qed (rule valid_absurd, auto)
  show "valid (?F job) (process_failure faults job) (\<lambda>r. worker_post w0 (Some r)) (worker_post w0 None)" for job
  proof (rule valid_start, elim conjE exE)
    fix w1 t k assume q: "opt_statuses w0 (j_id job) = Some Queued" "r_id (d_run (j_data job)) = j_id job"
      and t: "t \<in> {Running, Completed, Infeasible}" and a: "allowed_recommendations t k" and m: "run_moved w0 job t k w1"
    have a': "allowed_recommendations (if t = Running then Failed else t) k"
      using a t by (auto simp: allowed_recommendations_def)
    show "valid (\<lambda>w. w = w1) (process_failure faults job) (\<lambda>r. worker_post w0 (Some r)) (worker_post w0 None)"
    proof (rule valid_weaken [OF process_failure_moves [OF t, of w0 job k faults]])
      show "w = w1 \<Longrightarrow> run_moved w0 job t k w" for w using m by simp
      show "r = Processed (j_id job) Failed None None 0 \<and> run_moved w0 job (if t = Running then Failed else t) k w
          \<Longrightarrow> worker_post w0 (Some r) w" for r w
        unfolding worker_post_def using q a' t
        by (intro disjI2 exI [of _ job] exI [of _ "if t = Running then Failed else t"] exI [of _ k])
          (auto simp: terminal_status_def)
      show "run_moved w0 job t k w \<or> run_moved w0 job (if t = Running then Failed else t) k w
          \<Longrightarrow> worker_post w0 None w" for w
        unfolding worker_post_def using q a a' by blast
    qed
  qed
qed

text \<open>
  The recommendations table only grows by the run the worker took: at most one recommendation is
  added, exactly one when the run ends completed and none when it ends infeasible (a failed or
  interrupted run may have left one behind). The result names the run and its status, or failed
  when an acknowledgement was lost.
\<close>

theorem optimizer_worker_recommendations:
  assumes "opt_wf w" and "processNext json_parse faults (n, w) = (r, (n', w'))"
  shows "w' = w \<or> (\<exists>jid t extra. opt_statuses w jid = Some Queued \<and> opt_statuses w' = (opt_statuses w)(jid \<mapsto> t)
    \<and> w_recommendations w' = w_recommendations w @ extra \<and> (\<forall>x\<in>set extra. rec_runId x = jid)
    \<and> allowed_recommendations t (length extra)
    \<and> (case r of Inl _ \<Rightarrow> True | Inr res \<Rightarrow> res_run res = jid \<and> res_status res \<in> {t, Failed}))"
proof -
  have p: "case r of Inr x \<Rightarrow> worker_post w (Some x) w' | Inl e \<Rightarrow> worker_post w None w'"
    by (rule validD [OF processNext_post [OF assms(1)] _ assms(2)]) simp
  let ?P = "\<lambda>jid t extra. opt_statuses w jid = Some Queued \<and> opt_statuses w' = (opt_statuses w)(jid \<mapsto> t)
    \<and> w_recommendations w' = w_recommendations w @ extra \<and> (\<forall>x\<in>set extra. rec_runId x = jid)
    \<and> allowed_recommendations t (length extra)"
  have post: "w' = w \<and> r' \<in> {None, Some NotProcessed} \<or> (\<exists>jid t extra. ?P jid t extra
      \<and> (\<forall>res. r' = Some res \<longrightarrow> res_run res = jid \<and> res_status res \<in> {t, Failed}))"
    if "worker_post w r' w'" for r'
    using that
  proof (unfold worker_post_def run_moved_def, elim disjE exE conjE)
    fix job t k extra
    assume "opt_statuses w (j_id job) = Some Queued" "opt_statuses w' = (opt_statuses w)(j_id job \<mapsto> t)"
      "w_recommendations w' = w_recommendations w @ extra" "\<forall>r\<in>set extra. rec_runId r = r_id (d_run (j_data job))"
      "r_id (d_run (j_data job)) = j_id job" "allowed_recommendations t k" "length extra = k"
    then have "?P (j_id job) t extra" by simp
    moreover assume "\<forall>res. r' = Some res \<longrightarrow> terminal_status t \<and> res \<noteq> NotProcessed \<and> res_run res = j_id job
        \<and> res_status res \<in> {t, Failed}"
    ultimately show ?thesis by (intro disjI2 exI [of _ "j_id job"] exI [of _ t] exI [of _ extra]) blast
  qed simp
  show ?thesis
  proof (cases r)
    case (Inl e)
    with p post [of None] show ?thesis by auto
  next
    case (Inr res)
    with p post [of "Some res"] show ?thesis by auto
  qed
qed

theorem optimizer_worker_recommendations_witness:
  "length (w_recommendations (snd (snd (processNext sample_documents (\<lambda>k. if k = 6 then FailAfter else NoFault) (0, sample_world))))) \<le> 1"
proof -
  obtain r n' w' where e: "processNext sample_documents (\<lambda>k. if k = 6 then FailAfter else NoFault) (0, sample_world) = (r, (n', w'))"
    by (metis prod_cases3)
  have z: "w_recommendations sample_world = []" by (simp add: sample_world_def)
  have "allowed_recommendations t k \<Longrightarrow> k \<le> 1" for t k
    by (cases t) (auto simp: allowed_recommendations_def)
  with optimizer_worker_recommendations [OF sample_world_wf e] e z show ?thesis by auto
qed


section \<open>No fault\<close>

lemmas run_simps = process_next_def process_body_def process_failure_def bindM_def catchM_def call_def liftM_def
  returnM_def readJson_def store_get_def store_put_def listFrozenPriceItems_def Let_def

lemma candidate_origin:
  assumes "optimizeCommitmentRun run snapshot forecast items = Inr cs" and "c \<in> set cs"
  shows "c_provider c = r_provider run \<and> c_instrument c = r_instrument run"
  using optimizer_candidate [OF assms] by (metis (no_types, lifting) candidate.select_convs(1,2) evaluate_costs_def)

lemma recommendationInput_fields:
  "recommendationInput run snapshot c = Inr i \<Longrightarrow>
     ri_provider i = c_provider c \<and> ri_instrument i = c_instrument c
     \<and> (\<exists>policy commitment. policySnapshot snapshot = Inr policy
          \<and> bigint_of (c_commitment_amount_cents c) = Some commitment
          \<and> ri_approvalRequired i = (commitment \<ge> approvalThresholdCents policy)
          \<and> ri_status i = (if ri_approvalRequired i then PendingApproval else Ready))"
  by (auto simp: recommendationInput_def bindR_eq_Inr Let_def)

definition frozen_items :: "opt_world \<Rightarrow> optimizer_run \<Rightarrow> price_item list" where
  "frozen_items w run = map pr_item (filter (\<lambda>r. pr_tenantId r = r_tenantId run
     \<and> pr_versionId r \<in> set (r_priceTableVersionIds run) \<and> pr_provider r = r_provider run
     \<and> pr_instrument r = r_instrument run) (w_prices w))"

text \<open>The run's documents parse, and its ranking \<open>cs\<close> has the best feasible candidate \<open>sel\<close>, whose
  recommendation \<open>input\<close> the table accepts.\<close>

definition selects :: "(string \<Rightarrow> json option) \<Rightarrow> opt_world \<Rightarrow> optimizer_run \<Rightarrow> candidate list \<Rightarrow> candidate
    \<Rightarrow> recommendation_input \<Rightarrow> bool" where
  "selects json_parse w run cs sel input \<longleftrightarrow> (\<exists>sb snapshot fb forecast rest.
     map_of (w_objects w) (r_inputSnapshotUri run) = Some sb \<and> json_parse sb = Some (JObj snapshot)
     \<and> map_of (w_objects w) (forecastOutputUri snapshot) = Some fb \<and> json_parse fb = Some (JObj forecast)
     \<and> optimizeCommitmentRun run snapshot forecast (frozen_items w run) = Inr cs
     \<and> filter c_feasible cs = sel # rest
     \<and> recommendationInput run snapshot sel = Inr input \<and> recommendation_check input)"

lemma selects_origin:
  "selects json_parse w run cs sel input \<Longrightarrow> ri_provider input = r_provider run \<and> ri_instrument input = r_instrument run"
  unfolding selects_def using candidate_origin filter_hd_in recommendationInput_fields by metis

lemma claim_facts:
  assumes "opt_wf w" and "fst (claim_next (w_runs w)) = Some job"
  shows "claimNextQueuedOptimizerRun w = (Inr (Some job), w\<lparr>w_runs := snd (claim_next (w_runs w))\<rparr>)"
    and "statuses (snd (claim_next (w_runs w))) = (opt_statuses w)(j_id job \<mapsto> Running)"
    and "r_id (d_run (j_data job)) = j_id job"
proof -
  show c: "claimNextQueuedOptimizerRun w = (Inr (Some job), w\<lparr>w_runs := snd (claim_next (w_runs w))\<rparr>)"
    using assms(2) by (simp add: claimNextQueuedOptimizerRun_def split_def Let_def)
  show "statuses (snd (claim_next (w_runs w))) = (opt_statuses w)(j_id job \<mapsto> Running)"
    and "r_id (d_run (j_data job)) = j_id job"
    using claim_step(4) [OF assms(1), of job] c by simp_all
qed



lemma sample_world_items: "frozen_items sample_world sample_run = sample_items"
  by (simp add: frozen_items_def sample_world_def sample_run_def comp_def)

lemma sample_candidate_fields:
  "c_provider (sample_candidate ''90'') = Aws" "c_instrument (sample_candidate ''90'') = AwsReservedInstance"
  "c_service_code (sample_candidate ''90'') = ''EC2''" "c_region (sample_candidate ''90'') = ''eu-1''"
  "c_term_months (sample_candidate ''90'') = 12" "c_commitment_amount_cents (sample_candidate ''90'') = ''100000''"
  "c_p95_downside_loss_cents (sample_candidate ''90'') = ''5801''"
  "c_utilization_p50_pct (sample_candidate ''90'') = ''100.00''"
  "c_utilization_p95_pct (sample_candidate ''90'') = ''100.00''"
  by code_simp+

lemma sample_input:
  obtains i where "recommendationInput sample_run sample_snapshot (sample_candidate ''90'') = Inr i"
    and "recommendation_check i"
proof -
  have b: "bigint_of ''100000'' = Some 100000" by code_simp
  have "recommendationInput sample_run sample_snapshot (sample_candidate ''90'') \<noteq> Inl e" for e
    by (auto simp: recommendationInput_def bindR_eq_Inl sample_policy_ok bigintR_def sample_candidate_fields b Let_def)
  then obtain i where i: "recommendationInput sample_run sample_snapshot (sample_candidate ''90'') = Inr i"
    by (cases "recommendationInput sample_run sample_snapshot (sample_candidate ''90'')") auto
  have k: "column_text_ok ''EC2''" "column_text_ok ''eu-1''" "column_bigint_ok ''100000''" "column_bigint_ok ''27532''"
    "column_bigint_ok ''5801''" "column_percent_ok ''100.00''" by code_simp+
  have "recommendation_check i"
    using i by (auto simp: recommendationInput_def bindR_eq_Inr Let_def recommendation_check_def sample_candidate_fields
        sample_fields k instrument_provider_def)
  with i that show thesis by blast
qed

lemma sample_selects: "\<exists>input. selects sample_documents sample_world sample_run sample_candidates (sample_candidate ''90'') input"
proof -
  have "map_of (w_objects sample_world) (r_inputSnapshotUri sample_run) = Some ''S''"
    "map_of (w_objects sample_world) (forecastOutputUri sample_snapshot) = Some ''F''" by code_simp+
  moreover have "sample_documents ''S'' = Some (JObj sample_snapshot)" "sample_documents ''F'' = Some (JObj sample_forecast)"
    by (simp_all add: sample_documents_def)
  moreover have "filter c_feasible sample_candidates = [sample_candidate ''90'', sample_candidate ''100'']"
    by (simp add: sample_candidates_def sample_fields)
  moreover obtain i where "recommendationInput sample_run sample_snapshot (sample_candidate ''90'') = Inr i"
    "recommendation_check i" by (rule sample_input)
  ultimately show ?thesis using sample_candidates_ok unfolding selects_def sample_world_items by blast
qed


text \<open>
  Completing a run is not atomic with its recommendation: if only the last UPDATE fails, the run
  of the previous property ends failed, and yet its recommendation stays in the table.
\<close>

lemma failed_run_keeps_recommendation:
  assumes "opt_wf w" and "fst (claim_next (w_runs w)) = Some job"
    and "selects json_parse w (d_run (j_data job)) cs sel input"
  shows "\<exists>w'. processNext json_parse (\<lambda>k. if k = n + 7 then FailBefore else NoFault) (n, w)
      = (Inr (Processed (j_id job) Failed None None 0), (n + 9, w'))
    \<and> opt_statuses w' = (opt_statuses w)(j_id job \<mapsto> Failed)
    \<and> w_recommendations w' = w_recommendations w
        @ [\<lparr>rec_tenantId = r_tenantId (d_run (j_data job)), rec_runId = j_id job, rec_input = input\<rparr>]"
  using assms(3) selects_origin [OF assms(3)] unfolding processNext_def selects_def frozen_items_def
  by (auto simp: run_simps claim_facts [OF assms(1,2)] insertRecommendation_def failOptimizerRun_def statuses_update)

lemma failed_run_keeps_recommendation_witness:
  "\<exists>w' res. processNext sample_documents (\<lambda>k. if k = 0 + 7 then FailBefore else NoFault) (0, sample_world) = (Inr res, (9, w'))
     \<and> opt_statuses w' ''r'' = Some Failed \<and> length (w_recommendations w') = 1"
proof -
  have d: "d_run (j_data (sample_job\<lparr>j_status := Running\<rparr>)) = sample_run" "j_id (sample_job\<lparr>j_status := Running\<rparr>) = ''r''"
    by (simp_all add: sample_job_def)
  have z: "w_recommendations sample_world = []" by (simp add: sample_world_def)
  obtain i where "selects sample_documents sample_world sample_run sample_candidates (sample_candidate ''90'') i"
    using sample_selects by blast
  from failed_run_keeps_recommendation [OF sample_world_wf sample_world_claim, unfolded d, OF this, of 0] z
  show ?thesis by auto
qed

text \<open>
  Approval policy: the recommendation of a selected candidate needs approval, and is created
  pending approval, exactly when its commitment reaches the policy's threshold; otherwise it is
  created ready, so the table's approval-state constraint always holds.
\<close>

lemma recommendation_needs_approval:
  "case recommendationInput run snapshot c of
     Inl e \<Rightarrow> (\<exists>e'. policySnapshot snapshot = Inl e') \<or> bigint_of (c_commitment_amount_cents c) = None
   | Inr i \<Rightarrow> (\<exists>policy. policySnapshot snapshot = Inr policy
       \<and> (ri_approvalRequired i \<longleftrightarrow> approvalThresholdCents policy \<le> bigint (c_commitment_amount_cents c)))
       \<and> (ri_status i = PendingApproval \<longleftrightarrow> ri_approvalRequired i) \<and> (ri_status i = Ready \<longleftrightarrow> \<not> ri_approvalRequired i)"
  by (auto simp: recommendationInput_def bindR_eq_Inl bindR_eq_Inr bigintR_def bigint_def Let_def split: sum.splits)

text \<open>
  The frontier summary of a ranking is its true summary: it counts the candidates and the
  feasible ones, and its best savings and lowest downside are the maximum and the minimum over all
  candidates (0 for an empty ranking).
\<close>

lemma frontier_summary_exact:
  "frontier_summary cs sel ! 0 = (''candidate_count'', JInt (int (length cs)))
   \<and> frontier_summary cs sel ! 1 = (''feasible_count'', JInt (int (card {i. i < length cs \<and> c_feasible (cs ! i)})))
   \<and> frontier_summary cs sel ! 2 = (''best_expected_savings_cents'',
       JStr (show_int (if cs = [] then 0 else Max (bigint ` c_expected_savings_cents ` set cs))))
   \<and> frontier_summary cs sel ! 3 = (''lowest_p95_downside_loss_cents'',
       JStr (show_int (if cs = [] then 0 else Min (bigint ` c_p95_downside_loss_cents ` set cs))))"
proof -
  have "maxBigInt (map (bigint \<circ> c_expected_savings_cents) cs)
      = (if cs = [] then 0 else Max (bigint ` c_expected_savings_cents ` set cs))"
    by (cases cs) (simp_all add: maxBigInt_Max [of "_ # _"] image_comp, simp add: maxBigInt_def)
  moreover have "minBigInt (map (bigint \<circ> c_p95_downside_loss_cents) cs)
      = (if cs = [] then 0 else Min (bigint ` c_p95_downside_loss_cents ` set cs))"
    by (cases cs) (simp_all add: minBigInt_Min [of "_ # _"] image_comp, simp add: minBigInt_def)
  ultimately show ?thesis by (simp add: frontier_summary_def length_filter_conv_card)
qed

end
