(* ===== verification/Usage_History.thy ===== *)
theory Usage_History
  imports Domain Js_Dates
begin

text \<open>
  The aggregation query over \<open>usage_line_items\<close> that the forecast and the backtest workers share
  (core/forecasting/forecast-repository.ts and core/backtests/backtests-repository.ts): the rows a
  predicate selects, grouped by month, provider, service and region, summed, and ordered by the
  grouping key. The session runs in UTC; texts are ordered by code unit (the collation C).
\<close>

section \<open>Rows\<close>

text \<open>A stored row: costs are BIGINT, the quantity NUMERIC(20,8) in units of \<open>10\<^sup>-\<^sup>8\<close>, times are
  milliseconds.\<close>

record stored_line =
  sl_tenantId :: string
  sl_provider :: string
  sl_serviceCode :: string
  sl_region :: string
  sl_usageStart :: int
  sl_usageEnd :: int
  sl_usageQuantity :: int
  sl_onDemandCostCents :: int
  sl_realizedCostCents :: int
  sl_commitmentAppliedCents :: int

record usage_sums =
  us_onDemand :: int
  us_realized :: int
  us_commitment :: int
  us_quantity :: int
  us_count :: int

text \<open>\<open>to_char(date_trunc('month', usage_start AT TIME ZONE 'UTC'), 'YYYY-MM')\<close>.\<close>

definition sql_month :: "int \<Rightarrow> string" where
  "sql_month t = (let (y, m, d) = civil_from_days (t div ms_per_day) in pad_int 4 y @ ''-'' @ pad_int 2 m)"

text \<open>\<open>$4::date\<close> as the instant it starts at.\<close>

definition sql_date :: "string \<Rightarrow> int option" where
  "sql_date s =
     (case map number_of (split_on (CHR ''-'') s) of
        [Some y, Some m, Some d] \<Rightarrow>
          if 1 \<le> m \<and> m \<le> 12 \<and> 1 \<le> d \<and> d \<le> 31 then Some (days_from_civil y m d * ms_per_day) else None
      | _ \<Rightarrow> None)"

text \<open>\<open>sum(usage_quantity)::text\<close> with its scale of eight digits.\<close>

definition numeric_8_text :: "int \<Rightarrow> string" where
  "numeric_8_text q =
     (if q < 0 then ''-'' else '''') @ show_int (\<bar>q\<bar> div 100000000) @ ''.'' @ pad_int 8 (\<bar>q\<bar> mod 100000000)"

definition line_key :: "stored_line \<Rightarrow> string list" where
  "line_key r = [sql_month (sl_usageStart r), sl_provider r, sl_serviceCode r, sl_region r]"

definition no_usage :: "stored_line \<Rightarrow> usage_sums" where
  "no_usage r = \<lparr>us_onDemand = 0, us_realized = 0, us_commitment = 0, us_quantity = 0, us_count = 0\<rparr>"

definition add_line :: "usage_sums \<Rightarrow> stored_line \<Rightarrow> usage_sums" where
  "add_line s r = \<lparr>us_onDemand = us_onDemand s + sl_onDemandCostCents r,
     us_realized = us_realized s + sl_realizedCostCents r,
     us_commitment = us_commitment s + sl_commitmentAppliedCents r,
     us_quantity = us_quantity s + sl_usageQuantity r, us_count = us_count s + 1\<rparr>"

definition lex_order :: "string list \<times> usage_sums \<Rightarrow> string list \<times> usage_sums \<Rightarrow> int" where
  "lex_order a b = (if fst a = fst b then 0 else if fst a < fst b then - 1 else 1)"

definition usage_groups :: "(stored_line \<Rightarrow> bool) \<Rightarrow> stored_line list \<Rightarrow> (string list \<times> usage_sums) list" where
  "usage_groups selected rows = js_sort lex_order (js_group line_key no_usage add_line (filter selected rows))"

section \<open>Grouping is exact\<close>

interpretation lo: comparator lex_order
  by unfold_locales (auto simp: lex_order_def split: if_splits)

interpretation ug: grouping line_key no_usage add_line "\<lambda>_. True"
  by unfold_locales (simp add: no_usage_def)

text \<open>A sum over the rows of a group; \<open>amount\<close> is one of the five fields.\<close>

lemma fold_line_sum:
  assumes "\<And>s r. amount (add_line s r) = amount s + f r"
  shows "amount (foldl add_line s rs) = amount s + (\<Sum>r\<leftarrow>rs. f r :: int)"
  using assms by (induction rs arbitrary: s) auto

lemma usage_group_entry:
  assumes "(k, s) \<in> set (usage_groups selected rows)"
  shows "\<exists>r\<in>set rows. selected r \<and> line_key r = k"
    and "s = foldl add_line (no_usage undefined) (filter (\<lambda>r. line_key r = k) (filter selected rows))"
proof -
  from assms have "(k, s) \<in> set (js_group line_key no_usage add_line (filter selected rows))"
    by (simp add: usage_groups_def)
  then obtain r0 where "r0 \<in> set (filter selected rows)" "line_key r0 = k"
    and "s = foldl add_line (no_usage r0) (filter (\<lambda>r. line_key r = k) (filter selected rows))"
    using ug.group_entry [of "filter selected rows" k s] by auto
  then show "\<exists>r\<in>set rows. selected r \<and> line_key r = k"
    and "s = foldl add_line (no_usage undefined) (filter (\<lambda>r. line_key r = k) (filter selected rows))"
    by (auto simp: no_usage_def)
qed

lemma usage_groups_keys:
  "distinct (map fst (usage_groups selected rows))"
  "fst ` set (usage_groups selected rows) = line_key ` {r \<in> set rows. selected r}"
proof -
  have "mset (map fst (usage_groups selected rows))
      = mset (map fst (js_group line_key no_usage add_line (filter selected rows)))"
    by (simp add: usage_groups_def)
  from mset_eq_imp_distinct_iff [OF this] show "distinct (map fst (usage_groups selected rows))"
    by (simp add: js_group_distinct)
  show "fst ` set (usage_groups selected rows) = line_key ` {r \<in> set rows. selected r}"
    by (simp add: usage_groups_def js_group_keys)
qed

text \<open>Grouping loses nothing and adds nothing.\<close>

lemma usage_groups_sum:
  fixes amount :: "usage_sums \<Rightarrow> int" and f :: "stored_line \<Rightarrow> int"
  assumes add: "\<And>s r. amount (add_line s r) = amount s + f r" and init: "\<And>r. amount (no_usage r) = 0"
  shows "(\<Sum>g\<leftarrow>usage_groups selected rows. amount (snd g)) = (\<Sum>r\<leftarrow>filter selected rows. f r)"
proof -
  let ?g = "usage_groups selected rows" and ?rows = "filter selected rows"
  have one: "amount (snd g) = (\<Sum>r\<leftarrow>filter (\<lambda>r. line_key r = fst g) ?rows. f r)" if "g \<in> set ?g" for g
  proof -
    from that have "snd g = foldl add_line (no_usage undefined) (filter (\<lambda>r. line_key r = fst g) ?rows)"
      using usage_group_entry(2) [of "fst g" "snd g"] by simp
    with fold_line_sum [of amount f, OF add] init show ?thesis by simp
  qed
  have "(\<Sum>g\<leftarrow>?g. amount (snd g)) = (\<Sum>g\<leftarrow>?g. \<Sum>r\<leftarrow>filter (\<lambda>r. line_key r = fst g) ?rows. f r)"
    by (rule arg_cong [where f = sum_list], rule map_cong [OF refl one])
  also have "\<dots> = (\<Sum>k\<leftarrow>map fst ?g. \<Sum>r\<leftarrow>filter (\<lambda>r. line_key r = k) ?rows. f r)"
    by (simp add: comp_def)
  also have "\<dots> = (\<Sum>r\<leftarrow>?rows. f r)"
    by (rule sum_by_key) (use usage_groups_keys [of selected rows] in auto)
  finally show ?thesis .
qed

lemma usage_totals:
  "(\<Sum>g\<leftarrow>usage_groups selected rows. us_onDemand (snd g)) = (\<Sum>r\<leftarrow>filter selected rows. sl_onDemandCostCents r)"
  "(\<Sum>g\<leftarrow>usage_groups selected rows. us_realized (snd g)) = (\<Sum>r\<leftarrow>filter selected rows. sl_realizedCostCents r)"
  "(\<Sum>g\<leftarrow>usage_groups selected rows. us_commitment (snd g)) = (\<Sum>r\<leftarrow>filter selected rows. sl_commitmentAppliedCents r)"
  "(\<Sum>g\<leftarrow>usage_groups selected rows. us_count (snd g)) = int (length (filter selected rows))"
proof -
  note sums = usage_groups_sum [where selected = selected and rows = rows]
  show "(\<Sum>g\<leftarrow>usage_groups selected rows. us_onDemand (snd g)) = (\<Sum>r\<leftarrow>filter selected rows. sl_onDemandCostCents r)"
    and "(\<Sum>g\<leftarrow>usage_groups selected rows. us_realized (snd g)) = (\<Sum>r\<leftarrow>filter selected rows. sl_realizedCostCents r)"
    and "(\<Sum>g\<leftarrow>usage_groups selected rows. us_commitment (snd g)) = (\<Sum>r\<leftarrow>filter selected rows. sl_commitmentAppliedCents r)"
    by (rule sums; simp add: add_line_def no_usage_def)+
  show "(\<Sum>g\<leftarrow>usage_groups selected rows. us_count (snd g)) = int (length (filter selected rows))"
    using sums [of us_count "\<lambda>_. 1"] by (simp add: add_line_def no_usage_def sum_list_triv)
qed

end
