(* ===== verification/Forecast.thy ===== *)
theory Forecast
  imports Usage_History Job_Queue
begin

text \<open>
  core/forecasting/forecast-worker.ts: the seasonal-naive forecast. The months of usage history are
  grouped by dimension (provider, service, region); each dimension gets one point per month of the
  horizon, the average of the history months with the same calendar month, or of all of them when
  there is none. \<open>Date.UTC\<close> and the months follow the calendar of theory Js_Dates.
\<close>

section \<open>Data\<close>

record usage_month =
  m_month :: string
  m_provider :: string
  m_serviceCode :: string
  m_region :: string
  m_onDemandCostCents :: string
  m_realizedCostCents :: string
  m_usageQuantity :: string
  m_lineItemCount :: int

datatype basis = SeasonalMonth | AllHistoryAverage

record forecast_row =
  f_month :: string
  f_provider :: string
  f_service_code :: string
  f_region :: string
  f_cost :: string
  f_basis :: basis

record forecast_run =
  fr_id :: string
  fr_tenantId :: string
  fr_forecastModelId :: string
  fr_method :: string
  fr_providerScope :: "string list"
  fr_serviceScope :: "string list"
  fr_inputWindowStart :: string
  fr_inputWindowEnd :: string
  fr_horizonMonths :: nat
  fr_randomSeed :: string

section \<open>Months\<close>

text \<open>\<open>Date.UTC(year, month, 1)\<close>: a year of 0 to 99 means 1900 to 1999; the month counts from 0 and
  may exceed 11.\<close>

definition date_utc :: "int \<Rightarrow> int \<Rightarrow> int" where
  "date_utc year month =
     (let y = (if 0 \<le> year \<and> year \<le> 99 then 1900 + year else year)
      in days_from_civil (y + month div 12) (month mod 12 + 1) 1 * ms_per_day)"

definition utc_year :: "int \<Rightarrow> int" where
  "utc_year t = fst (civil_from_days (t div ms_per_day))"

definition utc_month :: "int \<Rightarrow> int" where
  "utc_month t = fst (snd (civil_from_days (t div ms_per_day))) - 1"

definition forecastMonths :: "string \<Rightarrow> nat \<Rightarrow> string list result" where
  "forecastMonths inputWindowEnd horizonMonths =
     (case map number_of (split_on (CHR ''-'') inputWindowEnd) of
        Some year # Some month # _ \<Rightarrow>
          let start = date_utc year month in
          Inr (map (\<lambda>index. slice 0 7 (iso_string (date_utc (utc_year start) (utc_month start + int index))))
            [0..<horizonMonths])
      | _ \<Rightarrow> if horizonMonths = 0 then Inr [] else Inl (Thrown ''RangeError''))"

text \<open>\<open>Math.floor((Date.parse(end) - Date.parse(start)) / 86400000) + 1\<close>; NaN is None.\<close>

definition inclusiveDays :: "(string \<Rightarrow> int option) \<Rightarrow> string \<Rightarrow> string \<Rightarrow> int option" where
  "inclusiveDays date_parse startDate endDate =
     (case (date_parse (startDate @ ''T00:00:00Z''), date_parse (endDate @ ''T00:00:00Z'')) of
        (Some s, Some e) \<Rightarrow> Some ((e - s) div ms_per_day + 1)
      | _ \<Rightarrow> None)"

section \<open>Points\<close>

definition dimensionKey :: "usage_month \<Rightarrow> string" where
  "dimensionKey m = m_provider m @ [CHR 0x00] @ m_serviceCode m @ [CHR 0x00] @ m_region m"

definition push_month :: "usage_month list \<Rightarrow> usage_month \<Rightarrow> usage_month list" where
  "push_month history m = history @ [m]"

definition no_history :: "usage_month \<Rightarrow> usage_month list" where
  "no_history m = []"

definition dimensionsByKey :: "usage_month list \<Rightarrow> (string \<times> usage_month list) list" where
  "dimensionsByKey months = js_group dimensionKey no_history push_month months"

definition averageCents :: "usage_month list \<Rightarrow> string result" where
  "averageCents months =
     bindR (traverseR (\<lambda>m. bigintR (m_onDemandCostCents m)) months) (\<lambda>costs.
     let total = foldl (\<lambda>sum cost. sum + cost) 0 costs; count = int (length months) in
     if count = 0 then Inl (Thrown ''RangeError'')
     else Inr (show_int (tdiv (total + tdiv count 2) count)))"

definition seasonal_rows :: "usage_month list \<Rightarrow> string \<Rightarrow> usage_month list" where
  "seasonal_rows history month = filter (\<lambda>entry. slice 5 7 (m_month entry) = slice 5 7 month) history"

definition forecastPoint :: "string \<Rightarrow> usage_month list \<Rightarrow> string \<Rightarrow> forecast_row result" where
  "forecastPoint key history month =
     (let seasonal = seasonal_rows history month;
          basisRows = (if seasonal \<noteq> [] then seasonal else history);
          parts = split_on (CHR 0x00) key in
      bindR (averageCents basisRows) (\<lambda>cost.
      Inr \<lparr>f_month = month, f_provider = parts ! 0, f_service_code = parts ! 1, f_region = parts ! 2,
           f_cost = cost, f_basis = (if seasonal \<noteq> [] then SeasonalMonth else AllHistoryAverage)\<rparr>))"

section \<open>The artifact\<close>

datatype quality_warning = NoEligibleUsageHistory | LowHistoryDays | LowMonthlyObservations

definition warning_text :: "quality_warning \<Rightarrow> string" where
  "warning_text q = (case q of NoEligibleUsageHistory \<Rightarrow> ''NO_ELIGIBLE_USAGE_HISTORY''
     | LowHistoryDays \<Rightarrow> ''LOW_HISTORY_DAYS'' | LowMonthlyObservations \<Rightarrow> ''LOW_MONTHLY_OBSERVATIONS'')"

text \<open>A comparison with NaN is false.\<close>

definition qualityWarnings :: "int option \<Rightarrow> nat \<Rightarrow> int \<Rightarrow> int \<Rightarrow> quality_warning list" where
  "qualityWarnings historyDays monthlyObservations lineItems minHistoryDays =
     (if lineItems = 0 then [NoEligibleUsageHistory] else [])
     @ (case historyDays of Some d \<Rightarrow> if d < minHistoryDays then [LowHistoryDays] else [] | None \<Rightarrow> [])
     @ (if monthlyObservations < 3 then [LowMonthlyObservations] else [])"

definition basis_text :: "basis \<Rightarrow> string" where
  "basis_text b = (case b of SeasonalMonth \<Rightarrow> ''seasonal_month'' | AllHistoryAverage \<Rightarrow> ''all_history_average'')"

definition point_json :: "forecast_row \<Rightarrow> json" where
  "point_json p = JObj [(''month'', JStr (f_month p)), (''provider'', JStr (f_provider p)),
     (''service_code'', JStr (f_service_code p)), (''region'', JStr (f_region p)),
     (''forecast_on_demand_cost_cents'', JStr (f_cost p)), (''basis'', JStr (basis_text (f_basis p)))]"

text \<open>\<open>new Set(months.map(month => month.month)).size\<close> and the sum of the line items.\<close>

definition observed_months :: "usage_month list \<Rightarrow> nat" where
  "observed_months months = length (remdups (map m_month months))"

definition total_line_items :: "usage_month list \<Rightarrow> int" where
  "total_line_items months = foldl (\<lambda>sum m. sum + m_lineItemCount m) 0 months"

definition quality_metrics :: "forecast_run \<Rightarrow> int option \<Rightarrow> usage_month list \<Rightarrow> nat \<Rightarrow> quality_warning list \<Rightarrow> json" where
  "quality_metrics run historyDays months points warnings = JObj
     [(''method'', JStr (fr_method run)),
      (''history_days'', (case historyDays of Some d \<Rightarrow> JInt d | None \<Rightarrow> JNull)),
      (''monthly_observations'', JInt (int (observed_months months))),
      (''source_line_items'', JInt (total_line_items months)),
      (''forecast_points'', JInt (int points)),
      (''confidence'', JStr (if warnings = [] then ''high'' else ''low'')),
      (''warnings'', JArr (map (JStr \<circ> warning_text) warnings))]"

definition forecast_points :: "usage_month list \<Rightarrow> string list \<Rightarrow> forecast_row list result" where
  "forecast_points months forecast_months =
     bindR (traverseR (\<lambda>(key, history). traverseR (\<lambda>month. forecastPoint key history month) forecast_months)
       (dimensionsByKey months)) (\<lambda>lists. Inr (concat lists))"

record artifact =
  a_json :: "(string \<times> json) list"
  a_metrics :: json
  a_warnings :: "quality_warning list"
  a_points :: "forecast_row list"

definition buildSeasonalNaiveArtifact :: "(string \<Rightarrow> int option) \<Rightarrow> forecast_run \<Rightarrow> usage_month list \<Rightarrow> int \<Rightarrow> artifact result" where
  "buildSeasonalNaiveArtifact date_parse run months minHistoryDays =
     (let historyDays = inclusiveDays date_parse (fr_inputWindowStart run) (fr_inputWindowEnd run);
          warnings = qualityWarnings historyDays (observed_months months) (total_line_items months) minHistoryDays in
      bindR (forecastMonths (fr_inputWindowEnd run) (fr_horizonMonths run)) (\<lambda>forecast_months.
      bindR (forecast_points months forecast_months) (\<lambda>points.
      let metrics = quality_metrics run historyDays months (length points) warnings in
      Inr \<lparr>a_json =
        [(''schema_version'', JStr ''forecast_distribution:seasonal_naive:v1''),
         (''forecast_run_id'', JStr (fr_id run)),
         (''forecast_model_id'', JStr (fr_forecastModelId run)),
         (''method'', JStr (fr_method run)),
         (''input_window'', JObj [(''start'', JStr (fr_inputWindowStart run)), (''end'', JStr (fr_inputWindowEnd run))]),
         (''horizon_months'', JInt (int (fr_horizonMonths run))),
         (''random_seed'', JStr (fr_randomSeed run)),
         (''quality_metrics'', metrics),
         (''forecast_points'', JArr (map point_json points))],
        a_metrics = metrics, a_warnings = warnings, a_points = points\<rparr>)))"

section \<open>Lemmas\<close>

definition month_clean :: "usage_month \<Rightarrow> bool" where
  "month_clean m = (CHR 0x00 \<notin> set (m_provider m) \<and> CHR 0x00 \<notin> set (m_serviceCode m) \<and> CHR 0x00 \<notin> set (m_region m))"

interpretation dim: grouping dimensionKey no_history push_month "\<lambda>_. True"
  by unfold_locales (simp add: no_history_def)

lemma foldl_push: "foldl push_month h ms = h @ ms"
  by (induction ms arbitrary: h) (simp_all add: push_month_def)

lemma dimension_entry:
  assumes "(key, history) \<in> set (dimensionsByKey months)"
  shows "history = filter (\<lambda>m. dimensionKey m = key) months \<and> history \<noteq> []"
proof -
  obtain r0 where "r0 \<in> set months" "dimensionKey r0 = key"
    "history = foldl push_month (no_history r0) (filter (\<lambda>r. dimensionKey r = key) months)"
    using dim.group_entry assms unfolding dimensionsByKey_def by (metis (mono_tags, lifting))
  then show ?thesis by (auto simp: foldl_push no_history_def filter_empty_conv)
qed

lemma dimension_parts:
  "month_clean m \<Longrightarrow> split_on (CHR 0x00) (dimensionKey m) = [m_provider m, m_serviceCode m, m_region m]"
  by (simp add: dimensionKey_def split_on_append split_on_no_sep month_clean_def)

lemma averageCents_Inr:
  assumes "averageCents months = Inr s"
  obtains costs avg where "map (\<lambda>m. bigint_of (m_onDemandCostCents m)) months = map Some costs"
    and "s = show_int avg" and "months \<noteq> []"
    and "avg = tdiv (sum_list costs + int (length costs) div 2) (int (length costs))"
proof -
  from assms obtain costs where t: "traverseR (\<lambda>m. bigintR (m_onDemandCostCents m)) months = Inr costs"
    and ne: "months \<noteq> []"
    and s: "s = show_int (tdiv (foldl (\<lambda>sum cost. sum + cost) 0 costs + tdiv (int (length months)) 2) (int (length months)))"
    by (auto simp: averageCents_def bindR_eq_Inr Let_def split: if_splits)
  have l: "length costs = length months" by (rule traverseR_length [OF t])
  have "map (\<lambda>m. bigint_of (m_onDemandCostCents m)) months = map Some costs"
    using t [THEN traverseR_Inr [THEN iffD1]]
  proof (induction months arbitrary: costs)
    case (Cons m ms)
    then show ?case by (cases costs) auto
  qed simp
  moreover have "foldl (\<lambda>sum cost. sum + cost) 0 costs = sum_list costs"
    using foldl_add [of "\<lambda>x. x" 0 costs] by simp
  ultimately show thesis using that s ne l by (simp add: tdiv_nonneg)
qed

text \<open>The rounded average of amounts that are not negative lies between two bounds of them.\<close>

lemma rounded_mean_bounds:
  fixes costs :: "int list"
  assumes "costs \<noteq> []" and "\<forall>c\<in>set costs. lo \<le> c \<and> c \<le> hi" and "0 \<le> lo"
  defines "avg \<equiv> tdiv (sum_list costs + int (length costs) div 2) (int (length costs))"
  shows "lo \<le> avg \<and> avg \<le> hi \<and> 2 * \<bar>int (length costs) * avg - sum_list costs\<bar> \<le> int (length costs)"
proof -
  let ?n = "int (length costs)"
  have n: "0 < ?n" using assms(1) by simp
  have lo: "lo * ?n \<le> sum_list costs" and hi: "sum_list costs \<le> hi * ?n"
    using sum_list_ge_len_mult [of costs lo "\<lambda>x. x"] sum_list_le_len_mult [of costs "\<lambda>x. x" hi] assms(2)
    by simp_all
  have "0 \<le> sum_list costs" using lo assms(3) n by (meson mult_nonneg_nonneg order_trans less_imp_le)
  then have avg: "avg = (sum_list costs + ?n div 2) div ?n" using n by (simp add: avg_def tdiv_nonneg)
  define r h where "r = (sum_list costs + ?n div 2) mod ?n" and "h = ?n div 2"
  have e: "avg * ?n + r = sum_list costs + h" unfolding avg r_def h_def by simp
  have r: "0 \<le> r" "r < ?n" using n by (simp_all add: r_def)
  have h: "2 * h \<le> ?n" "?n \<le> 2 * h + 1" "0 \<le> h" unfolding h_def by linarith+
  have "lo * ?n \<le> avg * ?n + (?n - 1)" using e r lo h by linarith
  then have "lo * ?n < (avg + 1) * ?n" by (simp add: algebra_simps)
  then have "lo < avg + 1" using n by (simp add: mult_less_cancel_right)
  have "avg * ?n \<le> hi * ?n + h" using e r hi by linarith
  moreover have "h < ?n" using h n by linarith
  ultimately have "avg * ?n < (hi + 1) * ?n" unfolding distrib_right by linarith
  then have "avg < hi + 1" using n by (simp add: mult_less_cancel_right)
  note \<open>lo < avg + 1\<close> this
  moreover have "2 * \<bar>avg * ?n - sum_list costs\<bar> \<le> ?n" using e r h by arith
  ultimately show ?thesis by (simp add: mult.commute)
qed

end
