(* ===== verification/Forecast_Worker.thy ===== *)
theory Forecast_Worker
  imports Forecast
begin

text \<open>
  core/forecasting/forecast-worker.ts, the worker, with the calls it makes of
  core/forecasting/forecast-repository.ts. The
  usage rows, the models, the runs and the object store are the world.
\<close>

record forecast_data =
  fd_run :: forecast_run
  fd_outputUri :: "string option"
  fd_qualityMetrics :: json
  fd_errorDetails :: json

record forecast_world =
  fw_runs :: "forecast_data job list"
  fw_models :: "string list"
  fw_usage :: "stored_line list"
  fw_objects :: "(string \<times> string) list"

text \<open>The claim commits the new status before it looks for the model: without a model it returns
  nothing and leaves the run running.\<close>

definition claimNextQueuedRun :: "forecast_world \<Rightarrow> forecast_data job option result \<times> forecast_world" where
  "claimNextQueuedRun w =
     (let (run, runs) = claim_next (fw_runs w) in
      case run of
        None \<Rightarrow> (Inr None, w\<lparr>fw_runs := runs\<rparr>)
      | Some job \<Rightarrow>
          (Inr (if fr_forecastModelId (fd_run (j_data job)) \<in> set (fw_models w) then Some job else None),
           w\<lparr>fw_runs := runs\<rparr>))"

definition history_line :: "forecast_run \<Rightarrow> int \<Rightarrow> int \<Rightarrow> stored_line \<Rightarrow> bool" where
  "history_line run start end_date r =
     (sl_tenantId r = fr_tenantId run \<and> sl_provider r \<in> set (fr_providerScope run)
      \<and> sl_serviceCode r \<in> set (fr_serviceScope run)
      \<and> start \<le> sl_usageStart r \<and> sl_usageEnd r \<le> end_date + ms_per_day)"

definition history_month :: "string list \<times> usage_sums \<Rightarrow> usage_month" where
  "history_month g = \<lparr>m_month = fst g ! 0, m_provider = fst g ! 1, m_serviceCode = fst g ! 2, m_region = fst g ! 3,
     m_onDemandCostCents = show_int (us_onDemand (snd g)), m_realizedCostCents = show_int (us_realized (snd g)),
     m_usageQuantity = numeric_8_text (us_quantity (snd g)), m_lineItemCount = us_count (snd g)\<rparr>"

definition listUsageMonths :: "forecast_run \<Rightarrow> forecast_world \<Rightarrow> usage_month list result \<times> forecast_world" where
  "listUsageMonths run w =
     (case (sql_date (fr_inputWindowStart run), sql_date (fr_inputWindowEnd run)) of
        (Some start, Some end_date) \<Rightarrow>
          (Inr (map history_month (usage_groups (history_line run start end_date) (fw_usage w))), w)
      | _ \<Rightarrow> (Inl (Thrown ''invalid input syntax for type date''), w))"

definition completeRun :: "string \<Rightarrow> string \<Rightarrow> json \<Rightarrow> forecast_world \<Rightarrow> unit result \<times> forecast_world" where
  "completeRun runId outputUri qualityMetrics w =
     (Inr (), w\<lparr>fw_runs := update_job runId Running Completed
        (\<lambda>d. d\<lparr>fd_outputUri := Some outputUri, fd_qualityMetrics := qualityMetrics, fd_errorDetails := JObj []\<rparr>) (fw_runs w)\<rparr>)"

definition failRun :: "string \<Rightarrow> string \<Rightarrow> forecast_world \<Rightarrow> unit result \<times> forecast_world" where
  "failRun runId error_code w =
     (Inr (), w\<lparr>fw_runs := update_job runId Running Failed
        (\<lambda>d. d\<lparr>fd_outputUri := None, fd_qualityMetrics := JObj [],
               fd_errorDetails := JObj [(''code'', JStr error_code)]\<rparr>) (fw_runs w)\<rparr>)"

definition fw_put :: "string \<Rightarrow> string \<Rightarrow> forecast_world \<Rightarrow> unit result \<times> forecast_world" where
  "fw_put key bytes w = (Inr (), w\<lparr>fw_objects := AList.update key bytes (fw_objects w)\<rparr>)"

datatype forecast_result =
    ForecastIdle
  | ForecastProcessed (fres_run: string) (fres_status: job_status) (fres_output: "string option")
      (fres_warnings: "quality_warning list")

definition forecast_uri :: "forecast_run \<Rightarrow> string" where
  "forecast_uri run = ''forecasts/'' @ fr_id run @ ''/seasonal-naive-v1.json''"

definition forecast_body :: "(string \<Rightarrow> int option) \<Rightarrow> int \<Rightarrow> (nat \<Rightarrow> fault) \<Rightarrow> forecast_data job
    \<Rightarrow> (forecast_world, forecast_result) eff" where
  "forecast_body date_parse minHistoryDays faults job =
     (let run = fd_run (j_data job) in
     bindM (call faults (listUsageMonths run)) (\<lambda>months.
     bindM (liftM (buildSeasonalNaiveArtifact date_parse run months minHistoryDays)) (\<lambda>artifact.
     bindM (call faults (fw_put (forecast_uri run) (stringify (JObj (a_json artifact))))) (\<lambda>_.
     bindM (call faults (completeRun (j_id job) (forecast_uri run) (a_metrics artifact))) (\<lambda>_.
     returnM (ForecastProcessed (j_id job) Completed (Some (forecast_uri run)) (a_warnings artifact)))))))"

definition forecast_failure :: "(nat \<Rightarrow> fault) \<Rightarrow> forecast_data job \<Rightarrow> (forecast_world, forecast_result) eff" where
  "forecast_failure faults job =
     bindM (call faults (failRun (j_id job) ''FORECAST_WORKER_FAILED'')) (\<lambda>_.
     returnM (ForecastProcessed (j_id job) Failed None []))"

definition processNextForecastRun :: "(string \<Rightarrow> int option) \<Rightarrow> int \<Rightarrow> (nat \<Rightarrow> fault) \<Rightarrow> (forecast_world, forecast_result) eff" where
  "processNextForecastRun date_parse minHistoryDays faults =
     process_next (call faults claimNextQueuedRun) ForecastIdle
       (forecast_body date_parse minHistoryDays faults) (forecast_failure faults)"

lemma listUsageMonths_state [simp]: "snd (listUsageMonths run w) = w"
  by (simp add: listUsageMonths_def split: option.splits)

section \<open>The contract of the queue\<close>

text \<open>The foreign key \<open>forecast_runs_tenant_model_fkey\<close>: the model of a run exists.\<close>

definition fw_wf :: "forecast_world \<Rightarrow> bool" where
  "fw_wf w = (unique_ids (fw_runs w)
     \<and> (\<forall>j\<in>set (fw_runs w). fr_forecastModelId (fd_run (j_data j)) \<in> set (fw_models w)))"

abbreviation fw_statuses :: "forecast_world \<Rightarrow> string \<Rightarrow> job_status option" where
  "fw_statuses w \<equiv> statuses (fw_runs w)"

lemma fw_wf_keys:
  "fw_wf w = (unique_ids (fw_runs w) \<and> (\<forall>(jid, d)\<in>set (job_keys (fw_runs w)). fr_forecastModelId (fd_run d) \<in> set (fw_models w)))"
  by (auto simp: fw_wf_def job_keys_def)

lemma fw_wf_update:
  assumes "fw_wf w" and "\<And>d. fd_run (f d) = fd_run d"
  shows "fw_wf (w\<lparr>fw_runs := update_job jid g s f (fw_runs w)\<rparr>)"
  using assms by (auto simp: fw_wf_def) (auto simp: update_job_def split: if_splits)

lemma fw_wf_objects [simp]: "fw_wf (w\<lparr>fw_objects := obj\<rparr>) = fw_wf w"
  by (simp add: fw_wf_def)

lemma fw_claim_step:
  assumes "fw_wf w"
  shows "claimNextQueuedRun w = (Inr (fst (claim_next (fw_runs w))), w\<lparr>fw_runs := snd (claim_next (fw_runs w))\<rparr>)"
    and "fw_wf (w\<lparr>fw_runs := snd (claim_next (fw_runs w))\<rparr>)"
proof -
  have u: "unique_ids (fw_runs w)" using assms by (simp add: fw_wf_def)
  show "claimNextQueuedRun w = (Inr (fst (claim_next (fw_runs w))), w\<lparr>fw_runs := snd (claim_next (fw_runs w))\<rparr>)"
    using claim_next_statuses [OF u] assms
    by (auto simp: claimNextQueuedRun_def split_def Let_def fw_wf_keys split: option.splits)
  show "fw_wf (w\<lparr>fw_runs := snd (claim_next (fw_runs w))\<rparr>)"
    using assms by (simp add: fw_wf_keys unique_ids_keys job_keys_claim)
qed

interpretation fw: job_worker fw_statuses fw_wf j_id "call faults claimNextQueuedRun" ForecastIdle
    "forecast_body date_parse minHistoryDays faults" "forecast_failure faults"
  for date_parse minHistoryDays faults
proof
  fix s :: "string \<Rightarrow> job_status option" and run :: "forecast_data job"
  show "valid (\<lambda>w. fw_wf w \<and> fw_statuses w = s) (call faults claimNextQueuedRun)
      (\<lambda>nxt w. fw_wf w \<and> (case nxt of None \<Rightarrow> fw_statuses w = s
         | Some run \<Rightarrow> s (j_id run) = Some Queued \<and> fw_statuses w = s(j_id run \<mapsto> Running)))
      (\<lambda>w. fw_wf w \<and> (fw_statuses w = s \<or> (\<exists>jid. s jid = Some Queued \<and> fw_statuses w = s(jid \<mapsto> Running))))"
  proof (rule valid_call)
    fix w assume w: "fw_wf w \<and> fw_statuses w = s"
    then have u: "unique_ids (fw_runs w)" by (simp add: fw_wf_def)
    note c = claim_next_statuses [OF u] fw_claim_step [of w]
    show "fw_wf (snd (claimNextQueuedRun w)) \<and> (case x of None \<Rightarrow> fw_statuses (snd (claimNextQueuedRun w)) = s
        | Some run \<Rightarrow> s (j_id run) = Some Queued \<and> fw_statuses (snd (claimNextQueuedRun w)) = s(j_id run \<mapsto> Running))"
      if "fst (claimNextQueuedRun w) = Inr x" for x
      using c w that by (auto split: option.splits)
    show "fw_wf (snd (claimNextQueuedRun w)) \<and> (fw_statuses (snd (claimNextQueuedRun w)) = s
        \<or> (\<exists>jid. s jid = Some Queued \<and> fw_statuses (snd (claimNextQueuedRun w)) = s(jid \<mapsto> Running)))"
      using c w by (cases "fst (claim_next (fw_runs w))") auto
  qed simp
  show "valid (\<lambda>w. fw_wf w \<and> fw_statuses w = s) (forecast_body date_parse minHistoryDays faults run)
      (\<lambda>_ w. fw_wf w \<and> (\<exists>t. terminal_status t \<and> fw_statuses w = s(j_id run \<mapsto> t)))
      (\<lambda>w. fw_wf w \<and> (fw_statuses w = s \<or> (\<exists>t. terminal_status t \<and> fw_statuses w = s(j_id run \<mapsto> t))))"
    if "s (j_id run) = Some Running"
    unfolding forecast_body_def Let_def
  proof (rule valid_step, rule valid_call, simp_all add: listUsageMonths_state, rule valid_step, rule valid_lift, simp_all,
      rule valid_step, rule valid_call, simp_all add: fw_put_def)
    fix artifact
    show "valid (\<lambda>w. fw_wf w \<and> fw_statuses w = s)
       (bindM (call faults (completeRun (j_id run) (forecast_uri (fd_run (j_data run))) (a_metrics artifact)))
         (\<lambda>_. returnM (ForecastProcessed (j_id run) Completed (Some (forecast_uri (fd_run (j_data run)))) (a_warnings artifact))))
       (\<lambda>_ w. fw_wf w \<and> (\<exists>t. terminal_status t \<and> fw_statuses w = s(j_id run \<mapsto> t)))
       (\<lambda>w. fw_wf w \<and> (fw_statuses w = s \<or> (\<exists>t. terminal_status t \<and> fw_statuses w = s(j_id run \<mapsto> t))))"
      by (rule valid_bind [where R = "\<lambda>_ w. fw_wf w \<and> fw_statuses w = s(j_id run \<mapsto> Completed)", OF valid_call valid_return])
        (use that in \<open>auto simp: completeRun_def statuses_update fw_wf_update terminal_status_def\<close>)
  qed
  show "valid (\<lambda>w. fw_wf w \<and> fw_statuses w = s) (forecast_failure faults run)
      (\<lambda>_ w. fw_wf w \<and> fw_statuses w = (if s (j_id run) = Some Running then s(j_id run \<mapsto> Failed) else s))
      (\<lambda>w. fw_wf w \<and> (fw_statuses w = s \<or> fw_statuses w = (if s (j_id run) = Some Running then s(j_id run \<mapsto> Failed) else s)))"
    unfolding forecast_failure_def
    by (rule valid_bind [where R = "\<lambda>_ w. fw_wf w
          \<and> fw_statuses w = (if s (j_id run) = Some Running then s(j_id run \<mapsto> Failed) else s)", OF valid_call valid_return])
      (auto simp: failRun_def statuses_update fw_wf_update)
qed

end
