(* ===== verification/Forecast_Claims.thy ===== *)
theory Forecast_Claims
  imports Forecast
begin

text \<open>
  The properties of the forecast (theory Forecast): its months, its points and their values.
\<close>

section \<open>Samples\<close>

definition sample_month :: "string \<Rightarrow> string \<Rightarrow> usage_month" where
  "sample_month month cost = \<lparr>m_month = month, m_provider = ''aws'', m_serviceCode = ''EC2'', m_region = ''eu-1'',
     m_onDemandCostCents = cost, m_realizedCostCents = cost, m_usageQuantity = ''1.00000000'', m_lineItemCount = 3\<rparr>"

definition sample_history :: "usage_month list" where
  "sample_history = [sample_month ''2025-06'' ''100'', sample_month ''2026-05'' ''201'']"

definition sample_points :: "forecast_row list" where
  "sample_points = [
     \<lparr>f_month = ''2026-06'', f_provider = ''aws'', f_service_code = ''EC2'', f_region = ''eu-1'', f_cost = ''100'',
      f_basis = SeasonalMonth\<rparr>,
     \<lparr>f_month = ''2026-07'', f_provider = ''aws'', f_service_code = ''EC2'', f_region = ''eu-1'', f_cost = ''151'',
      f_basis = AllHistoryAverage\<rparr>]"

lemma sample_points_ok: "forecast_points sample_history [''2026-06'', ''2026-07''] = Inr sample_points"
  by code_simp

lemma sample_history_clean: "\<forall>m\<in>set sample_history. month_clean m"
  by code_simp

section \<open>Months\<close>

lemma number_of_pad: "0 \<le> i \<Longrightarrow> number_of (pad_int n i) = Some i"
  using pad_digits [of n "nat i"] by (simp add: number_of_def pad_int_def show_int_nat pad_start_def)

lemma dash_free: "0 \<le> i \<Longrightarrow> CHR ''-'' \<notin> set (pad_int n i)"
  using pad_digits [of n "nat i"] by (auto simp: pad_int_def show_int_nat is_digit_def code_def)

text \<open>
  The forecast months are the months that follow the input window: for a window ending on a day
  of month m of year y, they are the next \<open>horizon\<close> consecutive months as \<open>YYYY-MM\<close>, across year
  ends, for years from 100 to 9999.
\<close>

lemma forecast_months_consecutive:
  assumes "100 \<le> y" and "1 \<le> m" and "m \<le> 12" and "12 * y + m + int h \<le> 120000"
  shows "forecastMonths (pad_int 4 y @ ''-'' @ pad_int 2 m @ ''-'' @ day) h
    = Inr (map (\<lambda>i. month_label (12 * y + m + int i)) [0..<h])"
proof -
  have "split_on (CHR ''-'') (pad_int 4 y @ ''-'' @ pad_int 2 m @ ''-'' @ day)
      = pad_int 4 y # pad_int 2 m # split_on (CHR ''-'') day"
    using assms by (simp add: split_on_append dash_free)
  then have n: "map number_of (split_on (CHR ''-'') (pad_int 4 y @ ''-'' @ pad_int 2 m @ ''-'' @ day))
      = Some y # Some m # map number_of (split_on (CHR ''-'') day)"
    using assms by (simp add: number_of_pad)
  define y0 m0 where "y0 = y + m div 12" and "m0 = m mod 12"
  have m0: "0 \<le> m0" "m0 \<le> 11" and sum: "12 * y0 + m0 = 12 * y + m" by (simp_all add: m0_def y0_def)
  have y0: "100 \<le> y0" using assms by (simp add: y0_def)
  have "date_utc y m = days_from_civil y0 (m0 + 1) 1 * ms_per_day"
    using assms(1) by (simp add: date_utc_def y0_def m0_def Let_def)
  then have st: "utc_year (date_utc y m) = y0" "utc_month (date_utc y m) = m0"
    using civil_of_month_start [of "m0 + 1" y0] m0
    by (simp_all add: utc_year_def utc_month_def ms_per_day_def)
  have each: "slice 0 7 (iso_string (date_utc y0 (m0 + int i))) = month_label (12 * y + m + int i)" if "i < h" for i
  proof -
    let ?y = "y0 + (m0 + int i) div 12" and ?m = "(m0 + int i) mod 12"
    have k: "12 * ?y + ?m = 12 * y + m + int i" using sum by simp
    have "0 \<le> ?m" "?m \<le> 11" by simp_all
    moreover have "100 \<le> ?y" using y0 m0 by simp
    moreover have "?y \<le> 9999"
    proof -
      have "Y \<le> 9999" if "12 * Y + M = 12 * y + m + int i" "0 \<le> M" for Y M :: int
        using that assms(4) \<open>i < h\<close> by linarith
      from this [OF k] show ?thesis by simp
    qed
    ultimately have "slice 0 7 (iso_string (days_from_civil ?y (?m + 1) 1 * ms_per_day)) = month_label (12 * ?y + ?m)"
      using iso_month_label [of ?y "?m + 1"] by simp
    moreover have "date_utc y0 (m0 + int i) = days_from_civil ?y (?m + 1) 1 * ms_per_day"
      using y0 by (simp add: date_utc_def Let_def)
    ultimately show ?thesis unfolding k by (simp only:)
  qed
  show ?thesis
    unfolding forecastMonths_def n list.case option.case Let_def st using each by simp
qed

lemma forecast_months_consecutive_witness:
  "forecastMonths (pad_int 4 2025 @ ''-'' @ pad_int 2 11 @ ''-'' @ ''30'') 3 = Inr [''2025-12'', ''2026-01'', ''2026-02'']"
proof -
  have "map (\<lambda>i. month_label (12 * 2025 + 11 + int i)) [0..<3] = [''2025-12'', ''2026-01'', ''2026-02'']" by code_simp
  with forecast_months_consecutive [of 2025 11 3 "''30''"] show ?thesis by simp
qed

section \<open>Points\<close>

lemma forecastPoint_Inr:
  assumes "forecastPoint key history month = Inr p"
  shows "f_month p = month" and "f_provider p = split_on (CHR 0x00) key ! 0"
    and "f_service_code p = split_on (CHR 0x00) key ! 1" and "f_region p = split_on (CHR 0x00) key ! 2"
    and "f_basis p = (if seasonal_rows history month \<noteq> [] then SeasonalMonth else AllHistoryAverage)"
    and "averageCents (if seasonal_rows history month \<noteq> [] then seasonal_rows history month else history) = Inr (f_cost p)"
  using assms by (auto simp: forecastPoint_def Let_def bindR_eq_Inr)

lemma forecast_points_list:
  assumes "forecast_points months fms = Inr pts"
  shows "pts = concat (map (\<lambda>(key, history). map (\<lambda>month. projr (forecastPoint key history month)) fms) (dimensionsByKey months))"
    and "\<And>key history month. (key, history) \<in> set (dimensionsByKey months) \<Longrightarrow> month \<in> set fms \<Longrightarrow>
      forecastPoint key history month = Inr (projr (forecastPoint key history month))"
proof -
  let ?f = "\<lambda>(key, history). traverseR (\<lambda>month. forecastPoint key history month) fms"
  from assms obtain lists where t: "traverseR ?f (dimensionsByKey months) = Inr lists" and p: "pts = concat lists"
    by (auto simp: forecast_points_def bindR_eq_Inr)
  from traverseR_projr [OF t] have l: "lists = map (\<lambda>x. projr (?f x)) (dimensionsByKey months)"
    and e: "\<And>key history. (key, history) \<in> set (dimensionsByKey months) \<Longrightarrow>
      traverseR (\<lambda>month. forecastPoint key history month) fms = Inr (projr (?f (key, history)))" by auto
  have "projr (?f x) = (\<lambda>(key, history). map (\<lambda>month. projr (forecastPoint key history month)) fms) x"
    if "x \<in> set (dimensionsByKey months)" for x
    using e [of "fst x" "snd x"] that traverseR_projr by (cases x) fastforce
  then show "pts = concat (map (\<lambda>(key, history). map (\<lambda>month. projr (forecastPoint key history month)) fms) (dimensionsByKey months))"
    unfolding p l by (auto intro!: arg_cong [where f = concat] map_cong)
  show "forecastPoint key history month = Inr (projr (forecastPoint key history month))"
    if "(key, history) \<in> set (dimensionsByKey months)" "month \<in> set fms" for key history month
    using e [OF that(1)] traverseR_projr that(2) by blast
qed

lemma point_origin:
  assumes "forecast_points months fms = Inr pts" and "\<forall>m\<in>set months. month_clean m" and "p \<in> set pts"
  obtains m where "m \<in> set months" and "f_month p \<in> set fms"
    and "f_provider p = m_provider m" and "f_service_code p = m_serviceCode m" and "f_region p = m_region m"
    and "forecastPoint (dimensionKey m) (filter (\<lambda>x. dimensionKey x = dimensionKey m) months) (f_month p) = Inr p"
proof -
  from assms(3) obtain key history month where d: "(key, history) \<in> set (dimensionsByKey months)" "month \<in> set fms"
    and p: "p = projr (forecastPoint key history month)"
    unfolding forecast_points_list(1) [OF assms(1)] by auto
  with forecast_points_list(2) [OF assms(1)] have fp: "forecastPoint key history month = Inr p" by simp
  note h = dimension_entry [OF d(1)]
  then obtain m where m: "m \<in> set months" "dimensionKey m = key"
    by (metis (mono_tags, lifting) filter_empty_conv)
  have "split_on (CHR 0x00) key = [m_provider m, m_serviceCode m, m_region m]"
    using dimension_parts assms(2) m by metis
  with forecastPoint_Inr [OF fp] m d(2) h fp that show thesis by auto
qed

text \<open>
  The forecast covers every dimension and month, once: for every dimension of the history and
  every month of the horizon there is exactly one point, and there are no other points.
\<close>

theorem forecast_points_complete:
  assumes "forecast_points months fms = Inr pts" and "\<forall>m\<in>set months. month_clean m" and "distinct fms"
  shows "(\<forall>m\<in>set months. \<forall>month\<in>set fms. length (filter (\<lambda>p. f_provider p = m_provider m
        \<and> f_service_code p = m_serviceCode m \<and> f_region p = m_region m \<and> f_month p = month) pts) = 1)
    \<and> (\<forall>p\<in>set pts. f_month p \<in> set fms \<and> (\<exists>m\<in>set months. f_provider p = m_provider m
        \<and> f_service_code p = m_serviceCode m \<and> f_region p = m_region m))"
proof (intro conjI ballI)
  fix m month assume m: "m \<in> set months" and mo: "month \<in> set fms"
  let ?P = "\<lambda>p. f_provider p = m_provider m \<and> f_service_code p = m_serviceCode m \<and> f_region p = m_region m \<and> f_month p = month"
  let ?row = "\<lambda>(key, history). map (\<lambda>month. projr (forecastPoint key history month)) fms"
  have each: "length (filter ?P (?row d)) = (if fst d = dimensionKey m then 1 else 0)"
    if "d \<in> set (dimensionsByKey months)" for d
  proof -
    obtain key history where d: "d = (key, history)" by (cases d)
    note h = dimension_entry [of key history months]
    with that d obtain m' where m': "m' \<in> set months" "dimensionKey m' = key"
      by (metis (mono_tags, lifting) filter_empty_conv)
    have parts: "split_on (CHR 0x00) key = [m_provider m', m_serviceCode m', m_region m']"
      using dimension_parts assms(2) m' by metis
    have eq: "m_provider m' = m_provider m \<and> m_serviceCode m' = m_serviceCode m \<and> m_region m' = m_region m
        \<longleftrightarrow> key = dimensionKey m"
      using m' dimension_parts assms(2) m by (metis dimensionKey_def list.inject parts)
    have "?P (projr (forecastPoint key history mo')) \<longleftrightarrow> key = dimensionKey m \<and> mo' = month" if "mo' \<in> set fms" for mo'
    proof -
      have "forecastPoint key history mo' = Inr (projr (forecastPoint key history mo'))"
        using forecast_points_list(2) [OF assms(1)] \<open>d \<in> _\<close> d that by blast
      from forecastPoint_Inr [OF this] parts eq show ?thesis by auto
    qed
    then have "filter ?P (?row d) = map (\<lambda>mo'. projr (forecastPoint key history mo'))
        (filter (\<lambda>mo'. key = dimensionKey m \<and> mo' = month) fms)"
      unfolding d by (auto simp: filter_map comp_def intro!: arg_cong [where f = "map _"] filter_cong)
    moreover have "length (filter (\<lambda>mo'. mo' = month) fms) = 1"
      using assms(3) mo by (simp add: distinct_length_filter)
    ultimately show ?thesis unfolding d by auto
  qed
  have "length (filter ?P pts) = (\<Sum>d\<leftarrow>dimensionsByKey months. length (filter ?P (?row d)))"
    unfolding forecast_points_list(1) [OF assms(1)] by (simp add: filter_concat length_concat comp_def)
  also have "\<dots> = (\<Sum>d\<leftarrow>dimensionsByKey months. if fst d = dimensionKey m then 1 else 0)"
    by (rule arg_cong [where f = sum_list], rule map_cong [OF refl]) (rule each)
  also have "\<dots> = (\<Sum>k\<leftarrow>map fst (dimensionsByKey months). if k = dimensionKey m then 1 else 0)"
    by (simp add: comp_def)
  also have "\<dots> = 1"
  proof -
    have "distinct (map fst (dimensionsByKey months))" "dimensionKey m \<in> set (map fst (dimensionsByKey months))"
      using m by (simp_all add: dimensionsByKey_def js_group_distinct js_group_keys)
    then show ?thesis by (simp only: sum_indicator_distinct if_True)
  qed
  finally show "length (filter ?P pts) = 1" .
next
  fix p assume "p \<in> set pts"
  then show "f_month p \<in> set fms" by (rule point_origin [OF assms(1,2)])
next
  fix p assume "p \<in> set pts"
  then show "\<exists>m\<in>set months. f_provider p = m_provider m \<and> f_service_code p = m_serviceCode m \<and> f_region p = m_region m"
    by (rule point_origin [OF assms(1,2)]) blast
qed

theorem forecast_points_complete_witness:
  "length (filter (\<lambda>p. f_provider p = ''aws'' \<and> f_service_code p = ''EC2''
     \<and> f_region p = ''eu-1'' \<and> f_month p = ''2026-06'') sample_points) = 1"
proof -
  have "distinct [''2026-06'', ''2026-07'']" by simp
  from forecast_points_complete [OF sample_points_ok sample_history_clean this]
  show ?thesis by (simp add: sample_history_def sample_month_def)
qed

text \<open>
  C7: Each point is the rounded average of its basis: all the history months of its dimension with the
  same calendar month when there are any (basis seasonal_month), else all months of its dimension (basis
  all_history_average). The average of the costs is taken with half the count added before the truncating
  division; for costs that are not negative it is within half a cent of the exact mean and between the
  lowest and the highest cost of the basis. The texts of the history have no separators in them
  (\<open>month_clean\<close>), as the usage parsers ensure.
\<close>

theorem forecast_point_average:
  assumes "forecast_points months fms = Inr pts" and "\<forall>m\<in>set months. month_clean m" and "p \<in> set pts"
  shows "let own = filter (\<lambda>m. m_provider m = f_provider p \<and> m_serviceCode m = f_service_code p \<and> m_region m = f_region p) months;
      same_month = filter (\<lambda>m. slice 5 7 (m_month m) = slice 5 7 (f_month p)) own;
      basis_rows = (if same_month \<noteq> [] then same_month else own) in
    basis_rows \<noteq> [] \<and> f_basis p = (if same_month \<noteq> [] then SeasonalMonth else AllHistoryAverage)
    \<and> (\<exists>costs. map (\<lambda>m. bigint_of (m_onDemandCostCents m)) basis_rows = map Some costs
        \<and> f_cost p = show_int (tdiv (sum_list costs + int (length costs) div 2) (int (length costs)))
        \<and> ((\<forall>c\<in>set costs. 0 \<le> c) \<longrightarrow>
             2 * \<bar>int (length costs) * bigint (f_cost p) - sum_list costs\<bar> \<le> int (length costs)
             \<and> Min (set costs) \<le> bigint (f_cost p) \<and> bigint (f_cost p) \<le> Max (set costs)))"
proof -
  from point_origin [OF assms] obtain m where m: "m \<in> set months"
    and f: "f_provider p = m_provider m" "f_service_code p = m_serviceCode m" "f_region p = m_region m"
    and fp: "forecastPoint (dimensionKey m) (filter (\<lambda>x. dimensionKey x = dimensionKey m) months) (f_month p) = Inr p"
    by metis
  let ?own = "filter (\<lambda>x. m_provider x = f_provider p \<and> m_serviceCode x = f_service_code p \<and> m_region x = f_region p) months"
  have own: "filter (\<lambda>x. dimensionKey x = dimensionKey m) months = ?own"
    by (rule filter_cong [OF refl]) (use dimension_parts assms(2) m f in \<open>metis dimensionKey_def list.inject\<close>)
  define rows where "rows = (if seasonal_rows ?own (f_month p) \<noteq> [] then seasonal_rows ?own (f_month p) else ?own)"
  note g = forecastPoint_Inr [OF fp [unfolded own]]
  from g(6) obtain costs avg where c: "map (\<lambda>m. bigint_of (m_onDemandCostCents m)) rows = map Some costs"
    and a: "f_cost p = show_int avg" and ne: "rows \<noteq> []"
    and avg: "avg = tdiv (sum_list costs + int (length costs) div 2) (int (length costs))"
    unfolding rows_def by (rule averageCents_Inr)
  have "costs \<noteq> []" using c ne by (metis list.map_disc_iff)
  then have bounds: "2 * \<bar>int (length costs) * avg - sum_list costs\<bar> \<le> int (length costs) \<and> Min (set costs) \<le> avg \<and> avg \<le> Max (set costs)"
    if "\<forall>c\<in>set costs. 0 \<le> c"
    using rounded_mean_bounds [of costs "Min (set costs)" "Max (set costs)", folded avg] that by simp
  have basis: "f_basis p = (if seasonal_rows ?own (f_month p) \<noteq> [] then SeasonalMonth else AllHistoryAverage)"
    using g(5) .
  show ?thesis
    unfolding Let_def seasonal_rows_def [symmetric] rows_def [symmetric]
    by (intro conjI ne basis exI [of _ costs] c impI) (use a avg bounds in simp_all)
qed

theorem forecast_point_average_witness:
  "f_basis (sample_points ! 1) = AllHistoryAverage \<and> f_cost (sample_points ! 1) = show_int (tdiv (100 + 201 + 1) 2)"
proof -
  have b: "bigint_of ''100'' = Some 100" "bigint_of ''201'' = Some 201" by code_simp+
  have "sample_points ! 1 \<in> set sample_points" by (simp add: sample_points_def)
  from forecast_point_average [OF sample_points_ok sample_history_clean this]
  show ?thesis by (simp add: sample_points_def sample_history_def sample_month_def Let_def slice_def b) (auto simp: map_eq_Cons_conv)
qed

end
