(* ===== verification/Forecast_Worker_Claims.thy ===== *)
theory Forecast_Worker_Claims
  imports Forecast_Worker Forecast_Claims
begin

text \<open>
  Properties of the forecast worker: the history it reads is exact, and it ends the runs it takes.
\<close>

section \<open>A sample\<close>

definition sample_line :: "int \<Rightarrow> int \<Rightarrow> stored_line" where
  "sample_line day cents = \<lparr>sl_tenantId = ''t'', sl_provider = ''aws'', sl_serviceCode = ''EC2'', sl_region = ''eu-1'',
     sl_usageStart = day * ms_per_day, sl_usageEnd = (day + 1) * ms_per_day, sl_usageQuantity = 100000000,
     sl_onDemandCostCents = cents, sl_realizedCostCents = cents, sl_commitmentAppliedCents = 0\<rparr>"

definition sample_run :: forecast_run where
  "sample_run = \<lparr>fr_id = ''f'', fr_tenantId = ''t'', fr_forecastModelId = ''m'', fr_method = ''seasonal_naive'',
     fr_providerScope = [''aws''], fr_serviceScope = [''EC2''], fr_inputWindowStart = ''1970-01-01'',
     fr_inputWindowEnd = ''1970-02-10'', fr_horizonMonths = 2, fr_randomSeed = ''1''\<rparr>"

definition sample_world :: forecast_world where
  "sample_world = \<lparr>fw_runs = [\<lparr>j_id = ''f'', j_status = Queued, j_created_at = 0,
       j_data = \<lparr>fd_run = sample_run, fd_outputUri = None, fd_qualityMetrics = JObj [], fd_errorDetails = JObj []\<rparr>\<rparr>],
     fw_models = [''m''], fw_usage = [sample_line 0 100, sample_line 3 50, sample_line 32 7, sample_line 99 1000],
     fw_objects = []\<rparr>"

lemma forecast_world_wf: "fw_wf sample_world"
  by (simp add: fw_wf_def sample_world_def unique_ids_def sample_run_def)

section \<open>The history\<close>

lemma history_month_cost [simp]: "bigint_of (m_onDemandCostCents (history_month g)) = Some (us_onDemand (snd g))"
  and history_month_count [simp]: "m_lineItemCount (history_month g) = us_count (snd g)"
  by (simp_all add: history_month_def)

text \<open>
  The history a forecast is computed from is exact: its rows stand for the usage lines of the
  run's tenant, provider scope, service scope and window, and no others; there is one row for each
  month, provider, service and region among them, and the costs and the line counts of the rows add
  up to those of the lines.
\<close>

theorem forecast_history_exact:
  assumes "fst (listUsageMonths run w) = Inr months"
  shows "\<exists>first last. sql_date (fr_inputWindowStart run) = Some first \<and> sql_date (fr_inputWindowEnd run) = Some last
    \<and> (let eligible = filter (\<lambda>r. sl_tenantId r = fr_tenantId run \<and> sl_provider r \<in> set (fr_providerScope run)
            \<and> sl_serviceCode r \<in> set (fr_serviceScope run) \<and> first \<le> sl_usageStart r
            \<and> sl_usageEnd r \<le> last + ms_per_day) (fw_usage w);
          row = (\<lambda>m. [m_month m, m_provider m, m_serviceCode m, m_region m]) in
        distinct (map row months) \<and> row ` set months = line_key ` set eligible
        \<and> (\<Sum>m\<leftarrow>months. bigint (m_onDemandCostCents m)) = (\<Sum>r\<leftarrow>eligible. sl_onDemandCostCents r)
        \<and> total_line_items months = int (length eligible))"
proof -
  from assms obtain first last where d: "sql_date (fr_inputWindowStart run) = Some first"
      "sql_date (fr_inputWindowEnd run) = Some last"
    and m: "months = map history_month (usage_groups (history_line run first last) (fw_usage w))"
    by (auto simp: listUsageMonths_def split: option.splits)
  let ?sel = "history_line run first last" and ?row = "\<lambda>m. [m_month m, m_provider m, m_serviceCode m, m_region m]"
  let ?g = "usage_groups ?sel (fw_usage w)"
  have "?row (history_month g) = fst g" if "g \<in> set ?g" for g
  proof -
    from that obtain r where "line_key r = fst g" using usage_group_entry(1) [of "fst g" "snd g"] by auto
    then show ?thesis by (simp add: history_month_def line_key_def flip: \<open>line_key r = fst g\<close>)
  qed
  then have "map ?row months = map fst ?g" unfolding m by simp
  then have "distinct (map ?row months)" and "?row ` set months = line_key ` {r \<in> set (fw_usage w). ?sel r}"
    using usage_groups_keys [of ?sel "fw_usage w"] by (simp_all flip: set_map)
  moreover have "(\<Sum>m\<leftarrow>months. bigint (m_onDemandCostCents m)) = (\<Sum>r\<leftarrow>filter ?sel (fw_usage w). sl_onDemandCostCents r)"
    using usage_totals(1) [of ?sel "fw_usage w"] by (simp add: m comp_def history_month_def)
  moreover have "total_line_items months = int (length (filter ?sel (fw_usage w)))"
    using usage_totals(4) [of ?sel "fw_usage w"] foldl_add [of m_lineItemCount 0 months]
    by (simp add: m comp_def total_line_items_def)
  ultimately show ?thesis using d by (simp add: history_line_def [abs_def] Let_def)
qed

definition sample_months :: "usage_month list" where
  "sample_months = [
     \<lparr>m_month = ''1970-01'', m_provider = ''aws'', m_serviceCode = ''EC2'', m_region = ''eu-1'', m_onDemandCostCents = ''150'',
      m_realizedCostCents = ''150'', m_usageQuantity = ''2.00000000'', m_lineItemCount = 2\<rparr>,
     \<lparr>m_month = ''1970-02'', m_provider = ''aws'', m_serviceCode = ''EC2'', m_region = ''eu-1'', m_onDemandCostCents = ''7'',
      m_realizedCostCents = ''7'', m_usageQuantity = ''1.00000000'', m_lineItemCount = 1\<rparr>]"

lemma sample_months_listed: "fst (listUsageMonths sample_run sample_world) = Inr sample_months"
  by code_simp

theorem forecast_history_exact_witness: "total_line_items sample_months = 3 \<and> distinct (map m_month sample_months)"
proof -
  have d: "sql_date (fr_inputWindowStart sample_run) = Some 0" "sql_date (fr_inputWindowEnd sample_run) = Some (40 * ms_per_day)"
    by code_simp+
  have "length (filter (\<lambda>r. sl_tenantId r = fr_tenantId sample_run \<and> sl_provider r \<in> set (fr_providerScope sample_run)
            \<and> sl_serviceCode r \<in> set (fr_serviceScope sample_run) \<and> 0 \<le> sl_usageStart r
            \<and> sl_usageEnd r \<le> 40 * ms_per_day + ms_per_day) (fw_usage sample_world)) = 3"
    by code_simp
  with forecast_history_exact [OF sample_months_listed] d
  show ?thesis by (auto simp: Let_def sample_months_def)
qed

section \<open>Every fault schedule\<close>

text \<open>
  However the calls to the database and the object store fail, one call of the forecast worker
  changes the status of at most one run, and that run was queued. When the worker returns, the run it
  took has completed or failed; only a call that throws can leave it running.
\<close>

theorem forecast_worker_ends_run:
  assumes "fw_wf w" and "processNextForecastRun date_parse minHistoryDays faults (n, w) = (r, (n', w'))"
  shows "fw_wf w' \<and> (fw_statuses w' = fw_statuses w
    \<or> (\<exists>jid t. fw_statuses w jid = Some Queued \<and> fw_statuses w' = (fw_statuses w)(jid \<mapsto> t)
         \<and> (terminal_status t \<or> (t = Running \<and> \<not> ok r))))"
proof -
  note v = fw.worker_ends_run [of "fw_statuses w" faults date_parse minHistoryDays, folded processNextForecastRun_def]
  show ?thesis using validD [OF v _ assms(2)] assms(1) by (cases r) auto
qed

theorem forecast_worker_ends_run_witness:
  "fw_wf (snd (snd (processNextForecastRun (\<lambda>_. Some 0) 365 (\<lambda>n. if n = 3 then FailAfter else NoFault) (0, sample_world))))"
proof -
  obtain r n' w' where "processNextForecastRun (\<lambda>_. Some 0) 365 (\<lambda>n. if n = 3 then FailAfter else NoFault) (0, sample_world)
      = (r, (n', w'))" by (metis prod_cases3)
  with forecast_worker_ends_run [OF forecast_world_wf this] show ?thesis by simp
qed

end
