(* ===== verification/Backtest.thy ===== *)
theory Backtest
  imports Usage_History Job_Queue
begin

text \<open>
  core/backtests/backtest-worker.ts: the replay of a usage history under three baseline policies.
  Each month's commitment is computed from the months before it.
\<close>

section \<open>Data\<close>

datatype baseline = NoCommitment | LastMonthSteadyState | SeventyPercentUtilization | Custom

definition baseline_text :: "baseline \<Rightarrow> string" where
  "baseline_text b = (case b of NoCommitment \<Rightarrow> ''no_commitment'' | LastMonthSteadyState \<Rightarrow> ''last_month_steady_state''
     | SeventyPercentUtilization \<Rightarrow> ''seventy_percent_utilization'' | Custom \<Rightarrow> ''custom'')"

record backtest_month =
  bm_month :: string
  bm_provider :: string
  bm_serviceCode :: string
  bm_region :: string
  bm_onDemandCostCents :: string
  bm_realizedCostCents :: string
  bm_commitmentAppliedCents :: string
  bm_lineItemCount :: int

record backtest_run =
  br_id :: string
  br_tenantId :: string
  br_baseline :: baseline
  br_windowStart :: string
  br_windowEnd :: string
  br_inputSnapshotUri :: string
  br_createdByUserId :: "string option"

record monthly_total =
  t_month :: string
  t_onDemandCostCents :: int
  t_realizedCostCents :: int

record replay_month =
  rm_month :: string
  rm_on_demand_cost_cents :: string
  rm_realized_cost_cents :: string
  rm_simulated_commitment_cents :: string
  rm_simulated_cost_cents :: string
  rm_simulated_savings_cents :: string
  rm_regret_cents :: string
  rm_prior_months_seen :: nat
  rm_latest_visible_month :: "string option"

record replay_result =
  rr_baseline :: baseline
  rr_total_on_demand_cost_cents :: string
  rr_total_realized_cost_cents :: string
  rr_simulated_total_cost_cents :: string
  rr_simulated_savings_cents :: string
  rr_regret_cents :: string
  rr_downside_loss_cents :: string
  rr_monthly_results :: "replay_month list"

section \<open>Costs\<close>

definition total_cents :: "int list \<Rightarrow> int" where
  "total_cents values = foldl (\<lambda>sum v. sum + v) 0 values"

text \<open>BigInt division truncates; \<open>mean\<close> is called on lists that are not empty.\<close>

definition mean_cents :: "int list \<Rightarrow> int" where
  "mean_cents values =
     (let sum = total_cents values; count = int (length values) in tdiv (sum + tdiv count 2) count)"

definition commitmentForBaseline :: "baseline \<Rightarrow> int list \<Rightarrow> int" where
  "commitmentForBaseline baseline priorActuals =
     (if baseline = NoCommitment \<or> length priorActuals = 0 then 0
      else let prior = (if baseline = LastMonthSteadyState then last priorActuals else mean_cents priorActuals) in
        if baseline = SeventyPercentUtilization then tdiv (prior * 70) 100 else prior)"

definition simulatedCost :: "int \<Rightarrow> int \<Rightarrow> int \<Rightarrow> int" where
  "simulatedCost onDemandCostCents commitmentCents discountBps =
     (if commitmentCents = 0 then onDemandCostCents
      else let covered = (if onDemandCostCents < commitmentCents then onDemandCostCents else commitmentCents);
               uncovered = onDemandCostCents - covered;
               committedCost = tdiv (commitmentCents * (10000 - discountBps) + 5000) 10000
           in uncovered + committedCost)"

section \<open>Replay\<close>

record totals_entry =
  te_onDemand :: int
  te_realized :: int

definition zero_entry :: "backtest_month \<Rightarrow> totals_entry" where
  "zero_entry m = \<lparr>te_onDemand = 0, te_realized = 0\<rparr>"

definition add_entry :: "totals_entry \<Rightarrow> backtest_month \<Rightarrow> totals_entry" where
  "add_entry e m = \<lparr>te_onDemand = te_onDemand e + bigint (bm_onDemandCostCents m),
     te_realized = te_realized e + bigint (bm_realizedCostCents m)\<rparr>"

text \<open>\<open>left.localeCompare(right)\<close>, on texts of the form \<open>YYYY-MM\<close>, which every locale orders by
  their digits.\<close>

definition entry_order :: "string \<times> totals_entry \<Rightarrow> string \<times> totals_entry \<Rightarrow> int" where
  "entry_order left right = (if fst left = fst right then 0 else if fst left < fst right then - 1 else 1)"

definition monthlyTotals :: "backtest_month list \<Rightarrow> monthly_total list result" where
  "monthlyTotals usageMonths =
     bindR (traverseR (\<lambda>m. bindR (bigintR (bm_onDemandCostCents m)) (\<lambda>_. bigintR (bm_realizedCostCents m))) usageMonths) (\<lambda>_.
     Inr (map (\<lambda>(month, e). \<lparr>t_month = month, t_onDemandCostCents = te_onDemand e, t_realizedCostCents = te_realized e\<rparr>)
       (js_sort entry_order (js_group bm_month zero_entry add_entry usageMonths))))"

text \<open>The loop of \<open>replayBaseline\<close>: \<open>seen\<close> are the months already replayed.\<close>

definition replay_step :: "baseline \<Rightarrow> int \<Rightarrow> monthly_total list \<Rightarrow> monthly_total \<Rightarrow> replay_month" where
  "replay_step baseline discountBps seen month =
     (let priorActuals = map t_onDemandCostCents seen;
          commitment = commitmentForBaseline baseline priorActuals;
          simulatedMonthCost = simulatedCost (t_onDemandCostCents month) commitment discountBps;
          savings = t_onDemandCostCents month - simulatedMonthCost in
      \<lparr>rm_month = t_month month,
       rm_on_demand_cost_cents = show_int (t_onDemandCostCents month),
       rm_realized_cost_cents = show_int (t_realizedCostCents month),
       rm_simulated_commitment_cents = show_int commitment,
       rm_simulated_cost_cents = show_int simulatedMonthCost,
       rm_simulated_savings_cents = show_int savings,
       rm_regret_cents = (if savings < 0 then show_int (- savings) else ''0''),
       rm_prior_months_seen = length priorActuals,
       rm_latest_visible_month = (if seen = [] then None else Some (t_month (last seen)))\<rparr>)"

fun replay_months :: "baseline \<Rightarrow> int \<Rightarrow> monthly_total list \<Rightarrow> monthly_total list \<Rightarrow> replay_month list" where
  "replay_months baseline discountBps seen [] = []"
| "replay_months baseline discountBps seen (month # rest) =
     replay_step baseline discountBps seen month # replay_months baseline discountBps (seen @ [month]) rest"

definition replayBaseline :: "baseline \<Rightarrow> monthly_total list \<Rightarrow> int \<Rightarrow> replay_result" where
  "replayBaseline baseline months discountBps =
     (let monthlyResults = replay_months baseline discountBps [] months;
          onDemand = total_cents (map t_onDemandCostCents months);
          realized = total_cents (map t_realizedCostCents months);
          simulated = total_cents (map (bigint \<circ> rm_simulated_cost_cents) monthlyResults);
          savings = total_cents (map (bigint \<circ> rm_simulated_savings_cents) monthlyResults);
          regret = total_cents (map (bigint \<circ> rm_regret_cents) monthlyResults) in
      \<lparr>rr_baseline = baseline,
       rr_total_on_demand_cost_cents = show_int onDemand,
       rr_total_realized_cost_cents = show_int realized,
       rr_simulated_total_cost_cents = show_int simulated,
       rr_simulated_savings_cents = show_int savings,
       rr_regret_cents = show_int regret,
       rr_downside_loss_cents = show_int regret,
       rr_monthly_results = monthlyResults\<rparr>)"

section \<open>The artifact\<close>

definition backtestDiscountBps :: "(string \<times> json) list \<Rightarrow> int" where
  "backtestDiscountBps snapshot =
     (case json_prop (objectAt (objectAt snapshot ''policy'') ''config'') ''backtest_discount_bps'' of
        JInt v \<Rightarrow> if 0 \<le> v \<and> v \<le> 10000 then v else 3000
      | _ \<Rightarrow> 3000)"

definition baselines :: "baseline list" where
  "baselines = [NoCommitment, LastMonthSteadyState, SeventyPercentUtilization]"

definition better_result :: "replay_result \<Rightarrow> replay_result \<Rightarrow> replay_result" where
  "better_result current candidate =
     (if bigint (rr_simulated_savings_cents candidate) > bigint (rr_simulated_savings_cents current)
      then candidate else current)"

definition replay_month_json :: "replay_month \<Rightarrow> json" where
  "replay_month_json m = JObj
     [(''month'', JStr (rm_month m)),
      (''on_demand_cost_cents'', JStr (rm_on_demand_cost_cents m)),
      (''realized_cost_cents'', JStr (rm_realized_cost_cents m)),
      (''simulated_commitment_cents'', JStr (rm_simulated_commitment_cents m)),
      (''simulated_cost_cents'', JStr (rm_simulated_cost_cents m)),
      (''simulated_savings_cents'', JStr (rm_simulated_savings_cents m)),
      (''regret_cents'', JStr (rm_regret_cents m)),
      (''decision_inputs'', JObj
        [(''prior_months_seen'', JInt (int (rm_prior_months_seen m))),
         (''latest_visible_month'', (case rm_latest_visible_month m of None \<Rightarrow> JNull | Some s \<Rightarrow> JStr s))])]"

definition metrics_result_json :: "replay_result \<Rightarrow> json" where
  "metrics_result_json r = JObj
     [(''baseline'', JStr (baseline_text (rr_baseline r))),
      (''simulated_savings_cents'', JStr (rr_simulated_savings_cents r)),
      (''regret_cents'', JStr (rr_regret_cents r)),
      (''downside_loss_cents'', JStr (rr_downside_loss_cents r)),
      (''monthly_results'', JArr (map replay_month_json (rr_monthly_results r)))]"

definition replay_result_json :: "replay_result \<Rightarrow> json" where
  "replay_result_json r = JObj
     [(''baseline'', JStr (baseline_text (rr_baseline r))),
      (''total_on_demand_cost_cents'', JStr (rr_total_on_demand_cost_cents r)),
      (''total_realized_cost_cents'', JStr (rr_total_realized_cost_cents r)),
      (''simulated_total_cost_cents'', JStr (rr_simulated_total_cost_cents r)),
      (''simulated_savings_cents'', JStr (rr_simulated_savings_cents r)),
      (''regret_cents'', JStr (rr_regret_cents r)),
      (''downside_loss_cents'', JStr (rr_downside_loss_cents r)),
      (''monthly_results'', JArr (map replay_month_json (rr_monthly_results r)))]"

definition backtest_metrics :: "backtest_run \<Rightarrow> backtest_month list \<Rightarrow> monthly_total list \<Rightarrow> replay_result list \<Rightarrow> (string \<times> json) list" where
  "backtest_metrics run usageMonths months results =
     (let selected = find (\<lambda>r. rr_baseline r = br_baseline run) results;
          best = foldl better_result (hd results) (tl results);
          field = (\<lambda>f. case selected of None \<Rightarrow> ''0'' | Some r \<Rightarrow> f r) in
      [(''baseline'', JStr (baseline_text (br_baseline run))),
       (''replay_months'', JInt (int (length months))),
       (''source_line_items'', JInt (foldl (\<lambda>sum m. sum + bm_lineItemCount m) 0 usageMonths)),
       (''total_on_demand_cost_cents'', JStr (show_int (total_cents (map t_onDemandCostCents months)))),
       (''selected_simulated_savings_cents'', JStr (field rr_simulated_savings_cents)),
       (''selected_regret_cents'', JStr (field rr_regret_cents)),
       (''selected_downside_loss_cents'', JStr (field rr_downside_loss_cents)),
       (''best_baseline'', JStr (baseline_text (rr_baseline best))),
       (''best_simulated_savings_cents'', JStr (rr_simulated_savings_cents best)),
       (''baseline_results'', JArr (map metrics_result_json results)),
       (''no_future_leakage'', JBool True)])"

record backtest_artifact =
  ba_run_id :: string
  ba_input_snapshot :: "(string \<times> json) list"
  ba_replay_window :: json
  ba_metrics :: "(string \<times> json) list"
  ba_baseline_results :: "replay_result list"

definition buildBacktestArtifact :: "backtest_run \<Rightarrow> (string \<times> json) list \<Rightarrow> backtest_month list \<Rightarrow> backtest_artifact result" where
  "buildBacktestArtifact run inputSnapshot usageMonths =
     bindR (monthlyTotals usageMonths) (\<lambda>months.
     let discountBps = backtestDiscountBps inputSnapshot;
         baselineResults = map (\<lambda>b. replayBaseline b months discountBps) baselines in
     Inr \<lparr>ba_run_id = br_id run, ba_input_snapshot = inputSnapshot,
       ba_replay_window = JObj [(''start'', JStr (br_windowStart run)), (''end'', JStr (br_windowEnd run))],
       ba_metrics = backtest_metrics run usageMonths months baselineResults,
       ba_baseline_results = baselineResults\<rparr>)"

definition artifact_json :: "backtest_artifact \<Rightarrow> json" where
  "artifact_json a = JObj
     [(''schema_version'', JStr ''backtest-run-output:v1''),
      (''backtest_run_id'', JStr (ba_run_id a)),
      (''input_snapshot'', JObj (ba_input_snapshot a)),
      (''replay_window'', ba_replay_window a),
      (''metrics'', JObj (ba_metrics a)),
      (''baseline_results'', JArr (map replay_result_json (ba_baseline_results a)))]"

definition reportSnapshot :: "backtest_artifact \<Rightarrow> json" where
  "reportSnapshot a = JObj
     [(''contract_version'', JStr ''backtest_summary:v1''),
      (''backtest_run_id'', JStr (ba_run_id a)),
      (''replay_window'', ba_replay_window a),
      (''metrics'', JObj (ba_metrics a))]"

end
