(* ===== verification/Backtest_Worker.thy ===== *)
theory Backtest_Worker
  imports Backtest
begin

text \<open>
  core/backtests/backtest-worker.ts, the worker, with the calls it makes of
  core/backtests/backtests-repository.ts. The world is the runs, the usage rows, the report
  snapshots and the object store.
\<close>

record backtest_data =
  bd_run :: backtest_run
  bd_outputUri :: "string option"
  bd_metrics :: json
  bd_errorDetails :: json

record report_snapshot =
  rs_tenantId :: string
  rs_sourceType :: string
  rs_sourceId :: string
  rs_snapshot :: json
  rs_createdByUserId :: "string option"

record backtest_world =
  bw_runs :: "backtest_data job list"
  bw_usage :: "stored_line list"
  bw_snapshots :: "report_snapshot list"
  bw_objects :: "(string \<times> string) list"

definition claimNextQueuedBacktest :: "backtest_world \<Rightarrow> backtest_data job option result \<times> backtest_world" where
  "claimNextQueuedBacktest w =
     (let (run, runs) = claim_next (bw_runs w) in (Inr run, w\<lparr>bw_runs := runs\<rparr>))"

definition replay_line :: "backtest_run \<Rightarrow> int \<Rightarrow> int \<Rightarrow> stored_line \<Rightarrow> bool" where
  "replay_line run start end_date r =
     (sl_tenantId r = br_tenantId run \<and> start \<le> sl_usageStart r \<and> sl_usageEnd r \<le> end_date + ms_per_day)"

definition replay_usage_month :: "string list \<times> usage_sums \<Rightarrow> backtest_month" where
  "replay_usage_month g = \<lparr>bm_month = fst g ! 0, bm_provider = fst g ! 1, bm_serviceCode = fst g ! 2, bm_region = fst g ! 3,
     bm_onDemandCostCents = show_int (us_onDemand (snd g)), bm_realizedCostCents = show_int (us_realized (snd g)),
     bm_commitmentAppliedCents = show_int (us_commitment (snd g)), bm_lineItemCount = us_count (snd g)\<rparr>"

definition listReplayUsageMonths :: "backtest_run \<Rightarrow> backtest_world \<Rightarrow> backtest_month list result \<times> backtest_world" where
  "listReplayUsageMonths run w =
     (case (sql_date (br_windowStart run), sql_date (br_windowEnd run)) of
        (Some start, Some end_date) \<Rightarrow>
          (Inr (map replay_usage_month (usage_groups (replay_line run start end_date) (bw_usage w))), w)
      | _ \<Rightarrow> (Inl (Thrown ''invalid input syntax for type date''), w))"

text \<open>One transaction; the snapshot is inserted whether or not the guarded UPDATE matched a row.\<close>

definition completeBacktest :: "backtest_run \<Rightarrow> string \<Rightarrow> json \<Rightarrow> json \<Rightarrow> backtest_world \<Rightarrow> unit result \<times> backtest_world" where
  "completeBacktest run outputUri metrics snapshot w =
     (Inr (), w\<lparr>
        bw_runs := update_job (br_id run) Running Completed
          (\<lambda>d. d\<lparr>bd_outputUri := Some outputUri, bd_metrics := metrics, bd_errorDetails := JObj []\<rparr>) (bw_runs w),
        bw_snapshots := bw_snapshots w @ [\<lparr>rs_tenantId = br_tenantId run, rs_sourceType = ''backtest_run'',
          rs_sourceId = br_id run, rs_snapshot = snapshot, rs_createdByUserId = br_createdByUserId run\<rparr>]\<rparr>)"

definition failBacktest :: "string \<Rightarrow> string \<Rightarrow> backtest_world \<Rightarrow> unit result \<times> backtest_world" where
  "failBacktest runId error_code w =
     (Inr (), w\<lparr>bw_runs := update_job runId Running Failed
        (\<lambda>d. d\<lparr>bd_outputUri := None, bd_metrics := JObj [],
               bd_errorDetails := JObj [(''code'', JStr error_code)]\<rparr>) (bw_runs w)\<rparr>)"

definition bw_put :: "string \<Rightarrow> string \<Rightarrow> backtest_world \<Rightarrow> unit result \<times> backtest_world" where
  "bw_put key bytes w = (Inr (), w\<lparr>bw_objects := AList.update key bytes (bw_objects w)\<rparr>)"

definition bw_get :: "string \<Rightarrow> backtest_world \<Rightarrow> string result \<times> backtest_world" where
  "bw_get key w = (orElse (map_of (bw_objects w) key) (Thrown ''OBJECT_NOT_FOUND''), w)"

definition readJson :: "(string \<Rightarrow> json option) \<Rightarrow> (nat \<Rightarrow> fault) \<Rightarrow> string \<Rightarrow> (backtest_world, (string \<times> json) list) eff" where
  "readJson json_parse faults key =
     bindM (call faults (bw_get key)) (\<lambda>bytes.
     bindM (liftM (orElse (json_parse bytes) (Thrown ''SyntaxError''))) (\<lambda>parsed.
     returnM (case parsed of JObj kvs \<Rightarrow> kvs | _ \<Rightarrow> [])))"

datatype backtest_result =
    BacktestIdle
  | BacktestProcessed (bres_run: string) (bres_status: job_status) (bres_output: "string option") (bres_snapshot: bool)

definition backtest_uri :: "backtest_run \<Rightarrow> string" where
  "backtest_uri run = ''backtests/'' @ br_id run @ ''/output.json''"

text \<open>\<open>bytes(payload)\<close>.\<close>

definition json_bytes :: "json \<Rightarrow> string" where
  "json_bytes payload = stringify payload @ [CHR 0x0A]"

definition backtest_body :: "(string \<Rightarrow> json option) \<Rightarrow> (nat \<Rightarrow> fault) \<Rightarrow> backtest_data job
    \<Rightarrow> (backtest_world, backtest_result) eff" where
  "backtest_body json_parse faults job =
     (let run = bd_run (j_data job) in
     bindM (readJson json_parse faults (br_inputSnapshotUri run)) (\<lambda>inputSnapshot.
     bindM (call faults (listReplayUsageMonths run)) (\<lambda>months.
     bindM (liftM (buildBacktestArtifact run inputSnapshot months)) (\<lambda>artifact.
     bindM (call faults (bw_put (backtest_uri run) (json_bytes (artifact_json artifact)))) (\<lambda>_.
     bindM (call faults (completeBacktest run (backtest_uri run) (JObj (ba_metrics artifact)) (reportSnapshot artifact))) (\<lambda>_.
     returnM (BacktestProcessed (br_id run) Completed (Some (backtest_uri run)) True)))))))"

definition backtest_failure :: "(nat \<Rightarrow> fault) \<Rightarrow> backtest_data job \<Rightarrow> (backtest_world, backtest_result) eff" where
  "backtest_failure faults job =
     bindM (call faults (failBacktest (br_id (bd_run (j_data job))) ''BACKTEST_WORKER_FAILED'')) (\<lambda>_.
     returnM (BacktestProcessed (br_id (bd_run (j_data job))) Failed None False))"

definition processNextBacktest :: "(string \<Rightarrow> json option) \<Rightarrow> (nat \<Rightarrow> fault) \<Rightarrow> (backtest_world, backtest_result) eff" where
  "processNextBacktest json_parse faults =
     process_next (call faults claimNextQueuedBacktest) BacktestIdle (backtest_body json_parse faults) (backtest_failure faults)"

section \<open>The invariant\<close>

text \<open>A run has one report snapshot when it has completed, and none otherwise.\<close>

definition snapshots_of :: "backtest_world \<Rightarrow> string \<Rightarrow> nat" where
  "snapshots_of w jid = length (filter (\<lambda>s. rs_sourceId s = jid) (bw_snapshots w))"

abbreviation bw_statuses :: "backtest_world \<Rightarrow> string \<Rightarrow> job_status option" where
  "bw_statuses w \<equiv> statuses (bw_runs w)"

definition named_keys :: "backtest_data job list \<Rightarrow> bool" where
  "named_keys jobs = (\<forall>(jid, d)\<in>set (job_keys jobs). br_id (bd_run d) = jid)"

definition bw_wf :: "backtest_world \<Rightarrow> bool" where
  "bw_wf w = (unique_ids (bw_runs w) \<and> named_keys (bw_runs w)
     \<and> snapshots_of w = (\<lambda>jid. if bw_statuses w jid = Some Completed then 1 else 0))"

text \<open>A run as a parameter: its data name it.\<close>

definition named_run :: "backtest_data job \<Rightarrow> bool" where
  "named_run job = (br_id (bd_run (j_data job)) = j_id job)"

lemma snapshots_of_simps [simp]:
  "snapshots_of (w\<lparr>bw_runs := runs\<rparr>) = snapshots_of w" "snapshots_of (w\<lparr>bw_objects := obj\<rparr>) = snapshots_of w"
  by (simp_all add: snapshots_of_def fun_eq_iff)

lemma bw_wf_objects [simp]: "bw_wf (w\<lparr>bw_objects := obj\<rparr>) = bw_wf w"
  by (simp add: bw_wf_def)

lemma named_keys_update [simp]:
  assumes "\<And>d. bd_run (f d) = bd_run d"
  shows "named_keys (update_job jid g s f jobs) = named_keys jobs"
  using assms by (auto simp: named_keys_def job_keys_def update_job_def)

lemma claim_backtest:
  assumes "bw_wf w"
  shows "claimNextQueuedBacktest w = (Inr (fst (claim_next (bw_runs w))), w\<lparr>bw_runs := snd (claim_next (bw_runs w))\<rparr>)"
    and "bw_wf (w\<lparr>bw_runs := snd (claim_next (bw_runs w))\<rparr>)"
    and "\<And>run. fst (claim_next (bw_runs w)) = Some run \<Longrightarrow> named_run run"
proof -
  from assms have u: "unique_ids (bw_runs w)" by (simp add: bw_wf_def)
  note c = claim_next_statuses [OF u]
  show "claimNextQueuedBacktest w = (Inr (fst (claim_next (bw_runs w))), w\<lparr>bw_runs := snd (claim_next (bw_runs w))\<rparr>)"
    by (simp add: claimNextQueuedBacktest_def split_def Let_def)
  have "(\<lambda>jid. if statuses (snd (claim_next (bw_runs w))) jid = Some Completed then 1 else 0 :: nat)
      = (\<lambda>jid. if bw_statuses w jid = Some Completed then 1 else 0)"
    using c by (auto simp: fun_eq_iff split: option.splits)
  with assms show "bw_wf (w\<lparr>bw_runs := snd (claim_next (bw_runs w))\<rparr>)"
    by (simp add: bw_wf_def named_keys_def job_keys_claim unique_ids_keys)
  show "named_run run" if "fst (claim_next (bw_runs w)) = Some run" for run
    using c that assms by (fastforce simp: bw_wf_def named_run_def named_keys_def)
qed

lemma complete_backtest:
  assumes "bw_wf w" and "bw_statuses w (br_id run) = Some Running"
  shows "bw_wf (snd (completeBacktest run uri metrics snapshot w))
    \<and> bw_statuses (snd (completeBacktest run uri metrics snapshot w)) = (bw_statuses w)(br_id run \<mapsto> Completed)"
  using assms
  by (auto simp: bw_wf_def completeBacktest_def statuses_update snapshots_of_def fun_eq_iff)

lemma fail_backtest:
  assumes "bw_wf w"
  shows "bw_wf (snd (failBacktest jid e w))
    \<and> bw_statuses (snd (failBacktest jid e w)) = (if bw_statuses w jid = Some Running then (bw_statuses w)(jid \<mapsto> Failed) else bw_statuses w)"
  using assms
  by (auto simp: bw_wf_def failBacktest_def statuses_update)

lemma valid_read_input:
  assumes "\<And>w. P w \<Longrightarrow> E w"
  shows "valid P (readJson json_parse faults key) (\<lambda>_. P) E"
  unfolding readJson_def
  by (intro valid_bind [where R = "\<lambda>_. P"] valid_call valid_lift valid_return) (use assms in \<open>auto simp: bw_get_def\<close>)

lemma listReplay_state [simp]: "snd (listReplayUsageMonths run w) = w"
  by (simp add: listReplayUsageMonths_def split: option.splits)

section \<open>The contract of the queue\<close>

abbreviation run_of :: "backtest_data job \<Rightarrow> string" where
  "run_of job \<equiv> br_id (bd_run (j_data job))"

interpretation bw: job_worker bw_statuses bw_wf run_of "call faults claimNextQueuedBacktest" BacktestIdle
    "backtest_body json_parse faults" "backtest_failure faults"
  for json_parse faults
proof
  fix s :: "string \<Rightarrow> job_status option" and run :: "backtest_data job"
  let ?P = "\<lambda>w. bw_wf w \<and> bw_statuses w = s"
  show "valid ?P (call faults claimNextQueuedBacktest)
      (\<lambda>nxt w. bw_wf w \<and> (case nxt of None \<Rightarrow> bw_statuses w = s
         | Some run \<Rightarrow> s (run_of run) = Some Queued \<and> bw_statuses w = s(run_of run \<mapsto> Running)))
      (\<lambda>w. bw_wf w \<and> (bw_statuses w = s \<or> (\<exists>jid. s jid = Some Queued \<and> bw_statuses w = s(jid \<mapsto> Running))))"
  proof (rule valid_call)
    fix w assume w: "?P w"
    then have u: "unique_ids (bw_runs w)" by (simp add: bw_wf_def)
    note c = claim_next_statuses [OF u] claim_backtest [of w]
    show "bw_wf (snd (claimNextQueuedBacktest w)) \<and> (case x of None \<Rightarrow> bw_statuses (snd (claimNextQueuedBacktest w)) = s
        | Some run \<Rightarrow> s (run_of run) = Some Queued \<and> bw_statuses (snd (claimNextQueuedBacktest w)) = s(run_of run \<mapsto> Running))"
      if "fst (claimNextQueuedBacktest w) = Inr x" for x
      using c w that by (auto simp: named_run_def split: option.splits)
    show "bw_wf (snd (claimNextQueuedBacktest w)) \<and> (bw_statuses (snd (claimNextQueuedBacktest w)) = s
        \<or> (\<exists>jid. s jid = Some Queued \<and> bw_statuses (snd (claimNextQueuedBacktest w)) = s(jid \<mapsto> Running)))"
      using c w by (cases "fst (claim_next (bw_runs w))") auto
  qed simp
  let ?E = "\<lambda>w. bw_wf w \<and> (bw_statuses w = s \<or> (\<exists>t. terminal_status t \<and> bw_statuses w = s(run_of run \<mapsto> t)))"
  show "valid ?P (backtest_body json_parse faults run)
      (\<lambda>_ w. bw_wf w \<and> (\<exists>t. terminal_status t \<and> bw_statuses w = s(run_of run \<mapsto> t))) ?E"
    if r: "s (run_of run) = Some Running"
    unfolding backtest_body_def Let_def
  proof (rule valid_step, rule valid_read_input, simp, rule valid_step, rule valid_call, simp_all,
      rule valid_step, rule valid_lift, simp_all, rule valid_step, rule valid_call, simp_all add: bw_put_def)
    fix artifact
    show "valid ?P
       (bindM (call faults (completeBacktest (bd_run (j_data run)) (backtest_uri (bd_run (j_data run))) (JObj (ba_metrics artifact)) (reportSnapshot artifact)))
         (\<lambda>_. returnM (BacktestProcessed (run_of run) Completed (Some (backtest_uri (bd_run (j_data run)))) True)))
       (\<lambda>_ w. bw_wf w \<and> (\<exists>t. terminal_status t \<and> bw_statuses w = s(run_of run \<mapsto> t))) ?E"
      by (rule valid_bind [where R = "\<lambda>_ w. bw_wf w \<and> bw_statuses w = s(run_of run \<mapsto> Completed)", OF valid_call valid_return])
        (use r complete_backtest in \<open>auto simp: terminal_status_def\<close>)
  qed
  show "valid ?P (backtest_failure faults run)
      (\<lambda>_ w. bw_wf w \<and> bw_statuses w = (if s (run_of run) = Some Running then s(run_of run \<mapsto> Failed) else s))
      (\<lambda>w. bw_wf w \<and> (bw_statuses w = s \<or> bw_statuses w = (if s (run_of run) = Some Running then s(run_of run \<mapsto> Failed) else s)))"
    unfolding backtest_failure_def
    by (rule valid_bind [where R = "\<lambda>_ w. bw_wf w
          \<and> bw_statuses w = (if s (run_of run) = Some Running then s(run_of run \<mapsto> Failed) else s)", OF valid_call valid_return])
      (use fail_backtest in auto)
qed

end
