(* ===== verification/Backtest_Claims.thy ===== *)
theory Backtest_Claims
  imports Backtest_Worker
begin

text \<open>
  Properties of the backtest: the totals are exact, the replay sees only the past, its accounts
  balance, the best baseline is the best, and a run has a report exactly when it has completed.
\<close>

section \<open>A sample\<close>

definition sample_month :: "string \<Rightarrow> string \<Rightarrow> backtest_month" where
  "sample_month month cost = \<lparr>bm_month = month, bm_provider = ''aws'', bm_serviceCode = ''EC2'', bm_region = ''eu-1'',
     bm_onDemandCostCents = cost, bm_realizedCostCents = cost, bm_commitmentAppliedCents = ''0'', bm_lineItemCount = 1\<rparr>"

definition sample_run :: backtest_run where
  "sample_run = \<lparr>br_id = ''b'', br_tenantId = ''t'', br_baseline = LastMonthSteadyState, br_windowStart = ''2026-01-01'',
     br_windowEnd = ''2026-03-31'', br_inputSnapshotUri = ''s'', br_createdByUserId = None\<rparr>"

definition sample_world :: backtest_world where
  "sample_world = \<lparr>bw_runs = [\<lparr>j_id = ''b'', j_status = Queued, j_created_at = 0,
       j_data = \<lparr>bd_run = sample_run, bd_outputUri = None, bd_metrics = JObj [], bd_errorDetails = JObj []\<rparr>\<rparr>],
     bw_usage = [], bw_snapshots = [], bw_objects = [(''s'', ''{}'')]\<rparr>"

lemma backtest_world_wf: "bw_wf sample_world"
  by (simp add: bw_wf_def sample_world_def unique_ids_def sample_run_def named_keys_def job_keys_def snapshots_of_def
      statuses_def find_job_def fun_eq_iff)

section \<open>Monthly totals\<close>

interpretation eo: comparator entry_order
  by unfold_locales (auto simp: entry_order_def split: if_splits)

interpretation mt: grouping bm_month zero_entry add_entry "\<lambda>_. True"
  by unfold_locales (simp add: zero_entry_def)

lemma total_cents_sum [simp]: "total_cents xs = sum_list xs"
  using foldl_add [of "\<lambda>x. x" 0 xs] by (simp add: total_cents_def)

lemma fold_entry_onDemand: "te_onDemand (foldl add_entry e ms) = te_onDemand e + (\<Sum>m\<leftarrow>ms. bigint (bm_onDemandCostCents m))"
  and fold_entry_realized: "te_realized (foldl add_entry e ms) = te_realized e + (\<Sum>m\<leftarrow>ms. bigint (bm_realizedCostCents m))"
  by (induction ms arbitrary: e) (simp_all add: add_entry_def)

lemma strictly_sorted_keys:
  "sorted_wrt eo.le es \<Longrightarrow> distinct (map fst es) \<Longrightarrow> sorted_wrt (<) (map fst es)"
proof (induction es)
  case (Cons e es)
  have "fst e < fst x" if "x \<in> set es" for x
  proof -
    have "eo.le e x" "fst e \<noteq> fst x" using Cons.prems that by auto
    then show ?thesis by (simp add: eo.le_def entry_order_def split: if_splits)
  qed
  with Cons show ?case by auto
qed simp

text \<open>
  The monthly totals are the usage, month by month: strictly increasing months, exactly those of
  the rows, each with the sum of its rows' costs.
\<close>

theorem backtest_monthly_totals:
  assumes "monthlyTotals rows = Inr months"
  shows "sorted_wrt (<) (map t_month months) \<and> t_month ` set months = bm_month ` set rows
    \<and> (\<forall>t\<in>set months. t_onDemandCostCents t = (\<Sum>m\<leftarrow>filter (\<lambda>m. bm_month m = t_month t) rows. bigint (bm_onDemandCostCents m))
         \<and> t_realizedCostCents t = (\<Sum>m\<leftarrow>filter (\<lambda>m. bm_month m = t_month t) rows. bigint (bm_realizedCostCents m)))
    \<and> (\<Sum>t\<leftarrow>months. t_onDemandCostCents t) = (\<Sum>m\<leftarrow>rows. bigint (bm_onDemandCostCents m))"
proof -
  let ?g = "js_sort entry_order (js_group bm_month zero_entry add_entry rows)"
  let ?t = "\<lambda>g. \<lparr>t_month = fst g, t_onDemandCostCents = te_onDemand (snd g), t_realizedCostCents = te_realized (snd g)\<rparr>"
  from assms have m: "months = map ?t ?g" by (auto simp: monthlyTotals_def bindR_eq_Inr split_def)
  have "mset (map fst ?g) = mset (map fst (js_group bm_month zero_entry add_entry rows))" by simp
  from mset_eq_imp_distinct_iff [OF this] have d: "distinct (map fst ?g)" by (simp add: js_group_distinct)
  have keys: "map t_month months = map fst ?g" by (simp add: m)
  have s: "sorted_wrt (<) (map t_month months)" unfolding keys by (rule strictly_sorted_keys [OF eo.js_sort_sorted d])
  have k: "fst ` set ?g = bm_month ` set rows" by (simp add: js_group_keys)
  then have mset: "t_month ` set months = bm_month ` set rows" using keys by (metis set_map)
  have sums: "te_onDemand (snd g) = (\<Sum>m\<leftarrow>filter (\<lambda>m. bm_month m = fst g) rows. bigint (bm_onDemandCostCents m))
      \<and> te_realized (snd g) = (\<Sum>m\<leftarrow>filter (\<lambda>m. bm_month m = fst g) rows. bigint (bm_realizedCostCents m))" if "g \<in> set ?g" for g
  proof -
    from that have "(fst g, snd g) \<in> set (js_group bm_month zero_entry add_entry rows)" by simp
    from mt.group_entry [OF _ this] obtain r0 where
      "snd g = foldl add_entry (zero_entry r0) (filter (\<lambda>r. bm_month r = fst g) rows)" by auto
    then show ?thesis by (simp add: fold_entry_onDemand fold_entry_realized zero_entry_def)
  qed
  have "(\<Sum>t\<leftarrow>months. t_onDemandCostCents t)
      = (\<Sum>g\<leftarrow>?g. \<Sum>m\<leftarrow>filter (\<lambda>m. bm_month m = fst g) rows. bigint (bm_onDemandCostCents m))"
    unfolding m map_map comp_def monthly_total.simps
    by (rule arg_cong [where f = sum_list], rule map_cong [OF refl]) (rule sums [THEN conjunct1])
  also have "\<dots> = (\<Sum>key\<leftarrow>map fst ?g. \<Sum>m\<leftarrow>filter (\<lambda>m. bm_month m = key) rows. bigint (bm_onDemandCostCents m))"
    by (simp add: comp_def)
  also have "\<dots> = (\<Sum>m\<leftarrow>rows. bigint (bm_onDemandCostCents m))"
    by (rule sum_by_key [OF d]) (metis k set_map subset_refl)
  finally have "(\<Sum>t\<leftarrow>months. t_onDemandCostCents t) = (\<Sum>m\<leftarrow>rows. bigint (bm_onDemandCostCents m))" .
  with s mset sums show ?thesis by (simp add: m)
qed

definition sample_rows :: "backtest_month list" where
  "sample_rows = [sample_month ''2026-02'' ''30'', sample_month ''2026-01'' ''10'', sample_month ''2026-02'' ''5'']"

definition sample_totals :: "monthly_total list" where
  "sample_totals = [\<lparr>t_month = ''2026-01'', t_onDemandCostCents = 10, t_realizedCostCents = 10\<rparr>,
     \<lparr>t_month = ''2026-02'', t_onDemandCostCents = 35, t_realizedCostCents = 35\<rparr>]"

lemma sample_totals_ok: "monthlyTotals sample_rows = Inr sample_totals"
  by code_simp

theorem backtest_monthly_totals_witness: "(\<Sum>t\<leftarrow>sample_totals. t_onDemandCostCents t) = 45"
proof -
  have "(\<Sum>m\<leftarrow>sample_rows. bigint (bm_onDemandCostCents m)) = 45" by code_simp
  with backtest_monthly_totals [OF sample_totals_ok] show ?thesis by simp
qed

section \<open>The replay\<close>

lemma replay_append:
  "replay_months b d seen (xs @ ys) = replay_months b d seen xs @ replay_months b d (seen @ xs) ys"
  by (induction xs arbitrary: seen) auto

lemma length_replay [simp]: "length (replay_months b d seen xs) = length xs"
  by (induction xs arbitrary: seen) auto

lemma replay_fields:
  "map rm_month (replay_months b d seen xs) = map t_month xs"
  "(\<Sum>m\<leftarrow>replay_months b d seen xs. bigint (rm_simulated_cost_cents m) + bigint (rm_simulated_savings_cents m))
     = (\<Sum>t\<leftarrow>xs. t_onDemandCostCents t)"
  by (induction xs arbitrary: seen) (simp_all add: replay_step_def Let_def)

lemma replay_regret:
  "r \<in> set (replay_months b d seen xs) \<Longrightarrow>
     bigint (rm_regret_cents r) = max 0 (- bigint (rm_simulated_savings_cents r))"
proof -
  have "bigint ''0'' = 0" by code_simp
  then show "r \<in> set (replay_months b d seen xs) \<Longrightarrow>
     bigint (rm_regret_cents r) = max 0 (- bigint (rm_simulated_savings_cents r))"
    by (induction xs arbitrary: seen) (auto simp: replay_step_def Let_def)
qed

text \<open>
  C37: No future leakage: the results of the months already replayed, and the commitment and the
  decision inputs of the month at hand, are the same whatever that month costs and whatever comes
  after it. The decision of a month names how many months it saw and the last of them.
\<close>

theorem backtest_no_future_leakage:
  "let results = (\<lambda>months. rr_monthly_results (replayBaseline b months d)); k = length past;
       decision = (\<lambda>m. (rm_simulated_commitment_cents m, rm_prior_months_seen m, rm_latest_visible_month m)) in
   take k (results (past @ month # future)) = take k (results (past @ month' # future'))
   \<and> decision (results (past @ month # future) ! k) = decision (results (past @ month' # future') ! k)
   \<and> decision (results (past @ month # future) ! k)
       = (show_int (commitmentForBaseline b (map t_onDemandCostCents past)), k,
          if past = [] then None else Some (t_month (last past)))"
  by (simp add: replayBaseline_def Let_def replay_append nth_append replay_step_def)

text \<open>
  The accounts of a replay balance: simulated cost and savings add up to the on-demand cost, the
  regret is the sum of the monthly losses, and the replay has one result per month, in order.
\<close>

lemma backtest_accounts_balance:
  "let r = replayBaseline b months d in
   bigint (rr_simulated_total_cost_cents r) + bigint (rr_simulated_savings_cents r) = bigint (rr_total_on_demand_cost_cents r)
   \<and> bigint (rr_total_on_demand_cost_cents r) = (\<Sum>t\<leftarrow>months. t_onDemandCostCents t)
   \<and> bigint (rr_regret_cents r) = (\<Sum>m\<leftarrow>rr_monthly_results r. max 0 (- bigint (rm_simulated_savings_cents m)))
   \<and> rr_downside_loss_cents r = rr_regret_cents r
   \<and> map rm_month (rr_monthly_results r) = map t_month months"
proof -
  let ?ms = "replay_months b d [] months"
  have "(\<Sum>m\<leftarrow>?ms. bigint (rm_regret_cents m)) = (\<Sum>m\<leftarrow>?ms. max 0 (- bigint (rm_simulated_savings_cents m)))"
    by (rule arg_cong [where f = sum_list], rule map_cong [OF refl]) (rule replay_regret)
  with replay_fields [of b d "[]" months] show ?thesis
    by (simp add: replayBaseline_def Let_def comp_def sum_list_addf)
qed

section \<open>What a commitment can save\<close>

text \<open>
  What a month's commitment saves: with a discount of 0 to 100 percent and costs that are not
  negative, the loss of a month is at most its committed cost, the savings are within half a cent of
  the discount on the commitment when the month's usage covers it, and never more than that.
\<close>

theorem backtest_savings_bounds:
  assumes "0 \<le> cost" and "0 \<le> commitment" and "0 \<le> d" and "d \<le> 10000"
  shows "let savings = cost - simulatedCost cost commitment d in
    20000 * savings \<le> 2 * commitment * d + 10000
    \<and> (commitment \<le> cost \<longrightarrow> \<bar>20000 * savings - 2 * commitment * d\<bar> \<le> 10000)
    \<and> - (commitment * (10000 - d) + 5000) \<le> 10000 * savings
    \<and> 0 \<le> simulatedCost cost commitment d"
proof -
  define a where "a = commitment * (10000 - d)"
  have a: "0 \<le> a" "a = commitment * 10000 - commitment * d" using assms unfolding a_def by (intro mult_nonneg_nonneg) (simp_all add: right_diff_distrib)
  define q where "q = (a + 5000) div 10000"
  have q: "10000 * q \<le> a + 5000" "a + 5000 < 10000 * q + 10000" "0 \<le> q"
    unfolding q_def using a(1) by (linarith, linarith, simp)
  have s: "simulatedCost cost commitment d = (if commitment = 0 then cost
      else cost - (if cost < commitment then cost else commitment) + q)"
    using a(1) by (simp add: simulatedCost_def Let_def q_def a_def tdiv_nonneg)
  have cd: "commitment * d = commitment * 10000 - a" using a(2) by simp
  show ?thesis
    unfolding Let_def a_def [symmetric] mult.assoc cd using s a(1) q assms a_def
    by (cases "commitment = 0"; cases "cost < commitment") (simp_all add: abs_if)
qed

theorem backtest_savings_bounds_witness: "1000 - simulatedCost 1000 700 3000 = 210"
proof -
  have "tdiv (700 * (10000 - 3000) + 5000) 10000 = (490 :: int)" by code_simp
  then have "1000 - simulatedCost 1000 700 3000 = (210 :: int)" by (simp add: simulatedCost_def)
  with backtest_savings_bounds [of 1000 700 3000] show ?thesis by simp
qed

section \<open>The best baseline\<close>

lemma no_commitment_saves_nothing:
  "bigint (rr_simulated_savings_cents (replayBaseline NoCommitment months d)) = 0"
proof -
  have "map (bigint \<circ> rm_simulated_savings_cents) (replay_months NoCommitment d seen xs) = map (\<lambda>_. 0) xs" for seen xs
    by (induction xs arbitrary: seen) (simp_all add: replay_step_def Let_def commitmentForBaseline_def simulatedCost_def)
  then show ?thesis by (simp add: replayBaseline_def Let_def)
qed

lemma replay_baseline_name [simp]: "rr_baseline (replayBaseline b months d) = b"
  by (simp add: replayBaseline_def Let_def)

lemma best_of:
  "foldl better_result r rs \<in> set (r # rs)
   \<and> (\<forall>x\<in>set (r # rs). bigint (rr_simulated_savings_cents x) \<le> bigint (rr_simulated_savings_cents (foldl better_result r rs)))"
proof (induction rs arbitrary: r)
  case (Cons x rs)
  from Cons.IH [of "better_result r x"] show ?case by (auto simp: better_result_def split: if_splits)
qed simp

text \<open>
  The metrics of a backtest report the best baseline: its savings are the highest of the three
  replays, never negative, and those of the baseline the metrics name; the selected figures are those of
  the run's baseline, and zero for a custom one.
\<close>

theorem backtest_reports_best:
  assumes "buildBacktestArtifact run inputSnapshot rows = Inr artifact" and "monthlyTotals rows = Inr months"
  shows "let results = ba_baseline_results artifact; metrics = ba_metrics artifact;
             savings = (\<lambda>r. bigint (rr_simulated_savings_cents r)) in
    results = map (\<lambda>b. replayBaseline b months (backtestDiscountBps inputSnapshot)) baselines
    \<and> (\<exists>best\<in>set results. json_prop metrics ''best_baseline'' = JStr (baseline_text (rr_baseline best))
        \<and> json_prop metrics ''best_simulated_savings_cents'' = JStr (rr_simulated_savings_cents best)
        \<and> (\<forall>r\<in>set results. savings r \<le> savings best) \<and> 0 \<le> savings best)
    \<and> json_prop metrics ''selected_simulated_savings_cents'' = JStr
        (if br_baseline run = Custom then ''0''
         else rr_simulated_savings_cents (replayBaseline (br_baseline run) months (backtestDiscountBps inputSnapshot)))"
proof -
  let ?d = "backtestDiscountBps inputSnapshot"
  let ?rs = "map (\<lambda>b. replayBaseline b months ?d) baselines"
  from assms have a: "ba_baseline_results artifact = ?rs" "ba_metrics artifact = backtest_metrics run rows months ?rs"
    by (auto simp: buildBacktestArtifact_def Let_def)
  define best where "best = foldl better_result (hd ?rs) (tl ?rs)"
  have hd: "hd ?rs # tl ?rs = ?rs" by (simp add: baselines_def)
  from best_of [of "hd ?rs" "tl ?rs", folded best_def, unfolded hd]
  have b: "best \<in> set ?rs" "\<forall>r\<in>set ?rs. bigint (rr_simulated_savings_cents r) \<le> bigint (rr_simulated_savings_cents best)" by simp_all
  have "replayBaseline NoCommitment months ?d \<in> set ?rs" by (simp add: baselines_def)
  with b(2) have "0 \<le> bigint (rr_simulated_savings_cents best)" by (metis no_commitment_saves_nothing)
  moreover have "json_prop (ba_metrics artifact) ''best_baseline'' = JStr (baseline_text (rr_baseline best))"
    and "json_prop (ba_metrics artifact) ''best_simulated_savings_cents'' = JStr (rr_simulated_savings_cents best)"
    by (simp_all add: a backtest_metrics_def Let_def json_prop_def best_def)
  moreover have "json_prop (ba_metrics artifact) ''selected_simulated_savings_cents'' = JStr
        (if br_baseline run = Custom then ''0'' else rr_simulated_savings_cents (replayBaseline (br_baseline run) months ?d))"
    by (cases "br_baseline run") (simp_all add: a backtest_metrics_def Let_def json_prop_def baselines_def)
  ultimately show ?thesis unfolding Let_def a(1) using b by blast
qed

theorem backtest_reports_best_witness:
  "\<exists>artifact. buildBacktestArtifact sample_run [] sample_rows = Inr artifact
     \<and> (\<exists>r\<in>set (ba_baseline_results artifact). 0 \<le> bigint (rr_simulated_savings_cents r))"
proof -
  obtain artifact where a: "buildBacktestArtifact sample_run [] sample_rows = Inr artifact"
    by (simp add: buildBacktestArtifact_def sample_totals_ok Let_def)
  from backtest_reports_best [OF this sample_totals_ok] a show ?thesis by (auto simp: Let_def)
qed

section \<open>The worker\<close>

text \<open>
  C13: A run has a report snapshot exactly when it has completed, and then one: the invariant survives
  a call of the worker under every fault schedule. A call changes the status of at most one run, which
  was queued; when the worker returns, that run has ended.
\<close>

theorem backtest_worker_reports:
  assumes "bw_wf w" and "processNextBacktest json_parse faults (n, w) = (r, (n', w'))"
  shows "(\<forall>jid. length (filter (\<lambda>s. rs_sourceId s = jid) (bw_snapshots w'))
        = (if bw_statuses w' jid = Some Completed then 1 else 0))
    \<and> bw_wf w' \<and> (bw_statuses w' = bw_statuses w
    \<or> (\<exists>jid t. bw_statuses w jid = Some Queued \<and> bw_statuses w' = (bw_statuses w)(jid \<mapsto> t)
         \<and> (terminal_status t \<or> (t = Running \<and> \<not> ok r))))"
proof -
  note v = bw.worker_ends_run [of "bw_statuses w" faults json_parse, folded processNextBacktest_def]
  have "bw_wf w' \<and> (bw_statuses w' = bw_statuses w
    \<or> (\<exists>jid t. bw_statuses w jid = Some Queued \<and> bw_statuses w' = (bw_statuses w)(jid \<mapsto> t)
         \<and> (terminal_status t \<or> (t = Running \<and> \<not> ok r))))"
    using validD [OF v _ assms(2)] assms(1) by (cases r) auto
  then show ?thesis by (auto simp: bw_wf_def snapshots_of_def fun_eq_iff)
qed

theorem backtest_worker_reports_witness:
  "bw_wf (snd (snd (processNextBacktest (\<lambda>_. Some (JObj [])) (\<lambda>n. if n = 4 then FailAfter else NoFault) (0, sample_world))))"
proof -
  obtain r n' w' where "processNextBacktest (\<lambda>_. Some (JObj [])) (\<lambda>n. if n = 4 then FailAfter else NoFault) (0, sample_world)
      = (r, (n', w'))" by (metis prod_cases3)
  with backtest_worker_reports [OF backtest_world_wf this] show ?thesis by simp
qed

end
