(* ===== verification/Base64url.thy ===== *)
theory Base64url
  imports Js_Text
begin

text \<open>
  Buffers as the cursors use them: \<open>Buffer.from(text, 'utf8')\<close>, \<open>buffer.toString('base64url')\<close> and
  \<open>Buffer.from(text, 'base64url')\<close>. A buffer is a string of bytes. The decoder takes the letters of
  both alphabets and skips every other character, as Node does; the encoder writes no padding.
\<close>

section \<open>UTF-8 of Latin-1 text\<close>

definition utf8_char :: "char \<Rightarrow> string" where
  "utf8_char c =
     (if code c < 128 then [c] else [char_of (192 + code c div 64), char_of (128 + code c mod 64)])"

definition utf8_bytes :: "string \<Rightarrow> string" where
  "utf8_bytes s = concat (map utf8_char s)"

section \<open>Sextets\<close>

definition sextet_char :: "nat \<Rightarrow> char" where
  "sextet_char n =
     (if n < 26 then char_of (65 + n) else if n < 52 then char_of (71 + n)
      else if n < 62 then char_of (n - 4) else if n = 62 then CHR ''-'' else CHR ''_'')"

definition sextet_of :: "char \<Rightarrow> nat option" where
  "sextet_of c =
     (let k = code c in
      if 65 \<le> k \<and> k \<le> 90 then Some (k - 65) else if 97 \<le> k \<and> k \<le> 122 then Some (k - 71)
      else if 48 \<le> k \<and> k \<le> 57 then Some (k + 4)
      else if c = CHR ''-'' \<or> c = CHR ''+'' then Some 62
      else if c = CHR ''_'' \<or> c = CHR ''/'' then Some 63 else None)"

definition byte :: "nat \<Rightarrow> char" where
  "byte n = char_of (n mod 256)"

section \<open>Encoding and decoding\<close>

fun base64url :: "string \<Rightarrow> string" where
  "base64url [] = []"
| "base64url [a] = map sextet_char [code a div 4, code a mod 4 * 16]"
| "base64url [a, b] =
     map sextet_char [code a div 4, code a mod 4 * 16 + code b div 16, code b mod 16 * 4]"
| "base64url (a # b # c # rest) =
     map sextet_char [code a div 4, code a mod 4 * 16 + code b div 16, code b mod 16 * 4 + code c div 64, code c mod 64]
     @ base64url rest"

fun bytes_of_sextets :: "nat list \<Rightarrow> string" where
  "bytes_of_sextets (p # q # r # s # rest) =
     [byte (p * 4 + q div 16), byte (q * 16 + r div 4), byte (r * 64 + s)] @ bytes_of_sextets rest"
| "bytes_of_sextets [p, q, r] = [byte (p * 4 + q div 16), byte (q * 16 + r div 4)]"
| "bytes_of_sextets [p, q] = [byte (p * 4 + q div 16)]"
| "bytes_of_sextets _ = []"

definition base64url_bytes :: "string \<Rightarrow> string" where
  "base64url_bytes s = bytes_of_sextets (map the (filter (\<lambda>x. x \<noteq> None) (map sextet_of s)))"

section \<open>Round trip\<close>

lemma code_char_of [simp]: "n < 256 \<Longrightarrow> code (char_of n) = n"
  by (simp add: code_def)

lemma code_less [simp]: "code c < 256"
  unfolding code_def by (metis of_char_mod_256 mod_less_divisor zero_less_numeral)

lemma char_of_code [simp]: "char_of (code c) = c"
  by (simp add: code_def)

lemma sextet_round: "n < 64 \<Longrightarrow> sextet_of (sextet_char n) = Some n"
proof -
  have all: "\<forall>n\<in>set [0..<64]. sextet_of (sextet_char n) = Some n" by code_simp
  assume "n < 64"
  with all show ?thesis by simp
qed

text \<open>How two neighbouring digits \<open>h\<close> and \<open>l\<close> of a mixed radix come apart again.\<close>

lemma digits_apart:
  fixes h l k :: nat
  assumes "l < k"
  shows "(h * k + l) div k = h" and "(h * k + l) mod k = l"
  using assms by simp_all

lemma byte_parts:
  fixes a b c :: nat
  assumes "a < 256" "b < 256" "c < 256"
  shows "(a div 4 * 4 + (a mod 4 * 16 + b div 16) div 16) mod 256 = a"
    and "((a mod 4 * 16 + b div 16) * 16 + (b mod 16 * 4 + c div 64) div 4) mod 256 = b"
    and "((b mod 16 * 4 + c div 64) * 64 + c mod 64) mod 256 = c"
proof -
  have h: "b div 16 < 16" "c div 64 < 4" using assms by linarith+
  have "(a mod 4 * 16 + b div 16) div 16 = a mod 4" by (rule digits_apart [OF h(1)])
  then show "(a div 4 * 4 + (a mod 4 * 16 + b div 16) div 16) mod 256 = a" using assms by simp
  have "(b mod 16 * 4 + c div 64) div 4 = b mod 16" by (rule digits_apart [OF h(2)])
  then have "(a mod 4 * 16 + b div 16) * 16 + (b mod 16 * 4 + c div 64) div 4 = a mod 4 * 256 + (b div 16 * 16 + b mod 16)"
    by (simp add: distrib_right)
  also have "b div 16 * 16 + b mod 16 = b" by simp
  finally show "((a mod 4 * 16 + b div 16) * 16 + (b mod 16 * 4 + c div 64) div 4) mod 256 = b" using assms by simp
  have "(b mod 16 * 4 + c div 64) * 64 + c mod 64 = b mod 16 * 256 + (c div 64 * 64 + c mod 64)" by (simp add: distrib_right)
  also have "c div 64 * 64 + c mod 64 = c" by simp
  finally show "((b mod 16 * 4 + c div 64) * 64 + c mod 64) mod 256 = c" using assms by simp
qed

lemma base64url_letters: "list_all (\<lambda>c. is_digit c \<or> is_lower c \<or> is_upper c \<or> c = CHR ''-'' \<or> c = CHR ''_'') (base64url s)"
proof -
  let ?P = "\<lambda>c. is_digit c \<or> is_lower c \<or> is_upper c \<or> c = CHR ''-'' \<or> c = CHR ''_''"
  have all: "\<forall>n\<in>set [0..<64]. ?P (sextet_char n)" by code_simp
  then have P: "?P (sextet_char n)" if "n < 64" for n using that by simp
  have b: "code a div 4 < 64" "code a mod 4 * 16 + code b div 16 < 64" "code a mod 4 * 16 < 64"
    "code b mod 16 * 4 + code c div 64 < 64" "code b mod 16 * 4 < 64" "code c mod 64 < 64" for a b c
    using code_less [of a] code_less [of b] code_less [of c] by linarith+
  show ?thesis by (induction s rule: base64url.induct) (simp_all add: P b)
qed

lemma base64url_round: "base64url_bytes (base64url s) = s"
proof -
  have b: "code a div 4 < 64" "code a mod 4 * 16 + code b div 16 < 64" "code a mod 4 * 16 < 64"
    "code b mod 16 * 4 + code c div 64 < 64" "code b mod 16 * 4 < 64" "code c mod 64 < 64" for a b c
    using code_less [of a] code_less [of b] code_less [of c] by linarith+
  note parts = byte_parts [OF code_less code_less code_less]
  have last: "(code a div 4 * 4 + (code a mod 4 * 16) div 16) mod 256 = code a"
    "((code a mod 4 * 16 + code b div 16) * 16 + (code b mod 16 * 4) div 4) mod 256 = code b" for a b
    using byte_parts [of "code a" 0 0] byte_parts [of "code a" "code b" 0] by simp_all
  show ?thesis
    by (induction s rule: base64url.induct)
      (simp_all only: base64url.simps base64url_bytes_def list.map append.simps map_append filter_append filter.simps
        sextet_round b option.sel bytes_of_sextets.simps byte_def parts last char_of_code option.distinct if_True
        not_False_eq_True)
qed

end
