(* ===== verification/Cursors.thy ===== *)
theory Cursors
  imports Base64url Js_Dates
begin

text \<open>
  The page cursors of the list endpoints: a boundary (a time stamp and an id) as base64url of a
  JSON object. The cursors of imports, cloud accounts, notifications, price tables, optimizer
  policies, forecasts, scenarios, the audit log, approvals and recommendations differ in the
  checks of their decoders; those of users and API keys carry a checksum and must be canonical.
  \<open>parse_bytes\<close> is \<open>JSON.parse(buffer.toString('utf8'))\<close>, \<open>sha256\<close> the digest of node:crypto.
\<close>

section \<open>Shapes\<close>

definition shape_match :: "(char \<Rightarrow> bool) list \<Rightarrow> string \<Rightarrow> bool" where
  "shape_match ps s = list_all2 (\<lambda>p c. p c) ps s"

definition hex_lower :: "char \<Rightarrow> bool" where
  "hex_lower c = (is_digit c \<or> (97 \<le> code c \<and> code c \<le> 102))"

definition hex_any :: "char \<Rightarrow> bool" where
  "hex_any c = hex_lower (lower_ascii c)"

definition uuid_shape :: "(char \<Rightarrow> bool) \<Rightarrow> (char \<Rightarrow> bool) \<Rightarrow> (char \<Rightarrow> bool) \<Rightarrow> (char \<Rightarrow> bool) list" where
  "uuid_shape hex version variant =
     replicate 8 hex @ [(=) (CHR ''-'')] @ replicate 4 hex @ [(=) (CHR ''-''), version] @ replicate 3 hex
     @ [(=) (CHR ''-''), variant] @ replicate 3 hex @ [(=) (CHR ''-'')] @ replicate 12 hex"

definition digit_in :: "nat \<Rightarrow> nat \<Rightarrow> char \<Rightarrow> bool" where
  "digit_in lo hi c = (48 + lo \<le> code c \<and> code c \<le> 48 + hi)"

definition variant_lower :: "char \<Rightarrow> bool" where
  "variant_lower c = (c \<in> set ''89ab'')"

text \<open>The three patterns in use: any hexadecimal id, an RFC id in either case, and one in lower case.\<close>

definition any_uuid :: "string \<Rightarrow> bool" where
  "any_uuid s = shape_match (uuid_shape hex_any hex_any hex_any) s"

definition rfc_uuid :: "string \<Rightarrow> bool" where
  "rfc_uuid s = shape_match (uuid_shape hex_any (digit_in 1 5) (\<lambda>c. variant_lower (lower_ascii c))) s"

definition lower_uuid :: "string \<Rightarrow> bool" where
  "lower_uuid s = shape_match (uuid_shape hex_lower (digit_in 1 8) variant_lower) s"

definition seconds_shape :: "(char \<Rightarrow> bool) list" where
  "seconds_shape = replicate 4 is_digit @ [(=) (CHR ''-'')] @ replicate 2 is_digit @ [(=) (CHR ''-'')] @ replicate 2 is_digit
     @ [(=) (CHR ''T'')] @ replicate 2 is_digit @ [(=) (CHR '':'')] @ replicate 2 is_digit @ [(=) (CHR '':'')] @ replicate 2 is_digit"

text \<open>\<open>(?:\.[0-9]\{1,6\})?Z\<close> after the seconds, and exactly six digits.\<close>

definition timestamptz_pattern :: "string \<Rightarrow> bool" where
  "timestamptz_pattern s =
     (shape_match seconds_shape (take 19 s)
      \<and> (drop 19 s = ''Z''
         \<or> (hd (drop 19 s) = CHR ''.'' \<and> last s = CHR ''Z'' \<and> 22 \<le> length s \<and> length s \<le> 27
            \<and> list_all is_digit (butlast (drop 20 s)))))"

definition micros_pattern :: "string \<Rightarrow> bool" where
  "micros_pattern s = shape_match (seconds_shape @ [(=) (CHR ''.'')] @ replicate 6 is_digit @ [(=) (CHR ''Z'')]) s"

text \<open>\<open>to_char(t AT TIME ZONE 'UTC', 'YYYY-MM-DD"T"HH24:MI:SS.US"Z"')\<close> of an instant in microseconds.\<close>

definition micros_text :: "int \<Rightarrow> string" where
  "micros_text t = take 20 (iso_string (t div 1000)) @ pad_int 6 (t mod 1000000) @ ''Z''"

definition cursor_letter :: "char \<Rightarrow> bool" where
  "cursor_letter c = (is_digit c \<or> is_lower c \<or> is_upper c \<or> c = CHR ''-'' \<or> c = CHR ''_'')"

text \<open>\<open>/^[A-Za-z0-9_-]\{38,512\}$/u\<close>.\<close>

definition cursor_pattern :: "string \<Rightarrow> bool" where
  "cursor_pattern s = (list_all cursor_letter s \<and> 38 \<le> length s \<and> length s \<le> 512)"

section \<open>Boundaries as JSON\<close>

type_synonym boundary = "string \<times> string"

definition invalid_request :: js_error where
  "invalid_request = AppError ''VALIDATION_ERROR'' ''Request is invalid.'' 400"

definition cursor_json :: "string \<Rightarrow> string \<Rightarrow> string \<Rightarrow> json" where
  "cursor_json key t i = JObj [(key, JStr t), (''id'', JStr i)]"

definition encode_cursor :: "string \<Rightarrow> string \<Rightarrow> string \<Rightarrow> string" where
  "encode_cursor key t i = base64url (utf8_bytes (stringify (cursor_json key t i)))"

text \<open>\<open>parsed[key]\<close> where a value that is no object has no such property (or throws, with the same
  outcome in every decoder).\<close>

definition property :: "json \<Rightarrow> string \<Rightarrow> json" where
  "property v k = (case v of JObj kvs \<Rightarrow> json_prop kvs k | _ \<Rightarrow> JUndefined)"

definition decode_boundary :: "(string \<Rightarrow> json option) \<Rightarrow> string \<Rightarrow> js_error \<Rightarrow> string \<Rightarrow> boundary result" where
  "decode_boundary parse_bytes key err value =
     bindR (orElse (parse_bytes (base64url_bytes value)) err) (\<lambda>parsed.
     case (property parsed key, property parsed ''id'') of
       (JStr t, JStr i) \<Rightarrow> Inr (t, i)
     | _ \<Rightarrow> Inl err)"

section \<open>The plain cursors\<close>

definition encodeImportBatchCursor :: "string \<Rightarrow> string \<Rightarrow> string" where
  "encodeImportBatchCursor createdAt i = encode_cursor ''created_at'' createdAt i"

definition decodeImportBatchCursor :: "(string \<Rightarrow> json option) \<Rightarrow> string \<Rightarrow> boundary result" where
  "decodeImportBatchCursor parse_bytes value = decode_boundary parse_bytes ''created_at'' invalid_request value"

definition encodeCloudAccountCursor :: "string \<Rightarrow> string \<Rightarrow> string" where
  "encodeCloudAccountCursor createdAt i = encode_cursor ''created_at'' createdAt i"

definition decodeCloudAccountCursor :: "(string \<Rightarrow> json option) \<Rightarrow> string \<Rightarrow> boundary result" where
  "decodeCloudAccountCursor parse_bytes value = decode_boundary parse_bytes ''created_at'' invalid_request value"

definition encodeNotificationCursor :: "string \<Rightarrow> string \<Rightarrow> string" where
  "encodeNotificationCursor createdAt i = encode_cursor ''created_at'' createdAt i"

definition decodeNotificationCursor :: "(string \<Rightarrow> json option) \<Rightarrow> string \<Rightarrow> boundary result" where
  "decodeNotificationCursor parse_bytes value = decode_boundary parse_bytes ''created_at'' invalid_request value"

definition encodePriceTableCursor :: "string \<Rightarrow> string \<Rightarrow> string" where
  "encodePriceTableCursor createdAt i = encode_cursor ''created_at'' createdAt i"

definition decodePriceTableCursor :: "(string \<Rightarrow> json option) \<Rightarrow> string \<Rightarrow> boundary result" where
  "decodePriceTableCursor parse_bytes value =
     (if \<not> cursor_pattern value then Inl invalid_request
      else decode_boundary parse_bytes ''created_at'' invalid_request value)"

definition encodeOptimizerPolicyCursor :: "string \<Rightarrow> string \<Rightarrow> string" where
  "encodeOptimizerPolicyCursor createdAt i = encode_cursor ''created_at'' createdAt i"

definition decodeOptimizerPolicyCursor :: "(string \<Rightarrow> json option) \<Rightarrow> string \<Rightarrow> boundary result" where
  "decodeOptimizerPolicyCursor parse_bytes value =
     (if \<not> cursor_pattern value then Inl invalid_request
      else decode_boundary parse_bytes ''created_at'' invalid_request value)"

definition encodeForecastCursor :: "string \<Rightarrow> string \<Rightarrow> string" where
  "encodeForecastCursor createdAt i = encode_cursor ''created_at'' createdAt i"

definition decodeForecastCursor :: "(string \<Rightarrow> json option) \<Rightarrow> string \<Rightarrow> boundary result" where
  "decodeForecastCursor parse_bytes value =
     (if \<not> cursor_pattern value then Inl invalid_request
      else bindR (decode_boundary parse_bytes ''created_at'' invalid_request value) (\<lambda>(t, i).
        if \<not> any_uuid i \<or> \<not> timestamptz_pattern t then Inl invalid_request else Inr (t, i)))"

definition encodeAuditCursor :: "string \<Rightarrow> string \<Rightarrow> string" where
  "encodeAuditCursor createdAt i = encodeForecastCursor createdAt i"

definition decodeAuditCursor :: "(string \<Rightarrow> json option) \<Rightarrow> string \<Rightarrow> boundary result" where
  "decodeAuditCursor parse_bytes value = decodeForecastCursor parse_bytes value"

definition encodeScenarioCursor :: "string \<Rightarrow> string \<Rightarrow> string" where
  "encodeScenarioCursor createdAt i = encode_cursor ''created_at'' createdAt i"

definition decodeScenarioCursor :: "(string \<Rightarrow> json option) \<Rightarrow> json \<Rightarrow> boundary result" where
  "decodeScenarioCursor parse_bytes value =
     (case value of JStr s \<Rightarrow> decodeForecastCursor parse_bytes s | _ \<Rightarrow> Inl invalid_request)"

section \<open>Cursors of approvals and recommendations\<close>

definition invalid_approval :: js_error where
  "invalid_approval = AppError ''VALIDATION_ERROR'' ''Approval request is invalid.'' 400"

definition invalid_recommendation :: js_error where
  "invalid_recommendation = AppError ''VALIDATION_ERROR'' ''Recommendation request is invalid.'' 400"

text \<open>\<open>uuid\<close> and \<open>iso\<close> of the input modules; ids are put in lower case.\<close>

definition uuid :: "js_error \<Rightarrow> json \<Rightarrow> string result" where
  "uuid err v = (case v of JStr s \<Rightarrow> if rfc_uuid s then Inr (map lower_ascii s) else Inl err | _ \<Rightarrow> Inl err)"

definition iso :: "(string \<Rightarrow> int option) \<Rightarrow> js_error \<Rightarrow> json \<Rightarrow> string result" where
  "iso date_parse err v = (case v of JStr s \<Rightarrow> if date_parse s = None then Inl err else Inr s | _ \<Rightarrow> Inl err)"

text \<open>\<open>parseCursor\<close> of both modules.\<close>

definition parse_cursor :: "(string \<Rightarrow> json option) \<Rightarrow> (string \<Rightarrow> int option) \<Rightarrow> string \<Rightarrow> js_error \<Rightarrow> json \<Rightarrow> boundary result" where
  "parse_cursor parse_bytes date_parse key err value =
     (case value of
        JStr s \<Rightarrow>
          if length s > 512 then Inl err
          else (case parse_bytes (base64url_bytes s) of
              Some (JObj kvs) \<Rightarrow> bindR (iso date_parse err (json_prop kvs key)) (\<lambda>t.
                bindR (uuid err (json_prop kvs ''id'')) (\<lambda>i. Inr (t, i)))
            | _ \<Rightarrow> Inl err)
      | _ \<Rightarrow> Inl err)"

definition encodeApprovalCursor :: "string \<Rightarrow> string \<Rightarrow> string" where
  "encodeApprovalCursor requestedAt i = encode_cursor ''requested_at'' requestedAt i"

definition parseApprovalCursor :: "(string \<Rightarrow> json option) \<Rightarrow> (string \<Rightarrow> int option) \<Rightarrow> json \<Rightarrow> boundary result" where
  "parseApprovalCursor parse_bytes date_parse value = parse_cursor parse_bytes date_parse ''requested_at'' invalid_approval value"

definition encodeRecommendationCursor :: "string \<Rightarrow> string \<Rightarrow> string" where
  "encodeRecommendationCursor createdAt i = encode_cursor ''created_at'' createdAt i"

definition parseRecommendationCursor :: "(string \<Rightarrow> json option) \<Rightarrow> (string \<Rightarrow> int option) \<Rightarrow> json \<Rightarrow> boundary result" where
  "parseRecommendationCursor parse_bytes date_parse value = parse_cursor parse_bytes date_parse ''created_at'' invalid_recommendation value"

section \<open>Cursors with a checksum\<close>

text \<open>\<open>parseUserTimestamp\<close>: the pattern, and the seconds are a real instant.\<close>

definition parseUserTimestamp :: "(string \<Rightarrow> int option) \<Rightarrow> string \<Rightarrow> string result" where
  "parseUserTimestamp date_parse value =
     (if \<not> micros_pattern value then Inl invalid_request
      else case date_parse (slice 0 19 value @ ''Z'') of
          None \<Rightarrow> Inl invalid_request
        | Some t \<Rightarrow> if slice 0 19 (iso_string t) \<noteq> slice 0 19 value then Inl invalid_request else Inr value)"

definition parseUserId :: "string \<Rightarrow> string result" where
  "parseUserId value = (if lower_uuid value then Inr value else Inl invalid_request)"

definition parseApiKeyMetadataTimestamp :: "(string \<Rightarrow> int option) \<Rightarrow> string \<Rightarrow> string result" where
  "parseApiKeyMetadataTimestamp date_parse value =
     (if \<not> micros_pattern value then Inl invalid_request
      else case date_parse (slice 0 19 value @ ''Z'') of
          None \<Rightarrow> Inl invalid_request
        | Some t \<Rightarrow> if slice 0 19 (iso_string t) \<noteq> slice 0 19 value then Inl invalid_request else Inr value)"

definition parseApiKeyMetadataId :: "string \<Rightarrow> string result" where
  "parseApiKeyMetadataId value = (if lower_uuid value then Inr value else Inl invalid_request)"

definition checksum :: "(string \<Rightarrow> string) \<Rightarrow> string \<Rightarrow> string \<Rightarrow> string \<Rightarrow> string" where
  "checksum sha256 label createdAt i =
     base64url (take 16 (sha256 (utf8_bytes (label @ [CHR 0x0A] @ createdAt @ [CHR 0x0A] @ i))))"

definition signed_json :: "string \<Rightarrow> string \<Rightarrow> string \<Rightarrow> json" where
  "signed_json createdAt i check =
     JObj [(''v'', JInt 1), (''created_at'', JStr createdAt), (''id'', JStr i), (''check'', JStr check)]"

definition isCursorPayload :: "json \<Rightarrow> bool" where
  "isCursorPayload value =
     (case value of
        JObj kvs \<Rightarrow> comma_join (sort (object_keys kvs)) = ''check,created_at,id,v''
          \<and> json_prop kvs ''v'' = JInt 1 \<and> is_string (json_prop kvs ''created_at'')
          \<and> is_string (json_prop kvs ''id'') \<and> is_string (json_prop kvs ''check'')
      | _ \<Rightarrow> False)"

definition sameText :: "string \<Rightarrow> string \<Rightarrow> bool" where
  "sameText left right = (utf8_bytes left = utf8_bytes right)"

definition text_of :: "json \<Rightarrow> string" where
  "text_of v = (case v of JStr s \<Rightarrow> s | _ \<Rightarrow> [])"

definition encode_signed :: "(string \<Rightarrow> string result) \<Rightarrow> (string \<Rightarrow> string result) \<Rightarrow> (string \<Rightarrow> string) \<Rightarrow> string
    \<Rightarrow> string \<Rightarrow> string \<Rightarrow> string result" where
  "encode_signed parse_time parse_id sha256 label createdAtValue idValue =
     bindR (parse_time createdAtValue) (\<lambda>createdAt.
     bindR (parse_id idValue) (\<lambda>i.
     let encoded = base64url (utf8_bytes (stringify (signed_json createdAt i (checksum sha256 label createdAt i)))) in
     if length encoded > 512 then Inl invalid_request else Inr encoded))"

definition decode_signed :: "(string \<Rightarrow> string result) \<Rightarrow> (string \<Rightarrow> string result) \<Rightarrow> (string \<Rightarrow> string) \<Rightarrow> string
    \<Rightarrow> (string \<Rightarrow> json option) \<Rightarrow> string \<Rightarrow> boundary result" where
  "decode_signed parse_time parse_id sha256 label parse_bytes cursor =
     (if cursor = [] \<or> length cursor > 512 \<or> \<not> list_all cursor_letter cursor then Inl invalid_request
      else let decoded = base64url_bytes cursor in
        if base64url decoded \<noteq> cursor then Inl invalid_request
        else bindR (orElse (parse_bytes decoded) invalid_request) (\<lambda>value.
          if \<not> isCursorPayload value then Inl invalid_request
          else bindR (parse_time (text_of (property value ''created_at''))) (\<lambda>createdAt.
            bindR (parse_id (text_of (property value ''id''))) (\<lambda>i.
            let expected = checksum sha256 label createdAt i in
            if \<not> sameText (text_of (property value ''check'')) expected then Inl invalid_request
            else if base64url (utf8_bytes (stringify (signed_json createdAt i expected))) \<noteq> cursor then Inl invalid_request
            else Inr (createdAt, i)))))"

definition encodeUsersCursor :: "(string \<Rightarrow> int option) \<Rightarrow> (string \<Rightarrow> string) \<Rightarrow> string \<Rightarrow> string \<Rightarrow> string result" where
  "encodeUsersCursor date_parse sha256 createdAt i =
     encode_signed (parseUserTimestamp date_parse) parseUserId sha256 ''users-cursor:v1'' createdAt i"

definition decodeUsersCursor :: "(string \<Rightarrow> int option) \<Rightarrow> (string \<Rightarrow> string) \<Rightarrow> (string \<Rightarrow> json option) \<Rightarrow> string \<Rightarrow> boundary result" where
  "decodeUsersCursor date_parse sha256 parse_bytes cursor =
     decode_signed (parseUserTimestamp date_parse) parseUserId sha256 ''users-cursor:v1'' parse_bytes cursor"

definition encodeApiKeyMetadataCursor :: "(string \<Rightarrow> int option) \<Rightarrow> (string \<Rightarrow> string) \<Rightarrow> string \<Rightarrow> string \<Rightarrow> string result" where
  "encodeApiKeyMetadataCursor date_parse sha256 createdAt i =
     encode_signed (parseApiKeyMetadataTimestamp date_parse) parseApiKeyMetadataId sha256 ''api-key-metadata-cursor:v1'' createdAt i"

definition decodeApiKeyMetadataCursor :: "(string \<Rightarrow> int option) \<Rightarrow> (string \<Rightarrow> string) \<Rightarrow> (string \<Rightarrow> json option) \<Rightarrow> string \<Rightarrow> boundary result" where
  "decodeApiKeyMetadataCursor date_parse sha256 parse_bytes cursor =
     decode_signed (parseApiKeyMetadataTimestamp date_parse) parseApiKeyMetadataId sha256 ''api-key-metadata-cursor:v1'' parse_bytes cursor"

end
