(* ===== verification/Cursor_Claims.thy ===== *)
theory Cursor_Claims
  imports Cursors
begin

text \<open>
  The cursors give their boundary back. The locale \<open>cursor_codec\<close> is the contract between a list
  endpoint and its cursor; every cursor of theory Cursors meets it.
\<close>

section \<open>Shapes of time stamps and ids\<close>

lemma shape_length: "shape_match ps s \<Longrightarrow> length s = length ps"
  by (simp add: shape_match_def list_all2_lengthD)

lemma shape_weaken:
  "shape_match ps s \<Longrightarrow> list_all2 (\<lambda>p q. \<forall>c. p c \<longrightarrow> q c) ps qs \<Longrightarrow> shape_match qs s"
  unfolding shape_match_def by (induction ps s arbitrary: qs rule: list_all2_induct) (auto simp: list_all2_Cons1)

lemma shape_all:
  "shape_match ps s \<Longrightarrow> (\<And>p c. p \<in> set ps \<Longrightarrow> p c \<Longrightarrow> q c) \<Longrightarrow> list_all q s"
  unfolding shape_match_def by (induction ps s rule: list_all2_induct) auto

lemma uuid_shape_weaken:
  assumes "\<And>c. h c \<Longrightarrow> h' c" "\<And>c. v c \<Longrightarrow> v' c" "\<And>c. w c \<Longrightarrow> w' c"
  shows "list_all2 (\<lambda>p q. \<forall>c. p c \<longrightarrow> q c) (uuid_shape h v w) (uuid_shape h' v' w')"
  using assms by (simp add: uuid_shape_def list_all2_append numeral_eq_Suc)

text \<open>The ids and times the database hands out: a lower-case RFC id, microseconds.\<close>

definition db_uuid :: "string \<Rightarrow> bool" where
  "db_uuid s = shape_match (uuid_shape hex_lower (digit_in 1 5) variant_lower) s"

definition plain_char :: "char \<Rightarrow> bool" where
  "plain_char c = (32 \<le> code c \<and> code c < 127 \<and> c \<noteq> CHR 0x22 \<and> c \<noteq> CHR 0x5C)"

lemma hex_lower_plain: "hex_lower c \<Longrightarrow> plain_char c \<and> \<not> is_upper c"
  by (auto simp: hex_lower_def plain_char_def is_digit_def is_upper_def code_def)

lemma hex_lower_any: "hex_lower c \<Longrightarrow> hex_any c"
  using hex_lower_plain [of c] by (simp add: hex_any_def lower_ascii_def)

lemma digit_in_hex: "digit_in lo hi c \<Longrightarrow> hi \<le> 9 \<Longrightarrow> hex_lower c"
  by (auto simp: digit_in_def hex_lower_def is_digit_def)

lemma variant_hex: "variant_lower c \<Longrightarrow> hex_lower c"
  by (auto simp: variant_lower_def hex_lower_def is_digit_def code_def)

lemma variant_any: "variant_lower c \<Longrightarrow> variant_lower (lower_ascii c)"
  using hex_lower_plain [of c] variant_hex [of c] by (simp add: lower_ascii_def)

lemma uuid_chars:
  assumes "db_uuid s"
  shows "length s = 36" "list_all (\<lambda>c. plain_char c \<and> \<not> is_upper c) s"
proof -
  show "length s = 36" using shape_length [OF assms [unfolded db_uuid_def]] by (simp add: uuid_shape_def)
  have "plain_char (CHR ''-'') \<and> \<not> is_upper (CHR ''-'')" by code_simp
  then show "list_all (\<lambda>c. plain_char c \<and> \<not> is_upper c) s"
    by (intro shape_all [OF assms [unfolded db_uuid_def]])
      (auto simp: uuid_shape_def dest: hex_lower_plain digit_in_hex variant_hex)
qed

lemma db_uuid_cases:
  assumes "db_uuid s"
  shows "any_uuid s" "rfc_uuid s" "lower_uuid s" "map lower_ascii s = s"
proof -
  note w = shape_weaken [OF assms [unfolded db_uuid_def] uuid_shape_weaken]
  show "any_uuid s" unfolding any_uuid_def
    by (rule w) (use digit_in_hex in \<open>auto intro: hex_lower_any variant_hex\<close>)
  show "rfc_uuid s" unfolding rfc_uuid_def by (rule w) (auto intro: hex_lower_any variant_any)
  show "lower_uuid s" unfolding lower_uuid_def by (rule w) (auto simp: digit_in_def)
  show "map lower_ascii s = s"
    using uuid_chars(2) [OF assms] by (induction s) (auto simp: lower_ascii_def)
qed

lemma micros_chars:
  assumes "micros_pattern t"
  shows "length t = 27" "list_all plain_char t" "timestamptz_pattern t"
proof -
  let ?s = "seconds_shape @ [(=) (CHR ''.'')] @ replicate 6 is_digit @ [(=) (CHR ''Z'')]"
  have m: "shape_match ?s t" using assms by (simp add: micros_pattern_def)
  show l: "length t = 27" using shape_length [OF m] by (simp add: seconds_shape_def)
  have "plain_char c" if "c \<in> {CHR ''-'', CHR ''T'', CHR '':'', CHR ''.'', CHR ''Z''} \<or> is_digit c" for c
    using that by (auto simp: plain_char_def is_digit_def code_def)
  then show "list_all plain_char t"
    by (intro shape_all [OF m]) (auto simp: seconds_shape_def)
  from m obtain us vs where t: "t = us @ vs" and us: "shape_match seconds_shape us"
    and vs: "list_all2 (\<lambda>p c. p c) ([(=) (CHR ''.'')] @ replicate 6 is_digit @ [(=) (CHR ''Z'')]) vs"
    unfolding shape_match_def by (auto simp: list_all2_append1)
  have u: "length us = 19" using shape_length [OF us] by (simp add: seconds_shape_def)
  from vs obtain a b c d e g where v: "vs = [CHR ''.'', a, b, c, d, e, g, CHR ''Z'']"
    and "is_digit a" "is_digit b" "is_digit c" "is_digit d" "is_digit e" "is_digit g"
    by (auto simp: numeral_eq_Suc list_all2_Cons1)
  then show "timestamptz_pattern t"
    using us u by (simp add: timestamptz_pattern_def t)
qed

section \<open>The text of a cursor\<close>

lemma plain_string: "list_all plain_char s \<Longrightarrow> json_string s = CHR 0x22 # s @ [CHR 0x22]"
proof -
  have e: "json_escape c = [c]" if "plain_char c" for c
    using that by (auto simp: plain_char_def json_escape_def)
  show "list_all plain_char s \<Longrightarrow> json_string s = CHR 0x22 # s @ [CHR 0x22]"
    unfolding json_string_def by (induction s) (auto simp: e)
qed

lemma utf8_append: "utf8_bytes (s @ t) = utf8_bytes s @ utf8_bytes t"
  by (simp add: utf8_bytes_def)

lemma utf8_Nil: "utf8_bytes s = [] \<longleftrightarrow> s = []"
  by (cases s) (simp_all add: utf8_bytes_def utf8_char_def)

lemma utf8_plain: "list_all plain_char s \<Longrightarrow> utf8_bytes s = s"
  unfolding utf8_bytes_def by (induction s) (auto simp: utf8_char_def plain_char_def)

lemma base64url_length: "length (base64url s) = (4 * length s + 2) div 3"
  by (induction s rule: base64url.induct) simp_all

lemma cursor_length:
  assumes "list_all plain_char t" and "list_all plain_char i" and "key \<in> {''created_at'', ''requested_at''}"
    and "length t = 27" and "length i = 36"
  shows "cursor_pattern (encode_cursor key t i)"
proof -
  have k: "json_string key = CHR 0x22 # key @ [CHR 0x22]" "list_all plain_char key" "length key \<le> 12"
    using assms(3) by (auto simp: plain_string plain_char_def code_def)
  have i: "json_string ''id'' = CHR 0x22 # ''id'' @ [CHR 0x22]" by code_simp
  let ?s = "stringify (cursor_json key t i)"
  have s: "?s = ''{'' @ [CHR 0x22] @ key @ [CHR 0x22] @ '':'' @ [CHR 0x22] @ t @ [CHR 0x22] @ '','' @ [CHR 0x22]
      @ ''id'' @ [CHR 0x22] @ '':'' @ [CHR 0x22] @ i @ [CHR 0x22] @ ''}''"
    by (simp add: cursor_json_def plain_string assms k(1) i)
  have ascii: "utf8_bytes ''{'' = ''{''" "utf8_bytes [CHR 0x22] = [CHR 0x22]" "utf8_bytes '':'' = '':''"
    "utf8_bytes '','' = '',''" "utf8_bytes ''id'' = ''id''" "utf8_bytes ''}'' = ''}''"
    by code_simp+
  have "length (utf8_bytes ?s) = length key + length t + length i + 15"
    unfolding s by (simp only: utf8_append ascii utf8_plain assms(1,2) k(2)) simp
  then show ?thesis
    using k(3) assms base64url_letters [of "utf8_bytes ?s"]
    by (simp add: cursor_pattern_def encode_cursor_def base64url_length cursor_letter_def [abs_def]) arith
qed

section \<open>The contract of a cursor\<close>

locale cursor_codec =
  fixes encode :: "string \<Rightarrow> string \<Rightarrow> string result"
    and decode :: "string \<Rightarrow> boundary result"
    and readable :: "string \<Rightarrow> string \<Rightarrow> bool"
  assumes decode_encode: "readable t i \<Longrightarrow> \<exists>c. encode t i = Inr c \<and> decode c = Inr (t, i)"
begin

lemma encode_distinct: "readable t i \<Longrightarrow> readable t' i' \<Longrightarrow> encode t i = encode t' i' \<Longrightarrow> t = t' \<and> i = i'"
  by (metis Inr_inject decode_encode prod.inject)

end

text \<open>A boundary of the database whose JSON document the runtime reads back.\<close>

definition reads_back :: "(string \<Rightarrow> json option) \<Rightarrow> json \<Rightarrow> bool" where
  "reads_back parse_bytes v = (parse_bytes (utf8_bytes (stringify v)) = Some v)"

definition plain_boundary :: "(string \<Rightarrow> json option) \<Rightarrow> string \<Rightarrow> string \<Rightarrow> string \<Rightarrow> bool" where
  "plain_boundary parse_bytes key t i = (micros_pattern t \<and> db_uuid i \<and> reads_back parse_bytes (cursor_json key t i))"

lemma plain_boundary_decode:
  assumes "plain_boundary parse_bytes key t i" and "key \<in> {''created_at'', ''requested_at''}"
  shows "cursor_pattern (encode_cursor key t i)"
    and "parse_bytes (base64url_bytes (encode_cursor key t i)) = Some (JObj [(key, JStr t), (''id'', JStr i)])"
    and "decode_boundary parse_bytes key err (encode_cursor key t i) = Inr (t, i)"
proof -
  have m: "micros_pattern t" "db_uuid i" using assms(1) by (simp_all add: plain_boundary_def)
  have "list_all plain_char i" using uuid_chars(2) [OF m(2)] by (simp add: list.pred_mono_strong)
  then show "cursor_pattern (encode_cursor key t i)"
    using micros_chars [OF m(1)] uuid_chars(1) [OF m(2)] assms(2) by (intro cursor_length) auto
  show p: "parse_bytes (base64url_bytes (encode_cursor key t i)) = Some (JObj [(key, JStr t), (''id'', JStr i)])"
    using assms(1) by (simp add: encode_cursor_def base64url_round plain_boundary_def reads_back_def cursor_json_def)
  show "decode_boundary parse_bytes key err (encode_cursor key t i) = Inr (t, i)"
    using assms(2) by (auto simp: decode_boundary_def p property_def json_prop_def)
qed

lemmas plain_decode = plain_boundary_decode [where key = "''created_at''", simplified]

interpretation import_cursor: cursor_codec "\<lambda>t i. Inr (encodeImportBatchCursor t i)"
    "decodeImportBatchCursor parse_bytes" "plain_boundary parse_bytes ''created_at''" for parse_bytes
  by unfold_locales (simp add: encodeImportBatchCursor_def decodeImportBatchCursor_def plain_decode)

interpretation cloud_account_cursor: cursor_codec "\<lambda>t i. Inr (encodeCloudAccountCursor t i)"
    "decodeCloudAccountCursor parse_bytes" "plain_boundary parse_bytes ''created_at''" for parse_bytes
  by unfold_locales (simp add: encodeCloudAccountCursor_def decodeCloudAccountCursor_def plain_decode)

interpretation notification_cursor: cursor_codec "\<lambda>t i. Inr (encodeNotificationCursor t i)"
    "decodeNotificationCursor parse_bytes" "plain_boundary parse_bytes ''created_at''" for parse_bytes
  by unfold_locales (simp add: encodeNotificationCursor_def decodeNotificationCursor_def plain_decode)

interpretation price_table_cursor: cursor_codec "\<lambda>t i. Inr (encodePriceTableCursor t i)"
    "decodePriceTableCursor parse_bytes" "plain_boundary parse_bytes ''created_at''" for parse_bytes
  by unfold_locales (simp add: encodePriceTableCursor_def decodePriceTableCursor_def plain_decode)

interpretation policy_cursor: cursor_codec "\<lambda>t i. Inr (encodeOptimizerPolicyCursor t i)"
    "decodeOptimizerPolicyCursor parse_bytes" "plain_boundary parse_bytes ''created_at''" for parse_bytes
  by unfold_locales (simp add: encodeOptimizerPolicyCursor_def decodeOptimizerPolicyCursor_def plain_decode)

lemma forecast_cursor_decode:
  "plain_boundary parse_bytes ''created_at'' t i \<Longrightarrow> decodeForecastCursor parse_bytes (encodeForecastCursor t i) = Inr (t, i)"
  using plain_decode [of parse_bytes t i]
  by (simp add: encodeForecastCursor_def decodeForecastCursor_def plain_boundary_def micros_chars(3) db_uuid_cases(1))

interpretation forecast_cursor: cursor_codec "\<lambda>t i. Inr (encodeForecastCursor t i)"
    "decodeForecastCursor parse_bytes" "plain_boundary parse_bytes ''created_at''" for parse_bytes
  by unfold_locales (simp add: forecast_cursor_decode)

interpretation audit_cursor: cursor_codec "\<lambda>t i. Inr (encodeAuditCursor t i)"
    "decodeAuditCursor parse_bytes" "plain_boundary parse_bytes ''created_at''" for parse_bytes
  by unfold_locales (simp add: encodeAuditCursor_def decodeAuditCursor_def forecast_cursor_decode)

interpretation scenario_cursor: cursor_codec "\<lambda>t i. Inr (encodeScenarioCursor t i)"
    "\<lambda>c. decodeScenarioCursor parse_bytes (JStr c)" "plain_boundary parse_bytes ''created_at''" for parse_bytes
  by unfold_locales (simp add: encodeScenarioCursor_def decodeScenarioCursor_def
      forecast_cursor_decode [unfolded encodeForecastCursor_def])

text \<open>The two that put the id in lower case and ask \<open>Date.parse\<close>.\<close>

definition dated_boundary :: "(string \<Rightarrow> json option) \<Rightarrow> (string \<Rightarrow> int option) \<Rightarrow> string \<Rightarrow> string \<Rightarrow> string \<Rightarrow> bool" where
  "dated_boundary parse_bytes date_parse key t i = (plain_boundary parse_bytes key t i \<and> date_parse t \<noteq> None)"

lemma parse_cursor_decode:
  assumes "dated_boundary parse_bytes date_parse key t i" and "key \<in> {''created_at'', ''requested_at''}"
  shows "parse_cursor parse_bytes date_parse key err (JStr (encode_cursor key t i)) = Inr (t, i)"
proof -
  have b: "plain_boundary parse_bytes key t i" "date_parse t \<noteq> None" using assms(1) by (simp_all add: dated_boundary_def)
  then have "db_uuid i" by (simp add: plain_boundary_def)
  from db_uuid_cases [OF this] b plain_boundary_decode(1,2) [OF b(1) assms(2)] assms(2)
  show ?thesis by (auto simp: parse_cursor_def cursor_pattern_def json_prop_def iso_def uuid_def)
qed

interpretation approval_cursor: cursor_codec "\<lambda>t i. Inr (encodeApprovalCursor t i)"
    "\<lambda>c. parseApprovalCursor parse_bytes date_parse (JStr c)" "dated_boundary parse_bytes date_parse ''requested_at''"
  for parse_bytes date_parse
  by unfold_locales (simp add: encodeApprovalCursor_def parseApprovalCursor_def parse_cursor_decode)

interpretation recommendation_cursor: cursor_codec "\<lambda>t i. Inr (encodeRecommendationCursor t i)"
    "\<lambda>c. parseRecommendationCursor parse_bytes date_parse (JStr c)" "dated_boundary parse_bytes date_parse ''created_at''"
  for parse_bytes date_parse
  by unfold_locales (simp add: encodeRecommendationCursor_def parseRecommendationCursor_def parse_cursor_decode)

section \<open>Cursors with a checksum\<close>

lemma signed_round:
  assumes keep: "\<And>s x. parse_time s = Inr x \<Longrightarrow> x = s" "\<And>s x. parse_id s = Inr x \<Longrightarrow> x = s"
    and rb: "reads_back parse_bytes (signed_json t i (checksum sha256 label t i))"
  shows "decode_signed parse_time parse_id sha256 label parse_bytes c = Inr (t, i)
    \<longleftrightarrow> encode_signed parse_time parse_id sha256 label t i = Inr c"
proof
  assume "decode_signed parse_time parse_id sha256 label parse_bytes c = Inr (t, i)"
  then obtain tv iv where "parse_time tv = Inr t" "parse_id iv = Inr i" "length c \<le> 512"
    and "base64url (utf8_bytes (stringify (signed_json t i (checksum sha256 label t i)))) = c"
    by (auto simp: decode_signed_def Let_def bindR_eq_Inr split: if_splits)
  with keep show "encode_signed parse_time parse_id sha256 label t i = Inr c"
    by (fastforce simp: encode_signed_def Let_def)
next
  let ?v = "signed_json t i (checksum sha256 label t i)"
  assume e: "encode_signed parse_time parse_id sha256 label t i = Inr c"
  then have p: "parse_time t = Inr t" "parse_id i = Inr i"
    and c: "c = base64url (utf8_bytes (stringify ?v))" "length c \<le> 512"
    using keep by (auto simp: encode_signed_def Let_def bindR_eq_Inr split: if_splits)
  have ne: "c \<noteq> []"
  proof -
    have "length (stringify ?v) \<noteq> 0" by (simp add: signed_json_def)
    then have "utf8_bytes (stringify ?v) \<noteq> []" by (simp add: utf8_Nil)
    then show ?thesis unfolding c by (metis base64url_round list.discI base64url.simps(1))
  qed
  have "sort [''v'', ''created_at'', ''id'', ''check''] = [''check'', ''created_at'', ''id'', ''v'']" by code_simp
  then have pay: "isCursorPayload ?v"
    by (simp add: isCursorPayload_def signed_json_def object_keys_def json_prop_def is_string_def)
  have fields: "text_of (property ?v ''created_at'') = t" "text_of (property ?v ''id'') = i"
    "text_of (property ?v ''check'') = checksum sha256 label t i"
    by (simp_all add: signed_json_def property_def json_prop_def text_of_def)
  have "list_all cursor_letter c" unfolding c using base64url_letters by (simp add: cursor_letter_def [abs_def])
  then show "decode_signed parse_time parse_id sha256 label parse_bytes c = Inr (t, i)"
    using rb c ne by (simp add: decode_signed_def Let_def reads_back_def base64url_round pay fields p sameText_def)
qed

lemma signed_parse:
  "parseUserTimestamp date_parse s = Inr x \<Longrightarrow> x = s" "parseUserId s = Inr x \<Longrightarrow> x = s"
  "parseApiKeyMetadataTimestamp date_parse s = Inr x \<Longrightarrow> x = s" "parseApiKeyMetadataId s = Inr x \<Longrightarrow> x = s"
  by (auto simp: parseUserTimestamp_def parseUserId_def parseApiKeyMetadataTimestamp_def parseApiKeyMetadataId_def
      split: if_splits option.splits)

definition signed_boundary :: "(string \<Rightarrow> json option) \<Rightarrow> (string \<Rightarrow> string) \<Rightarrow> string \<Rightarrow> string result \<Rightarrow> string \<Rightarrow> string \<Rightarrow> bool" where
  "signed_boundary parse_bytes sha256 label encoded t i =
     (ok encoded \<and> reads_back parse_bytes (signed_json t i (checksum sha256 label t i)))"

interpretation users_cursor: cursor_codec "encodeUsersCursor date_parse sha256" "decodeUsersCursor date_parse sha256 parse_bytes"
    "\<lambda>t i. signed_boundary parse_bytes sha256 ''users-cursor:v1'' (encodeUsersCursor date_parse sha256 t i) t i"
  for date_parse sha256 parse_bytes
proof
  fix t i
  assume b: "signed_boundary parse_bytes sha256 ''users-cursor:v1'' (encodeUsersCursor date_parse sha256 t i) t i"
  then obtain c where "encodeUsersCursor date_parse sha256 t i = Inr c"
    by (auto simp: signed_boundary_def ok_def split: sum.splits)
  with b show "\<exists>c. encodeUsersCursor date_parse sha256 t i = Inr c \<and> decodeUsersCursor date_parse sha256 parse_bytes c = Inr (t, i)"
    by (simp add: signed_boundary_def encodeUsersCursor_def decodeUsersCursor_def signed_round [OF signed_parse(1,2)])
qed

interpretation api_key_cursor: cursor_codec "encodeApiKeyMetadataCursor date_parse sha256" "decodeApiKeyMetadataCursor date_parse sha256 parse_bytes"
    "\<lambda>t i. signed_boundary parse_bytes sha256 ''api-key-metadata-cursor:v1'' (encodeApiKeyMetadataCursor date_parse sha256 t i) t i"
  for date_parse sha256 parse_bytes
proof
  fix t i
  assume b: "signed_boundary parse_bytes sha256 ''api-key-metadata-cursor:v1'' (encodeApiKeyMetadataCursor date_parse sha256 t i) t i"
  then obtain c where "encodeApiKeyMetadataCursor date_parse sha256 t i = Inr c"
    by (auto simp: signed_boundary_def ok_def split: sum.splits)
  with b show "\<exists>c. encodeApiKeyMetadataCursor date_parse sha256 t i = Inr c
      \<and> decodeApiKeyMetadataCursor date_parse sha256 parse_bytes c = Inr (t, i)"
    by (simp add: signed_boundary_def encodeApiKeyMetadataCursor_def decodeApiKeyMetadataCursor_def signed_round [OF signed_parse(3,4)])
qed

end
