(* ===== verification/Paging.thy ===== *)
theory Paging
  imports Cursor_Claims
begin

text \<open>
  Keyset pages, as every list endpoint computes them: \<open>WHERE (created_at, id) < cursor ORDER BY
  created_at DESC, id DESC LIMIT limit + 1\<close>, the first \<open>limit\<close> rows as the page, and the last of
  them as the next cursor when a further row was found. Time stamps are the texts \<open>to_char\<close> gives
  (microseconds, years of four digits), ids lower-case texts; both are ordered as the values are.
\<close>

section \<open>A page\<close>

definition boundary_less :: "boundary \<Rightarrow> boundary \<Rightarrow> bool" where
  "boundary_less a b = (fst a < fst b \<or> (fst a = fst b \<and> snd a < snd b))"

definition newest_first :: "('r \<Rightarrow> boundary) \<Rightarrow> 'r \<Rightarrow> 'r \<Rightarrow> int" where
  "newest_first key a b = (if key a = key b then 0 else if boundary_less (key b) (key a) then - 1 else 1)"

definition before_cursor :: "('r \<Rightarrow> boundary) \<Rightarrow> boundary option \<Rightarrow> 'r \<Rightarrow> bool" where
  "before_cursor key cursor r = (case cursor of None \<Rightarrow> True | Some b \<Rightarrow> boundary_less (key r) b)"

definition keyset_query :: "('r \<Rightarrow> boundary) \<Rightarrow> boundary option \<Rightarrow> nat \<Rightarrow> 'r list \<Rightarrow> 'r list" where
  "keyset_query key cursor limit rows =
     take limit (js_sort (newest_first key) (filter (before_cursor key cursor) rows))"

text \<open>\<open>page = rows.slice(0, limit)\<close> and \<open>rows.length > limit ? page.at(-1) : undefined\<close>.\<close>

definition split_page :: "nat \<Rightarrow> 'r list \<Rightarrow> 'r list \<times> 'r option" where
  "split_page limit found =
     (let page = take limit found in
      (page, if length found > limit \<and> page \<noteq> [] then Some (last page) else None))"

definition list_page :: "('r \<Rightarrow> boundary) \<Rightarrow> nat \<Rightarrow> boundary option \<Rightarrow> 'r list \<Rightarrow> 'r list \<times> 'r option" where
  "list_page key limit cursor rows = split_page limit (keyset_query key cursor (limit + 1) rows)"

text \<open>A list endpoint: the cursor text is decoded, the boundary of the page encoded.\<close>

definition cursor_page :: "(string \<Rightarrow> string \<Rightarrow> string result) \<Rightarrow> (string \<Rightarrow> boundary result) \<Rightarrow> ('r \<Rightarrow> boundary)
    \<Rightarrow> nat \<Rightarrow> 'r list \<Rightarrow> string option \<Rightarrow> ('r list \<times> string option) result" where
  "cursor_page encode decode key limit rows cursor =
     bindR (case cursor of None \<Rightarrow> Inr None | Some c \<Rightarrow> bindR (decode c) (\<lambda>b. Inr (Some b))) (\<lambda>b.
     let (page, boundary) = list_page key limit b rows in
     case boundary of
       None \<Rightarrow> Inr (page, None)
     | Some r \<Rightarrow> bindR (encode (fst (key r)) (snd (key r))) (\<lambda>c. Inr (page, Some c)))"

text \<open>A client that follows the cursors, with fuel: None when the fuel runs out.\<close>

fun follow_cursors :: "(string option \<Rightarrow> ('r list \<times> string option) result) \<Rightarrow> nat \<Rightarrow> string option \<Rightarrow> 'r list result option" where
  "follow_cursors endpoint 0 cursor = None"
| "follow_cursors endpoint (Suc n) cursor =
     (case endpoint cursor of
        Inl e \<Rightarrow> Some (Inl e)
      | Inr (page, None) \<Rightarrow> Some (Inr page)
      | Inr (page, Some c) \<Rightarrow>
          map_option (\<lambda>rest. bindR rest (\<lambda>rows. Inr (page @ rows))) (follow_cursors endpoint n (Some c)))"

section \<open>The order of the pages\<close>

lemma boundary_less_trans: "boundary_less a b \<Longrightarrow> boundary_less b c \<Longrightarrow> boundary_less a c"
  by (auto simp: boundary_less_def)

lemma boundary_less_irrefl [simp]: "\<not> boundary_less a a"
  by (simp add: boundary_less_def)

lemma boundary_less_linear: "boundary_less a b \<or> a = b \<or> boundary_less b a"
  by (auto simp: boundary_less_def prod_eq_iff)

lemma boundary_less_asym: "boundary_less a b \<Longrightarrow> \<not> boundary_less b a"
  using boundary_less_trans boundary_less_irrefl by blast

interpretation nf: comparator "newest_first key" for key :: "'r \<Rightarrow> boundary"
proof
  fix x y z :: 'r
  show "newest_first key x y \<le> 0 \<longleftrightarrow> 0 \<le> newest_first key y x"
    using boundary_less_linear [of "key x" "key y"] boundary_less_asym [of "key x" "key y"]
    by (auto simp: newest_first_def)
  show "newest_first key x y \<le> 0 \<Longrightarrow> newest_first key y z \<le> 0 \<Longrightarrow> newest_first key x z \<le> 0"
    using boundary_less_trans [of "key z" "key y" "key x"] by (auto simp: newest_first_def split: if_splits)
qed

definition sorted_rows :: "('r \<Rightarrow> boundary) \<Rightarrow> 'r list \<Rightarrow> 'r list" where
  "sorted_rows key rows = js_sort (newest_first key) rows"

lemma le_strict:
  "distinct (map key xs) \<Longrightarrow> sorted_wrt (nf.le key) xs \<Longrightarrow> sorted_wrt (\<lambda>a b. boundary_less (key b) (key a)) xs"
proof (induction xs)
  case (Cons x xs)
  have "boundary_less (key y) (key x)" if "y \<in> set xs" for y
  proof -
    have "key x \<noteq> key y" "nf.le key x y" using Cons.prems that by auto
    then show ?thesis by (simp add: nf.le_def newest_first_def split: if_splits)
  qed
  with Cons show ?case by simp
qed simp

lemma sorted_rows_strict:
  assumes "distinct (map key rows)"
  shows "sorted_wrt (\<lambda>a b. boundary_less (key b) (key a)) (sorted_rows key rows)"
proof (rule le_strict)
  have "mset (map key (sorted_rows key rows)) = mset (map key rows)" by (simp add: sorted_rows_def)
  from mset_eq_imp_distinct_iff [OF this] assms show "distinct (map key (sorted_rows key rows))" by simp
  show "sorted_wrt (nf.le key) (sorted_rows key rows)"
    unfolding sorted_rows_def by (rule nf.js_sort_sorted)
qed

text \<open>The rows before a boundary, sorted, are the rest of the sorted rows.\<close>

lemma sorted_filter:
  "js_sort (newest_first key) (filter p rows) = filter p (sorted_rows key rows)"
proof -
  have "filter p (sorted_rows key rows) = js_sort (newest_first key) (filter p rows)"
  proof (rule nf.js_sort_unique)
    show "sorted_wrt (nf.le key) (filter p (sorted_rows key rows))"
      unfolding sorted_rows_def by (rule sorted_wrt_filter [OF nf.js_sort_sorted])
    show "filter (nf.eqv key a) (filter p (sorted_rows key rows)) = filter (nf.eqv key a) (filter p rows)" for a
    proof -
      have "filter (nf.eqv key a) (filter p xs) = filter p (filter (nf.eqv key a) xs)" for xs
        by (simp add: conj_commute)
      then show ?thesis by (simp only: sorted_rows_def nf.js_sort_stable)
    qed
  qed
  then show ?thesis by simp
qed

lemma keyset_rest:
  assumes "distinct (map key rows)" and "sorted_rows key rows = xs @ x # ys"
  shows "keyset_query key (Some (key x)) limit rows = take limit ys"
proof -
  have s: "sorted_wrt (\<lambda>a b. boundary_less (key b) (key a)) (xs @ x # ys)"
    using sorted_rows_strict [OF assms(1)] assms(2) by simp
  have "filter (before_cursor key (Some (key x))) xs = []"
    unfolding filter_empty_conv
  proof
    fix r assume "r \<in> set xs"
    with s have "boundary_less (key x) (key r)" by (simp add: sorted_wrt_append)
    then show "\<not> before_cursor key (Some (key x)) r" by (simp add: before_cursor_def boundary_less_asym)
  qed
  moreover have "filter (before_cursor key (Some (key x))) ys = ys"
    using s by (auto simp: sorted_wrt_append before_cursor_def)
  ultimately show ?thesis by (simp add: keyset_query_def sorted_filter assms(2) before_cursor_def)
qed

lemma keyset_start: "keyset_query key None limit rows = take limit (sorted_rows key rows)"
  by (simp add: keyset_query_def before_cursor_def sorted_rows_def)

section \<open>Following the cursors\<close>

context cursor_codec
begin

lemma endpoint_rest:
  assumes d: "distinct (map key rows)" and r: "\<forall>r\<in>set rows. readable (fst (key r)) (snd (key r))" and l: "0 < limit"
    and start: "keyset_query key b (limit + 1) rows = take (limit + 1) ys"
    and cur: "(case cursor of None \<Rightarrow> b = None | Some c \<Rightarrow> (\<exists>t i. decode c = Inr (t, i) \<and> b = Some (t, i)))"
    and suffix: "sorted_rows key rows = xs @ ys" and fuel: "length ys < n"
  shows "follow_cursors (cursor_page encode decode key limit rows) n cursor = Some (Inr ys)"
  using start cur suffix fuel
proof (induction n arbitrary: b cursor xs ys)
  case (Suc n)
  have dec: "(case cursor of None \<Rightarrow> Inr None | Some c \<Rightarrow> bindR (decode c) (\<lambda>b. Inr (Some b))) = Inr b"
    using Suc.prems(2) by (cases cursor) auto
  show ?case
  proof (cases "length ys > limit")
    case False
    then have "list_page key limit b rows = (ys, None)"
      unfolding list_page_def Suc.prems(1) by (simp add: split_page_def Let_def)
    with dec show ?thesis by (simp add: cursor_page_def)
  next
    case True
    define x where "x = last (take limit ys)"
    have ne: "take limit ys \<noteq> []" using True l by auto
    have split: "take limit ys = butlast (take limit ys) @ [x]" using ne by (simp add: x_def)
    have page: "list_page key limit b rows = (take limit ys, Some x)"
      using True ne unfolding list_page_def Suc.prems(1) by (simp add: split_page_def Let_def x_def min_absorb1)
    have whole: "sorted_rows key rows = (xs @ butlast (take limit ys)) @ x # drop limit ys"
      using Suc.prems(3) split by (metis append.assoc append_Cons append_Nil append_take_drop_id)
    then have "x \<in> set rows" by (metis in_set_conv_decomp set_js_sort sorted_rows_def)
    with r obtain c where c: "encode (fst (key x)) (snd (key x)) = Inr c" "decode c = Inr (key x)"
      using decode_encode [of "fst (key x)" "snd (key x)"] by auto
    have "follow_cursors (cursor_page encode decode key limit rows) n (Some c) = Some (Inr (drop limit ys))"
    proof (rule Suc.IH [of "Some (key x)" "drop limit ys" "Some c"])
      show "keyset_query key (Some (key x)) (limit + 1) rows = take (limit + 1) (drop limit ys)"
        by (rule keyset_rest [OF d whole])
      show "case Some c of None \<Rightarrow> Some (key x) = None | Some c \<Rightarrow> \<exists>t i. decode c = Inr (t, i) \<and> Some (key x) = Some (t, i)"
        using c by (cases "key x") auto
      show "sorted_rows key rows = (xs @ take limit ys) @ drop limit ys" using Suc.prems(3) by simp
      show "length (drop limit ys) < n" using Suc.prems(4) True l by simp
    qed
    moreover have "cursor_page encode decode key limit rows cursor = Inr (take limit ys, Some c)"
      using dec page c by (simp add: cursor_page_def)
    ultimately show ?thesis by simp
  qed
qed simp

text \<open>Following the cursors ends, and gives every row once, newest first.\<close>

lemma follow_all:
  assumes "distinct (map key rows)" and "\<forall>r\<in>set rows. readable (fst (key r)) (snd (key r))" and "0 < limit"
  shows "follow_cursors (cursor_page encode decode key limit rows) (length rows + 1) None = Some (Inr (sorted_rows key rows))"
  by (rule endpoint_rest [where b = None and xs = "[]"])
    (use assms in \<open>simp_all add: keyset_start sorted_rows_def\<close>)

end

end
