(* ===== verification/Approvals_Input.thy ===== *)
theory Approvals_Input
  imports Paging
begin

text \<open>
  core/approvals/approvals-input.ts: the parsers of approval requests. An absent property is
  undefined; on Latin-1 text \<open>normalize('NFC')\<close> is the identity. The helpers \<open>uuid\<close>, \<open>iso\<close> and the
  cursor are in theory Cursors.
\<close>

datatype approval_status = ApQueued | ApPending | ApApproved | ApRejected | ApExpired | ApFailed

definition approval_status_text :: "approval_status \<Rightarrow> string" where
  "approval_status_text s = (case s of ApQueued \<Rightarrow> ''queued'' | ApPending \<Rightarrow> ''pending'' | ApApproved \<Rightarrow> ''approved''
     | ApRejected \<Rightarrow> ''rejected'' | ApExpired \<Rightarrow> ''expired'' | ApFailed \<Rightarrow> ''failed'')"

definition approval_statuses :: "approval_status list" where
  "approval_statuses = [ApQueued, ApPending, ApApproved, ApRejected, ApExpired, ApFailed]"

record approval_request_input =
  aq_recommendationId :: string
  aq_assignedToUserId :: "string option"
  aq_reason :: "string option"

record approval_list_input =
  al_limit :: nat
  al_cursor :: "boundary option"
  al_status :: "approval_status option"
  al_assignedToUserId :: "string option"
  al_recommendationId :: "string option"

record approval_decision_input =
  ad_approvalId :: string
  ad_decisionReason :: string

definition hasControlCharacter :: "string \<Rightarrow> bool" where
  "hasControlCharacter value = (\<exists>c\<in>set value. code c \<le> 31 \<or> (127 \<le> code c \<and> code c \<le> 159))"

definition boundedText :: "json \<Rightarrow> nat \<Rightarrow> string result" where
  "boundedText value bound =
     (case value of
        JStr s \<Rightarrow> (let normalized = trim s in
          if length normalized = 0 \<or> length normalized > bound \<or> hasControlCharacter normalized then Inl invalid_approval
          else Inr normalized)
      | _ \<Rightarrow> Inl invalid_approval)"

definition object_input :: "json \<Rightarrow> (string \<times> json) list result" where
  "object_input value = (case value of JObj kvs \<Rightarrow> Inr kvs | _ \<Rightarrow> Inl invalid_approval)"

definition rejectUnknown :: "(string \<times> json) list \<Rightarrow> string list \<Rightarrow> unit result" where
  "rejectUnknown source allowed =
     (if \<exists>key\<in>set (object_keys source). key \<notin> set allowed then Inl invalid_approval else Inr ())"

text \<open>\<open>source.key === undefined ? undefined : parse(source.key)\<close>.\<close>

definition optional_input :: "(json \<Rightarrow> 'a result) \<Rightarrow> json \<Rightarrow> 'a option result" where
  "optional_input parse value = (if value = JUndefined then Inr None else bindR (parse value) (\<lambda>x. Inr (Some x)))"

definition parseApprovalRequestBody :: "json \<Rightarrow> json \<Rightarrow> approval_request_input result" where
  "parseApprovalRequestBody recommendationIdValue body =
     bindR (object_input body) (\<lambda>source.
     bindR (rejectUnknown source [''assigned_to_user_id'', ''reason'']) (\<lambda>_.
     bindR (uuid invalid_approval recommendationIdValue) (\<lambda>recommendationId.
     bindR (optional_input (uuid invalid_approval) (json_prop source ''assigned_to_user_id'')) (\<lambda>assigned.
     bindR (optional_input (\<lambda>v. boundedText v 2000) (json_prop source ''reason'')) (\<lambda>reason.
     Inr \<lparr>aq_recommendationId = recommendationId, aq_assignedToUserId = assigned, aq_reason = reason\<rparr>)))))"

text \<open>\<open>/^[1-9][0-9]\{0,2\}$/u\<close> and at most 120; 50 when absent.\<close>

definition optionalLimit :: "json \<Rightarrow> nat result" where
  "optionalLimit value =
     (case value of
        JUndefined \<Rightarrow> Inr 50
      | JStr s \<Rightarrow> if s \<noteq> [] \<and> length s \<le> 3 \<and> list_all is_digit s \<and> hd s \<noteq> CHR ''0'' \<and> dec_val s \<le> 120
                  then Inr (dec_val s) else Inl invalid_approval
      | _ \<Rightarrow> Inl invalid_approval)"

definition statusValue :: "json \<Rightarrow> approval_status result" where
  "statusValue value =
     (case value of
        JStr s \<Rightarrow> orElse (find (\<lambda>st. approval_status_text st = s) approval_statuses) invalid_approval
      | _ \<Rightarrow> Inl invalid_approval)"

definition no_list_filter :: approval_list_input where
  "no_list_filter = \<lparr>al_limit = 50, al_cursor = None, al_status = None, al_assignedToUserId = None, al_recommendationId = None\<rparr>"

definition parseApprovalListQuery :: "(string \<Rightarrow> json option) \<Rightarrow> (string \<Rightarrow> int option) \<Rightarrow> json \<Rightarrow> approval_list_input result" where
  "parseApprovalListQuery parse_bytes date_parse query =
     (case query of
        JObj source \<Rightarrow>
          bindR (rejectUnknown source [''limit'', ''cursor'', ''status'', ''assigned_to_user_id'', ''recommendation_id'']) (\<lambda>_.
          bindR (optionalLimit (json_prop source ''limit'')) (\<lambda>limit.
          bindR (optional_input (parseApprovalCursor parse_bytes date_parse) (json_prop source ''cursor'')) (\<lambda>cursor.
          bindR (optional_input statusValue (json_prop source ''status'')) (\<lambda>status.
          bindR (optional_input (uuid invalid_approval) (json_prop source ''assigned_to_user_id'')) (\<lambda>assigned.
          bindR (optional_input (uuid invalid_approval) (json_prop source ''recommendation_id'')) (\<lambda>recommendation.
          Inr \<lparr>al_limit = limit, al_cursor = cursor, al_status = status, al_assignedToUserId = assigned,
               al_recommendationId = recommendation\<rparr>))))))
      | _ \<Rightarrow> Inr no_list_filter)"

definition parseApprovalId :: "json \<Rightarrow> string result" where
  "parseApprovalId value = uuid invalid_approval value"

definition parseApprovalDecisionBody :: "json \<Rightarrow> json \<Rightarrow> approval_decision_input result" where
  "parseApprovalDecisionBody approvalIdValue body =
     bindR (object_input body) (\<lambda>source.
     bindR (rejectUnknown source [''decision_reason'']) (\<lambda>_.
     bindR (uuid invalid_approval approvalIdValue) (\<lambda>approvalId.
     bindR (boundedText (json_prop source ''decision_reason'') 2000) (\<lambda>reason.
     Inr \<lparr>ad_approvalId = approvalId, ad_decisionReason = reason\<rparr>))))"

text \<open>A decision always carries a reason the column accepts: trimmed, not empty, at most 2000
  characters, none of them a control character.\<close>

lemma boundedText_Inr:
  assumes "boundedText v n = Inr s"
  shows "s \<noteq> []" "length s \<le> n" "\<not> hasControlCharacter s" "\<not> is_ws (hd s)" "\<not> is_ws (last s)"
proof -
  from assms obtain t where s: "s = trim t" "s \<noteq> []" "length s \<le> n" "\<not> hasControlCharacter s"
    by (auto simp: boundedText_def Let_def split: json.splits if_splits)
  then show "s \<noteq> []" "length s \<le> n" "\<not> hasControlCharacter s" by simp_all
  from trim_hd_last [of t] s(1,2) show "\<not> is_ws (hd s)" "\<not> is_ws (last s)" by simp_all
qed

end
