(* ===== verification/Approvals.thy ===== *)
theory Approvals
  imports Approvals_Input Optimizer_Worker
begin

text \<open>
  core/approvals/approvals-repository.ts over the tables it touches, with the constraints and
  triggers of migrations 0019 (recommendations) and 0021 (approvals) that its statements meet. Times
  are microseconds; \<open>aw_now\<close> is the clock of the database, which stands still during a transaction, so
  that \<open>now()\<close> and \<open>clock_timestamp()\<close> agree. Generated ids are arguments. A statement
  that violates a constraint throws its SQLSTATE and the transaction leaves the tables as they were.
\<close>

section \<open>Tables\<close>

record stored_recommendation =
  sr_id :: string
  sr_tenantId :: string
  sr_runId :: string
  sr_input :: recommendation_input
  sr_createdAt :: int
  sr_updatedAt :: int

record stored_approval =
  ap_id :: string
  ap_tenantId :: string
  ap_recommendationId :: string
  ap_status :: approval_status
  ap_requestedByUserId :: "string option"
  ap_assignedToUserId :: "string option"
  ap_workflowExecutionId :: "string option"
  ap_decisionReason :: "string option"
  ap_approvalSnapshot :: json
  ap_requestedAt :: int
  ap_decidedAt :: "int option"
  ap_expiresAt :: int
  ap_createdAt :: int
  ap_updatedAt :: int

record tenant_row =
  tn_id :: string
  tn_name :: string
  tn_legalName :: string
  tn_displayName :: string
  tn_contactEmail :: "string option"
  tn_contactPhone :: "string option"
  tn_supportUrl :: "string option"
  tn_financeOwnerEmail :: "string option"
  tn_isActive :: bool

record user_row =
  usr_id :: string
  usr_tenantId :: string
  usr_email :: string
  usr_role :: user_role
  usr_isActive :: bool

record approvals_world =
  aw_recommendations :: "stored_recommendation list"
  aw_approvals :: "stored_approval list"
  aw_tenants :: "tenant_row list"
  aw_users :: "user_row list"
  aw_now :: int

abbreviation rec_status :: "stored_recommendation \<Rightarrow> recommendation_status" where
  "rec_status r \<equiv> ri_status (sr_input r)"

section \<open>Constraints and triggers\<close>

text \<open>SQLSTATE 55000 is the lifecycle triggers', 23505 a unique index, 23503 a foreign key, 23514 a check.\<close>

definition recommendation_transition :: "recommendation_status \<Rightarrow> recommendation_status \<Rightarrow> bool" where
  "recommendation_transition old new =
     ((old = Draft \<and> new \<in> {Ready, PendingApproval, Superseded})
      \<or> (old = Ready \<and> new \<in> {PendingApproval, Superseded})
      \<or> (old = PendingApproval \<and> new \<in> {Approved, Rejected, Expired, Superseded})
      \<or> (old = Approved \<and> new \<in> {Executed, Superseded}))"

definition approval_transition :: "approval_status \<Rightarrow> approval_status \<Rightarrow> bool" where
  "approval_transition old new =
     ((old = ApQueued \<and> new \<in> {ApPending, ApExpired, ApFailed})
      \<or> (old = ApPending \<and> new \<in> {ApApproved, ApRejected, ApExpired, ApFailed}))"

definition live_approval :: "approval_status \<Rightarrow> bool" where
  "live_approval s = (s \<in> {ApQueued, ApPending})"

text \<open>\<open>value = btrim(value) AND value <> '' AND length(value) <= n AND value !~ '[[:cntrl:]]'\<close>.\<close>

definition column_text :: "nat \<Rightarrow> string \<Rightarrow> bool" where
  "column_text n s = (s \<noteq> [] \<and> hd s \<noteq> CHR '' '' \<and> last s \<noteq> CHR '' '' \<and> length s \<le> n \<and> (\<forall>c\<in>set s. \<not> control_char c))"

definition optional_column :: "nat \<Rightarrow> string option \<Rightarrow> bool" where
  "optional_column n v = (case v of None \<Rightarrow> True | Some s \<Rightarrow> column_text n s)"

definition approval_row_check :: "stored_approval \<Rightarrow> bool" where
  "approval_row_check a =
     (optional_column 512 (ap_workflowExecutionId a) \<and> optional_column 2000 (ap_decisionReason a)
      \<and> ap_requestedAt a < ap_expiresAt a \<and> ap_requestedAt a \<le> ap_createdAt a \<and> ap_createdAt a \<le> ap_updatedAt a
      \<and> (case ap_decidedAt a of None \<Rightarrow> live_approval (ap_status a)
         | Some d \<Rightarrow> ap_requestedAt a \<le> d \<and> \<not> live_approval (ap_status a)))"

definition approval_identity :: "stored_approval \<Rightarrow> string \<times> string \<times> string \<times> string option \<times> string option \<times> json \<times> int \<times> int \<times> int" where
  "approval_identity a = (ap_id a, ap_tenantId a, ap_recommendationId a, ap_requestedByUserId a, ap_assignedToUserId a,
     ap_approvalSnapshot a, ap_requestedAt a, ap_expiresAt a, ap_createdAt a)"

definition approval_update_error :: "stored_approval \<Rightarrow> stored_approval \<Rightarrow> js_error option" where
  "approval_update_error old new =
     (if approval_identity new \<noteq> approval_identity old then Some (sqlstate ''55000'')
      else if \<not> approval_transition (ap_status old) (ap_status new) then Some (sqlstate ''55000'')
      else if ap_status new \<in> {ApApproved, ApRejected} \<and> ap_decisionReason new = None then Some (sqlstate ''55000'')
      else if \<not> approval_row_check new then Some (sqlstate ''23514'') else None)"

text \<open>The triggers stamp every updated row: \<open>NEW.updated_at = clock_timestamp()\<close>.\<close>

definition stamp_approval :: "int \<Rightarrow> stored_approval \<Rightarrow> stored_approval" where
  "stamp_approval clock a = a\<lparr>ap_updatedAt := clock\<rparr>"

definition update_approvals :: "(stored_approval \<Rightarrow> bool) \<Rightarrow> (stored_approval \<Rightarrow> stored_approval)
    \<Rightarrow> approvals_world \<Rightarrow> approvals_world result" where
  "update_approvals selected change w =
     bindR (traverseR (\<lambda>a. if selected a then
           (let new = stamp_approval (aw_now w) (change a) in
            case approval_update_error a new of Some e \<Rightarrow> Inl e | None \<Rightarrow> Inr new) else Inr a) (aw_approvals w))
       (\<lambda>rows. Inr (w\<lparr>aw_approvals := rows\<rparr>))"

definition set_status :: "int \<Rightarrow> recommendation_status \<Rightarrow> stored_recommendation \<Rightarrow> stored_recommendation" where
  "set_status clock s r = r\<lparr>sr_input := (sr_input r)\<lparr>ri_status := s\<rparr>, sr_updatedAt := clock\<rparr>"

text \<open>\<open>recommendations_approval_state_check\<close> and \<open>recommendations_timestamps_ordered_check\<close>.\<close>

definition approval_state_check :: "stored_recommendation \<Rightarrow> bool" where
  "approval_state_check r = ((ri_approvalRequired (sr_input r) \<or> rec_status r \<in> {Draft, Ready, Superseded}) \<and> sr_createdAt r \<le> sr_updatedAt r)"

definition update_recommendations :: "(stored_recommendation \<Rightarrow> bool) \<Rightarrow> recommendation_status
    \<Rightarrow> approvals_world \<Rightarrow> approvals_world result" where
  "update_recommendations selected s w =
     bindR (traverseR (\<lambda>r. if selected r then
           (if \<not> recommendation_transition (rec_status r) s then Inl (sqlstate ''55000'')
            else if \<not> approval_state_check (set_status (aw_now w) s r) then Inl (sqlstate ''23514'') else Inr (set_status (aw_now w) s r))
         else Inr r) (aw_recommendations w))
       (\<lambda>rows. Inr (w\<lparr>aw_recommendations := rows\<rparr>))"

definition insert_approval :: "stored_approval \<Rightarrow> approvals_world \<Rightarrow> approvals_world result" where
  "insert_approval a w =
     (let owner = find (\<lambda>r. sr_tenantId r = ap_tenantId a \<and> sr_id r = ap_recommendationId a) (aw_recommendations w) in
      if (case owner of None \<Rightarrow> False | Some r \<Rightarrow> rec_status r \<noteq> PendingApproval \<or> \<not> ri_approvalRequired (sr_input r))
      then Inl (sqlstate ''55000'')
      else if \<not> live_approval (ap_status a) then Inl (sqlstate ''55000'')
      else if \<not> approval_row_check a then Inl (sqlstate ''23514'')
      else if ap_id a \<in> ap_id ` set (aw_approvals w)
        \<or> (\<exists>b\<in>set (aw_approvals w). ap_tenantId b = ap_tenantId a \<and> ap_recommendationId b = ap_recommendationId a
             \<and> live_approval (ap_status b)) then Inl (sqlstate ''23505'')
      else if owner = None
        \<or> (\<exists>u\<in>set_option (ap_requestedByUserId a) \<union> set_option (ap_assignedToUserId a).
             \<not> (\<exists>r\<in>set (aw_users w). usr_tenantId r = ap_tenantId a \<and> usr_id r = u)) then Inl (sqlstate ''23503'')
      else Inr (w\<lparr>aw_approvals := aw_approvals w @ [a]\<rparr>))"

section \<open>Transactions\<close>

definition invalidState :: "string \<Rightarrow> js_error" where
  "invalidState message = AppError ''APPROVAL_STATE_INVALID'' message 409"

definition nullResource :: js_error where
  "nullResource = AppError ''NOT_FOUND'' ''The requested resource was not found.'' 404"

definition mapWriteError :: "js_error \<Rightarrow> js_error" where
  "mapWriteError e =
     (case e of
        AppError _ _ _ \<Rightarrow> e
      | Thrown s \<Rightarrow> if s = ''23505'' \<or> s = ''55000'' then invalidState ''Approval state is no longer current.'' else e)"

text \<open>\<open>BEGIN \<dots> COMMIT\<close>, with \<open>ROLLBACK\<close> and \<open>throw mapWriteError(error)\<close> in the catch.\<close>

definition transaction :: "(approvals_world \<Rightarrow> ('a \<times> approvals_world) result) \<Rightarrow> approvals_world \<Rightarrow> 'a result \<times> approvals_world" where
  "transaction body w = (case body w of Inl e \<Rightarrow> (Inl (mapWriteError e), w) | Inr (x, w') \<Rightarrow> (Inr x, w'))"

section \<open>Requests\<close>

record approval_insert_input =
  ai_recommendationId :: string
  ai_requestedByUserId :: "string option"
  ai_assignedToUserId :: "string option"
  ai_reason :: "string option"
  ai_expiresAt :: int

definition getRecommendation :: "string \<Rightarrow> string \<Rightarrow> approvals_world \<Rightarrow> stored_recommendation option" where
  "getRecommendation tenantId i w = find (\<lambda>r. sr_tenantId r = tenantId \<and> sr_id r = i) (aw_recommendations w)"

text \<open>The tenant, joined with the assignee: an active approver or administrator of the tenant.\<close>

definition readSnapshotContext :: "string \<Rightarrow> string option \<Rightarrow> approvals_world \<Rightarrow> (tenant_row \<times> string option) option" where
  "readSnapshotContext tenantId assignedToUserId w =
     (case find (\<lambda>t. tn_id t = tenantId \<and> tn_isActive t) (aw_tenants w) of
        None \<Rightarrow> None
      | Some tenant \<Rightarrow>
          (case assignedToUserId of
             None \<Rightarrow> Some (tenant, None)
           | Some u \<Rightarrow>
               (case find (\<lambda>r. usr_tenantId r = tenantId \<and> usr_id r = u \<and> usr_isActive r
                    \<and> usr_role r \<in> {FinanceApprover, TenantAdmin}) (aw_users w) of
                  None \<Rightarrow> None
                | Some r \<Rightarrow> Some (tenant, Some (usr_email r)))))"

definition recommendation_packet :: "stored_recommendation \<Rightarrow> json" where
  "recommendation_packet r =
     (let i = sr_input r in JObj
       [(''id'', JStr (sr_id r)),
        (''type'', JStr (ri_recommendationType i)),
        (''provider'', JStr (provider_text (ri_provider i))),
        (''instrument'', JStr (instrument_text (ri_instrument i))),
        (''service_code'', JStr (ri_serviceCode i)),
        (''region'', JStr (ri_region i)),
        (''term_months'', JInt (ri_termMonths i)),
        (''commitment_amount_cents'', JStr (ri_commitmentAmountCents i)),
        (''expected_savings_cents'', JStr (ri_expectedSavingsCents i)),
        (''p95_downside_loss_cents'', JStr (ri_p95DownsideLossCents i)),
        (''utilization_p50_pct'', JStr (ri_utilizationP50Pct i)),
        (''utilization_p95_pct'', JStr (ri_utilizationP95Pct i)),
        (''confidence_score'', JStr (ri_confidenceScore i)),
        (''risk_band'', JStr (risk_band_text (ri_riskBand i))),
        (''explanation'', ri_explanation i)])"

definition buildApprovalSnapshot :: "stored_recommendation \<Rightarrow> tenant_row \<times> string option \<Rightarrow> approval_insert_input \<Rightarrow> json" where
  "buildApprovalSnapshot recommendation context_row input =
     (let tenant = fst context_row in JObj
       [(''contract_version'', JStr ''approval_packet:v1''),
        (''tenant'', JObj
          [(''name'', JStr (tn_name tenant)),
           (''legal_name'', JStr (tn_legalName tenant)),
           (''display_name'', JStr (tn_displayName tenant)),
           (''contact'', JObj
             [(''email'', opt_string (tn_contactEmail tenant)),
              (''phone'', opt_string (tn_contactPhone tenant)),
              (''support_url'', opt_string (tn_supportUrl tenant)),
              (''finance_owner_email'', opt_string (tn_financeOwnerEmail tenant))])]),
        (''recommendation'', recommendation_packet recommendation),
        (''approval'', JObj
          [(''status'', JStr ''pending''),
           (''assigned_to'', opt_string (snd context_row)),
           (''expires_at'', JStr (iso_string (ai_expiresAt input))),
           (''decision_reason'', JNull),
           (''request_reason'', opt_string (ai_reason input))])])"

definition pending_row :: "string \<Rightarrow> string \<Rightarrow> approval_insert_input \<Rightarrow> json \<Rightarrow> int \<Rightarrow> stored_approval" where
  "pending_row new_id tenantId input snapshot now =
     \<lparr>ap_id = new_id, ap_tenantId = tenantId, ap_recommendationId = ai_recommendationId input, ap_status = ApPending,
      ap_requestedByUserId = ai_requestedByUserId input, ap_assignedToUserId = ai_assignedToUserId input,
      ap_workflowExecutionId = None, ap_decisionReason = None, ap_approvalSnapshot = snapshot, ap_requestedAt = now,
      ap_decidedAt = None, ap_expiresAt = ai_expiresAt input * 1000, ap_createdAt = now, ap_updatedAt = now\<rparr>"

definition createPending :: "string \<Rightarrow> string \<Rightarrow> approval_insert_input \<Rightarrow> approvals_world \<Rightarrow> stored_approval result \<times> approvals_world" where
  "createPending new_id tenantId input =
     transaction (\<lambda>w.
       case getRecommendation tenantId (ai_recommendationId input) w of
         None \<Rightarrow> Inl nullResource
       | Some recommendation \<Rightarrow>
           if rec_status recommendation \<noteq> PendingApproval \<or> \<not> ri_approvalRequired (sr_input recommendation)
           then Inl (invalidState ''Recommendation is not awaiting approval.'')
           else (case readSnapshotContext tenantId (ai_assignedToUserId input) w of
               None \<Rightarrow> Inl nullResource
             | Some context_row \<Rightarrow>
                 (let snapshot = buildApprovalSnapshot recommendation context_row input;
                      created = pending_row new_id tenantId input snapshot (aw_now w) in
                  bindR (insert_approval created w) (\<lambda>w'. Inr (created, w')))))"

section \<open>Lists and reads\<close>

definition approval_key :: "stored_approval \<Rightarrow> boundary" where
  "approval_key a = (micros_text (ap_requestedAt a), ap_id a)"

definition listed_approval :: "string \<Rightarrow> approval_list_input \<Rightarrow> stored_approval \<Rightarrow> bool" where
  "listed_approval tenantId input a =
     (ap_tenantId a = tenantId
      \<and> (al_status input = None \<or> al_status input = Some (ap_status a))
      \<and> (al_assignedToUserId input = None \<or> al_assignedToUserId input = ap_assignedToUserId a)
      \<and> (al_recommendationId input = None \<or> al_recommendationId input = Some (ap_recommendationId a)))"

definition list_approvals :: "string \<Rightarrow> approval_list_input \<Rightarrow> approvals_world \<Rightarrow> stored_approval list" where
  "list_approvals tenantId input w =
     keyset_query approval_key (al_cursor input) (al_limit input + 1)
       (filter (listed_approval tenantId input) (aw_approvals w))"

definition get_approval :: "string \<Rightarrow> string \<Rightarrow> approvals_world \<Rightarrow> stored_approval option" where
  "get_approval tenantId i w = find (\<lambda>a. ap_tenantId a = tenantId \<and> ap_id a = i) (aw_approvals w)"

section \<open>Decisions\<close>

datatype decision = Approve | Reject

definition decided_recommendation :: "decision \<Rightarrow> recommendation_status" where
  "decided_recommendation d = (case d of Approve \<Rightarrow> Approved | Reject \<Rightarrow> Rejected)"

definition decided_approval :: "decision \<Rightarrow> approval_status" where
  "decided_approval d = (case d of Approve \<Rightarrow> ApApproved | Reject \<Rightarrow> ApRejected)"

definition decide :: "string \<Rightarrow> approval_decision_input \<Rightarrow> decision \<Rightarrow> approvals_world \<Rightarrow> stored_approval option result \<times> approvals_world" where
  "decide tenantId input d =
     transaction (\<lambda>w.
       case get_approval tenantId (ad_approvalId input) w of
         None \<Rightarrow> Inr (None, w)
       | Some approval \<Rightarrow>
           if ap_status approval \<noteq> ApPending then Inl (invalidState ''Approval is not pending.'')
           else
             bindR (update_recommendations (\<lambda>r. sr_tenantId r = tenantId \<and> sr_id r = ap_recommendationId approval
                 \<and> rec_status r = PendingApproval) (decided_recommendation d) w) (\<lambda>w1.
             bindR (update_approvals (\<lambda>a. ap_tenantId a = tenantId \<and> ap_id a = ad_approvalId input)
                 (\<lambda>a. a\<lparr>ap_status := decided_approval d, ap_decisionReason := Some (ad_decisionReason input),
                        ap_decidedAt := Some (aw_now w)\<rparr>) w1) (\<lambda>w2.
             Inr (get_approval tenantId (ad_approvalId input) w2, w2))))"

section \<open>Expiry\<close>

definition expiry_order :: "stored_approval \<Rightarrow> stored_approval \<Rightarrow> int" where
  "expiry_order a b =
     (if ap_expiresAt a \<noteq> ap_expiresAt b then ap_expiresAt a - ap_expiresAt b
      else if ap_id a = ap_id b then 0 else if ap_id a < ap_id b then - 1 else 1)"

text \<open>\<open>now\<close> is the worker's clock, in milliseconds.\<close>

definition due_approvals :: "int \<Rightarrow> nat \<Rightarrow> approvals_world \<Rightarrow> stored_approval list" where
  "due_approvals now limit w =
     take limit (js_sort expiry_order (filter (\<lambda>a. ap_status a = ApPending \<and> ap_expiresAt a \<le> now * 1000) (aw_approvals w)))"

definition expire_key :: "stored_approval \<Rightarrow> string \<times> string" where
  "expire_key a = (ap_tenantId a, ap_recommendationId a)"

record expiry_result =
  ex_processed :: bool
  ex_approvalIds :: "string list"
  ex_recommendationIds :: "string list"

text \<open>The statement's parts: the due approvals, the recommendations they expire, and the pending
  approvals of those. Its error handler does not map SQLSTATEs.\<close>

definition expireDue :: "int \<Rightarrow> nat \<Rightarrow> approvals_world \<Rightarrow> expiry_result result \<times> approvals_world" where
  "expireDue now limit w =
     (let keys = map expire_key (due_approvals now limit w);
          expiring = (\<lambda>r. (sr_tenantId r, sr_id r) \<in> set keys \<and> rec_status r = PendingApproval);
          expired = map (\<lambda>r. (sr_tenantId r, sr_id r)) (filter expiring (aw_recommendations w));
          affected = (\<lambda>a. expire_key a \<in> set expired \<and> ap_status a = ApPending) in
      case bindR (update_recommendations expiring Expired w) (\<lambda>w1.
           update_approvals affected (\<lambda>a. a\<lparr>ap_status := ApExpired, ap_decidedAt := Some (now * 1000)\<rparr>) w1) of
        Inl e \<Rightarrow> (Inl e, w)
      | Inr w2 \<Rightarrow>
          (let rows = filter affected (aw_approvals w) in
           (Inr \<lparr>ex_processed = (rows \<noteq> []), ex_approvalIds = map ap_id rows,
              ex_recommendationIds = map ap_recommendationId rows\<rparr>, w2)))"

definition default_batch_size :: nat where
  "default_batch_size = 100"

definition processExpiredApprovals :: "nat option \<Rightarrow> int \<Rightarrow> approvals_world \<Rightarrow> expiry_result result \<times> approvals_world" where
  "processExpiredApprovals batchSize now w =
     expireDue now (case batchSize of None \<Rightarrow> default_batch_size | Some n \<Rightarrow> n) w"

section \<open>The workflow execution\<close>

definition setWorkflowExecutionId :: "string \<Rightarrow> string \<Rightarrow> string \<Rightarrow> approvals_world \<Rightarrow> unit result \<times> approvals_world" where
  "setWorkflowExecutionId tenantId approvalId executionId w =
     (case update_approvals (\<lambda>a. ap_tenantId a = tenantId \<and> ap_id a = approvalId \<and> ap_workflowExecutionId a = None)
         (\<lambda>a. a\<lparr>ap_workflowExecutionId := Some executionId\<rparr>) w of
        Inl e \<Rightarrow> (Inl e, w)
      | Inr w' \<Rightarrow> (Inr (), w'))"

end
