(* ===== verification/Approvals_Service.thy ===== *)
theory Approvals_Service
  imports Approvals
begin

text \<open>
  core/approvals/approvals-service.ts: the approvals API over its repository. \<open>hook\<close> is the optional
  notification hook; it works on a state of its own (\<open>'n\<close>) and whatever it throws is dropped. The
  clock is an argument, in milliseconds.
\<close>

definition approvals_unavailable :: js_error where
  "approvals_unavailable = AppError ''APPROVALS_UNAVAILABLE'' ''Approvals are temporarily unavailable.'' 503"

text \<open>\<open>safe\<close>: an error that is no AppError becomes a 503.\<close>

definition safe :: "'a result \<Rightarrow> 'a result" where
  "safe r = (case r of Inl (Thrown _) \<Rightarrow> Inl approvals_unavailable | _ \<Rightarrow> r)"

type_synonym 'n hook = "string \<Rightarrow> stored_approval \<Rightarrow> 'n \<Rightarrow> unit result \<times> 'n"

definition runHook :: "'n hook option \<Rightarrow> string \<Rightarrow> stored_approval \<Rightarrow> 'n \<Rightarrow> 'n" where
  "runHook hook tenantId approval n = (case hook of None \<Rightarrow> n | Some h \<Rightarrow> snd (h tenantId approval n))"

definition opt_time :: "int option \<Rightarrow> json" where
  "opt_time t = (case t of None \<Rightarrow> JNull | Some i \<Rightarrow> JStr (micros_text i))"

definition toApproval :: "stored_approval \<Rightarrow> json" where
  "toApproval row = JObj
     [(''id'', JStr (ap_id row)),
      (''recommendation_id'', JStr (ap_recommendationId row)),
      (''status'', JStr (approval_status_text (ap_status row))),
      (''requested_by_user_id'', opt_string (ap_requestedByUserId row)),
      (''assigned_to_user_id'', opt_string (ap_assignedToUserId row)),
      (''workflow_execution_id'', opt_string (ap_workflowExecutionId row)),
      (''decision_reason'', opt_string (ap_decisionReason row)),
      (''approval_snapshot'', ap_approvalSnapshot row),
      (''requested_at'', JStr (micros_text (ap_requestedAt row))),
      (''decided_at'', opt_time (ap_decidedAt row)),
      (''expires_at'', JStr (micros_text (ap_expiresAt row))),
      (''created_at'', JStr (micros_text (ap_createdAt row))),
      (''updated_at'', JStr (micros_text (ap_updatedAt row)))]"

definition recommendation_status_text :: "recommendation_status \<Rightarrow> string" where
  "recommendation_status_text s = (case s of Draft \<Rightarrow> ''draft'' | Ready \<Rightarrow> ''ready''
     | PendingApproval \<Rightarrow> ''pending_approval'' | Approved \<Rightarrow> ''approved'' | Rejected \<Rightarrow> ''rejected''
     | Superseded \<Rightarrow> ''superseded'' | Executed \<Rightarrow> ''executed'' | Expired \<Rightarrow> ''expired'')"

definition toRecommendation :: "stored_recommendation \<Rightarrow> json" where
  "toRecommendation row =
     (let i = sr_input row in JObj
       [(''id'', JStr (sr_id row)),
        (''optimizer_run_id'', JStr (sr_runId row)),
        (''recommendation_type'', JStr (ri_recommendationType i)),
        (''provider'', JStr (provider_text (ri_provider i))),
        (''instrument'', JStr (instrument_text (ri_instrument i))),
        (''service_code'', JStr (ri_serviceCode i)),
        (''region'', JStr (ri_region i)),
        (''term_months'', JInt (ri_termMonths i)),
        (''commitment_amount_cents'', JStr (ri_commitmentAmountCents i)),
        (''expected_savings_cents'', JStr (ri_expectedSavingsCents i)),
        (''p95_downside_loss_cents'', JStr (ri_p95DownsideLossCents i)),
        (''utilization_p50_pct'', JStr (ri_utilizationP50Pct i)),
        (''utilization_p95_pct'', JStr (ri_utilizationP95Pct i)),
        (''confidence_score'', JStr (ri_confidenceScore i)),
        (''risk_band'', JStr (risk_band_text (ri_riskBand i))),
        (''status'', JStr (recommendation_status_text (ri_status i))),
        (''explanation'', ri_explanation i),
        (''approval_required'', JBool (ri_approvalRequired i)),
        (''created_at'', JStr (micros_text (sr_createdAt row))),
        (''updated_at'', JStr (micros_text (sr_updatedAt row)))])"

section \<open>Operations\<close>

definition requestApproval :: "int \<Rightarrow> int \<Rightarrow> 'n hook option \<Rightarrow> string \<Rightarrow> request_context \<Rightarrow> json \<Rightarrow> json
    \<Rightarrow> approvals_world \<times> 'n \<Rightarrow> json result \<times> (approvals_world \<times> 'n)" where
  "requestApproval expiryHours now hook new_id ctx i body s =
     (case parseApprovalRequestBody i body of
        Inl e \<Rightarrow> (Inl e, s)
      | Inr input \<Rightarrow>
          (let expiresAt = now + expiryHours * 60 * 60 * 1000;
               (row, w) = createPending new_id (ctx_tenantId ctx)
                 \<lparr>ai_recommendationId = aq_recommendationId input, ai_requestedByUserId = ctx_actorUserId ctx,
                  ai_assignedToUserId = aq_assignedToUserId input, ai_reason = aq_reason input,
                  ai_expiresAt = expiresAt\<rparr> (fst s) in
           case safe row of
             Inl e \<Rightarrow> (Inl e, (w, snd s))
           | Inr approval \<Rightarrow> (Inr (toApproval approval), (w, runHook hook (ctx_tenantId ctx) approval (snd s)))))"

definition list_service :: "(string \<Rightarrow> json option) \<Rightarrow> (string \<Rightarrow> int option) \<Rightarrow> request_context \<Rightarrow> json
    \<Rightarrow> approvals_world \<Rightarrow> (stored_approval list \<times> string option) result" where
  "list_service parse_bytes date_parse ctx query w =
     bindR (parseApprovalListQuery parse_bytes date_parse query) (\<lambda>input.
     let rows = list_approvals (ctx_tenantId ctx) input w;
         (page, boundary) = split_page (al_limit input) rows in
     Inr (page, (case boundary of None \<Rightarrow> None
       | Some r \<Rightarrow> Some (encodeApprovalCursor (fst (approval_key r)) (snd (approval_key r))))))"

definition approval_page_json :: "stored_approval list \<times> string option \<Rightarrow> json" where
  "approval_page_json p = JObj
     [(''approvals'', JArr (map toApproval (fst p))), (''next_cursor'', opt_string (snd p))]"

definition approval_detail :: "stored_approval \<Rightarrow> stored_recommendation \<Rightarrow> json" where
  "approval_detail approval recommendation =
     JObj [(''approval'', toApproval approval), (''recommendation'', toRecommendation recommendation)]"

definition get_service :: "request_context \<Rightarrow> json \<Rightarrow> approvals_world \<Rightarrow> json result" where
  "get_service ctx idValue w =
     bindR (parseApprovalId idValue) (\<lambda>i.
     bindR (orElse (get_approval (ctx_tenantId ctx) i w) nullResource) (\<lambda>approval.
     bindR (orElse (getRecommendation (ctx_tenantId ctx) (ap_recommendationId approval) w) nullResource) (\<lambda>recommendation.
     Inr (approval_detail approval recommendation))))"

definition decide_service :: "'n hook option \<Rightarrow> request_context \<Rightarrow> json \<Rightarrow> json \<Rightarrow> decision
    \<Rightarrow> approvals_world \<times> 'n \<Rightarrow> json result \<times> (approvals_world \<times> 'n)" where
  "decide_service hook ctx idValue body d s =
     (case parseApprovalDecisionBody idValue body of
        Inl e \<Rightarrow> (Inl e, s)
      | Inr input \<Rightarrow>
          (let (decided, w) = decide (ctx_tenantId ctx) input d (fst s) in
           case safe decided of
             Inl e \<Rightarrow> (Inl e, (w, snd s))
           | Inr None \<Rightarrow> (Inl nullResource, (w, snd s))
           | Inr (Some approval) \<Rightarrow>
               (case getRecommendation (ctx_tenantId ctx) (ap_recommendationId approval) w of
                  None \<Rightarrow> (Inl nullResource, (w, snd s))
                | Some recommendation \<Rightarrow>
                    (Inr (approval_detail approval recommendation),
                     (w, runHook hook (ctx_tenantId ctx) approval (snd s))))))"

end
