(* ===== verification/Approvals_Steps.thy ===== *)
theory Approvals_Steps
  imports Approvals_Service
begin

text \<open>
  The approval tables as a state machine: the operations of theory Approvals, the recommendations the
  optimizer inserts and the clock are its steps. Its invariant ties each recommendation to its approval.
\<close>

section \<open>Steps\<close>

text \<open>Recommendations arrive as the optimizer writes them (\<open>recommendationInput\<close>): pending approval when
  one is required, else ready.\<close>

inductive approvals_step :: "approvals_world \<Rightarrow> approvals_world \<Rightarrow> bool" where
  Recommended: "sr_id r \<notin> sr_id ` set (aw_recommendations w) \<Longrightarrow>
    rec_status r = (if ri_approvalRequired (sr_input r) then PendingApproval else Ready) \<Longrightarrow>
    sr_createdAt r = aw_now w \<Longrightarrow> sr_updatedAt r = aw_now w \<Longrightarrow>
    approvals_step w (w\<lparr>aw_recommendations := aw_recommendations w @ [r]\<rparr>)"
| Requested: "createPending new_id tenantId input w = (Inr a, w') \<Longrightarrow> approvals_step w w'"
| Decided: "decide tenantId decision_input d w = (Inr (Some a), w') \<Longrightarrow> approvals_step w w'"
| Swept: "expireDue now limit w = (Inr res, w') \<Longrightarrow> approvals_step w w'"
| Executing: "setWorkflowExecutionId tenantId i e w = (Inr (), w') \<Longrightarrow> approvals_step w w'"
| Tick: "aw_now w \<le> t \<Longrightarrow> approvals_step w (w\<lparr>aw_now := t\<rparr>)"

inductive_cases approvals_stepE: "approvals_step w w'"

definition empty_tables :: "approvals_world \<Rightarrow> bool" where
  "empty_tables w = (aw_recommendations w = [] \<and> aw_approvals w = [])"

definition reachable :: "approvals_world \<Rightarrow> bool" where
  "reachable w = (\<exists>w0. empty_tables w0 \<and> rtranclp approvals_step w0 w)"

section \<open>Invariant\<close>

definition rec_key :: "stored_recommendation \<Rightarrow> string \<times> string" where
  "rec_key r = (sr_tenantId r, sr_id r)"

definition approvals_of :: "stored_approval list \<Rightarrow> string \<times> string \<Rightarrow> stored_approval list" where
  "approvals_of approvals k = filter (\<lambda>a. expire_key a = k) approvals"

fun agrees :: "approval_status \<Rightarrow> recommendation_status \<Rightarrow> bool" where
  "agrees ApPending s = (s = PendingApproval)"
| "agrees ApApproved s = (s = Approved)"
| "agrees ApRejected s = (s = Rejected)"
| "agrees ApExpired s = (s = Expired)"
| "agrees _ s = False"

definition matched :: "stored_approval list \<Rightarrow> stored_recommendation \<Rightarrow> bool" where
  "matched approvals r =
     ((approvals_of approvals (rec_key r) = [] \<and> rec_status r = (if ri_approvalRequired (sr_input r) then PendingApproval else Ready))
      \<or> (\<exists>a. approvals_of approvals (rec_key r) = [a] \<and> agrees (ap_status a) (rec_status r) \<and> ri_approvalRequired (sr_input r)))"

definition approvals_ok :: "approvals_world \<Rightarrow> bool" where
  "approvals_ok w =
     (distinct (map sr_id (aw_recommendations w)) \<and> distinct (map ap_id (aw_approvals w))
      \<and> (\<forall>a\<in>set (aw_approvals w). expire_key a \<in> rec_key ` set (aw_recommendations w)
           \<and> approval_row_check a \<and> ap_requestedAt a \<le> aw_now w \<and> ap_createdAt a \<le> aw_now w \<and> ap_workflowExecutionId a = None)
      \<and> (\<forall>r\<in>set (aw_recommendations w). matched (aw_approvals w) r \<and> sr_createdAt r \<le> aw_now w))"

lemma key_unique:
  "approvals_ok w \<Longrightarrow> r \<in> set (aw_recommendations w) \<Longrightarrow> r' \<in> set (aw_recommendations w) \<Longrightarrow> sr_id r = sr_id r' \<Longrightarrow> r = r'"
  unfolding approvals_ok_def by (metis eq_key_imp_eq_value inj_onD distinct_map)

lemma approval_rec:
  assumes "approvals_ok w" and "a \<in> set (aw_approvals w)"
  obtains r where "r \<in> set (aw_recommendations w)" and "rec_key r = expire_key a" and "agrees (ap_status a) (rec_status r)"
    and "approvals_of (aw_approvals w) (expire_key a) = [a]" and "ri_approvalRequired (sr_input r)"
proof -
  from assms obtain r where r: "r \<in> set (aw_recommendations w)" "rec_key r = expire_key a"
    by (auto simp: approvals_ok_def)
  have "a \<in> set (approvals_of (aw_approvals w) (rec_key r))" using assms(2) r by (simp add: approvals_of_def)
  with r assms(1) that show thesis by (fastforce simp: approvals_ok_def matched_def)
qed

section \<open>Updates\<close>

lemma update_approvals_Inr:
  "update_approvals sel ch w = Inr w' \<longleftrightarrow>
     (\<forall>a\<in>set (aw_approvals w). sel a \<longrightarrow> approval_update_error a (stamp_approval (aw_now w) (ch a)) = None)
     \<and> w' = w\<lparr>aw_approvals := map (\<lambda>a. if sel a then stamp_approval (aw_now w) (ch a) else a) (aw_approvals w)\<rparr>"
proof -
  have "traverseR (\<lambda>a. if sel a then (let new = ch' a in case approval_update_error a new of Some e \<Rightarrow> Inl e | None \<Rightarrow> Inr new) else Inr a) xs = Inr ys
    \<longleftrightarrow> (\<forall>a\<in>set xs. sel a \<longrightarrow> approval_update_error a (ch' a) = None) \<and> ys = map (\<lambda>a. if sel a then ch' a else a) xs" for xs ys ch'
    by (induction xs arbitrary: ys) (auto simp: bindR_eq_Inr Let_def split: option.splits)
  then show ?thesis by (auto simp: update_approvals_def bindR_eq_Inr)
qed

lemma update_recommendations_Inr:
  "update_recommendations sel s w = Inr w' \<longleftrightarrow>
     (\<forall>r\<in>set (aw_recommendations w). sel r \<longrightarrow> recommendation_transition (rec_status r) s \<and> approval_state_check (set_status (aw_now w) s r))
     \<and> w' = w\<lparr>aw_recommendations := map (\<lambda>r. if sel r then set_status (aw_now w) s r else r) (aw_recommendations w)\<rparr>"
proof -
  have "traverseR (\<lambda>r. if sel r then (if \<not> recommendation_transition (rec_status r) s then Inl (sqlstate ''55000'')
      else if \<not> approval_state_check (st r) then Inl (sqlstate ''23514'') else Inr (st r)) else Inr r) xs = Inr ys
    \<longleftrightarrow> (\<forall>r\<in>set xs. sel r \<longrightarrow> recommendation_transition (rec_status r) s \<and> approval_state_check (st r))
      \<and> ys = map (\<lambda>r. if sel r then st r else r) xs" for xs ys st
    by (induction xs arbitrary: ys) (auto simp: bindR_eq_Inr)
  then show ?thesis by (auto simp: update_recommendations_def bindR_eq_Inr)
qed

lemma set_status_simps [simp]:
  "rec_status (set_status t s r) = s" "sr_id (set_status t s r) = sr_id r" "rec_key (set_status t s r) = rec_key r"
  "ri_approvalRequired (sr_input (set_status t s r)) = ri_approvalRequired (sr_input r)"
  "sr_createdAt (set_status t s r) = sr_createdAt r" "sr_updatedAt (set_status t s r) = t"
  by (simp_all add: set_status_def rec_key_def)

text \<open>
  What a decision and a sweep have in common: the recommendations of some keys, all of them with a
  pending approval, and these approvals move together.
\<close>

definition resolve :: "(string \<times> string) set \<Rightarrow> recommendation_status \<Rightarrow> (stored_approval \<Rightarrow> stored_approval) \<Rightarrow> approvals_world \<Rightarrow> approvals_world" where
  "resolve ks s ch w = w\<lparr>
     aw_recommendations := map (\<lambda>r. if rec_key r \<in> ks \<and> rec_status r = PendingApproval then set_status (aw_now w) s r else r) (aw_recommendations w),
     aw_approvals := map (\<lambda>a. if expire_key a \<in> ks \<and> ap_status a = ApPending then ch a else a) (aw_approvals w)\<rparr>"

lemma resolve_ok:
  assumes ok: "approvals_ok w"
    and ks: "\<And>k. k \<in> ks \<Longrightarrow> \<exists>a\<in>set (aw_approvals w). expire_key a = k \<and> ap_status a = ApPending"
    and ch: "\<And>a. a \<in> set (aw_approvals w) \<Longrightarrow> ap_status a = ApPending \<Longrightarrow> expire_key a \<in> ks \<Longrightarrow>
      expire_key (ch a) = expire_key a \<and> ap_id (ch a) = ap_id a \<and> agrees (ap_status (ch a)) s
      \<and> approval_row_check (ch a) \<and> ap_requestedAt (ch a) = ap_requestedAt a \<and> ap_createdAt (ch a) = ap_createdAt a \<and> ap_workflowExecutionId (ch a) = None"
  shows "approvals_ok (resolve ks s ch w)"
proof -
  let ?f = "\<lambda>a. if expire_key a \<in> ks \<and> ap_status a = ApPending then ch a else a"
  let ?g = "\<lambda>r. if rec_key r \<in> ks \<and> rec_status r = PendingApproval then set_status (aw_now w) s r else r"
  have f: "expire_key (?f a) = expire_key a" "ap_id (?f a) = ap_id a" if "a \<in> set (aw_approvals w)" for a
    using ch that by auto
  have fk: "approvals_of (map ?f xs) k = map ?f (approvals_of xs k)" if "set xs \<subseteq> set (aw_approvals w)" for xs k
    using that f(1) by (induction xs) (auto simp: approvals_of_def)
  have ids: "map ap_id (map ?f (aw_approvals w)) = map ap_id (aw_approvals w)"
    "map sr_id (map ?g (aw_recommendations w)) = map sr_id (aw_recommendations w)"
    using f(2) by (auto intro: map_cong)
  have keys: "rec_key ` set (map ?g (aw_recommendations w)) = rec_key ` set (aw_recommendations w)"
  proof -
    have "rec_key \<circ> ?g = rec_key" by (auto simp: fun_eq_iff)
    then show ?thesis by (simp only: set_map image_comp)
  qed
  have "matched (map ?f (aw_approvals w)) (?g r)" if r: "r \<in> set (aw_recommendations w)" for r
  proof -
    have m: "matched (aw_approvals w) r" using ok r by (simp add: approvals_ok_def)
    have k: "rec_key (?g r) = rec_key r" by simp
    have "approvals_of (aw_approvals w) (rec_key r) \<noteq> []" if "rec_key r \<in> ks"
      using ks [OF that] by (auto simp: approvals_of_def filter_empty_conv)
    with m consider (none) "approvals_of (aw_approvals w) (rec_key r) = []" "rec_key r \<notin> ks"
      | (one) a where "approvals_of (aw_approvals w) (rec_key r) = [a]" "agrees (ap_status a) (rec_status r)"
        "ri_approvalRequired (sr_input r)"
      unfolding matched_def by blast
    then show ?thesis
    proof cases
      case none
      then have "?g r = r" "approvals_of (map ?f (aw_approvals w)) (rec_key r) = []" by (simp_all add: fk)
      with m none show ?thesis by (simp add: matched_def)
    next
      case one
      then have "a \<in> set (approvals_of (aw_approvals w) (rec_key r))" by simp
      then have a: "a \<in> set (aw_approvals w)" "expire_key a = rec_key r" by (simp_all add: approvals_of_def)
      have iff: "ap_status a = ApPending \<longleftrightarrow> rec_status r = PendingApproval"
        using one(2) by (cases "ap_status a") auto
      have "approvals_of (map ?f (aw_approvals w)) (rec_key (?g r)) = [?f a]" unfolding k by (simp add: fk one(1))
      moreover have "agrees (ap_status (?f a)) (rec_status (?g r))" using ch [OF a(1)] a iff one(2) by auto
      moreover have "ri_approvalRequired (sr_input (?g r))" using one(3) by simp
      ultimately show ?thesis unfolding matched_def by blast
    qed
  qed
  moreover have "sr_createdAt (?g r) \<le> aw_now w" if "r \<in> set (aw_recommendations w)" for r
    using ok that by (simp add: approvals_ok_def)
  ultimately have mm: "\<forall>r\<in>set (map ?g (aw_recommendations w)). matched (map ?f (aw_approvals w)) r \<and> sr_createdAt r \<le> aw_now w"
    by (auto simp only: set_map)
  have "expire_key (?f a) \<in> rec_key ` set (aw_recommendations w) \<and> approval_row_check (?f a)
      \<and> ap_requestedAt (?f a) \<le> aw_now w \<and> ap_createdAt (?f a) \<le> aw_now w \<and> ap_workflowExecutionId (?f a) = None" if "a \<in> set (aw_approvals w)" for a
    using ch [OF that] ok that by (auto simp: approvals_ok_def)
  then have aa: "\<forall>a\<in>set (map ?f (aw_approvals w)). expire_key a \<in> rec_key ` set (aw_recommendations w) \<and> approval_row_check a
      \<and> ap_requestedAt a \<le> aw_now w \<and> ap_createdAt a \<le> aw_now w \<and> ap_workflowExecutionId a = None" by (auto simp only: set_map)
  have "aw_recommendations (resolve ks s ch w) = map ?g (aw_recommendations w)"
    "aw_approvals (resolve ks s ch w) = map ?f (aw_approvals w)" "aw_now (resolve ks s ch w) = aw_now w"
    by (simp_all add: resolve_def)
  then show ?thesis
    unfolding approvals_ok_def using mm aa ok by (simp only: ids keys approvals_ok_def simp_thms)
qed

section \<open>Every step preserves the invariant\<close>

lemma find_Some: "find p xs = Some x \<Longrightarrow> x \<in> set xs \<and> p x"
  by (induction xs) (auto split: if_splits)

lemma get_approval_Some: "get_approval t i w = Some a \<Longrightarrow> a \<in> set (aw_approvals w) \<and> ap_tenantId a = t \<and> ap_id a = i"
  unfolding get_approval_def by (drule find_Some) simp

lemma getRecommendation_Some:
  "getRecommendation t i w = Some r \<Longrightarrow> r \<in> set (aw_recommendations w) \<and> sr_tenantId r = t \<and> sr_id r = i"
  unfolding getRecommendation_def by (drule find_Some) simp

lemma approval_unique:
  "approvals_ok w \<Longrightarrow> a \<in> set (aw_approvals w) \<Longrightarrow> b \<in> set (aw_approvals w) \<Longrightarrow> ap_id a = ap_id b \<Longrightarrow> a = b"
  unfolding approvals_ok_def by (metis inj_onD distinct_map)

lemma createPending_ok:
  assumes ok: "approvals_ok w" and "createPending new_id tenantId input w = (Inr a, w')"
  shows "approvals_ok w'" and "w' = w\<lparr>aw_approvals := aw_approvals w @ [a]\<rparr>" and "ap_status a = ApPending"
    and "ap_tenantId a = tenantId" and "ap_recommendationId a = ai_recommendationId input"
    and "approvals_of (aw_approvals w) (expire_key a) = []"
    and "\<exists>r\<in>set (aw_recommendations w). rec_key r = expire_key a \<and> rec_status r = PendingApproval"
proof -
  from assms(2) obtain r c where r: "getRecommendation tenantId (ai_recommendationId input) w = Some r"
    and st: "rec_status r = PendingApproval" "ri_approvalRequired (sr_input r)"
    and a: "a = pending_row new_id tenantId input (buildApprovalSnapshot r c input) (aw_now w)"
    and ins: "insert_approval a w = Inr w'"
    by (auto simp: createPending_def transaction_def bindR_eq_Inr Let_def split: option.splits if_splits sum.splits prod.splits)
  note g = getRecommendation_Some [OF r]
  show fields: "ap_status a = ApPending" "ap_tenantId a = tenantId" "ap_recommendationId a = ai_recommendationId input"
    by (simp_all add: a pending_row_def)
  have key: "rec_key r = expire_key a" using g fields by (simp add: rec_key_def expire_key_def)
  show w': "w' = w\<lparr>aw_approvals := aw_approvals w @ [a]\<rparr>"
    using ins by (auto simp: insert_approval_def Let_def split: if_splits)
  from ins have fresh: "ap_id a \<notin> ap_id ` set (aw_approvals w)" and chk: "approval_row_check a"
    and none: "\<not> (\<exists>b\<in>set (aw_approvals w). expire_key b = expire_key a \<and> live_approval (ap_status b))"
    by (auto simp: insert_approval_def Let_def expire_key_def split: if_splits)
  have m: "matched (aw_approvals w) r" using ok g by (simp add: approvals_ok_def)
  have "\<not> (\<exists>b. approvals_of (aw_approvals w) (rec_key r) = [b] \<and> agrees (ap_status b) (rec_status r))"
  proof
    assume "\<exists>b. approvals_of (aw_approvals w) (rec_key r) = [b] \<and> agrees (ap_status b) (rec_status r)"
    then obtain b where b: "approvals_of (aw_approvals w) (rec_key r) = [b]" "agrees (ap_status b) PendingApproval"
      using st by auto
    then have "b \<in> set (approvals_of (aw_approvals w) (rec_key r))" by simp
    then have "b \<in> set (aw_approvals w)" "expire_key b = expire_key a" by (simp_all add: approvals_of_def key)
    moreover have "live_approval (ap_status b)" using b(2) by (cases "ap_status b") (auto simp: live_approval_def)
    ultimately show False using none by blast
  qed
  with m show empty: "approvals_of (aw_approvals w) (expire_key a) = []" unfolding matched_def key by blast
  have "matched (aw_approvals w @ [a]) q" if q: "q \<in> set (aw_recommendations w)" for q
  proof (cases "rec_key q = expire_key a")
    case True
    then have "sr_id q = sr_id r" using key by (metis prod.inject rec_key_def)
    then have "q = r" by (rule key_unique [OF ok q conjunct1 [OF g]])
    then show ?thesis using empty True st fields(1) by (auto simp: matched_def approvals_of_def)
  next
    case False
    then have "approvals_of (aw_approvals w @ [a]) (rec_key q) = approvals_of (aw_approvals w) (rec_key q)"
      by (simp add: approvals_of_def)
    with ok q show ?thesis by (simp add: approvals_ok_def matched_def)
  qed
  moreover have "ap_workflowExecutionId a = None" "ap_requestedAt a \<le> aw_now w" "ap_createdAt a \<le> aw_now w" by (simp_all add: a pending_row_def)
  moreover have "expire_key a \<in> rec_key ` set (aw_recommendations w)" using g key by (metis image_eqI)
  ultimately show "approvals_ok w'"
    using ok fresh chk unfolding w' approvals_ok_def by auto
  show "\<exists>r\<in>set (aw_recommendations w). rec_key r = expire_key a \<and> rec_status r = PendingApproval" using g key st by blast
qed

lemma resolve_single:
  assumes ok: "approvals_ok w" and a: "a \<in> set (aw_approvals w)" "ap_status a = ApPending"
    and b: "b \<in> set (aw_approvals w)"
  shows "(expire_key b = expire_key a \<and> ap_status b = ApPending) = (b = a)"
proof -
  from approval_rec [OF ok a(1)] have one: "approvals_of (aw_approvals w) (expire_key a) = [a]" by metis
  have "b \<in> set (approvals_of (aw_approvals w) (expire_key a)) \<longleftrightarrow> expire_key b = expire_key a"
    using b by (simp add: approvals_of_def)
  with one a(2) show ?thesis by auto
qed

definition decided_row :: "decision \<Rightarrow> string \<Rightarrow> int \<Rightarrow> stored_approval \<Rightarrow> stored_approval" where
  "decided_row d reason now b =
     b\<lparr>ap_status := decided_approval d, ap_decisionReason := Some reason, ap_decidedAt := Some now, ap_updatedAt := now\<rparr>"

lemma decide_cases:
  assumes ok: "approvals_ok w" and a: "get_approval tenantId (ad_approvalId input) w = Some a" "ap_status a = ApPending"
    and reason: "column_text 2000 (ad_decisionReason input)"
  shows "decide tenantId input d w = (Inr (Some (decided_row d (ad_decisionReason input) (aw_now w) a)),
    resolve {expire_key a} (decided_recommendation d) (decided_row d (ad_decisionReason input) (aw_now w)) w)"
proof -
  let ?ch = "decided_row d (ad_decisionReason input) (aw_now w)"
  note g = get_approval_Some [OF a(1)]
  from approval_rec [OF ok] g obtain r where r: "r \<in> set (aw_recommendations w)" "rec_key r = expire_key a"
    "agrees (ap_status a) (rec_status r)" "ri_approvalRequired (sr_input r)" by metis
  have sel: "(sr_tenantId q = tenantId \<and> sr_id q = ap_recommendationId a \<and> rec_status q = PendingApproval)
      = (rec_key q \<in> {expire_key a} \<and> rec_status q = PendingApproval)" for q
    using g by (auto simp: rec_key_def expire_key_def)
  have u1: "update_recommendations (\<lambda>r. sr_tenantId r = tenantId \<and> sr_id r = ap_recommendationId a \<and> rec_status r = PendingApproval)
      (decided_recommendation d) w = Inr (w\<lparr>aw_recommendations := map (\<lambda>r. if rec_key r \<in> {expire_key a} \<and> rec_status r = PendingApproval
        then set_status (aw_now w) (decided_recommendation d) r else r) (aw_recommendations w)\<rparr>)" (is "_ = Inr ?w1")
  proof -
    have "recommendation_transition (rec_status q) (decided_recommendation d) \<and> approval_state_check (set_status (aw_now w) (decided_recommendation d) q)"
      if "q \<in> set (aw_recommendations w)" "rec_key q = expire_key a" "rec_status q = PendingApproval" for q
    proof -
      have "q = r" using key_unique [OF ok that(1) r(1)] that(2) r(2) by (simp add: rec_key_def expire_key_def)
      moreover have "sr_createdAt r \<le> aw_now w" using ok r(1) by (simp add: approvals_ok_def)
      ultimately show ?thesis using r(4) that(3)
        by (cases d) (simp_all add: recommendation_transition_def decided_recommendation_def approval_state_check_def)
    qed
    then show ?thesis unfolding sel update_recommendations_Inr by simp
  qed
  have selA: "(ap_tenantId b = tenantId \<and> ap_id b = ad_approvalId input) = (b = a)" if "b \<in> set (aw_approvals w)" for b
    using approval_unique [OF ok that, of a] g by auto
  have err: "approval_update_error a (?ch a) = None"
  proof -
    have "approval_row_check a" "ap_requestedAt a \<le> aw_now w" "ap_createdAt a \<le> aw_now w" using ok g by (simp_all add: approvals_ok_def)
    then show ?thesis using a(2) reason
      by (cases d) (simp_all add: approval_update_error_def decided_row_def approval_identity_def approval_transition_def
          decided_approval_def approval_row_check_def optional_column_def live_approval_def)
  qed
  have rows: "map (\<lambda>b. if ap_tenantId b = tenantId \<and> ap_id b = ad_approvalId input then ?ch b else b) (aw_approvals w)
      = map (\<lambda>b. if expire_key b \<in> {expire_key a} \<and> ap_status b = ApPending then ?ch b else b) (aw_approvals w)"
  proof (rule map_cong [OF refl])
    fix b assume "b \<in> set (aw_approvals w)"
    with selA resolve_single [OF ok conjunct1 [OF g] a(2)]
    show "(if ap_tenantId b = tenantId \<and> ap_id b = ad_approvalId input then ?ch b else b)
        = (if expire_key b \<in> {expire_key a} \<and> ap_status b = ApPending then ?ch b else b)" by simp
  qed
  let ?set = "\<lambda>a. a\<lparr>ap_status := decided_approval d, ap_decisionReason := Some (ad_decisionReason input), ap_decidedAt := Some (aw_now w)\<rparr>"
  have stamped: "stamp_approval (aw_now w) (?set b) = ?ch b" for b by (simp add: stamp_approval_def decided_row_def)
  have u2: "update_approvals (\<lambda>b. ap_tenantId b = tenantId \<and> ap_id b = ad_approvalId input) ?set ?w1
      = Inr (resolve {expire_key a} (decided_recommendation d) ?ch w)"
    unfolding update_approvals_Inr using selA err rows by (auto simp: resolve_def stamped cong: if_cong)
  have found: "get_approval tenantId (ad_approvalId input) (resolve {expire_key a} (decided_recommendation d) ?ch w) = Some (?ch a)"
  proof -
    let ?p = "\<lambda>b. ap_tenantId b = tenantId \<and> ap_id b = ad_approvalId input"
    have "find ?p (map (\<lambda>b. if ?p b then ?ch b else b) xs) = map_option ?ch (find ?p xs)" for xs
      by (induction xs) (auto simp: decided_row_def)
    moreover have "aw_approvals (resolve {expire_key a} (decided_recommendation d) ?ch w)
        = map (\<lambda>b. if ?p b then ?ch b else b) (aw_approvals w)"
      by (simp only: rows) (simp add: resolve_def)
    ultimately show ?thesis using a(1) by (simp only: get_approval_def option.map)
  qed
  show ?thesis
    using a u1 u2 found unfolding decide_def transaction_def by simp
qed

lemma decide_ok:
  assumes ok: "approvals_ok w" and dec: "decide tenantId input d w = (Inr (Some a), w')"
  shows "\<exists>b. b \<in> set (aw_approvals w) \<and> ap_status b = ApPending \<and> ap_tenantId b = tenantId \<and> ap_id b = ad_approvalId input
    \<and> a = decided_row d (ad_decisionReason input) (aw_now w) b
    \<and> w' = resolve {expire_key b} (decided_recommendation d) (decided_row d (ad_decisionReason input) (aw_now w)) w
    \<and> column_text 2000 (ad_decisionReason input)"
proof -
  from dec obtain b w1 w2 where b: "get_approval tenantId (ad_approvalId input) w = Some b" "ap_status b = ApPending"
    and u1: "update_recommendations (\<lambda>r. sr_tenantId r = tenantId \<and> sr_id r = ap_recommendationId b \<and> rec_status r = PendingApproval)
        (decided_recommendation d) w = Inr w1"
    and u2: "update_approvals (\<lambda>a. ap_tenantId a = tenantId \<and> ap_id a = ad_approvalId input)
        (\<lambda>a. a\<lparr>ap_status := decided_approval d, ap_decisionReason := Some (ad_decisionReason input),
          ap_decidedAt := Some (aw_now w)\<rparr>) w1 = Inr w2"
    by (auto simp: decide_def transaction_def bindR_eq_Inr split: option.splits if_splits sum.splits prod.splits)
  note g = get_approval_Some [OF b(1)]
  from u1 have "aw_approvals w1 = aw_approvals w" "aw_now w1 = aw_now w" by (auto simp: update_recommendations_Inr)
  with u2 g have "approval_update_error b (decided_row d (ad_decisionReason input) (aw_now w) b) = None"
    by (auto simp: update_approvals_Inr stamp_approval_def decided_row_def)
  then have "column_text 2000 (ad_decisionReason input)"
    by (auto simp: approval_update_error_def decided_row_def approval_row_check_def optional_column_def split: if_splits)
  with decide_cases [OF ok b this] dec g b(2) show ?thesis by auto
qed

lemma decided_row_facts:
  assumes "approval_row_check b" and "ap_requestedAt b \<le> now" and "ap_createdAt b \<le> now" and "column_text 2000 reason"
  shows "approval_row_check (decided_row d reason now b)" and "agrees (ap_status (decided_row d reason now b)) (decided_recommendation d)"
    and "expire_key (decided_row d reason now b) = expire_key b" and "ap_id (decided_row d reason now b) = ap_id b"
    and "ap_requestedAt (decided_row d reason now b) = ap_requestedAt b" and "ap_createdAt (decided_row d reason now b) = ap_createdAt b"
    and "ap_workflowExecutionId (decided_row d reason now b) = ap_workflowExecutionId b"
  using assms by (cases d; simp add: decided_row_def decided_approval_def decided_recommendation_def expire_key_def
      approval_row_check_def optional_column_def live_approval_def)+

lemma decided_ok:
  assumes ok: "approvals_ok w" and b: "b \<in> set (aw_approvals w)" "ap_status b = ApPending" and r: "column_text 2000 reason"
  shows "approvals_ok (resolve {expire_key b} (decided_recommendation d) (decided_row d reason (aw_now w)) w)"
proof (rule resolve_ok [OF ok])
  show "\<exists>a\<in>set (aw_approvals w). expire_key a = k \<and> ap_status a = ApPending" if "k \<in> {expire_key b}" for k
    using that b by blast
  fix a assume a: "a \<in> set (aw_approvals w)" "ap_status a = ApPending"
  then have "approval_row_check a" "ap_requestedAt a \<le> aw_now w" "ap_createdAt a \<le> aw_now w" "ap_workflowExecutionId a = None"
    using ok by (simp_all add: approvals_ok_def)
  with decided_row_facts [OF _ _ _ r] show "expire_key (decided_row d reason (aw_now w) a) = expire_key a
      \<and> ap_id (decided_row d reason (aw_now w) a) = ap_id a
      \<and> agrees (ap_status (decided_row d reason (aw_now w) a)) (decided_recommendation d)
      \<and> approval_row_check (decided_row d reason (aw_now w) a)
      \<and> ap_requestedAt (decided_row d reason (aw_now w) a) = ap_requestedAt a
      \<and> ap_createdAt (decided_row d reason (aw_now w) a) = ap_createdAt a
      \<and> ap_workflowExecutionId (decided_row d reason (aw_now w) a) = None" by simp
qed

section \<open>The sweep\<close>

definition expired_row :: "int \<Rightarrow> int \<Rightarrow> stored_approval \<Rightarrow> stored_approval" where
  "expired_row clock now a = a\<lparr>ap_status := ApExpired, ap_decidedAt := Some (now * 1000), ap_updatedAt := clock\<rparr>"

definition is_due :: "int \<Rightarrow> stored_approval \<Rightarrow> bool" where
  "is_due now a = (ap_status a = ApPending \<and> ap_expiresAt a \<le> now * 1000)"

interpretation xo: comparator expiry_order
proof
  fix x y z :: stored_approval
  show "expiry_order x y \<le> 0 \<longleftrightarrow> 0 \<le> expiry_order y x"
    by (auto simp: expiry_order_def)
  show "expiry_order x y \<le> 0 \<Longrightarrow> expiry_order y z \<le> 0 \<Longrightarrow> expiry_order x z \<le> 0"
    by (auto simp: expiry_order_def split: if_splits)
qed

lemma due_set:
  "a \<in> set (due_approvals now limit w) \<Longrightarrow> a \<in> set (aw_approvals w) \<and> is_due now a"
  unfolding due_approvals_def by (drule in_set_takeD) (simp add: is_due_def)

lemma due_rows:
  assumes ok: "approvals_ok w" and b: "b \<in> set (aw_approvals w)"
  shows "(expire_key b \<in> set (map expire_key (due_approvals now limit w)) \<and> ap_status b = ApPending)
    = (b \<in> set (due_approvals now limit w))"
proof
  assume "expire_key b \<in> set (map expire_key (due_approvals now limit w)) \<and> ap_status b = ApPending"
  then obtain a where a: "a \<in> set (due_approvals now limit w)" "expire_key b = expire_key a" "ap_status b = ApPending" by auto
  note d = due_set [OF a(1)]
  then have "b = a" using resolve_single [OF ok, of a b] a b by (simp add: is_due_def)
  with a show "b \<in> set (due_approvals now limit w)" by simp
next
  assume "b \<in> set (due_approvals now limit w)"
  with due_set [OF this] show "expire_key b \<in> set (map expire_key (due_approvals now limit w)) \<and> ap_status b = ApPending"
    by (auto simp: is_due_def)
qed

lemma expireDue_resolve:
  fixes now :: int and limit :: nat
  assumes ok: "approvals_ok w"
  defines "due \<equiv> due_approvals now limit w"
  shows "expireDue now limit w
    = (Inr \<lparr>ex_processed = (due \<noteq> []), ex_approvalIds = map ap_id (filter (\<lambda>a. a \<in> set due) (aw_approvals w)),
         ex_recommendationIds = map ap_recommendationId (filter (\<lambda>a. a \<in> set due) (aw_approvals w))\<rparr>,
       resolve (expire_key ` set due) Expired (expired_row (aw_now w) now) w)"
proof -
  let ?ks = "expire_key ` set due"
  let ?sel = "\<lambda>r. rec_key r \<in> ?ks \<and> rec_status r = PendingApproval"
  let ?aff = "\<lambda>a. expire_key a \<in> ?ks \<and> ap_status a = ApPending"
  have rec: "\<exists>r\<in>set (aw_recommendations w). rec_key r = expire_key a \<and> rec_status r = PendingApproval"
    if "a \<in> set (aw_approvals w)" "ap_status a = ApPending" for a
    using approval_rec [OF ok that(1)] that(2) by (metis agrees.simps(1))
  have keys: "expire_key a \<in> rec_key ` set (filter ?sel (aw_recommendations w)) \<longleftrightarrow> expire_key a \<in> ?ks"
    if "a \<in> set (aw_approvals w)" "ap_status a = ApPending" for a
    using rec [OF that] by (force simp: image_iff)
  have u1: "update_recommendations ?sel Expired w = Inr (w\<lparr>aw_recommendations := map (\<lambda>r. if ?sel r then set_status (aw_now w) Expired r else r)
      (aw_recommendations w)\<rparr>)" (is "_ = Inr ?w1")
  proof -
    have "recommendation_transition (rec_status r) Expired \<and> approval_state_check (set_status (aw_now w) Expired r)"
      if r: "r \<in> set (aw_recommendations w)" "?sel r" for r
    proof -
      have "matched (aw_approvals w) r" using ok r by (simp add: approvals_ok_def)
      then have "ri_approvalRequired (sr_input r)" using r(2) by (auto simp: matched_def split: if_splits)
      moreover have "sr_createdAt r \<le> aw_now w" using ok r(1) by (simp add: approvals_ok_def)
      ultimately show ?thesis using r(2) by (simp add: recommendation_transition_def approval_state_check_def)
    qed
    then show ?thesis unfolding update_recommendations_Inr by blast
  qed
  have err: "approval_update_error a (expired_row (aw_now w) now a) = None" if a: "a \<in> set (aw_approvals w)" "?aff a" for a
  proof -
    have "a \<in> set due" using due_rows [OF ok a(1), of now limit] a(2) by (simp add: due_def)
    then have "ap_expiresAt a \<le> now * 1000" using due_set by (auto simp: due_def is_due_def)
    moreover have "approval_row_check a" "ap_createdAt a \<le> aw_now w" using ok a by (simp_all add: approvals_ok_def)
    ultimately show ?thesis using a(2)
      by (auto simp: approval_update_error_def expired_row_def approval_identity_def approval_transition_def
          approval_row_check_def live_approval_def)
  qed
  let ?sel2 = "\<lambda>a. expire_key a \<in> rec_key ` set (filter ?sel (aw_recommendations w)) \<and> ap_status a = ApPending"
  have same: "?sel2 a = ?aff a" if "a \<in> set (aw_approvals w)" for a using keys that by blast
  let ?set = "\<lambda>a. a\<lparr>ap_status := ApExpired, ap_decidedAt := Some (now * 1000)\<rparr>"
  have stamped: "stamp_approval (aw_now w) (?set a) = expired_row (aw_now w) now a" for a by (simp add: stamp_approval_def expired_row_def)
  have u2: "update_approvals ?sel2 ?set ?w1 = Inr (resolve ?ks Expired (expired_row (aw_now w) now) w)"
  proof -
    have "map (\<lambda>a. if ?sel2 a then expired_row (aw_now w) now a else a) (aw_approvals w)
        = map (\<lambda>a. if ?aff a then expired_row (aw_now w) now a else a) (aw_approvals w)"
      by (rule map_cong [OF refl]) (simp only: same)
    then show ?thesis
      unfolding update_approvals_Inr resolve_def using same err by (simp add: stamped cong: if_cong)
  qed
  have rows: "filter ?sel2 (aw_approvals w) = filter (\<lambda>a. a \<in> set due) (aw_approvals w)"
    by (rule filter_cong [OF refl]) (use same due_rows [OF ok, of _ now limit] in \<open>simp add: due_def\<close>)
  have ne: "(filter (\<lambda>a. a \<in> set due) (aw_approvals w) \<noteq> []) = (due \<noteq> [])"
    using due_set [of _ now limit w] by (cases due) (auto simp: due_def filter_empty_conv)
  have e: "map (\<lambda>r. (sr_tenantId r, sr_id r)) xs = map rec_key xs" "(sr_tenantId r, sr_id r) = rec_key r" for xs r
    by (simp_all add: rec_key_def [abs_def])
  show ?thesis
    using u1 u2 unfolding expireDue_def Let_def e due_def [symmetric] set_map
    by (simp only: bindR_Inr sum.case rows ne)
qed

lemma expired_ok:
  assumes ok: "approvals_ok w"
  shows "approvals_ok (resolve (expire_key ` set (due_approvals now limit w)) Expired (expired_row (aw_now w) now) w)"
proof (rule resolve_ok [OF ok])
  show "\<exists>a\<in>set (aw_approvals w). expire_key a = k \<and> ap_status a = ApPending"
    if "k \<in> expire_key ` set (due_approvals now limit w)" for k
    using that due_set by (fastforce simp: is_due_def)
  fix a assume a: "a \<in> set (aw_approvals w)" "ap_status a = ApPending" "expire_key a \<in> expire_key ` set (due_approvals now limit w)"
  then have "a \<in> set (due_approvals now limit w)" using due_rows [OF ok a(1)] by simp
  then have "ap_expiresAt a \<le> now * 1000" using due_set by (auto simp: is_due_def)
  then show "expire_key (expired_row (aw_now w) now a) = expire_key a \<and> ap_id (expired_row (aw_now w) now a) = ap_id a
      \<and> agrees (ap_status (expired_row (aw_now w) now a)) Expired \<and> approval_row_check (expired_row (aw_now w) now a)
      \<and> ap_requestedAt (expired_row (aw_now w) now a) = ap_requestedAt a \<and> ap_createdAt (expired_row (aw_now w) now a) = ap_createdAt a \<and> ap_workflowExecutionId (expired_row (aw_now w) now a) = None"
    using ok a by (auto simp: approvals_ok_def expired_row_def expire_key_def approval_row_check_def live_approval_def)
qed

end
