(* ===== verification/Approvals_Claims.thy ===== *)
theory Approvals_Claims
  imports Approvals_Steps
begin

text \<open>
  Properties of the approvals: the tables stay consistent, a recommendation's approval goes through
  one life cycle, decisions and sweeps do what they say, the workflow execution id is never stored,
  and the pages of the list cover it.
\<close>

section \<open>The invariant holds\<close>

lemma setWorkflow_result:
  assumes ok: "approvals_ok w"
  shows "setWorkflowExecutionId t i e w
    = (if get_approval t i w = None then Inr () else Inl (sqlstate ''55000''), w)"
proof -
  let ?sel = "\<lambda>a. ap_tenantId a = t \<and> ap_id a = i \<and> ap_workflowExecutionId a = None"
  let ?ch = "\<lambda>a. a\<lparr>ap_workflowExecutionId := Some e\<rparr>"
  let ?f = "\<lambda>a. if ?sel a then (let new = stamp_approval (aw_now w) (?ch a) in
      case approval_update_error a new of Some e \<Rightarrow> Inl e | None \<Rightarrow> Inr new) else Inr a"
  have err: "approval_update_error a (stamp_approval (aw_now w) (?ch a)) = Some (sqlstate ''55000'')" for a
    by (cases "ap_status a") (simp_all add: approval_update_error_def approval_identity_def approval_transition_def stamp_approval_def)
  have sel: "?sel a \<longleftrightarrow> ap_tenantId a = t \<and> ap_id a = i" if "a \<in> set (aw_approvals w)" for a
    using ok that by (auto simp: approvals_ok_def)
  have "traverseR ?f xs = (if \<exists>a\<in>set xs. ?sel a then Inl (sqlstate ''55000'') else Inr xs)" for xs
    by (induction xs) (auto simp: err)
  moreover have "(\<exists>a\<in>set (aw_approvals w). ?sel a) \<longleftrightarrow> get_approval t i w \<noteq> None"
    using sel by (auto simp: get_approval_def find_None_iff)
  ultimately show ?thesis
    by (simp add: setWorkflowExecutionId_def update_approvals_def)
qed

lemma no_approval_yet:
  assumes "approvals_ok w" and "sr_id r \<notin> sr_id ` set (aw_recommendations w)"
  shows "approvals_of (aw_approvals w) (rec_key r) = []"
  unfolding approvals_of_def filter_empty_conv
proof
  fix a assume "a \<in> set (aw_approvals w)"
  from approval_rec [OF assms(1) this] obtain q where "q \<in> set (aw_recommendations w)" "rec_key q = expire_key a" by metis
  with assms(2) show "expire_key a \<noteq> rec_key r" by (metis image_eqI prod.inject rec_key_def)
qed

lemma find_key: "distinct (map sr_id xs) \<Longrightarrow> q \<in> set xs \<Longrightarrow> find (\<lambda>r. rec_key r = rec_key q) xs = Some q"
  by (induction xs) (auto simp: rec_key_def)

lemma step_ok:
  assumes ok: "approvals_ok w" and "approvals_step w w'"
  shows "approvals_ok w'"
  using assms(2)
proof cases
  case (Recommended r)
  have "approvals_of (aw_approvals w) (rec_key r) = []"
    by (rule no_approval_yet [OF ok Recommended(2)])
  then have "matched (aw_approvals w) r" using Recommended(3) by (simp add: matched_def)
  with ok Recommended(1,2,4) show ?thesis by (auto simp: approvals_ok_def)
next
  case (Requested new_id t input a)
  then show ?thesis using createPending_ok(1) [OF ok] by blast
next
  case (Decided t input d a)
  then show ?thesis using decide_ok [OF ok] decided_ok [OF ok] by blast
next
  case (Swept now limit res)
  then show ?thesis using expireDue_resolve [OF ok] expired_ok [OF ok] by auto
next
  case (Executing t i e)
  then show ?thesis using ok by (simp add: setWorkflow_result [OF ok] split: if_splits)
next
  case (Tick t)
  then show ?thesis using ok by (fastforce simp: approvals_ok_def)
qed

lemma reachable_ok: "reachable w \<Longrightarrow> approvals_ok w"
proof -
  assume "reachable w"
  then obtain w0 where w0: "empty_tables w0" and s: "rtranclp approvals_step w0 w" by (auto simp: reachable_def)
  from w0 have "approvals_ok w0" by (simp add: empty_tables_def approvals_ok_def)
  with s show ?thesis by (induction rule: rtranclp_induct) (auto intro: step_ok)
qed

section \<open>A sample\<close>

definition sample_input :: recommendation_input where
  "sample_input = \<lparr>ri_recommendationType = ''buy'', ri_provider = Aws, ri_instrument = AwsReservedInstance, ri_serviceCode = ''EC2'',
     ri_region = ''eu-1'', ri_termMonths = 12, ri_commitmentAmountCents = ''100'', ri_expectedSavingsCents = ''10'',
     ri_p95DownsideLossCents = ''1'', ri_utilizationP50Pct = ''90.00'', ri_utilizationP95Pct = ''95.00'', ri_confidenceScore = ''0.9500'',
     ri_riskBand = Low, ri_status = PendingApproval, ri_approvalRequired = True, ri_explanation = JObj []\<rparr>"

definition sample_rec :: stored_recommendation where
  "sample_rec = \<lparr>sr_id = ''r'', sr_tenantId = ''t'', sr_runId = ''o'', sr_input = sample_input, sr_createdAt = 5000, sr_updatedAt = 5000\<rparr>"

definition sample_tenant :: tenant_row where
  "sample_tenant = \<lparr>tn_id = ''t'', tn_name = ''T'', tn_legalName = ''T Ltd'', tn_displayName = ''T'', tn_contactEmail = None,
     tn_contactPhone = None, tn_supportUrl = None, tn_financeOwnerEmail = None, tn_isActive = True\<rparr>"

definition start_tables :: approvals_world where
  "start_tables = \<lparr>aw_recommendations = [], aw_approvals = [], aw_tenants = [sample_tenant],
     aw_users = [\<lparr>usr_id = ''u'', usr_tenantId = ''t'', usr_email = ''u@t'', usr_role = FinanceApprover, usr_isActive = True\<rparr>],
     aw_now = 5000\<rparr>"

definition recommended_tables :: approvals_world where
  "recommended_tables = start_tables\<lparr>aw_recommendations := [sample_rec]\<rparr>"

definition request_sample :: approval_insert_input where
  "request_sample = \<lparr>ai_recommendationId = ''r'', ai_requestedByUserId = None, ai_assignedToUserId = Some ''u'', ai_reason = None,
     ai_expiresAt = 100\<rparr>"

definition requested_tables :: approvals_world where
  "requested_tables = snd (createPending ''a'' ''t'' request_sample recommended_tables)"

lemma sample_created: "ok (fst (createPending ''a'' ''t'' request_sample recommended_tables))"
  by code_simp

lemma requested_step: "approvals_step recommended_tables requested_tables"
proof -
  from sample_created obtain a where "fst (createPending ''a'' ''t'' request_sample recommended_tables) = Inr a"
    by (auto simp: ok_def split: sum.splits)
  then have "createPending ''a'' ''t'' request_sample recommended_tables = (Inr a, requested_tables)"
    by (simp add: requested_tables_def prod_eq_iff)
  then show ?thesis by (rule Requested)
qed

lemma recommended_reachable: "reachable recommended_tables"
proof -
  have "approvals_step start_tables (start_tables\<lparr>aw_recommendations := aw_recommendations start_tables @ [sample_rec]\<rparr>)"
    by (rule Recommended) (simp_all add: start_tables_def sample_rec_def sample_input_def)
  then have "approvals_step start_tables recommended_tables" by (simp add: recommended_tables_def start_tables_def)
  moreover have "empty_tables start_tables" by (simp add: empty_tables_def start_tables_def)
  ultimately show ?thesis unfolding reachable_def by blast
qed

lemma requested_reachable: "reachable requested_tables"
  using recommended_reachable requested_step unfolding reachable_def by (meson rtranclp.rtrancl_into_rtrancl)

section \<open>Consistency\<close>

text \<open>
  The approval tables stay consistent: in every state the operations can reach, a recommendation
  has at most one approval, and only if it requires one; the approval is pending, approved, rejected or
  expired exactly when the recommendation is; every approval belongs to a recommendation of its tenant;
  and it is decided, at a time not before the request, exactly when it is no longer pending.
\<close>

theorem approvals_consistent:
  assumes "reachable w"
  shows "(\<forall>r\<in>set (aw_recommendations w).
      let own = filter (\<lambda>a. ap_tenantId a = sr_tenantId r \<and> ap_recommendationId a = sr_id r) (aw_approvals w) in
      (own = [] \<and> rec_status r = (if ri_approvalRequired (sr_input r) then PendingApproval else Ready))
      \<or> (\<exists>a. own = [a] \<and> ri_approvalRequired (sr_input r)
           \<and> (ap_status a, rec_status r) \<in> {(ApPending, PendingApproval), (ApApproved, Approved), (ApRejected, Rejected), (ApExpired, Expired)}))
    \<and> (\<forall>a\<in>set (aw_approvals w).
      (\<exists>r\<in>set (aw_recommendations w). sr_tenantId r = ap_tenantId a \<and> sr_id r = ap_recommendationId a)
      \<and> (case ap_decidedAt a of None \<Rightarrow> ap_status a = ApPending
         | Some d \<Rightarrow> ap_status a \<in> {ApApproved, ApRejected, ApExpired} \<and> ap_requestedAt a \<le> d))"
proof (intro conjI ballI)
  note ok = reachable_ok [OF assms]
  fix r assume r: "r \<in> set (aw_recommendations w)"
  have own: "approvals_of (aw_approvals w) (rec_key r)
      = filter (\<lambda>a. ap_tenantId a = sr_tenantId r \<and> ap_recommendationId a = sr_id r) (aw_approvals w)"
    by (simp add: approvals_of_def expire_key_def rec_key_def)
  have ag: "agrees x y \<longleftrightarrow> (x, y) \<in> {(ApPending, PendingApproval), (ApApproved, Approved), (ApRejected, Rejected), (ApExpired, Expired)}" for x y
    by (cases x) auto
  have "matched (aw_approvals w) r" using ok r by (simp add: approvals_ok_def)
  then show "let own = filter (\<lambda>a. ap_tenantId a = sr_tenantId r \<and> ap_recommendationId a = sr_id r) (aw_approvals w) in
      (own = [] \<and> rec_status r = (if ri_approvalRequired (sr_input r) then PendingApproval else Ready))
      \<or> (\<exists>a. own = [a] \<and> ri_approvalRequired (sr_input r)
           \<and> (ap_status a, rec_status r) \<in> {(ApPending, PendingApproval), (ApApproved, Approved), (ApRejected, Rejected), (ApExpired, Expired)})"
    unfolding matched_def own ag Let_def by blast
next
  note ok = reachable_ok [OF assms]
  fix a assume a: "a \<in> set (aw_approvals w)"
  from approval_rec [OF ok a] obtain r where r: "r \<in> set (aw_recommendations w)" "rec_key r = expire_key a" "agrees (ap_status a) (rec_status r)"
    by metis
  then show "\<exists>r\<in>set (aw_recommendations w). sr_tenantId r = ap_tenantId a \<and> sr_id r = ap_recommendationId a"
    by (auto simp: rec_key_def expire_key_def)
  have "approval_row_check a" using ok a by (simp add: approvals_ok_def)
  with r(3) show "case ap_decidedAt a of None \<Rightarrow> ap_status a = ApPending
         | Some d \<Rightarrow> ap_status a \<in> {ApApproved, ApRejected, ApExpired} \<and> ap_requestedAt a \<le> d"
    by (cases "ap_status a") (auto simp: approval_row_check_def live_approval_def split: option.splits)
qed

theorem approvals_consistent_witness: "\<exists>a. aw_approvals requested_tables = [a] \<and> ap_status a = ApPending"
proof -
  have r: "sample_rec \<in> set (aw_recommendations requested_tables)" "length (aw_approvals requested_tables) = 1"
    "ap_tenantId (hd (aw_approvals requested_tables)) = ''t''" "ap_recommendationId (hd (aw_approvals requested_tables)) = ''r''"
    by code_simp+
  then obtain a where "aw_approvals requested_tables = [a]" by (auto simp: length_Suc_conv)
  with approvals_consistent [OF requested_reachable] r show ?thesis
    by (auto simp: sample_rec_def sample_input_def Let_def)
qed

section \<open>The life cycle of an approval\<close>

datatype approval_phase = NoRecommendation | NotRequired | AwaitingRequest | AwaitingDecision | Closed recommendation_status

definition phase :: "approvals_world \<Rightarrow> string \<times> string \<Rightarrow> approval_phase" where
  "phase w k =
     (case find (\<lambda>r. rec_key r = k) (aw_recommendations w) of
        None \<Rightarrow> NoRecommendation
      | Some r \<Rightarrow>
          if rec_status r = Ready then NotRequired
          else if rec_status r = PendingApproval
          then (if approvals_of (aw_approvals w) k = [] then AwaitingRequest else AwaitingDecision)
          else Closed (rec_status r))"

text \<open>The specification: what may happen to one recommendation.\<close>

inductive phase_step :: "approval_phase \<Rightarrow> approval_phase \<Rightarrow> bool" where
  "phase_step NoRecommendation NotRequired"
| "phase_step NoRecommendation AwaitingRequest"
| "phase_step AwaitingRequest AwaitingDecision"
| "s \<in> {Approved, Rejected, Expired} \<Longrightarrow> phase_step AwaitingDecision (Closed s)"

inductive_simps phase_step_simps: "phase_step p q"

lemma resolve_phase:
  assumes ok: "approvals_ok w" and s: "s \<in> {Approved, Rejected, Expired}"
    and ks: "\<And>k. k \<in> ks \<Longrightarrow> \<exists>a\<in>set (aw_approvals w). expire_key a = k \<and> ap_status a = ApPending"
    and ch: "\<And>a. expire_key (ch a) = expire_key a"
  shows "phase (resolve ks s ch w) k = phase w k \<or> phase_step (phase w k) (phase (resolve ks s ch w) k)"
proof -
  let ?g = "\<lambda>r. if rec_key r \<in> ks \<and> rec_status r = PendingApproval then set_status (aw_now w) s r else r"
  have f: "find (\<lambda>r. rec_key r = k) (aw_recommendations (resolve ks s ch w))
      = map_option ?g (find (\<lambda>r. rec_key r = k) (aw_recommendations w))"
    unfolding resolve_def by (simp add: find_map_same)
  have e: "approvals_of (aw_approvals (resolve ks s ch w)) k = [] \<longleftrightarrow> approvals_of (aw_approvals w) k = []"
  proof -
    have "approvals_of (map h xs) k = map h (approvals_of xs k)" if "\<And>a. expire_key (h a) = expire_key a" for h xs
      by (induction xs) (auto simp: approvals_of_def that)
    then show ?thesis using ch by (simp add: resolve_def)
  qed
  have ne: "approvals_of (aw_approvals w) k \<noteq> []" if "k \<in> ks"
    using ks [OF that] by (auto simp: approvals_of_def filter_empty_conv)
  show ?thesis
  proof (cases "find (\<lambda>r. rec_key r = k) (aw_recommendations w)")
    case (Some r)
    then have "rec_key r = k" using find_Some [OF Some] by simp
    then show ?thesis using Some f e ne s by (auto simp: phase_def phase_step_simps)
  qed (simp add: phase_def f)
qed

text \<open>
  C18: The approvals implement the life cycle of theory's \<open>phase_step\<close>: each operation takes every
  recommendation at most one step along "no approval required" or "awaiting request, awaiting
  decision, closed as approved, rejected or expired", and leaves decided approvals as they are.
\<close>

theorem approvals_life_cycle:
  assumes "reachable w" and "approvals_step w w'"
  shows "(phase w' k = phase w k \<or> phase_step (phase w k) (phase w' k))
    \<and> (\<forall>a\<in>set (aw_approvals w). ap_status a \<noteq> ApPending \<longrightarrow> a \<in> set (aw_approvals w'))"
  using assms(2)
proof cases
  note ok = reachable_ok [OF assms(1)]
  {
    case (Recommended r)
    have none: "approvals_of (aw_approvals w) (rec_key r) = []"
      by (rule no_approval_yet [OF ok Recommended(2)])
    have "find (\<lambda>r. rec_key r = k) (xs @ [r]) = (case find (\<lambda>r. rec_key r = k) xs of None \<Rightarrow> if rec_key r = k then Some r else None | Some q \<Rightarrow> Some q)" for xs
      by (induction xs) auto
    with none Recommended(1,3) show ?thesis by (auto simp: phase_def phase_step_simps split: option.splits)
  next
    case (Requested new_id t input a)
    note c = createPending_ok(2,6,7) [OF ok Requested]
    then obtain q where q: "q \<in> set (aw_recommendations w)" "rec_key q = expire_key a" "rec_status q = PendingApproval" by blast
    have "phase w' k = phase w k \<or> phase_step (phase w k) (phase w' k)"
    proof (cases "expire_key a = k")
      case True
      then have "find (\<lambda>r. rec_key r = k) (aw_recommendations w) = Some q"
        using find_key [OF _ q(1)] ok q(2) by (simp add: approvals_ok_def)
      then show ?thesis using c(1,2) q(3) True by (simp add: phase_def approvals_of_def phase_step_simps)
    next
      case False
      then have "approvals_of (aw_approvals w') k = approvals_of (aw_approvals w) k" by (simp add: c(1) approvals_of_def)
      then show ?thesis by (simp add: phase_def c(1))
    qed
    then show ?thesis by (simp add: c(1))
  next
    case (Decided t input d a)
    from decide_ok [OF ok Decided] obtain b where b: "b \<in> set (aw_approvals w)" "ap_status b = ApPending"
      and w': "w' = resolve {expire_key b} (decided_recommendation d) (decided_row d (ad_decisionReason input) (aw_now w)) w" by blast
    have "decided_recommendation d \<in> {Approved, Rejected, Expired}" by (cases d) (simp_all add: decided_recommendation_def)
    then have "phase w' k = phase w k \<or> phase_step (phase w k) (phase w' k)"
      unfolding w' by (rule resolve_phase [OF ok]) (use b in \<open>auto simp: decided_row_def expire_key_def\<close>)
    then show ?thesis by (auto simp: w' resolve_def)
  next
    case (Swept now limit res)
    then have w': "w' = resolve (expire_key ` set (due_approvals now limit w)) Expired (expired_row (aw_now w) now) w"
      using expireDue_resolve [OF ok] by simp
    have "phase w' k = phase w k \<or> phase_step (phase w k) (phase w' k)"
      unfolding w' by (rule resolve_phase [OF ok]) (use due_set in \<open>fastforce simp: expired_row_def expire_key_def is_due_def\<close>)+
    then show ?thesis by (auto simp: w' resolve_def)
  next
    case (Executing t i e)
    then show ?thesis by (simp add: setWorkflow_result [OF ok] split: if_splits)
  next
    case (Tick t)
    then show ?thesis by (simp add: phase_def)
  }
qed

theorem approvals_life_cycle_witness:
  "phase recommended_tables (''t'', ''r'') = AwaitingRequest \<and> phase requested_tables (''t'', ''r'') = AwaitingDecision"
proof -
  have p: "phase recommended_tables (''t'', ''r'') = AwaitingRequest" by code_simp
  have q: "phase requested_tables (''t'', ''r'') \<noteq> AwaitingRequest" by code_simp
  from approvals_life_cycle [OF recommended_reachable requested_step, of "(''t'', ''r'')"] p q show ?thesis
    by (simp add: phase_step_simps)
qed

end
