(* ===== verification/Approvals_Operations.thy ===== *)
theory Approvals_Operations
  imports Approvals_Claims
begin

text \<open>
  What the single operations on approvals do: a decision, a sweep, the workflow id, the pages of the list.
\<close>

section \<open>Decisions\<close>

lemma boundedText_column: "boundedText v n = Inr s \<Longrightarrow> column_text n s"
proof -
  assume b: "boundedText v n = Inr s"
  have "is_ws (CHR '' '')" by code_simp
  with boundedText_Inr [OF b] show ?thesis
    by (auto simp: column_text_def hasControlCharacter_def control_char_def)
qed

text \<open>
  C6: A decision does what it says, in every reachable state and for every request the parser accepts:
  an unknown approval, or one of another tenant, is no approval; one that is not pending is refused and
  nothing changes; a pending one is decided together with its recommendation, with the reason and the
  time, both rows are stamped by their triggers, and no other row changes. It is decided even when its
  expiry has passed.
\<close>

theorem decision_outcome:
  assumes "reachable w" and "parseApprovalDecisionBody i body = Inr input"
  shows "decide tenantId input d w =
    (case find (\<lambda>a. ap_tenantId a = tenantId \<and> ap_id a = ad_approvalId input) (aw_approvals w) of
       None \<Rightarrow> (Inr None, w)
     | Some a \<Rightarrow>
         if ap_status a \<noteq> ApPending then (Inl (AppError ''APPROVAL_STATE_INVALID'' ''Approval is not pending.'' 409), w)
         else let decided = a\<lparr>ap_status := (case d of Approve \<Rightarrow> ApApproved | Reject \<Rightarrow> ApRejected),
                ap_decisionReason := Some (ad_decisionReason input), ap_decidedAt := Some (aw_now w), ap_updatedAt := aw_now w\<rparr> in
           (Inr (Some decided),
            w\<lparr>aw_recommendations := map (\<lambda>r. if sr_tenantId r = tenantId \<and> sr_id r = ap_recommendationId a
                  then r\<lparr>sr_input := (sr_input r)\<lparr>ri_status := (case d of Approve \<Rightarrow> Approved | Reject \<Rightarrow> Rejected)\<rparr>, sr_updatedAt := aw_now w\<rparr>
                  else r) (aw_recommendations w),
              aw_approvals := map (\<lambda>b. if b = a then decided else b) (aw_approvals w)\<rparr>))"
proof -
  note ok = reachable_ok [OF assms(1)]
  from assms(2) have reason: "column_text 2000 (ad_decisionReason input)"
    by (auto simp: parseApprovalDecisionBody_def bindR_eq_Inr intro: boundedText_column)
  note g = get_approval_def [of tenantId "ad_approvalId input" w]
  show ?thesis
  proof (cases "get_approval tenantId (ad_approvalId input) w")
    case None
    then show ?thesis by (simp add: decide_def transaction_def g [symmetric])
  next
    case (Some a)
    show ?thesis
    proof (cases "ap_status a = ApPending")
      case False
      with Some show ?thesis by (simp add: decide_def transaction_def g [symmetric] mapWriteError_def invalidState_def)
    next
      case True
      note ga = get_approval_Some [OF Some]
      from approval_rec [OF ok conjunct1 [OF ga]] obtain r where r: "r \<in> set (aw_recommendations w)" "rec_key r = expire_key a"
        "agrees (ap_status a) (rec_status r)" by metis
      have recs: "map (\<lambda>q. if rec_key q \<in> {expire_key a} \<and> rec_status q = PendingApproval then set_status (aw_now w) s q else q) (aw_recommendations w)
          = map (\<lambda>q. if sr_tenantId q = tenantId \<and> sr_id q = ap_recommendationId a then set_status (aw_now w) s q else q) (aw_recommendations w)" for s
      proof (rule map_cong [OF refl])
        fix q assume q: "q \<in> set (aw_recommendations w)"
        have "(rec_key q = expire_key a) = (q = r)" using key_unique [OF ok q r(1)] r(2) by (metis prod.inject rec_key_def)
        moreover have "(sr_tenantId q = tenantId \<and> sr_id q = ap_recommendationId a) = (rec_key q = expire_key a)"
          using ga by (auto simp: rec_key_def expire_key_def)
        moreover have "rec_status r = PendingApproval" using r(3) True by simp
        ultimately show "(if rec_key q \<in> {expire_key a} \<and> rec_status q = PendingApproval then set_status (aw_now w) s q else q)
          = (if sr_tenantId q = tenantId \<and> sr_id q = ap_recommendationId a then set_status (aw_now w) s q else q)" by simp
      qed
      have rows: "map (\<lambda>b. if expire_key b \<in> {expire_key a} \<and> ap_status b = ApPending then ch b else b) (aw_approvals w)
          = map (\<lambda>b. if b = a then ch a else b) (aw_approvals w)" for ch
        by (rule map_cong [OF refl]) (use resolve_single [OF ok conjunct1 [OF ga] True] in auto)
      show ?thesis
        using Some True decide_cases [OF ok Some True reason, of d]
        unfolding resolve_def recs rows g
        by (simp add: decided_row_def decided_approval_def decided_recommendation_def Let_def set_status_def)
    qed
  qed
qed

text \<open>An approval with an id the parser accepts, and its decision.\<close>

definition sample_approval_id :: string where
  "sample_approval_id = ''11111111-1111-4111-8111-111111111111''"

definition awaiting_tables :: approvals_world where
  "awaiting_tables = snd (createPending sample_approval_id ''t'' request_sample recommended_tables)"

lemma awaiting_reachable: "reachable awaiting_tables"
proof -
  have "ok (fst (createPending sample_approval_id ''t'' request_sample recommended_tables))" by code_simp
  then obtain a where "createPending sample_approval_id ''t'' request_sample recommended_tables = (Inr a, awaiting_tables)"
    by (auto simp: ok_def awaiting_tables_def prod_eq_iff split: sum.splits)
  then have "approvals_step recommended_tables awaiting_tables" by (rule Requested)
  with recommended_reachable show ?thesis unfolding reachable_def by (meson rtranclp.rtrancl_into_rtrancl)
qed

lemma awaiting_found:
  "map_option (\<lambda>a. (ap_status a, ap_updatedAt a)) (find (\<lambda>a. ap_tenantId a = ''t'' \<and> ap_id a = sample_approval_id) (aw_approvals awaiting_tables))
    = Some (ApPending, 5000)"
  by code_simp

theorem decision_outcome_witness:
  "\<exists>a w'. decide ''t'' \<lparr>ad_approvalId = sample_approval_id, ad_decisionReason = ''fine''\<rparr> Approve awaiting_tables = (Inr (Some a), w')
    \<and> ap_status a = ApApproved \<and> ap_decisionReason a = Some ''fine'' \<and> length (aw_approvals w') = length (aw_approvals awaiting_tables)"
proof -
  have p: "parseApprovalDecisionBody (JStr sample_approval_id) (JObj [(''decision_reason'', JStr '' fine '')])
      = Inr \<lparr>ad_approvalId = sample_approval_id, ad_decisionReason = ''fine''\<rparr>"
    by code_simp
  from awaiting_found obtain a where a: "find (\<lambda>a. ap_tenantId a = ''t'' \<and> ap_id a = sample_approval_id) (aw_approvals awaiting_tables) = Some a"
      "ap_status a = ApPending" by auto
  from decision_outcome [OF awaiting_reachable p, of "''t''" Approve] a show ?thesis by (simp add: Let_def)
qed

section \<open>The sweep\<close>

lemma due_distinct: "approvals_ok w \<Longrightarrow> distinct (due_approvals now limit w)"
proof -
  assume "approvals_ok w"
  then have "distinct (aw_approvals w)" by (auto simp: approvals_ok_def distinct_map)
  then have "distinct (js_sort expiry_order (filter (is_due now) (aw_approvals w)))"
    by (metis distinct_filter mset_eq_imp_distinct_iff mset_js_sort)
  then show ?thesis by (simp add: due_approvals_def is_due_def [abs_def])
qed

lemma due_earliest:
  assumes "a \<in> set (due_approvals now limit w)" and "b \<in> set (aw_approvals w)" and "is_due now b"
    and "b \<notin> set (due_approvals now limit w)"
  shows "ap_expiresAt a \<le> ap_expiresAt b"
proof -
  let ?s = "js_sort expiry_order (filter (is_due now) (aw_approvals w))"
  have d: "due_approvals now limit w = take limit ?s" by (simp add: due_approvals_def is_due_def [abs_def])
  have "b \<in> set ?s" using assms(2,3) by simp
  then have "b \<in> set (drop limit ?s)" using assms(4) d by (metis UnE append_take_drop_id set_append)
  moreover have "sorted_wrt xo.le (take limit ?s @ drop limit ?s)" using xo.js_sort_sorted by simp
  moreover have "a \<in> set (take limit ?s)" using assms(1) d by simp
  ultimately have "xo.le a b" unfolding sorted_wrt_append by blast
  then show ?thesis by (auto simp: xo.le_def expiry_order_def split: if_splits)
qed

lemma swept_recommendations:
  assumes ok: "approvals_ok w" and due: "set due \<subseteq> {a \<in> set (aw_approvals w). ap_status a = ApPending}" and r: "r \<in> set (aw_recommendations w)"
  shows "(rec_key r \<in> expire_key ` set due \<and> rec_status r = PendingApproval)
    = (\<exists>a\<in>set due. ap_tenantId a = sr_tenantId r \<and> ap_recommendationId a = sr_id r)"
proof
  assume "rec_key r \<in> expire_key ` set due \<and> rec_status r = PendingApproval"
  then show "\<exists>a\<in>set due. ap_tenantId a = sr_tenantId r \<and> ap_recommendationId a = sr_id r" by (auto simp: rec_key_def expire_key_def)
next
  assume "\<exists>a\<in>set due. ap_tenantId a = sr_tenantId r \<and> ap_recommendationId a = sr_id r"
  then obtain a where a: "a \<in> set due" "expire_key a = rec_key r" by (auto simp: rec_key_def expire_key_def)
  with due have live: "a \<in> set (aw_approvals w)" "ap_status a = ApPending" by auto
  from approval_rec [OF ok live(1)] obtain q where q: "q \<in> set (aw_recommendations w)" "rec_key q = expire_key a" "agrees (ap_status a) (rec_status q)"
    by metis
  have "r = q" using key_unique [OF ok r q(1)] q(2) a(2) by (simp add: rec_key_def)
  with a q(3) live(2) show "rec_key r \<in> expire_key ` set due \<and> rec_status r = PendingApproval" by (auto intro: rev_image_eqI)
qed

text \<open>
  C22: A sweep never fails and makes progress: it expires the due approvals, the earliest first and at
  most \<open>limit\<close> of them, and their recommendations, with the time of the sweep and the stamps of the triggers,
  changes no other row and reports what it expired; what was due and not taken is still due, so that
  \<open>limit\<close> fewer are due after it, or none.
\<close>

theorem sweep_progress:
  assumes "reachable w"
  shows "\<exists>res. let swept = (\<lambda>a. ap_id a \<in> set (ex_approvalIds res));
      w' = w\<lparr>aw_approvals := map (\<lambda>a. if swept a
               then a\<lparr>ap_status := ApExpired, ap_decidedAt := Some (now * 1000), ap_updatedAt := aw_now w\<rparr> else a) (aw_approvals w),
             aw_recommendations := map (\<lambda>r. if \<exists>a\<in>set (aw_approvals w). swept a \<and> ap_tenantId a = sr_tenantId r \<and> ap_recommendationId a = sr_id r
               then r\<lparr>sr_input := (sr_input r)\<lparr>ri_status := Expired\<rparr>, sr_updatedAt := aw_now w\<rparr> else r) (aw_recommendations w)\<rparr>
    in expireDue now limit w = (Inr res, w')
    \<and> length (filter (is_due now) (aw_approvals w')) = length (filter (is_due now) (aw_approvals w)) - limit
    \<and> length (ex_approvalIds res) = min limit (length (filter (is_due now) (aw_approvals w)))
    \<and> ex_approvalIds res = map ap_id (filter swept (aw_approvals w))
    \<and> ex_recommendationIds res = map ap_recommendationId (filter swept (aw_approvals w))
    \<and> (\<forall>a\<in>set (aw_approvals w). swept a \<longrightarrow> is_due now a
         \<and> (\<forall>b\<in>set (aw_approvals w). is_due now b \<and> \<not> swept b \<longrightarrow> ap_expiresAt a \<le> ap_expiresAt b))"
proof -
  note ok = reachable_ok [OF assms]
  let ?due = "due_approvals now limit w" and ?all = "filter (is_due now) (aw_approvals w)"
  let ?w = "resolve (expire_key ` set ?due) Expired (expired_row (aw_now w) now) w"
  let ?rows = "filter (\<lambda>a. a \<in> set ?due) (aw_approvals w)"
  let ?res = "\<lparr>ex_processed = ?due \<noteq> [], ex_approvalIds = map ap_id ?rows, ex_recommendationIds = map ap_recommendationId ?rows\<rparr>"
  have dist: "distinct (aw_approvals w)" using ok by (auto simp: approvals_ok_def distinct_map)
  have "set ?rows = set ?due" using due_set by auto
  moreover have "distinct ?rows" using dist by simp
  ultimately have rows: "length ?rows = length ?due" using due_distinct [OF ok] by (metis distinct_card)
  have len: "length ?due = min limit (length ?all)"
    by (simp add: due_approvals_def is_due_def [abs_def])
  have swept: "ap_id a \<in> set (ex_approvalIds ?res) \<longleftrightarrow> a \<in> set ?due" if "a \<in> set (aw_approvals w)" for a
    using approval_unique [OF ok that] that due_set by auto
  have app: "aw_approvals ?w = map (\<lambda>a. if ap_id a \<in> set (ex_approvalIds ?res)
      then a\<lparr>ap_status := ApExpired, ap_decidedAt := Some (now * 1000), ap_updatedAt := aw_now w\<rparr> else a) (aw_approvals w)"
    unfolding resolve_def using due_rows [OF ok, of _ now limit] swept by (simp add: expired_row_def)
  have pending: "set ?due \<subseteq> {a \<in> set (aw_approvals w). ap_status a = ApPending}" using due_set by (auto simp: is_due_def)
  have same: "(\<exists>a\<in>set ?due. ap_tenantId a = sr_tenantId r \<and> ap_recommendationId a = sr_id r)
      = (\<exists>a\<in>set (aw_approvals w). ap_id a \<in> set (ex_approvalIds ?res) \<and> ap_tenantId a = sr_tenantId r \<and> ap_recommendationId a = sr_id r)" for r
    using swept pending by blast
  have "aw_recommendations ?w = map (\<lambda>r. if \<exists>a\<in>set ?due. ap_tenantId a = sr_tenantId r \<and> ap_recommendationId a = sr_id r
      then r\<lparr>sr_input := (sr_input r)\<lparr>ri_status := Expired\<rparr>, sr_updatedAt := aw_now w\<rparr> else r) (aw_recommendations w)"
    unfolding resolve_def using swept_recommendations [OF ok pending] by (simp add: set_status_def) blast
  then have rec: "aw_recommendations ?w = map (\<lambda>r. if \<exists>a\<in>set (aw_approvals w). ap_id a \<in> set (ex_approvalIds ?res)
      \<and> ap_tenantId a = sr_tenantId r \<and> ap_recommendationId a = sr_id r
      then r\<lparr>sr_input := (sr_input r)\<lparr>ri_status := Expired\<rparr>, sr_updatedAt := aw_now w\<rparr> else r) (aw_recommendations w)"
    unfolding same .
  have "length (filter (is_due now) (map (\<lambda>a. if a \<in> set ?due then expired_row (aw_now w) now a else a) xs))
      = length (filter (\<lambda>a. is_due now a \<and> a \<notin> set ?due) xs)" for xs
    by (induction xs) (simp_all add: expired_row_def is_due_def)
  moreover have "length ?all = length (filter (\<lambda>a. a \<in> set ?due) ?all) + length (filter (\<lambda>a. a \<notin> set ?due) ?all)"
    by (rule sum_length_filter_compl [symmetric])
  moreover have "filter (\<lambda>a. a \<in> set ?due) ?all = ?rows" using due_set by (auto intro: filter_cong)
  moreover have "aw_approvals ?w = map (\<lambda>a. if a \<in> set ?due then expired_row (aw_now w) now a else a) (aw_approvals w)"
    unfolding resolve_def using due_rows [OF ok, of _ now limit] by simp
  ultimately have left: "length (filter (is_due now) (aw_approvals ?w)) = length ?all - limit"
    using rows len by (simp add: conj_commute)
  have kept: "filter (\<lambda>a. ap_id a \<in> set (ex_approvalIds ?res)) (aw_approvals w) = ?rows"
    by (rule filter_cong [OF refl]) (use swept in simp)
  have "?w = w\<lparr>aw_approvals := aw_approvals ?w, aw_recommendations := aw_recommendations ?w\<rparr>" by (simp add: resolve_def)
  then have whole: "expireDue now limit w = (Inr ?res, w\<lparr>aw_approvals := aw_approvals ?w, aw_recommendations := aw_recommendations ?w\<rparr>)"
    unfolding expireDue_resolve [OF ok] by (rule arg_cong [of _ _ "Pair (Inr ?res)"])
  have early: "\<forall>a\<in>set (aw_approvals w). ap_id a \<in> set (ex_approvalIds ?res) \<longrightarrow> is_due now a
      \<and> (\<forall>b\<in>set (aw_approvals w). is_due now b \<and> ap_id b \<notin> set (ex_approvalIds ?res) \<longrightarrow> ap_expiresAt a \<le> ap_expiresAt b)"
    using swept due_set due_earliest by blast
  have n: "length (ex_approvalIds ?res) = min limit (length ?all)" using rows len by simp
  have ids: "ex_approvalIds ?res = map ap_id ?rows" "ex_recommendationIds ?res = map ap_recommendationId ?rows" by simp_all
  have left': "length (filter (is_due now) (aw_approvals (w\<lparr>aw_approvals := aw_approvals ?w, aw_recommendations := aw_recommendations ?w\<rparr>))) = length ?all - limit"
    using left by simp
  show ?thesis
    unfolding Let_def
    by (rule exI [of _ ?res], unfold kept app [symmetric] rec [symmetric], intro conjI) (fact whole left' n ids early)+
qed

theorem sweep_progress_witness:
  "\<exists>res w'. expireDue 200 5 requested_tables = (Inr res, w') \<and> length (ex_approvalIds res) = 1"
proof -
  have "length (filter (is_due 200) (aw_approvals requested_tables)) = 1" by code_simp
  with sweep_progress [OF requested_reachable, of 200 5] show ?thesis by (fastforce simp: Let_def)
qed

section \<open>The workflow execution id\<close>

text \<open>
  The id of an approval's workflow execution is never stored: in every reachable state,
  \<open>setWorkflowExecutionId\<close> on an existing approval is refused by the lifecycle trigger (the update keeps
  the status, and a transition to the same status is not allowed), and the column stays empty.
\<close>

theorem workflow_execution_never_stored:
  assumes "reachable w"
  shows "setWorkflowExecutionId tenantId approvalId executionId w
      = (if \<exists>a\<in>set (aw_approvals w). ap_tenantId a = tenantId \<and> ap_id a = approvalId
         then Inl (Thrown ''55000'') else Inr (), w)
    \<and> (\<forall>a\<in>set (aw_approvals w). ap_workflowExecutionId a = None)"
proof -
  note ok = reachable_ok [OF assms]
  have "get_approval tenantId approvalId w = None \<longleftrightarrow> \<not> (\<exists>a\<in>set (aw_approvals w). ap_tenantId a = tenantId \<and> ap_id a = approvalId)"
    by (auto simp: get_approval_def find_None_iff)
  then show ?thesis using setWorkflow_result [OF ok] ok by (simp add: approvals_ok_def sqlstate_def)
qed

theorem workflow_execution_never_stored_witness:
  "setWorkflowExecutionId ''t'' ''a'' ''x'' requested_tables = (Inl (Thrown ''55000''), requested_tables)"
proof -
  have "ap_tenantId (hd (aw_approvals requested_tables)) = ''t'' \<and> ap_id (hd (aw_approvals requested_tables)) = ''a''
      \<and> aw_approvals requested_tables \<noteq> []" by code_simp
  then have "\<exists>a\<in>set (aw_approvals requested_tables). ap_tenantId a = ''t'' \<and> ap_id a = ''a''" using hd_in_set by blast
  with workflow_execution_never_stored [OF requested_reachable, of "''t''" "''a''" "''x''"] show ?thesis by simp
qed

section \<open>Pages\<close>

definition list_request :: "nat \<Rightarrow> string option \<Rightarrow> json" where
  "list_request limit cursor = JObj ((''limit'', JStr (show_nat limit))
     # (case cursor of None \<Rightarrow> [] | Some c \<Rightarrow> [(''cursor'', JStr c)]))"

lemma optionalLimit_show: "1 \<le> limit \<Longrightarrow> limit \<le> 120 \<Longrightarrow> optionalLimit (JStr (show_nat limit)) = Inr limit"
proof -
  have "\<forall>l\<in>set [1..<121]. optionalLimit (JStr (show_nat l)) = Inr l" by code_simp
  then show "1 \<le> limit \<Longrightarrow> limit \<le> 120 \<Longrightarrow> optionalLimit (JStr (show_nat limit)) = Inr limit" by simp
qed

lemma list_service_page:
  assumes "1 \<le> limit" and "limit \<le> 120"
  shows "list_service parse_bytes date_parse ctx (list_request limit cursor) w
    = cursor_page (\<lambda>t i. Inr (encodeApprovalCursor t i)) (\<lambda>c. parseApprovalCursor parse_bytes date_parse (JStr c)) approval_key limit
        (filter (\<lambda>a. ap_tenantId a = ctx_tenantId ctx) (aw_approvals w)) cursor"
proof -
  have l: "listed_approval t \<lparr>al_limit = n, al_cursor = c, al_status = None, al_assignedToUserId = None, al_recommendationId = None\<rparr>
      = (\<lambda>a. ap_tenantId a = t)" for t n c
    by (simp add: listed_approval_def fun_eq_iff)
  show ?thesis
  proof (cases cursor)
    case None
    then show ?thesis using optionalLimit_show [OF assms]
      by (simp add: list_service_def cursor_page_def list_page_def list_request_def parseApprovalListQuery_def rejectUnknown_def
          object_keys_def json_prop_def optional_input_def list_approvals_def l split: option.splits prod.splits)
  next
    case (Some c)
    then show ?thesis using optionalLimit_show [OF assms]
      by (cases "parseApprovalCursor parse_bytes date_parse (JStr c)")
        (simp_all add: list_service_def cursor_page_def list_page_def list_request_def parseApprovalListQuery_def rejectUnknown_def
          object_keys_def json_prop_def optional_input_def list_approvals_def l split: option.splits prod.splits)
  qed
qed

text \<open>
  C38: A client that follows \<open>next_cursor\<close> reaches the end and has seen every approval of its tenant once,
  newest first: for every page size from 1 to 120, over rows whose cursors the runtime reads back.
\<close>

theorem approvals_pages_complete:
  assumes "1 \<le> limit" and "limit \<le> 120" and "distinct (map ap_id (aw_approvals w))"
    and "\<forall>a\<in>set (aw_approvals w). dated_boundary parse_bytes date_parse ''requested_at'' (micros_text (ap_requestedAt a)) (ap_id a)"
  shows "let own = filter (\<lambda>a. ap_tenantId a = ctx_tenantId ctx) (aw_approvals w) in
    \<exists>rows. follow_cursors (\<lambda>cursor. list_service parse_bytes date_parse ctx (list_request limit cursor) w) (length own + 1) None
        = Some (Inr rows)
      \<and> mset rows = mset own
      \<and> sorted_wrt (\<lambda>a b. boundary_less (micros_text (ap_requestedAt b), ap_id b) (micros_text (ap_requestedAt a), ap_id a)) rows"
proof -
  let ?own = "filter (\<lambda>a. ap_tenantId a = ctx_tenantId ctx) (aw_approvals w)"
  have "distinct (map ap_id ?own)" using assms(3) by (simp add: distinct_map_filter)
  then have d: "distinct (map approval_key ?own)"
    by (auto simp: distinct_map inj_on_def approval_key_def)
  have "\<forall>a\<in>set ?own. dated_boundary parse_bytes date_parse ''requested_at'' (fst (approval_key a)) (snd (approval_key a))"
    using assms(4) by (simp add: approval_key_def)
  from approval_cursor.follow_all [OF d this, of limit] assms(1)
  have "follow_cursors (\<lambda>cursor. list_service parse_bytes date_parse ctx (list_request limit cursor) w) (length ?own + 1) None
      = Some (Inr (sorted_rows approval_key ?own))"
    unfolding list_service_page [OF assms(1,2)] by simp
  moreover have "mset (sorted_rows approval_key ?own) = mset ?own" by (simp add: sorted_rows_def)
  moreover note sorted_rows_strict [OF d]
  ultimately show ?thesis unfolding Let_def approval_key_def by blast
qed

definition list_ids :: "string list" where
  "list_ids = [''11111111-1111-4111-8111-111111111111'', ''22222222-1111-4111-8111-111111111111'', ''33333333-1111-4111-8111-111111111111'']"

definition list_tables :: approvals_world where
  "list_tables = start_tables\<lparr>aw_approvals := map (\<lambda>i. pending_row i ''t'' request_sample (JObj []) 0) list_ids\<rparr>"

definition list_cursor :: "string \<Rightarrow> json" where
  "list_cursor i = cursor_json ''requested_at'' ''1970-01-01T00:00:00.000000Z'' i"

definition list_reader :: "string \<Rightarrow> json option" where
  "list_reader bytes = map_option list_cursor (find (\<lambda>i. utf8_bytes (stringify (list_cursor i)) = bytes) list_ids)"

definition list_context :: request_context where
  "list_context = createApiKeyRequestContext ''t'' ''k'' ''q''"

lemma list_boundary:
  "list_all (\<lambda>i. dated_boundary list_reader (\<lambda>_. Some 0) ''requested_at'' ''1970-01-01T00:00:00.000000Z'' i) list_ids"
proof -
  have p: "micros_pattern ''1970-01-01T00:00:00.000000Z''" "list_all db_uuid list_ids" by code_simp+
  have r: "list_all (\<lambda>i. list_reader (utf8_bytes (stringify (list_cursor i))) = Some (list_cursor i)) list_ids" by code_simp
  from p r show ?thesis
    by (simp add: list_all_iff dated_boundary_def plain_boundary_def reads_back_def list_cursor_def)
qed

theorem approvals_pages_complete_witness:
  "\<exists>rows. follow_cursors (\<lambda>cursor. list_service list_reader (\<lambda>_. Some 0) list_context (list_request 2 cursor) list_tables) 4 None
     = Some (Inr rows) \<and> length rows = 3"
proof -
  have k: "map (\<lambda>a. (ap_requestedAt a, ap_id a, ap_tenantId a)) (aw_approvals list_tables) = map (\<lambda>i. (0, i, ''t'')) list_ids"
    and c: "ctx_tenantId list_context = ''t''" and t: "micros_text 0 = ''1970-01-01T00:00:00.000000Z''"
    and di: "distinct list_ids" and li: "length list_ids = 3" by code_simp+
  have key: "ap_requestedAt a = 0 \<and> ap_id a \<in> set list_ids \<and> ap_tenantId a = ''t''" if "a \<in> set (aw_approvals list_tables)" for a
    using arg_cong [where f = set, OF k] that by (auto simp: set_eq_iff image_iff)
  have "map ap_id (aw_approvals list_tables) = list_ids"
    using arg_cong [where f = "map (fst \<circ> snd)", OF k] by (simp add: comp_def)
  then have d: "distinct (map ap_id (aw_approvals list_tables))" and l: "length (aw_approvals list_tables) = 3"
    using di li length_map [of ap_id "aw_approvals list_tables"] by simp_all
  have b: "\<forall>a\<in>set (aw_approvals list_tables).
      dated_boundary list_reader (\<lambda>_. Some 0) ''requested_at'' (micros_text (ap_requestedAt a)) (ap_id a)"
    using list_boundary key t by (simp add: list_all_iff)
  have n: "filter (\<lambda>a. ap_tenantId a = ctx_tenantId list_context) (aw_approvals list_tables) = aw_approvals list_tables"
    using key c by (auto intro: filter_True)
  have four: "3 + 1 = (4::nat)" by simp
  from approvals_pages_complete [of 2, OF _ _ d b, of list_context]
  obtain rows where "follow_cursors (\<lambda>cursor. list_service list_reader (\<lambda>_. Some 0) list_context (list_request 2 cursor) list_tables) 4 None
      = Some (Inr rows)" "mset rows = mset (aw_approvals list_tables)"
    unfolding n l Let_def four by (auto simp del: follow_cursors.simps)
  then show ?thesis using l by (metis size_mset)
qed

end
