(* ===== verification/Ecosystem.thy ===== *)
theory Ecosystem
  imports Approvals_Service
begin

text \<open>
  core/adapters/ecosystem-service.ts and core/adapters/ecosystem-repository.ts: the outbox of events for
  the other systems, with the constraints and the lifecycle trigger of migration 0023. The tables of the
  approvals are part of the world, because a workflow's execution id is written back to its approval.
  The remote systems are a function of their own state; \<open>new URL\<close> and the size of a payload as
  \<open>jsonb\<close> text are parameters.
\<close>

section \<open>Types\<close>

datatype ecosystem_target = NotificationHub | WorkflowEngine | InvoiceReconciliation

datatype event_status = EvQueued | EvSent | EvFailed | EvDisabled | EvRetrying

definition target_text :: "ecosystem_target \<Rightarrow> string" where
  "target_text t = (case t of NotificationHub \<Rightarrow> ''notification_hub'' | WorkflowEngine \<Rightarrow> ''workflow_engine''
     | InvoiceReconciliation \<Rightarrow> ''invoice_reconciliation_engine'')"

record ecosystem_event =
  ev_id :: string
  ev_tenantId :: string
  ev_eventType :: string
  ev_eventId :: string
  ev_payload :: "(string \<times> json) list"
  ev_status :: event_status
  ev_targetSystem :: ecosystem_target
  ev_nextAttemptAt :: "int option"
  ev_attemptCount :: nat
  ev_lastError :: "string option"
  ev_createdAt :: int
  ev_updatedAt :: int

record adapter_config =
  hub_enabled :: bool
  hub_url :: string
  hub_apiKey :: string
  engine_enabled :: bool
  engine_url :: string
  engine_apiKey :: string
  engine_workflowId :: string
  invoice_enabled :: bool
  invoice_contractVerified :: bool
  invoice_url :: string
  invoice_apiKey :: string

record http_request =
  rq_url :: string
  rq_headers :: "(string \<times> string) list"
  rq_body :: string

record http_response =
  rp_status :: nat
  rp_json :: json

text \<open>The world of the adapters: the outbox, the approval tables (whose \<open>aw_now\<close> is the clock of the
  database) and the state of the remote systems.\<close>

record 'h ecosystem_world =
  ew_events :: "ecosystem_event list"
  ew_tables :: approvals_world
  ew_remote :: 'h

section \<open>Constraints and trigger\<close>

definition forbidden_keys :: "string list" where
  "forbidden_keys = [''credentials'', ''credential'', ''password'', ''secret'', ''token'', ''api_key'', ''apiKey'',
     ''authorization'', ''cookie'', ''set-cookie'', ''raw_file'', ''raw_bytes'', ''raw_row'', ''raw_rows'',
     ''solver_variable'', ''solver_variables'', ''candidate_id'']"

definition event_row_check :: "(json \<Rightarrow> nat) \<Rightarrow> ecosystem_event \<Rightarrow> bool" where
  "event_row_check jsonb_octets e =
     (column_text 200 (ev_eventType e) \<and> column_text 200 (ev_eventId e)
      \<and> jsonb_octets (JObj (ev_payload e)) \<le> 1048576 \<and> (\<forall>k\<in>set (map fst (ev_payload e)). k \<notin> set forbidden_keys)
      \<and> ev_attemptCount e \<le> 1000 \<and> optional_column 2000 (ev_lastError e)
      \<and> (case ev_status e of
           EvQueued \<Rightarrow> ev_nextAttemptAt e \<noteq> None | EvRetrying \<Rightarrow> ev_nextAttemptAt e \<noteq> None
         | EvSent \<Rightarrow> ev_nextAttemptAt e = None | EvDisabled \<Rightarrow> ev_nextAttemptAt e = None
         | EvFailed \<Rightarrow> True)
      \<and> ev_createdAt e \<le> ev_updatedAt e)"

definition event_identity :: "ecosystem_event \<Rightarrow> string \<times> string \<times> string \<times> string \<times> (string \<times> json) list \<times> ecosystem_target \<times> int" where
  "event_identity e = (ev_id e, ev_tenantId e, ev_eventType e, ev_eventId e, ev_payload e, ev_targetSystem e, ev_createdAt e)"

definition event_transition :: "event_status \<Rightarrow> event_status \<Rightarrow> bool" where
  "event_transition old new =
     (old \<in> {EvQueued, EvRetrying} \<and> new \<in> {EvRetrying, EvSent, EvFailed, EvDisabled})"

text \<open>An UPDATE of one row: the trigger, which stamps \<open>updated_at\<close>, then the CHECK constraints.\<close>

definition update_event :: "(json \<Rightarrow> nat) \<Rightarrow> int \<Rightarrow> ecosystem_event \<Rightarrow> ecosystem_event \<Rightarrow> ecosystem_event result" where
  "update_event jsonb_octets clock old new =
     (let stamped = new\<lparr>ev_updatedAt := clock\<rparr> in
      if event_identity new \<noteq> event_identity old then Inl (sqlstate ''55000'')
      else if ev_status old \<in> {EvSent, EvDisabled, EvFailed} then Inl (sqlstate ''55000'')
      else if \<not> event_transition (ev_status old) (ev_status new) then Inl (sqlstate ''55000'')
      else if \<not> event_row_check jsonb_octets stamped then Inl (sqlstate ''23514'')
      else Inr stamped)"

text \<open>\<open>UPDATE \<dots> WHERE selected RETURNING *\<close>: the statement throws as a whole.\<close>

definition update_events :: "(json \<Rightarrow> nat) \<Rightarrow> (ecosystem_event \<Rightarrow> bool) \<Rightarrow> (ecosystem_event \<Rightarrow> ecosystem_event)
    \<Rightarrow> 'h ecosystem_world \<Rightarrow> ecosystem_event option result \<times> 'h ecosystem_world" where
  "update_events jsonb_octets selected change w =
     (let clock = aw_now (ew_tables w) in
      case traverseR (\<lambda>e. if selected e then update_event jsonb_octets clock e (change e) else Inr e) (ew_events w) of
        Inl err \<Rightarrow> (Inl err, w)
      | Inr rows \<Rightarrow> (Inr (map_option (\<lambda>e. (change e)\<lparr>ev_updatedAt := clock\<rparr>) (find selected (ew_events w))),
                      w\<lparr>ew_events := rows\<rparr>))"

section \<open>The repository\<close>

text \<open>\<open>INSERT \<dots> ON CONFLICT (tenant_id, target_system, event_id) DO UPDATE SET updated_at =
  ecosystem_events.updated_at\<close>: a conflicting row is updated, through the trigger.\<close>

definition same_event :: "ecosystem_event \<Rightarrow> ecosystem_event \<Rightarrow> bool" where
  "same_event a b = (ev_tenantId a = ev_tenantId b \<and> ev_targetSystem a = ev_targetSystem b \<and> ev_eventId a = ev_eventId b)"

definition enqueue_event :: "(json \<Rightarrow> nat) \<Rightarrow> string \<Rightarrow> int \<Rightarrow> string \<Rightarrow> string \<Rightarrow> string \<Rightarrow> (string \<times> json) list \<Rightarrow> ecosystem_target \<Rightarrow> bool
    \<Rightarrow> 'h ecosystem_world \<Rightarrow> ecosystem_event result \<times> 'h ecosystem_world" where
  "enqueue_event jsonb_octets new_id now tenantId eventType eventId payload target enabled w =
     (let clock = aw_now (ew_tables w);
          row = \<lparr>ev_id = new_id, ev_tenantId = tenantId, ev_eventType = eventType, ev_eventId = eventId, ev_payload = payload,
                 ev_status = (if enabled then EvQueued else EvDisabled), ev_targetSystem = target,
                 ev_nextAttemptAt = (if enabled then Some (now * 1000) else None), ev_attemptCount = 0, ev_lastError = None,
                 ev_createdAt = clock, ev_updatedAt = clock\<rparr> in
      if \<not> event_row_check jsonb_octets row then (Inl (sqlstate ''23514''), w)
      else case find (same_event row) (ew_events w) of
             Some old \<Rightarrow>
               (case update_events jsonb_octets (same_event row) (\<lambda>e. e) w of
                  (Inl err, w') \<Rightarrow> (Inl err, w')
                | (Inr _, w') \<Rightarrow> (Inr (old\<lparr>ev_updatedAt := clock\<rparr>), w'))
           | None \<Rightarrow>
               if \<not> (\<exists>t\<in>set (aw_tenants (ew_tables w)). tn_id t = tenantId) then (Inl (sqlstate ''23503''), w)
               else (Inr row, w\<lparr>ew_events := ew_events w @ [row]\<rparr>))"

definition event_key :: "ecosystem_event \<Rightarrow> boundary" where
  "event_key e = (micros_text (ev_createdAt e), ev_id e)"

definition listForTenant :: "string \<Rightarrow> nat \<Rightarrow> 'h ecosystem_world \<Rightarrow> ecosystem_event list" where
  "listForTenant tenantId limit w =
     take limit (js_sort (newest_first event_key) (filter (\<lambda>e. ev_tenantId e = tenantId) (ew_events w)))"

definition is_active :: "ecosystem_event \<Rightarrow> bool" where
  "is_active e = (ev_status e \<in> {EvQueued, EvRetrying})"

definition due_event :: "int \<Rightarrow> ecosystem_event \<Rightarrow> bool" where
  "due_event now e = (is_active e \<and> (case ev_nextAttemptAt e of None \<Rightarrow> False | Some t \<Rightarrow> t \<le> now * 1000))"

text \<open>\<open>ORDER BY next_attempt_at ASC, created_at ASC, id ASC\<close>.\<close>

definition attempt_order :: "ecosystem_event \<Rightarrow> ecosystem_event \<Rightarrow> int" where
  "attempt_order a b =
     (let s = the (ev_nextAttemptAt a); t = the (ev_nextAttemptAt b) in
      if s \<noteq> t then s - t else if ev_createdAt a \<noteq> ev_createdAt b then ev_createdAt a - ev_createdAt b
      else if ev_id a = ev_id b then 0 else if ev_id a < ev_id b then -1 else 1)"

definition claimed_event :: "int \<Rightarrow> ecosystem_event \<Rightarrow> ecosystem_event" where
  "claimed_event clock e =
     e\<lparr>ev_status := EvRetrying, ev_attemptCount := ev_attemptCount e + 1, ev_nextAttemptAt := Some (clock + 300000000)\<rparr>"

definition claimNext :: "(json \<Rightarrow> nat) \<Rightarrow> int \<Rightarrow> 'h ecosystem_world \<Rightarrow> ecosystem_event option result \<times> 'h ecosystem_world" where
  "claimNext jsonb_octets now w =
     (case js_sort attempt_order (filter (due_event now) (ew_events w)) of
        [] \<Rightarrow> (Inr None, w)
      | e # _ \<Rightarrow> update_events jsonb_octets (\<lambda>x. ev_id x = ev_id e) (claimed_event (aw_now (ew_tables w))) w)"

definition awaiting :: "string \<Rightarrow> ecosystem_event \<Rightarrow> bool" where
  "awaiting i e = (ev_id e = i \<and> ev_status e = EvRetrying)"

definition markSent :: "(json \<Rightarrow> nat) \<Rightarrow> string \<Rightarrow> 'h ecosystem_world \<Rightarrow> ecosystem_event option result \<times> 'h ecosystem_world" where
  "markSent jsonb_octets i =
     update_events jsonb_octets (awaiting i) (\<lambda>e. e\<lparr>ev_status := EvSent, ev_nextAttemptAt := None, ev_lastError := None\<rparr>)"

definition markRetry :: "(json \<Rightarrow> nat) \<Rightarrow> string \<Rightarrow> int \<Rightarrow> string \<Rightarrow> 'h ecosystem_world \<Rightarrow> ecosystem_event option result \<times> 'h ecosystem_world" where
  "markRetry jsonb_octets i nextAttemptAt err =
     update_events jsonb_octets (awaiting i)
       (\<lambda>e. e\<lparr>ev_status := EvRetrying, ev_nextAttemptAt := Some (nextAttemptAt * 1000), ev_lastError := Some err\<rparr>)"

definition markFailed :: "(json \<Rightarrow> nat) \<Rightarrow> string \<Rightarrow> string \<Rightarrow> 'h ecosystem_world \<Rightarrow> ecosystem_event option result \<times> 'h ecosystem_world" where
  "markFailed jsonb_octets i err =
     update_events jsonb_octets (awaiting i)
       (\<lambda>e. e\<lparr>ev_status := EvFailed, ev_nextAttemptAt := None, ev_lastError := Some err\<rparr>)"

section \<open>Requests to the remote systems\<close>

definition unavailable :: "string \<Rightarrow> js_error" where
  "unavailable c = AppError c ''The integration adapter is unavailable.'' 503"

text \<open>\<open>encodeURIComponent\<close>.\<close>

definition hex_upper :: "nat \<Rightarrow> char" where
  "hex_upper n = (if n < 10 then char_of (48 + n) else char_of (55 + n))"

definition uri_char :: "char \<Rightarrow> bool" where
  "uri_char c = (is_digit c \<or> is_lower c \<or> is_upper c \<or> c \<in> set ''-_.!~*'' \<or> code c \<in> {39, 40, 41})"

definition encodeURIComponent :: "string \<Rightarrow> string" where
  "encodeURIComponent s = concat (map (\<lambda>c. if uri_char c then [c]
     else concat (map (\<lambda>b. [CHR ''%'', hex_upper (code b div 16), hex_upper (code b mod 16)]) (utf8_char c))) s)"

definition jsonRequest :: "string \<Rightarrow> string \<Rightarrow> ecosystem_event \<Rightarrow> bool \<Rightarrow> http_request" where
  "jsonRequest url apiKey event engine =
     \<lparr>rq_url = url,
      rq_headers = [(''content-type'', ''application/json''), (''x-api-key'', apiKey), (''idempotency-key'', ev_eventId event)],
      rq_body = stringify (JObj (if engine
        then [(''event_id'', JStr (ev_eventId event)), (''trigger_data'', JObj (ev_payload event))]
        else [(''event_type'', JStr (ev_eventType event)), (''event_id'', JStr (ev_eventId event)),
              (''tenant_id'', JStr (ev_tenantId event)), (''payload'', JObj (ev_payload event))]))\<rparr>"

text \<open>\<open>new_url path base\<close> is \<open>new URL(path, base).toString()\<close>, which throws on an invalid base.\<close>

definition requestFor :: "(string \<Rightarrow> string \<Rightarrow> string result) \<Rightarrow> adapter_config \<Rightarrow> ecosystem_event \<Rightarrow> http_request result" where
  "requestFor new_url config event =
     (case ev_targetSystem event of
        NotificationHub \<Rightarrow>
          bindR (new_url ''/api/events'' (hub_url config)) (\<lambda>url. Inr (jsonRequest url (hub_apiKey config) event False))
      | WorkflowEngine \<Rightarrow>
          if engine_workflowId config = [] then Inl (unavailable ''WORKFLOW_ID_MISSING'')
          else bindR (new_url (''/api/workflows/'' @ encodeURIComponent (engine_workflowId config) @ ''/execute'') (engine_url config))
            (\<lambda>url. Inr (jsonRequest url (engine_apiKey config) event True))
      | InvoiceReconciliation \<Rightarrow> Inl (unavailable ''ENDPOINT_CONTRACT_UNVERIFIED''))"

definition stringValue :: "json \<Rightarrow> string option" where
  "stringValue v =
     (case v of JStr s \<Rightarrow> let normalized = trim s in if normalized \<noteq> [] \<and> length normalized \<le> 512 then Some normalized else None
      | _ \<Rightarrow> None)"

definition responseExecutionId :: "json \<Rightarrow> string option" where
  "responseExecutionId v =
     (case v of
        JObj kvs \<Rightarrow>
          (case stringValue (json_prop kvs ''execution_id'') of Some s \<Rightarrow> Some s
           | None \<Rightarrow> (case stringValue (json_prop kvs ''executionId'') of Some s \<Rightarrow> Some s
           | None \<Rightarrow> stringValue (json_prop kvs ''id'')))
      | _ \<Rightarrow> None)"

text \<open>\<open>Math.min(60 * 60 * 1000, 1000 * 2 ** Math.max(0, attempt - 1))\<close>, where a double of a power of two
  is exact up to the minimum.\<close>

definition backoffMs :: "nat \<Rightarrow> int" where
  "backoffMs attempt = min (60 * 60 * 1000) (1000 * 2 ^ (attempt - 1))"

section \<open>The service\<close>

definition enabledFor :: "adapter_config \<Rightarrow> ecosystem_target \<Rightarrow> bool" where
  "enabledFor config target =
     (case target of NotificationHub \<Rightarrow> hub_enabled config | WorkflowEngine \<Rightarrow> engine_enabled config
      | InvoiceReconciliation \<Rightarrow> False)"

definition enqueue :: "(json \<Rightarrow> nat) \<Rightarrow> adapter_config \<Rightarrow> string \<Rightarrow> int \<Rightarrow> ecosystem_target \<Rightarrow> string \<Rightarrow> string \<Rightarrow> string
    \<Rightarrow> (string \<times> json) list \<Rightarrow> 'h ecosystem_world \<Rightarrow> ecosystem_event result \<times> 'h ecosystem_world" where
  "enqueue jsonb_octets config new_id now target eventType eventId tenantId payload =
     enqueue_event jsonb_octets new_id now tenantId eventType eventId payload target (enabledFor config target)"

text \<open>The event type that the caller gives is not used.\<close>

definition enqueueNotificationEvent :: "(json \<Rightarrow> nat) \<Rightarrow> adapter_config \<Rightarrow> string \<Rightarrow> int \<Rightarrow> string \<Rightarrow> string \<Rightarrow> string \<Rightarrow> (string \<times> json) list
    \<Rightarrow> 'h ecosystem_world \<Rightarrow> ecosystem_event result \<times> 'h ecosystem_world" where
  "enqueueNotificationEvent jsonb_octets config new_id now tenantId eventType eventId payload =
     enqueue jsonb_octets config new_id now NotificationHub ''notification.event'' eventId tenantId payload"

text \<open>\<open>\{ approval_id, ...payload \}\<close>: a property of the payload overrides in place.\<close>

definition enqueueApprovalWorkflow :: "(json \<Rightarrow> nat) \<Rightarrow> adapter_config \<Rightarrow> string \<Rightarrow> int \<Rightarrow> string \<Rightarrow> string \<Rightarrow> (string \<times> json) list
    \<Rightarrow> 'h ecosystem_world \<Rightarrow> ecosystem_event result \<times> 'h ecosystem_world" where
  "enqueueApprovalWorkflow jsonb_octets config new_id now tenantId approvalId payload =
     enqueue jsonb_octets config new_id now WorkflowEngine ''approval.requested'' approvalId tenantId
       (fold (\<lambda>(k, v). AList.update k v) payload [(''approval_id'', JStr approvalId)])"

definition testEvent :: "(json \<Rightarrow> nat) \<Rightarrow> adapter_config \<Rightarrow> string \<Rightarrow> int \<Rightarrow> string \<Rightarrow> ecosystem_target
    \<Rightarrow> 'h ecosystem_world \<Rightarrow> ecosystem_event result \<times> 'h ecosystem_world" where
  "testEvent jsonb_octets config new_id now tenantId target =
     enqueue jsonb_octets config new_id now target ''integration.test'' (''test-'' @ target_text target) tenantId
       [(''message'', JStr ''Cloud Commitment Portfolio Optimizer integration test''),
        (''target_system'', JStr (target_text target))]"

datatype process_outcome = NothingDue | Processed event_status string

text \<open>A call of \<open>http.fetch\<close>, in the world.\<close>

definition fetch :: "(http_request \<Rightarrow> 'h \<Rightarrow> http_response result \<times> 'h) \<Rightarrow> http_request
    \<Rightarrow> 'h ecosystem_world \<Rightarrow> http_response result \<times> 'h ecosystem_world" where
  "fetch remote request w = (case remote request (ew_remote w) of (r, h) \<Rightarrow> (r, w\<lparr>ew_remote := h\<rparr>))"

definition store_execution :: "string \<Rightarrow> string \<Rightarrow> string \<Rightarrow> 'h ecosystem_world \<Rightarrow> unit result \<times> 'h ecosystem_world" where
  "store_execution tenantId approvalId executionId w =
     (case setWorkflowExecutionId tenantId approvalId executionId (ew_tables w) of (r, t) \<Rightarrow> (r, w\<lparr>ew_tables := t\<rparr>))"

text \<open>The execution id that a successful response to this event carries, and the approval to write it to.\<close>

definition execution_of :: "ecosystem_event \<Rightarrow> http_response \<Rightarrow> (string \<times> string) option" where
  "execution_of event response =
     (if ev_targetSystem event = WorkflowEngine then
        (case (stringValue (json_prop (ev_payload event) ''approval_id''), responseExecutionId (rp_json response)) of
           (Some a, Some x) \<Rightarrow> Some (a, x) | _ \<Rightarrow> None)
      else None)"

text \<open>Failed, or to be retried after the backoff: the end of a try that the remote system did not accept.\<close>

definition give_up :: "(json \<Rightarrow> nat) \<Rightarrow> (nat \<Rightarrow> fault) \<Rightarrow> int \<Rightarrow> ecosystem_event \<Rightarrow> string \<Rightarrow> ('h ecosystem_world, process_outcome) eff" where
  "give_up jsonb_octets faults now event err =
     (if 5 \<le> ev_attemptCount event then
        bindM (call faults (markFailed jsonb_octets (ev_id event) err)) (\<lambda>_. returnM (Processed EvFailed (ev_eventId event)))
      else
        bindM (call faults (markRetry jsonb_octets (ev_id event) (now + backoffMs (ev_attemptCount event)) err))
          (\<lambda>_. returnM (Processed EvRetrying (ev_eventId event))))"

definition deliver :: "(json \<Rightarrow> nat) \<Rightarrow> (string \<Rightarrow> string \<Rightarrow> string result) \<Rightarrow> (http_request \<Rightarrow> 'h \<Rightarrow> http_response result \<times> 'h)
    \<Rightarrow> (nat \<Rightarrow> fault) \<Rightarrow> adapter_config \<Rightarrow> int \<Rightarrow> ecosystem_event \<Rightarrow> ('h ecosystem_world, process_outcome) eff" where
  "deliver jsonb_octets new_url remote faults config now event =
     bindM (liftM (requestFor new_url config event)) (\<lambda>request.
     bindM (call faults (fetch remote request)) (\<lambda>response.
       if 200 \<le> rp_status response \<and> rp_status response < 300 then
         bindM (case execution_of event response of
             None \<Rightarrow> returnM ()
           | Some (approvalId, executionId) \<Rightarrow> call faults (store_execution (ev_tenantId event) approvalId executionId)) (\<lambda>_.
         bindM (call faults (markSent jsonb_octets (ev_id event))) (\<lambda>_.
           returnM (Processed EvSent (ev_eventId event))))
       else give_up jsonb_octets faults now event (''REMOTE_HTTP_'' @ show_nat (rp_status response))))"

text \<open>\<open>now\<close> and \<open>later\<close> are the two readings of the application's clock.\<close>

definition processNext :: "(json \<Rightarrow> nat) \<Rightarrow> (string \<Rightarrow> string \<Rightarrow> string result) \<Rightarrow> (http_request \<Rightarrow> 'h \<Rightarrow> http_response result \<times> 'h)
    \<Rightarrow> (nat \<Rightarrow> fault) \<Rightarrow> adapter_config \<Rightarrow> int \<Rightarrow> int \<Rightarrow> ('h ecosystem_world, process_outcome) eff" where
  "processNext jsonb_octets new_url remote faults config now later =
     process_next (call faults (claimNext jsonb_octets now)) NothingDue
       (deliver jsonb_octets new_url remote faults config later)
       (\<lambda>event. give_up jsonb_octets faults later event ''ADAPTER_REQUEST_FAILED'')"

section \<open>Statuses\<close>

datatype adapter_state = AdDisabled | AdReady | AdDegraded | AdUnsupported

record adapter_status =
  as_target :: ecosystem_target
  as_enabled :: bool
  as_configured :: bool
  as_state :: adapter_state
  as_detail :: string

definition status :: "ecosystem_target \<Rightarrow> bool \<Rightarrow> bool \<Rightarrow> string \<Rightarrow> adapter_status" where
  "status target enabled configured detail =
     \<lparr>as_target = target, as_enabled = enabled, as_configured = configured,
      as_state = (if \<not> enabled then AdDisabled else if configured then AdReady else AdDegraded), as_detail = detail\<rparr>"

definition adapterStatuses :: "adapter_config \<Rightarrow> adapter_status list" where
  "adapterStatuses config =
     [status NotificationHub (hub_enabled config) (hub_url config \<noteq> [] \<and> hub_apiKey config \<noteq> []) ''Notification Hub event mirror'',
      status WorkflowEngine (engine_enabled config)
        (engine_url config \<noteq> [] \<and> engine_apiKey config \<noteq> [] \<and> engine_workflowId config \<noteq> []) ''Workflow Engine approval trigger'',
      \<lparr>as_target = InvoiceReconciliation, as_enabled = invoice_enabled config, as_configured = invoice_contractVerified config,
       as_state = (if invoice_enabled config then AdUnsupported else AdDisabled),
       as_detail = (if invoice_enabled config then ''Disabled until an exact endpoint contract is verified.''
         else ''No outbound calls; future adapter placeholder.'')\<rparr>]"

end
