(* ===== verification/Ecosystem_Outbox.thy ===== *)
theory Ecosystem_Outbox
  imports Ecosystem
begin

text \<open>
  The outbox under its statements: the invariant of its rows, what an UPDATE does to the one row it
  selects, and how far a row can get while one event is processed, whatever calls fail.
\<close>

section \<open>Rows\<close>

definition outbox_ok :: "(json \<Rightarrow> nat) \<Rightarrow> 'h ecosystem_world \<Rightarrow> bool" where
  "outbox_ok jsonb_octets w =
     (distinct (map ev_id (ew_events w))
      \<and> (\<forall>e\<in>set (ew_events w). event_row_check jsonb_octets e \<and> ev_createdAt e \<le> aw_now (ew_tables w)))"

lemma outbox_unique: "outbox_ok oct w \<Longrightarrow> x \<in> set (ew_events w) \<Longrightarrow> e \<in> set (ew_events w) \<Longrightarrow> ev_id x = ev_id e \<longleftrightarrow> x = e"
  by (auto simp: outbox_ok_def distinct_map dest: inj_onD)

lemma traverseR_update:
  "traverseR (\<lambda>x. if P x then Inr (g x) else Inr x) xs = Inr (map (\<lambda>x. if P x then g x else x) xs)"
  by (induction xs) simp_all

abbreviation replace_event :: "ecosystem_event \<Rightarrow> ecosystem_event \<Rightarrow> ecosystem_event list \<Rightarrow> ecosystem_event list" where
  "replace_event e e' xs \<equiv> map (\<lambda>x. if x = e then e' else x) xs"

text \<open>An UPDATE either throws and leaves the tables alone, or finds no row, or changes the rows it selects.\<close>

lemma update_none: "\<forall>x\<in>set (ew_events w). \<not> P x \<Longrightarrow> update_events oct P ch w = (Inr None, w)"
proof -
  assume n: "\<forall>x\<in>set (ew_events w). \<not> P x"
  then have "traverseR (\<lambda>e. if P e then update_event oct c e (ch e) else Inr e) (ew_events w) = Inr (ew_events w)" for c
    by (simp add: traverseR_Inr)
  moreover have "find P (ew_events w) = None" using n by (simp add: find_None_iff)
  ultimately show ?thesis by (simp add: update_events_def Let_def)
qed

lemma update_one:
  assumes "e \<in> set (ew_events w)" and "\<forall>x\<in>set (ew_events w). P x \<longleftrightarrow> x = e"
  shows "update_events oct P ch w =
    (case update_event oct (aw_now (ew_tables w)) e (ch e) of
       Inl err \<Rightarrow> (Inl err, w)
     | Inr e' \<Rightarrow> (Inr (Some e'), w\<lparr>ew_events := replace_event e e' (ew_events w)\<rparr>))"
proof -
  let ?c = "aw_now (ew_tables w)"
  let ?f = "\<lambda>x. if P x then update_event oct ?c x (ch x) else Inr x"
  have find: "find P (ew_events w) = Some e"
  proof -
    have "find P (ew_events w) \<noteq> None" using assms by (auto simp: find_None_iff)
    then obtain y where "find P (ew_events w) = Some y" by blast
    with assms(2) show ?thesis by (auto simp: find_Some_iff)
  qed
  have stamped: "update_event oct ?c e (ch e) = Inr e' \<Longrightarrow> e' = (ch e)\<lparr>ev_updatedAt := ?c\<rparr>" for e'
    by (auto simp: update_event_def Let_def split: if_splits)
  show ?thesis
  proof (cases "update_event oct ?c e (ch e)")
    case (Inl err)
    have "traverseR ?f xs = Inl err" if "e \<in> set xs" "set xs \<subseteq> set (ew_events w)" for xs
      using that assms(2) Inl by (induction xs) auto
    then show ?thesis using Inl assms(1) by (simp add: update_events_def Let_def)
  next
    case (Inr e')
    have "traverseR ?f xs = Inr (replace_event e e' xs)" if "set xs \<subseteq> set (ew_events w)" for xs
      using that assms(2) Inr by (induction xs) auto
    then show ?thesis using Inr find stamped [OF Inr] by (simp add: update_events_def Let_def)
  qed
qed

lemma update_event_Inr:
  "update_event oct c old new = Inr e' \<longleftrightarrow>
     e' = new\<lparr>ev_updatedAt := c\<rparr> \<and> event_identity new = event_identity old \<and> is_active old
     \<and> event_transition (ev_status old) (ev_status new) \<and> event_row_check oct e'"
  by (cases "ev_status old") (auto simp: update_event_def Let_def event_transition_def is_active_def)

lemma update_events_keeps: "ew_tables (snd (update_events oct P ch w)) = ew_tables w" "ew_remote (snd (update_events oct P ch w)) = ew_remote w"
  by (simp_all add: update_events_def Let_def split: sum.splits)

section \<open>Progress of one event\<close>

text \<open>What has become of the due event \<open>e\<close> in the world \<open>w\<close>, since the world \<open>w0\<close> in which it was claimed.\<close>

definition attempted :: "ecosystem_event \<Rightarrow> ecosystem_event \<Rightarrow> bool" where
  "attempted e e' =
     (event_identity e' = event_identity e \<and> ev_attemptCount e' = ev_attemptCount e + 1
      \<and> ev_status e' \<in> {EvRetrying, EvSent, EvFailed} \<and> (ev_status e' = EvFailed \<longrightarrow> 5 \<le> ev_attemptCount e'))"

definition progress :: "(json \<Rightarrow> nat) \<Rightarrow> 'h ecosystem_world \<Rightarrow> ecosystem_event \<Rightarrow> (ecosystem_event \<Rightarrow> bool) \<Rightarrow> 'h ecosystem_world \<Rightarrow> bool" where
  "progress oct w0 e P w =
     (outbox_ok oct w0 \<and> e \<in> set (ew_events w0) \<and> aw_now (ew_tables w) = aw_now (ew_tables w0)
      \<and> (\<exists>e'. ew_events w = replace_event e e' (ew_events w0) \<and> event_row_check oct e' \<and> attempted e e' \<and> P e'))"

lemma progress_weaken: "progress oct w0 e P w \<Longrightarrow> (\<And>e'. attempted e e' \<Longrightarrow> P e' \<Longrightarrow> Q e') \<Longrightarrow> progress oct w0 e Q w"
  by (auto simp: progress_def)

lemma progress_outbox: "progress oct w0 e P w \<Longrightarrow> outbox_ok oct w"
proof -
  assume p: "progress oct w0 e P w"
  then obtain e' where e': "ew_events w = replace_event e e' (ew_events w0)" "event_row_check oct e'" "attempted e e'"
    by (auto simp: progress_def)
  have i: "ev_id e' = ev_id e" "ev_createdAt e' = ev_createdAt e" using e'(3) by (auto simp: attempted_def event_identity_def)
  then have "map ev_id (ew_events w) = map ev_id (ew_events w0)" by (auto simp: e'(1))
  moreover have "\<forall>x\<in>set (ew_events w). x = e' \<or> x \<in> set (ew_events w0)" by (auto simp: e'(1))
  moreover have "outbox_ok oct w0" "aw_now (ew_tables w) = aw_now (ew_tables w0)" "e \<in> set (ew_events w0)"
    using p by (simp_all add: progress_def)
  ultimately show ?thesis using e'(2) i unfolding outbox_ok_def by metis
qed

text \<open>The marks change the status and no identity or count, and no mark fails an event before its fifth attempt.\<close>

definition marks :: "ecosystem_event \<Rightarrow> (ecosystem_event \<Rightarrow> ecosystem_event) \<Rightarrow> bool" where
  "marks e ch =
     (\<forall>x. event_identity (ch x) = event_identity x \<and> ev_attemptCount (ch x) = ev_attemptCount x
        \<and> ev_status (ch x) \<in> {EvRetrying, EvSent, EvFailed} \<and> (ev_status (ch x) = EvFailed \<longrightarrow> 5 \<le> ev_attemptCount e + 1))"

lemma marks_attempted: "marks e ch \<Longrightarrow> attempted e x \<Longrightarrow> attempted e ((ch x)\<lparr>ev_updatedAt := t\<rparr>)"
proof -
  assume m: "marks e ch" and a: "attempted e x"
  from m have "event_identity (ch x) = event_identity x \<and> ev_attemptCount (ch x) = ev_attemptCount x
        \<and> ev_status (ch x) \<in> {EvRetrying, EvSent, EvFailed} \<and> (ev_status (ch x) = EvFailed \<longrightarrow> 5 \<le> ev_attemptCount e + 1)"
    by (simp add: marks_def)
  with a show ?thesis by (simp add: attempted_def event_identity_def)
qed

text \<open>The one place where a mark can take effect: the row of the event, while it is still retrying.\<close>

lemma progress_mark:
  assumes p: "progress oct w0 e P w" and m: "marks e ch"
  obtains (Thrown) err where "update_events oct (awaiting (ev_id e)) ch w = (Inl err, w)"
    | (Gone) "update_events oct (awaiting (ev_id e)) ch w = (Inr None, w)" "progress oct w0 e (\<lambda>x. P x \<and> ev_status x \<noteq> EvRetrying) w"
    | (Marked) e'' w' where "update_events oct (awaiting (ev_id e)) ch w = (Inr (Some e''), w')"
        "progress oct w0 e (\<lambda>x. \<exists>y. attempted e y \<and> P y \<and> ev_status y = EvRetrying \<and> x = (ch y)\<lparr>ev_updatedAt := aw_now (ew_tables w0)\<rparr>) w'"
proof -
  from p obtain e' where e': "ew_events w = replace_event e e' (ew_events w0)" "event_row_check oct e'" "attempted e e'" "P e'"
    and w0: "outbox_ok oct w0" "e \<in> set (ew_events w0)" "aw_now (ew_tables w) = aw_now (ew_tables w0)"
    by (auto simp: progress_def)
  have ide: "ev_id e' = ev_id e" using e'(3) by (auto simp: attempted_def event_identity_def)
  have mem: "e' \<in> set (ew_events w)" using e'(1) w0(2) by auto
  have own: "x \<in> set (ew_events w) \<Longrightarrow> ev_id x = ev_id e \<longleftrightarrow> x = e'" for x
    using outbox_unique [OF progress_outbox [OF p] _ mem] ide by auto
  show thesis
  proof (cases "ev_status e' = EvRetrying")
    case False
    then have "\<forall>x\<in>set (ew_events w). \<not> awaiting (ev_id e) x" using own by (auto simp: awaiting_def)
    moreover have "progress oct w0 e (\<lambda>x. P x \<and> ev_status x \<noteq> EvRetrying) w"
      using e' w0 False by (auto simp: progress_def)
    ultimately show thesis by (intro Gone) (simp_all add: update_none)
  next
    case True
    then have "\<forall>x\<in>set (ew_events w). awaiting (ev_id e) x \<longleftrightarrow> x = e'" using own by (auto simp: awaiting_def)
    note u = update_one [OF mem this, of oct ch]
    show thesis
    proof (cases "update_event oct (aw_now (ew_tables w)) e' (ch e')")
      case (Inl err)
      then show thesis using u by (intro Thrown) simp
    next
      case (Inr e'')
      from update_event_Inr [THEN iffD1, OF Inr, unfolded w0(3)]
      have e'': "e'' = (ch e')\<lparr>ev_updatedAt := aw_now (ew_tables w0)\<rparr>" "event_row_check oct e''" by blast+
      have "attempted e e''" unfolding e''(1) by (rule marks_attempted [OF m e'(3)])
      moreover have same: "x \<noteq> e'" if "x \<in> set (ew_events w0)" "x \<noteq> e" for x
        using outbox_unique [OF w0(1) that(1) w0(2)] ide that(2) by metis
      have "replace_event e' e'' (ew_events w) = replace_event e e'' (ew_events w0)"
        unfolding e'(1) map_map by (rule map_cong [OF refl]) (use same in simp)
      ultimately have "progress oct w0 e (\<lambda>x. x = e'') (w\<lparr>ew_events := replace_event e' e'' (ew_events w)\<rparr>)"
        using w0 e''(2) by (simp add: progress_def)
      then have "progress oct w0 e (\<lambda>x. \<exists>y. attempted e y \<and> P y \<and> ev_status y = EvRetrying \<and> x = (ch y)\<lparr>ev_updatedAt := aw_now (ew_tables w0)\<rparr>)
          (w\<lparr>ew_events := replace_event e' e'' (ew_events w)\<rparr>)"
      proof (rule progress_weaken)
        show "\<exists>y. attempted e y \<and> P y \<and> ev_status y = EvRetrying \<and> x = (ch y)\<lparr>ev_updatedAt := aw_now (ew_tables w0)\<rparr>" if "x = e''" for x
          using e'(3,4) e''(1) True that by (intro exI [of _ e']) simp
      qed
      moreover have "update_events oct (awaiting (ev_id e)) ch w = (Inr (Some e''), w\<lparr>ew_events := replace_event e' e'' (ew_events w)\<rparr>)"
        using u Inr by simp
      ultimately show thesis by (intro Marked)
    qed
  qed
qed

section \<open>Claims\<close>

interpretation ao: comparator attempt_order
proof
  fix x y z :: ecosystem_event
  show "attempt_order x y \<le> 0 \<longleftrightarrow> 0 \<le> attempt_order y x"
    by (auto simp: attempt_order_def Let_def)
  show "attempt_order x y \<le> 0 \<Longrightarrow> attempt_order y z \<le> 0 \<Longrightarrow> attempt_order x z \<le> 0"
    by (auto simp: attempt_order_def Let_def split: if_splits)
qed

lemma claim_progress:
  assumes ok: "outbox_ok oct w"
  obtains (Idle) "claimNext oct now w = (Inr None, w)" "\<forall>e\<in>set (ew_events w). \<not> due_event now e"
    | (Refused) err where "claimNext oct now w = (Inl err, w)"
    | (Claimed) e w' where "e \<in> set (ew_events w)" "due_event now e" "\<forall>x\<in>set (ew_events w). due_event now x \<longrightarrow> attempt_order e x \<le> 0"
        "claimNext oct now w = (Inr (Some ((claimed_event (aw_now (ew_tables w)) e)\<lparr>ev_updatedAt := aw_now (ew_tables w)\<rparr>)), w')"
        "ew_tables w' = ew_tables w" "ew_remote w' = ew_remote w"
        "progress oct w e (\<lambda>x. ev_status x = EvRetrying \<and> x = (claimed_event (aw_now (ew_tables w)) e)\<lparr>ev_updatedAt := aw_now (ew_tables w)\<rparr>) w'"
proof (cases "js_sort attempt_order (filter (due_event now) (ew_events w))")
  case Nil
  then have "filter (due_event now) (ew_events w) = []" by (metis length_0_conv length_js_sort)
  then show thesis using Nil by (intro Idle) (auto simp: claimNext_def filter_empty_conv)
next
  case (Cons e rest)
  then have "e \<in> set (js_sort attempt_order (filter (due_event now) (ew_events w)))" by simp
  then have e: "e \<in> set (ew_events w)" "due_event now e" by simp_all
  have first: "\<forall>x\<in>set (ew_events w). due_event now x \<longrightarrow> attempt_order e x \<le> 0"
    using ao.js_sort_first [OF Cons] by (simp add: ao.le_def)
  have "\<forall>x\<in>set (ew_events w). ev_id x = ev_id e \<longleftrightarrow> x = e" using outbox_unique [OF ok] e(1) by blast
  note u = update_one [OF e(1) this, of oct "claimed_event (aw_now (ew_tables w))"]
  show thesis
  proof (cases "update_event oct (aw_now (ew_tables w)) e (claimed_event (aw_now (ew_tables w)) e)")
    case (Inl err)
    then show thesis using u Cons by (intro Refused) (simp add: claimNext_def)
  next
    case (Inr e')
    let ?w = "w\<lparr>ew_events := replace_event e e' (ew_events w)\<rparr>"
    from update_event_Inr [THEN iffD1, OF Inr]
    have e': "e' = (claimed_event (aw_now (ew_tables w)) e)\<lparr>ev_updatedAt := aw_now (ew_tables w)\<rparr>" "event_row_check oct e'" by blast+
    have "attempted e e'" by (simp add: e'(1) attempted_def claimed_event_def event_identity_def)
    then have "progress oct w e (\<lambda>x. ev_status x = EvRetrying \<and> x = e') ?w"
      using ok e e'(2) by (simp add: progress_def) (simp add: e'(1) claimed_event_def)
    then show thesis using u Inr Cons e first by (intro Claimed) (simp_all add: claimNext_def e'(1))
  qed
qed

section \<open>Processing\<close>

text \<open>The claimed row as the worker holds it.\<close>

definition held :: "ecosystem_event \<Rightarrow> ecosystem_event \<Rightarrow> bool" where
  "held e event = (event_identity event = event_identity e \<and> ev_attemptCount event = ev_attemptCount e + 1)"

lemma held_simps: "held e event \<Longrightarrow> ev_id event = ev_id e \<and> ev_eventId event = ev_eventId e \<and> ev_tenantId event = ev_tenantId e
    \<and> ev_attemptCount event = ev_attemptCount e + 1"
  by (simp add: held_def event_identity_def)

lemma valid_mark:
  assumes "\<And>w. progress oct w0 e P w \<Longrightarrow> progress oct w0 e (\<lambda>_. True) w"
    and m: "marks e ch"
    and gone: "\<And>x. attempted e x \<Longrightarrow> P x \<Longrightarrow> ev_status x \<noteq> EvRetrying \<Longrightarrow> Q x"
    and marked: "\<And>y. P y \<Longrightarrow> ev_status y = EvRetrying \<Longrightarrow> Q ((ch y)\<lparr>ev_updatedAt := aw_now (ew_tables w0)\<rparr>)"
  shows "valid (progress oct w0 e P) (call faults (update_events oct (awaiting (ev_id e)) ch))
    (\<lambda>_. progress oct w0 e Q) (progress oct w0 e (\<lambda>_. True))"
proof (rule valid_call)
  fix w r assume p: "progress oct w0 e P w" and r: "fst (update_events oct (awaiting (ev_id e)) ch w) = Inr r"
  show "progress oct w0 e Q (snd (update_events oct (awaiting (ev_id e)) ch w))"
    using p m
  proof (cases rule: progress_mark)
    case Gone
    then show ?thesis using gone by (auto elim: progress_weaken)
  next
    case Marked
    then show ?thesis using marked by (auto elim: progress_weaken)
  qed (use r in simp)
next
  fix w assume p: "progress oct w0 e P w"
  then show "progress oct w0 e (\<lambda>_. True) w" by (rule assms(1))
  show "progress oct w0 e (\<lambda>_. True) (snd (update_events oct (awaiting (ev_id e)) ch w))"
    using p m
  proof (cases rule: progress_mark)
    case Marked
    then show ?thesis by (auto elim: progress_weaken)
  qed (use p in \<open>auto elim: progress_weaken\<close>)
qed

text \<open>What a call that returns says of the event it processed.\<close>

definition settled :: "(json \<Rightarrow> nat) \<Rightarrow> 'h ecosystem_world \<Rightarrow> ecosystem_event \<Rightarrow> process_outcome \<Rightarrow> 'h ecosystem_world \<Rightarrow> bool" where
  "settled oct w0 e r w =
     (case r of NothingDue \<Rightarrow> False
      | Processed s i \<Rightarrow> i = ev_eventId e
          \<and> progress oct w0 e (\<lambda>x. ev_status x \<in> {s, EvSent} \<and> (s = EvRetrying \<longrightarrow> ev_attemptCount x < 5)) w)"

lemma valid_give_up:
  assumes h: "held e event"
  shows "valid (progress oct w0 e (\<lambda>_. True)) (give_up oct faults now event err) (settled oct w0 e) (progress oct w0 e (\<lambda>_. True))"
proof -
  note hs = held_simps [OF h]
  have att: "attempted e x \<Longrightarrow> ev_attemptCount x = ev_attemptCount event" for x using hs by (simp add: attempted_def)
  show ?thesis
  proof (cases "5 \<le> ev_attemptCount event")
    case True
    have g: "give_up oct faults now event err = bindM (call faults (markFailed oct (ev_id e) err)) (\<lambda>_. returnM (Processed EvFailed (ev_eventId e)))"
      using True hs by (simp add: give_up_def)
    show ?thesis unfolding g markFailed_def
    proof (rule valid_bind [OF valid_mark [where Q = "\<lambda>x. ev_status x \<in> {EvFailed, EvSent}"]])
      show "valid (progress oct w0 e (\<lambda>x. ev_status x \<in> {EvFailed, EvSent})) (returnM (Processed EvFailed (ev_eventId e)))
          (settled oct w0 e) (progress oct w0 e (\<lambda>_. True))" for x :: "ecosystem_event option"
        by (rule valid_return) (simp add: settled_def)
    qed (use True hs in \<open>auto simp: marks_def event_identity_def attempted_def\<close>)
  next
    case False
    have g: "give_up oct faults now event err = bindM (call faults (markRetry oct (ev_id e) (now + backoffMs (ev_attemptCount event)) err))
        (\<lambda>_. returnM (Processed EvRetrying (ev_eventId e)))"
      using False hs by (simp add: give_up_def)
    have low: "attempted e x \<Longrightarrow> ev_attemptCount x < 5" for x using False att by simp
    show ?thesis unfolding g markRetry_def
    proof (rule valid_bind [OF valid_mark [where Q = "\<lambda>x. ev_status x \<in> {EvRetrying, EvSent}"]])
      show "valid (progress oct w0 e (\<lambda>x. ev_status x \<in> {EvRetrying, EvSent})) (returnM (Processed EvRetrying (ev_eventId e)))
          (settled oct w0 e) (progress oct w0 e (\<lambda>_. True))" for x :: "ecosystem_event option"
        by (rule valid_return) (use low in \<open>auto simp: settled_def elim!: progress_weaken\<close>)
    qed (use False hs in \<open>auto simp: marks_def event_identity_def attempted_def\<close>)
  qed
qed

lemma progress_outside:
  "progress oct w0 e P w \<Longrightarrow> ew_events w' = ew_events w \<Longrightarrow> aw_now (ew_tables w') = aw_now (ew_tables w) \<Longrightarrow> progress oct w0 e P w'"
  by (simp add: progress_def)

lemma store_execution_keeps: "ew_events (snd (store_execution t a x w)) = ew_events w"
  "aw_now (ew_tables (snd (store_execution t a x w))) = aw_now (ew_tables w)"
  by (auto simp: store_execution_def setWorkflowExecutionId_def update_approvals_def bindR_eq_Inr split: sum.splits prod.splits)

lemma fetch_keeps: "ew_events (snd (fetch remote q w)) = ew_events w" "ew_tables (snd (fetch remote q w)) = ew_tables w"
  by (simp_all add: fetch_def split: prod.splits)

lemma valid_deliver:
  assumes h: "held e event"
  shows "valid (progress oct w0 e (\<lambda>x. ev_status x = EvRetrying)) (deliver oct new_url remote faults config now event)
    (settled oct w0 e) (progress oct w0 e (\<lambda>_. True))"
proof -
  note hs = held_simps [OF h]
  let ?R = "progress oct w0 e (\<lambda>x. ev_status x = EvRetrying)" and ?T = "progress oct w0 e (\<lambda>_. True)"
  have RT: "?R w \<Longrightarrow> ?T w" for w by (erule progress_weaken) simp
  have fetch: "valid ?R (call faults (fetch remote q)) (\<lambda>_. ?R) ?T" for q
    by (rule valid_call) (auto intro!: RT intro: progress_outside simp: fetch_keeps)
  have store: "valid ?R (case x of None \<Rightarrow> returnM () | Some (a, i) \<Rightarrow> call faults (store_execution (ev_tenantId event) a i)) (\<lambda>_. ?R) ?T" for x
    by (auto split: option.splits intro!: valid_return valid_call RT intro: progress_outside simp: store_execution_keeps)
  have sent: "valid ?R (call faults (markSent oct (ev_id e))) (\<lambda>_. progress oct w0 e (\<lambda>x. ev_status x = EvSent)) ?T"
    unfolding markSent_def by (rule valid_mark) (auto simp: marks_def event_identity_def RT)
  have sent': "progress oct w0 e (\<lambda>x. ev_status x = EvSent) w \<Longrightarrow> settled oct w0 e (Processed EvSent (ev_eventId e)) w" for w
    by (auto simp: settled_def elim!: progress_weaken)
  have up: "valid ?R (give_up oct faults now event err) (settled oct w0 e) ?T" for err
    by (rule valid_weaken [OF valid_give_up [OF h]]) (auto intro: RT)
  show ?thesis unfolding deliver_def
  proof (rule valid_bind [where R = "\<lambda>_. ?R"])
    show "valid ?R (liftM (requestFor new_url config event)) (\<lambda>_. ?R) ?T" by (rule valid_lift) (auto intro: RT)
    fix q
    show "valid ?R (bindM (call faults (fetch remote q)) (\<lambda>response.
       if 200 \<le> rp_status response \<and> rp_status response < 300 then
         bindM (case execution_of event response of
             None \<Rightarrow> returnM ()
           | Some (approvalId, executionId) \<Rightarrow> call faults (store_execution (ev_tenantId event) approvalId executionId)) (\<lambda>_.
         bindM (call faults (markSent oct (ev_id event))) (\<lambda>_.
           returnM (Processed EvSent (ev_eventId event))))
       else give_up oct faults now event (''REMOTE_HTTP_'' @ show_nat (rp_status response)))) (settled oct w0 e) ?T"
      using hs by (auto intro!: valid_bind [OF fetch] valid_bind [OF store] valid_bind [OF sent] valid_return up sent')
  qed
qed

end
