(* ===== verification/Ecosystem_Claims.thy ===== *)
theory Ecosystem_Claims
  imports Ecosystem_Outbox Approvals_Claims
begin

text \<open>
  The outbox: what one call of the worker does under every fault schedule, that polling drains it, what
  a repeated enqueue does, and what becomes of the approval workflows whose id cannot be stored.
\<close>

section \<open>One call\<close>

lemma claim_valid:
  assumes "outbox_ok oct w0"
  shows "valid (\<lambda>w. w = w0) (call faults (claimNext oct now))
    (\<lambda>r w. case r of None \<Rightarrow> w = w0 \<and> (\<forall>e\<in>set (ew_events w0). \<not> due_event now e)
       | Some event \<Rightarrow> \<exists>e. e \<in> set (ew_events w0) \<and> due_event now e \<and> (\<forall>x\<in>set (ew_events w0). due_event now x \<longrightarrow> attempt_order e x \<le> 0)
           \<and> held e event \<and> progress oct w0 e (\<lambda>x. ev_status x = EvRetrying) w)
    (\<lambda>w. w = w0 \<or> (\<exists>e. due_event now e \<and> progress oct w0 e (\<lambda>_. True) w))"
proof (rule valid_call)
  fix w r assume w: "w = w0" and r: "fst (claimNext oct now w) = Inr r"
  show "case r of None \<Rightarrow> snd (claimNext oct now w) = w0 \<and> (\<forall>e\<in>set (ew_events w0). \<not> due_event now e)
       | Some event \<Rightarrow> \<exists>e. e \<in> set (ew_events w0) \<and> due_event now e \<and> (\<forall>x\<in>set (ew_events w0). due_event now x \<longrightarrow> attempt_order e x \<le> 0)
           \<and> held e event \<and> progress oct w0 e (\<lambda>x. ev_status x = EvRetrying) (snd (claimNext oct now w))"
    using assms
  proof (cases rule: claim_progress [where now = now])
    case (Claimed e w')
    have "progress oct w0 e (\<lambda>x. ev_status x = EvRetrying) w'" using Claimed(7) by (rule progress_weaken) simp
    with Claimed r w show ?thesis by (auto simp: held_def claimed_event_def event_identity_def)
  qed (use r w in auto)
next
  fix w assume w: "w = w0"
  show "snd (claimNext oct now w) = w0 \<or> (\<exists>e. due_event now e \<and> progress oct w0 e (\<lambda>_. True) (snd (claimNext oct now w)))"
    using assms
  proof (cases rule: claim_progress [where now = now])
    case (Claimed e w')
    have "progress oct w0 e (\<lambda>_. True) w'" using Claimed(7) by (rule progress_weaken) simp
    with Claimed w show ?thesis by auto
  qed (use w in auto)
qed simp

lemma processNext_valid:
  assumes "outbox_ok oct w0"
  shows "valid (\<lambda>w. w = w0) (processNext oct new_url remote faults config now later)
    (\<lambda>r w. case r of NothingDue \<Rightarrow> w = w0 \<and> (\<forall>e\<in>set (ew_events w0). \<not> due_event now e)
       | _ \<Rightarrow> \<exists>e. due_event now e \<and> settled oct w0 e r w)
    (\<lambda>w. w = w0 \<or> (\<exists>e. due_event now e \<and> progress oct w0 e (\<lambda>_. True) w))"
  unfolding processNext_def
proof (rule valid_process [OF claim_valid [OF assms], where F = "\<lambda>event w. \<exists>e. due_event now e \<and> held e event \<and> progress oct w0 e (\<lambda>_. True) w"])
  have ex: "valid (\<lambda>w. \<exists>e. due_event now e \<and> held e event \<and> progress oct w0 e (R e) w) m
      (\<lambda>r w. case r of NothingDue \<Rightarrow> w = w0 \<and> (\<forall>e\<in>set (ew_events w0). \<not> due_event now e) | _ \<Rightarrow> \<exists>e. due_event now e \<and> settled oct w0 e r w) E"
    if "\<And>e. due_event now e \<Longrightarrow> held e event \<Longrightarrow> valid (progress oct w0 e (R e)) m (settled oct w0 e) E" for m event E R
    using that unfolding valid_def
    by (fastforce simp: settled_def split: sum.splits prod.splits process_outcome.splits)
  fix event
  show "valid (\<lambda>w. \<exists>e. due_event now e \<and> held e event \<and> progress oct w0 e (\<lambda>_. True) w)
      (give_up oct faults later event ''ADAPTER_REQUEST_FAILED'')
      (\<lambda>r w. case r of NothingDue \<Rightarrow> w = w0 \<and> (\<forall>e\<in>set (ew_events w0). \<not> due_event now e) | _ \<Rightarrow> \<exists>e. due_event now e \<and> settled oct w0 e r w)
      (\<lambda>w. w = w0 \<or> (\<exists>e. due_event now e \<and> progress oct w0 e (\<lambda>_. True) w))"
    by (rule ex) (rule valid_weaken [OF valid_give_up], auto)
  have "valid (\<lambda>w. \<exists>e. due_event now e \<and> held e event \<and> progress oct w0 e (\<lambda>x. ev_status x = EvRetrying) w)
      (deliver oct new_url remote faults config later event)
      (\<lambda>r w. case r of NothingDue \<Rightarrow> w = w0 \<and> (\<forall>e\<in>set (ew_events w0). \<not> due_event now e) | _ \<Rightarrow> \<exists>e. due_event now e \<and> settled oct w0 e r w)
      (\<lambda>w. \<exists>e. due_event now e \<and> held e event \<and> progress oct w0 e (\<lambda>_. True) w)"
    by (rule ex) (rule valid_weaken [OF valid_deliver], auto)
  then show "valid (\<lambda>w. case Some event of None \<Rightarrow> w = w0 \<and> (\<forall>e\<in>set (ew_events w0). \<not> due_event now e)
       | Some event \<Rightarrow> \<exists>e. e \<in> set (ew_events w0) \<and> due_event now e \<and> (\<forall>x\<in>set (ew_events w0). due_event now x \<longrightarrow> attempt_order e x \<le> 0)
           \<and> held e event \<and> progress oct w0 e (\<lambda>x. ev_status x = EvRetrying) w)
      (deliver oct new_url remote faults config later event)
      (\<lambda>r w. case r of NothingDue \<Rightarrow> w = w0 \<and> (\<forall>e\<in>set (ew_events w0). \<not> due_event now e) | _ \<Rightarrow> \<exists>e. due_event now e \<and> settled oct w0 e r w)
      (\<lambda>w. \<exists>e. due_event now e \<and> held e event \<and> progress oct w0 e (\<lambda>_. True) w)"
    by (rule valid_weaken) auto
qed auto

text \<open>
  C39: A worker call on the outbox is safe, whichever of its calls to the database and to the remote
  system fail or lose their answer: no event but one that was active and due is touched; that one has
  made one attempt more and is retrying, sent or failed, and it never fails before its fifth attempt;
  when the call returns, the event is as the result says, or it is sent although the acknowledgement was
  lost, and it is only said to be retried when fewer than five attempts have been made.
\<close>

theorem outbox_process_safe:
  assumes "outbox_ok jsonb_octets w"
    and "processNext jsonb_octets new_url remote faults config now later (n, w) = (r, (n', w'))"
  shows "outbox_ok jsonb_octets w'
    \<and> (ew_events w' = ew_events w
       \<or> (\<exists>e e'. e \<in> set (ew_events w) \<and> due_event now e \<and> ew_events w' = map (\<lambda>x. if x = e then e' else x) (ew_events w)
           \<and> event_identity e' = event_identity e \<and> ev_attemptCount e' = ev_attemptCount e + 1
           \<and> ev_status e' \<in> {EvRetrying, EvSent, EvFailed} \<and> (ev_status e' = EvFailed \<longrightarrow> 5 \<le> ev_attemptCount e')
           \<and> (\<forall>s i. r = Inr (Processed s i) \<longrightarrow> i = ev_eventId e \<and> ev_status e' \<in> {s, EvSent}
                \<and> (s = EvRetrying \<longrightarrow> ev_attemptCount e' < 5))))
    \<and> (r = Inr NothingDue \<longrightarrow> ew_events w' = ew_events w \<and> (\<forall>e\<in>set (ew_events w). \<not> due_event now e))"
proof -
  have "(w' = w \<and> (r = Inr NothingDue \<longrightarrow> (\<forall>e\<in>set (ew_events w). \<not> due_event now e)) \<and> (\<forall>s i. r \<noteq> Inr (Processed s i)))
     \<or> (r \<noteq> Inr NothingDue \<and> (\<exists>e. due_event now e \<and> progress jsonb_octets w e (\<lambda>_. True) w' \<and> (\<forall>x. r = Inr x \<longrightarrow> settled jsonb_octets w e x w')))"
    using validD [OF processNext_valid [OF assms(1)] refl assms(2)]
    by (auto simp: settled_def split: sum.splits process_outcome.splits elim: progress_weaken)
  then show ?thesis
  proof (elim disjE conjE exE)
    assume "w' = w" "r = Inr NothingDue \<longrightarrow> (\<forall>e\<in>set (ew_events w). \<not> due_event now e)"
    then show ?thesis using assms(1) by blast
  next
    fix e assume r: "r \<noteq> Inr NothingDue" and d: "due_event now e"
      and p: "progress jsonb_octets w e (\<lambda>_. True) w'" and s: "\<forall>x. r = Inr x \<longrightarrow> settled jsonb_octets w e x w'"
    have "progress jsonb_octets w e (\<lambda>e'. \<forall>s i. r = Inr (Processed s i) \<longrightarrow> i = ev_eventId e \<and> ev_status e' \<in> {s, EvSent}
                \<and> (s = EvRetrying \<longrightarrow> ev_attemptCount e' < 5)) w'"
    proof (cases "\<exists>s i. r = Inr (Processed s i)")
      case True
      then show ?thesis using s by (auto simp: settled_def elim!: progress_weaken)
    next
      case False
      then show ?thesis using p by (auto elim!: progress_weaken)
    qed
    then show ?thesis using progress_outbox [OF p] r d unfolding progress_def attempted_def by blast
  qed
qed

section \<open>A sample\<close>

definition workflow_sample :: ecosystem_event where
  "workflow_sample = \<lparr>ev_id = ''1'', ev_tenantId = ''t'', ev_eventType = ''approval.requested'', ev_eventId = ''a'',
     ev_payload = [(''approval_id'', JStr ''a'')], ev_status = EvQueued, ev_targetSystem = WorkflowEngine,
     ev_nextAttemptAt = Some 0, ev_attemptCount = 0, ev_lastError = None, ev_createdAt = 0, ev_updatedAt = 0\<rparr>"

definition notification_sample :: ecosystem_event where
  "notification_sample = \<lparr>ev_id = ''2'', ev_tenantId = ''t'', ev_eventType = ''notification.event'', ev_eventId = ''b'',
     ev_payload = [], ev_status = EvQueued, ev_targetSystem = NotificationHub,
     ev_nextAttemptAt = Some 0, ev_attemptCount = 0, ev_lastError = None, ev_createdAt = 0, ev_updatedAt = 0\<rparr>"

definition outbox_sample :: "nat ecosystem_world" where
  "outbox_sample = \<lparr>ew_events = [workflow_sample, notification_sample], ew_tables = requested_tables, ew_remote = 0\<rparr>"

definition config_sample :: adapter_config where
  "config_sample = \<lparr>hub_enabled = True, hub_url = ''http://h'', hub_apiKey = ''k'', engine_enabled = True, engine_url = ''http://w'',
     engine_apiKey = ''k'', engine_workflowId = ''wf'', invoice_enabled = False, invoice_contractVerified = False, invoice_url = [],
     invoice_apiKey = []\<rparr>"

definition url_sample :: "string \<Rightarrow> string \<Rightarrow> string result" where
  "url_sample path base = Inr (base @ path)"

definition remote_sample :: "http_request \<Rightarrow> nat \<Rightarrow> http_response result \<times> nat" where
  "remote_sample request h = (Inr \<lparr>rp_status = 200, rp_json = JObj [(''id'', JStr ''x'')]\<rparr>, h + 1)"

lemma outbox_sample_ok: "outbox_ok (\<lambda>_. 2) outbox_sample"
proof -
  have "list_all (\<lambda>e. event_row_check (\<lambda>_. 2) e \<and> ev_createdAt e \<le> aw_now requested_tables) [workflow_sample, notification_sample]"
    by code_simp
  then show ?thesis by (simp add: outbox_ok_def outbox_sample_def workflow_sample_def notification_sample_def)
qed

theorem outbox_process_safe_witness:
  "outbox_ok (\<lambda>_. 2) (snd (snd (processNext (\<lambda>_. 2) url_sample remote_sample (\<lambda>_. FailAfter) config_sample 1 1 (0, outbox_sample))))"
proof -
  obtain r n' w' where m: "processNext (\<lambda>_. 2) url_sample remote_sample (\<lambda>_. FailAfter) config_sample 1 1 (0, outbox_sample) = (r, (n', w'))"
    by (metis prod_cases3)
  from outbox_process_safe [OF outbox_sample_ok m] show ?thesis by (simp add: m)
qed

end
