(* ===== verification/Ecosystem_Drain.thy ===== *)
theory Ecosystem_Drain
  imports Ecosystem_Claims
begin

text \<open>
  Polling the outbox when the database answers: no call throws, whatever the remote systems do, and
  a poll either finds nothing due or uses up one attempt of one event, so the outbox drains.
\<close>

section \<open>Calls that do not fail\<close>

abbreviation no_faults :: "nat \<Rightarrow> fault" where
  "no_faults \<equiv> \<lambda>_. NoFault"

lemma valid_call_total:
  "(\<And>w. P w \<Longrightarrow> \<exists>x. fst (operation w) = Inr x \<and> Q x (snd (operation w))) \<Longrightarrow> valid P (call no_faults operation) Q E"
  by (fastforce simp: valid_def call_def Let_def)

lemma attempted_id: "attempted e x \<Longrightarrow> ev_id x = ev_id e \<and> ev_createdAt x = ev_createdAt e"
  by (simp add: attempted_def event_identity_def)

lemma valid_mark_total:
  assumes m: "marks e ch"
    and check: "\<And>x t. attempted e x \<Longrightarrow> event_row_check oct x \<Longrightarrow> ev_createdAt x \<le> t \<Longrightarrow> event_row_check oct ((ch x)\<lparr>ev_updatedAt := t\<rparr>)"
    and gone: "\<And>x. attempted e x \<Longrightarrow> P x \<Longrightarrow> ev_status x \<noteq> EvRetrying \<Longrightarrow> Q x"
    and marked: "\<And>y. attempted e y \<Longrightarrow> P y \<Longrightarrow> Q ((ch y)\<lparr>ev_updatedAt := aw_now (ew_tables w0)\<rparr>)"
  shows "valid (progress oct w0 e P) (call no_faults (update_events oct (awaiting (ev_id e)) ch)) (\<lambda>_. progress oct w0 e Q) E"
proof (rule valid_call_total)
  fix w assume p: "progress oct w0 e P w"
  have thrown: "update_events oct (awaiting (ev_id e)) ch w \<noteq> (Inl err, w)" for err
  proof
    assume u: "update_events oct (awaiting (ev_id e)) ch w = (Inl err, w)"
    from p obtain e' where e': "ew_events w = replace_event e e' (ew_events w0)" "event_row_check oct e'" "attempted e e'" "P e'"
      and w0: "outbox_ok oct w0" "e \<in> set (ew_events w0)" "aw_now (ew_tables w) = aw_now (ew_tables w0)"
      by (auto simp: progress_def)
    note ide = attempted_id [OF e'(3)]
    have mem: "e' \<in> set (ew_events w)" using e'(1) w0(2) by auto
    have own: "\<forall>x\<in>set (ew_events w). ev_id x = ev_id e \<longleftrightarrow> x = e'"
      using outbox_unique [OF progress_outbox [OF p] _ mem] ide by auto
    show False
    proof (cases "ev_status e' = EvRetrying")
      case False
      then have "\<forall>x\<in>set (ew_events w). \<not> awaiting (ev_id e) x" using own by (auto simp: awaiting_def)
      then show False using u by (simp add: update_none)
    next
      case True
      then have sel: "\<forall>x\<in>set (ew_events w). awaiting (ev_id e) x \<longleftrightarrow> x = e'" using own by (auto simp: awaiting_def)
      have "ev_createdAt e' \<le> aw_now (ew_tables w)" using progress_outbox [OF p] mem by (simp add: outbox_ok_def)
      from check [OF e'(3,2) this] m True
      have "update_event oct (aw_now (ew_tables w)) e' (ch e') = Inr ((ch e')\<lparr>ev_updatedAt := aw_now (ew_tables w)\<rparr>)"
        by (auto simp: update_event_Inr marks_def is_active_def event_transition_def)
      then show False using u update_one [OF mem sel, of oct ch] by simp
    qed
  qed
  show "\<exists>x. fst (update_events oct (awaiting (ev_id e)) ch w) = Inr x \<and> progress oct w0 e Q (snd (update_events oct (awaiting (ev_id e)) ch w))"
    using p m
  proof (cases rule: progress_mark)
    case Gone
    then show ?thesis using gone by (auto elim: progress_weaken)
  next
    case (Marked e'' w')
    have "progress oct w0 e Q w'" using Marked(2) marked by (auto elim!: progress_weaken)
    with Marked show ?thesis by simp
  qed (use thrown in blast)
qed

section \<open>A poll\<close>

definition after_try :: "int \<Rightarrow> ecosystem_event \<Rightarrow> bool" where
  "after_try later x = (is_active x \<longrightarrow> ev_attemptCount x < 5
     \<and> (\<exists>t. ev_nextAttemptAt x = Some t \<and> t \<le> (later + 3600000) * 1000))"

definition clean_error :: "string \<Rightarrow> bool" where
  "clean_error err = column_text 2000 err"

lemma mark_failed_total: "5 \<le> ev_attemptCount e + 1 \<Longrightarrow> clean_error err \<Longrightarrow>
    valid (progress oct w0 e (\<lambda>_. True)) (call no_faults (markFailed oct (ev_id e) err)) (\<lambda>_. progress oct w0 e (after_try later)) E"
  unfolding markFailed_def
  by (rule valid_mark_total)
    (auto simp: marks_def event_identity_def event_row_check_def clean_error_def optional_column_def after_try_def is_active_def attempted_def)

lemma mark_sent_total:
    "valid (progress oct w0 e (\<lambda>_. True)) (call no_faults (markSent oct (ev_id e))) (\<lambda>_. progress oct w0 e (after_try later)) E"
  unfolding markSent_def
  by (rule valid_mark_total)
    (auto simp: marks_def event_identity_def event_row_check_def optional_column_def after_try_def is_active_def attempted_def)

lemma backoff_hour: "backoffMs n \<le> 3600000"
  by (simp add: backoffMs_def)

lemma mark_retry_total: "ev_attemptCount e + 1 < 5 \<Longrightarrow> clean_error err \<Longrightarrow>
    valid (progress oct w0 e (\<lambda>_. True)) (call no_faults (markRetry oct (ev_id e) (later + backoffMs n) err))
      (\<lambda>_. progress oct w0 e (after_try later)) E"
  unfolding markRetry_def using backoff_hour [of n]
  by (intro valid_mark_total)
    (auto simp: marks_def event_identity_def event_row_check_def clean_error_def optional_column_def after_try_def is_active_def attempted_def)

lemma give_up_total:
  assumes h: "held e event" and err: "clean_error err"
  shows "valid (progress oct w0 e (\<lambda>_. True)) (give_up oct no_faults later event err)
    (\<lambda>r w. r \<noteq> NothingDue \<and> progress oct w0 e (after_try later) w) E"
proof -
  note hs = held_simps [OF h]
  show ?thesis
  proof (cases "5 \<le> ev_attemptCount event")
    case True
    then have "5 \<le> ev_attemptCount e + 1" using hs by simp
    from True hs show ?thesis
      by (simp add: give_up_def) (rule valid_bind [OF mark_failed_total [OF \<open>5 \<le> ev_attemptCount e + 1\<close> err]], rule valid_return, simp)
  next
    case False
    then have "ev_attemptCount e + 1 < 5" using hs by simp
    from False hs show ?thesis
      by (simp add: give_up_def) (rule valid_bind [OF mark_retry_total [OF \<open>ev_attemptCount e + 1 < 5\<close> err]], rule valid_return, simp)
  qed
qed

text \<open>The status of a response is a number of three digits.\<close>

definition http_ok :: "(http_request \<Rightarrow> 'h \<Rightarrow> http_response result \<times> 'h) \<Rightarrow> bool" where
  "http_ok remote = (\<forall>q h r h'. remote q h = (Inr r, h') \<longrightarrow> rp_status r < 1000)"

lemma http_error_clean: "n < 1000 \<Longrightarrow> clean_error (''REMOTE_HTTP_'' @ show_nat n)"
proof -
  assume n: "n < 1000"
  have "length (show_nat n) \<le> 3" using show_nat_short [of n 2] n by simp
  moreover have d: "\<forall>c\<in>set (show_nat n). \<not> control_char c \<and> c \<noteq> CHR '' ''"
    using show_nat_digits [of n] by (auto simp: control_char_def is_digit_def code_def)
  moreover have "list_all (\<lambda>c. \<not> control_char c) ''REMOTE_HTTP_''" by code_simp
  moreover have "last (show_nat n) \<in> set (show_nat n)" by simp
  ultimately show ?thesis by (auto simp: clean_error_def column_text_def list_all_iff)
qed

lemma deliver_total:
  assumes h: "held e event" and http: "http_ok remote"
  shows "valid (progress oct w0 e (\<lambda>_. True)) (deliver oct new_url remote no_faults config later event)
    (\<lambda>r w. r \<noteq> NothingDue \<and> progress oct w0 e (after_try later) w) (progress oct w0 e (\<lambda>_. True))"
proof -
  note hs = held_simps [OF h]
  let ?T = "progress oct w0 e (\<lambda>_. True)"
  have fetch: "valid ?T (call no_faults (fetch remote q)) (\<lambda>r w. ?T w \<and> rp_status r < 1000) ?T" for q
  proof (rule valid_call)
    fix w r assume "?T w" and r: "fst (fetch remote q w) = Inr r"
    then have "?T (snd (fetch remote q w))" by (auto intro: progress_outside simp: fetch_keeps)
    moreover have "rp_status r < 1000" using r http by (auto simp: fetch_def http_ok_def split: prod.splits)
    ultimately show "?T (snd (fetch remote q w)) \<and> rp_status r < 1000" by simp
  qed (auto intro: progress_outside simp: fetch_keeps)
  have store: "valid ?T (case x of None \<Rightarrow> returnM () | Some (a, i) \<Rightarrow> call no_faults (store_execution (ev_tenantId event) a i)) (\<lambda>_. ?T) ?T" for x
    by (auto split: option.splits intro!: valid_return valid_call intro: progress_outside simp: store_execution_keeps)
  show ?thesis unfolding deliver_def
  proof (rule valid_bind [where R = "\<lambda>_. ?T"], rule valid_lift)
    fix q
    show "valid ?T (bindM (call no_faults (fetch remote q)) (\<lambda>response.
       if 200 \<le> rp_status response \<and> rp_status response < 300 then
         bindM (case execution_of event response of
             None \<Rightarrow> returnM ()
           | Some (approvalId, executionId) \<Rightarrow> call no_faults (store_execution (ev_tenantId event) approvalId executionId)) (\<lambda>_.
         bindM (call no_faults (markSent oct (ev_id event))) (\<lambda>_.
           returnM (Processed EvSent (ev_eventId event))))
       else give_up oct no_faults later event (''REMOTE_HTTP_'' @ show_nat (rp_status response))))
      (\<lambda>r w. r \<noteq> NothingDue \<and> progress oct w0 e (after_try later) w) ?T"
    proof (rule valid_bind [OF fetch])
      fix response :: http_response
      let ?R = "\<lambda>w. ?T w \<and> rp_status response < 1000"
      have sent: "valid ?R (bindM (case execution_of event response of
             None \<Rightarrow> returnM ()
           | Some (approvalId, executionId) \<Rightarrow> call no_faults (store_execution (ev_tenantId event) approvalId executionId)) (\<lambda>_.
         bindM (call no_faults (markSent oct (ev_id event))) (\<lambda>_. returnM (Processed EvSent (ev_eventId event)))))
         (\<lambda>r w. r \<noteq> NothingDue \<and> progress oct w0 e (after_try later) w) ?T"
        by (rule valid_weaken [OF valid_bind [OF store]], unfold hs [THEN conjunct1],
            rule valid_bind [OF mark_sent_total [where later = later]], rule valid_return) auto
      have up: "valid ?R (give_up oct no_faults later event (''REMOTE_HTTP_'' @ show_nat (rp_status response)))
         (\<lambda>r w. r \<noteq> NothingDue \<and> progress oct w0 e (after_try later) w) ?T"
      proof (rule valid_start)
        fix w assume w: "?R w"
        then have "clean_error (''REMOTE_HTTP_'' @ show_nat (rp_status response))" by (intro http_error_clean) simp
        from give_up_total [OF h this] show "valid (\<lambda>v. v = w) (give_up oct no_faults later event (''REMOTE_HTTP_'' @ show_nat (rp_status response)))
         (\<lambda>r w. r \<noteq> NothingDue \<and> progress oct w0 e (after_try later) w) ?T"
          by (rule valid_weaken) (use w in auto)
      qed
      show "valid ?R (if 200 \<le> rp_status response \<and> rp_status response < 300 then
         bindM (case execution_of event response of
             None \<Rightarrow> returnM ()
           | Some (approvalId, executionId) \<Rightarrow> call no_faults (store_execution (ev_tenantId event) approvalId executionId)) (\<lambda>_.
         bindM (call no_faults (markSent oct (ev_id event))) (\<lambda>_.
           returnM (Processed EvSent (ev_eventId event))))
       else give_up oct no_faults later event (''REMOTE_HTTP_'' @ show_nat (rp_status response)))
        (\<lambda>r w. r \<noteq> NothingDue \<and> progress oct w0 e (after_try later) w) ?T"
      proof (cases "200 \<le> rp_status response \<and> rp_status response < 300")
        case True
        show ?thesis unfolding if_P [OF True] by (rule sent)
      next
        case False
        show ?thesis unfolding if_not_P [OF False] by (rule up)
      qed
    qed
  qed auto
qed

lemma exists_valid:
  "(\<And>e. V e \<Longrightarrow> valid (P e) m (Q e) E) \<Longrightarrow> valid (\<lambda>w. \<exists>e. V e \<and> P e w) m (\<lambda>r w. \<exists>e. V e \<and> Q e r w) E"
  unfolding valid_def by (fastforce split: sum.splits prod.splits)

lemma claim_total:
  assumes ok: "outbox_ok oct w0" and low: "\<forall>e\<in>set (ew_events w0). is_active e \<longrightarrow> ev_attemptCount e < 1000"
  shows "valid (\<lambda>w. w = w0) (call no_faults (claimNext oct now))
    (\<lambda>r w. case r of None \<Rightarrow> w = w0 \<and> (\<forall>e\<in>set (ew_events w0). \<not> due_event now e)
       | Some event \<Rightarrow> \<exists>e. (due_event now e \<and> held e event) \<and> progress oct w0 e (\<lambda>_. True) w) E"
proof (rule valid_call_total)
  fix w assume w: "w = w0"
  show "\<exists>r. fst (claimNext oct now w) = Inr r \<and> (case r of None \<Rightarrow> snd (claimNext oct now w) = w0 \<and> (\<forall>e\<in>set (ew_events w0). \<not> due_event now e)
       | Some event \<Rightarrow> \<exists>e. (due_event now e \<and> held e event) \<and> progress oct w0 e (\<lambda>_. True) (snd (claimNext oct now w)))"
    using ok
  proof (cases rule: claim_progress [where now = now])
    case Idle
    then show ?thesis using w by simp
  next
    case (Refused err)
    have False
    proof (cases "js_sort attempt_order (filter (due_event now) (ew_events w0))")
      case Nil
      then show False using Refused by (simp add: claimNext_def)
    next
      case (Cons e rest)
      then have "e \<in> set (js_sort attempt_order (filter (due_event now) (ew_events w0)))" by simp
      then have e: "e \<in> set (ew_events w0)" "due_event now e" by simp_all
      then have a: "is_active e" by (simp add: due_event_def)
      have sel: "\<forall>x\<in>set (ew_events w0). ev_id x = ev_id e \<longleftrightarrow> x = e" using outbox_unique [OF ok] e(1) by blast
      have "event_row_check oct e" "ev_createdAt e \<le> aw_now (ew_tables w0)" "ev_attemptCount e < 1000" using ok low e(1) a by (simp_all add: outbox_ok_def)
      then have "update_event oct (aw_now (ew_tables w0)) e (claimed_event (aw_now (ew_tables w0)) e)
          = Inr ((claimed_event (aw_now (ew_tables w0)) e)\<lparr>ev_updatedAt := aw_now (ew_tables w0)\<rparr>)"
        using a by (auto simp: update_event_Inr event_row_check_def claimed_event_def event_identity_def event_transition_def is_active_def)
      then show False using Refused Cons update_one [OF e(1) sel, of oct "claimed_event (aw_now (ew_tables w0))"] by (simp add: claimNext_def)
    qed
    then show ?thesis ..
  next
    case (Claimed e w')
    have "progress oct w0 e (\<lambda>_. True) w'" using Claimed(7) by (rule progress_weaken) simp
    moreover have "held e ((claimed_event (aw_now (ew_tables w0)) e)\<lparr>ev_updatedAt := aw_now (ew_tables w0)\<rparr>)"
      by (simp add: held_def claimed_event_def event_identity_def)
    ultimately show ?thesis using Claimed(2,4) w by auto
  qed
qed

text \<open>A poll answers, and either nothing was due or one due event has been tried.\<close>

lemma processNext_total:
  assumes ok: "outbox_ok oct w0" and low: "\<forall>e\<in>set (ew_events w0). is_active e \<longrightarrow> ev_attemptCount e < 1000" and http: "http_ok remote"
  shows "valid (\<lambda>w. w = w0) (processNext oct new_url remote no_faults config now later)
    (\<lambda>r w. if r = NothingDue then w = w0 \<and> (\<forall>e\<in>set (ew_events w0). \<not> due_event now e)
       else \<exists>e. due_event now e \<and> progress oct w0 e (after_try later) w)
    (\<lambda>_. False)"
  unfolding processNext_def
proof (rule valid_process [OF claim_total [OF ok low]])
  let ?Q = "\<lambda>r w. if r = NothingDue then w = w0 \<and> (\<forall>e\<in>set (ew_events w0). \<not> due_event now e)
       else \<exists>e. due_event now e \<and> progress oct w0 e (after_try later) w"
  fix event
  have "valid (\<lambda>w. \<exists>e. (due_event now e \<and> held e event) \<and> progress oct w0 e (\<lambda>_. True) w)
      (deliver oct new_url remote no_faults config later event)
      (\<lambda>r w. \<exists>e. (due_event now e \<and> held e event) \<and> r \<noteq> NothingDue \<and> progress oct w0 e (after_try later) w)
      (\<lambda>w. \<exists>e. (due_event now e \<and> held e event) \<and> progress oct w0 e (\<lambda>_. True) w)"
    by (rule exists_valid, rule valid_weaken [OF deliver_total [OF _ http]]) auto
  then show "valid (\<lambda>w. case Some event of None \<Rightarrow> w = w0 \<and> (\<forall>e\<in>set (ew_events w0). \<not> due_event now e)
       | Some event \<Rightarrow> \<exists>e. (due_event now e \<and> held e event) \<and> progress oct w0 e (\<lambda>_. True) w)
      (deliver oct new_url remote no_faults config later event) ?Q
      (\<lambda>w. \<exists>e. (due_event now e \<and> held e event) \<and> progress oct w0 e (\<lambda>_. True) w)"
    unfolding option.case by (rule valid_weaken) auto
  have clean: "clean_error ''ADAPTER_REQUEST_FAILED''" by code_simp
  have "valid (\<lambda>w. \<exists>e. (due_event now e \<and> held e event) \<and> progress oct w0 e (\<lambda>_. True) w)
      (give_up oct no_faults later event ''ADAPTER_REQUEST_FAILED'')
      (\<lambda>r w. \<exists>e. (due_event now e \<and> held e event) \<and> r \<noteq> NothingDue \<and> progress oct w0 e (after_try later) w) (\<lambda>_. False)"
    by (rule exists_valid, rule give_up_total [OF _ clean]) simp
  then show "valid (\<lambda>w. \<exists>e. (due_event now e \<and> held e event) \<and> progress oct w0 e (\<lambda>_. True) w)
      (give_up oct no_faults later event ''ADAPTER_REQUEST_FAILED'') ?Q (\<lambda>_. False)"
    by (rule valid_weaken) auto
qed auto

section \<open>Polling\<close>

text \<open>A worker polls, again and again; \<open>readings k\<close> are the two readings of its clock in the poll \<open>k\<close>. The
  run of \<open>n\<close> polls gives the answer of each.\<close>

fun poll_run :: "(int \<Rightarrow> int \<Rightarrow> ('w, process_outcome) eff) \<Rightarrow> (nat \<Rightarrow> int \<times> int) \<Rightarrow> nat \<Rightarrow> nat \<Rightarrow> nat \<times> 'w
    \<Rightarrow> process_outcome result list \<times> (nat \<times> 'w)" where
  "poll_run poll readings 0 k s = ([], s)"
| "poll_run poll readings (Suc n) k s =
     (case poll (fst (readings k)) (snd (readings k)) s of
        (r, s') \<Rightarrow> (case poll_run poll readings n (Suc k) s' of (rs, s'') \<Rightarrow> (r # rs, s'')))"

lemma poll_run_add:
  assumes "poll_run poll readings a k s = (rs, t)" and "poll_run poll readings b (k + a) t = (qs, u)"
  shows "poll_run poll readings (a + b) k s = (rs @ qs, u)"
  using assms by (induction a arbitrary: k s rs) (auto split: prod.splits)

text \<open>How often an event is tried at most: up to the fifth attempt, and once more when lost acknowledgements
  have used up the five.\<close>

definition attempts_left :: "ecosystem_event \<Rightarrow> nat" where
  "attempts_left e = (if is_active e then max 1 (5 - ev_attemptCount e) else 0)"

definition drain_ok :: "(json \<Rightarrow> nat) \<Rightarrow> 'h ecosystem_world \<Rightarrow> bool" where
  "drain_ok oct w = (outbox_ok oct w \<and> (\<forall>e\<in>set (ew_events w). is_active e \<longrightarrow> ev_attemptCount e < 1000))"

definition carried :: "ecosystem_event \<Rightarrow> ecosystem_event \<Rightarrow> bool" where
  "carried e e' = (event_identity e' = event_identity e \<and> (\<not> is_active e \<longrightarrow> e' = e)
     \<and> (is_active e \<longrightarrow> is_active e' \<or> ev_status e' = EvSent \<or> (ev_status e' = EvFailed \<and> 5 \<le> ev_attemptCount e')))"

lemma carried_trans: "carried a b \<Longrightarrow> carried b c \<Longrightarrow> carried a c"
  by (auto simp: carried_def)

lemma carried_refl [simp]: "carried e e"
  by (simp add: carried_def)

lemma sum_replace:
  fixes f :: "'a \<Rightarrow> nat"
  shows "distinct xs \<Longrightarrow> e \<in> set xs \<Longrightarrow> sum_list (map f (map (\<lambda>x. if x = e then e' else x) xs)) + f e = sum_list (map f xs) + f e'"
proof (induction xs)
  case (Cons x xs)
  show ?case
  proof (cases "x = e")
    case True
    with Cons.prems have "map (\<lambda>x. if x = e then e' else x) xs = xs" by (intro map_idI) auto
    with True show ?thesis by simp
  next
    case False
    with Cons show ?thesis by simp
  qed
qed simp

lemma try_progress:
  assumes p: "progress oct w0 e (after_try later) w" and d: "due_event now e" and ok: "drain_ok oct w0"
  shows "drain_ok oct w" and "list_all2 carried (ew_events w0) (ew_events w)"
    and "sum_list (map attempts_left (ew_events w)) < sum_list (map attempts_left (ew_events w0))"
proof -
  from p obtain e' where e': "ew_events w = replace_event e e' (ew_events w0)" "attempted e e'" "after_try later e'"
    and w0: "outbox_ok oct w0" "e \<in> set (ew_events w0)" by (auto simp: progress_def)
  have act: "is_active e" using d by (simp add: due_event_def)
  show "drain_ok oct w" unfolding drain_ok_def
  proof (intro conjI ballI impI)
    show "outbox_ok oct w" by (rule progress_outbox [OF p])
    fix x assume x: "x \<in> set (ew_events w)" and ax: "is_active x"
    then have "x = e' \<or> x \<in> set (ew_events w0)" by (auto simp: e'(1))
    then show "ev_attemptCount x < 1000" using e'(3) ax ok by (auto simp: after_try_def drain_ok_def)
  qed
  have "carried e e'" using e'(2,3) act by (auto simp: carried_def attempted_def is_active_def)
  then show "list_all2 carried (ew_events w0) (ew_events w)"
    unfolding e'(1) list_all2_map2 by (intro list.rel_refl_strong) simp
  have "distinct (ew_events w0)" using w0(1) by (auto simp: outbox_ok_def distinct_map)
  from sum_replace [OF this w0(2), of attempts_left e']
  have "sum_list (map attempts_left (ew_events w)) + attempts_left e = sum_list (map attempts_left (ew_events w0)) + attempts_left e'"
    by (simp add: e'(1))
  moreover have "attempts_left e' < attempts_left e"
    using e'(2,3) act by (auto simp: attempts_left_def attempted_def after_try_def)
  ultimately show "sum_list (map attempts_left (ew_events w)) < sum_list (map attempts_left (ew_events w0))" by linarith
qed

text \<open>One poll: idle when nothing is due, a try otherwise.\<close>

lemma one_poll:
  assumes ok: "drain_ok oct w" and http: "http_ok remote"
  obtains (Idle) n' where "processNext oct new_url remote no_faults config now later (n, w) = (Inr NothingDue, (n', w))"
      "\<forall>e\<in>set (ew_events w). \<not> due_event now e"
    | (Tried) x n' w' where "processNext oct new_url remote no_faults config now later (n, w) = (Inr x, (n', w'))" "x \<noteq> NothingDue"
      "drain_ok oct w'" "list_all2 carried (ew_events w) (ew_events w')"
      "sum_list (map attempts_left (ew_events w')) < sum_list (map attempts_left (ew_events w))"
proof -
  have o: "outbox_ok oct w" "\<forall>e\<in>set (ew_events w). is_active e \<longrightarrow> ev_attemptCount e < 1000" using ok by (simp_all add: drain_ok_def)
  obtain r n' w' where m: "processNext oct new_url remote no_faults config now later (n, w) = (r, (n', w'))" by (metis prod_cases3)
  from validD [OF processNext_total [OF o http] refl m]
  obtain x where r: "r = Inr x" and x: "if x = NothingDue then w' = w \<and> (\<forall>e\<in>set (ew_events w). \<not> due_event now e)
      else \<exists>e. due_event now e \<and> progress oct w e (after_try later) w'" by (auto split: sum.splits)
  show thesis
  proof (cases "x = NothingDue")
    case True
    with x m r show thesis by (intro Idle) auto
  next
    case False
    with x obtain e where e: "due_event now e" "progress oct w e (after_try later) w'" by auto
    from try_progress [OF e(2,1) ok] m r False show thesis by (intro Tried) auto
  qed
qed

text \<open>While something is active, some later poll tries an event: the clock passes the time it is due.\<close>

lemma next_try:
  assumes ok: "drain_ok oct w" and http: "http_ok remote"
    and e: "e \<in> set (ew_events w)" "is_active e" "ev_nextAttemptAt e = Some t" "t \<le> fst (readings (k + d)) * 1000"
  shows "\<exists>m x n' w'. poll_run (processNext oct new_url remote no_faults config) readings m k (n, w) = (replicate (m - 1) (Inr NothingDue) @ [Inr x], (n', w'))
    \<and> x \<noteq> NothingDue \<and> drain_ok oct w' \<and> list_all2 carried (ew_events w) (ew_events w')
    \<and> sum_list (map attempts_left (ew_events w')) < sum_list (map attempts_left (ew_events w))"
  using e(4)
proof (induction d arbitrary: k n)
  case 0
  then have "due_event (fst (readings k)) e" using e by (simp add: due_event_def)
  with e(1) show ?case
    by (cases rule: one_poll [OF ok http, of new_url config "fst (readings k)" "snd (readings k)" n])
      (blast, intro exI [of _ 1], simp)
next
  case (Suc d)
  show ?case
    using ok http
  proof (cases rule: one_poll [where new_url = new_url and config = config and now = "fst (readings k)" and later = "snd (readings k)" and n = n])
    case (Idle n1)
    have "t \<le> fst (readings (Suc k + d)) * 1000" using Suc.prems by simp
    from Suc.IH [OF this, of n1] obtain m x n' w' where
      m: "poll_run (processNext oct new_url remote no_faults config) readings m (Suc k) (n1, w) = (replicate (m - 1) (Inr NothingDue) @ [Inr x], (n', w'))"
      and rest: "x \<noteq> NothingDue" "drain_ok oct w'" "list_all2 carried (ew_events w) (ew_events w')"
        "sum_list (map attempts_left (ew_events w')) < sum_list (map attempts_left (ew_events w))" by blast
    have "m \<noteq> 0" using m by (cases m) auto
    then have "replicate (Suc m - 1) (Inr NothingDue) = Inr NothingDue # replicate (m - 1) (Inr NothingDue :: process_outcome result)"
      by (cases m) simp_all
    with m Idle(1) rest show ?thesis by (intro exI [of _ "Suc m"]) auto
  next
    case (Tried x n' w')
    then show ?thesis by (intro exI [of _ 1]) simp
  qed
qed

lemma active_due: "outbox_ok oct w \<Longrightarrow> e \<in> set (ew_events w) \<Longrightarrow> is_active e \<Longrightarrow> \<exists>t. ev_nextAttemptAt e = Some t"
  by (auto simp: outbox_ok_def event_row_check_def is_active_def split: event_status.splits)

abbreviation tries :: "process_outcome result list \<Rightarrow> process_outcome result list" where
  "tries \<equiv> filter (\<lambda>r. r \<noteq> Inr NothingDue)"

lemma outbox_drains_from:
  assumes http: "http_ok remote" and clock: "\<And>t. \<exists>k0. \<forall>k\<ge>k0. t \<le> fst (readings k)" and "drain_ok oct w"
  shows "\<exists>m rs n' w'. poll_run (processNext oct new_url remote no_faults config) readings m k (n, w) = (rs, (n', w'))
      \<and> (\<forall>r\<in>set rs. ok r) \<and> length (tries rs) \<le> sum_list (map attempts_left (ew_events w))
      \<and> drain_ok oct w' \<and> (\<forall>e\<in>set (ew_events w'). \<not> is_active e) \<and> list_all2 carried (ew_events w) (ew_events w')"
  using assms(3)
proof (induction "sum_list (map attempts_left (ew_events w))" arbitrary: w k n rule: less_induct)
  case (less w k n)
  show ?case
  proof (cases "\<exists>e\<in>set (ew_events w). is_active e")
    case False
    then show ?thesis using less.prems
      by (intro exI [of _ 0] exI [of _ "[]"] exI [of _ n] exI [of _ w]) (auto intro: list.rel_refl_strong)
  next
    case True
    then obtain e where e: "e \<in> set (ew_events w)" "is_active e" by blast
    then obtain t where t: "ev_nextAttemptAt e = Some t" using active_due [of oct w e] less.prems by (auto simp: drain_ok_def)
    obtain k0 where "\<forall>k\<ge>k0. \<bar>t\<bar> \<le> fst (readings k)" using clock by blast
    then have "\<bar>t\<bar> \<le> fst (readings (k + k0))" by simp
    then have "t \<le> fst (readings (k + k0)) * 1000" by linarith
    from next_try [where readings = readings and k = k and d = k0 and new_url = new_url and config = config and n = n, OF less.prems http e t this]
    obtain m x n1 w1 where m: "poll_run (processNext oct new_url remote no_faults config) readings m k (n, w)
        = (replicate (m - 1) (Inr NothingDue) @ [Inr x], (n1, w1))" and x: "x \<noteq> NothingDue"
      and w1: "drain_ok oct w1" "list_all2 carried (ew_events w) (ew_events w1)"
        "sum_list (map attempts_left (ew_events w1)) < sum_list (map attempts_left (ew_events w))" by blast
    from less.hyps [OF w1(3,1), of "k + m" n1] obtain q rs n' w' where
      q: "poll_run (processNext oct new_url remote no_faults config) readings q (k + m) (n1, w1) = (rs, (n', w'))"
      and rs: "\<forall>r\<in>set rs. ok r" "length (tries rs) \<le> sum_list (map attempts_left (ew_events w1))"
      and w': "drain_ok oct w'" "\<forall>e\<in>set (ew_events w'). \<not> is_active e" "list_all2 carried (ew_events w1) (ew_events w')" by blast
    let ?rs = "(replicate (m - 1) (Inr NothingDue) @ [Inr x]) @ rs"
    note poll_run_add [OF m q]
    moreover have "\<forall>r\<in>set ?rs. ok r" using rs(1) by (auto simp: ok_def)
    moreover have "length (tries ?rs) \<le> sum_list (map attempts_left (ew_events w))" using rs(2) w1(3) x by simp
    moreover have "list_all2 carried (ew_events w) (ew_events w')" by (rule list_all2_trans [OF carried_trans w1(2) w'(3)])
    moreover note w'(1,2)
    ultimately show ?thesis by blast
  qed
qed

text \<open>
  C9: Polling drains the outbox. A worker whose database answers and whose clock passes every time sooner or
  later keeps polling, from any outbox that satisfies the constraints of its table, with events due now or
  later and however often they have been tried, as long as no active one has reached the thousand attempts
  that the table counts to. Remote systems may answer anything (a status has three digits) or nothing. Then
  no poll throws; after some number of polls no event is active, and the events that were have been sent, or
  have failed with five attempts or more, and the others are untouched; and at most five polls for an event,
  or one when it had used up its five, have tried anything.
\<close>

theorem outbox_drains:
  assumes "outbox_ok jsonb_octets w" and "\<forall>e\<in>set (ew_events w). is_active e \<longrightarrow> ev_attemptCount e < 1000" and "http_ok remote"
    and "\<forall>t. \<exists>k0. \<forall>k\<ge>k0. t \<le> fst (readings k)"
  shows "\<exists>m rs n' w'. poll_run (processNext jsonb_octets new_url remote (\<lambda>_. NoFault) config) readings m 0 (n, w) = (rs, (n', w'))
    \<and> (\<forall>r\<in>set rs. \<exists>x. r = Inr x)
    \<and> length (filter (\<lambda>r. r \<noteq> Inr NothingDue) rs) \<le> (\<Sum>e\<leftarrow>filter is_active (ew_events w). max 1 (5 - ev_attemptCount e))
    \<and> list_all2 (\<lambda>e e'. event_identity e' = event_identity e
        \<and> (if is_active e then ev_status e' = EvSent \<or> (ev_status e' = EvFailed \<and> 5 \<le> ev_attemptCount e') else e' = e))
        (ew_events w) (ew_events w')"
proof -
  have "drain_ok jsonb_octets w" using assms(1,2) by (simp add: drain_ok_def)
  from outbox_drains_from [OF assms(3) assms(4) [rule_format] this, of new_url config 0 n]
  obtain m rs n' w' where run: "poll_run (processNext jsonb_octets new_url remote (\<lambda>_. NoFault) config) readings m 0 (n, w) = (rs, (n', w'))"
    and rs: "\<forall>r\<in>set rs. ok r" "length (tries rs) \<le> sum_list (map attempts_left (ew_events w))"
    and w': "\<forall>e\<in>set (ew_events w'). \<not> is_active e" "list_all2 carried (ew_events w) (ew_events w')" by blast
  have sum: "sum_list (map attempts_left xs) = (\<Sum>e\<leftarrow>filter is_active xs. max 1 (5 - ev_attemptCount e))" for xs
    by (induction xs) (simp_all add: attempts_left_def)
  have end_state: "list_all2 (\<lambda>e e'. event_identity e' = event_identity e
        \<and> (if is_active e then ev_status e' = EvSent \<or> (ev_status e' = EvFailed \<and> 5 \<le> ev_attemptCount e') else e' = e))
        (ew_events w) (ew_events w')"
    by (rule list.rel_mono_strong [OF w'(2)]) (use w'(1) in \<open>auto simp: carried_def\<close>)
  have "\<exists>x. r = Inr x" if "ok r" for r :: "process_outcome result" using that by (cases r) simp_all
  with rs(1) have answers: "\<forall>r\<in>set rs. \<exists>x. r = Inr x" by blast
  show ?thesis
    by (intro exI conjI) (fact run answers rs(2) [unfolded sum] end_state)+
qed

theorem outbox_drains_witness:
  "\<exists>m rs n' w'. poll_run (processNext (\<lambda>_. 2) url_sample remote_sample (\<lambda>_. NoFault) config_sample)
      (\<lambda>k. (int k * 1000, int k * 1000)) m 0 (0, outbox_sample) = (rs, (n', w'))
    \<and> length (filter (\<lambda>r. r \<noteq> Inr NothingDue) rs) \<le> 10"
proof -
  have d: "\<forall>e\<in>set (ew_events outbox_sample). is_active e \<longrightarrow> ev_attemptCount e < 1000" by code_simp
  have s: "(\<Sum>e\<leftarrow>filter is_active (ew_events outbox_sample). max 1 (5 - ev_attemptCount e)) = 10" by code_simp
  have h: "http_ok remote_sample" by (simp add: http_ok_def remote_sample_def)
  have t: "\<forall>t. \<exists>k0. \<forall>k\<ge>k0. t \<le> fst ((\<lambda>k. (int k * 1000, int k * 1000)) k)"
  proof
    fix t
    have "t \<le> int k * 1000" if "nat t \<le> k" for k using that by linarith
    then show "\<exists>k0. \<forall>k\<ge>k0. t \<le> fst ((\<lambda>k. (int k * 1000, int k * 1000)) k)" by auto
  qed
  from outbox_drains [OF outbox_sample_ok d h t, of url_sample config_sample 0] show ?thesis unfolding s by blast
qed

section \<open>Workflows of approvals\<close>

lemma give_up_exact:
  assumes h: "held e event" and err: "clean_error err"
  shows "valid (progress oct w0 e (\<lambda>x. ev_status x = EvRetrying)) (give_up oct no_faults later event err)
    (\<lambda>r w. r = Processed (if 5 \<le> ev_attemptCount event then EvFailed else EvRetrying) (ev_eventId e)
       \<and> progress oct w0 e (\<lambda>x. ev_status x = (if 5 \<le> ev_attemptCount event then EvFailed else EvRetrying) \<and> ev_lastError x = Some err) w) E"
proof -
  note hs = held_simps [OF h]
  have failed: "valid (progress oct w0 e (\<lambda>x. ev_status x = EvRetrying)) (call no_faults (markFailed oct (ev_id e) err))
      (\<lambda>_. progress oct w0 e (\<lambda>x. ev_status x = EvFailed \<and> ev_lastError x = Some err)) E" if "5 \<le> ev_attemptCount event"
    unfolding markFailed_def using that hs err
    by (intro valid_mark_total) (auto simp: marks_def event_identity_def event_row_check_def clean_error_def optional_column_def)
  have retry: "valid (progress oct w0 e (\<lambda>x. ev_status x = EvRetrying)) (call no_faults (markRetry oct (ev_id e) t err))
      (\<lambda>_. progress oct w0 e (\<lambda>x. ev_status x = EvRetrying \<and> ev_lastError x = Some err)) E" for t
    unfolding markRetry_def using hs err
    by (intro valid_mark_total) (auto simp: marks_def event_identity_def event_row_check_def clean_error_def optional_column_def)
  show ?thesis
  proof (cases "5 \<le> ev_attemptCount event")
    case True
    show ?thesis unfolding give_up_def if_P [OF True] hs [THEN conjunct1] hs [THEN conjunct2, THEN conjunct1]
      by (rule valid_bind [OF failed [OF True]], rule valid_return) simp
  next
    case False
    show ?thesis unfolding give_up_def if_not_P [OF False] hs [THEN conjunct1] hs [THEN conjunct2, THEN conjunct1]
      by (rule valid_bind [OF retry], rule valid_return) simp
  qed
qed

lemma progress_row: "progress oct w0 e P w \<Longrightarrow> \<exists>x\<in>set (ew_events w). ev_id x = ev_id e \<and> P x"
proof -
  assume "progress oct w0 e P w"
  then obtain e' where e': "ew_events w = replace_event e e' (ew_events w0)" "e \<in> set (ew_events w0)" "attempted e e'" "P e'"
    by (auto simp: progress_def)
  then have "e' \<in> set (ew_events w)" by (simp add: image_iff)
  with e' show ?thesis using attempted_id by blast
qed

lemma give_up_keeps:
  "ew_tables (snd (snd (give_up oct no_faults later event err s))) = ew_tables (snd s)"
  "ew_remote (snd (snd (give_up oct no_faults later event err s))) = ew_remote (snd s)"
  by (auto simp: give_up_def bindM_def call_def Let_def markFailed_def markRetry_def returnM_def update_events_keeps split: sum.splits prod.splits)

text \<open>
  A workflow event whose execution id is accepted by the remote system is never sent: when an event
  for an existing approval is claimed and the workflow engine answers with success and an execution id,
  the id cannot be stored (the lifecycle trigger of the approvals), so the call ends in the catch: the
  workflow has run, yet the event is retried with \<open>ADAPTER_REQUEST_FAILED\<close>, and failed at the fifth attempt.
\<close>

theorem workflow_event_never_sent:
  assumes "reachable (ew_tables w)" and "outbox_ok jsonb_octets w"
    and "claimNext jsonb_octets now w = (Inr (Some event), w1)"
    and "requestFor new_url config event = Inr request"
    and "remote request (ew_remote w) = (Inr response, h')" and "200 \<le> rp_status response \<and> rp_status response < 300"
    and "execution_of event response = Some (approvalId, executionId)"
    and "\<exists>a\<in>set (aw_approvals (ew_tables w)). ap_tenantId a = ev_tenantId event \<and> ap_id a = approvalId"
  shows "\<exists>n' w' e'. processNext jsonb_octets new_url remote (\<lambda>_. NoFault) config now later (n, w)
      = (Inr (Processed (if 5 \<le> ev_attemptCount event then EvFailed else EvRetrying) (ev_eventId event)), (n', w'))
    \<and> ew_remote w' = h' \<and> ew_tables w' = ew_tables w
    \<and> e' \<in> set (ew_events w') \<and> ev_id e' = ev_id event \<and> ev_lastError e' = Some ''ADAPTER_REQUEST_FAILED''
    \<and> ev_status e' = (if 5 \<le> ev_attemptCount event then EvFailed else EvRetrying)"
proof -
  let ?s = "if 5 \<le> ev_attemptCount event then EvFailed else EvRetrying"
  have w1: "ew_tables w1 = ew_tables w" "ew_remote w1 = ew_remote w"
    using assms(3) update_events_keeps [where w = w] unfolding claimNext_def
    by (auto split: list.splits) (metis snd_conv)+
  from assms(2) obtain e where e: "held e event" "progress jsonb_octets w e (\<lambda>x. ev_status x = EvRetrying) w1"
  proof (cases rule: claim_progress [where now = now])
    case (Claimed e w')
    have "progress jsonb_octets w e (\<lambda>x. ev_status x = EvRetrying) w'" using Claimed(7) by (rule progress_weaken) simp
    with Claimed assms(3) show thesis by (intro that [of e]) (auto simp: held_def claimed_event_def event_identity_def)
  qed (use assms(3) in simp_all)
  let ?w2 = "w1\<lparr>ew_remote := h'\<rparr>"
  have fetched: "fetch remote request w1 = (Inr response, ?w2)" by (simp add: fetch_def w1 assms(5))
  have "get_approval (ev_tenantId event) approvalId (ew_tables w) \<noteq> None"
    using assms(8) by (auto simp: get_approval_def find_None_iff)
  then have stored: "store_execution (ev_tenantId event) approvalId executionId ?w2 = (Inl (sqlstate ''55000''), ?w2)"
    using setWorkflow_result [OF reachable_ok [OF assms(1)], of "ev_tenantId event" approvalId executionId] w1(1)
    by (cases w1) (simp add: store_execution_def)
  have run: "processNext jsonb_octets new_url remote no_faults config now later (n, w)
      = give_up jsonb_octets no_faults later event ''ADAPTER_REQUEST_FAILED'' (n + 3, ?w2)"
    using assms(4,6,7) by (simp add: processNext_def process_next_def bindM_def call_def Let_def assms(3) catchM_def deliver_def liftM_def fetched stored numeral_3_eq_3)
  have retrying: "progress jsonb_octets w e (\<lambda>x. ev_status x = EvRetrying) ?w2"
    by (rule progress_outside [OF e(2)]) simp_all
  have clean: "clean_error ''ADAPTER_REQUEST_FAILED''" by code_simp
  obtain r n' w' where g: "give_up jsonb_octets no_faults later event ''ADAPTER_REQUEST_FAILED'' (n + 3, ?w2) = (r, (n', w'))"
    by (metis prod_cases3)
  define s where "s = ?s"
  have x: "valid (progress jsonb_octets w e (\<lambda>x. ev_status x = EvRetrying)) (give_up jsonb_octets no_faults later event ''ADAPTER_REQUEST_FAILED'')
    (\<lambda>r. \<lambda>v. r = Processed s (ev_eventId e) \<and> progress jsonb_octets w e (\<lambda>x. ev_status x = s \<and> ev_lastError x = Some ''ADAPTER_REQUEST_FAILED'') v)
    (\<lambda>_. False)" unfolding s_def by (rule give_up_exact [OF e(1) clean])
  from validD [OF x retrying g] have r: "r = Inr (Processed s (ev_eventId e))"
    and p: "progress jsonb_octets w e (\<lambda>x. ev_status x = s \<and> ev_lastError x = Some ''ADAPTER_REQUEST_FAILED'') w'"
    by (simp_all split: sum.splits)
  have "ew_tables w' = ew_tables w" "ew_remote w' = h'"
    using give_up_keeps [of jsonb_octets later event "''ADAPTER_REQUEST_FAILED''" "(n + 3, ?w2)", unfolded g] w1 by simp_all
  moreover from progress_row [OF p] obtain e' where "e' \<in> set (ew_events w')" "ev_id e' = ev_id e" "ev_status e' = s"
    "ev_lastError e' = Some ''ADAPTER_REQUEST_FAILED''" by blast
  ultimately show ?thesis unfolding run g r s_def [symmetric] using held_simps [OF e(1)] by auto
qed

theorem workflow_event_never_sent_witness:
  "\<exists>n' w'. processNext (\<lambda>_. 2) url_sample remote_sample (\<lambda>_. NoFault) config_sample 1 1 (0, outbox_sample)
     = (Inr (Processed EvRetrying ''a''), (n', w')) \<and> ew_remote w' = 1"
proof -
  define event where "event = (claimed_event 5000 workflow_sample)\<lparr>ev_updatedAt := 5000\<rparr>"
  have c: "fst (claimNext (\<lambda>_. 2) 1 outbox_sample) = Inr (Some event)" unfolding event_def by code_simp
  obtain w1 where c1: "claimNext (\<lambda>_. 2) 1 outbox_sample = (Inr (Some event), w1)"
    using c by (cases "claimNext (\<lambda>_. 2) 1 outbox_sample") simp
  have q: "requestFor url_sample config_sample event
      = Inr (jsonRequest (''http://w/api/workflows/wf/execute'') ''k'' event True)" unfolding event_def by code_simp
  define response where "response = \<lparr>rp_status = 200, rp_json = JObj [(''id'', JStr ''x'')]\<rparr>"
  have x: "execution_of event response = Some (''a'', ''x'')" unfolding event_def response_def by code_simp
  have r: "remote_sample q (ew_remote outbox_sample) = (Inr response, 1)" for q
    by (simp add: remote_sample_def response_def outbox_sample_def)
  have ok: "200 \<le> rp_status response \<and> rp_status response < 300" by (simp add: response_def)
  have "list_ex (\<lambda>a. ap_tenantId a = ''t'' \<and> ap_id a = ''a'') (aw_approvals requested_tables)" by code_simp
  then have a: "\<exists>a\<in>set (aw_approvals (ew_tables outbox_sample)). ap_tenantId a = ev_tenantId event \<and> ap_id a = ''a''"
    by (simp add: list_ex_iff outbox_sample_def event_def claimed_event_def workflow_sample_def)
  have t: "reachable (ew_tables outbox_sample)" by (simp add: outbox_sample_def requested_reachable)
  have n: "ev_attemptCount event = 1" "ev_eventId event = ''a''" by (simp_all add: event_def claimed_event_def workflow_sample_def)
  from workflow_event_never_sent [where remote = remote_sample, OF t outbox_sample_ok c1 q r ok x a, of 1 0] show ?thesis unfolding n by auto
qed

section \<open>A repeated enqueue\<close>

text \<open>
  An event cannot be enqueued twice: the conflict clause of the second enqueue updates the stored row,
  which is queued or disabled, and the lifecycle trigger refuses an update that keeps such a status.
  So the enqueue that should have answered with the stored event throws, and the outbox stays as it was.
\<close>

theorem enqueue_twice_refused:
  assumes "outbox_ok jsonb_octets w" and "\<forall>e\<in>set (ew_events w). ev_id e \<noteq> new_id"
    and "enqueue jsonb_octets config new_id now target eventType eventId tenantId payload w = (Inr event, w')"
    and "\<forall>e\<in>set (ew_events w). ev_tenantId e = tenantId \<and> ev_targetSystem e = target \<longrightarrow> ev_eventId e \<noteq> eventId"
  shows "ew_events w' = ew_events w @ [event] \<and> outbox_ok jsonb_octets w'
    \<and> enqueue jsonb_octets config other_id now target eventType eventId tenantId payload w' = (Inl (Thrown ''55000''), w')"
proof -
  have none: "find (same_event event) (ew_events w) = None"
    if "ev_tenantId event = tenantId" "ev_targetSystem event = target" "ev_eventId event = eventId" for event
    using assms(4) that by (auto simp: find_None_iff same_event_def)
  from assms(3) have w': "w' = w\<lparr>ew_events := ew_events w @ [event]\<rparr>" "event_row_check jsonb_octets event"
    "ev_id event = new_id" "ev_tenantId event = tenantId" "ev_targetSystem event = target" "ev_eventId event = eventId"
    "ev_createdAt event = aw_now (ew_tables w)" "ev_status event \<in> {EvQueued, EvDisabled}"
    by (auto simp: enqueue_def enqueue_event_def Let_def none split: if_splits)
  have ok: "outbox_ok jsonb_octets w'" using assms(1,2) w' by (auto simp: outbox_ok_def)
  let ?row = "\<lambda>i. \<lparr>ev_id = i, ev_tenantId = tenantId, ev_eventType = eventType, ev_eventId = eventId, ev_payload = payload,
      ev_status = (if enabledFor config target then EvQueued else EvDisabled), ev_targetSystem = target,
      ev_nextAttemptAt = (if enabledFor config target then Some (now * 1000) else None), ev_attemptCount = 0, ev_lastError = None,
      ev_createdAt = aw_now (ew_tables w), ev_updatedAt = aw_now (ew_tables w)\<rparr>"
  have check: "event_row_check jsonb_octets (?row i)" for i
  proof -
    have "event = ?row new_id" using assms(3)
      by (auto simp: enqueue_def enqueue_event_def Let_def none split: if_splits)
    with w'(2) show ?thesis by (simp add: event_row_check_def)
  qed
  have mem: "event \<in> set (ew_events w')" by (simp add: w'(1))
  have sel: "\<forall>x\<in>set (ew_events w'). same_event (?row other_id) x \<longleftrightarrow> x = event"
    using assms(4) w' by (auto simp: same_event_def)
  have "update_event jsonb_octets (aw_now (ew_tables w')) event event = Inl (sqlstate ''55000'')"
    using w'(8) by (auto simp: update_event_def Let_def event_transition_def)
  then have u: "update_events jsonb_octets (same_event (?row other_id)) (\<lambda>e. e) w' = (Inl (sqlstate ''55000''), w')"
    using update_one [OF mem sel, of jsonb_octets "\<lambda>e. e"] by simp
  have f: "find (same_event (?row other_id)) (ew_events w') \<noteq> None" using mem sel by (auto simp: find_None_iff)
  have t: "ew_tables w' = ew_tables w" by (simp add: w'(1))
  show ?thesis using u f check ok
    by (auto simp: enqueue_def enqueue_event_def Let_def t sqlstate_def w'(1))
qed

theorem enqueue_twice_refused_witness:
  "fst (enqueue (\<lambda>_. 2) config_sample ''n2'' 0 NotificationHub ''notification.event'' ''z'' ''t'' []
      (snd (enqueue (\<lambda>_. 2) config_sample ''n1'' 0 NotificationHub ''notification.event'' ''z'' ''t'' [] outbox_sample)))
    = Inl (Thrown ''55000'')"
proof -
  have first: "ok (fst (enqueue (\<lambda>_. 2) config_sample ''n1'' 0 NotificationHub ''notification.event'' ''z'' ''t'' [] outbox_sample))"
    by code_simp
  then obtain event w' where w': "enqueue (\<lambda>_. 2) config_sample ''n1'' 0 NotificationHub ''notification.event'' ''z'' ''t'' [] outbox_sample
      = (Inr event, w')" by (cases "enqueue (\<lambda>_. 2) config_sample ''n1'' 0 NotificationHub ''notification.event'' ''z'' ''t'' [] outbox_sample")
        (auto simp: ok_def split: sum.splits)
  have new: "\<forall>e\<in>set (ew_events outbox_sample). ev_id e \<noteq> ''n1''"
    "\<forall>e\<in>set (ew_events outbox_sample). ev_tenantId e = ''t'' \<and> ev_targetSystem e = NotificationHub \<longrightarrow> ev_eventId e \<noteq> ''z''"
    by (simp_all add: outbox_sample_def workflow_sample_def notification_sample_def)
  from enqueue_twice_refused [OF outbox_sample_ok new(1) w' new(2)] show ?thesis by (simp add: w')
qed

end
