(* ===== verification/Auth_Errors.thy ===== *)
theory Auth_Errors
  imports Domain
begin

text \<open>core/tenant/auth-errors.ts: the errors of authentication and authorisation.\<close>

datatype auth_error_code =
    AuthRequired | AuthCredentialConflict | AuthInvalid | CsrfInvalid | TenantInactive | UserInactive | Forbidden
  | AuthDependencyUnavailable

definition authError :: "auth_error_code \<Rightarrow> js_error" where
  "authError c = (case c of
       AuthRequired \<Rightarrow> AppError ''AUTH_REQUIRED'' ''Authentication is required.'' 401
     | AuthCredentialConflict \<Rightarrow> AppError ''AUTH_CREDENTIAL_CONFLICT'' ''Multiple authentication credentials are not allowed.'' 401
     | AuthInvalid \<Rightarrow> AppError ''AUTH_INVALID'' ''Authentication credentials are invalid.'' 401
     | CsrfInvalid \<Rightarrow> AppError ''CSRF_INVALID'' ''Session request validation failed.'' 403
     | TenantInactive \<Rightarrow> AppError ''TENANT_INACTIVE'' ''The tenant is inactive.'' 403
     | UserInactive \<Rightarrow> AppError ''USER_INACTIVE'' ''The user is inactive.'' 403
     | Forbidden \<Rightarrow> AppError ''FORBIDDEN'' ''The requested action is not permitted.'' 403
     | AuthDependencyUnavailable \<Rightarrow> AppError ''AUTH_DEPENDENCY_UNAVAILABLE'' ''Authentication is temporarily unavailable.'' 503)"

text \<open>The code of an error tells which it is.\<close>

lemma authError_inject [simp]: "authError a = authError b \<longleftrightarrow> a = b"
  by (cases a; cases b) (simp_all add: authError_def)

end
