(* ===== verification/Limiters.thy ===== *)
theory Limiters
  imports Auth_Errors Base64url
begin

text \<open>
  The rate limiters: core/shared/rolling-window-limiter.ts, core/tenant/auth-session-limiter.ts,
  core/tenant/protected-users-limiter.ts and core/tenant/registration-limiter.ts, each in process and as
  the Lua script it runs in Redis. Times are milliseconds. A sorted set of Redis is the ascending list of
  its scores (its members are fresh UUIDs) with the time at which its key expires. The digests, the IP
  canonicalisation and the health of the Redis client are parameters.
\<close>

section \<open>Decisions\<close>

record limit_decision =
  ld_allowed :: bool
  ld_retryAfterSeconds :: "int option"

definition admitted_decision :: limit_decision where
  "admitted_decision = \<lparr>ld_allowed = True, ld_retryAfterSeconds = None\<rparr>"

definition refused_decision :: "int \<Rightarrow> limit_decision" where
  "refused_decision retry = \<lparr>ld_allowed = False, ld_retryAfterSeconds = Some retry\<rparr>"

definition ceil_seconds :: "int \<Rightarrow> int" where
  "ceil_seconds ms = - ((- ms) div 1000)"

definition retry_seconds :: "int \<Rightarrow> int \<Rightarrow> int \<Rightarrow> int" where
  "retry_seconds oldest windowMs now = max 1 (ceil_seconds (oldest + windowMs - now))"

section \<open>The rolling window in process\<close>

record local_limiter =
  ll_buckets :: "(string \<times> int list) list"
  ll_closed :: bool

definition new_local_limiter :: local_limiter where
  "new_local_limiter = \<lparr>ll_buckets = [], ll_closed = False\<rparr>"

definition bucket :: "(string \<times> int list) list \<Rightarrow> string \<Rightarrow> int list" where
  "bucket buckets key = (case map_of buckets key of None \<Rightarrow> [] | Some ts \<Rightarrow> ts)"

definition local_admit :: "js_error \<Rightarrow> string \<Rightarrow> nat \<Rightarrow> int \<Rightarrow> int \<Rightarrow> local_limiter \<Rightarrow> limit_decision result \<times> local_limiter" where
  "local_admit unavailable key limit windowMs now s =
     (if ll_closed s then (Inl unavailable, s)
      else let admitted = filter (\<lambda>v. now - windowMs < v) (bucket (ll_buckets s) key) in
        if limit \<le> length admitted then
          (Inr (refused_decision (retry_seconds (hd admitted) windowMs now)),
           s\<lparr>ll_buckets := AList.update key admitted (ll_buckets s)\<rparr>)
        else (Inr admitted_decision, s\<lparr>ll_buckets := AList.update key (admitted @ [now]) (ll_buckets s)\<rparr>))"

definition local_close :: "local_limiter \<Rightarrow> local_limiter" where
  "local_close s = s\<lparr>ll_closed := True, ll_buckets := []\<rparr>"

section \<open>The rolling window in Redis\<close>

text \<open>Keys with their scores and the time at which they expire.\<close>

type_synonym redis_store = "string \<Rightarrow> (int list \<times> int) option"

definition zset :: "int \<Rightarrow> redis_store \<Rightarrow> string \<Rightarrow> int list" where
  "zset now s key = (case s key of None \<Rightarrow> [] | Some (scores, expiry) \<Rightarrow> if expiry \<le> now then [] else scores)"

text \<open>\<open>ZREMRANGEBYSCORE key -inf cutoff\<close>; the expiry stays.\<close>

definition zremrange :: "int \<Rightarrow> string \<Rightarrow> int \<Rightarrow> redis_store \<Rightarrow> redis_store" where
  "zremrange now key cutoff s =
     (case s key of
        None \<Rightarrow> s
      | Some (scores, expiry) \<Rightarrow>
          if expiry \<le> now then s(key := None) else s(key := Some (filter (\<lambda>v. cutoff < v) scores, expiry)))"

text \<open>\<open>ZADD key now member\<close> and \<open>PEXPIRE key ttl\<close>.\<close>

definition zadd_pexpire :: "int \<Rightarrow> string \<Rightarrow> int \<Rightarrow> redis_store \<Rightarrow> redis_store" where
  "zadd_pexpire now key ttl s = s(key := Some (insort now (zset now s key), now + ttl))"

text \<open>The reply of a script, an array of integers, as \<open>parseDecision\<close> and \<open>decision\<close> read it.\<close>

definition safe_integer :: "int \<Rightarrow> bool" where
  "safe_integer i = (- 9007199254740991 \<le> i \<and> i \<le> 9007199254740991)"

definition parseDecision :: "js_error \<Rightarrow> int list \<Rightarrow> limit_decision result" where
  "parseDecision unavailable reply =
     (case reply of
        [allowed, retry] \<Rightarrow>
          if (allowed \<noteq> 0 \<and> allowed \<noteq> 1) \<or> \<not> safe_integer retry \<or> retry < 0 then Inl unavailable
          else if allowed = 1 then Inr admitted_decision else Inr (refused_decision (max 1 retry))
      | _ \<Rightarrow> Inl unavailable)"

definition rolling_script :: "string \<Rightarrow> int \<Rightarrow> nat \<Rightarrow> int \<Rightarrow> redis_store \<Rightarrow> int list \<times> redis_store" where
  "rolling_script key windowMs limit now s =
     (let s1 = zremrange now key (now - windowMs) s; scores = zset now s1 key in
      if limit \<le> length scores then ([0, retry_seconds (hd scores) windowMs now], s1)
      else ([1, 0], zadd_pexpire now key (windowMs * 2) s1))"

definition redis_admit :: "js_error \<Rightarrow> bool \<Rightarrow> string \<Rightarrow> string \<Rightarrow> nat \<Rightarrow> int \<Rightarrow> int \<Rightarrow> redis_store
    \<Rightarrow> limit_decision result \<times> redis_store" where
  "redis_admit unavailable ready keyPrefix key limit windowMs now s =
     (if \<not> ready then (Inl unavailable, s)
      else case rolling_script (keyPrefix @ key) windowMs limit now s of
        (reply, s') \<Rightarrow> (parseDecision unavailable reply, s'))"

section \<open>Logins and refreshes\<close>

definition LOGIN_WINDOW :: int where
  "LOGIN_WINDOW = 15 * 60000"

definition REFRESH_WINDOW :: int where
  "REFRESH_WINDOW = 5 * 60000"

definition auth_unavailable :: js_error where
  "auth_unavailable = authError AuthDependencyUnavailable"

text \<open>\<open>sha256\<close> with its hexadecimal text is a parameter.\<close>

definition scoped_digest :: "(string \<Rightarrow> string) \<Rightarrow> string \<Rightarrow> string \<Rightarrow> string" where
  "scoped_digest sha256_hex scope v = sha256_hex (utf8_bytes (scope @ [CHR 0x00] @ v))"

definition loginAccountBucket :: "(string \<Rightarrow> string) \<Rightarrow> string \<Rightarrow> string \<Rightarrow> string" where
  "loginAccountBucket sha256_hex tenantId email = scoped_digest sha256_hex ''login-account'' (tenantId @ [CHR 0x00] @ email)"

definition accountKey :: "string \<Rightarrow> string" where
  "accountKey v = ''account:'' @ v"

definition ipKey :: "(string \<Rightarrow> string) \<Rightarrow> string \<Rightarrow> string \<Rightarrow> string" where
  "ipKey sha256_hex scope v = ''ip:'' @ scope @ '':'' @ scoped_digest sha256_hex scope v"

definition familyKey :: "(string \<Rightarrow> string) \<Rightarrow> string \<Rightarrow> string" where
  "familyKey sha256_hex v = ''family:'' @ scoped_digest sha256_hex ''family'' v"

definition current :: "(string \<times> int list) list \<Rightarrow> string \<Rightarrow> int \<Rightarrow> int \<Rightarrow> int list" where
  "current buckets key window now = filter (\<lambda>entry. now - window < entry) (bucket buckets key)"

definition retry :: "int list \<Rightarrow> int \<Rightarrow> int \<Rightarrow> int" where
  "retry entries window now = (case entries of [] \<Rightarrow> 1 | t # _ \<Rightarrow> retry_seconds t window now)"

definition admitOne :: "string \<Rightarrow> nat \<Rightarrow> int \<Rightarrow> int \<Rightarrow> (string \<times> int list) list \<Rightarrow> limit_decision \<times> (string \<times> int list) list" where
  "admitOne key limit window now buckets =
     (let entries = current buckets key window now in
      if limit \<le> length entries then (refused_decision (retry entries window now), buckets)
      else (admitted_decision, AList.update key (entries @ [now]) buckets))"

definition admitDual :: "string \<Rightarrow> string \<Rightarrow> nat \<Rightarrow> nat \<Rightarrow> int \<Rightarrow> int \<Rightarrow> (string \<times> int list) list
    \<Rightarrow> limit_decision \<times> (string \<times> int list) list" where
  "admitDual first second firstLimit secondLimit window now buckets =
     (let left = current buckets first window now; right = current buckets second window now;
          leftFull = firstLimit \<le> length left; rightFull = secondLimit \<le> length right in
      if leftFull \<or> rightFull then
        (refused_decision (max (if leftFull then retry left window now else 0) (if rightFull then retry right window now else 0)), buckets)
      else (admitted_decision, AList.update second (right @ [now]) (AList.update first (left @ [now]) buckets)))"

text \<open>The operations of the limiter in process, which throw once it is closed.\<close>

definition ready :: "(int \<Rightarrow> (string \<times> int list) list \<Rightarrow> limit_decision \<times> (string \<times> int list) list)
    \<Rightarrow> int \<Rightarrow> local_limiter \<Rightarrow> limit_decision result \<times> local_limiter" where
  "ready admit now s =
     (if ll_closed s then (Inl auth_unavailable, s)
      else case admit now (ll_buckets s) of (d, buckets) \<Rightarrow> (Inr d, s\<lparr>ll_buckets := buckets\<rparr>))"

definition admitLogin :: "(string \<Rightarrow> string) \<Rightarrow> string \<Rightarrow> string \<Rightarrow> int \<Rightarrow> local_limiter \<Rightarrow> limit_decision result \<times> local_limiter" where
  "admitLogin sha256_hex account clientIp = ready (admitDual (accountKey account) (ipKey sha256_hex ''login'' clientIp) 5 20 LOGIN_WINDOW)"

definition admitRefreshIp :: "(string \<Rightarrow> string) \<Rightarrow> string \<Rightarrow> int \<Rightarrow> local_limiter \<Rightarrow> limit_decision result \<times> local_limiter" where
  "admitRefreshIp sha256_hex clientIp = ready (admitOne (ipKey sha256_hex ''refresh'' clientIp) 60 REFRESH_WINDOW)"

definition admitRefreshFamily :: "(string \<Rightarrow> string) \<Rightarrow> string \<Rightarrow> int \<Rightarrow> local_limiter \<Rightarrow> limit_decision result \<times> local_limiter" where
  "admitRefreshFamily sha256_hex familyId = ready (admitOne (familyKey sha256_hex familyId) 10 REFRESH_WINDOW)"

text \<open>The two Lua scripts.\<close>

definition script_retry :: "int list \<Rightarrow> int \<Rightarrow> int \<Rightarrow> int" where
  "script_retry scores window now = (case scores of [] \<Rightarrow> 1 | t # _ \<Rightarrow> retry_seconds t window now)"

definition dual_script :: "string \<Rightarrow> string \<Rightarrow> int \<Rightarrow> nat \<Rightarrow> nat \<Rightarrow> int \<Rightarrow> redis_store \<Rightarrow> int list \<times> redis_store" where
  "dual_script key1 key2 window limit1 limit2 now s =
     (let s1 = zremrange now key2 (now - window) (zremrange now key1 (now - window) s);
          z1 = zset now s1 key1; z2 = zset now s1 key2; full1 = limit1 \<le> length z1; full2 = limit2 \<le> length z2 in
      if full1 \<or> full2 then
        ([0, max (if full1 then script_retry z1 window now else 0) (if full2 then script_retry z2 window now else 0)], s1)
      else ([1, 0], zadd_pexpire now key2 (window * 2) (zadd_pexpire now key1 (window * 2) s1)))"

definition single_script :: "string \<Rightarrow> int \<Rightarrow> nat \<Rightarrow> int \<Rightarrow> redis_store \<Rightarrow> int list \<times> redis_store" where
  "single_script key window limit now s =
     (let s1 = zremrange now key (now - window) s; scores = zset now s1 key in
      if limit \<le> length scores then ([0, retry_seconds (hd scores) window now], s1)
      else ([1, 0], zadd_pexpire now key (window * 2) s1))"

text \<open>\<open>decision\<close> of the session limiter does not ask for a retry that is not negative.\<close>

definition auth_decision :: "int list \<Rightarrow> limit_decision result" where
  "auth_decision reply =
     (case reply of
        [allowed, retryAfter] \<Rightarrow>
          if (allowed \<noteq> 0 \<and> allowed \<noteq> 1) \<or> \<not> safe_integer retryAfter then Inl auth_unavailable
          else if allowed = 1 then Inr admitted_decision else Inr (refused_decision (max 1 retryAfter))
      | _ \<Rightarrow> Inl auth_unavailable)"

definition evaluate :: "bool \<Rightarrow> (redis_store \<Rightarrow> int list \<times> redis_store) \<Rightarrow> redis_store \<Rightarrow> limit_decision result \<times> redis_store" where
  "evaluate client_ready script s =
     (if \<not> client_ready then (Inl auth_unavailable, s) else case script s of (reply, s') \<Rightarrow> (auth_decision reply, s'))"

definition redis_admitLogin :: "(string \<Rightarrow> string) \<Rightarrow> bool \<Rightarrow> string \<Rightarrow> string \<Rightarrow> string \<Rightarrow> int \<Rightarrow> redis_store
    \<Rightarrow> limit_decision result \<times> redis_store" where
  "redis_admitLogin sha256_hex client_ready keyPrefix account ip now =
     evaluate client_ready (dual_script (keyPrefix @ accountKey account) (keyPrefix @ ipKey sha256_hex ''login'' ip) LOGIN_WINDOW 5 20 now)"

definition redis_admitRefreshIp :: "(string \<Rightarrow> string) \<Rightarrow> bool \<Rightarrow> string \<Rightarrow> string \<Rightarrow> int \<Rightarrow> redis_store
    \<Rightarrow> limit_decision result \<times> redis_store" where
  "redis_admitRefreshIp sha256_hex client_ready keyPrefix ip now =
     evaluate client_ready (single_script (keyPrefix @ ipKey sha256_hex ''refresh'' ip) REFRESH_WINDOW 60 now)"

definition redis_admitRefreshFamily :: "(string \<Rightarrow> string) \<Rightarrow> bool \<Rightarrow> string \<Rightarrow> string \<Rightarrow> int \<Rightarrow> redis_store
    \<Rightarrow> limit_decision result \<times> redis_store" where
  "redis_admitRefreshFamily sha256_hex client_ready keyPrefix family now =
     evaluate client_ready (single_script (keyPrefix @ familyKey sha256_hex family) REFRESH_WINDOW 10 now)"

section \<open>Protected routes\<close>

datatype protected_method = GET | POST | PATCH | PUT

definition method_text :: "protected_method \<Rightarrow> string" where
  "method_text m = (case m of GET \<Rightarrow> ''GET'' | POST \<Rightarrow> ''POST'' | PATCH \<Rightarrow> ''PATCH'' | PUT \<Rightarrow> ''PUT'')"

definition USERS_LIMIT_WINDOW_MS :: int where "USERS_LIMIT_WINDOW_MS = 60000"
definition USERS_LIST_LIMIT :: nat where "USERS_LIST_LIMIT = 60"
definition USERS_MUTATION_LIMIT :: nat where "USERS_MUTATION_LIMIT = 30"
definition API_KEY_ROTATION_LIMIT :: nat where "API_KEY_ROTATION_LIMIT = 5"
definition PASSWORD_PROVISION_LIMIT :: nat where "PASSWORD_PROVISION_LIMIT = 5"
definition CLOUD_ACCOUNTS_LIST_LIMIT :: nat where "CLOUD_ACCOUNTS_LIST_LIMIT = 120"
definition CLOUD_ACCOUNTS_MUTATION_LIMIT :: nat where "CLOUD_ACCOUNTS_MUTATION_LIMIT = 60"
definition CLOUD_ACCOUNTS_DEACTIVATE_LIMIT :: nat where "CLOUD_ACCOUNTS_DEACTIVATE_LIMIT = 20"
definition IMPORTS_LIST_LIMIT :: nat where "IMPORTS_LIST_LIMIT = 120"
definition IMPORTS_CREATE_LIMIT :: nat where "IMPORTS_CREATE_LIMIT = 20"
definition PRICE_TABLES_LIST_LIMIT :: nat where "PRICE_TABLES_LIST_LIMIT = 120"
definition PRICE_TABLES_MUTATION_LIMIT :: nat where "PRICE_TABLES_MUTATION_LIMIT = 20"
definition FORECAST_LIST_LIMIT :: nat where "FORECAST_LIST_LIMIT = 120"
definition FORECAST_MODEL_MUTATION_LIMIT :: nat where "FORECAST_MODEL_MUTATION_LIMIT = 60"
definition FORECAST_RUN_MUTATION_LIMIT :: nat where "FORECAST_RUN_MUTATION_LIMIT = 30"
definition OPTIMIZER_POLICIES_LIST_LIMIT :: nat where "OPTIMIZER_POLICIES_LIST_LIMIT = 120"
definition OPTIMIZER_POLICIES_MUTATION_LIMIT :: nat where "OPTIMIZER_POLICIES_MUTATION_LIMIT = 30"
definition OPTIMIZER_RUNS_LIST_LIMIT :: nat where "OPTIMIZER_RUNS_LIST_LIMIT = 120"
definition OPTIMIZER_RUNS_MUTATION_LIMIT :: nat where "OPTIMIZER_RUNS_MUTATION_LIMIT = 20"
definition RECOMMENDATIONS_LIST_LIMIT :: nat where "RECOMMENDATIONS_LIST_LIMIT = 120"
definition APPROVALS_LIST_LIMIT :: nat where "APPROVALS_LIST_LIMIT = 120"
definition APPROVALS_MUTATION_LIMIT :: nat where "APPROVALS_MUTATION_LIMIT = 30"
definition REPORTS_LIST_LIMIT :: nat where "REPORTS_LIST_LIMIT = 120"
definition BACKTESTS_LIST_LIMIT :: nat where "BACKTESTS_LIST_LIMIT = 120"
definition BACKTESTS_MUTATION_LIMIT :: nat where "BACKTESTS_MUTATION_LIMIT = 10"
definition NOTIFICATIONS_LIST_LIMIT :: nat where "NOTIFICATIONS_LIST_LIMIT = 120"
definition NOTIFICATIONS_MUTATION_LIMIT :: nat where "NOTIFICATIONS_MUTATION_LIMIT = 60"
definition NOTIFICATION_PREFERENCES_LIST_LIMIT :: nat where "NOTIFICATION_PREFERENCES_LIST_LIMIT = 60"
definition NOTIFICATION_PREFERENCES_MUTATION_LIMIT :: nat where "NOTIFICATION_PREFERENCES_MUTATION_LIMIT = 30"
definition INTEGRATION_STATUS_LIMIT :: nat where "INTEGRATION_STATUS_LIMIT = 60"
definition INTEGRATION_TEST_LIMIT :: nat where "INTEGRATION_TEST_LIMIT = 10"
definition SCENARIOS_LIST_LIMIT :: nat where "SCENARIOS_LIST_LIMIT = 120"
definition SCENARIOS_MUTATION_LIMIT :: nat where "SCENARIOS_MUTATION_LIMIT = 60"
definition AUDIT_LOG_LIST_LIMIT :: nat where "AUDIT_LOG_LIST_LIMIT = 60"

definition protectedRouteLimit :: "protected_method \<Rightarrow> string \<Rightarrow> nat" where
  "protectedRouteLimit m route =
     (let by_method = (\<lambda>list_limit mutation_limit. if m = GET then list_limit else mutation_limit) in
      if m = POST \<and> route = ''/api/api-keys/rotate'' then API_KEY_ROTATION_LIMIT
      else if m = POST \<and> route = ''/api/cloud-accounts/{id}/deactivate'' then CLOUD_ACCOUNTS_DEACTIVATE_LIMIT
      else if prefix ''/api/cloud-accounts'' route then by_method CLOUD_ACCOUNTS_LIST_LIMIT CLOUD_ACCOUNTS_MUTATION_LIMIT
      else if prefix ''/api/imports'' route then by_method IMPORTS_LIST_LIMIT IMPORTS_CREATE_LIMIT
      else if prefix ''/api/price-tables'' route then by_method PRICE_TABLES_LIST_LIMIT PRICE_TABLES_MUTATION_LIMIT
      else if prefix ''/api/forecast-models'' route then by_method FORECAST_LIST_LIMIT FORECAST_MODEL_MUTATION_LIMIT
      else if prefix ''/api/forecast-runs'' route then by_method FORECAST_LIST_LIMIT FORECAST_RUN_MUTATION_LIMIT
      else if prefix ''/api/optimizer-policies'' route then by_method OPTIMIZER_POLICIES_LIST_LIMIT OPTIMIZER_POLICIES_MUTATION_LIMIT
      else if prefix ''/api/optimizer-runs'' route then by_method OPTIMIZER_RUNS_LIST_LIMIT OPTIMIZER_RUNS_MUTATION_LIMIT
      else if prefix ''/api/approvals'' route then by_method APPROVALS_LIST_LIMIT APPROVALS_MUTATION_LIMIT
      else if prefix ''/api/backtests'' route then by_method BACKTESTS_LIST_LIMIT BACKTESTS_MUTATION_LIMIT
      else if route = ''/api/settings/notifications''
        then by_method NOTIFICATION_PREFERENCES_LIST_LIMIT NOTIFICATION_PREFERENCES_MUTATION_LIMIT
      else if prefix ''/api/notifications'' route then by_method NOTIFICATIONS_LIST_LIMIT NOTIFICATIONS_MUTATION_LIMIT
      else if route = ''/api/integrations/status'' then INTEGRATION_STATUS_LIMIT
      else if route = ''/api/integrations/test-event'' then INTEGRATION_TEST_LIMIT
      else if prefix ''/api/scenarios'' route then by_method SCENARIOS_LIST_LIMIT SCENARIOS_MUTATION_LIMIT
      else if route = ''/api/audit-log'' then AUDIT_LOG_LIST_LIMIT
      else if prefix ''/api/recommendations'' route then RECOMMENDATIONS_LIST_LIMIT
      else if prefix ''/api/reports'' route then REPORTS_LIST_LIMIT
      else if m = PUT \<and> route = ''/api/users/{id}/credentials/password'' then PASSWORD_PROVISION_LIMIT
      else by_method USERS_LIST_LIMIT USERS_MUTATION_LIMIT)"

text \<open>\<open>context.actorUserId ?? context.apiKeyId ?? 'anonymous'\<close>; an empty target is no target.\<close>

definition protectedUsersBucketDigest :: "(string \<Rightarrow> string) \<Rightarrow> request_context \<Rightarrow> protected_method \<Rightarrow> string \<Rightarrow> string option \<Rightarrow> string" where
  "protectedUsersBucketDigest sha256_hex ctx m route targetId =
     (let z = [CHR 0x00];
          actor = (case ctx_actorUserId ctx of Some u \<Rightarrow> u | None \<Rightarrow> (case ctx_apiKeyId ctx of Some k \<Rightarrow> k | None \<Rightarrow> ''anonymous''));
          target = (case targetId of Some i \<Rightarrow> if i = [] then [] else z @ ''target'' @ z @ i | None \<Rightarrow> []) in
      sha256_hex (utf8_bytes (''protected-route-limit:v2'' @ z @ ctx_tenantId ctx @ z @ actor @ z @ route @ z @ method_text m @ target)))"

definition protected_unavailable :: js_error where
  "protected_unavailable =
     AppError ''PROTECTED_RATE_LIMIT_DEPENDENCY_UNAVAILABLE'' ''Protected request limiting is temporarily unavailable.'' 503"

text \<open>\<open>protectedLimiter\<close> over either rolling window.\<close>

definition protected_admit :: "(string \<Rightarrow> string) \<Rightarrow> (string \<Rightarrow> nat \<Rightarrow> int \<Rightarrow> int \<Rightarrow> 's \<Rightarrow> limit_decision result \<times> 's) \<Rightarrow> request_context
    \<Rightarrow> protected_method \<Rightarrow> string \<Rightarrow> string option \<Rightarrow> int \<Rightarrow> 's \<Rightarrow> limit_decision result \<times> 's" where
  "protected_admit sha256_hex admit ctx m route targetId =
     admit (protectedUsersBucketDigest sha256_hex ctx m route targetId) (protectedRouteLimit m route) USERS_LIMIT_WINDOW_MS"

definition trusted_edge_admit :: "'s \<Rightarrow> limit_decision result \<times> 's" where
  "trusted_edge_admit s = (Inr admitted_decision, s)"

section \<open>Registrations\<close>

definition REGISTRATION_LIMIT :: nat where "REGISTRATION_LIMIT = 5"
definition REGISTRATION_WINDOW_MS :: int where "REGISTRATION_WINDOW_MS = 60000"

definition registration_unavailable :: js_error where
  "registration_unavailable = AppError ''REGISTRATION_DEPENDENCY_UNAVAILABLE'' ''Registration is temporarily unavailable.'' 503"

text \<open>\<open>process_ip\<close> is \<open>ipaddr.process(input).toString()\<close>, None where it throws.\<close>

definition canonicalizeClientIp :: "(string \<Rightarrow> string option) \<Rightarrow> string \<Rightarrow> string result" where
  "canonicalizeClientIp process_ip input = orElse (map_option (map lower_ascii) (process_ip input)) registration_unavailable"

definition registration_admit :: "(string \<Rightarrow> string) \<Rightarrow> (string \<Rightarrow> string option)
    \<Rightarrow> (string \<Rightarrow> nat \<Rightarrow> int \<Rightarrow> int \<Rightarrow> 's \<Rightarrow> limit_decision result \<times> 's) \<Rightarrow> string \<Rightarrow> int \<Rightarrow> 's \<Rightarrow> limit_decision result \<times> 's" where
  "registration_admit sha256_hex process_ip admit clientIp now s =
     (case canonicalizeClientIp process_ip clientIp of
        Inl e \<Rightarrow> (Inl e, s)
      | Inr ip \<Rightarrow> admit (sha256_hex (utf8_bytes ip)) REGISTRATION_LIMIT REGISTRATION_WINDOW_MS now s)"

end
