(* ===== verification/Sliding_Window.thy ===== *)
theory Sliding_Window
  imports Limiters
begin

text \<open>
  What every limiter promises, as a locale: a request counts in one or more buckets, each with a limit
  and a window, and is admitted when none of them is full of requests admitted within its window. The
  clients' lemmas are over runs of requests in the order of their times.
\<close>

section \<open>The specification\<close>

text \<open>The buckets of a request, each with its limit, its window and the admissions that still count.\<close>

definition window_decision :: "int \<Rightarrow> (nat \<times> int \<times> int list) list \<Rightarrow> limit_decision" where
  "window_decision now buckets =
     (let full = filter (\<lambda>(limit, _, entries). limit \<le> length entries) buckets in
      if full = [] then admitted_decision
      else refused_decision (foldr max (map (\<lambda>(_, window, entries). retry entries window now) full) 0))"

definition log_entries :: "('q \<Rightarrow> (string \<times> nat) list) \<Rightarrow> (string \<Rightarrow> int) \<Rightarrow> (int \<times> 'q) list \<Rightarrow> int \<Rightarrow> string \<Rightarrow> int list" where
  "log_entries demand window log now k =
     map fst (filter (\<lambda>(t, q). k \<in> fst ` set (demand q) \<and> now - window k < t) log)"

definition log_decision :: "('q \<Rightarrow> (string \<times> nat) list) \<Rightarrow> (string \<Rightarrow> int) \<Rightarrow> (int \<times> 'q) list \<Rightarrow> int \<Rightarrow> 'q \<Rightarrow> limit_decision" where
  "log_decision demand window log now q =
     window_decision now (map (\<lambda>(k, limit). (limit, window k, log_entries demand window log now k)) (demand q))"

text \<open>The decisions for a run of requests after the admissions of \<open>log\<close>.\<close>

fun spec_run :: "('q \<Rightarrow> (string \<times> nat) list) \<Rightarrow> (string \<Rightarrow> int) \<Rightarrow> (int \<times> 'q) list \<Rightarrow> (int \<times> 'q) list \<Rightarrow> limit_decision list" where
  "spec_run demand window log [] = []"
| "spec_run demand window log ((now, q) # rest) =
     (let d = log_decision demand window log now q in
      d # spec_run demand window (if ld_allowed d then log @ [(now, q)] else log) rest)"

fun run_limiter :: "('q \<Rightarrow> int \<Rightarrow> 's \<Rightarrow> limit_decision result \<times> 's) \<Rightarrow> 's \<Rightarrow> (int \<times> 'q) list \<Rightarrow> limit_decision result list" where
  "run_limiter admit s [] = []"
| "run_limiter admit s ((now, q) # rest) = (case admit q now s of (d, s') \<Rightarrow> d # run_limiter admit s' rest)"

text \<open>Times that do not go back.\<close>

fun in_order :: "int \<Rightarrow> (int \<times> 'q) list \<Rightarrow> bool" where
  "in_order t [] = True"
| "in_order t ((now, q) # rest) = (t \<le> now \<and> in_order now rest)"

definition admissions :: "(int \<times> 'q) list \<Rightarrow> limit_decision list \<Rightarrow> (int \<times> 'q) list" where
  "admissions reqs ds = map fst (filter (\<lambda>(_, d). ld_allowed d) (zip reqs ds))"

lemma decision_simps [simp]: "ld_allowed admitted_decision" "\<not> ld_allowed (refused_decision r)"
  "ld_retryAfterSeconds (refused_decision r) = Some r"
  by (simp_all add: admitted_decision_def refused_decision_def)

lemma window_allowed: "ld_allowed (window_decision now bs) \<longleftrightarrow> (\<forall>(limit, w, es)\<in>set bs. length es < limit)"
  by (simp add: window_decision_def Let_def filter_empty_conv split_beta not_le)

section \<open>Bounds\<close>

lemma log_entries_snoc:
  "log_entries demand window (log @ [(t, q)]) now k
    = log_entries demand window log now k @ (if k \<in> fst ` set (demand q) \<and> now - window k < t then [t] else [])"
  by (simp add: log_entries_def)

text \<open>How many requests of a class were admitted in the window of length \<open>w\<close> after \<open>a\<close>.\<close>

definition admitted_within :: "('q \<Rightarrow> bool) \<Rightarrow> int \<Rightarrow> int \<Rightarrow> (int \<times> 'q) list \<Rightarrow> nat" where
  "admitted_within C a w log = length (filter (\<lambda>(t, q). C q \<and> a < t \<and> t \<le> a + w) log)"

lemma length_filter_mono: "(\<And>x. P x \<Longrightarrow> Q x) \<Longrightarrow> length (filter P xs) \<le> length (filter Q xs)"
  by (induction xs) (auto simp: le_SucI)

lemma within_entries:
  assumes "\<And>q. C q \<Longrightarrow> k \<in> fst ` set (demand q)" and "now - window k \<le> a"
  shows "admitted_within C a w log \<le> length (log_entries demand window log now k)"
  unfolding admitted_within_def log_entries_def length_map
  by (rule length_filter_mono) (use assms in force)

lemma spec_bounded:
  assumes C: "\<And>q. C q \<Longrightarrow> (k, limit) \<in> set (demand q)"
  shows "in_order t0 reqs \<Longrightarrow> \<forall>(t, q)\<in>set log. t \<le> t0 \<Longrightarrow> \<forall>a. admitted_within C a (window k) log \<le> limit \<Longrightarrow>
    admitted_within C a (window k) (log @ admissions reqs (spec_run demand window log reqs)) \<le> limit"
proof (induction reqs arbitrary: log t0)
  case Nil
  then show ?case by (simp add: admissions_def)
next
  case (Cons r reqs)
  obtain now q where r: "r = (now, q)" by (cases r)
  let ?d = "log_decision demand window log now q"
  let ?log = "if ld_allowed ?d then log @ [(now, q)] else log"
  have t: "t0 \<le> now" and rest: "in_order now reqs" using Cons.prems(1) r by simp_all
  have old: "\<forall>(t, q)\<in>set ?log. t \<le> now" using Cons.prems(2) t by auto
  have "admitted_within C a (window k) ?log \<le> limit" for a
  proof (cases "ld_allowed ?d \<and> C q \<and> a < now \<and> now \<le> a + window k")
    case True
    then have "length (log_entries demand window log now k) < limit"
      using C [of q] by (auto simp: log_decision_def window_allowed)
    moreover have "admitted_within C a (window k) log \<le> length (log_entries demand window log now k)"
      by (rule within_entries) (use C True in \<open>force+\<close>)
    ultimately show ?thesis using True by (simp add: admitted_within_def)
  next
    case False
    then show ?thesis using Cons.prems(3) by (auto simp: admitted_within_def)
  qed
  from Cons.IH [OF rest old] this
  have "admitted_within C a (window k) (?log @ admissions reqs (spec_run demand window ?log reqs)) \<le> limit" by blast
  moreover have "log @ admissions (r # reqs) (spec_run demand window log (r # reqs))
      = ?log @ admissions reqs (spec_run demand window ?log reqs)"
    by (simp add: r admissions_def Let_def)
  ultimately show ?case by simp
qed

lemma spec_run_append:
  "spec_run demand window log (xs @ ys)
    = spec_run demand window log xs @ spec_run demand window (log @ admissions xs (spec_run demand window log xs)) ys"
  by (induction xs arbitrary: log) (auto simp: admissions_def Let_def)

lemma spec_run_length [simp]: "length (spec_run demand window log xs) = length xs"
  by (induction xs arbitrary: log) (auto simp: Let_def)

lemma run_map: "run_limiter (\<lambda>q. admit (f q)) s reqs = run_limiter admit s (map (\<lambda>(t, q). (t, f q)) reqs)"
  by (induction reqs arbitrary: s) (auto split: prod.splits)

lemma in_order_map [simp]: "in_order t (map (\<lambda>(t, q). (t, f q)) reqs) = in_order t reqs"
  by (induction reqs arbitrary: t) auto

lemma log_entries_map:
  "log_entries demand window (map (\<lambda>(t, q). (t, f q)) log) now k = log_entries (\<lambda>q. demand (f q)) window log now k"
  by (simp add: log_entries_def filter_map comp_def case_prod_unfold)

lemma spec_run_map:
  "spec_run demand window (map (\<lambda>(t, q). (t, f q)) log) (map (\<lambda>(t, q). (t, f q)) reqs) = spec_run (\<lambda>q. demand (f q)) window log reqs"
proof (induction reqs arbitrary: log)
  case (Cons r reqs)
  obtain now q where r: "r = (now, q)" by (cases r)
  have d: "log_decision demand window (map (\<lambda>(t, q). (t, f q)) log) now (f q) = log_decision (\<lambda>q. demand (f q)) window log now q"
    by (simp add: log_decision_def log_entries_map)
  show ?case using Cons.IH [of "log @ [(now, q)]"] Cons.IH [of log] by (simp add: r Let_def d)
qed simp

text \<open>The bound, read off the decisions.\<close>

lemma in_order_weaken: "in_order t reqs \<Longrightarrow> s \<le> t \<Longrightarrow> in_order s reqs"
  by (cases reqs) auto

lemma run_bounded:
  assumes "\<And>q. C q \<Longrightarrow> (k, limit) \<in> set (demand q)" and "in_order t reqs"
  shows "length (filter (\<lambda>((time, q), d). C q \<and> a < time \<and> time \<le> a + window k \<and> ld_allowed d)
      (zip reqs (spec_run demand window [] reqs))) \<le> limit"
proof -
  have "admitted_within C a (window k) (admissions reqs (spec_run demand window [] reqs)) \<le> limit"
    using spec_bounded [where C = C and log = "[]" and ?t0.0 = t, OF assms(1) assms(2)] by (simp add: admitted_within_def)
  moreover have "admitted_within C a (window k) (admissions reqs ds)
      = length (filter (\<lambda>((time, q), d). C q \<and> a < time \<and> time \<le> a + window k \<and> ld_allowed d) (zip reqs ds))" for ds
    by (simp add: admitted_within_def admissions_def filter_map comp_def case_prod_unfold conj_ac)
  ultimately show ?thesis by simp
qed

lemma in_order_times: "in_order t (xs @ (now, q) # ys) \<Longrightarrow> \<forall>(s, _)\<in>set xs. s \<le> now"
proof (induction xs arbitrary: t)
  case (Cons x xs)
  obtain s p where x: "x = (s, p)" by (cases x)
  have "s \<le> now" if "in_order s (xs @ (now, q) # ys)" for s
    using that by (induction xs arbitrary: s) (auto, fastforce)
  with Cons x show ?case by auto
qed simp

text \<open>Where every bucket has one limit, its admissions never exceed it.\<close>

lemma entries_bounded:
  assumes "\<And>q l. (k, l) \<in> set (demand q) \<Longrightarrow> l = limit" and "in_order t (reqs @ (now, q) # ys)"
  shows "length (log_entries demand window (admissions reqs (spec_run demand window [] reqs)) now k) \<le> limit"
proof -
  let ?log = "admissions reqs (spec_run demand window [] reqs)"
  have ord: "in_order t reqs" using assms(2) by (induction reqs arbitrary: t) auto
  have times: "\<forall>(s, _)\<in>set ?log. s \<le> now"
    using in_order_times [OF assms(2)] by (auto simp: admissions_def dest!: set_zip_leftD)
  have "filter (\<lambda>(t, q). k \<in> fst ` set (demand q) \<and> now - window k < t) ?log
      = filter (\<lambda>(t, q). k \<in> fst ` set (demand q) \<and> now - window k < t \<and> t \<le> now - window k + window k) ?log"
    using times by (intro filter_cong) auto
  then have "length (log_entries demand window ?log now k) = admitted_within (\<lambda>q. k \<in> fst ` set (demand q)) (now - window k) (window k) ?log"
    by (simp add: log_entries_def admitted_within_def)
  also have "\<dots> \<le> limit"
  proof -
    have C: "(k, limit) \<in> set (demand q)" if "k \<in> fst ` set (demand q)" for q using that assms(1) by force
    have old: "\<forall>(t', q)\<in>set ([] :: (int \<times> 'a) list). t' \<le> t" by simp
    have none: "\<forall>a. admitted_within (\<lambda>q. k \<in> fst ` set (demand q)) a (window k) [] \<le> limit" by (simp add: admitted_within_def)
    from spec_bounded [where C = "\<lambda>q. k \<in> fst ` set (demand q)" and k = k and limit = limit and demand = demand and window = window
        and log = "[]" and ?t0.0 = t, OF C ord old none] show ?thesis by simp
  qed
  finally show ?thesis .
qed

section \<open>The retry time\<close>

lemma ceil_seconds_le: "x \<le> 1000 * ceil_seconds x"
proof -
  have "1000 * ((- x) div 1000) \<le> - x" by simp
  then show ?thesis unfolding ceil_seconds_def by linarith
qed

lemma foldr_max_ge: "x \<in> set xs \<Longrightarrow> x \<le> foldr max xs (z::int)"
  by (induction xs) auto

text \<open>When the time that a refusal names has passed, the oldest admission has left each full bucket.\<close>

lemma retry_honest:
  assumes "log_decision demand window log now q = d" and "\<not> ld_allowed d" and "ld_retryAfterSeconds d = Some r"
    and "now + 1000 * r \<le> later" and "now \<le> later"
    and limits: "\<forall>(k, limit)\<in>set (demand q). 0 < limit \<and> length (log_entries demand window log now k) \<le> limit"
  shows "ld_allowed (log_decision demand window log later q)"
  unfolding log_decision_def window_allowed
proof (intro ballI, clarsimp)
  fix k limit assume k: "(k, limit) \<in> set (demand q)"
  let ?es = "log_entries demand window log now k"
  have es: "log_entries demand window log later k = filter (\<lambda>t. later - window k < t) ?es"
    using assms(5) by (auto simp: log_entries_def filter_map comp_def intro!: arg_cong [where f = "map fst"] filter_cong)
  show "length (log_entries demand window log later k) < limit"
  proof (cases "limit \<le> length ?es")
    case False
    then show ?thesis unfolding es by (meson le_less_trans length_filter_le not_le)
  next
    case True
    then obtain t ts where ts: "?es = t # ts" using limits k by (cases ?es) auto
    let ?bs = "map (\<lambda>(k, limit). (limit, window k, log_entries demand window log now k)) (demand q)"
    let ?full = "filter (\<lambda>(limit, _, entries). limit \<le> length entries) ?bs"
    have mem: "(limit, window k, ?es) \<in> set ?full" using k True by force
    then have "?full \<noteq> []" by (metis empty_iff empty_set)
    then have "r = foldr max (map (\<lambda>(_, window, entries). retry entries window now) ?full) 0"
      using assms(1,3) by (auto simp: log_decision_def window_decision_def Let_def)
    moreover have "retry ?es (window k) now \<in> set (map (\<lambda>(_, window, entries). retry entries window now) ?full)"
      using mem by force
    ultimately have "retry ?es (window k) now \<le> r" by (simp only: foldr_max_ge)
    then have "ceil_seconds (t + window k - now) \<le> r" by (simp add: ts retry_def retry_seconds_def)
    then have "\<not> later - window k < t" using ceil_seconds_le [of "t + window k - now"] assms(4) by linarith
    then have "length (log_entries demand window log later k) \<le> length ts" unfolding es ts by simp
    then show ?thesis using limits k ts by force
  qed
qed

section \<open>The interface\<close>

locale sliding_window =
  fixes admit :: "'q \<Rightarrow> int \<Rightarrow> 's \<Rightarrow> limit_decision result \<times> 's"
    and demand :: "'q \<Rightarrow> (string \<times> nat) list"
    and window :: "string \<Rightarrow> int"
    and entries :: "'s \<Rightarrow> int \<Rightarrow> string \<Rightarrow> int list"
    and inv :: "int \<Rightarrow> 's \<Rightarrow> bool"
    and start :: 's
    and valid :: "'q \<Rightarrow> bool"
  assumes start: "inv t start" "entries start now k = []"
    and older: "inv t s \<Longrightarrow> t \<le> now \<Longrightarrow> now \<le> later \<Longrightarrow>
        entries s later k = filter (\<lambda>v. later - window k < v) (entries s now k)"
    and decides: "inv t s \<Longrightarrow> t \<le> now \<Longrightarrow> valid q \<Longrightarrow>
        fst (admit q now s) = Inr (window_decision now (map (\<lambda>(k, limit). (limit, window k, entries s now k)) (demand q)))"
    and keeps: "inv t s \<Longrightarrow> t \<le> now \<Longrightarrow> valid q \<Longrightarrow> inv now (snd (admit q now s))"
    and counts: "inv t s \<Longrightarrow> t \<le> now \<Longrightarrow> valid q \<Longrightarrow> fst (admit q now s) = Inr d \<Longrightarrow>
        entries (snd (admit q now s)) now k
          = entries s now k @ (if ld_allowed d \<and> k \<in> fst ` set (demand q) then [now] else [])"
    and window_pos: "0 < window k"
begin

definition matches :: "int \<Rightarrow> (int \<times> 'q) list \<Rightarrow> 's \<Rightarrow> bool" where
  "matches t log s \<longleftrightarrow> inv t s \<and> (\<forall>now k. t \<le> now \<longrightarrow> entries s now k = log_entries demand window log now k)"

lemma start_matches: "matches t [] start"
  by (simp add: matches_def start log_entries_def)

lemma admit_matches:
  assumes m: "matches t log s" and t: "t \<le> now" and v: "valid q"
  shows "fst (admit q now s) = Inr (log_decision demand window log now q)"
    and "matches now (if ld_allowed (log_decision demand window log now q) then log @ [(now, q)] else log) (snd (admit q now s))"
proof -
  have i: "inv t s" and e: "\<And>k later. t \<le> later \<Longrightarrow> entries s later k = log_entries demand window log later k"
    using m by (simp_all add: matches_def)
  let ?d = "log_decision demand window log now q"
  show d: "fst (admit q now s) = Inr ?d"
    using decides [OF i t v] e [OF t] by (simp add: log_decision_def)
  let ?s = "snd (admit q now s)" and ?log = "if ld_allowed ?d then log @ [(now, q)] else log"
  have "entries ?s later k = log_entries demand window ?log later k" if later: "now \<le> later" for later k
  proof -
    have "entries ?s later k = filter (\<lambda>v. later - window k < v) (entries ?s now k)"
      by (rule older [OF keeps [OF i t v] order_refl later])
    also have "entries ?s now k = log_entries demand window ?log now k"
      using counts [OF i t v d, of k] e [OF t, of k] window_pos [of k] by (simp add: log_entries_snoc)
    also have "filter (\<lambda>v. later - window k < v) (log_entries demand window ?log now k) = log_entries demand window ?log later k"
      using later by (auto simp: log_entries_def filter_map comp_def intro!: arg_cong [where f = "map fst"] filter_cong)
    finally show ?thesis .
  qed
  then show "matches now ?log ?s" using keeps [OF i t v] by (simp add: matches_def)
qed

text \<open>A run of the limiter is the run of the specification.\<close>

lemma run_from:
  "matches t log s \<Longrightarrow> in_order t reqs \<Longrightarrow> \<forall>(_, q)\<in>set reqs. valid q \<Longrightarrow>
    run_limiter admit s reqs = map Inr (spec_run demand window log reqs)"
proof (induction reqs arbitrary: t log s)
  case (Cons r reqs)
  obtain now q where r: "r = (now, q)" by (cases r)
  have t: "t \<le> now" "in_order now reqs" and v: "valid q" "\<forall>(_, q)\<in>set reqs. valid q" using Cons.prems r by auto
  note a = admit_matches [OF Cons.prems(1) t(1) v(1)]
  from Cons.IH [OF a(2) t(2) v(2)] a(1) show ?case
    by (cases "admit q now s") (simp add: r Let_def)
qed simp

lemma run_spec:
  "in_order t reqs \<Longrightarrow> \<forall>(_, q)\<in>set reqs. valid q \<Longrightarrow> run_limiter admit start reqs = map Inr (spec_run demand window [] reqs)"
  by (rule run_from [OF start_matches])

end

end
