(* ===== verification/Limiter_Claims.thy ===== *)
theory Limiter_Claims
  imports Sliding_Window
begin

text \<open>
  The limiters implement the sliding window: in process and in Redis, for protected routes and for
  logins and refreshes. Their properties follow from the interface.
\<close>

section \<open>Buckets in process\<close>

lemma bucket_update: "bucket (AList.update k ts bs) k' = (if k' = k then ts else bucket bs k')"
  by (simp add: bucket_def update_conv')

definition stamps_until :: "int \<Rightarrow> (string \<times> int list) list \<Rightarrow> bool" where
  "stamps_until t bs = (\<forall>k. \<forall>v\<in>set (bucket bs k). v \<le> t)"

lemma stamps_older: "stamps_until t bs \<Longrightarrow> t \<le> now \<Longrightarrow> stamps_until now bs"
  unfolding stamps_until_def by (meson order_trans)

lemma filter_older: "now \<le> later \<Longrightarrow> filter (\<lambda>v. now - (w::int) < v \<and> later - w < v) xs = filter ((<) (later - w)) xs"
  by (auto intro: filter_cong)

section \<open>Protected routes\<close>

text \<open>A request to the rolling window is a key with its limit.\<close>

abbreviation local_entries :: "(string \<Rightarrow> int) \<Rightarrow> local_limiter \<Rightarrow> int \<Rightarrow> string \<Rightarrow> int list" where
  "local_entries window s now k \<equiv> current (ll_buckets s) k (window k) now"

interpretation local_window: sliding_window "\<lambda>(k, limit). local_admit unavailable k limit USERS_LIMIT_WINDOW_MS"
    "\<lambda>r. [r]" "\<lambda>_. USERS_LIMIT_WINDOW_MS" "local_entries (\<lambda>_. USERS_LIMIT_WINDOW_MS)"
    "\<lambda>t s. \<not> ll_closed s \<and> stamps_until t (ll_buckets s)" new_local_limiter "\<lambda>(_, limit). 0 < limit"
  for unavailable
proof unfold_locales
  fix t k
  show "\<not> ll_closed new_local_limiter \<and> stamps_until t (ll_buckets new_local_limiter)"
    "current (ll_buckets new_local_limiter) k USERS_LIMIT_WINDOW_MS now = []" for now
    by (simp_all add: new_local_limiter_def stamps_until_def bucket_def current_def)
  show "0 < USERS_LIMIT_WINDOW_MS" by (simp add: USERS_LIMIT_WINDOW_MS_def)
next
  fix t now later :: int and s :: local_limiter and k
  assume "now \<le> later"
  then show "current (ll_buckets s) k USERS_LIMIT_WINDOW_MS later
      = filter (\<lambda>v. later - USERS_LIMIT_WINDOW_MS < v) (current (ll_buckets s) k USERS_LIMIT_WINDOW_MS now)"
    by (simp add: current_def filter_older)
next
  fix t now :: int and s :: local_limiter and k d and q :: "string \<times> nat"
  assume i: "\<not> ll_closed s \<and> stamps_until t (ll_buckets s)" and t: "t \<le> now" and v: "case q of (_, limit) \<Rightarrow> 0 < limit"
  obtain key limit where q: "q = (key, limit)" "0 < (limit::nat)" using v by (cases q) auto
  let ?es = "current (ll_buckets s) key USERS_LIMIT_WINDOW_MS now"
  have adm: "(case q of (k, limit) \<Rightarrow> local_admit unavailable k limit USERS_LIMIT_WINDOW_MS) now s
      = (if limit \<le> length ?es then (Inr (refused_decision (retry ?es USERS_LIMIT_WINDOW_MS now)), s\<lparr>ll_buckets := AList.update key ?es (ll_buckets s)\<rparr>)
         else (Inr admitted_decision, s\<lparr>ll_buckets := AList.update key (?es @ [now]) (ll_buckets s)\<rparr>))"
    using i q by (cases ?es) (auto simp: local_admit_def current_def retry_def Let_def)
  show "fst ((case q of (k, limit) \<Rightarrow> local_admit unavailable k limit USERS_LIMIT_WINDOW_MS) now s)
      = Inr (window_decision now (map (\<lambda>(k, limit). (limit, USERS_LIMIT_WINDOW_MS, current (ll_buckets s) k USERS_LIMIT_WINDOW_MS now)) [q]))"
    unfolding adm by (auto simp: q window_decision_def retry_def retry_seconds_def split: list.splits)
  have st: "\<forall>v\<in>set (bucket (ll_buckets s) k). v \<le> now" for k using stamps_older [OF _ t] i by (auto simp: stamps_until_def)
  then show "\<not> ll_closed (snd ((case q of (k, limit) \<Rightarrow> local_admit unavailable k limit USERS_LIMIT_WINDOW_MS) now s))
      \<and> stamps_until now (ll_buckets (snd ((case q of (k, limit) \<Rightarrow> local_admit unavailable k limit USERS_LIMIT_WINDOW_MS) now s)))"
    unfolding adm using i by (auto simp: stamps_until_def bucket_update current_def)
  assume "fst ((case q of (k, limit) \<Rightarrow> local_admit unavailable k limit USERS_LIMIT_WINDOW_MS) now s) = Inr d"
  then have d: "ld_allowed d \<longleftrightarrow> \<not> limit \<le> length ?es" unfolding adm by (auto split: if_splits)
  have "0 < USERS_LIMIT_WINDOW_MS" by (simp add: USERS_LIMIT_WINDOW_MS_def)
  then show "current (ll_buckets (snd ((case q of (k, limit) \<Rightarrow> local_admit unavailable k limit USERS_LIMIT_WINDOW_MS) now s))) k USERS_LIMIT_WINDOW_MS now
      = current (ll_buckets s) k USERS_LIMIT_WINDOW_MS now @ (if ld_allowed d \<and> k \<in> fst ` set [q] then [now] else [])"
    unfolding adm d by (auto simp: q current_def bucket_update)
qed

section \<open>Sorted sets\<close>

definition redis_ok :: "(string \<Rightarrow> int) \<Rightarrow> int \<Rightarrow> redis_store \<Rightarrow> bool" where
  "redis_ok window t s = (\<forall>k scores expiry. s k = Some (scores, expiry) \<longrightarrow>
     sorted scores \<and> (\<forall>v\<in>set scores. v \<le> t \<and> v + 2 * window k \<le> expiry))"

definition redis_entries :: "(string \<Rightarrow> int) \<Rightarrow> redis_store \<Rightarrow> int \<Rightarrow> string \<Rightarrow> int list" where
  "redis_entries window s now k = filter (\<lambda>v. now - window k < v) (zset now s k)"

text \<open>An expired key holds no score that still counts.\<close>

lemma redis_entries_scores:
  assumes "redis_ok window t s" and "0 \<le> window k"
  shows "redis_entries window s now k = filter (\<lambda>v. now - window k < v) (case s k of None \<Rightarrow> [] | Some (scores, _) \<Rightarrow> scores)"
proof (cases "s k")
  case (Some p)
  obtain scores expiry where p: "p = (scores, expiry)" by (cases p)
  have "\<forall>v\<in>set scores. v + 2 * window k \<le> expiry" using assms(1) Some p by (auto simp: redis_ok_def)
  then have "filter (\<lambda>v. now - window k < v) scores = []" if "expiry \<le> now" using that assms(2) by (fastforce simp: filter_empty_conv)
  then show ?thesis by (simp add: redis_entries_def zset_def Some p)
qed (simp add: redis_entries_def zset_def)

lemma redis_older:
  "redis_ok window t s \<Longrightarrow> 0 \<le> window k \<Longrightarrow> now \<le> later \<Longrightarrow>
    redis_entries window s later k = filter (\<lambda>v. later - window k < v) (redis_entries window s now k)"
  by (simp add: redis_entries_scores filter_older)

lemma redis_remove:
  assumes "redis_ok window t s"
  shows "zset now (zremrange now k (now - window k) s) k = redis_entries window s now k"
    and "k' \<noteq> k \<Longrightarrow> zremrange now k c s k' = s k'"
    and "redis_ok window t (zremrange now k (now - window k) s)"
  using assms by (auto simp: zremrange_def zset_def redis_entries_def redis_ok_def sorted_wrt_filter split: option.splits prod.splits)

lemma redis_remove_entries:
  assumes "redis_ok window t s"
  shows "redis_entries window (zremrange now k (now - window k) s) now k' = redis_entries window s now k'"
  using redis_remove(1) [OF assms, of now k] redis_remove(2) [OF assms, of k' k now "now - window k"] by (cases "k' = k") (auto simp: redis_entries_def zset_def)

lemma redis_add:
  assumes ok: "redis_ok window t s" and t: "t \<le> now" and w: "0 < window k"
    and z: "zset now s k = redis_entries window s now k"
  shows "redis_ok window now (zadd_pexpire now k (window k * 2) s)"
    and "redis_entries window (zadd_pexpire now k (window k * 2) s) now k' = redis_entries window s now k' @ (if k' = k then [now] else [])"
proof -
  have old: "sorted (zset now s k) \<and> (\<forall>v\<in>set (zset now s k). v \<le> now)"
  proof (cases "s k")
    case (Some p)
    then show ?thesis using ok t by (cases p) (force simp: zset_def redis_ok_def)
  qed (simp add: zset_def)
  then have snoc: "insort now (zset now s k) = zset now s k @ [now]" by (simp add: sorted_insort_is_snoc)
  show "redis_ok window now (zadd_pexpire now k (window k * 2) s)"
    unfolding redis_ok_def
  proof (intro allI impI)
    fix k' scores expiry assume s: "zadd_pexpire now k (window k * 2) s k' = Some (scores, expiry)"
    show "sorted scores \<and> (\<forall>v\<in>set scores. v \<le> now \<and> v + 2 * window k' \<le> expiry)"
    proof (cases "k' = k")
      case True
      with s have "scores = zset now s k @ [now]" "expiry = now + window k * 2" by (simp_all add: zadd_pexpire_def snoc)
      with old True show ?thesis by (auto simp: sorted_append)
    next
      case False
      with s have "s k' = Some (scores, expiry)" by (simp add: zadd_pexpire_def)
      with ok t show ?thesis unfolding redis_ok_def by fastforce
    qed
  qed
  show "redis_entries window (zadd_pexpire now k (window k * 2) s) now k' = redis_entries window s now k' @ (if k' = k then [now] else [])"
    using w z unfolding zadd_pexpire_def snoc by (auto simp: redis_entries_def zset_def)
qed

lemma script_step:
  fixes s :: redis_store and limit :: nat and k :: string and now :: int
  assumes ok: "redis_ok window t s" and t: "t \<le> now" and w: "0 < window k"
  defines "es \<equiv> redis_entries window s now k"
  defines "r \<equiv> rolling_script k (window k) limit now s"
  shows "fst r = (if limit \<le> length es then [0, retry_seconds (hd es) (window k) now] else [1, 0])"
    and "redis_ok window now (snd r)"
    and "redis_entries window (snd r) now k' = redis_entries window s now k' @ (if \<not> limit \<le> length es \<and> k' = k then [now] else [])"
proof -
  let ?s = "zremrange now k (now - window k) s"
  note rem = redis_remove [OF ok, where now = now and k = k] and rem' = redis_remove_entries [OF ok, where now = now and k = k]
  have z: "zset now ?s k = redis_entries window ?s now k" using rem(1) rem' by simp
  have r: "r = (if limit \<le> length es then ([0, retry_seconds (hd es) (window k) now], ?s) else ([1, 0], zadd_pexpire now k (window k * 2) ?s))"
    by (simp add: r_def es_def rolling_script_def Let_def rem(1))
  note add = redis_add [OF rem(3) t w z]
  have "redis_ok window now ?s" using rem(3) t by (fastforce simp: redis_ok_def)
  then show "redis_ok window now (snd r)" using add(1) by (simp add: r)
  show "fst r = (if limit \<le> length es then [0, retry_seconds (hd es) (window k) now] else [1, 0])" by (simp add: r)
  show "redis_entries window (snd r) now k' = redis_entries window s now k' @ (if \<not> limit \<le> length es \<and> k' = k then [now] else [])"
    using add(2) rem' by (simp add: r)
qed

lemma retry_seconds_bounds:
  "oldest \<le> now \<Longrightarrow> windowMs \<le> 1000000000 \<Longrightarrow> 1 \<le> retry_seconds oldest windowMs now \<and> safe_integer (retry_seconds oldest windowMs now)"
proof -
  assume a: "oldest \<le> now" "windowMs \<le> 1000000000"
  have "- (oldest + windowMs - now) div 1000 \<ge> - 1000000" using a by linarith
  then show ?thesis by (simp add: retry_seconds_def ceil_seconds_def safe_integer_def)
qed

lemma redis_entries_old: "redis_ok window t s \<Longrightarrow> t \<le> now \<Longrightarrow> v \<in> set (redis_entries window s now' k) \<Longrightarrow> v \<le> now"
  by (cases "s k") (fastforce simp: redis_entries_def zset_def redis_ok_def split: prod.splits if_splits)+

interpretation redis_window: sliding_window "\<lambda>(k, limit). redis_admit unavailable True keyPrefix k limit USERS_LIMIT_WINDOW_MS"
    "\<lambda>r. [r]" "\<lambda>_. USERS_LIMIT_WINDOW_MS" "\<lambda>s now k. redis_entries (\<lambda>_. USERS_LIMIT_WINDOW_MS) s now (keyPrefix @ k)"
    "redis_ok (\<lambda>_. USERS_LIMIT_WINDOW_MS)" "\<lambda>_. None" "\<lambda>(_, limit). 0 < limit"
  for unavailable keyPrefix
proof unfold_locales
  have w: "0 < USERS_LIMIT_WINDOW_MS" "USERS_LIMIT_WINDOW_MS \<le> 1000000000" by (simp_all add: USERS_LIMIT_WINDOW_MS_def)
  show "0 < USERS_LIMIT_WINDOW_MS" by (rule w(1))
  show "redis_ok (\<lambda>_. USERS_LIMIT_WINDOW_MS) t (\<lambda>_. None)"
    "redis_entries (\<lambda>_. USERS_LIMIT_WINDOW_MS) (\<lambda>_. None) now (keyPrefix @ k) = []" for t now k
    by (simp_all add: redis_ok_def redis_entries_def zset_def)
  show "redis_entries (\<lambda>_. USERS_LIMIT_WINDOW_MS) s later (keyPrefix @ k)
      = filter (\<lambda>v. later - USERS_LIMIT_WINDOW_MS < v) (redis_entries (\<lambda>_. USERS_LIMIT_WINDOW_MS) s now (keyPrefix @ k))"
    if "redis_ok (\<lambda>_. USERS_LIMIT_WINDOW_MS) t s" "now \<le> later" for t s now later k
    using redis_older [OF that(1) _ that(2)] w by simp
  fix t now :: int and s :: redis_store and k d and q :: "string \<times> nat"
  assume i: "redis_ok (\<lambda>_. USERS_LIMIT_WINDOW_MS) t s" and t: "t \<le> now" and v: "case q of (_, limit) \<Rightarrow> 0 < limit"
  obtain key limit where q: "q = (key, limit)" "0 < (limit::nat)" using v by (cases q) auto
  let ?es = "redis_entries (\<lambda>_. USERS_LIMIT_WINDOW_MS) s now (keyPrefix @ key)"
  let ?r = "rolling_script (keyPrefix @ key) USERS_LIMIT_WINDOW_MS limit now s"
  note step = script_step [OF i t w(1), where limit = limit and k = "keyPrefix @ key"]
  have adm: "(case q of (k, limit) \<Rightarrow> redis_admit unavailable True keyPrefix k limit USERS_LIMIT_WINDOW_MS) now s
      = (parseDecision unavailable (fst ?r), snd ?r)" by (simp add: q redis_admit_def split: prod.splits)
  have dec: "parseDecision unavailable (fst ?r) = Inr (if limit \<le> length ?es then refused_decision (retry ?es USERS_LIMIT_WINDOW_MS now) else admitted_decision)"
  proof (cases "limit \<le> length ?es")
    case True
    then obtain x xs where es: "?es = x # xs" using q(2) by (cases ?es) auto
    then have "x \<le> now" using redis_entries_old [OF i t, of x now "keyPrefix @ key"] by simp
    from retry_seconds_bounds [OF this w(2)] show ?thesis using True es step(1) by (simp add: parseDecision_def retry_def)
  next
    case False
    then show ?thesis using step(1) by (simp add: parseDecision_def safe_integer_def)
  qed
  show "fst ((case q of (k, limit) \<Rightarrow> redis_admit unavailable True keyPrefix k limit USERS_LIMIT_WINDOW_MS) now s)
      = Inr (window_decision now (map (\<lambda>(k, limit). (limit, USERS_LIMIT_WINDOW_MS, redis_entries (\<lambda>_. USERS_LIMIT_WINDOW_MS) s now (keyPrefix @ k))) [q]))"
    unfolding adm fst_conv dec by (auto simp: q window_decision_def retry_def retry_seconds_def split: list.splits)
  show "redis_ok (\<lambda>_. USERS_LIMIT_WINDOW_MS) now (snd ((case q of (k, limit) \<Rightarrow> redis_admit unavailable True keyPrefix k limit USERS_LIMIT_WINDOW_MS) now s))"
    unfolding adm snd_conv by (rule step(2))
  assume "fst ((case q of (k, limit) \<Rightarrow> redis_admit unavailable True keyPrefix k limit USERS_LIMIT_WINDOW_MS) now s) = Inr d"
  then have d: "ld_allowed d \<longleftrightarrow> \<not> limit \<le> length ?es" unfolding adm fst_conv dec by (auto split: if_splits)
  show "redis_entries (\<lambda>_. USERS_LIMIT_WINDOW_MS) (snd ((case q of (k, limit) \<Rightarrow> redis_admit unavailable True keyPrefix k limit USERS_LIMIT_WINDOW_MS) now s)) now (keyPrefix @ k)
      = redis_entries (\<lambda>_. USERS_LIMIT_WINDOW_MS) s now (keyPrefix @ k) @ (if ld_allowed d \<and> k \<in> fst ` set [q] then [now] else [])"
    unfolding adm snd_conv step(3) d by (simp add: q)
qed

section \<open>Logins and refreshes\<close>

text \<open>The three operations of the session limiter, and the buckets they count in.\<close>

datatype auth_request = LoginAttempt string string | RefreshFrom string | RefreshOf string

definition auth_admit :: "(string \<Rightarrow> string) \<Rightarrow> auth_request \<Rightarrow> int \<Rightarrow> local_limiter \<Rightarrow> limit_decision result \<times> local_limiter" where
  "auth_admit sha256_hex q =
     (case q of LoginAttempt account ip \<Rightarrow> admitLogin sha256_hex account ip
      | RefreshFrom ip \<Rightarrow> admitRefreshIp sha256_hex ip | RefreshOf family \<Rightarrow> admitRefreshFamily sha256_hex family)"

definition redis_auth_admit :: "(string \<Rightarrow> string) \<Rightarrow> string \<Rightarrow> auth_request \<Rightarrow> int \<Rightarrow> redis_store \<Rightarrow> limit_decision result \<times> redis_store" where
  "redis_auth_admit sha256_hex keyPrefix q =
     (case q of LoginAttempt account ip \<Rightarrow> redis_admitLogin sha256_hex True keyPrefix account ip
      | RefreshFrom ip \<Rightarrow> redis_admitRefreshIp sha256_hex True keyPrefix ip
      | RefreshOf family \<Rightarrow> redis_admitRefreshFamily sha256_hex True keyPrefix family)"

definition auth_demand :: "(string \<Rightarrow> string) \<Rightarrow> auth_request \<Rightarrow> (string \<times> nat) list" where
  "auth_demand sha256_hex q =
     (case q of LoginAttempt account ip \<Rightarrow> [(accountKey account, 5), (ipKey sha256_hex ''login'' ip, 20)]
      | RefreshFrom ip \<Rightarrow> [(ipKey sha256_hex ''refresh'' ip, 60)] | RefreshOf family \<Rightarrow> [(familyKey sha256_hex family, 10)])"

definition auth_window :: "string \<Rightarrow> int" where
  "auth_window k = (if prefix ''account:'' k \<or> prefix ''ip:login:'' k then LOGIN_WINDOW else REFRESH_WINDOW)"

lemma auth_windows [simp]:
  "auth_window (accountKey a) = LOGIN_WINDOW" "auth_window (ipKey h ''login'' i) = LOGIN_WINDOW"
  "auth_window (ipKey h ''refresh'' i) = REFRESH_WINDOW" "auth_window (familyKey h f) = REFRESH_WINDOW"
  "accountKey a \<noteq> ipKey h s i" "ipKey h s i \<noteq> accountKey a"
  by (auto simp: auth_window_def accountKey_def ipKey_def familyKey_def)

lemma auth_window_pos: "0 < auth_window k" "auth_window k \<le> 1000000000"
  by (simp_all add: auth_window_def LOGIN_WINDOW_def REFRESH_WINDOW_def)

lemma retry_pos: "1 \<le> retry es w now"
  by (simp add: retry_def retry_seconds_def split: list.split)

lemma single_decision: "window_decision now [(limit, w, es)]
    = (if limit \<le> length es then refused_decision (retry es w now) else admitted_decision)"
  using retry_pos [of es w now] by (simp add: window_decision_def)

lemma dual_decision: "window_decision now [(l1, w, es), (l2, w, fs)]
    = (if l1 \<le> length es \<or> l2 \<le> length fs
       then refused_decision (max (if l1 \<le> length es then retry es w now else 0) (if l2 \<le> length fs then retry fs w now else 0))
       else admitted_decision)"
  using retry_pos [of es w now] retry_pos [of fs w now] by (auto simp: window_decision_def)

lemma current_until: "stamps_until t bs \<Longrightarrow> v \<in> set (current bs k w now) \<Longrightarrow> v \<le> t"
  by (auto simp: stamps_until_def current_def)

lemma admitOne_step:
  assumes "stamps_until t bs" and "t \<le> now" and "0 < w"
  shows "fst (admitOne key limit w now bs) = window_decision now [(limit, w, current bs key w now)]"
    and "stamps_until now (snd (admitOne key limit w now bs))"
    and "current (snd (admitOne key limit w now bs)) k w' now = (if k = key \<and> w' = w then current bs key w now
        @ (if limit \<le> length (current bs key w now) then [] else [now]) else current (snd (admitOne key limit w now bs)) k w' now)"
    and "k \<noteq> key \<Longrightarrow> bucket (snd (admitOne key limit w now bs)) k = bucket bs k"
  using assms stamps_older [OF assms(1,2)]
  by (auto simp: admitOne_def Let_def single_decision bucket_update stamps_until_def current_def)

lemma admitDual_step:
  assumes "stamps_until t bs" and "t \<le> now" and "0 < w" and "k1 \<noteq> k2"
  shows "fst (admitDual k1 k2 l1 l2 w now bs) = window_decision now [(l1, w, current bs k1 w now), (l2, w, current bs k2 w now)]"
    and "stamps_until now (snd (admitDual k1 k2 l1 l2 w now bs))"
    and "k \<in> {k1, k2} \<Longrightarrow> current (snd (admitDual k1 k2 l1 l2 w now bs)) k w now = current bs k w now
        @ (if l1 \<le> length (current bs k1 w now) \<or> l2 \<le> length (current bs k2 w now) then [] else [now])"
    and "k \<notin> {k1, k2} \<Longrightarrow> bucket (snd (admitDual k1 k2 l1 l2 w now bs)) k = bucket bs k"
  using assms stamps_older [OF assms(1,2)]
  by (auto simp: admitDual_def Let_def dual_decision bucket_update stamps_until_def current_def)

lemma ready_open: "\<not> ll_closed s \<Longrightarrow>
    ready admit now s = (Inr (fst (admit now (ll_buckets s))), s\<lparr>ll_buckets := snd (admit now (ll_buckets s))\<rparr>)"
  by (simp add: ready_def split_beta)

text \<open>One admission in process, whichever operation.\<close>

lemma auth_step:
  assumes i: "\<not> ll_closed s \<and> stamps_until t (ll_buckets s)" and t: "t \<le> now"
  shows "fst (auth_admit h q now s) = Inr (window_decision now (map (\<lambda>(k, limit). (limit, auth_window k, local_entries auth_window s now k)) (auth_demand h q)))"
    and "\<not> ll_closed (snd (auth_admit h q now s)) \<and> stamps_until now (ll_buckets (snd (auth_admit h q now s)))"
    and "local_entries auth_window (snd (auth_admit h q now s)) now k = local_entries auth_window s now k
      @ (if ld_allowed (window_decision now (map (\<lambda>(k, limit). (limit, auth_window k, local_entries auth_window s now k)) (auth_demand h q)))
            \<and> k \<in> fst ` set (auth_demand h q) then [now] else [])"
proof -
  have W: "0 < LOGIN_WINDOW" "0 < REFRESH_WINDOW" by (simp_all add: LOGIN_WINDOW_def REFRESH_WINDOW_def)
  note defs = auth_admit_def admitLogin_def admitRefreshIp_def admitRefreshFamily_def auth_demand_def
  have st: "stamps_until t (ll_buckets s)" "\<not> ll_closed s" using i by simp_all
  note one = admitOne_step [OF st(1) t W(2)] and two = admitDual_step [OF st(1) t W(1) auth_windows(5)]
  have "fst (auth_admit h q now s) = Inr (window_decision now (map (\<lambda>(k, limit). (limit, auth_window k, local_entries auth_window s now k)) (auth_demand h q)))
    \<and> (\<not> ll_closed (snd (auth_admit h q now s)) \<and> stamps_until now (ll_buckets (snd (auth_admit h q now s))))
    \<and> local_entries auth_window (snd (auth_admit h q now s)) now k = local_entries auth_window s now k
      @ (if ld_allowed (window_decision now (map (\<lambda>(k, limit). (limit, auth_window k, local_entries auth_window s now k)) (auth_demand h q)))
            \<and> k \<in> fst ` set (auth_demand h q) then [now] else [])"
  proof (cases q)
    case (LoginAttempt a ip)
    have "current (snd (admitDual (accountKey a) (ipKey h ''login'' ip) 5 20 LOGIN_WINDOW now (ll_buckets s))) k (auth_window k) now
        = current (ll_buckets s) k (auth_window k) now @ (if 5 \<le> length (current (ll_buckets s) (accountKey a) LOGIN_WINDOW now)
            \<or> 20 \<le> length (current (ll_buckets s) (ipKey h ''login'' ip) LOGIN_WINDOW now) \<or> k \<notin> {accountKey a, ipKey h ''login'' ip} then [] else [now])"
      using two(3,4) by (cases "k \<in> {accountKey a, ipKey h ''login'' ip}") (auto simp: current_def)
    with LoginAttempt st(2) show ?thesis
      by (auto simp: defs ready_open window_allowed not_le two(1,2))
  next
    case (RefreshFrom ip)
    have "current (snd (admitOne (ipKey h ''refresh'' ip) 60 REFRESH_WINDOW now (ll_buckets s))) k (auth_window k) now
        = current (ll_buckets s) k (auth_window k) now @ (if 60 \<le> length (current (ll_buckets s) (ipKey h ''refresh'' ip) REFRESH_WINDOW now)
            \<or> k \<noteq> ipKey h ''refresh'' ip then [] else [now])"
      using one(3,4) by (cases "k = ipKey h ''refresh'' ip") (auto simp: current_def)
    with RefreshFrom st(2) show ?thesis
      by (auto simp: defs ready_open window_allowed not_le one(1,2))
  next
    case (RefreshOf f)
    have "current (snd (admitOne (familyKey h f) 10 REFRESH_WINDOW now (ll_buckets s))) k (auth_window k) now
        = current (ll_buckets s) k (auth_window k) now @ (if 10 \<le> length (current (ll_buckets s) (familyKey h f) REFRESH_WINDOW now)
            \<or> k \<noteq> familyKey h f then [] else [now])"
      using one(3,4) by (cases "k = familyKey h f") (auto simp: current_def)
    with RefreshOf st(2) show ?thesis
      by (auto simp: defs ready_open window_allowed not_le one(1,2))
  qed
  then show "fst (auth_admit h q now s) = Inr (window_decision now (map (\<lambda>(k, limit). (limit, auth_window k, local_entries auth_window s now k)) (auth_demand h q)))"
    and "\<not> ll_closed (snd (auth_admit h q now s)) \<and> stamps_until now (ll_buckets (snd (auth_admit h q now s)))"
    and "local_entries auth_window (snd (auth_admit h q now s)) now k = local_entries auth_window s now k
      @ (if ld_allowed (window_decision now (map (\<lambda>(k, limit). (limit, auth_window k, local_entries auth_window s now k)) (auth_demand h q)))
            \<and> k \<in> fst ` set (auth_demand h q) then [now] else [])"
    by blast+
qed

interpretation local_auth: sliding_window "auth_admit sha256_hex" "auth_demand sha256_hex" auth_window "local_entries auth_window"
    "\<lambda>t s. \<not> ll_closed s \<and> stamps_until t (ll_buckets s)" new_local_limiter "\<lambda>_. True"
  for sha256_hex
proof unfold_locales
  show "\<not> ll_closed new_local_limiter \<and> stamps_until t (ll_buckets new_local_limiter)"
    "local_entries auth_window new_local_limiter now k = []" for t now k
    by (simp_all add: new_local_limiter_def stamps_until_def bucket_def current_def)
  show "0 < auth_window k" for k by (rule auth_window_pos(1))
  show "local_entries auth_window s later k = filter (\<lambda>v. later - auth_window k < v) (local_entries auth_window s now k)"
    if "now \<le> later" for s now later k using that by (simp add: current_def filter_older)
  fix t now :: int and s :: local_limiter and q k d
  assume i: "\<not> ll_closed s \<and> stamps_until t (ll_buckets s)" and t: "t \<le> now"
  note step = auth_step [OF i t, of sha256_hex q]
  show "fst (auth_admit sha256_hex q now s) = Inr (window_decision now
      (map (\<lambda>(k, limit). (limit, auth_window k, local_entries auth_window s now k)) (auth_demand sha256_hex q)))" by (rule step(1))
  show "\<not> ll_closed (snd (auth_admit sha256_hex q now s)) \<and> stamps_until now (ll_buckets (snd (auth_admit sha256_hex q now s)))" by (rule step(2))
  assume "fst (auth_admit sha256_hex q now s) = Inr d"
  then show "local_entries auth_window (snd (auth_admit sha256_hex q now s)) now k = local_entries auth_window s now k
      @ (if ld_allowed d \<and> k \<in> fst ` set (auth_demand sha256_hex q) then [now] else [])" using step(1,3) by simp
qed

lemma redis_ok_later: "redis_ok window t s \<Longrightarrow> t \<le> now \<Longrightarrow> redis_ok window now s"
  unfolding redis_ok_def by (meson order_trans)

lemma dual_script_step:
  fixes s :: redis_store and now :: int and k1 k2 :: string
  assumes ok: "redis_ok window t s" and t: "t \<le> now" and w: "0 < w" "window k1 = w" "window k2 = w" and ne: "k1 \<noteq> k2"
  defines "es \<equiv> redis_entries window s now k1" and "fs \<equiv> redis_entries window s now k2"
  shows "fst (dual_script k1 k2 w l1 l2 now s) = (if l1 \<le> length es \<or> l2 \<le> length fs
      then [0, max (if l1 \<le> length es then retry es w now else 0) (if l2 \<le> length fs then retry fs w now else 0)] else [1, 0])"
    and "redis_ok window now (snd (dual_script k1 k2 w l1 l2 now s))"
    and "redis_entries window (snd (dual_script k1 k2 w l1 l2 now s)) now k = redis_entries window s now k
      @ (if \<not> (l1 \<le> length es \<or> l2 \<le> length fs) \<and> k \<in> {k1, k2} then [now] else [])"
proof -
  let ?s1 = "zremrange now k1 (now - w) s" let ?s2 = "zremrange now k2 (now - w) ?s1"
  have ok1: "redis_ok window t ?s1" using redis_remove(3) [OF ok, of now k1] w by simp
  have ok2: "redis_ok window t ?s2" using redis_remove(3) [OF ok1, of now k2] w by simp
  have e1: "redis_entries window ?s1 now k = redis_entries window s now k" for k
    using redis_remove_entries [OF ok, where k = k1] w by simp
  have e2: "redis_entries window ?s2 now k = redis_entries window s now k" for k
    using redis_remove_entries [OF ok1, where k = k2] w e1 by simp
  have z2: "zset now ?s2 k2 = fs" using redis_remove(1) [OF ok1, of now k2] w e1 by (simp add: fs_def)
  have "zset now ?s2 k1 = zset now ?s1 k1" using redis_remove(2) [OF ok1, of k1 k2 now "now - w"] ne by (simp add: zset_def)
  then have z1: "zset now ?s2 k1 = es" using redis_remove(1) [OF ok, of now k1] w by (simp add: es_def)
  have r: "dual_script k1 k2 w l1 l2 now s = (if l1 \<le> length es \<or> l2 \<le> length fs
      then ([0, max (if l1 \<le> length es then retry es w now else 0) (if l2 \<le> length fs then retry fs w now else 0)], ?s2)
      else ([1, 0], zadd_pexpire now k2 (w * 2) (zadd_pexpire now k1 (w * 2) ?s2)))"
    by (simp add: dual_script_def Let_def z1 z2 script_retry_def retry_def)
  have a1: "redis_ok window now (zadd_pexpire now k1 (w * 2) ?s2)"
    "\<And>k. redis_entries window (zadd_pexpire now k1 (w * 2) ?s2) now k = redis_entries window s now k @ (if k = k1 then [now] else [])"
    using redis_add [OF ok2 t, of k1] w z1 e2 by (simp_all add: es_def)
  have "zset now (zadd_pexpire now k1 (w * 2) ?s2) k2 = redis_entries window (zadd_pexpire now k1 (w * 2) ?s2) now k2"
    using ne z2 a1(2) by (simp add: zadd_pexpire_def zset_def fs_def)
  note a2 = redis_add [OF a1(1) order_refl _ this]
  show "fst (dual_script k1 k2 w l1 l2 now s) = (if l1 \<le> length es \<or> l2 \<le> length fs
      then [0, max (if l1 \<le> length es then retry es w now else 0) (if l2 \<le> length fs then retry fs w now else 0)] else [1, 0])"
    by (simp add: r)
  show "redis_ok window now (snd (dual_script k1 k2 w l1 l2 now s))"
    using redis_ok_later [OF ok2 t] a2(1) w by (simp add: r)
  show "redis_entries window (snd (dual_script k1 k2 w l1 l2 now s)) now k = redis_entries window s now k
      @ (if \<not> (l1 \<le> length es \<or> l2 \<le> length fs) \<and> k \<in> {k1, k2} then [now] else [])"
    using a2(2) a1(2) e2 ne w by (auto simp: r)
qed

definition prefixed_window :: "string \<Rightarrow> string \<Rightarrow> int" where
  "prefixed_window keyPrefix k = auth_window (drop (length keyPrefix) k)"

lemma prefixed_window [simp]: "prefixed_window p (p @ k) = auth_window k"
  by (simp add: prefixed_window_def)

lemma single_rolling: "single_script key window limit now s = rolling_script key window limit now s"
  by (simp add: single_script_def rolling_script_def)

lemma retry_safe: "\<forall>v\<in>set es. v \<le> now \<Longrightarrow> w \<le> 1000000000 \<Longrightarrow> 1 \<le> retry es w now \<and> safe_integer (retry es w now)"
  using retry_seconds_bounds by (auto simp: retry_def safe_integer_def split: list.splits)

text \<open>One admission in Redis, whichever operation.\<close>

abbreviation redis_auth_entries :: "string \<Rightarrow> redis_store \<Rightarrow> int \<Rightarrow> string \<Rightarrow> int list" where
  "redis_auth_entries p s now k \<equiv> redis_entries (prefixed_window p) s now (p @ k)"

lemma single_auth:
  assumes ok: "redis_ok (prefixed_window p) t s" and t: "t \<le> now" and l: "0 < limit" and w: "auth_window key = w"
  shows "let r = evaluate True (single_script (p @ key) w limit now) s; d = window_decision now [(limit, w, redis_auth_entries p s now key)] in
    fst r = Inr d \<and> redis_ok (prefixed_window p) now (snd r)
    \<and> redis_auth_entries p (snd r) now k = redis_auth_entries p s now k @ (if ld_allowed d \<and> k = key then [now] else [])"
proof -
  let ?es = "redis_auth_entries p s now key" and ?r = "rolling_script (p @ key) w limit now s"
  have pw: "0 < prefixed_window p (p @ key)" by (simp add: auth_window_pos)
  note step = script_step [OF ok t pw, where limit = limit, simplified w prefixed_window]
  have "\<forall>v\<in>set ?es. v \<le> now" using redis_entries_old [OF ok t] by blast
  then have safe: "1 \<le> retry ?es w now" "safe_integer (retry ?es w now)" using retry_safe auth_window_pos(2) [of key] w by blast+
  have "limit \<le> length ?es \<Longrightarrow> retry_seconds (hd ?es) w now = retry ?es w now" using l by (cases ?es) (auto simp: retry_def)
  then have "auth_decision (fst ?r) = Inr (window_decision now [(limit, w, ?es)])"
    using step(1) safe by (auto simp: auth_decision_def single_decision safe_integer_def max_def)
  then show ?thesis using step(2,3) by (auto simp: evaluate_def single_rolling Let_def single_decision split: prod.splits)
qed

lemma dual_auth:
  assumes ok: "redis_ok (prefixed_window p) t s" and t: "t \<le> now" and w: "auth_window k1 = w" "auth_window k2 = w" and ne: "k1 \<noteq> k2"
  shows "let r = evaluate True (dual_script (p @ k1) (p @ k2) w l1 l2 now) s;
      d = window_decision now [(l1, w, redis_auth_entries p s now k1), (l2, w, redis_auth_entries p s now k2)] in
    fst r = Inr d \<and> redis_ok (prefixed_window p) now (snd r)
    \<and> redis_auth_entries p (snd r) now k = redis_auth_entries p s now k @ (if ld_allowed d \<and> k \<in> {k1, k2} then [now] else [])"
proof -
  let ?es = "redis_auth_entries p s now k1" and ?fs = "redis_auth_entries p s now k2"
  have w0: "0 < w" "w \<le> 1000000000" using auth_window_pos [of k1] w by simp_all
  have ne': "p @ k1 \<noteq> p @ k2" using ne by simp
  note step = dual_script_step [OF ok t w0(1) _ _ ne', where ?l1.0 = l1 and ?l2.0 = l2, simplified w prefixed_window]
  have safe: "1 \<le> retry xs w now \<and> safe_integer (retry xs w now)" if "xs \<in> {?es, ?fs}" for xs
    using that redis_entries_old [OF ok t] w0(2) by (intro retry_safe) auto
  have "auth_decision (fst (dual_script (p @ k1) (p @ k2) w l1 l2 now s)) = Inr (window_decision now [(l1, w, ?es), (l2, w, ?fs)])"
    using step(1) safe [of ?es] safe [of ?fs] by (auto simp: auth_decision_def dual_decision safe_integer_def max_def)
  then show ?thesis using step(2,3) by (auto simp: evaluate_def Let_def window_allowed not_le split: prod.splits)
qed

lemma redis_auth_step:
  assumes "redis_ok (prefixed_window p) t s" and "t \<le> now"
  shows "let r = redis_auth_admit h p q now s;
      d = window_decision now (map (\<lambda>(k, limit). (limit, auth_window k, redis_auth_entries p s now k)) (auth_demand h q)) in
    fst r = Inr d \<and> redis_ok (prefixed_window p) now (snd r)
    \<and> redis_auth_entries p (snd r) now k = redis_auth_entries p s now k @ (if ld_allowed d \<and> k \<in> fst ` set (auth_demand h q) then [now] else [])"
  using single_auth [OF assms, of 60 "ipKey h ''refresh'' ip" _ k for ip] single_auth [OF assms, of 10 "familyKey h f" _ k for f]
    dual_auth [OF assms, of "accountKey a" LOGIN_WINDOW "ipKey h ''login'' ip" 5 20 k for a ip]
  by (cases q) (simp_all add: redis_auth_admit_def redis_admitLogin_def redis_admitRefreshIp_def redis_admitRefreshFamily_def auth_demand_def Let_def)

interpretation redis_auth: sliding_window "redis_auth_admit sha256_hex keyPrefix" "auth_demand sha256_hex" auth_window
    "redis_auth_entries keyPrefix" "redis_ok (prefixed_window keyPrefix)" "\<lambda>_. None" "\<lambda>_. True"
  for sha256_hex keyPrefix
proof unfold_locales
  show "redis_ok (prefixed_window keyPrefix) t (\<lambda>_. None)" "redis_auth_entries keyPrefix (\<lambda>_. None) now k = []" for t now k
    by (simp_all add: redis_ok_def redis_entries_def zset_def)
  show "0 < auth_window k" for k by (rule auth_window_pos(1))
  show "redis_auth_entries keyPrefix s later k = filter (\<lambda>v. later - auth_window k < v) (redis_auth_entries keyPrefix s now k)"
    if "redis_ok (prefixed_window keyPrefix) t s" "now \<le> later" for t s now later k
    using redis_older [OF that(1) _ that(2), of "keyPrefix @ k"] auth_window_pos(1) [of k] by simp
  fix t now :: int and s :: redis_store and q k d
  assume i: "redis_ok (prefixed_window keyPrefix) t s" and t: "t \<le> now"
  note step = redis_auth_step [OF i t, of sha256_hex q, unfolded Let_def]
  show "fst (redis_auth_admit sha256_hex keyPrefix q now s) = Inr (window_decision now
      (map (\<lambda>(k, limit). (limit, auth_window k, redis_auth_entries keyPrefix s now k)) (auth_demand sha256_hex q)))" using step by blast
  show "redis_ok (prefixed_window keyPrefix) now (snd (redis_auth_admit sha256_hex keyPrefix q now s))" using step by blast
  assume "fst (redis_auth_admit sha256_hex keyPrefix q now s) = Inr d"
  then show "redis_auth_entries keyPrefix (snd (redis_auth_admit sha256_hex keyPrefix q now s)) now k = redis_auth_entries keyPrefix s now k
      @ (if ld_allowed d \<and> k \<in> fst ` set (auth_demand sha256_hex q) then [now] else [])" using step [of k] by simp
qed

end
