(* ===== verification/Limiter_Properties.thy ===== *)
theory Limiter_Properties
  imports Limiter_Claims
begin

text \<open>
  What the limiters do over runs of requests: the limiter in process and the one in Redis decide alike,
  no route and no login is admitted more often than its limit in any window, and a refused request
  that comes back after the time it was told is admitted.
\<close>

section \<open>Runs of protected requests\<close>

record protected_request =
  pr_context :: request_context
  pr_method :: protected_method
  pr_route :: string
  pr_target :: "string option"

definition admit_protected :: "(string \<Rightarrow> string) \<Rightarrow> (string \<Rightarrow> nat \<Rightarrow> int \<Rightarrow> int \<Rightarrow> 's \<Rightarrow> limit_decision result \<times> 's)
    \<Rightarrow> protected_request \<Rightarrow> int \<Rightarrow> 's \<Rightarrow> limit_decision result \<times> 's" where
  "admit_protected sha256_hex admit q = protected_admit sha256_hex admit (pr_context q) (pr_method q) (pr_route q) (pr_target q)"

definition request_bucket :: "(string \<Rightarrow> string) \<Rightarrow> protected_request \<Rightarrow> string \<times> nat" where
  "request_bucket sha256_hex q =
     (protectedUsersBucketDigest sha256_hex (pr_context q) (pr_method q) (pr_route q) (pr_target q), protectedRouteLimit (pr_method q) (pr_route q))"

lemmas route_limits =
  USERS_LIST_LIMIT_def USERS_MUTATION_LIMIT_def API_KEY_ROTATION_LIMIT_def PASSWORD_PROVISION_LIMIT_def
  CLOUD_ACCOUNTS_LIST_LIMIT_def CLOUD_ACCOUNTS_MUTATION_LIMIT_def CLOUD_ACCOUNTS_DEACTIVATE_LIMIT_def IMPORTS_LIST_LIMIT_def
  IMPORTS_CREATE_LIMIT_def PRICE_TABLES_LIST_LIMIT_def PRICE_TABLES_MUTATION_LIMIT_def FORECAST_LIST_LIMIT_def
  FORECAST_MODEL_MUTATION_LIMIT_def FORECAST_RUN_MUTATION_LIMIT_def OPTIMIZER_POLICIES_LIST_LIMIT_def
  OPTIMIZER_POLICIES_MUTATION_LIMIT_def OPTIMIZER_RUNS_LIST_LIMIT_def OPTIMIZER_RUNS_MUTATION_LIMIT_def
  RECOMMENDATIONS_LIST_LIMIT_def APPROVALS_LIST_LIMIT_def APPROVALS_MUTATION_LIMIT_def REPORTS_LIST_LIMIT_def
  BACKTESTS_LIST_LIMIT_def BACKTESTS_MUTATION_LIMIT_def NOTIFICATIONS_LIST_LIMIT_def NOTIFICATIONS_MUTATION_LIMIT_def
  NOTIFICATION_PREFERENCES_LIST_LIMIT_def NOTIFICATION_PREFERENCES_MUTATION_LIMIT_def INTEGRATION_STATUS_LIMIT_def
  INTEGRATION_TEST_LIMIT_def SCENARIOS_LIST_LIMIT_def SCENARIOS_MUTATION_LIMIT_def AUDIT_LOG_LIST_LIMIT_def

lemma if_pos: "0 < x \<Longrightarrow> 0 < y \<Longrightarrow> 0 < (if b then x else (y::nat))"
  by simp

lemma protectedRouteLimit_pos: "0 < protectedRouteLimit m route"
  unfolding protectedRouteLimit_def Let_def by (intro if_pos) (simp_all only: route_limits zero_less_numeral)

lemma admit_protected_run:
  "admit_protected sha256_hex admit = (\<lambda>q. (\<lambda>(k, limit). admit k limit USERS_LIMIT_WINDOW_MS) (request_bucket sha256_hex q))"
  by (rule ext) (simp add: admit_protected_def protected_admit_def request_bucket_def)

lemma buckets_valid: "\<forall>(_, r)\<in>set (map (\<lambda>(t, q). (t, request_bucket h q)) reqs). case r of (_, limit) \<Rightarrow> 0 < limit"
  by (auto simp: request_bucket_def protectedRouteLimit_pos)

lemma local_protected_spec:
  assumes "in_order t reqs"
  shows "run_limiter (admit_protected h (local_admit unavailable)) new_local_limiter reqs
    = map Inr (spec_run (\<lambda>q. [request_bucket h q]) (\<lambda>_. USERS_LIMIT_WINDOW_MS) [] reqs)"
proof -
  have "run_limiter (admit_protected h (local_admit unavailable)) new_local_limiter reqs
      = run_limiter (\<lambda>q. (\<lambda>(k, limit). local_admit unavailable k limit USERS_LIMIT_WINDOW_MS) (request_bucket h q)) new_local_limiter reqs"
    by (simp only: admit_protected_run)
  also have "\<dots> = run_limiter (\<lambda>(k, limit). local_admit unavailable k limit USERS_LIMIT_WINDOW_MS) new_local_limiter
      (map (\<lambda>(t, q). (t, request_bucket h q)) reqs)" by (rule run_map)
  also have "\<dots> = map Inr (spec_run (\<lambda>r. [r]) (\<lambda>_. USERS_LIMIT_WINDOW_MS) [] (map (\<lambda>(t, q). (t, request_bucket h q)) reqs))"
    by (rule local_window.run_spec [OF _ buckets_valid]) (use assms in simp)
  also have "spec_run (\<lambda>r. [r]) (\<lambda>_. USERS_LIMIT_WINDOW_MS) [] (map (\<lambda>(t, q). (t, request_bucket h q)) reqs)
      = spec_run (\<lambda>q. [request_bucket h q]) (\<lambda>_. USERS_LIMIT_WINDOW_MS) [] reqs"
    using spec_run_map [where log = "[]"] by simp
  finally show ?thesis .
qed

lemma redis_protected_spec:
  assumes "in_order t reqs"
  shows "run_limiter (admit_protected h (redis_admit unavailable True keyPrefix)) (\<lambda>_. None) reqs
    = map Inr (spec_run (\<lambda>q. [request_bucket h q]) (\<lambda>_. USERS_LIMIT_WINDOW_MS) [] reqs)"
proof -
  have "run_limiter (admit_protected h (redis_admit unavailable True keyPrefix)) (\<lambda>_. None) reqs
      = run_limiter (\<lambda>q. (\<lambda>(k, limit). redis_admit unavailable True keyPrefix k limit USERS_LIMIT_WINDOW_MS) (request_bucket h q)) (\<lambda>_. None) reqs"
    by (simp only: admit_protected_run)
  also have "\<dots> = run_limiter (\<lambda>(k, limit). redis_admit unavailable True keyPrefix k limit USERS_LIMIT_WINDOW_MS) (\<lambda>_. None)
      (map (\<lambda>(t, q). (t, request_bucket h q)) reqs)" by (rule run_map)
  also have "\<dots> = map Inr (spec_run (\<lambda>r. [r]) (\<lambda>_. USERS_LIMIT_WINDOW_MS) [] (map (\<lambda>(t, q). (t, request_bucket h q)) reqs))"
    by (rule redis_window.run_spec [OF _ buckets_valid]) (use assms in simp)
  also have "spec_run (\<lambda>r. [r]) (\<lambda>_. USERS_LIMIT_WINDOW_MS) [] (map (\<lambda>(t, q). (t, request_bucket h q)) reqs)
      = spec_run (\<lambda>q. [request_bucket h q]) (\<lambda>_. USERS_LIMIT_WINDOW_MS) [] reqs"
    using spec_run_map [where log = "[]"] by simp
  finally show ?thesis .
qed

lemma admitted_count:
  assumes "\<And>time q. P time q (Inr admitted_decision) \<Longrightarrow> Q time q admitted_decision" and "\<And>time q d. P time q d \<Longrightarrow> d = Inr admitted_decision"
  shows "length (filter (\<lambda>((time, q), d). P time q d) (zip reqs (map Inr ds))) \<le> length (filter (\<lambda>((time, q), d). Q time q d) (zip reqs ds))"
  unfolding zip_map2 filter_map length_map by (rule length_filter_mono) (use assms in fastforce)

text \<open>
  C8: The two deployments of the limiters are equivalent: for any requests in the order of their times, the
  Lua scripts in Redis give the decisions, retry times included, that the buckets in process give; both
  for the protected routes and for logins and refreshes, under any key prefix.
\<close>

theorem limiters_agree:
  assumes "in_order t reqs" and "in_order t auth_reqs"
  shows "run_limiter (admit_protected sha256_hex (redis_admit protected_unavailable True keyPrefix)) (\<lambda>_. None) reqs
      = run_limiter (admit_protected sha256_hex (local_admit protected_unavailable)) new_local_limiter reqs
    \<and> run_limiter (redis_auth_admit sha256_hex keyPrefix) (\<lambda>_. None) auth_reqs
      = run_limiter (auth_admit sha256_hex) new_local_limiter auth_reqs"
  using local_auth.run_spec [OF assms(2)] redis_auth.run_spec [OF assms(2)]
  by (simp add: local_protected_spec [OF assms(1)] redis_protected_spec [OF assms(1)])

definition request_sample_get :: protected_request where
  "request_sample_get = \<lparr>pr_context = createApiKeyRequestContext ''t'' ''k'' ''q'', pr_method = POST, pr_route = ''/api/api-keys/rotate'', pr_target = None\<rparr>"

theorem limiters_agree_witness:
  "run_limiter (admit_protected (\<lambda>s. s) (redis_admit protected_unavailable True ''p'')) (\<lambda>_. None) (replicate 6 (0, request_sample_get))
    = run_limiter (admit_protected (\<lambda>s. s) (local_admit protected_unavailable)) new_local_limiter (replicate 6 (0, request_sample_get))"
proof -
  have o1: "in_order 0 (replicate 6 (0, request_sample_get))" and o2: "in_order 0 [(0, LoginAttempt ''a'' ''i'')]" by code_simp+
  show ?thesis using limiters_agree [OF o1 o2, of "\<lambda>s. s" "''p''"] by blast
qed

text \<open>
  A protected route is limited: over any run of requests, in the order of their times, one caller's
  requests of one method on one route (and target) are admitted at most \<open>protectedRouteLimit\<close> times in any
  window of a minute, whatever the other requests.
\<close>

theorem protected_routes_limited:
  assumes "in_order t reqs"
  shows "length (filter (\<lambda>((time, q'), d). q' = q \<and> a < time \<and> time \<le> a + 60000 \<and> d = Inr admitted_decision)
      (zip reqs (run_limiter (admit_protected sha256_hex (local_admit protected_unavailable)) new_local_limiter reqs)))
    \<le> protectedRouteLimit (pr_method q) (pr_route q)"
proof -
  let ?ds = "spec_run (\<lambda>q. [request_bucket sha256_hex q]) (\<lambda>_. USERS_LIMIT_WINDOW_MS) [] reqs"
  have first: "length (filter (\<lambda>((time, q'), d). q' = q \<and> a < time \<and> time \<le> a + USERS_LIMIT_WINDOW_MS \<and> ld_allowed d) (zip reqs ?ds))
      \<le> protectedRouteLimit (pr_method q) (pr_route q)"
    by (rule run_bounded [where C = "\<lambda>q'. q' = q" and k = "fst (request_bucket sha256_hex q)" and window = "\<lambda>_. USERS_LIMIT_WINDOW_MS", OF _ assms])
      (simp add: request_bucket_def)
  have second: "length (filter (\<lambda>((time, q'), d). q' = q \<and> a < time \<and> time \<le> a + 60000 \<and> d = Inr admitted_decision) (zip reqs (map Inr ?ds)))
      \<le> length (filter (\<lambda>((time, q'), d). q' = q \<and> a < time \<and> time \<le> a + USERS_LIMIT_WINDOW_MS \<and> ld_allowed d) (zip reqs ?ds))"
    by (rule admitted_count) (auto simp: USERS_LIMIT_WINDOW_MS_def)
  show ?thesis unfolding local_protected_spec [OF assms] by (rule order_trans [OF second first])
qed

theorem protected_routes_limited_witness:
  "length (filter (\<lambda>((time, q'), d). q' = request_sample_get \<and> - 1 < time \<and> time \<le> - 1 + (60000 :: int) \<and> d = Inr admitted_decision)
      (zip (replicate 6 (0, request_sample_get))
        (run_limiter (admit_protected (\<lambda>s. s) (local_admit protected_unavailable)) new_local_limiter (replicate 6 (0, request_sample_get)))))
    \<le> protectedRouteLimit POST ''/api/api-keys/rotate''"
proof -
  have o1: "in_order 0 (replicate 6 (0, request_sample_get))" by code_simp
  have m: "protectedRouteLimit (pr_method request_sample_get) (pr_route request_sample_get) = protectedRouteLimit POST ''/api/api-keys/rotate''"
    by (simp add: request_sample_get_def)
  show ?thesis using protected_routes_limited [OF o1, where q = request_sample_get and a = "- 1" and sha256_hex = "\<lambda>s. s"] unfolding m by blast
qed

section \<open>Logins\<close>

definition login_to :: "string \<Rightarrow> auth_request \<Rightarrow> bool" where
  "login_to account q = (case q of LoginAttempt a _ \<Rightarrow> a = account | _ \<Rightarrow> False)"

definition login_from :: "string \<Rightarrow> auth_request \<Rightarrow> bool" where
  "login_from ip q = (case q of LoginAttempt _ i \<Rightarrow> i = ip | _ \<Rightarrow> False)"

definition admitted_logins :: "(auth_request \<Rightarrow> bool) \<Rightarrow> int \<Rightarrow> (int \<times> auth_request) list \<Rightarrow> limit_decision result list \<Rightarrow> nat" where
  "admitted_logins C a reqs ds =
     length (filter (\<lambda>((time, q), d). C q \<and> a < time \<and> time \<le> a + 900000 \<and> d = Inr admitted_decision) (zip reqs ds))"

lemma auth_spec: "in_order t reqs \<Longrightarrow> run_limiter (auth_admit h) new_local_limiter reqs = map Inr (spec_run (auth_demand h) auth_window [] reqs)"
  by (rule local_auth.run_spec) auto

lemma admitted_logins_bounded:
  assumes "\<And>q. C q \<Longrightarrow> (k, limit) \<in> set (auth_demand h q)" and "auth_window k = LOGIN_WINDOW" and "in_order t reqs"
  shows "admitted_logins C a reqs (run_limiter (auth_admit h) new_local_limiter reqs) \<le> limit"
proof -
  let ?ds = "spec_run (auth_demand h) auth_window [] reqs"
  have first: "length (filter (\<lambda>((time, q), d). C q \<and> a < time \<and> time \<le> a + auth_window k \<and> ld_allowed d) (zip reqs ?ds)) \<le> limit"
    by (rule run_bounded [OF assms(1,3)])
  have second: "length (filter (\<lambda>((time, q), d). C q \<and> a < time \<and> time \<le> a + 900000 \<and> d = Inr admitted_decision) (zip reqs (map Inr ?ds)))
      \<le> length (filter (\<lambda>((time, q), d). C q \<and> a < time \<and> time \<le> a + auth_window k \<and> ld_allowed d) (zip reqs ?ds))"
    by (rule admitted_count) (auto simp: assms(2) LOGIN_WINDOW_def)
  show ?thesis unfolding auth_spec [OF assms(3)] admitted_logins_def by (rule order_trans [OF second first])
qed

text \<open>
  C32: Password guessing is bounded: over any run of logins and refreshes, in the order of their times, at
  most five attempts on one account and at most twenty from one address are admitted in any window of
  fifteen minutes, however the attempts are spread over addresses and accounts.
\<close>

theorem login_attempts_limited:
  assumes "in_order t reqs"
  shows "admitted_logins (login_to account) a reqs (run_limiter (auth_admit sha256_hex) new_local_limiter reqs) \<le> 5
    \<and> admitted_logins (login_from ip) a reqs (run_limiter (auth_admit sha256_hex) new_local_limiter reqs) \<le> 20"
  by (intro conjI admitted_logins_bounded [where k = "accountKey account", OF _ _ assms]
        admitted_logins_bounded [where k = "ipKey sha256_hex ''login'' ip", OF _ _ assms])
    (auto simp: login_to_def login_from_def auth_demand_def split: auth_request.splits)

theorem login_attempts_limited_witness:
  "admitted_logins (login_to ''a'') 0 [(1, LoginAttempt ''a'' ''i''), (5, RefreshFrom ''i'')]
      (run_limiter (auth_admit (\<lambda>s. s)) new_local_limiter [(1, LoginAttempt ''a'' ''i''), (5, RefreshFrom ''i'')]) \<le> 5
    \<and> admitted_logins (login_from ''i'') 0 [(1, LoginAttempt ''a'' ''i''), (5, RefreshFrom ''i'')]
      (run_limiter (auth_admit (\<lambda>s. s)) new_local_limiter [(1, LoginAttempt ''a'' ''i''), (5, RefreshFrom ''i'')]) \<le> 20"
proof -
  have "in_order 0 [(1, LoginAttempt ''a'' ''i''), (5, RefreshFrom ''i'')]" by simp
  from login_attempts_limited [OF this, of "''a''" 0 "\<lambda>s. s" "''i''"] show ?thesis .
qed

text \<open>The limit of a bucket is that of its kind.\<close>

definition auth_limit :: "string \<Rightarrow> nat" where
  "auth_limit k = (if prefix ''account:'' k then 5 else if prefix ''ip:login:'' k then 20 else if prefix ''ip:refresh:'' k then 60 else 10)"

lemma auth_demand_limit: "(k, l) \<in> set (auth_demand h q) \<Longrightarrow> l = auth_limit k"
  by (auto simp: auth_demand_def auth_limit_def accountKey_def ipKey_def familyKey_def split: auth_request.splits)

text \<open>
  A refusal names an honest time: after any run, a login or refresh that is refused with
  \<open>retryAfterSeconds\<close> and is sent again when those seconds have passed is admitted, if nothing was
  admitted in between.
\<close>

theorem refused_login_retries:
  assumes "in_order t (reqs @ [(now, q), (later, q)])"
    and "last (run_limiter (auth_admit sha256_hex) new_local_limiter (reqs @ [(now, q)])) = Inr (refused_decision r)"
    and "now + 1000 * r \<le> later"
  shows "last (run_limiter (auth_admit sha256_hex) new_local_limiter (reqs @ [(now, q), (later, q)])) = Inr admitted_decision"
proof -
  let ?log = "admissions reqs (spec_run (auth_demand sha256_hex) auth_window [] reqs)"
  let ?d = "log_decision (auth_demand sha256_hex) auth_window ?log"
  have ord: "in_order t (reqs @ [(now, q)])" "now \<le> later" using assms(1) by (induction reqs arbitrary: t) auto
  have d: "?d now q = refused_decision r"
    using assms(2) unfolding auth_spec [OF ord(1)] by (simp add: spec_run_append)
  have "\<forall>(k, limit)\<in>set (auth_demand sha256_hex q). 0 < limit
      \<and> length (log_entries (auth_demand sha256_hex) auth_window ?log now k) \<le> limit"
  proof (intro ballI, clarify)
    fix k l assume k: "(k, l) \<in> set (auth_demand sha256_hex q)"
    then have "0 < l" using auth_demand_limit [OF k] by (simp add: auth_limit_def)
    moreover have "length (log_entries (auth_demand sha256_hex) auth_window ?log now k) \<le> l"
      by (rule entries_bounded [OF _ assms(1) [unfolded append.simps]]) (use auth_demand_limit k in metis)
    ultimately show "0 < l \<and> length (log_entries (auth_demand sha256_hex) auth_window ?log now k) \<le> l" by blast
  qed
  from retry_honest [OF d _ _ assms(3) ord(2) this] have "ld_allowed (?d later q)" by simp
  then have "?d later q = admitted_decision" by (auto simp: log_decision_def window_decision_def Let_def split: if_splits)
  then show ?thesis unfolding auth_spec [OF assms(1)] by (simp add: spec_run_append d)
qed

theorem refused_login_retries_witness:
  "last (run_limiter (auth_admit (\<lambda>s. s)) new_local_limiter
     (replicate 5 (0, LoginAttempt ''a'' ''i'') @ [(1, LoginAttempt ''a'' ''i''), (900001, LoginAttempt ''a'' ''i'')])) = Inr admitted_decision"
proof -
  have o: "in_order 0 (replicate 5 (0, LoginAttempt ''a'' ''i'') @ [(1, LoginAttempt ''a'' ''i''), (900001, LoginAttempt ''a'' ''i'')])" by code_simp
  have r: "last (run_limiter (auth_admit (\<lambda>s. s)) new_local_limiter (replicate 5 (0, LoginAttempt ''a'' ''i'') @ [(1, LoginAttempt ''a'' ''i'')]))
    = Inr (refused_decision 900)" by code_simp
  show ?thesis by (rule refused_login_retries [OF o r]) simp
qed

end
