(* ===== verification/Rbac.thy ===== *)
theory Rbac
  imports Auth_Errors
begin

text \<open>
  Who may do what: the policy tables of core/tenant/rbac.ts and the endpoints of
  core/tenant/protected-route-actions.ts. \<open>guarded\<close> is the pre-handler \<open>requireAction\<close> of
  apps/api/plugins/auth.ts.
\<close>

section \<open>Actions\<close>

datatype auth_action =
    TenantProfileRead | CloudAccountsRead | CloudAccountsCreateUpdate | CloudAccountsDeactivate
  | UsersReadManage | ApiKeysReadManage | ApiKeysReadRotate | ImportsRead | ImportsWrite | PriceTablesRead
  | PriceTablesCreateActivate | ForecastModelsRead | ForecastModelsWrite | ForecastRunsRead | ForecastRunsRun
  | ScenariosReadWrite | OptimizerPoliciesRead | OptimizerPoliciesWrite | OptimizerRunsRead
  | OptimizerRunsRun | RecommendationsRead | RecommendationsRequestApproval | RecommendationsApproveReject
  | ApprovalsRead | ReportsRead | BacktestsReadRun | AuditLogRead | NotificationsRead
  | NotificationPreferencesWrite | TenantSettingsWrite | EcosystemAdaptersConfigure

primrec action_text :: "auth_action \<Rightarrow> string" where
  "action_text TenantProfileRead = ''tenant_profile.read''"
| "action_text CloudAccountsRead = ''cloud_accounts.read''"
| "action_text CloudAccountsCreateUpdate = ''cloud_accounts.create_update''"
| "action_text CloudAccountsDeactivate = ''cloud_accounts.deactivate''"
| "action_text UsersReadManage = ''users.read_manage''"
| "action_text ApiKeysReadManage = ''api_keys.read_manage''"
| "action_text ApiKeysReadRotate = ''api_keys.read_rotate''"
| "action_text ImportsRead = ''imports.read''"
| "action_text ImportsWrite = ''imports.write''"
| "action_text PriceTablesRead = ''price_tables.read''"
| "action_text PriceTablesCreateActivate = ''price_tables.create_activate''"
| "action_text ForecastModelsRead = ''forecast_models.read''"
| "action_text ForecastModelsWrite = ''forecast_models.write''"
| "action_text ForecastRunsRead = ''forecast_runs.read''"
| "action_text ForecastRunsRun = ''forecast_runs.run''"
| "action_text ScenariosReadWrite = ''scenarios.read_write''"
| "action_text OptimizerPoliciesRead = ''optimizer_policies.read''"
| "action_text OptimizerPoliciesWrite = ''optimizer_policies.write''"
| "action_text OptimizerRunsRead = ''optimizer_runs.read''"
| "action_text OptimizerRunsRun = ''optimizer_runs.run''"
| "action_text RecommendationsRead = ''recommendations.read''"
| "action_text RecommendationsRequestApproval = ''recommendations.request_approval''"
| "action_text RecommendationsApproveReject = ''recommendations.approve_reject''"
| "action_text ApprovalsRead = ''approvals.read''"
| "action_text ReportsRead = ''reports.read''"
| "action_text BacktestsReadRun = ''backtests.read_run''"
| "action_text AuditLogRead = ''audit_log.read''"
| "action_text NotificationsRead = ''notifications.read''"
| "action_text NotificationPreferencesWrite = ''notification_preferences.write''"
| "action_text TenantSettingsWrite = ''tenant_settings.write''"
| "action_text EcosystemAdaptersConfigure = ''ecosystem_adapters.configure''"

definition AUTH_ACTIONS :: "auth_action list" where
  "AUTH_ACTIONS =
     [TenantProfileRead, CloudAccountsRead, CloudAccountsCreateUpdate, CloudAccountsDeactivate,
      UsersReadManage, ApiKeysReadManage, ApiKeysReadRotate, ImportsRead, ImportsWrite,
      PriceTablesRead, PriceTablesCreateActivate, ForecastModelsRead, ForecastModelsWrite,
      ForecastRunsRead, ForecastRunsRun, ScenariosReadWrite, OptimizerPoliciesRead,
      OptimizerPoliciesWrite, OptimizerRunsRead, OptimizerRunsRun, RecommendationsRead,
      RecommendationsRequestApproval, RecommendationsApproveReject, ApprovalsRead, ReportsRead,
      BacktestsReadRun, AuditLogRead, NotificationsRead, NotificationPreferencesWrite,
      TenantSettingsWrite, EcosystemAdaptersConfigure]"

text \<open>\<open>isAuthAction\<close> with the action it finds.\<close>

definition isAuthAction :: "string \<Rightarrow> auth_action option" where
  "isAuthAction v = find (\<lambda>a. action_text a = v) AUTH_ACTIONS"

section \<open>Policies\<close>

datatype policy_decision = AllowP1 | AllowFutureP2 | AllowFutureP3 | Deny

primrec tenantAdminPolicy :: "auth_action \<Rightarrow> policy_decision" where
  "tenantAdminPolicy TenantProfileRead = AllowP1"
| "tenantAdminPolicy CloudAccountsRead = AllowP1"
| "tenantAdminPolicy CloudAccountsCreateUpdate = AllowP1"
| "tenantAdminPolicy CloudAccountsDeactivate = AllowP1"
| "tenantAdminPolicy UsersReadManage = AllowP1"
| "tenantAdminPolicy ApiKeysReadManage = AllowP1"
| "tenantAdminPolicy ApiKeysReadRotate = AllowP1"
| "tenantAdminPolicy ImportsRead = AllowP1"
| "tenantAdminPolicy ImportsWrite = AllowP1"
| "tenantAdminPolicy PriceTablesRead = AllowP1"
| "tenantAdminPolicy PriceTablesCreateActivate = AllowP1"
| "tenantAdminPolicy ForecastModelsRead = AllowP1"
| "tenantAdminPolicy ForecastModelsWrite = AllowP1"
| "tenantAdminPolicy ForecastRunsRead = AllowP1"
| "tenantAdminPolicy ForecastRunsRun = AllowP1"
| "tenantAdminPolicy ScenariosReadWrite = AllowP1"
| "tenantAdminPolicy OptimizerPoliciesRead = AllowP1"
| "tenantAdminPolicy OptimizerPoliciesWrite = AllowP1"
| "tenantAdminPolicy OptimizerRunsRead = AllowP1"
| "tenantAdminPolicy OptimizerRunsRun = AllowP1"
| "tenantAdminPolicy RecommendationsRead = AllowP1"
| "tenantAdminPolicy RecommendationsRequestApproval = AllowP1"
| "tenantAdminPolicy RecommendationsApproveReject = AllowP1"
| "tenantAdminPolicy ApprovalsRead = AllowP1"
| "tenantAdminPolicy ReportsRead = AllowP1"
| "tenantAdminPolicy BacktestsReadRun = AllowP1"
| "tenantAdminPolicy AuditLogRead = AllowP1"
| "tenantAdminPolicy NotificationsRead = AllowP1"
| "tenantAdminPolicy NotificationPreferencesWrite = AllowP1"
| "tenantAdminPolicy TenantSettingsWrite = AllowP1"
| "tenantAdminPolicy EcosystemAdaptersConfigure = AllowP1"

primrec finopsAnalystPolicy :: "auth_action \<Rightarrow> policy_decision" where
  "finopsAnalystPolicy TenantProfileRead = AllowP1"
| "finopsAnalystPolicy CloudAccountsRead = AllowP1"
| "finopsAnalystPolicy CloudAccountsCreateUpdate = AllowP1"
| "finopsAnalystPolicy CloudAccountsDeactivate = Deny"
| "finopsAnalystPolicy UsersReadManage = Deny"
| "finopsAnalystPolicy ApiKeysReadManage = Deny"
| "finopsAnalystPolicy ApiKeysReadRotate = Deny"
| "finopsAnalystPolicy ImportsRead = AllowP1"
| "finopsAnalystPolicy ImportsWrite = AllowP1"
| "finopsAnalystPolicy PriceTablesRead = AllowP1"
| "finopsAnalystPolicy PriceTablesCreateActivate = Deny"
| "finopsAnalystPolicy ForecastModelsRead = AllowP1"
| "finopsAnalystPolicy ForecastModelsWrite = AllowP1"
| "finopsAnalystPolicy ForecastRunsRead = AllowP1"
| "finopsAnalystPolicy ForecastRunsRun = AllowP1"
| "finopsAnalystPolicy ScenariosReadWrite = AllowP1"
| "finopsAnalystPolicy OptimizerPoliciesRead = AllowP1"
| "finopsAnalystPolicy OptimizerPoliciesWrite = Deny"
| "finopsAnalystPolicy OptimizerRunsRead = AllowP1"
| "finopsAnalystPolicy OptimizerRunsRun = AllowP1"
| "finopsAnalystPolicy RecommendationsRead = AllowP1"
| "finopsAnalystPolicy RecommendationsRequestApproval = AllowP1"
| "finopsAnalystPolicy RecommendationsApproveReject = Deny"
| "finopsAnalystPolicy ApprovalsRead = Deny"
| "finopsAnalystPolicy ReportsRead = AllowP1"
| "finopsAnalystPolicy BacktestsReadRun = AllowP1"
| "finopsAnalystPolicy AuditLogRead = Deny"
| "finopsAnalystPolicy NotificationsRead = AllowP1"
| "finopsAnalystPolicy NotificationPreferencesWrite = AllowP1"
| "finopsAnalystPolicy TenantSettingsWrite = Deny"
| "finopsAnalystPolicy EcosystemAdaptersConfigure = Deny"

primrec financeApproverPolicy :: "auth_action \<Rightarrow> policy_decision" where
  "financeApproverPolicy TenantProfileRead = AllowFutureP2"
| "financeApproverPolicy CloudAccountsRead = AllowFutureP2"
| "financeApproverPolicy CloudAccountsCreateUpdate = Deny"
| "financeApproverPolicy CloudAccountsDeactivate = Deny"
| "financeApproverPolicy UsersReadManage = Deny"
| "financeApproverPolicy ApiKeysReadManage = Deny"
| "financeApproverPolicy ApiKeysReadRotate = Deny"
| "financeApproverPolicy ImportsRead = AllowFutureP2"
| "financeApproverPolicy ImportsWrite = Deny"
| "financeApproverPolicy PriceTablesRead = AllowFutureP2"
| "financeApproverPolicy PriceTablesCreateActivate = Deny"
| "financeApproverPolicy ForecastModelsRead = AllowFutureP2"
| "financeApproverPolicy ForecastModelsWrite = Deny"
| "financeApproverPolicy ForecastRunsRead = AllowFutureP2"
| "financeApproverPolicy ForecastRunsRun = Deny"
| "financeApproverPolicy ScenariosReadWrite = AllowP1"
| "financeApproverPolicy OptimizerPoliciesRead = AllowFutureP2"
| "financeApproverPolicy OptimizerPoliciesWrite = Deny"
| "financeApproverPolicy OptimizerRunsRead = AllowFutureP2"
| "financeApproverPolicy OptimizerRunsRun = Deny"
| "financeApproverPolicy RecommendationsRead = AllowP1"
| "financeApproverPolicy RecommendationsRequestApproval = Deny"
| "financeApproverPolicy RecommendationsApproveReject = AllowP1"
| "financeApproverPolicy ApprovalsRead = AllowP1"
| "financeApproverPolicy ReportsRead = AllowFutureP2"
| "financeApproverPolicy BacktestsReadRun = AllowP1"
| "financeApproverPolicy AuditLogRead = Deny"
| "financeApproverPolicy NotificationsRead = AllowP1"
| "financeApproverPolicy NotificationPreferencesWrite = AllowP1"
| "financeApproverPolicy TenantSettingsWrite = Deny"
| "financeApproverPolicy EcosystemAdaptersConfigure = Deny"

primrec readOnlyAuditorPolicy :: "auth_action \<Rightarrow> policy_decision" where
  "readOnlyAuditorPolicy TenantProfileRead = AllowFutureP2"
| "readOnlyAuditorPolicy CloudAccountsRead = AllowFutureP2"
| "readOnlyAuditorPolicy CloudAccountsCreateUpdate = Deny"
| "readOnlyAuditorPolicy CloudAccountsDeactivate = Deny"
| "readOnlyAuditorPolicy UsersReadManage = Deny"
| "readOnlyAuditorPolicy ApiKeysReadManage = Deny"
| "readOnlyAuditorPolicy ApiKeysReadRotate = Deny"
| "readOnlyAuditorPolicy ImportsRead = AllowFutureP2"
| "readOnlyAuditorPolicy ImportsWrite = Deny"
| "readOnlyAuditorPolicy PriceTablesRead = AllowFutureP2"
| "readOnlyAuditorPolicy PriceTablesCreateActivate = Deny"
| "readOnlyAuditorPolicy ForecastModelsRead = AllowFutureP2"
| "readOnlyAuditorPolicy ForecastModelsWrite = Deny"
| "readOnlyAuditorPolicy ForecastRunsRead = AllowFutureP2"
| "readOnlyAuditorPolicy ForecastRunsRun = Deny"
| "readOnlyAuditorPolicy ScenariosReadWrite = AllowP1"
| "readOnlyAuditorPolicy OptimizerPoliciesRead = AllowFutureP2"
| "readOnlyAuditorPolicy OptimizerPoliciesWrite = Deny"
| "readOnlyAuditorPolicy OptimizerRunsRead = AllowFutureP2"
| "readOnlyAuditorPolicy OptimizerRunsRun = Deny"
| "readOnlyAuditorPolicy RecommendationsRead = AllowFutureP2"
| "readOnlyAuditorPolicy RecommendationsRequestApproval = Deny"
| "readOnlyAuditorPolicy RecommendationsApproveReject = Deny"
| "readOnlyAuditorPolicy ApprovalsRead = Deny"
| "readOnlyAuditorPolicy ReportsRead = AllowFutureP2"
| "readOnlyAuditorPolicy BacktestsReadRun = AllowP1"
| "readOnlyAuditorPolicy AuditLogRead = AllowP1"
| "readOnlyAuditorPolicy NotificationsRead = AllowP1"
| "readOnlyAuditorPolicy NotificationPreferencesWrite = Deny"
| "readOnlyAuditorPolicy TenantSettingsWrite = Deny"
| "readOnlyAuditorPolicy EcosystemAdaptersConfigure = Deny"

primrec API_KEY_ACTION_POLICY :: "auth_action \<Rightarrow> policy_decision" where
  "API_KEY_ACTION_POLICY TenantProfileRead = AllowP1"
| "API_KEY_ACTION_POLICY CloudAccountsRead = AllowP1"
| "API_KEY_ACTION_POLICY CloudAccountsCreateUpdate = AllowP1"
| "API_KEY_ACTION_POLICY CloudAccountsDeactivate = Deny"
| "API_KEY_ACTION_POLICY UsersReadManage = Deny"
| "API_KEY_ACTION_POLICY ApiKeysReadManage = Deny"
| "API_KEY_ACTION_POLICY ApiKeysReadRotate = Deny"
| "API_KEY_ACTION_POLICY ImportsRead = AllowP1"
| "API_KEY_ACTION_POLICY ImportsWrite = AllowP1"
| "API_KEY_ACTION_POLICY PriceTablesRead = AllowP1"
| "API_KEY_ACTION_POLICY PriceTablesCreateActivate = Deny"
| "API_KEY_ACTION_POLICY ForecastModelsRead = AllowP1"
| "API_KEY_ACTION_POLICY ForecastModelsWrite = AllowP1"
| "API_KEY_ACTION_POLICY ForecastRunsRead = AllowP1"
| "API_KEY_ACTION_POLICY ForecastRunsRun = AllowP1"
| "API_KEY_ACTION_POLICY ScenariosReadWrite = Deny"
| "API_KEY_ACTION_POLICY OptimizerPoliciesRead = Deny"
| "API_KEY_ACTION_POLICY OptimizerPoliciesWrite = Deny"
| "API_KEY_ACTION_POLICY OptimizerRunsRead = AllowP1"
| "API_KEY_ACTION_POLICY OptimizerRunsRun = AllowP1"
| "API_KEY_ACTION_POLICY RecommendationsRead = AllowP1"
| "API_KEY_ACTION_POLICY RecommendationsRequestApproval = AllowP1"
| "API_KEY_ACTION_POLICY RecommendationsApproveReject = Deny"
| "API_KEY_ACTION_POLICY ApprovalsRead = Deny"
| "API_KEY_ACTION_POLICY ReportsRead = AllowP1"
| "API_KEY_ACTION_POLICY BacktestsReadRun = AllowP1"
| "API_KEY_ACTION_POLICY AuditLogRead = Deny"
| "API_KEY_ACTION_POLICY NotificationsRead = Deny"
| "API_KEY_ACTION_POLICY NotificationPreferencesWrite = Deny"
| "API_KEY_ACTION_POLICY TenantSettingsWrite = Deny"
| "API_KEY_ACTION_POLICY EcosystemAdaptersConfigure = Deny"

definition ROLE_ACTION_POLICY :: "user_role \<Rightarrow> auth_action \<Rightarrow> policy_decision" where
  "ROLE_ACTION_POLICY role =
     (case role of TenantAdmin \<Rightarrow> tenantAdminPolicy | FinopsAnalyst \<Rightarrow> finopsAnalystPolicy
      | FinanceApprover \<Rightarrow> financeApproverPolicy | ReadOnlyAuditor \<Rightarrow> readOnlyAuditorPolicy)"

definition canPerformAuthAction :: "user_role \<Rightarrow> string \<Rightarrow> actor_type \<Rightarrow> bool" where
  "canPerformAuthAction role action actorType =
     (case isAuthAction action of
        None \<Rightarrow> False
      | Some a \<Rightarrow>
          if actorType = ApiKeyActor then role = API_KEY_ROLE \<and> API_KEY_ACTION_POLICY a = AllowP1
          else ROLE_ACTION_POLICY role a = AllowP1)"

section \<open>Endpoints\<close>

datatype endpoint_method = EpGet | EpPost | EpPatch | EpPut | EpDelete

record endpoint_action =
  ep_method :: endpoint_method
  ep_path :: string
  ep_action :: auth_action

abbreviation endpoint :: "endpoint_method \<Rightarrow> string \<Rightarrow> auth_action \<Rightarrow> endpoint_action" where
  "endpoint m p a \<equiv> \<lparr>ep_method = m, ep_path = p, ep_action = a\<rparr>"

definition PROTECTED_ENDPOINT_ACTIONS :: "endpoint_action list" where
  "PROTECTED_ENDPOINT_ACTIONS =
     [endpoint EpGet ''/tenants/me'' TenantProfileRead,
      endpoint EpGet ''/api/users'' UsersReadManage,
      endpoint EpPost ''/api/users'' UsersReadManage,
      endpoint EpPatch ''/api/users/{id}'' UsersReadManage,
      endpoint EpPut ''/api/users/{id}/credentials/password'' UsersReadManage,
      endpoint EpGet ''/api/api-keys'' ApiKeysReadManage,
      endpoint EpPost ''/api/api-keys/rotate'' ApiKeysReadRotate,
      endpoint EpPost ''/api/cloud-accounts'' CloudAccountsCreateUpdate,
      endpoint EpGet ''/api/cloud-accounts'' CloudAccountsRead,
      endpoint EpPatch ''/api/cloud-accounts/{id}'' CloudAccountsCreateUpdate,
      endpoint EpPost ''/api/cloud-accounts/{id}/deactivate'' CloudAccountsDeactivate,
      endpoint EpPost ''/api/imports'' ImportsWrite,
      endpoint EpGet ''/api/imports'' ImportsRead,
      endpoint EpGet ''/api/imports/{id}'' ImportsRead,
      endpoint EpPost ''/api/price-tables'' PriceTablesCreateActivate,
      endpoint EpPost ''/api/price-tables/{id}/activate'' PriceTablesCreateActivate,
      endpoint EpGet ''/api/price-tables'' PriceTablesRead,
      endpoint EpGet ''/api/forecast-models'' ForecastModelsRead,
      endpoint EpPost ''/api/forecast-models'' ForecastModelsWrite,
      endpoint EpGet ''/api/forecast-runs'' ForecastRunsRead,
      endpoint EpPost ''/api/forecast-runs'' ForecastRunsRun,
      endpoint EpGet ''/api/forecast-runs/{id}'' ForecastRunsRead,
      endpoint EpGet ''/api/scenarios'' ScenariosReadWrite,
      endpoint EpPost ''/api/scenarios'' ScenariosReadWrite,
      endpoint EpGet ''/api/scenarios/{id}'' ScenariosReadWrite,
      endpoint EpGet ''/api/optimizer-policies'' OptimizerPoliciesRead,
      endpoint EpPost ''/api/optimizer-policies'' OptimizerPoliciesWrite,
      endpoint EpPatch ''/api/optimizer-policies/{id}'' OptimizerPoliciesWrite,
      endpoint EpPost ''/api/optimizer-runs'' OptimizerRunsRun,
      endpoint EpGet ''/api/optimizer-runs/{id}'' OptimizerRunsRead,
      endpoint EpGet ''/api/recommendations'' RecommendationsRead,
      endpoint EpGet ''/api/recommendations/{id}'' RecommendationsRead,
      endpoint EpPost ''/api/recommendations/{id}/request-approval'' RecommendationsRequestApproval,
      endpoint EpGet ''/api/approvals'' ApprovalsRead,
      endpoint EpGet ''/api/approvals/{id}'' ApprovalsRead,
      endpoint EpPost ''/api/approvals/{id}/approve'' RecommendationsApproveReject,
      endpoint EpPost ''/api/approvals/{id}/reject'' RecommendationsApproveReject,
      endpoint EpGet ''/api/backtests'' BacktestsReadRun,
      endpoint EpPost ''/api/backtests'' BacktestsReadRun,
      endpoint EpGet ''/api/backtests/{id}'' BacktestsReadRun,
      endpoint EpGet ''/api/reports/{source_type}/{source_id}'' ReportsRead,
      endpoint EpGet ''/api/audit-log'' AuditLogRead,
      endpoint EpGet ''/api/integrations/status'' EcosystemAdaptersConfigure,
      endpoint EpGet ''/api/notifications'' NotificationsRead,
      endpoint EpPost ''/api/notifications/{id}/read'' NotificationsRead,
      endpoint EpGet ''/api/settings/notifications'' NotificationPreferencesWrite,
      endpoint EpPut ''/api/settings/notifications'' NotificationPreferencesWrite,
      endpoint EpPost ''/api/integrations/test-event'' EcosystemAdaptersConfigure]"

text \<open>\<open>requireAction\<close>: no context is 401, a context that may not is 403.\<close>

definition requireAction :: "auth_action \<Rightarrow> request_context option \<Rightarrow> unit result" where
  "requireAction action ctx =
     (case ctx of
        None \<Rightarrow> Inl (authError AuthRequired)
      | Some c \<Rightarrow> if canPerformAuthAction (ctx_role c) (action_text action) (ctx_actorType c) then Inr () else Inl (authError Forbidden))"

text \<open>An endpoint as a context sees it.\<close>

definition guarded :: "request_context \<Rightarrow> endpoint_action \<Rightarrow> bool" where
  "guarded c e = (requireAction (ep_action e) (Some c) = Inr ())"

section \<open>What the tables grant\<close>

lemma isAuthAction_text [simp]: "isAuthAction (action_text a) = Some a"
  by (cases a) (simp_all add: isAuthAction_def AUTH_ACTIONS_def)

lemma canPerform_text: "canPerformAuthAction role (action_text a) t =
    (if t = ApiKeyActor then role = API_KEY_ROLE \<and> API_KEY_ACTION_POLICY a = AllowP1 else ROLE_ACTION_POLICY role a = AllowP1)"
  by (simp add: canPerformAuthAction_def)

lemma guarded_context:
  "guarded (createUserRequestContext t u role r) e \<longleftrightarrow> ROLE_ACTION_POLICY role (ep_action e) = AllowP1"
  "guarded (createApiKeyRequestContext t k r) e \<longleftrightarrow> API_KEY_ACTION_POLICY (ep_action e) = AllowP1"
  by (simp_all add: guarded_def requireAction_def canPerform_text createUserRequestContext_def createApiKeyRequestContext_def)

lemma api_key_below_analyst: "API_KEY_ACTION_POLICY a = AllowP1 \<Longrightarrow> finopsAnalystPolicy a = AllowP1"
  by (cases a) simp_all

definition may :: "string \<Rightarrow> (user_role \<times> actor_type) set" where
  "may action = {(role, actor). canPerformAuthAction role action actor}"

definition administration :: "auth_action list" where
  "administration = [UsersReadManage, ApiKeysReadManage, ApiKeysReadRotate, OptimizerPoliciesWrite, PriceTablesCreateActivate,
     CloudAccountsDeactivate, TenantSettingsWrite, EcosystemAdaptersConfigure]"

lemma not_api_key [simp]: "t \<noteq> ApiKeyActor \<longleftrightarrow> t = UserActor"
  by (cases t) simp_all

lemma may_text: "may (action_text a) =
    {(role, actor). if actor = ApiKeyActor then role = API_KEY_ROLE \<and> API_KEY_ACTION_POLICY a = AllowP1 else ROLE_ACTION_POLICY role a = AllowP1}"
  by (simp add: may_def canPerform_text)

lemma may_admin:
  assumes "\<And>role. ROLE_ACTION_POLICY role a = AllowP1 \<longleftrightarrow> role = TenantAdmin" and "API_KEY_ACTION_POLICY a \<noteq> AllowP1"
  shows "may (action_text a) = {(TenantAdmin, UserActor)}"
  using assms by (auto simp: may_text)

text \<open>
  C20: Roles are least privilege: the decision on an approval is open to the users who are administrators or
  finance approvers and to nobody else; users, API keys, policies, price tables, deactivations, settings
  and adapters to the users who are administrators; an API key may only do what an analyst may; and no
  actor may do an action that is not listed.
\<close>

theorem roles_least_privilege:
  "may ''recommendations.approve_reject'' = {(TenantAdmin, UserActor), (FinanceApprover, UserActor)}
    \<and> list_all (\<lambda>a. may (action_text a) = {(TenantAdmin, UserActor)}) administration
    \<and> {action. canPerformAuthAction role action ApiKeyActor} \<subseteq> {action. canPerformAuthAction FinopsAnalyst action UserActor}
    \<and> {action. may action \<noteq> {}} \<subseteq> action_text ` set AUTH_ACTIONS"
proof (intro conjI)
  have "may (action_text RecommendationsApproveReject) = {(TenantAdmin, UserActor), (FinanceApprover, UserActor)}"
    by (auto simp: may_text ROLE_ACTION_POLICY_def simp del: action_text.simps split: user_role.splits if_splits)
  then show "may ''recommendations.approve_reject'' = {(TenantAdmin, UserActor), (FinanceApprover, UserActor)}" by simp
  have all: "may (action_text a) = {(TenantAdmin, UserActor)}" if "a \<in> set administration" for a
  proof (rule may_admin)
    show "API_KEY_ACTION_POLICY a \<noteq> AllowP1" using that by (auto simp: administration_def)
    show "ROLE_ACTION_POLICY role a = AllowP1 \<longleftrightarrow> role = TenantAdmin" for role
      using that by (cases role) (auto simp: ROLE_ACTION_POLICY_def administration_def)
  qed
  then show "list_all (\<lambda>a. may (action_text a) = {(TenantAdmin, UserActor)}) administration" by (simp add: list_all_iff)
  show "{action. canPerformAuthAction role action ApiKeyActor} \<subseteq> {action. canPerformAuthAction FinopsAnalyst action UserActor}"
    using api_key_below_analyst by (auto simp: canPerformAuthAction_def ROLE_ACTION_POLICY_def split: option.splits)
  show "{action. may action \<noteq> {}} \<subseteq> action_text ` set AUTH_ACTIONS"
    by (auto simp: may_def canPerformAuthAction_def isAuthAction_def find_Some_iff split: option.splits)
qed

text \<open>What an auditor may change: scenarios, backtests and the read mark of notifications.\<close>

lemma auditor_mutations:
  "map ep_path (filter (\<lambda>e. ep_method e \<noteq> EpGet \<and> guarded (createUserRequestContext t u ReadOnlyAuditor r) e) PROTECTED_ENDPOINT_ACTIONS)
    = [''/api/scenarios'', ''/api/backtests'', ''/api/notifications/{id}/read'']"
  by (simp add: PROTECTED_ENDPOINT_ACTIONS_def guarded_context ROLE_ACTION_POLICY_def)

end
