(* ===== verification/Credentials.thy ===== *)
theory Credentials
  imports Complex_Main Rbac Limiters Cursors
begin

text \<open>
  What a request proves itself with: opaque secrets (core/tenant/auth-session-crypto.ts), passwords
  (password-policy.ts, password-credential.ts), API keys (api-key-auth.ts, api-key-credential.ts), the
  proof of a cookie (auth-session-csrf.ts), the choice of the credential (request-credential.ts) and the
  claims of a token (jwt-validation.ts). Digests are parameters: \<open>sha256\<close> gives bytes, \<open>sha256_hex\<close>
  their hexadecimal text. Texts are Latin-1, where \<open>normalize('NFC')\<close> is the identity and every
  character is one scalar.
\<close>

section \<open>Opaque secrets\<close>

definition createOpaqueSecret :: "string \<Rightarrow> string" where
  "createOpaqueSecret random_bytes = base64url random_bytes"

definition digestSecret :: "(string \<Rightarrow> string) \<Rightarrow> string \<Rightarrow> string" where
  "digestSecret sha256 v = sha256 (utf8_bytes v)"

definition digestSecretBase64url :: "(string \<Rightarrow> string) \<Rightarrow> string \<Rightarrow> string" where
  "digestSecretBase64url sha256 v = base64url (digestSecret sha256 v)"

definition isCanonicalOpaqueSecret :: "string \<Rightarrow> bool" where
  "isCanonicalOpaqueSecret v = (list_all cursor_letter v \<and> length v = 43 \<and> base64url (base64url_bytes v) = v)"

definition safeStringEqual :: "string \<Rightarrow> string \<Rightarrow> bool" where
  "safeStringEqual left right = (length (utf8_bytes left) = length (utf8_bytes right) \<and> utf8_bytes left = utf8_bytes right)"

definition safeDigestEqual :: "string \<Rightarrow> string \<Rightarrow> bool" where
  "safeDigestEqual left right = (length left = length right \<and> left = right)"

section \<open>Passwords\<close>

definition PasswordInputError :: js_error where
  "PasswordInputError = Thrown ''PasswordInputError''"

definition normalizePassword :: "json \<Rightarrow> string result" where
  "normalizePassword v =
     (case v of
        JStr s \<Rightarrow>
          if length s < 15 \<or> 128 < length s \<or> 512 < length (utf8_bytes s) then Inl PasswordInputError else Inr s
      | _ \<Rightarrow> Inl PasswordInputError)"

text \<open>Standard base64 without its padding.\<close>

definition base64 :: "string \<Rightarrow> string" where
  "base64 s = map (\<lambda>c. if c = CHR ''-'' then CHR ''+'' else if c = CHR ''_'' then CHR ''/'' else c) (base64url s)"

definition base64_letter :: "char \<Rightarrow> bool" where
  "base64_letter c = (is_digit c \<or> is_lower c \<or> is_upper c \<or> c = CHR ''+'' \<or> c = CHR ''/'')"

definition decodeCanonicalBase64 :: "string \<Rightarrow> string option" where
  "decodeCanonicalBase64 v =
     (if v = [] \<or> \<not> list_all base64_letter v \<or> length v mod 4 = 1 then None
      else if base64 (base64url_bytes v) = v then Some (base64url_bytes v) else None)"

definition isAllowedPasswordPhc :: "string \<Rightarrow> bool" where
  "isAllowedPasswordPhc v =
     (length (utf8_bytes v) \<le> 512
      \<and> (case split_on (CHR ''$'') v of
           [p0, p1, p2, p3, p4, p5] \<Rightarrow>
             p0 = [] \<and> p1 = ''argon2id'' \<and> p2 = ''v=19'' \<and> p3 = ''m=65536,t=3,p=1''
             \<and> map_option length (decodeCanonicalBase64 p4) = Some 16
             \<and> map_option length (decodeCanonicalBase64 p5) = Some 32
         | _ \<Rightarrow> False))"

text \<open>\<open>argon_hash\<close> and \<open>argon_verify\<close> are argon2's, run by the executor.\<close>

definition hashPassword :: "(string \<Rightarrow> string result) \<Rightarrow> string \<Rightarrow> string result" where
  "hashPassword argon_hash password =
     bindR (normalizePassword (JStr password)) (\<lambda>normalized.
     bindR (argon_hash normalized) (\<lambda>encoded.
     if isAllowedPasswordPhc encoded then Inr encoded else Inl (authError AuthDependencyUnavailable)))"

definition verifyPassword :: "(string \<Rightarrow> string \<Rightarrow> bool result) \<Rightarrow> string \<Rightarrow> string \<Rightarrow> bool result" where
  "verifyPassword argon_verify encoded password =
     bindR (normalizePassword (JStr password)) (\<lambda>normalized.
     if \<not> isAllowedPasswordPhc encoded then Inr False else argon_verify encoded normalized)"

section \<open>API keys\<close>

definition key_letter :: "char \<Rightarrow> bool" where
  "key_letter c = (is_lower c \<or> is_digit c)"

text \<open>\<open>/^[a-z][a-z0-9]\{0,15\}$/u\<close>.\<close>

definition key_prefix :: "string \<Rightarrow> bool" where
  "key_prefix p = (p \<noteq> [] \<and> length p \<le> 16 \<and> is_lower (hd p) \<and> list_all key_letter p)"

text \<open>\<open>/^[a-z][a-z0-9]\{0,15\}_live_v1_[A-Za-z0-9_-]\{43\}$/u\<close>: no letter of the prefix is an underscore.\<close>

definition api_key_pattern :: "string \<Rightarrow> bool" where
  "api_key_pattern s =
     (let p = takeWhile key_letter s; rest = dropWhile key_letter s in
      key_prefix p \<and> take 9 rest = ''_live_v1_'' \<and> length (drop 9 rest) = 43 \<and> list_all cursor_letter (drop 9 rest))"

definition hashApiKeyCredential :: "(string \<Rightarrow> string) \<Rightarrow> string \<Rightarrow> string result" where
  "hashApiKeyCredential sha256_hex plaintext =
     (if api_key_pattern plaintext then Inr (sha256_hex (utf8_bytes plaintext)) else Inl (authError AuthInvalid))"

record api_key_credential =
  akc_plaintext :: string
  akc_keyHash :: string

definition validateApiKeyPrefix :: "string \<Rightarrow> string result" where
  "validateApiKeyPrefix p = (if key_prefix (trim p) then Inr (trim p) else Inl (Thrown ''ApiKeyCredentialError''))"

definition createApiKeyCredential :: "(string \<Rightarrow> string) \<Rightarrow> string \<Rightarrow> string \<Rightarrow> api_key_credential result" where
  "createApiKeyCredential sha256_hex p entropy =
     bindR (validateApiKeyPrefix p) (\<lambda>safePrefix.
     if length entropy \<noteq> 32 then Inl (Thrown ''ApiKeyCredentialError'')
     else let plaintext = safePrefix @ ''_live_v1_'' @ base64url entropy in
       Inr \<lparr>akc_plaintext = plaintext, akc_keyHash = sha256_hex (utf8_bytes plaintext)\<rparr>)"

section \<open>The credential of a request\<close>

text \<open>A header is absent, one text or several.\<close>

datatype header_value = One string | Many "string list"

type_synonym headers = "(string \<times> header_value) list"

datatype credential = ApiKeyCredential string | JwtCredential string | AccessCookie string

definition singleHeader :: "header_value option \<Rightarrow> string option result" where
  "singleHeader v = (case v of
       None \<Rightarrow> Inr None
     | Some (Many vs) \<Rightarrow> (case vs of [x] \<Rightarrow> Inr (Some x) | _ \<Rightarrow> Inl (authError AuthInvalid))
     | Some (One x) \<Rightarrow> Inr (Some x))"

text \<open>\<open>/^Bearer ([^\s]+)$/iu\<close>.\<close>

definition bearer :: "string \<Rightarrow> string option" where
  "bearer s =
     (if map lower_ascii (take 7 s) = ''bearer '' \<and> drop 7 s \<noteq> [] \<and> list_all (\<lambda>c. \<not> is_ws c) (drop 7 s) then Some (drop 7 s) else None)"

definition selectRequestCredential :: "headers \<Rightarrow> string option \<Rightarrow> credential result" where
  "selectRequestCredential hs accessCookie =
     bindR (singleHeader (map_of hs ''x-api-key'')) (\<lambda>apiKey.
     bindR (singleHeader (map_of hs ''authorization'')) (\<lambda>authorization.
     let count = length (filter (\<lambda>b. b) [apiKey \<noteq> None, authorization \<noteq> None, accessCookie \<noteq> None]) in
     if count > 1 then Inl (authError AuthCredentialConflict)
     else case (apiKey, accessCookie, authorization) of
         (Some k, _, _) \<Rightarrow> if k = [] \<or> trim k \<noteq> k then Inl (authError AuthInvalid) else Inr (ApiKeyCredential k)
       | (None, Some c, _) \<Rightarrow> if c = [] \<or> trim c \<noteq> c then Inl (authError AuthInvalid) else Inr (AccessCookie c)
       | (None, None, Some a) \<Rightarrow> bindR (orElse (bearer a) (authError AuthInvalid)) (\<lambda>t. Inr (JwtCredential t))
       | (None, None, None) \<Rightarrow> Inl (authError AuthRequired)))"

section \<open>The proof of a cookie\<close>

record access_cookie_proof =
  pf_method :: string
  pf_headers :: headers
  pf_csrfCookie :: "string option"
  pf_expectedOrigin :: string

text \<open>A parsed cookie is there exactly when its name is there exactly once.\<close>

definition assertCanonicalCookie :: "string option \<Rightarrow> string \<Rightarrow> string option \<Rightarrow> auth_error_code \<Rightarrow> string option result" where
  "assertCanonicalCookie rawCookie name parsedValue error_code =
     (let count = length (filter (\<lambda>part. trim (hd (split_on (CHR ''='') part)) = name)
            (split_on (CHR '';'') (case rawCookie of None \<Rightarrow> [] | Some c \<Rightarrow> c))) in
      if (parsedValue = None \<and> count \<noteq> 0) \<or> (parsedValue \<noteq> None \<and> count \<noteq> 1) then Inl (authError error_code)
      else Inr parsedValue)"

definition oneHeader :: "header_value option \<Rightarrow> string option" where
  "oneHeader v = (case v of Some (One s) \<Rightarrow> if s = [] \<or> CHR '','' \<in> set s then None else Some s | _ \<Rightarrow> None)"

definition optionalOneHeader :: "header_value option \<Rightarrow> string option" where
  "optionalOneHeader v = (case v of None \<Rightarrow> None | Some h \<Rightarrow> (case oneHeader (Some h) of None \<Rightarrow> Some ''invalid'' | Some s \<Rightarrow> Some s))"

definition assertSameOrigin :: "headers \<Rightarrow> string \<Rightarrow> unit result" where
  "assertSameOrigin hs expectedOrigin =
     (let origin = oneHeader (map_of hs ''origin''); fetchSite = optionalOneHeader (map_of hs ''sec-fetch-site'') in
      if origin = None \<or> origin \<noteq> Some expectedOrigin \<or> (fetchSite \<noteq> None \<and> fetchSite \<noteq> Some ''same-origin'')
      then Inl (authError CsrfInvalid) else Inr ())"

definition assertDoubleSubmit :: "headers \<Rightarrow> string option \<Rightarrow> string result" where
  "assertDoubleSubmit hs csrfCookie =
     (case (oneHeader (map_of hs ''x-csrf-token''), csrfCookie) of
        (Some csrfHeader, Some csrf) \<Rightarrow>
          if \<not> isCanonicalOpaqueSecret csrf \<or> \<not> isCanonicalOpaqueSecret csrfHeader \<or> \<not> safeStringEqual csrf csrfHeader
          then Inl (authError CsrfInvalid) else Inr csrfHeader
      | _ \<Rightarrow> Inl (authError CsrfInvalid))"

definition upper_ascii :: "char \<Rightarrow> char" where
  "upper_ascii c = (if is_lower c then char_of (code c - 32) else c)"

definition isUnsafe :: "string \<Rightarrow> bool" where
  "isUnsafe m = (map upper_ascii m \<notin> {''GET'', ''HEAD'', ''OPTIONS''})"

definition assertAccessCookieProof :: "(string \<Rightarrow> string) \<Rightarrow> access_cookie_proof \<Rightarrow> string \<Rightarrow> unit result" where
  "assertAccessCookieProof sha256 p csrfHash =
     (if \<not> isUnsafe (pf_method p) then Inr ()
      else bindR (assertSameOrigin (pf_headers p) (pf_expectedOrigin p)) (\<lambda>_.
        bindR (assertDoubleSubmit (pf_headers p) (pf_csrfCookie p)) (\<lambda>csrf.
        if \<not> safeStringEqual (digestSecretBase64url sha256 csrf) csrfHash then Inl (authError CsrfInvalid) else Inr ())))"

end
