(* ===== verification/Sessions.thy ===== *)
theory Sessions
  imports Credentials
begin

text \<open>
  Sessions over the tables of migrations 0001, 0002, 0003, 0005, 0006, 0007 and 0008:
  core/tenant/auth-login-repository.ts, auth-refresh-repository.ts, auth-refresh-rotation.ts,
  auth-logout-repository.ts, auth-session-audit.ts and auth-session-service.ts. Times are
  microseconds; \<open>iw_now\<close> is the transaction's time. Transactions lock the rows they read, so each is
  one step of the tables. A violated constraint throws its SQLSTATE, and the transaction answers with
  \<open>AUTH_DEPENDENCY_UNAVAILABLE\<close> and leaves the tables as they were. Generated ids and random bytes are
  arguments.
\<close>

section \<open>Tables\<close>

record tenant_account =
  tna_id :: string
  tna_isActive :: bool

record user_account =
  acc_id :: string
  acc_tenantId :: string
  acc_email :: string
  acc_name :: string
  acc_role :: user_role
  acc_isActive :: bool
  acc_createdAt :: int
  acc_updatedAt :: int

record password_row =
  pw_tenantId :: string
  pw_userId :: string
  pw_hash :: string
  pw_changedAt :: int
  pw_createdAt :: int

record api_key_row =
  ak_id :: string
  ak_tenantId :: string
  ak_keyHash :: string
  ak_note :: "string option"
  ak_createdAt :: int
  ak_revokedAt :: "int option"

datatype revocation_reason = RvLogout | RvReuseDetected | RvPasswordReset | RvUserInactive | RvTenantInactive | RvRoleChanged | RvOperatorRevoked

text \<open>\<open>revoked_at\<close> and \<open>revocation_reason\<close> are null together.\<close>

record refresh_family =
  rf_id :: string
  rf_tenantId :: string
  rf_userId :: string
  rf_absoluteExpiresAt :: int
  rf_revoked :: "(int \<times> revocation_reason) option"
  rf_createdAt :: int

record refresh_token =
  rt_id :: string
  rt_tenantId :: string
  rt_familyId :: string
  rt_parentTokenId :: "string option"
  rt_tokenDigest :: string
  rt_csrfDigest :: string
  rt_idleExpiresAt :: int
  rt_usedAt :: "int option"
  rt_createdAt :: int

record audit_row =
  au_tenantId :: string
  au_actorUserId :: "string option"
  au_actorType :: string
  au_action :: string
  au_entityType :: string
  au_entityId :: string
  au_oldValues :: json
  au_newValues :: json
  au_requestId :: string

record identity_world =
  iw_tenants :: "tenant_account list"
  iw_users :: "user_account list"
  iw_passwords :: "password_row list"
  iw_keys :: "api_key_row list"
  iw_families :: "refresh_family list"
  iw_tokens :: "refresh_token list"
  iw_audit :: "audit_row list"
  iw_now :: int

section \<open>Statements\<close>

definition insert_audit :: "audit_row \<Rightarrow> identity_world \<Rightarrow> identity_world result" where
  "insert_audit a w =
     (if \<not> (\<exists>t\<in>set (iw_tenants w). tna_id t = au_tenantId a) then Inl (sqlstate ''23503'')
      else if (case au_actorUserId a of None \<Rightarrow> False
          | Some u \<Rightarrow> \<not> (\<exists>x\<in>set (iw_users w). acc_tenantId x = au_tenantId a \<and> acc_id x = u)) then Inl (sqlstate ''23503'')
      else if (au_actorType a = ''user'') \<noteq> (au_actorUserId a \<noteq> None) then Inl (sqlstate ''23514'')
      else if au_requestId a = [] \<or> hd (au_requestId a) = CHR '' '' \<or> last (au_requestId a) = CHR '' '' then Inl (sqlstate ''23514'')
      else Inr (w\<lparr>iw_audit := iw_audit w @ [a]\<rparr>))"

definition insert_family :: "refresh_family \<Rightarrow> identity_world \<Rightarrow> identity_world result" where
  "insert_family f w =
     (if \<exists>g\<in>set (iw_families w). rf_id g = rf_id f then Inl (sqlstate ''23505'')
      else if \<not> (\<exists>x\<in>set (iw_users w). acc_tenantId x = rf_tenantId f \<and> acc_id x = rf_userId f) then Inl (sqlstate ''23503'')
      else if rf_absoluteExpiresAt f \<le> rf_createdAt f then Inl (sqlstate ''23514'')
      else Inr (w\<lparr>iw_families := iw_families w @ [f]\<rparr>))"

text \<open>The unique indexes: one digest, one current token and one root of a family, one child of a parent.\<close>

definition token_clash :: "refresh_token \<Rightarrow> refresh_token \<Rightarrow> bool" where
  "token_clash t u =
     (rt_id u = rt_id t \<or> rt_tokenDigest u = rt_tokenDigest t
      \<or> (rt_familyId u = rt_familyId t \<and> rt_usedAt u = None \<and> rt_usedAt t = None)
      \<or> (rt_familyId u = rt_familyId t \<and> rt_parentTokenId u = None \<and> rt_parentTokenId t = None)
      \<or> (rt_parentTokenId t \<noteq> None \<and> rt_parentTokenId u = rt_parentTokenId t))"

definition insert_token :: "refresh_token \<Rightarrow> identity_world \<Rightarrow> identity_world result" where
  "insert_token t w =
     (if \<exists>u\<in>set (iw_tokens w). token_clash t u then Inl (sqlstate ''23505'')
      else if \<not> (\<exists>f\<in>set (iw_families w). rf_tenantId f = rt_tenantId t \<and> rf_id f = rt_familyId t) then Inl (sqlstate ''23503'')
      else if (case rt_parentTokenId t of None \<Rightarrow> False
          | Some p \<Rightarrow> \<not> (\<exists>u\<in>set (iw_tokens w). rt_tenantId u = rt_tenantId t \<and> rt_familyId u = rt_familyId t \<and> rt_id u = p)) then Inl (sqlstate ''23503'')
      else if length (rt_tokenDigest t) \<noteq> 32 \<or> length (rt_csrfDigest t) \<noteq> 32 \<or> rt_parentTokenId t = Some (rt_id t)
          \<or> rt_idleExpiresAt t \<le> rt_createdAt t then Inl (sqlstate ''23514'')
      else Inr (w\<lparr>iw_tokens := iw_tokens w @ [t]\<rparr>))"

text \<open>\<open>UPDATE auth_refresh_families SET revoked_at, revocation_reason WHERE \<dots> AND revoked_at IS NULL\<close>, with
  the number of rows it changed.\<close>

definition live_family :: "refresh_family \<Rightarrow> bool" where
  "live_family f = (rf_revoked f = None)"

definition revoke_families :: "(refresh_family \<Rightarrow> bool) \<Rightarrow> revocation_reason \<Rightarrow> identity_world \<Rightarrow> (nat \<times> identity_world) result" where
  "revoke_families selected reason w =
     (let hit = (\<lambda>f. selected f \<and> live_family f) in
      if \<exists>f\<in>set (iw_families w). hit f \<and> iw_now w < rf_createdAt f then Inl (sqlstate ''23514'')
      else Inr (length (filter hit (iw_families w)),
        w\<lparr>iw_families := map (\<lambda>f. if hit f then f\<lparr>rf_revoked := Some (iw_now w, reason)\<rparr> else f) (iw_families w)\<rparr>))"

text \<open>\<open>UPDATE auth_refresh_tokens SET used_at WHERE id = $1 AND used_at IS NULL\<close>.\<close>

definition mark_used :: "string \<Rightarrow> identity_world \<Rightarrow> (nat \<times> identity_world) result" where
  "mark_used tokenId w =
     (let hit = (\<lambda>t. rt_id t = tokenId \<and> rt_usedAt t = None) in
      if \<exists>t\<in>set (iw_tokens w). hit t \<and> iw_now w < rt_createdAt t then Inl (sqlstate ''23514'')
      else Inr (length (filter hit (iw_tokens w)),
        w\<lparr>iw_tokens := map (\<lambda>t. if hit t then t\<lparr>rt_usedAt := Some (iw_now w)\<rparr> else t) (iw_tokens w)\<rparr>))"

text \<open>\<open>BEGIN \<dots> COMMIT\<close>; in the catch \<open>ROLLBACK\<close>, and every error that is no AppError is unavailable.\<close>

definition auth_transaction :: "(identity_world \<Rightarrow> ('a \<times> identity_world) result) \<Rightarrow> identity_world \<Rightarrow> 'a result \<times> identity_world" where
  "auth_transaction body w =
     (case body w of
        Inl (AppError c m s) \<Rightarrow> (Inl (AppError c m s), w)
      | Inl (Thrown _) \<Rightarrow> (Inl (authError AuthDependencyUnavailable), w)
      | Inr (x, w') \<Rightarrow> (Inr x, w'))"

definition only :: "'a list \<Rightarrow> 'a option" where
  "only rows = (case rows of [x] \<Rightarrow> Some x | _ \<Rightarrow> None)"

section \<open>Audit rows\<close>

definition user_audit :: "string \<Rightarrow> string \<Rightarrow> string \<Rightarrow> json \<Rightarrow> string \<Rightarrow> audit_row" where
  "user_audit tenantId userId action values requestId =
     \<lparr>au_tenantId = tenantId, au_actorUserId = Some userId, au_actorType = ''user'', au_action = action,
      au_entityType = ''user'', au_entityId = userId, au_oldValues = JNull, au_newValues = values, au_requestId = requestId\<rparr>"

definition insertLoginSuccessAudit :: "string \<Rightarrow> string \<Rightarrow> string \<Rightarrow> identity_world \<Rightarrow> identity_world result" where
  "insertLoginSuccessAudit tenantId userId requestId =
     insert_audit (user_audit tenantId userId ''user.login.succeeded'' (JObj [(''result'', JStr ''succeeded'')]) requestId)"

definition insertLoginDeniedAudit :: "string \<Rightarrow> string \<Rightarrow> string \<Rightarrow> string \<Rightarrow> identity_world \<Rightarrow> identity_world result" where
  "insertLoginDeniedAudit tenantId userId reason requestId =
     insert_audit (user_audit tenantId userId ''user.login.denied'' (JObj [(''result'', JStr ''denied''), (''reason'', JStr reason)]) requestId)"

definition insertRefreshReuseAudit :: "string \<Rightarrow> string \<Rightarrow> string \<Rightarrow> identity_world \<Rightarrow> identity_world result" where
  "insertRefreshReuseAudit tenantId userId requestId =
     insert_audit \<lparr>au_tenantId = tenantId, au_actorUserId = None, au_actorType = ''system'',
       au_action = ''user.login.refresh_reuse_detected'', au_entityType = ''user'', au_entityId = userId,
       au_oldValues = JNull,
       au_newValues = JObj [(''result'', JStr ''family_revoked''), (''reason'', JStr ''reuse_detected'')], au_requestId = requestId\<rparr>"

definition insertLogoutAudit :: "string \<Rightarrow> string \<Rightarrow> string \<Rightarrow> identity_world \<Rightarrow> identity_world result" where
  "insertLogoutAudit tenantId userId requestId =
     insert_audit (user_audit tenantId userId ''user.logout.succeeded''
       (JObj [(''result'', JStr ''succeeded''), (''family_revoked'', JBool True)]) requestId)"

section \<open>Issues\<close>

record session_metadata =
  sm_user_id :: string
  sm_tenant_id :: string
  sm_role :: user_role
  sm_access_expires_at :: string
  sm_refresh_idle_expires_at :: string
  sm_refresh_absolute_expires_at :: string

record session_issue =
  si_session :: session_metadata
  si_accessToken :: string
  si_refreshToken :: string
  si_csrfToken :: string

record access_claims =
  cl_userId :: string
  cl_tenantId :: string
  cl_role :: user_role
  cl_familyId :: string
  cl_csrfHash :: string
  cl_issuedAt :: int
  cl_expiresAt :: int

definition second_us :: int where "second_us = 1000000"
definition day_us :: int where "day_us = 86400 * second_us"

text \<open>\<open>floor(extract(epoch FROM t))\<close>.\<close>

definition epoch_seconds :: "int \<Rightarrow> int" where
  "epoch_seconds t = t div second_us"

section \<open>Logins\<close>

record login_candidate =
  lc_tenantId :: string
  lc_userId :: string
  lc_role :: user_role
  lc_tenantActive :: bool
  lc_userActive :: bool
  lc_passwordHash :: "string option"

definition password_of :: "string \<Rightarrow> string \<Rightarrow> identity_world \<Rightarrow> string option" where
  "password_of tenantId userId w =
     map_option pw_hash (find (\<lambda>p. pw_tenantId p = tenantId \<and> pw_userId p = userId) (iw_passwords w))"

definition findCandidate :: "string \<Rightarrow> string \<Rightarrow> identity_world \<Rightarrow> login_candidate option" where
  "findCandidate tenantId email w =
     only (concat (map (\<lambda>t. if tna_id t \<noteq> tenantId then []
       else map (\<lambda>u. \<lparr>lc_tenantId = tna_id t, lc_userId = acc_id u, lc_role = acc_role u, lc_tenantActive = tna_isActive t,
                lc_userActive = acc_isActive u, lc_passwordHash = password_of tenantId (acc_id u) w\<rparr>)
              (filter (\<lambda>u. acc_tenantId u = tna_id t \<and> acc_email u = email) (iw_users w))) (iw_tenants w)))"

record login_issue_input =
  li_tenantId :: string
  li_email :: string
  li_expectedPasswordHash :: string
  li_requestId :: string
  li_familyId :: string
  li_tokenId :: string
  li_tokenDigest :: string
  li_csrfDigest :: string
  li_refreshToken :: string
  li_csrfToken :: string
  li_accessLifetimeSeconds :: int

datatype login_result = LoginIssued session_issue | LoginInvalid | LoginUserInactive | LoginTenantInactive

definition new_family :: "login_issue_input \<Rightarrow> user_account \<Rightarrow> int \<Rightarrow> refresh_family" where
  "new_family input identity now =
     \<lparr>rf_id = li_familyId input, rf_tenantId = li_tenantId input, rf_userId = acc_id identity,
      rf_absoluteExpiresAt = now + 30 * day_us, rf_revoked = None, rf_createdAt = now\<rparr>"

definition root_token :: "login_issue_input \<Rightarrow> int \<Rightarrow> refresh_token" where
  "root_token input now =
     \<lparr>rt_id = li_tokenId input, rt_tenantId = li_tenantId input, rt_familyId = li_familyId input, rt_parentTokenId = None,
      rt_tokenDigest = li_tokenDigest input, rt_csrfDigest = li_csrfDigest input, rt_idleExpiresAt = now + 7 * day_us,
      rt_usedAt = None, rt_createdAt = now\<rparr>"

definition insertSession :: "(access_claims \<Rightarrow> string result) \<Rightarrow> login_issue_input \<Rightarrow> user_account \<Rightarrow> identity_world
    \<Rightarrow> (session_issue \<times> identity_world) result" where
  "insertSession sign input identity w =
     (let now = iw_now w; expires = now + li_accessLifetimeSeconds input * second_us in
      bindR (insert_family (new_family input identity now) w) (\<lambda>w1.
      bindR (insert_token (root_token input now) w1) (\<lambda>w2.
      bindR (sign \<lparr>cl_userId = acc_id identity, cl_tenantId = li_tenantId input, cl_role = acc_role identity,
          cl_familyId = li_familyId input, cl_csrfHash = base64url (li_csrfDigest input),
          cl_issuedAt = epoch_seconds now, cl_expiresAt = epoch_seconds expires\<rparr>) (\<lambda>accessToken.
      Inr (\<lparr>si_session = \<lparr>sm_user_id = acc_id identity, sm_tenant_id = li_tenantId input, sm_role = acc_role identity,
              sm_access_expires_at = micros_text expires, sm_refresh_idle_expires_at = micros_text (now + 7 * day_us),
              sm_refresh_absolute_expires_at = micros_text (now + 30 * day_us)\<rparr>,
            si_accessToken = accessToken, si_refreshToken = li_refreshToken input, si_csrfToken = li_csrfToken input\<rparr>, w2)))))"

definition lockLoginProof :: "login_issue_input \<Rightarrow> identity_world \<Rightarrow> (tenant_account \<times> user_account \<times> string option) option" where
  "lockLoginProof input w =
     (case (only (filter (\<lambda>t. tna_id t = li_tenantId input) (iw_tenants w)),
            find (\<lambda>u. acc_tenantId u = li_tenantId input \<and> acc_email u = li_email input) (iw_users w)) of
        (Some tenant, Some identity) \<Rightarrow> Some (tenant, identity, password_of (li_tenantId input) (acc_id identity) w)
      | _ \<Rightarrow> None)"

definition evaluateLockedLogin :: "(access_claims \<Rightarrow> string result) \<Rightarrow> login_issue_input \<Rightarrow> identity_world
    \<Rightarrow> (login_result \<times> identity_world) result" where
  "evaluateLockedLogin sign input w =
     (case lockLoginProof input w of
        None \<Rightarrow> Inr (LoginInvalid, w)
      | Some (tenant, identity, passwordHash) \<Rightarrow>
          if passwordHash \<noteq> Some (li_expectedPasswordHash input) then Inr (LoginInvalid, w)
          else if \<not> tna_isActive tenant then
            bindR (insertLoginDeniedAudit (li_tenantId input) (acc_id identity) ''tenant_inactive'' (li_requestId input) w)
              (\<lambda>w'. Inr (LoginTenantInactive, w'))
          else if \<not> acc_isActive identity then
            bindR (insertLoginDeniedAudit (li_tenantId input) (acc_id identity) ''user_inactive'' (li_requestId input) w)
              (\<lambda>w'. Inr (LoginUserInactive, w'))
          else bindR (insertSession sign input identity w) (\<lambda>(issue, w1).
            bindR (insertLoginSuccessAudit (li_tenantId input) (acc_id identity) (li_requestId input) w1)
              (\<lambda>w2. Inr (LoginIssued issue, w2))))"

definition login_issue :: "(access_claims \<Rightarrow> string result) \<Rightarrow> login_issue_input \<Rightarrow> identity_world \<Rightarrow> login_result result \<times> identity_world" where
  "login_issue sign input = auth_transaction (evaluateLockedLogin sign input)"

section \<open>Refreshes\<close>

definition findFamilyId :: "string \<Rightarrow> identity_world \<Rightarrow> string option" where
  "findFamilyId tokenDigest w = map_option rt_familyId (only (filter (\<lambda>t. rt_tokenDigest t = tokenDigest) (iw_tokens w)))"

record refresh_input =
  ri_familyId :: string
  ri_presentedDigest :: string
  ri_presentedCsrfDigest :: string
  ri_requestId :: string
  ri_childId :: string
  ri_childTokenDigest :: string
  ri_childCsrfDigest :: string
  ri_refreshToken :: string
  ri_csrfToken :: string
  ri_accessLifetimeSeconds :: int

datatype refresh_result = RefreshIssued session_issue | RefreshInvalid | RefreshCsrfInvalid | RefreshUserInactive | RefreshTenantInactive

text \<open>The joined row of a family, its presented token, its user and its tenant.\<close>

record refresh_row =
  rr_family :: refresh_family
  rr_token :: refresh_token
  rr_user :: user_account
  rr_tenant :: tenant_account

definition readRefresh :: "string \<Rightarrow> string \<Rightarrow> identity_world \<Rightarrow> refresh_row option" where
  "readRefresh familyId digest w =
     only [\<lparr>rr_family = f, rr_token = r, rr_user = u, rr_tenant = t\<rparr>.
       f \<leftarrow> iw_families w, rf_id f = familyId,
       r \<leftarrow> iw_tokens w, rt_familyId r = rf_id f \<and> rt_tenantId r = rf_tenantId f \<and> rt_tokenDigest r = digest,
       u \<leftarrow> iw_users w, acc_id u = rf_userId f \<and> acc_tenantId u = rf_tenantId f,
       t \<leftarrow> iw_tenants w, tna_id t = rf_tenantId f]"

definition child_token :: "refresh_input \<Rightarrow> refresh_row \<Rightarrow> int \<Rightarrow> refresh_token" where
  "child_token input row now =
     \<lparr>rt_id = ri_childId input, rt_tenantId = rf_tenantId (rr_family row), rt_familyId = ri_familyId input,
      rt_parentTokenId = Some (rt_id (rr_token row)), rt_tokenDigest = ri_childTokenDigest input,
      rt_csrfDigest = ri_childCsrfDigest input,
      rt_idleExpiresAt = min (now + 7 * day_us) (rf_absoluteExpiresAt (rr_family row)),
      rt_usedAt = None, rt_createdAt = now\<rparr>"

definition markUsedAndInsertChild :: "refresh_input \<Rightarrow> refresh_row \<Rightarrow> identity_world \<Rightarrow> identity_world result" where
  "markUsedAndInsertChild input row w =
     bindR (mark_used (rt_id (rr_token row)) w) (\<lambda>(count, w1).
     if count \<noteq> 1 then Inl (authError AuthDependencyUnavailable)
     else insert_token (child_token input row (iw_now w)) w1)"

definition rotateCurrent :: "(access_claims \<Rightarrow> string result) \<Rightarrow> refresh_input \<Rightarrow> refresh_row \<Rightarrow> identity_world
    \<Rightarrow> (session_issue \<times> identity_world) result" where
  "rotateCurrent sign input row w =
     (let now = iw_now w; expires = now + ri_accessLifetimeSeconds input * second_us;
          tenantId = rf_tenantId (rr_family row); userId = rf_userId (rr_family row); role = acc_role (rr_user row) in
      bindR (markUsedAndInsertChild input row w) (\<lambda>w1.
      bindR (sign \<lparr>cl_userId = userId, cl_tenantId = tenantId, cl_role = role, cl_familyId = ri_familyId input,
          cl_csrfHash = base64url (ri_childCsrfDigest input), cl_issuedAt = epoch_seconds now,
          cl_expiresAt = epoch_seconds expires\<rparr>) (\<lambda>accessToken.
      Inr (\<lparr>si_session = \<lparr>sm_user_id = userId, sm_tenant_id = tenantId, sm_role = role,
              sm_access_expires_at = micros_text expires,
              sm_refresh_idle_expires_at = micros_text (min (now + 7 * day_us) (rf_absoluteExpiresAt (rr_family row))),
              sm_refresh_absolute_expires_at = micros_text (rf_absoluteExpiresAt (rr_family row))\<rparr>,
            si_accessToken = accessToken, si_refreshToken = ri_refreshToken input, si_csrfToken = ri_csrfToken input\<rparr>, w1))))"

definition revokeReuse :: "refresh_row \<Rightarrow> string \<Rightarrow> identity_world \<Rightarrow> identity_world result" where
  "revokeReuse row requestId w =
     bindR (revoke_families (\<lambda>f. rf_id f = rf_id (rr_family row)) RvReuseDetected w) (\<lambda>(count, w1).
     if count \<noteq> 1 then Inl (authError AuthDependencyUnavailable)
     else insertRefreshReuseAudit (rf_tenantId (rr_family row)) (rf_userId (rr_family row)) requestId w1)"

definition revokeInactive :: "refresh_row \<Rightarrow> revocation_reason \<Rightarrow> string \<Rightarrow> string \<Rightarrow> identity_world \<Rightarrow> identity_world result" where
  "revokeInactive row reason reason_text requestId w =
     bindR (revoke_families (\<lambda>f. rf_id f = rf_id (rr_family row)) reason w) (\<lambda>(_, w1).
     insertLoginDeniedAudit (rf_tenantId (rr_family row)) (rf_userId (rr_family row)) reason_text requestId w1)"

definition evaluateLockedRefresh :: "(access_claims \<Rightarrow> string result) \<Rightarrow> refresh_input \<Rightarrow> identity_world
    \<Rightarrow> (refresh_result \<times> identity_world) result" where
  "evaluateLockedRefresh sign input w =
     (if length (filter (\<lambda>f. rf_id f = ri_familyId input) (iw_families w)) \<noteq> 1 then Inr (RefreshInvalid, w)
      else case readRefresh (ri_familyId input) (ri_presentedDigest input) w of
          None \<Rightarrow> Inr (RefreshInvalid, w)
        | Some row \<Rightarrow>
            if \<not> safeDigestEqual (rt_csrfDigest (rr_token row)) (ri_presentedCsrfDigest input) then Inr (RefreshCsrfInvalid, w)
            else if rf_revoked (rr_family row) \<noteq> None then Inr (RefreshInvalid, w)
            else if \<not> tna_isActive (rr_tenant row) then
              bindR (revokeInactive row RvTenantInactive ''tenant_inactive'' (ri_requestId input) w) (\<lambda>w'. Inr (RefreshTenantInactive, w'))
            else if \<not> acc_isActive (rr_user row) then
              bindR (revokeInactive row RvUserInactive ''user_inactive'' (ri_requestId input) w) (\<lambda>w'. Inr (RefreshUserInactive, w'))
            else if rt_usedAt (rr_token row) \<noteq> None then
              bindR (revokeReuse row (ri_requestId input) w) (\<lambda>w'. Inr (RefreshInvalid, w'))
            else if \<not> iw_now w < rt_idleExpiresAt (rr_token row) \<or> \<not> iw_now w < rf_absoluteExpiresAt (rr_family row) then
              Inr (RefreshInvalid, w)
            else bindR (rotateCurrent sign input row w) (\<lambda>(issue, w'). Inr (RefreshIssued issue, w')))"

definition rotate_session :: "(access_claims \<Rightarrow> string result) \<Rightarrow> refresh_input \<Rightarrow> identity_world \<Rightarrow> refresh_result result \<times> identity_world" where
  "rotate_session sign input = auth_transaction (evaluateLockedRefresh sign input)"

section \<open>Logouts\<close>

record logout_input =
  lo_familyId :: string
  lo_presentedDigest :: string
  lo_presentedCsrfDigest :: string
  lo_requestId :: string

datatype logout_result = LogoutComplete | LogoutCsrfInvalid

definition readToken :: "string \<Rightarrow> string \<Rightarrow> identity_world \<Rightarrow> (refresh_family \<times> refresh_token) option" where
  "readToken familyId digest w =
     only [(f, r). f \<leftarrow> iw_families w, rf_id f = familyId,
       r \<leftarrow> iw_tokens w, rt_familyId r = rf_id f \<and> rt_tenantId r = rf_tenantId f \<and> rt_tokenDigest r = digest]"

definition revokeAndAudit :: "logout_input \<Rightarrow> refresh_family \<Rightarrow> identity_world \<Rightarrow> identity_world result" where
  "revokeAndAudit input family w =
     bindR (revoke_families (\<lambda>f. rf_id f = lo_familyId input) RvLogout w) (\<lambda>(count, w1).
     if count \<noteq> 1 then Inl (authError AuthDependencyUnavailable)
     else insertLogoutAudit (rf_tenantId family) (rf_userId family) (lo_requestId input) w1)"

definition evaluate_logout :: "logout_input \<Rightarrow> identity_world \<Rightarrow> (logout_result \<times> identity_world) result" where
  "evaluate_logout input w =
     (if length (filter (\<lambda>f. rf_id f = lo_familyId input) (iw_families w)) \<noteq> 1 then Inr (LogoutComplete, w)
      else case readToken (lo_familyId input) (lo_presentedDigest input) w of
          None \<Rightarrow> Inr (LogoutComplete, w)
        | Some (family, token) \<Rightarrow>
            if \<not> safeDigestEqual (rt_csrfDigest token) (lo_presentedCsrfDigest input) then Inr (LogoutCsrfInvalid, w)
            else if rf_revoked family = None then bindR (revokeAndAudit input family w) (\<lambda>w'. Inr (LogoutComplete, w'))
            else Inr (LogoutComplete, w))"

definition logout_session :: "logout_input \<Rightarrow> identity_world \<Rightarrow> logout_result result \<times> identity_world" where
  "logout_session input = auth_transaction (evaluate_logout input)"

end
