(* ===== verification/Session_Service.thy ===== *)
theory Session_Service
  imports Sessions
begin

text \<open>
  core/tenant/auth-session-service.ts: login, refresh and logout over the repositories and a limiter.
  The state is the limiter's with the tables. A runtime holds what the service is created with: the
  limiter's three operations, argon2's check, the signer of access tokens and the digests. The random
  bytes and ids of a call are arguments; a query that the database does not answer is not modelled.
\<close>

record 's auth_runtime =
  ar_admitLogin :: "string \<Rightarrow> string \<Rightarrow> int \<Rightarrow> 's \<Rightarrow> limit_decision result \<times> 's"
  ar_admitRefreshIp :: "string \<Rightarrow> int \<Rightarrow> 's \<Rightarrow> limit_decision result \<times> 's"
  ar_admitRefreshFamily :: "string \<Rightarrow> int \<Rightarrow> 's \<Rightarrow> limit_decision result \<times> 's"
  ar_argonVerify :: "string \<Rightarrow> string \<Rightarrow> bool result"
  ar_dummyPasswordHash :: string
  ar_accessLifetimeSeconds :: int
  ar_sign :: "access_claims \<Rightarrow> string result"
  ar_sha256 :: "string \<Rightarrow> string"
  ar_sha256_hex :: "string \<Rightarrow> string"

text \<open>\<open>AuthRateLimitError\<close> has the retry time beside the fields of an \<open>AppError\<close> of status 429.\<close>

datatype session_error = SessionError js_error | AuthRateLimitError int

definition rate_limited :: "limit_decision \<Rightarrow> session_error" where
  "rate_limited d = AuthRateLimitError (max 1 (case ld_retryAfterSeconds d of None \<Rightarrow> 1 | Some r \<Rightarrow> r))"

text \<open>What a call draws at random.\<close>

record drawn =
  dr_familyId :: string
  dr_tokenId :: string
  dr_refreshBytes :: string
  dr_csrfBytes :: string

record login_request =
  lq_tenantId :: string
  lq_email :: string
  lq_password :: string
  lq_clientIp :: string
  lq_requestId :: string

record refresh_request =
  rq_refreshToken :: string
  rq_csrfToken :: string
  rq_clientIp :: string
  rq_requestId :: string

record logout_request =
  oq_refreshToken :: string
  oq_csrfToken :: string
  oq_requestId :: string

text \<open>An admission, then the rest of the call.\<close>

definition admitted :: "limit_decision result \<times> 's \<Rightarrow> ('s \<Rightarrow> (session_error + 'a) \<times> 's \<times> identity_world) \<Rightarrow> identity_world
    \<Rightarrow> (session_error + 'a) \<times> 's \<times> identity_world" where
  "admitted admission continue w =
     (case admission of
        (Inl e, s) \<Rightarrow> (Inl (SessionError e), s, w)
      | (Inr d, s) \<Rightarrow> if \<not> ld_allowed d then (Inl (rate_limited d), s, w) else continue s)"

definition login :: "'s auth_runtime \<Rightarrow> login_request \<Rightarrow> drawn \<Rightarrow> int \<Rightarrow> 's \<Rightarrow> identity_world \<Rightarrow> (session_error + session_issue) \<times> 's \<times> identity_world" where
  "login runtime request random clock s w =
     admitted (ar_admitLogin runtime (loginAccountBucket (ar_sha256_hex runtime) (lq_tenantId request) (lq_email request))
         (lq_clientIp request) clock s) (\<lambda>s.
       let candidate = findCandidate (lq_tenantId request) (lq_email request) w;
           realHash = (case candidate of None \<Rightarrow> None | Some c \<Rightarrow> lc_passwordHash c);
           selectedHash = (case realHash of Some h \<Rightarrow> if isAllowedPasswordPhc h then h else ar_dummyPasswordHash runtime
             | None \<Rightarrow> ar_dummyPasswordHash runtime);
           refreshToken = createOpaqueSecret (dr_refreshBytes random); csrfToken = createOpaqueSecret (dr_csrfBytes random) in
       case verifyPassword (ar_argonVerify runtime) selectedHash (lq_password request) of
         Inl e \<Rightarrow> (Inl (SessionError e), s, w)
       | Inr verified \<Rightarrow>
           if realHash = None \<or> realHash = Some [] \<or> realHash \<noteq> Some selectedHash \<or> \<not> verified
           then (Inl (SessionError (authError AuthInvalid)), s, w)
           else case login_issue (ar_sign runtime)
               \<lparr>li_tenantId = lq_tenantId request, li_email = lq_email request, li_expectedPasswordHash = the realHash,
                li_requestId = lq_requestId request, li_familyId = dr_familyId random, li_tokenId = dr_tokenId random,
                li_tokenDigest = digestSecret (ar_sha256 runtime) refreshToken,
                li_csrfDigest = digestSecret (ar_sha256 runtime) csrfToken, li_refreshToken = refreshToken,
                li_csrfToken = csrfToken, li_accessLifetimeSeconds = ar_accessLifetimeSeconds runtime\<rparr> w of
               (Inl e, w') \<Rightarrow> (Inl (SessionError e), s, w')
             | (Inr r, w') \<Rightarrow>
                 ((case r of
                     LoginIssued issue \<Rightarrow> Inr issue
                   | LoginTenantInactive \<Rightarrow> Inl (SessionError (authError TenantInactive))
                   | LoginUserInactive \<Rightarrow> Inl (SessionError (authError UserInactive))
                   | LoginInvalid \<Rightarrow> Inl (SessionError (authError AuthInvalid))), s, w')) w"

definition refresh :: "'s auth_runtime \<Rightarrow> refresh_request \<Rightarrow> drawn \<Rightarrow> int \<Rightarrow> 's \<Rightarrow> identity_world \<Rightarrow> (session_error + session_issue) \<times> 's \<times> identity_world" where
  "refresh runtime request random clock s w =
     admitted (ar_admitRefreshIp runtime (rq_clientIp request) clock s) (\<lambda>s.
       if \<not> isCanonicalOpaqueSecret (rq_refreshToken request) then (Inl (SessionError (authError AuthInvalid)), s, w)
       else let presentedDigest = digestSecret (ar_sha256 runtime) (rq_refreshToken request) in
         case findFamilyId presentedDigest w of
           None \<Rightarrow> (Inl (SessionError (authError AuthInvalid)), s, w)
         | Some familyId \<Rightarrow>
             admitted (ar_admitRefreshFamily runtime familyId clock s) (\<lambda>s.
               let refreshToken = createOpaqueSecret (dr_refreshBytes random); csrfToken = createOpaqueSecret (dr_csrfBytes random) in
               case rotate_session (ar_sign runtime)
                   \<lparr>ri_familyId = familyId, ri_presentedDigest = presentedDigest,
                    ri_presentedCsrfDigest = digestSecret (ar_sha256 runtime) (rq_csrfToken request),
                    ri_requestId = rq_requestId request, ri_childId = dr_tokenId random,
                    ri_childTokenDigest = digestSecret (ar_sha256 runtime) refreshToken,
                    ri_childCsrfDigest = digestSecret (ar_sha256 runtime) csrfToken, ri_refreshToken = refreshToken,
                    ri_csrfToken = csrfToken, ri_accessLifetimeSeconds = ar_accessLifetimeSeconds runtime\<rparr> w of
                   (Inl e, w') \<Rightarrow> (Inl (SessionError e), s, w')
                 | (Inr r, w') \<Rightarrow>
                     ((case r of
                         RefreshIssued issue \<Rightarrow> Inr issue
                       | RefreshCsrfInvalid \<Rightarrow> Inl (SessionError (authError CsrfInvalid))
                       | RefreshTenantInactive \<Rightarrow> Inl (SessionError (authError TenantInactive))
                       | RefreshUserInactive \<Rightarrow> Inl (SessionError (authError UserInactive))
                       | RefreshInvalid \<Rightarrow> Inl (SessionError (authError AuthInvalid))), s, w')) w) w"

definition logout :: "(string \<Rightarrow> string) \<Rightarrow> logout_request \<Rightarrow> identity_world \<Rightarrow> unit result \<times> identity_world" where
  "logout sha256 request w =
     (if \<not> isCanonicalOpaqueSecret (oq_refreshToken request) then (Inr (), w)
      else let presentedDigest = digestSecret sha256 (oq_refreshToken request) in
        case findFamilyId presentedDigest w of
          None \<Rightarrow> (Inr (), w)
        | Some familyId \<Rightarrow>
            (case logout_session \<lparr>lo_familyId = familyId, lo_presentedDigest = presentedDigest,
                lo_presentedCsrfDigest = digestSecret sha256 (oq_csrfToken request), lo_requestId = oq_requestId request\<rparr> w of
               (Inl e, w') \<Rightarrow> (Inl e, w')
             | (Inr r, w') \<Rightarrow> (if r = LogoutCsrfInvalid then Inl (authError CsrfInvalid) else Inr (), w')))"

end
