(* ===== verification/Inputs.thy ===== *)
theory Inputs
  imports Paging
begin

text \<open>
  What the input parsers of the API have in common. The modules have their own copies of these helpers;
  those whose copies are the same share a definition here, named after core/tenant/users-input.ts.
\<close>

definition closedRecord :: "json \<Rightarrow> string list \<Rightarrow> (string \<times> json) list result" where
  "closedRecord v allowed =
     (case v of
        JObj kvs \<Rightarrow> if \<exists>k\<in>set (object_keys kvs). k \<notin> set allowed then Inl invalid_request else Inr kvs
      | _ \<Rightarrow> Inl invalid_request)"

text \<open>\<open>code <= 31 || (code >= 127 && code <= 159)\<close>.\<close>

definition hasControlCharacters :: "string \<Rightarrow> bool" where
  "hasControlCharacters v = (\<exists>c\<in>set v. code c \<le> 31 \<or> (127 \<le> code c \<and> code c \<le> 159))"

definition string_input :: "json \<Rightarrow> string result" where
  "string_input v = (case v of JStr s \<Rightarrow> Inr s | _ \<Rightarrow> Inl invalid_request)"

definition bool_input :: "json \<Rightarrow> bool result" where
  "bool_input v = (case v of JBool b \<Rightarrow> Inr b | _ \<Rightarrow> Inl invalid_request)"

text \<open>A field that is given, parsed.\<close>

definition given :: "(json \<Rightarrow> 'a result) \<Rightarrow> json \<Rightarrow> 'a option result" where
  "given parse v = (if v = JUndefined then Inr None else bindR (parse v) (\<lambda>x. Inr (Some x)))"

text \<open>\<open>/^(?:[1-9]|[1-9][0-9]|100)$/u\<close>.\<close>

definition page_limit :: "string \<Rightarrow> nat option" where
  "page_limit s = (if s \<noteq> [] \<and> list_all is_digit s \<and> hd s \<noteq> CHR ''0'' \<and> (length s \<le> 2 \<or> s = ''100'') then Some (dec_val s) else None)"

definition parseLimit :: "json \<Rightarrow> nat result" where
  "parseLimit v = (case v of JUndefined \<Rightarrow> Inr 50 | JStr s \<Rightarrow> orElse (page_limit s) invalid_request | _ \<Rightarrow> Inl invalid_request)"

definition cleanText :: "nat \<Rightarrow> nat \<Rightarrow> json \<Rightarrow> string result" where
  "cleanText lo hi v = bindR (string_input v) (\<lambda>s.
     let t = trim s in
     if length t < lo \<or> length t > hi \<or> hasControlCharacters t then Inl invalid_request else Inr t)"

text \<open>\<open>/credentials?|password|secret|token|raw_(?:file|bytes|row|rows)/iu\<close>: some text of the list occurs.\<close>

definition secret_words :: "string list" where
  "secret_words = [''credential'', ''password'', ''secret'', ''token'', ''raw_file'', ''raw_bytes'', ''raw_row'']"

definition coverage :: "json \<Rightarrow> (string \<times> json) list result" where
  "coverage v =
     (case v of
        JObj kvs \<Rightarrow>
          (let encoded = stringify v in
           if length encoded > 65536 \<or> (\<exists>s\<in>set secret_words. str_includes_ci s encoded) then Inl invalid_request else Inr kvs)
      | _ \<Rightarrow> Inl invalid_request)"

section \<open>Columns and queries\<close>

text \<open>\<open>x = btrim(x) AND x <> '' AND length(x) <= limit AND x !~ '[[:cntrl:]]'\<close>.\<close>

definition clean_column :: "nat \<Rightarrow> string \<Rightarrow> bool" where
  "clean_column limit s = (s \<noteq> [] \<and> hd s \<noteq> CHR '' '' \<and> last s \<noteq> CHR '' '' \<and> length s \<le> limit \<and> \<not> hasControlCharacters s)"

text \<open>\<open>$3::text IS NULL OR x = $3\<close>.\<close>

definition given_is :: "'a option \<Rightarrow> 'a \<Rightarrow> bool" where
  "given_is wanted x = (case wanted of None \<Rightarrow> True | Some y \<Rightarrow> x = y)"

text \<open>\<open>$5::timestamptz\<close> and \<open>$6::uuid\<close> of a boundary, as the texts the columns would give.\<close>

definition cast_boundary :: "(string \<Rightarrow> int option) \<Rightarrow> (string \<Rightarrow> string option) \<Rightarrow> boundary option \<Rightarrow> boundary option result" where
  "cast_boundary timestamptz_of uuid_of cursor =
     (case cursor of
        None \<Rightarrow> Inr None
      | Some (t, i) \<Rightarrow>
          bindR (orElse (timestamptz_of t) (sqlstate ''22007'')) (\<lambda>at.
          bindR (orElse (uuid_of i) (sqlstate ''22P02'')) (\<lambda>u. Inr (Some (micros_text at, u)))))"

text \<open>A column that may be null.\<close>

definition opt_text :: "string option \<Rightarrow> json" where
  "opt_text v = (case v of None \<Rightarrow> JNull | Some s \<Rightarrow> JStr s)"

section \<open>Configuration columns\<close>

type_synonym jsonb = "json \<Rightarrow> (json \<times> nat) option"

text \<open>\<open>$9::jsonb\<close>.\<close>

definition jsonb_cast :: "jsonb \<Rightarrow> (string \<times> json) list \<Rightarrow> json result" where
  "jsonb_cast jsonb_of kvs = orElse (map_option fst (jsonb_of (JObj kvs))) (sqlstate ''22P05'')"

text \<open>The CHECK constraint of a configuration: an object of at most 64 KiB without reserved keys.\<close>

definition reserved_rules :: "string list" where
  "reserved_rules = [''credentials'', ''credential'', ''password'', ''secret'', ''token'', ''raw_file'', ''raw_bytes'', ''raw_row'', ''raw_rows'']"

definition config_column :: "jsonb \<Rightarrow> json \<Rightarrow> bool" where
  "config_column jsonb_of v =
     (case v of
        JObj kvs \<Rightarrow> (case jsonb_of v of None \<Rightarrow> False | Some (_, n) \<Rightarrow> n \<le> 65536) \<and> (\<forall>k\<in>set (object_keys kvs). k \<notin> set reserved_rules)
      | _ \<Rightarrow> False)"

section \<open>Errors\<close>

text \<open>What only refuses with 400, and what only throws.\<close>

definition refusing :: "'a result \<Rightarrow> bool" where
  "refusing r = (\<forall>e. r = Inl e \<longrightarrow> e = invalid_request)"

definition throwing :: "'a result \<Rightarrow> bool" where
  "throwing r = (\<forall>e. r = Inl e \<longrightarrow> (\<exists>s. e = Thrown s))"

named_theorems refusal "parsers that refuse with 400 only"

lemma refusing_basic [refusal]: "refusing (Inr x)" "refusing (Inl invalid_request)" "refusing (orElse v invalid_request)"
  by (auto simp: refusing_def orElse_def split: option.splits)

lemma refusing_bind [refusal]: "refusing m \<Longrightarrow> (\<And>x. refusing (f x)) \<Longrightarrow> refusing (bindR m f)"
  by (cases m) (auto simp: refusing_def)

lemma refusing_if [refusal]: "refusing a \<Longrightarrow> refusing b \<Longrightarrow> refusing (if c then a else b)"
  by simp

lemma refusing_traverse [refusal]: "(\<And>x. refusing (f x)) \<Longrightarrow> refusing (traverseR f xs)"
  by (induction xs) (auto intro!: refusal)

lemma refusing_given [refusal]: "(\<And>x. refusing (parse x)) \<Longrightarrow> refusing (given parse v)"
  unfolding given_def by (intro refusal)

lemma refusing_inputs [refusal]: "refusing (closedRecord v ks)" "refusing (string_input v)"
  by (auto simp: closedRecord_def string_input_def split: json.splits intro: refusal)

lemma throwing_simps [simp]: "throwing (Inr x)" "throwing (Inl (Thrown s))" "throwing (Inl (sqlstate s))" "throwing (orElse v (Thrown s))"
  by (auto simp: throwing_def sqlstate_def)

lemma throwing_bind: "throwing m \<Longrightarrow> (\<And>x. throwing (f x)) \<Longrightarrow> throwing (bindR m f)"
  by (cases m) (auto simp: throwing_def)

end
