(* ===== verification/Users.thy ===== *)
theory Users
  imports Sessions Inputs
begin

text \<open>
  Users and their passwords: core/tenant/users-input.ts, users-repository.ts, users-service.ts,
  user-password-repository.ts and user-password-service.ts, over the tables of theory Sessions. Logging
  is not modelled; the logger is called after the transaction and does not change the tables.
\<close>

section \<open>Input\<close>

definition user_roles :: "user_role list" where
  "user_roles = [TenantAdmin, FinopsAnalyst, FinanceApprover, ReadOnlyAuditor]"

definition isUserRole :: "json \<Rightarrow> user_role option" where
  "isUserRole v = (case v of JStr s \<Rightarrow> find (\<lambda>r. role_text r = s) user_roles | _ \<Rightarrow> None)"

text \<open>\<open>toLowerCase\<close> on Latin-1.\<close>

definition lower_latin1 :: "char \<Rightarrow> char" where
  "lower_latin1 c = (if is_upper c \<or> (192 \<le> code c \<and> code c \<le> 222 \<and> code c \<noteq> 215) then char_of (code c + 32) else c)"

definition normalizeUserEmail :: "string \<Rightarrow> string result" where
  "normalizeUserEmail v =
     (let normalized = map lower_latin1 (trim v) in
      if normalized = [] \<or> length normalized > 254 \<or> hasControlCharacters normalized \<or> (\<exists>c\<in>set normalized. is_ws c)
      then Inl invalid_request
      else case split_on (CHR ''@'') normalized of
          [l, d] \<Rightarrow> if l = [] \<or> d = [] then Inl invalid_request else Inr normalized
        | _ \<Rightarrow> Inl invalid_request)"

definition normalizeUserName :: "string \<Rightarrow> string result" where
  "normalizeUserName v =
     (let normalized = trim v in
      if normalized = [] \<or> length normalized > 200 \<or> hasControlCharacters normalized then Inl invalid_request else Inr normalized)"

record user_create_input =
  uc_email :: string
  uc_name :: string
  uc_role :: user_role
  uc_isActive :: bool

record user_patch_changes =
  up_email :: "string option"
  up_name :: "string option"
  up_role :: "user_role option"
  up_isActive :: "bool option"

record user_patch_input =
  upi_expectedUpdatedAt :: string
  upi_changes :: user_patch_changes
  upi_changedFields :: "string list"

definition normalizeUserCreate :: "json \<Rightarrow> user_create_input result" where
  "normalizeUserCreate input =
     bindR (closedRecord input [''email'', ''name'', ''role'', ''is_active'']) (\<lambda>kvs.
     bindR (string_input (json_prop kvs ''email'')) (\<lambda>email.
     bindR (string_input (json_prop kvs ''name'')) (\<lambda>name.
     bindR (orElse (isUserRole (json_prop kvs ''role'')) invalid_request) (\<lambda>role.
     bindR (case json_prop kvs ''is_active'' of JUndefined \<Rightarrow> Inr True | JBool b \<Rightarrow> Inr b | _ \<Rightarrow> Inl invalid_request) (\<lambda>active.
     bindR (normalizeUserEmail email) (\<lambda>email'.
     bindR (normalizeUserName name) (\<lambda>name'.
     Inr \<lparr>uc_email = email', uc_name = name', uc_role = role, uc_isActive = active\<rparr>)))))))"

definition normalizeUserPatch :: "(string \<Rightarrow> int option) \<Rightarrow> json \<Rightarrow> user_patch_input result" where
  "normalizeUserPatch date_parse input =
     bindR (closedRecord input [''expected_updated_at'', ''email'', ''name'', ''role'', ''is_active'']) (\<lambda>kvs.
     bindR (bindR (string_input (json_prop kvs ''expected_updated_at'')) (parseUserTimestamp date_parse)) (\<lambda>expected.
     bindR (given (\<lambda>v. bindR (string_input v) normalizeUserEmail) (json_prop kvs ''email'')) (\<lambda>email.
     bindR (given (\<lambda>v. bindR (string_input v) normalizeUserName) (json_prop kvs ''name'')) (\<lambda>name.
     bindR (given (\<lambda>v. orElse (isUserRole v) invalid_request) (json_prop kvs ''role'')) (\<lambda>role.
     bindR (given bool_input (json_prop kvs ''is_active'')) (\<lambda>active.
     let changed = (if email = None then [] else [''email'']) @ (if name = None then [] else [''name''])
           @ (if role = None then [] else [''role'']) @ (if active = None then [] else [''is_active'']) in
     if changed = [] then Inl invalid_request
     else Inr \<lparr>upi_expectedUpdatedAt = expected,
       upi_changes = \<lparr>up_email = email, up_name = name, up_role = role, up_isActive = active\<rparr>, upi_changedFields = changed\<rparr>))))))"

record user_list_query =
  ul_limit :: nat
  ul_cursor :: "string option"

definition parseUserListQuery :: "json \<Rightarrow> user_list_query result" where
  "parseUserListQuery input =
     bindR (closedRecord input [''limit'', ''cursor'']) (\<lambda>kvs.
     bindR (case json_prop kvs ''limit'' of JUndefined \<Rightarrow> Inr 25 | JStr s \<Rightarrow> orElse (page_limit s) invalid_request
          | _ \<Rightarrow> Inl invalid_request) (\<lambda>limit.
     case json_prop kvs ''cursor'' of
       JUndefined \<Rightarrow> Inr \<lparr>ul_limit = limit, ul_cursor = None\<rparr>
     | JStr s \<Rightarrow> if s = [] \<or> length s > 512 then Inl invalid_request else Inr \<lparr>ul_limit = limit, ul_cursor = Some s\<rparr>
     | _ \<Rightarrow> Inl invalid_request))"

section \<open>The repository\<close>

text \<open>The checks of the table (with \<open>lower\<close> of a UTF-8 locale) and its unique indexes.\<close>

definition user_row_check :: "user_account \<Rightarrow> bool" where
  "user_row_check u =
     (acc_email u = map lower_latin1 (acc_email u)
      \<and> (case split_on (CHR ''@'') (acc_email u) of [l, d] \<Rightarrow> l \<noteq> [] \<and> d \<noteq> [] | _ \<Rightarrow> False)
      \<and> (\<forall>c\<in>set (acc_email u). \<not> is_ws c)
      \<and> acc_name u \<noteq> [] \<and> hd (acc_name u) \<noteq> CHR '' '' \<and> last (acc_name u) \<noteq> CHR '' ''
      \<and> acc_createdAt u \<le> acc_updatedAt u)"

definition email_taken :: js_error where
  "email_taken = sqlstate ''23505 users_tenant_email_key''"

definition insert_user :: "user_account \<Rightarrow> identity_world \<Rightarrow> identity_world result" where
  "insert_user u w =
     (if \<not> user_row_check u then Inl (sqlstate ''23514'')
      else if \<exists>x\<in>set (iw_users w). acc_id x = acc_id u then Inl (sqlstate ''23505'')
      else if \<exists>x\<in>set (iw_users w). acc_tenantId x = acc_tenantId u \<and> acc_email x = acc_email u then Inl email_taken
      else Inr (w\<lparr>iw_users := iw_users w @ [u]\<rparr>))"

definition same_account :: "user_account \<Rightarrow> user_account \<Rightarrow> bool" where
  "same_account u x = (acc_tenantId x = acc_tenantId u \<and> acc_id x = acc_id u)"

definition write_user :: "user_account \<Rightarrow> identity_world \<Rightarrow> identity_world result" where
  "write_user u w =
     (if \<not> user_row_check u then Inl (sqlstate ''23514'')
      else if \<exists>x\<in>set (iw_users w). \<not> same_account u x \<and> acc_tenantId x = acc_tenantId u \<and> acc_email x = acc_email u then Inl email_taken
      else Inr (w\<lparr>iw_users := map (\<lambda>x. if same_account u x then u else x) (iw_users w)\<rparr>))"

definition withTenantTransaction :: "string \<Rightarrow> (identity_world \<Rightarrow> ('a \<times> identity_world) result) \<Rightarrow> identity_world \<Rightarrow> 'a result \<times> identity_world" where
  "withTenantTransaction tenantId operation w =
     (if only (filter (\<lambda>t. tna_id t = tenantId) (iw_tenants w)) = None then (Inl (Thrown ''Authenticated tenant vanished.''), w)
      else case operation w of Inl e \<Rightarrow> (Inl e, w) | Inr (x, w') \<Rightarrow> (Inr x, w'))"

definition user_key :: "user_account \<Rightarrow> boundary" where
  "user_key u = (micros_text (acc_createdAt u), acc_id u)"

definition list_users :: "string \<Rightarrow> nat \<Rightarrow> boundary option \<Rightarrow> identity_world \<Rightarrow> user_account list" where
  "list_users tenantId limit cursor w =
     keyset_query user_key cursor (limit + 1) (filter (\<lambda>u. acc_tenantId u = tenantId) (iw_users w))"

definition create_user :: "string \<Rightarrow> string \<Rightarrow> user_create_input \<Rightarrow> identity_world \<Rightarrow> user_account result \<times> identity_world" where
  "create_user new_id tenantId input =
     withTenantTransaction tenantId (\<lambda>w.
       let row = \<lparr>acc_id = new_id, acc_tenantId = tenantId, acc_email = uc_email input, acc_name = uc_name input,
             acc_role = uc_role input, acc_isActive = uc_isActive input, acc_createdAt = iw_now w, acc_updatedAt = iw_now w\<rparr> in
       bindR (insert_user row w) (\<lambda>w'. Inr (row, w')))"

datatype user_patch_result = PatchUpdated user_account | PatchNotFound | PatchVersionConflict | PatchLastAdmin

definition lockUser :: "string \<Rightarrow> string \<Rightarrow> identity_world \<Rightarrow> user_account option" where
  "lockUser tenantId userId w = find (\<lambda>u. acc_tenantId u = tenantId \<and> acc_id u = userId) (iw_users w)"

definition next_role :: "user_account \<Rightarrow> user_patch_changes \<Rightarrow> user_role" where
  "next_role account changes = (case up_role changes of None \<Rightarrow> acc_role account | Some r \<Rightarrow> r)"

definition next_active :: "user_account \<Rightarrow> user_patch_changes \<Rightarrow> bool" where
  "next_active account changes = (case up_isActive changes of None \<Rightarrow> acc_isActive account | Some b \<Rightarrow> b)"

definition isAdminRemoval :: "user_account \<Rightarrow> user_patch_changes \<Rightarrow> bool" where
  "isAdminRemoval account changes =
     (if acc_role account \<noteq> TenantAdmin \<or> \<not> acc_isActive account then False
      else next_role account changes \<noteq> TenantAdmin \<or> \<not> next_active account changes)"

definition familyRevocationReason :: "user_account \<Rightarrow> user_patch_changes \<Rightarrow> revocation_reason option" where
  "familyRevocationReason account changes =
     (if acc_isActive account \<and> \<not> next_active account changes then Some RvUserInactive
      else if next_role account changes \<noteq> acc_role account then Some RvRoleChanged else None)"

definition active_admin :: "string \<Rightarrow> user_account \<Rightarrow> bool" where
  "active_admin tenantId u = (acc_tenantId u = tenantId \<and> acc_role u = TenantAdmin \<and> acc_isActive u)"

definition activeAdminCount :: "string \<Rightarrow> identity_world \<Rightarrow> nat" where
  "activeAdminCount tenantId w = length (filter (active_admin tenantId) (iw_users w))"

definition patched :: "user_account \<Rightarrow> user_patch_changes \<Rightarrow> int \<Rightarrow> user_account" where
  "patched u c now =
     u\<lparr>acc_email := (case up_email c of None \<Rightarrow> acc_email u | Some e \<Rightarrow> e),
       acc_name := (case up_name c of None \<Rightarrow> acc_name u | Some n \<Rightarrow> n),
       acc_role := next_role u c, acc_isActive := next_active u c, acc_updatedAt := now\<rparr>"

definition updateUser :: "user_account \<Rightarrow> user_patch_changes \<Rightarrow> identity_world \<Rightarrow> (user_account \<times> identity_world) result" where
  "updateUser account changes w =
     (if up_email changes = None \<and> up_name changes = None \<and> up_role changes = None \<and> up_isActive changes = None
      then Inl (Thrown ''A user update requires a field.'')
      else bindR (write_user (patched account changes (iw_now w)) w) (\<lambda>w'. Inr (patched account changes (iw_now w), w')))"

definition of_user :: "string \<Rightarrow> string \<Rightarrow> refresh_family \<Rightarrow> bool" where
  "of_user tenantId userId f = (rf_tenantId f = tenantId \<and> rf_userId f = userId)"

definition patchLocked :: "string \<Rightarrow> string \<Rightarrow> string \<Rightarrow> user_patch_changes \<Rightarrow> identity_world \<Rightarrow> (user_patch_result \<times> identity_world) result" where
  "patchLocked tenantId userId expectedUpdatedAt changes w =
     (case lockUser tenantId userId w of
        None \<Rightarrow> Inr (PatchNotFound, w)
      | Some account \<Rightarrow>
          if micros_text (acc_updatedAt account) \<noteq> expectedUpdatedAt then Inr (PatchVersionConflict, w)
          else if isAdminRemoval account changes \<and> activeAdminCount tenantId w \<le> 1 then Inr (PatchLastAdmin, w)
          else bindR (updateUser account changes w) (\<lambda>(user, w1).
            case familyRevocationReason account changes of
              None \<Rightarrow> Inr (PatchUpdated user, w1)
            | Some reason \<Rightarrow> bindR (revoke_families (of_user tenantId userId) reason w1) (\<lambda>(_, w2). Inr (PatchUpdated user, w2))))"

definition patch_user :: "string \<Rightarrow> string \<Rightarrow> string \<Rightarrow> user_patch_changes \<Rightarrow> identity_world \<Rightarrow> user_patch_result result \<times> identity_world" where
  "patch_user tenantId userId expectedUpdatedAt changes =
     withTenantTransaction tenantId (patchLocked tenantId userId expectedUpdatedAt changes)"

section \<open>Passwords\<close>

record password_input =
  pi_tenantId :: string
  pi_actorUserId :: string
  pi_targetUserId :: string
  pi_requestId :: string
  pi_passwordHash :: string

definition user_not_found :: js_error where
  "user_not_found = AppError ''NOT_FOUND'' ''User was not found.'' 404"

definition prefixed :: "string \<Rightarrow> string \<Rightarrow> bool" where
  "prefixed p s = (take (length p) s = p)"

text \<open>The check of the column.\<close>

definition password_hash_check :: "string \<Rightarrow> bool" where
  "password_hash_check h = (hd h \<noteq> CHR '' '' \<and> last h \<noteq> CHR '' '' \<and> length (utf8_bytes h) \<le> 512 \<and> prefixed ''$argon2id$v=19$'' h)"

definition writeCredential :: "password_input \<Rightarrow> bool \<Rightarrow> identity_world \<Rightarrow> identity_world result" where
  "writeCredential input existed w =
     (if \<not> password_hash_check (pi_passwordHash input) then Inl (sqlstate ''23514'')
      else if existed then
        Inr (w\<lparr>iw_passwords := map (\<lambda>p. if pw_tenantId p = pi_tenantId input \<and> pw_userId p = pi_targetUserId input
          then p\<lparr>pw_hash := pi_passwordHash input, pw_changedAt := iw_now w\<rparr> else p) (iw_passwords w)\<rparr>)
      else if \<exists>p\<in>set (iw_passwords w). pw_userId p = pi_targetUserId input then Inl (sqlstate ''23505'')
      else Inr (w\<lparr>iw_passwords := iw_passwords w @ [\<lparr>pw_tenantId = pi_tenantId input, pw_userId = pi_targetUserId input,
          pw_hash = pi_passwordHash input, pw_changedAt = iw_now w, pw_createdAt = iw_now w\<rparr>]\<rparr>))"

definition insertPasswordAudit :: "password_input \<Rightarrow> bool \<Rightarrow> nat \<Rightarrow> identity_world \<Rightarrow> identity_world result" where
  "insertPasswordAudit input existed sessionsRevoked =
     insert_audit \<lparr>au_tenantId = pi_tenantId input, au_actorUserId = Some (pi_actorUserId input), au_actorType = ''user'',
       au_action = (if existed then ''user.password.reset'' else ''user.password.provisioned''), au_entityType = ''user'',
       au_entityId = pi_targetUserId input,
       au_oldValues = JNull, au_newValues = JObj [(''result'', JStr ''succeeded''), (''sessions_revoked'', JInt (int sessionsRevoked))],
       au_requestId = pi_requestId input\<rparr>"

definition passwordTransaction :: "password_input \<Rightarrow> identity_world \<Rightarrow> (unit \<times> identity_world) result" where
  "passwordTransaction input w =
     (if only (filter (\<lambda>t. tna_id t = pi_tenantId input) (iw_tenants w)) = None then Inl (authError AuthDependencyUnavailable)
      else if lockUser (pi_tenantId input) (pi_targetUserId input) w = None then Inl user_not_found
      else let existed = (password_of (pi_tenantId input) (pi_targetUserId input) w \<noteq> None) in
        bindR (writeCredential input existed w) (\<lambda>w1.
        bindR (revoke_families (of_user (pi_tenantId input) (pi_targetUserId input)) RvPasswordReset w1) (\<lambda>(revoked, w2).
        bindR (insertPasswordAudit input existed revoked w2) (\<lambda>w3. Inr ((), w3)))))"

definition set_password :: "password_input \<Rightarrow> identity_world \<Rightarrow> unit result \<times> identity_world" where
  "set_password input = auth_transaction (passwordTransaction input)"

section \<open>The services\<close>

definition users_unavailable :: js_error where
  "users_unavailable = AppError ''USERS_UNAVAILABLE'' ''User management is temporarily unavailable.'' 503"

definition user_conflict :: js_error where
  "user_conflict = AppError ''USER_CONFLICT'' ''A user conflicts with existing metadata.'' 409"

definition mapUserError :: "js_error \<Rightarrow> js_error" where
  "mapUserError e = (if e = email_taken then user_conflict else users_unavailable)"

definition toTenantUser :: "user_account \<Rightarrow> json" where
  "toTenantUser u =
     JObj [(''id'', JStr (acc_id u)), (''email'', JStr (acc_email u)), (''name'', JStr (acc_name u)),
       (''role'', JStr (role_text (acc_role u))), (''is_active'', JBool (acc_isActive u)),
       (''created_at'', JStr (micros_text (acc_createdAt u))), (''updated_at'', JStr (micros_text (acc_updatedAt u)))]"

definition list_users_service :: "(string \<Rightarrow> int option) \<Rightarrow> (string \<Rightarrow> string) \<Rightarrow> (string \<Rightarrow> json option) \<Rightarrow> string \<Rightarrow> json
    \<Rightarrow> identity_world \<Rightarrow> (json list \<times> string option) result" where
  "list_users_service date_parse sha256 parse_bytes tenantId query w =
     bindR (parseUserListQuery query) (\<lambda>parsed.
     bindR (case ul_cursor parsed of None \<Rightarrow> Inr None
       | Some c \<Rightarrow> bindR (decodeUsersCursor date_parse sha256 parse_bytes c) (\<lambda>b. Inr (Some b))) (\<lambda>cursor.
     let rows = list_users tenantId (ul_limit parsed) cursor w; selected = take (ul_limit parsed) rows in
     if length rows > ul_limit parsed \<and> selected \<noteq> [] then
       bindR (encodeUsersCursor date_parse sha256 (fst (user_key (last selected))) (snd (user_key (last selected))))
         (\<lambda>c. Inr (map toTenantUser selected, Some c))
     else Inr (map toTenantUser selected, None)))"

definition create_user_service :: "string \<Rightarrow> string \<Rightarrow> json \<Rightarrow> identity_world \<Rightarrow> json result \<times> identity_world" where
  "create_user_service new_id tenantId body w =
     (case normalizeUserCreate body of
        Inl e \<Rightarrow> (Inl e, w)
      | Inr input \<Rightarrow>
          (case create_user new_id tenantId input w of
             (Inl e, w') \<Rightarrow> (Inl (mapUserError e), w')
           | (Inr row, w') \<Rightarrow> (Inr (toTenantUser row), w')))"

definition patch_user_service :: "(string \<Rightarrow> int option) \<Rightarrow> string \<Rightarrow> json \<Rightarrow> json \<Rightarrow> identity_world \<Rightarrow> json result \<times> identity_world" where
  "patch_user_service date_parse tenantId userId body w =
     (case bindR (bindR (string_input userId) parseUserId) (\<lambda>i. bindR (normalizeUserPatch date_parse body) (\<lambda>input. Inr (i, input))) of
        Inl e \<Rightarrow> (Inl e, w)
      | Inr (i, input) \<Rightarrow>
          (case patch_user tenantId i (upi_expectedUpdatedAt input) (upi_changes input) w of
             (Inl e, w') \<Rightarrow> (Inl (mapUserError e), w')
           | (Inr r, w') \<Rightarrow>
               ((case r of
                   PatchUpdated u \<Rightarrow> Inr (toTenantUser u)
                 | PatchNotFound \<Rightarrow> Inl (AppError ''USER_NOT_FOUND'' ''The user was not found.'' 404)
                 | PatchVersionConflict \<Rightarrow> Inl (AppError ''USER_VERSION_CONFLICT'' ''The user changed before this update.'' 409)
                 | PatchLastAdmin \<Rightarrow>
                     Inl (AppError ''LAST_TENANT_ADMIN_REQUIRED'' ''At least one active tenant administrator is required.'' 409)), w')))"

definition parsePasswordBody :: "json \<Rightarrow> string result" where
  "parsePasswordBody body =
     (case body of
        JObj kvs \<Rightarrow>
          if length (object_keys kvs) \<noteq> 1 \<or> ''password'' \<notin> set (object_keys kvs) then Inl invalid_request
          else (case normalizePassword (json_prop kvs ''password'') of
              Inl e \<Rightarrow> Inl (if e = PasswordInputError then invalid_request else e)
            | Inr p \<Rightarrow> Inr p)
      | _ \<Rightarrow> Inl invalid_request)"

definition set_password_service :: "(string \<Rightarrow> string result) \<Rightarrow> request_context \<Rightarrow> json \<Rightarrow> json \<Rightarrow> identity_world \<Rightarrow> unit result \<times> identity_world" where
  "set_password_service passwordHasher ctx targetUserId body w =
     (case bindR (bindR (string_input targetUserId) parseUserId) (\<lambda>i. bindR (parsePasswordBody body) (\<lambda>p. Inr (i, p))) of
        Inl e \<Rightarrow> (Inl e, w)
      | Inr (i, password) \<Rightarrow>
          (case passwordHasher password of
             Inl _ \<Rightarrow> (Inl (authError AuthDependencyUnavailable), w)
           | Inr passwordHash \<Rightarrow>
               set_password \<lparr>pi_tenantId = ctx_tenantId ctx,
                 pi_actorUserId = (case ctx_actorUserId ctx of Some u \<Rightarrow> u | None \<Rightarrow> []), pi_targetUserId = i,
                 pi_requestId = ctx_requestId ctx, pi_passwordHash = passwordHash\<rparr> w))"

end
