(* ===== verification/Api_Keys.thy ===== *)
theory Api_Keys
  imports Users
begin

text \<open>
  API keys over the table of migration 0003: core/tenant/api-key-metadata-repository.ts and
  api-key-metadata-service.ts list them, api-key-rotation-input.ts, api-key-rotation-repository.ts,
  api-key-rotation-service.ts and rotation-audit-writer.ts replace one by another. Only the digest of a
  key is stored; the plaintext is in the answer to the rotation and nowhere else. Generated ids and the
  random bytes are arguments.
\<close>

section \<open>The table\<close>

definition insert_key :: "api_key_row \<Rightarrow> identity_world \<Rightarrow> identity_world result" where
  "insert_key k w =
     (if \<exists>x\<in>set (iw_keys w). ak_id x = ak_id k \<or> ak_keyHash x = ak_keyHash k then Inl (sqlstate ''23505'')
      else if \<not> (\<exists>t\<in>set (iw_tenants w). tna_id t = ak_tenantId k) then Inl (sqlstate ''23503'')
      else if (case ak_note k of None \<Rightarrow> False | Some n \<Rightarrow> n = [] \<or> hd n = CHR '' '' \<or> last n = CHR '' '') then Inl (sqlstate ''23514'')
      else Inr (w\<lparr>iw_keys := iw_keys w @ [k]\<rparr>))"

definition live_key :: "string \<Rightarrow> string \<Rightarrow> api_key_row \<Rightarrow> bool" where
  "live_key tenantId apiKeyId k = (ak_tenantId k = tenantId \<and> ak_id k = apiKeyId \<and> ak_revokedAt k = None)"

section \<open>The list\<close>

definition key_metadata :: "api_key_row \<Rightarrow> json" where
  "key_metadata k = JObj
     [(''id'', JStr (ak_id k)), (''note'', opt_text (ak_note k)), (''created_at'', JStr (micros_text (ak_createdAt k))),
      (''revoked_at'', opt_text (map_option micros_text (ak_revokedAt k)))]"

definition parseApiKeyMetadataQuery :: "json \<Rightarrow> (nat \<times> string option) result" where
  "parseApiKeyMetadataQuery input =
     bindR (closedRecord input [''limit'', ''cursor'']) (\<lambda>kvs.
     bindR (case json_prop kvs ''limit'' of JUndefined \<Rightarrow> Inr 25 | JStr s \<Rightarrow> orElse (page_limit s) invalid_request
          | _ \<Rightarrow> Inl invalid_request) (\<lambda>limit.
     case json_prop kvs ''cursor'' of
       JUndefined \<Rightarrow> Inr (limit, None)
     | JStr s \<Rightarrow> if s = [] \<or> length s > 512 then Inl invalid_request else Inr (limit, Some s)
     | _ \<Rightarrow> Inl invalid_request))"

definition key_boundary :: "api_key_row \<Rightarrow> boundary" where
  "key_boundary k = (micros_text (ak_createdAt k), ak_id k)"

definition list_keys :: "string \<Rightarrow> nat \<Rightarrow> boundary option \<Rightarrow> identity_world \<Rightarrow> api_key_row list" where
  "list_keys tenantId limit cursor w =
     keyset_query key_boundary cursor (limit + 1) (filter (\<lambda>k. ak_tenantId k = tenantId) (iw_keys w))"

definition list_keys_service :: "(string \<Rightarrow> int option) \<Rightarrow> (string \<Rightarrow> string) \<Rightarrow> (string \<Rightarrow> json option) \<Rightarrow> string \<Rightarrow> json
    \<Rightarrow> identity_world \<Rightarrow> (json list \<times> string option) result" where
  "list_keys_service date_parse sha256 parse_bytes tenantId query w =
     bindR (parseApiKeyMetadataQuery query) (\<lambda>(limit, text).
     bindR (case text of None \<Rightarrow> Inr None
       | Some c \<Rightarrow> bindR (decodeApiKeyMetadataCursor date_parse sha256 parse_bytes c) (\<lambda>b. Inr (Some b))) (\<lambda>cursor.
     let rows = list_keys tenantId limit cursor w; selected = take limit rows in
     if length rows > limit \<and> selected \<noteq> [] then
       bindR (encodeApiKeyMetadataCursor date_parse sha256 (fst (key_boundary (last selected))) (snd (key_boundary (last selected))))
         (\<lambda>c. Inr (map key_metadata selected, Some c))
     else Inr (map key_metadata selected, None)))"

section \<open>Rotation\<close>

record rotation_input =
  ro_apiKeyId :: string
  ro_note :: "string option"

definition invalid_rotation :: js_error where
  "invalid_rotation = AppError ''VALIDATION_ERROR'' ''API-key rotation request is invalid.'' 400"

definition rotation_unavailable :: js_error where
  "rotation_unavailable = AppError ''API_KEY_ROTATION_UNAVAILABLE'' ''API-key rotation is temporarily unavailable.'' 503"

definition key_not_found :: js_error where
  "key_not_found = AppError ''NOT_FOUND'' ''API key was not found.'' 404"

definition normalizeNote :: "json \<Rightarrow> string result" where
  "normalizeNote v =
     (case v of
        JStr note \<Rightarrow> if note = [] \<or> trim note \<noteq> note \<or> length note > 200 \<or> hasControlCharacters note
          then Inl invalid_rotation else Inr note
      | _ \<Rightarrow> Inl invalid_rotation)"

definition parseApiKeyRotationBody :: "json \<Rightarrow> rotation_input result" where
  "parseApiKeyRotationBody input =
     (case input of
        JObj kvs \<Rightarrow>
          if \<exists>k\<in>set (object_keys kvs). k \<notin> {''api_key_id'', ''note''} then Inl invalid_rotation
          else (case json_prop kvs ''api_key_id'' of
              JStr i \<Rightarrow>
                if \<not> lower_uuid i then Inl invalid_rotation
                else bindR (if json_prop kvs ''note'' = JUndefined then Inr None
                       else bindR (normalizeNote (json_prop kvs ''note'')) (\<lambda>n. Inr (Some n)))
                  (\<lambda>note. Inr \<lparr>ro_apiKeyId = i, ro_note = note\<rparr>)
            | _ \<Rightarrow> Inl invalid_rotation)
      | _ \<Rightarrow> Inl invalid_rotation)"

record rotation_request =
  rr_tenantId :: string
  rr_actorUserId :: string
  rr_requestId :: string
  rr_apiKeyId :: string
  rr_note :: "string option"
  rr_keyHash :: string

definition rotation_audit :: "rotation_request \<Rightarrow> api_key_row \<Rightarrow> api_key_row \<Rightarrow> int \<Rightarrow> audit_row" where
  "rotation_audit input oldKey replacement now =
     \<lparr>au_tenantId = rr_tenantId input, au_actorUserId = Some (rr_actorUserId input), au_actorType = ''user'',
      au_action = ''api_key.rotated'', au_entityType = ''api_key'', au_entityId = ak_id oldKey,
      au_oldValues = JObj [(''created_at'', JStr (micros_text (ak_createdAt oldKey))), (''revoked_at'', JNull)],
      au_newValues = JObj [(''result'', JStr ''succeeded''), (''revoked_at'', JStr (micros_text now)),
        (''replacement'', JObj [(''id'', JStr (ak_id replacement)), (''created_at'', JStr (micros_text (ak_createdAt replacement))),
          (''revoked_at'', JNull)])],
      au_requestId = rr_requestId input\<rparr>"

definition revokeSelectedKey :: "rotation_request \<Rightarrow> identity_world \<Rightarrow> identity_world result" where
  "revokeSelectedKey input w =
     (let hit = live_key (rr_tenantId input) (rr_apiKeyId input) in
      if \<exists>k\<in>set (iw_keys w). hit k \<and> iw_now w < ak_createdAt k then Inl (sqlstate ''23514'')
      else if length (filter hit (iw_keys w)) \<noteq> 1 then Inl key_not_found
      else Inr (w\<lparr>iw_keys := map (\<lambda>k. if hit k then k\<lparr>ak_revokedAt := Some (iw_now w)\<rparr> else k) (iw_keys w)\<rparr>))"

definition performRotation :: "string \<Rightarrow> rotation_request \<Rightarrow> identity_world \<Rightarrow> ((api_key_row \<times> api_key_row) \<times> identity_world) result" where
  "performRotation new_id input w =
     (case find (live_key (rr_tenantId input) (rr_apiKeyId input)) (iw_keys w) of
        None \<Rightarrow> Inl key_not_found
      | Some oldKey \<Rightarrow>
          (let replacement = \<lparr>ak_id = new_id, ak_tenantId = rr_tenantId input, ak_keyHash = rr_keyHash input,
                 ak_note = rr_note input, ak_createdAt = iw_now w, ak_revokedAt = None\<rparr> in
           bindR (revokeSelectedKey input w) (\<lambda>w1.
           bindR (insert_key replacement w1) (\<lambda>w2.
           bindR (insert_audit (rotation_audit input oldKey replacement (iw_now w)) w2) (\<lambda>w3.
           Inr ((oldKey\<lparr>ak_revokedAt := Some (iw_now w)\<rparr>, replacement), w3))))))"

definition rotate_key :: "string \<Rightarrow> rotation_request \<Rightarrow> identity_world \<Rightarrow> (api_key_row \<times> api_key_row) result \<times> identity_world" where
  "rotate_key new_id input w =
     (case performRotation new_id input w of
        Inl (AppError c m s) \<Rightarrow> (Inl (AppError c m s), w)
      | Inl (Thrown _) \<Rightarrow> (Inl rotation_unavailable, w)
      | Inr (r, w') \<Rightarrow> (Inr r, w'))"

definition rotate_key_service :: "(string \<Rightarrow> string) \<Rightarrow> string \<Rightarrow> string \<Rightarrow> string \<Rightarrow> string \<Rightarrow> request_context \<Rightarrow> json
    \<Rightarrow> identity_world \<Rightarrow> json result \<times> identity_world" where
  "rotate_key_service sha256_hex apiKeyPrefix entropy new_id audit_id ctx body w =
     (case parseApiKeyRotationBody body of
        Inl e \<Rightarrow> (Inl e, w)
      | Inr input \<Rightarrow>
          (case createApiKeyCredential sha256_hex apiKeyPrefix entropy of
             Inl _ \<Rightarrow> (Inl rotation_unavailable, w)
           | Inr credential \<Rightarrow>
               (case rotate_key new_id \<lparr>rr_tenantId = ctx_tenantId ctx,
                   rr_actorUserId = (case ctx_actorUserId ctx of Some u \<Rightarrow> u | None \<Rightarrow> []), rr_requestId = ctx_requestId ctx,
                   rr_apiKeyId = ro_apiKeyId input, rr_note = ro_note input, rr_keyHash = akc_keyHash credential\<rparr> w of
                  (Inl e, w') \<Rightarrow> (Inl e, w')
                | (Inr (revoked, replacement), w') \<Rightarrow>
                    (Inr (JObj [(''revoked_api_key'', key_metadata revoked), (''replacement_api_key'', key_metadata replacement),
                       (''audit_id'', JStr audit_id), (''apiKey'', JStr (akc_plaintext credential))]), w'))))"

end
