(* ===== verification/Session_Steps.thy ===== *)
theory Session_Steps
  imports Session_Service Api_Keys
begin

text \<open>
  The identity tables as a state machine: one event per transaction, and the four effects an event can
  have on families and tokens. The invariant \<open>sessions_ok\<close> and the abstract session are proved over the
  effects; that every event has one of them is proved once.
\<close>

section \<open>Events\<close>

datatype identity_event =
    EvLogin login_issue_input
  | EvRefresh refresh_input
  | EvLogout logout_input
  | EvPassword password_input
  | EvCreateUser string string user_create_input
  | EvPatchUser string string string user_patch_changes
  | EvRotateKey string rotation_request
  | EvTenant string bool
  | EvTick nat

text \<open>\<open>EvTenant\<close> is an operator who sets \<open>tenants.is_active\<close>; \<open>EvTick\<close> is the clock.\<close>

primrec identity_step :: "(access_claims \<Rightarrow> string result) \<Rightarrow> identity_event \<Rightarrow> identity_world \<Rightarrow> identity_world" where
  "identity_step sign (EvLogin input) w = snd (login_issue sign input w)"
| "identity_step sign (EvRefresh input) w = snd (rotate_session sign input w)"
| "identity_step sign (EvLogout input) w = snd (logout_session input w)"
| "identity_step sign (EvPassword input) w = snd (set_password input w)"
| "identity_step sign (EvCreateUser new_id tenantId input) w = snd (create_user new_id tenantId input w)"
| "identity_step sign (EvPatchUser tenantId userId expected changes) w = snd (patch_user tenantId userId expected changes w)"
| "identity_step sign (EvRotateKey new_id input) w = snd (rotate_key new_id input w)"
| "identity_step sign (EvTenant tenantId active) w =
     w\<lparr>iw_tenants := map (\<lambda>t. if tna_id t = tenantId then t\<lparr>tna_isActive := active\<rparr> else t) (iw_tenants w)\<rparr>"
| "identity_step sign (EvTick d) w = w\<lparr>iw_now := iw_now w + int d\<rparr>"

definition run_events :: "(access_claims \<Rightarrow> string result) \<Rightarrow> identity_event list \<Rightarrow> identity_world \<Rightarrow> identity_world" where
  "run_events sign es w = fold (identity_step sign) es w"

lemma run_events_simps [simp]:
  "run_events sign [] w = w"
  "run_events sign (es @ fs) w = run_events sign fs (run_events sign es w)"
  "run_events sign [e] w = identity_step sign e w"
  by (simp_all add: run_events_def)

section \<open>Effects\<close>

definition user_keys :: "identity_world \<Rightarrow> (string \<times> string) set" where
  "user_keys w = (\<lambda>u. (acc_tenantId u, acc_id u)) ` set (iw_users w)"

abbreviation spend :: "refresh_token \<Rightarrow> int \<Rightarrow> refresh_token \<Rightarrow> refresh_token" where
  "spend r now t \<equiv> (if rt_id t = rt_id r \<and> rt_usedAt t = None then t\<lparr>rt_usedAt := Some now\<rparr> else t)"

abbreviation close_if :: "(refresh_family \<Rightarrow> bool) \<Rightarrow> int \<Rightarrow> revocation_reason \<Rightarrow> refresh_family \<Rightarrow> refresh_family" where
  "close_if selected now reason f \<equiv> (if selected f \<and> live_family f then f\<lparr>rf_revoked := Some (now, reason)\<rparr> else f)"

definition has_admin :: "string \<Rightarrow> identity_world \<Rightarrow> bool" where
  "has_admin tenantId w = (\<exists>u\<in>set (iw_users w). active_admin tenantId u)"

text \<open>Tenants keep their ids, users are never removed, keep unique ids and, of a tenant that has one, an active administrator.\<close>

definition grows :: "identity_world \<Rightarrow> identity_world \<Rightarrow> bool" where
  "grows w w' = (map tna_id (iw_tenants w') = map tna_id (iw_tenants w) \<and> user_keys w \<subseteq> user_keys w'
     \<and> (distinct (map acc_id (iw_users w)) \<longrightarrow>
          distinct (map acc_id (iw_users w')) \<and> (\<forall>t. has_admin t w \<longrightarrow> has_admin t w')))"

lemma grows_frame [simp]: "iw_tenants w' = iw_tenants w \<Longrightarrow> iw_users w' = iw_users w \<Longrightarrow> grows w w'"
  by (simp add: grows_def user_keys_def has_admin_def)

lemma growsD: "grows w w' \<Longrightarrow> user_keys w \<subseteq> user_keys w'"
  by (simp add: grows_def)

inductive session_effect :: "identity_world \<Rightarrow> identity_world \<Rightarrow> bool" where
  stays: "iw_families w' = iw_families w \<Longrightarrow> iw_tokens w' = iw_tokens w \<Longrightarrow> iw_now w \<le> iw_now w' \<Longrightarrow> grows w w'
    \<Longrightarrow> session_effect w w'"
| opened: "iw_families w' = iw_families w @ [f] \<Longrightarrow> iw_tokens w' = iw_tokens w @ [t] \<Longrightarrow> iw_now w' = iw_now w \<Longrightarrow> grows w w'
    \<Longrightarrow> rf_id f \<notin> rf_id ` set (iw_families w) \<Longrightarrow> \<forall>u\<in>set (iw_tokens w). \<not> token_clash t u
    \<Longrightarrow> (rf_tenantId f, rf_userId f) \<in> user_keys w \<Longrightarrow> rf_revoked f = None
    \<Longrightarrow> rf_createdAt f = iw_now w \<Longrightarrow> rf_absoluteExpiresAt f = iw_now w + 30 * day_us
    \<Longrightarrow> rt_familyId t = rf_id f \<Longrightarrow> rt_tenantId t = rf_tenantId f \<Longrightarrow> rt_parentTokenId t = None \<Longrightarrow> rt_usedAt t = None
    \<Longrightarrow> rt_createdAt t = iw_now w \<Longrightarrow> rt_idleExpiresAt t = iw_now w + 7 * day_us
    \<Longrightarrow> session_effect w w'"
| rotated: "iw_families w' = iw_families w \<Longrightarrow> iw_tokens w' = map (spend r (iw_now w)) (iw_tokens w) @ [c] \<Longrightarrow> iw_now w' = iw_now w
    \<Longrightarrow> grows w w' \<Longrightarrow> f \<in> set (iw_families w) \<Longrightarrow> r \<in> set (iw_tokens w) \<Longrightarrow> rt_familyId r = rf_id f
    \<Longrightarrow> rt_tenantId r = rf_tenantId f \<Longrightarrow> rt_usedAt r = None \<Longrightarrow> live_family f
    \<Longrightarrow> iw_now w < rt_idleExpiresAt r \<Longrightarrow> iw_now w < rf_absoluteExpiresAt f
    \<Longrightarrow> \<forall>u\<in>set (map (spend r (iw_now w)) (iw_tokens w)). \<not> token_clash c u
    \<Longrightarrow> rt_familyId c = rf_id f \<Longrightarrow> rt_tenantId c = rf_tenantId f \<Longrightarrow> rt_parentTokenId c = Some (rt_id r) \<Longrightarrow> rt_usedAt c = None
    \<Longrightarrow> rt_createdAt c = iw_now w \<Longrightarrow> rt_idleExpiresAt c = min (iw_now w + 7 * day_us) (rf_absoluteExpiresAt f)
    \<Longrightarrow> session_effect w w'"
| closed: "iw_families w' = map (close_if selected (iw_now w) reason) (iw_families w) \<Longrightarrow> iw_tokens w' = iw_tokens w
    \<Longrightarrow> iw_now w' = iw_now w \<Longrightarrow> grows w w'
    \<Longrightarrow> session_effect w w'"

section \<open>What the statements do\<close>

lemma only_Some: "only xs = Some x \<longleftrightarrow> xs = [x]"
  by (auto simp: only_def split: list.splits)

lemma only_mem: "only xs = Some x \<Longrightarrow> x \<in> set xs"
  by (simp add: only_Some)

lemma insert_audit_Inr: "insert_audit a w = Inr w' \<Longrightarrow> w' = w\<lparr>iw_audit := iw_audit w @ [a]\<rparr>"
  by (auto simp: insert_audit_def split: if_splits option.splits)

lemmas audit_defs = insertLoginSuccessAudit_def insertLoginDeniedAudit_def insertRefreshReuseAudit_def insertLogoutAudit_def
  insertPasswordAudit_def

lemma user_keys_simps [simp]:
  "user_keys (w\<lparr>iw_audit := a\<rparr>) = user_keys w" "user_keys (w\<lparr>iw_families := fs\<rparr>) = user_keys w"
  "user_keys (w\<lparr>iw_tokens := ts\<rparr>) = user_keys w" "user_keys (w\<lparr>iw_passwords := ps\<rparr>) = user_keys w"
  "user_keys (w\<lparr>iw_tenants := tns\<rparr>) = user_keys w" "user_keys (w\<lparr>iw_now := n\<rparr>) = user_keys w"
  by (simp_all add: user_keys_def)

lemma insert_family_Inr:
  "insert_family f w = Inr w' \<Longrightarrow> w' = w\<lparr>iw_families := iw_families w @ [f]\<rparr> \<and> rf_id f \<notin> rf_id ` set (iw_families w)
    \<and> (rf_tenantId f, rf_userId f) \<in> user_keys w"
  by (force simp: insert_family_def user_keys_def split: if_splits)

lemma insert_token_Inr:
  "insert_token t w = Inr w' \<Longrightarrow> w' = w\<lparr>iw_tokens := iw_tokens w @ [t]\<rparr> \<and> (\<forall>u\<in>set (iw_tokens w). \<not> token_clash t u)"
  by (auto simp: insert_token_def split: if_splits option.splits)

lemma revoke_Inr:
  "revoke_families selected reason w = Inr (n, w') \<Longrightarrow>
    w' = w\<lparr>iw_families := map (close_if selected (iw_now w) reason) (iw_families w)\<rparr>"
  by (auto simp: revoke_families_def Let_def split: if_splits)

lemma mark_used_Inr:
  "mark_used (rt_id r) w = Inr (n, w') \<Longrightarrow> w' = w\<lparr>iw_tokens := map (spend r (iw_now w)) (iw_tokens w)\<rparr>"
  by (auto simp: mark_used_def Let_def split: if_splits)

lemma readRefresh_Some:
  assumes "readRefresh i d w = Some row"
  shows "rr_family row \<in> set (iw_families w)" and "rf_id (rr_family row) = i" and "rr_token row \<in> set (iw_tokens w)"
    and "rt_familyId (rr_token row) = i" and "rt_tenantId (rr_token row) = rf_tenantId (rr_family row)"
    and "rt_tokenDigest (rr_token row) = d" and "rr_user row \<in> set (iw_users w)"
    and "acc_id (rr_user row) = rf_userId (rr_family row)" and "acc_tenantId (rr_user row) = rf_tenantId (rr_family row)"
    and "rr_tenant row \<in> set (iw_tenants w)" and "tna_id (rr_tenant row) = rf_tenantId (rr_family row)"
  using only_mem [OF assms [unfolded readRefresh_def]] by auto

lemma readToken_Some:
  assumes "readToken i d w = Some (f, r)"
  shows "f \<in> set (iw_families w)" and "rf_id f = i" and "r \<in> set (iw_tokens w)" and "rt_familyId r = i"
    and "rt_tenantId r = rf_tenantId f" and "rt_tokenDigest r = d"
  using only_mem [OF assms [unfolded readToken_def]] by auto

lemma transaction_world:
  "snd (auth_transaction body w) = w \<or> (\<exists>x. body w = Inr (x, snd (auth_transaction body w)))"
  by (auto simp: auth_transaction_def split: sum.splits js_error.splits)

lemma tenant_transaction_world:
  "snd (withTenantTransaction t body w) = w \<or> (\<exists>x. body w = Inr (x, snd (withTenantTransaction t body w)))"
  by (auto simp: withTenantTransaction_def split: sum.splits)

lemma effect_refl: "session_effect w w"
  by (rule stays) auto

lemma effect_audit: "session_effect w (w\<lparr>iw_audit := a\<rparr>)"
  by (rule stays) auto

section \<open>Every event has an effect\<close>

lemma login_effect: "session_effect w (snd (login_issue sign input w))"
proof -
  have "session_effect w w'" if b: "evaluateLockedLogin sign input w = Inr (x, w')" for x w'
  proof -
    consider "w' = w" | a where "insert_audit a w = Inr w'"
      | tenant identity hash issue w1 a where "lockLoginProof input w = Some (tenant, identity, hash)"
          "insertSession sign input identity w = Inr (issue, w1)" "insert_audit a w1 = Inr w'"
      using b by (force simp: evaluateLockedLogin_def audit_defs bindR_eq_Inr split: option.splits prod.splits if_splits)
    then show ?thesis
    proof cases
      case 1 then show ?thesis by (simp add: effect_refl)
    next
      case (2 a) then show ?thesis using insert_audit_Inr effect_audit by metis
    next
      case (3 tenant identity hash issue w1 a)
      let ?f = "new_family input identity (iw_now w)" and ?t = "root_token input (iw_now w)"
      from 3(2) obtain w0 where f: "insert_family ?f w = Inr w0" and t: "insert_token ?t w0 = Inr w1"
        by (auto simp: insertSession_def Let_def bindR_eq_Inr)
      note f' = insert_family_Inr [OF f]
      have w': "w' = w\<lparr>iw_families := iw_families w @ [?f], iw_tokens := iw_tokens w @ [?t], iw_audit := iw_audit w @ [a]\<rparr>"
        and c: "\<forall>u\<in>set (iw_tokens w). \<not> token_clash ?t u"
        using f' insert_token_Inr [OF t] insert_audit_Inr [OF 3(3)] by simp_all
      show ?thesis
        by (rule opened [of _ _ ?f ?t]) (use f' w' c in \<open>simp_all add: new_family_def root_token_def\<close>)
    qed
  qed
  with transaction_world [of "evaluateLockedLogin sign input" w] show ?thesis
    unfolding login_issue_def using effect_refl by metis
qed

lemma refresh_effect: "session_effect w (snd (rotate_session sign input w))"
proof -
  have "session_effect w w'" if b: "evaluateLockedRefresh sign input w = Inr (x, w')" for x w'
  proof -
    have outcome: "w' = w \<or> (\<exists>sel reason n w1 a. revoke_families sel reason w = Inr (n, w1) \<and> insert_audit a w1 = Inr w')
      \<or> (\<exists>row issue. readRefresh (ri_familyId input) (ri_presentedDigest input) w = Some row \<and> rotateCurrent sign input row w = Inr (issue, w')
          \<and> rf_revoked (rr_family row) = None \<and> rt_usedAt (rr_token row) = None \<and> iw_now w < rt_idleExpiresAt (rr_token row)
          \<and> iw_now w < rf_absoluteExpiresAt (rr_family row))"
    proof (cases "readRefresh (ri_familyId input) (ri_presentedDigest input) w")
      case None
      then show ?thesis using b by (auto simp: evaluateLockedRefresh_def split: if_splits)
    next
      case (Some row)
      have inactive: "\<exists>sel reason n w1 a. revoke_families sel reason w = Inr (n, w1) \<and> insert_audit a w1 = Inr v"
        if "revokeInactive row r t q w = Inr v" for r t q v
        using that by (force simp: revokeInactive_def audit_defs bindR_eq_Inr)
      have reused: "\<exists>sel reason n w1 a. revoke_families sel reason w = Inr (n, w1) \<and> insert_audit a w1 = Inr v"
        if "revokeReuse row q w = Inr v" for q v
        using that by (force simp: revokeReuse_def audit_defs bindR_eq_Inr split: if_splits)
      show ?thesis using b Some
        by (auto simp: evaluateLockedRefresh_def bindR_eq_Inr split: if_splits dest!: inactive reused)
    qed
    then consider "w' = w"
      | sel reason n w1 a where "revoke_families sel reason w = Inr (n, w1)" "insert_audit a w1 = Inr w'"
      | row issue where "readRefresh (ri_familyId input) (ri_presentedDigest input) w = Some row" "rotateCurrent sign input row w = Inr (issue, w')"
          "rf_revoked (rr_family row) = None" "rt_usedAt (rr_token row) = None" "iw_now w < rt_idleExpiresAt (rr_token row)"
          "iw_now w < rf_absoluteExpiresAt (rr_family row)" by blast
    then show ?thesis
    proof cases
      case 1 then show ?thesis by (simp add: effect_refl)
    next
      case (2 sel reason n w1 a)
      then have "w' = w\<lparr>iw_families := map (close_if sel (iw_now w) reason) (iw_families w), iw_audit := iw_audit w @ [a]\<rparr>"
        using revoke_Inr insert_audit_Inr by fastforce
      then show ?thesis by (intro closed [of _ sel _ reason]) simp_all
    next
      case (3 row issue)
      note row = readRefresh_Some [OF 3(1)]
      let ?r = "rr_token row" and ?c = "child_token input row (iw_now w)"
      from 3(2) obtain n w1 where m: "mark_used (rt_id ?r) w = Inr (n, w1)" and t: "insert_token ?c w1 = Inr w'"
        by (auto simp: rotateCurrent_def markUsedAndInsertChild_def Let_def bindR_eq_Inr split: if_splits)
      have w': "w' = w\<lparr>iw_tokens := map (spend ?r (iw_now w)) (iw_tokens w) @ [?c]\<rparr>"
        and c: "\<forall>u\<in>set (map (spend ?r (iw_now w)) (iw_tokens w)). \<not> token_clash ?c u"
        using mark_used_Inr [OF m] insert_token_Inr [OF t] by simp_all
      show ?thesis
        by (rule rotated [of _ _ ?r ?c "rr_family row", OF _ _ _ _ _ _ _ _ _ _ _ _ c])
          (use row w' 3 in \<open>simp_all add: child_token_def live_family_def\<close>)
    qed
  qed
  with transaction_world [of "evaluateLockedRefresh sign input" w] show ?thesis
    unfolding rotate_session_def using effect_refl by metis
qed

lemma logout_effect: "session_effect w (snd (logout_session input w))"
proof -
  have "session_effect w w'" if b: "evaluate_logout input w = Inr (x, w')" for x w'
  proof -
    consider "w' = w" | n w1 a where "revoke_families (\<lambda>f. rf_id f = lo_familyId input) RvLogout w = Inr (n, w1)" "insert_audit a w1 = Inr w'"
      using b by (force simp: evaluate_logout_def revokeAndAudit_def audit_defs bindR_eq_Inr split: option.splits prod.splits if_splits)
    then show ?thesis
    proof cases
      case 1 then show ?thesis by (simp add: effect_refl)
    next
      case (2 n w1 a)
      show ?thesis
        by (rule closed [of _ "\<lambda>f. rf_id f = lo_familyId input" _ RvLogout]) (simp_all add: revoke_Inr [OF 2(1)] insert_audit_Inr [OF 2(2)])
    qed
  qed
  with transaction_world [of "evaluate_logout input" w] show ?thesis
    unfolding logout_session_def using effect_refl by metis
qed

lemma writeCredential_Inr:
  "writeCredential input existed w = Inr w' \<Longrightarrow> \<exists>ps. w' = w\<lparr>iw_passwords := ps\<rparr>"
  by (auto simp: writeCredential_def split: if_splits)

lemma password_effect: "session_effect w (snd (set_password input w))"
proof -
  have "session_effect w w'" if b: "passwordTransaction input w = Inr (x, w')" for x w'
  proof -
    from b obtain existed w1 n w2 a where "writeCredential input existed w = Inr w1"
      and r: "revoke_families (of_user (pi_tenantId input) (pi_targetUserId input)) RvPasswordReset w1 = Inr (n, w2)"
      and a: "insert_audit a w2 = Inr w'"
      by (auto simp: passwordTransaction_def Let_def bindR_eq_Inr audit_defs split: if_splits)
    then obtain ps where w1: "w1 = w\<lparr>iw_passwords := ps\<rparr>" using writeCredential_Inr by blast
    show ?thesis
      by (rule closed [of _ "of_user (pi_tenantId input) (pi_targetUserId input)" _ RvPasswordReset])
        (simp_all add: insert_audit_Inr [OF a] revoke_Inr [OF r] w1)
  qed
  with transaction_world [of "passwordTransaction input" w] show ?thesis
    unfolding set_password_def using effect_refl by metis
qed

lemma create_effect: "session_effect w (snd (create_user new_id tenantId input w))"
proof -
  have ins: "session_effect w w'" if i: "insert_user u w = Inr w'" for u w'
  proof -
    have "w' = w\<lparr>iw_users := iw_users w @ [u]\<rparr>" "acc_id u \<notin> set (map acc_id (iw_users w))"
      using i by (force simp: insert_user_def split: if_splits)+
    then show ?thesis by (intro stays) (auto simp: grows_def user_keys_def has_admin_def)
  qed
  let ?row = "\<lparr>acc_id = new_id, acc_tenantId = tenantId, acc_email = uc_email input, acc_name = uc_name input,
    acc_role = uc_role input, acc_isActive = uc_isActive input, acc_createdAt = iw_now w, acc_updatedAt = iw_now w\<rparr>"
  show ?thesis using ins [of ?row] effect_refl
    by (cases "insert_user ?row w") (simp_all add: create_user_def withTenantTransaction_def Let_def)
qed

lemma write_user_frame:
  assumes "write_user u w = Inr w'"
  shows "iw_users w' = map (\<lambda>x. if same_account u x then u else x) (iw_users w)"
    and "iw_families w' = iw_families w" and "iw_tokens w' = iw_tokens w" and "iw_now w' = iw_now w" and "iw_tenants w' = iw_tenants w"
    and "user_keys w' = user_keys w" and "map acc_id (iw_users w') = map acc_id (iw_users w)"
proof -
  have w': "w' = w\<lparr>iw_users := map (\<lambda>x. if same_account u x then u else x) (iw_users w)\<rparr>"
    using assms by (simp add: write_user_def split: if_splits)
  let ?key = "\<lambda>x. (acc_tenantId x, acc_id x)"
  have "map ?key (iw_users w') = map ?key (iw_users w)" by (simp add: w' same_account_def)
  then show "user_keys w' = user_keys w" unfolding user_keys_def by (metis list.set_map)
  show "map acc_id (iw_users w') = map acc_id (iw_users w)" by (simp add: w' same_account_def)
  show "iw_users w' = map (\<lambda>x. if same_account u x then u else x) (iw_users w)" "iw_families w' = iw_families w"
    "iw_tokens w' = iw_tokens w" "iw_now w' = iw_now w" "iw_tenants w' = iw_tenants w" by (simp_all add: w')
qed

lemma same_user: "distinct (map acc_id us) \<Longrightarrow> x \<in> set us \<Longrightarrow> y \<in> set us \<Longrightarrow> acc_id x = acc_id y \<Longrightarrow> x = y"
  by (auto simp: distinct_map inj_on_def)

text \<open>The guard of the last administrator.\<close>

lemma patch_keeps_admin:
  assumes lock: "lockUser tenantId userId w = Some account" and guard: "\<not> (isAdminRemoval account changes \<and> activeAdminCount tenantId w \<le> 1)"
    and us: "iw_users w' = map (\<lambda>x. if same_account (patched account changes n) x then patched account changes n else x) (iw_users w)"
    and d: "distinct (map acc_id (iw_users w))" and has: "has_admin t w"
  shows "has_admin t w'"
proof -
  let ?p = "patched account changes n"
  have acc: "account \<in> set (iw_users w)" "acc_tenantId account = tenantId" "acc_id account = userId"
    using lock by (auto simp: lockUser_def find_Some_iff)
  have key: "same_account ?p x \<longleftrightarrow> acc_tenantId x = tenantId \<and> acc_id x = userId" for x
    using acc by (auto simp: same_account_def patched_def)
  have other: "has_admin t w'" if "y \<in> set (iw_users w)" "active_admin t y" "y \<noteq> account" for y
  proof -
    have "\<not> same_account ?p y" using same_user [OF d that(1) acc(1)] that(3) key acc(3) by auto
    then have "y \<in> set (iw_users w')" unfolding us using that(1) by (auto simp: image_iff intro!: bexI [of _ y])
    with that(2) show ?thesis by (auto simp: has_admin_def)
  qed
  show ?thesis
  proof (cases "active_admin t account")
    case False
    with has other show ?thesis by (auto simp: has_admin_def)
  next
    case True
    then have t: "t = tenantId" using acc(2) by (simp add: active_admin_def)
    show ?thesis
    proof (cases "isAdminRemoval account changes")
      case True
      let ?as = "filter (active_admin tenantId) (iw_users w)"
      have "2 \<le> length ?as" using guard True by (simp add: activeAdminCount_def)
      moreover have "distinct ?as" using d by (simp add: distinct_map)
      moreover have "?as = [account] \<or> (\<exists>y\<in>set ?as. y \<noteq> account) \<or> ?as = []" if "distinct ?as"
        using that by (cases ?as) (auto, metis list.exhaust list.set_intros(1))
      ultimately obtain y where "y \<in> set ?as" "y \<noteq> account" by fastforce
      then show ?thesis using other [of y] t by simp
    next
      case False
      with \<open>active_admin t account\<close> have "active_admin t ?p"
        by (auto simp: isAdminRemoval_def active_admin_def patched_def)
      moreover have "?p \<in> set (iw_users w')" unfolding us using acc key by (auto simp: image_iff intro!: bexI [of _ account])
      ultimately show ?thesis by (auto simp: has_admin_def)
    qed
  qed
qed

lemma patchLocked_cases:
  assumes "patchLocked tenantId userId expected changes w = Inr (x, w')"
  obtains "w' = w" "\<forall>u. x \<noteq> PatchUpdated u"
    | account w1 where "lockUser tenantId userId w = Some account" "x = PatchUpdated (patched account changes (iw_now w))"
        "write_user (patched account changes (iw_now w)) w = Inr w1" "grows w w1"
        "case familyRevocationReason account changes of None \<Rightarrow> w' = w1
         | Some reason \<Rightarrow> w' = w1\<lparr>iw_families := map (close_if (of_user tenantId userId) (iw_now w) reason) (iw_families w)\<rparr>"
proof (cases "\<exists>u. x = PatchUpdated u")
  case False
  then have "w' = w \<and> (\<forall>u. x \<noteq> PatchUpdated u)"
    using assms by (auto simp: patchLocked_def bindR_eq_Inr split: option.splits if_splits)
  with that(1) show thesis by blast
next
  case True
  then obtain account where lock: "lockUser tenantId userId w = Some account"
    and guard: "\<not> (isAdminRemoval account changes \<and> activeAdminCount tenantId w \<le> 1)"
    and core: "bindR (updateUser account changes w) (\<lambda>(user, w1).
            case familyRevocationReason account changes of
              None \<Rightarrow> Inr (PatchUpdated user, w1)
            | Some reason \<Rightarrow> bindR (revoke_families (of_user tenantId userId) reason w1) (\<lambda>(_, w2). Inr (PatchUpdated user, w2)))
          = Inr (x, w')"
    using assms unfolding patchLocked_def by (cases "lockUser tenantId userId w") (auto split: if_splits)
  from core obtain user w1 where up: "updateUser account changes w = Inr (user, w1)"
    and tail: "(case familyRevocationReason account changes of
              None \<Rightarrow> Inr (PatchUpdated user, w1)
            | Some reason \<Rightarrow> bindR (revoke_families (of_user tenantId userId) reason w1) (\<lambda>(_, w2). Inr (PatchUpdated user, w2)))
          = Inr (x, w')"
    unfolding bindR_eq_Inr by auto
  from up have wr: "write_user (patched account changes (iw_now w)) w = Inr w1" and user: "user = patched account changes (iw_now w)"
    by (auto simp: updateUser_def bindR_eq_Inr split: if_splits)
  have x: "x = PatchUpdated (patched account changes (iw_now w))"
    using tail unfolding user by (cases "familyRevocationReason account changes") (auto simp: bindR_eq_Inr)
  have rest: "case familyRevocationReason account changes of None \<Rightarrow> w' = w1
      | Some reason \<Rightarrow> \<exists>n. revoke_families (of_user tenantId userId) reason w1 = Inr (n, w')"
    using tail by (cases "familyRevocationReason account changes") (auto simp: bindR_eq_Inr)
  note f = write_user_frame [OF wr]
  have "grows w w1" unfolding grows_def f(5-7) using patch_keeps_admin [OF lock guard f(1)] by blast
  moreover have "case familyRevocationReason account changes of None \<Rightarrow> w' = w1
      | Some reason \<Rightarrow> w' = w1\<lparr>iw_families := map (close_if (of_user tenantId userId) (iw_now w) reason) (iw_families w)\<rparr>"
  proof (cases "familyRevocationReason account changes")
    case (Some reason)
    with rest obtain n where r: "revoke_families (of_user tenantId userId) reason w1 = Inr (n, w')" by auto
    show ?thesis using revoke_Inr [OF r] f(2,4) Some by simp
  qed (use rest in simp)
  ultimately show thesis using that(2) lock x wr by blast
qed

lemma patch_effect: "session_effect w (snd (patch_user tenantId userId expected changes w))"
proof -
  have "session_effect w w'" if b: "patchLocked tenantId userId expected changes w = Inr (x, w')" for x w'
    using b
  proof (cases rule: patchLocked_cases)
    case 1 then show ?thesis by (simp add: effect_refl)
  next
    case (2 account w1)
    note f = write_user_frame [OF 2(3)]
    show ?thesis
    proof (cases "familyRevocationReason account changes")
      case None
      with 2 f show ?thesis by (intro stays) simp_all
    next
      case (Some reason)
      with 2 f show ?thesis
        by (intro closed [of _ "of_user tenantId userId" _ reason]) (simp_all add: grows_def user_keys_def has_admin_def)
    qed
  qed
  with tenant_transaction_world [of tenantId "patchLocked tenantId userId expected changes" w] show ?thesis
    unfolding patch_user_def using effect_refl by metis
qed

lemma rotate_key_frame:
  assumes "performRotation new_id input w = Inr (r, w')"
  shows "iw_families w' = iw_families w" "iw_tokens w' = iw_tokens w" "iw_now w' = iw_now w" "iw_tenants w' = iw_tenants w"
    "iw_users w' = iw_users w"
proof -
  from assms obtain w1 w2 k a where "revokeSelectedKey input w = Inr w1" "insert_key k w1 = Inr w2" "insert_audit a w2 = Inr w'"
    by (auto simp: performRotation_def Let_def bindR_eq_Inr split: option.splits)
  then show "iw_families w' = iw_families w" "iw_tokens w' = iw_tokens w" "iw_now w' = iw_now w" "iw_tenants w' = iw_tenants w"
    "iw_users w' = iw_users w"
    by (auto simp: revokeSelectedKey_def insert_key_def Let_def dest!: insert_audit_Inr split: if_splits)
qed

lemma rotate_key_effect: "session_effect w (snd (rotate_key new_id input w))"
proof (cases "performRotation new_id input w")
  case (Inl e)
  then show ?thesis by (cases e) (simp_all add: rotate_key_def effect_refl)
next
  case (Inr p)
  obtain r w' where p: "p = (r, w')" by (cases p)
  with Inr rotate_key_frame [of new_id input w r w'] show ?thesis by (simp add: rotate_key_def) (rule stays, simp_all)
qed

lemma event_effect: "session_effect w (identity_step sign e w)"
proof (cases e)
  case (EvTenant t a)
  then show ?thesis by (intro stays) (simp_all add: grows_def user_keys_def has_admin_def comp_def if_distrib cong: if_cong)
next
  case (EvTick d)
  then show ?thesis by (intro stays) simp_all
qed (simp_all add: login_effect refresh_effect logout_effect password_effect create_effect patch_effect rotate_key_effect)

section \<open>The invariant\<close>

definition family_ok :: "identity_world \<Rightarrow> refresh_family \<Rightarrow> bool" where
  "family_ok w f =
     (rf_createdAt f \<le> iw_now w \<and> rf_absoluteExpiresAt f = rf_createdAt f + 30 * day_us
      \<and> (rf_tenantId f, rf_userId f) \<in> user_keys w
      \<and> (case rf_revoked f of None \<Rightarrow> True | Some (t, _) \<Rightarrow> rf_createdAt f \<le> t \<and> t \<le> iw_now w))"

text \<open>A token is of a family, lives at most seven days and no longer than the family, and follows a spent one.\<close>

definition token_ok :: "identity_world \<Rightarrow> refresh_token \<Rightarrow> bool" where
  "token_ok w t =
     ((\<exists>f\<in>set (iw_families w). rf_id f = rt_familyId t \<and> rf_tenantId f = rt_tenantId t \<and> rf_createdAt f \<le> rt_createdAt t
          \<and> rt_idleExpiresAt t \<le> rf_absoluteExpiresAt f)
      \<and> rt_createdAt t \<le> iw_now w \<and> rt_idleExpiresAt t \<le> rt_createdAt t + 7 * day_us
      \<and> (case rt_usedAt t of None \<Rightarrow> True | Some u \<Rightarrow> rt_createdAt t \<le> u \<and> u \<le> iw_now w)
      \<and> (case rt_parentTokenId t of None \<Rightarrow> True
          | Some p \<Rightarrow> \<exists>u\<in>set (iw_tokens w). rt_id u = p \<and> rt_familyId u = rt_familyId t \<and> rt_usedAt u \<noteq> None))"

definition unspent :: "identity_world \<Rightarrow> string \<Rightarrow> refresh_token list" where
  "unspent w i = filter (\<lambda>t. rt_familyId t = i \<and> rt_usedAt t = None) (iw_tokens w)"

definition sessions_ok :: "identity_world \<Rightarrow> bool" where
  "sessions_ok w =
     (distinct (map rf_id (iw_families w)) \<and> distinct (map rt_id (iw_tokens w)) \<and> distinct (map rt_tokenDigest (iw_tokens w))
      \<and> (\<forall>f\<in>set (iw_families w). family_ok w f \<and> length (unspent w (rf_id f)) = 1)
      \<and> (\<forall>t\<in>set (iw_tokens w). token_ok w t))"

lemma sessions_okD:
  assumes "sessions_ok w"
  shows "distinct (map rf_id (iw_families w))" "distinct (map rt_id (iw_tokens w))" "distinct (map rt_tokenDigest (iw_tokens w))"
    and "f \<in> set (iw_families w) \<Longrightarrow> family_ok w f" and "f \<in> set (iw_families w) \<Longrightarrow> length (unspent w (rf_id f)) = 1"
    and "t \<in> set (iw_tokens w) \<Longrightarrow> token_ok w t"
  using assms by (simp_all add: sessions_ok_def)

lemma family_later:
  "family_ok w f \<Longrightarrow> iw_now w \<le> iw_now w' \<Longrightarrow> grows w w' \<Longrightarrow> family_ok w' f"
  using growsD by (fastforce simp: family_ok_def split: option.splits)

lemma same_family: "sessions_ok w \<Longrightarrow> f \<in> set (iw_families w) \<Longrightarrow> g \<in> set (iw_families w) \<Longrightarrow> rf_id f = rf_id g \<Longrightarrow> f = g"
  by (auto dest!: sessions_okD(1) simp: distinct_map inj_on_def)

lemma same_token: "sessions_ok w \<Longrightarrow> t \<in> set (iw_tokens w) \<Longrightarrow> u \<in> set (iw_tokens w) \<Longrightarrow> rt_id t = rt_id u \<Longrightarrow> t = u"
  by (auto dest!: sessions_okD(2) simp: distinct_map inj_on_def)

text \<open>The id of a new family is of no token.\<close>

lemma unspent_new:
  assumes "sessions_ok w" and "i \<notin> rf_id ` set (iw_families w)"
  shows "unspent w i = []"
proof -
  have "rt_familyId t \<noteq> i" if "t \<in> set (iw_tokens w)" for t
    using sessions_okD(6) [OF assms(1) that] assms(2) unfolding token_ok_def by force
  then show ?thesis by (auto simp: unspent_def filter_empty_conv)
qed

lemma clash_new:
  "\<forall>u\<in>set us. \<not> token_clash t u \<Longrightarrow> rt_id t \<notin> rt_id ` set us \<and> rt_tokenDigest t \<notin> rt_tokenDigest ` set us"
  by (auto simp: token_clash_def)

lemma effect_ok_opened:
  assumes ok: "sessions_ok w" and fs: "iw_families w' = iw_families w @ [f]" and ts: "iw_tokens w' = iw_tokens w @ [t]"
    and frame: "iw_now w' = iw_now w" "grows w w'" and new: "rf_id f \<notin> rf_id ` set (iw_families w)"
    and clash: "\<forall>u\<in>set (iw_tokens w). \<not> token_clash t u" and f: "family_ok w f"
    and t: "rt_familyId t = rf_id f" "rt_usedAt t = None" "token_ok w' t"
  shows "sessions_ok w'"
proof -
  note d = sessions_okD [OF ok]
  have fam: "family_ok w' g" if "g \<in> set (iw_families w')" for g
  proof -
    have "family_ok w g" using that f d(4) fs by auto
    then show ?thesis by (rule family_later) (simp_all add: frame)
  qed
  have un: "unspent w' i = unspent w i @ (if i = rf_id f then [t] else [])" for i using ts t by (auto simp: unspent_def)
  have one: "length (unspent w' (rf_id g)) = 1" if "g \<in> set (iw_families w')" for g
    using that new d(5) unspent_new [OF ok new] fs by (auto simp: un)
  have tok: "token_ok w' u" if "u \<in> set (iw_tokens w')" for u
  proof (cases "u = t")
    case False
    then have "token_ok w u" using that d(6) ts by auto
    then show ?thesis unfolding token_ok_def fs ts frame by (auto split: option.splits)
  qed (use t in simp)
  show ?thesis unfolding sessions_ok_def
    using d(1-3) fam one tok new clash_new [OF clash] by (simp add: fs ts)
qed

lemma effect_ok_closed:
  assumes ok: "sessions_ok w" and fs: "iw_families w' = map (close_if selected (iw_now w) reason) (iw_families w)"
    and ts: "iw_tokens w' = iw_tokens w" and frame: "iw_now w' = iw_now w" "grows w w'"
  shows "sessions_ok w'"
proof -
  let ?c = "close_if selected (iw_now w) reason"
  note d = sessions_okD [OF ok]
  have ids: "map rf_id (iw_families w') = map rf_id (iw_families w)" by (simp add: fs)
  have fam: "family_ok w' f \<and> length (unspent w' (rf_id f)) = 1" if f: "f \<in> set (iw_families w')" for f
  proof -
    obtain g where g: "g \<in> set (iw_families w)" "f = ?c g" using f fs by auto
    have "family_ok w' g" by (rule family_later [OF d(4) [OF g(1)]]) (simp_all add: frame)
    then have "family_ok w' f" unfolding g(2) by (auto simp: family_ok_def frame)
    moreover have "unspent w' (rf_id f) = unspent w (rf_id g)" by (simp add: g(2) unspent_def ts)
    ultimately show ?thesis using d(5) [OF g(1)] by simp
  qed
  have tok: "token_ok w' t" if t: "t \<in> set (iw_tokens w')" for t
  proof -
    from d(6) t ts have old: "token_ok w t" by simp
    then obtain f where "f \<in> set (iw_families w)" "rf_id f = rt_familyId t" "rf_tenantId f = rt_tenantId t"
        "rf_createdAt f \<le> rt_createdAt t" "rt_idleExpiresAt t \<le> rf_absoluteExpiresAt f" by (auto simp: token_ok_def)
    then have "\<exists>f\<in>set (iw_families w'). rf_id f = rt_familyId t \<and> rf_tenantId f = rt_tenantId t \<and> rf_createdAt f \<le> rt_createdAt t
        \<and> rt_idleExpiresAt t \<le> rf_absoluteExpiresAt f" by (intro bexI [of _ "?c f"]) (auto simp: fs)
    with old show ?thesis unfolding token_ok_def ts frame(1) by blast
  qed
  show ?thesis unfolding sessions_ok_def ids ts using d(1-3) fam tok ts by simp
qed

lemma spend_simps [simp]:
  "rt_id (spend r n t) = rt_id t" "rt_tokenDigest (spend r n t) = rt_tokenDigest t" "rt_familyId (spend r n t) = rt_familyId t"
  "rt_createdAt (spend r n t) = rt_createdAt t" "rt_idleExpiresAt (spend r n t) = rt_idleExpiresAt t"
  "rt_tenantId (spend r n t) = rt_tenantId t" "rt_parentTokenId (spend r n t) = rt_parentTokenId t"
  by auto

lemma map_spend: "map rt_id (map (spend r n) ts) = map rt_id ts" "map rt_tokenDigest (map (spend r n) ts) = map rt_tokenDigest ts"
  by simp_all

text \<open>Spending the current token leaves a family none.\<close>

lemma unspent_spend:
  assumes ok: "sessions_ok w" and r: "r \<in> set (iw_tokens w)" "rt_usedAt r = None" and f: "f \<in> set (iw_families w)" "rt_familyId r = rf_id f"
  shows "filter (\<lambda>t. rt_familyId t = i \<and> rt_usedAt t = None) (map (spend r n) (iw_tokens w)) = (if i = rf_id f then [] else unspent w i)"
proof -
  have split: "filter (\<lambda>t. rt_familyId t = i \<and> rt_usedAt t = None) (map (spend r n) ts)
      = filter (\<lambda>t. rt_familyId t = i \<and> rt_usedAt t = None \<and> rt_id t \<noteq> rt_id r) ts" for ts
    by (induction ts) auto
  show ?thesis
  proof (cases "i = rf_id f")
    case True
    have "r \<in> set (unspent w i)" using r f True by (simp add: unspent_def)
    then have "unspent w i = [r]" using sessions_okD(5) [OF ok f(1)] True by (cases "unspent w i") auto
    then have all: "t = r" if "t \<in> set (iw_tokens w)" "rt_familyId t = i" "rt_usedAt t = None" for t
    proof -
      have "t \<in> set (unspent w i)" using that by (simp add: unspent_def)
      with \<open>unspent w i = [r]\<close> show ?thesis by simp
    qed
    then show ?thesis unfolding split using True by (auto simp: filter_empty_conv)
  next
    case False
    have "rt_id t \<noteq> rt_id r" if "t \<in> set (iw_tokens w)" "rt_familyId t = i" for t
      using same_token [OF ok that(1) r(1)] that(2) f(2) False by auto
    then show ?thesis unfolding split unspent_def using False by (auto intro: filter_cong)
  qed
qed

lemma effect_ok_rotated:
  assumes ok: "sessions_ok w" and fs: "iw_families w' = iw_families w" and ts: "iw_tokens w' = map (spend r (iw_now w)) (iw_tokens w) @ [c]"
    and frame: "iw_now w' = iw_now w" "grows w w'"
    and f: "f \<in> set (iw_families w)" and r: "r \<in> set (iw_tokens w)" "rt_familyId r = rf_id f" "rt_usedAt r = None"
    and clash: "\<forall>u\<in>set (map (spend r (iw_now w)) (iw_tokens w)). \<not> token_clash c u"
    and c: "rt_familyId c = rf_id f" "rt_tenantId c = rf_tenantId f" "rt_parentTokenId c = Some (rt_id r)" "rt_usedAt c = None"
      "rt_createdAt c = iw_now w" "rt_idleExpiresAt c = min (iw_now w + 7 * day_us) (rf_absoluteExpiresAt f)"
  shows "sessions_ok w'"
proof -
  let ?s = "spend r (iw_now w)"
  note d = sessions_okD [OF ok]
  have new: "rt_id c \<notin> rt_id ` set (iw_tokens w)" "rt_tokenDigest c \<notin> rt_tokenDigest ` set (iw_tokens w)"
    using clash_new [OF clash] unfolding list.set_map [symmetric] map_spend by blast+
  have fam: "family_ok w' g \<and> length (unspent w' (rf_id g)) = 1" if g: "g \<in> set (iw_families w')" for g
  proof
    show "family_ok w' g" by (rule family_later [OF d(4)]) (use g fs frame in simp_all)
    have "unspent w' (rf_id g) = (if rf_id g = rf_id f then [] else unspent w (rf_id g)) @ (if rf_id g = rf_id f then [c] else [])"
      unfolding unspent_def ts filter_append unspent_spend [OF ok r(1,3) f r(2)] using c(1,4) by (simp add: unspent_def)
    then show "length (unspent w' (rf_id g)) = 1" using d(5) g fs by simp
  qed
  have spent: "?s r \<in> set (iw_tokens w')" "rt_usedAt (?s r) \<noteq> None" using r(1,3) ts by auto
  have tok: "token_ok w' t" if t: "t \<in> set (iw_tokens w')" for t
  proof (cases "t = c")
    case True
    have fam_f: "rf_createdAt f \<le> iw_now w" using d(4) [OF f] by (simp add: family_ok_def)
    have "\<exists>u\<in>set (iw_tokens w'). rt_id u = rt_id r \<and> rt_familyId u = rt_familyId c \<and> rt_usedAt u \<noteq> None"
      by (rule bexI [OF _ spent(1)]) (use spent(2) r(2) c(1) in simp)
    moreover have "\<exists>f\<in>set (iw_families w'). rf_id f = rt_familyId c \<and> rf_tenantId f = rt_tenantId c \<and> rf_createdAt f \<le> rt_createdAt c
        \<and> rt_idleExpiresAt c \<le> rf_absoluteExpiresAt f"
      by (rule bexI [of _ f]) (use c f fs fam_f in auto)
    ultimately show ?thesis unfolding True token_ok_def frame(1) using c by simp
  next
    case False
    then obtain u where u: "u \<in> set (iw_tokens w)" "t = ?s u" using t ts by auto
    note old = d(6) [OF u(1)]
    have parent: "\<exists>x\<in>set (iw_tokens w'). rt_id x = p \<and> rt_familyId x = rt_familyId u \<and> rt_usedAt x \<noteq> None"
      if p: "rt_parentTokenId u = Some p" for p
    proof -
      obtain x where x: "x \<in> set (iw_tokens w)" "rt_id x = p" "rt_familyId x = rt_familyId u" "rt_usedAt x \<noteq> None"
        using old p by (auto simp: token_ok_def)
      then have "x \<in> set (iw_tokens w')" unfolding ts by (auto simp: image_iff intro!: bexI [of _ x])
      with x show ?thesis by blast
    qed
    have used: "case rt_usedAt t of None \<Rightarrow> True | Some v \<Rightarrow> rt_createdAt u \<le> v \<and> v \<le> iw_now w"
      using old u(2) by (auto simp: token_ok_def split: option.splits)
    show ?thesis using old parent used unfolding token_ok_def fs frame(1) u(2) spend_simps
      by (cases "rt_parentTokenId u") auto
  qed
  show ?thesis unfolding sessions_ok_def fs using d(1-3) new fam tok fs
    by (simp add: ts comp_def)
qed

lemma effect_ok_stays:
  assumes ok: "sessions_ok w" and "iw_families w' = iw_families w" and "iw_tokens w' = iw_tokens w"
    and "iw_now w \<le> iw_now w'" and "grows w w'"
  shows "sessions_ok w'"
proof -
  note d = sessions_okD [OF ok]
  have "token_ok w' t" if "t \<in> set (iw_tokens w')" for t
  proof -
    have "token_ok w t" using d(6) that assms(3) by simp
    then show ?thesis using assms(4) unfolding token_ok_def assms(2,3) by (fastforce split: option.splits)
  qed
  moreover have "family_ok w' f \<and> length (unspent w' (rf_id f)) = 1" if "f \<in> set (iw_families w')" for f
    using that d(5) family_later [OF d(4) assms(4,5)] assms(2,3) by (simp add: unspent_def)
  ultimately show ?thesis unfolding sessions_ok_def using d(1-3) assms(2,3) by simp
qed

lemma effect_ok:
  assumes "session_effect w w'" and ok: "sessions_ok w"
  shows "sessions_ok w'"
  using assms(1)
proof cases
  case stays
  then show ?thesis by (intro effect_ok_stays [OF ok])
next
  case (opened f t)
  have f: "family_ok w f" using opened by (simp add: family_ok_def day_us_def second_us_def)
  have t: "token_ok w' t" using opened by (simp add: token_ok_def day_us_def second_us_def)
  show ?thesis by (rule effect_ok_opened [OF ok _ _ _ _ _ _ f _ _ t]) (fact opened)+
next
  case (rotated r c f)
  show ?thesis by (rule effect_ok_rotated [OF ok]) (fact rotated)+
next
  case (closed selected reason)
  show ?thesis by (rule effect_ok_closed [OF ok]) (fact closed)+
qed

lemma grows_refl: "grows w w"
  by simp

lemma grows_trans: "grows w v \<Longrightarrow> grows v u \<Longrightarrow> grows w u"
  by (auto simp: grows_def)

lemma effect_grows: "session_effect w w' \<Longrightarrow> grows w w'"
  by (induction rule: session_effect.induct) simp_all

lemma run_grows: "grows w (run_events sign es w)"
  by (induction es rule: rev_induct) (auto intro: grows_trans [OF _ effect_grows [OF event_effect]])

definition no_sessions :: "identity_world \<Rightarrow> bool" where
  "no_sessions w = (iw_families w = [] \<and> iw_tokens w = [])"

lemma run_ok: "sessions_ok w \<Longrightarrow> sessions_ok (run_events sign es w)"
  by (induction es rule: rev_induct) (auto intro: effect_ok [OF event_effect])

lemma start_ok: "no_sessions w \<Longrightarrow> sessions_ok w"
  by (simp add: no_sessions_def sessions_ok_def)

end
