(* ===== verification/Session_Claims.thy ===== *)
theory Session_Claims
  imports Session_Steps
begin

text \<open>
  What sessions promise: the tables are consistent in every reachable state, each family behaves as an
  abstract session, a refresh token is good for one use and its replay closes the session for ever, and
  so does a change of the user's password, role or activity.
\<close>

section \<open>The abstract session\<close>

text \<open>No session yet; one that is open, or closed with a reason, after so many refreshes.\<close>

datatype session = NoSession | OpenSession nat | ClosedSession nat revocation_reason

inductive session_step :: "session \<Rightarrow> session \<Rightarrow> bool" where
  idle: "session_step s s"
| start: "session_step NoSession (OpenSession 0)"
| refreshed: "session_step (OpenSession n) (OpenSession (Suc n))"
| ended: "session_step (OpenSession n) (ClosedSession n reason)"

inductive_cases closed_stepE: "session_step (ClosedSession n reason) s"

definition spent_tokens :: "identity_world \<Rightarrow> string \<Rightarrow> nat" where
  "spent_tokens w i = length (filter (\<lambda>t. rt_familyId t = i \<and> rt_usedAt t \<noteq> None) (iw_tokens w))"

definition family_of :: "identity_world \<Rightarrow> string \<Rightarrow> refresh_family option" where
  "family_of w i = find (\<lambda>f. rf_id f = i) (iw_families w)"

definition session_of :: "identity_world \<Rightarrow> string \<Rightarrow> session" where
  "session_of w i =
     (case family_of w i of
        None \<Rightarrow> NoSession
      | Some f \<Rightarrow> (case rf_revoked f of None \<Rightarrow> OpenSession (spent_tokens w i) | Some (_, r) \<Rightarrow> ClosedSession (spent_tokens w i) r))"

lemma find_append: "find P (xs @ ys) = (case find P xs of None \<Rightarrow> find P ys | Some x \<Rightarrow> Some x)"
  by (induction xs) auto

lemma find_map: "find P (map g xs) = map_option g (find (P \<circ> g) xs)"
  by (induction xs) auto

lemma family_of_mem: "family_of w i = Some f \<Longrightarrow> f \<in> set (iw_families w) \<and> rf_id f = i"
  by (auto simp: family_of_def find_Some_iff)

lemma family_of_eq: "sessions_ok w \<Longrightarrow> f \<in> set (iw_families w) \<Longrightarrow> family_of w (rf_id f) = Some f"
proof -
  assume ok: "sessions_ok w" and f: "f \<in> set (iw_families w)"
  then obtain g where g: "family_of w (rf_id f) = Some g" unfolding family_of_def
    by (metis (mono_tags, lifting) find_None_iff option.exhaust)
  with same_family [OF ok _ f] family_of_mem show ?thesis by metis
qed

lemma spent_new: "sessions_ok w \<Longrightarrow> family_of w i = None \<Longrightarrow> spent_tokens w i = 0"
  unfolding spent_tokens_def family_of_def find_None_iff
  by (auto simp: filter_empty_conv dest!: sessions_okD(6)) (auto simp: token_ok_def)

lemma spent_spend:
  assumes ok: "sessions_ok w" and r: "r \<in> set (iw_tokens w)" "rt_usedAt r = None"
  shows "length (filter (\<lambda>t. rt_familyId t = i \<and> rt_usedAt t \<noteq> None) (map (spend r n) (iw_tokens w)))
    = spent_tokens w i + (if rt_familyId r = i then 1 else 0)"
proof -
  have "length (filter (\<lambda>t. rt_familyId t = i \<and> rt_usedAt t \<noteq> None) (map (spend r n) ts))
      = length (filter (\<lambda>t. rt_familyId t = i \<and> rt_usedAt t \<noteq> None) ts) + (if rt_familyId r = i \<and> r \<in> set ts then 1 else 0)"
    if "distinct (map rt_id ts)" "set ts \<subseteq> set (iw_tokens w)" for ts
    using that
  proof (induction ts)
    case (Cons t ts)
    show ?case
    proof (cases "rt_id t = rt_id r")
      case True
      then have "t = r" using same_token [OF ok _ r(1), of t] Cons.prems(2) by simp
      moreover have "r \<notin> set ts" using Cons.prems(1) True by (auto simp: rev_image_eqI)
      ultimately show ?thesis using Cons r(2) by simp
    next
      case False
      then show ?thesis using Cons by auto
    qed
  qed simp
  from this [OF sessions_okD(2) [OF ok] subset_refl] r(1) show ?thesis by (simp add: spent_tokens_def)
qed

lemma effect_session:
  assumes "session_effect w w'" and ok: "sessions_ok w"
  shows "session_step (session_of w i) (session_of w' i)"
  using assms(1)
proof cases
  case stays
  then have e: "spent_tokens w' i = spent_tokens w i" "family_of w' i = family_of w i" by (simp_all add: family_of_def spent_tokens_def)
  have "session_of w' i = session_of w i" unfolding session_of_def e ..
  then show ?thesis by (simp add: idle)
next
  case (opened f t)
  have spent: "spent_tokens w' i = spent_tokens w i" using opened by (simp add: spent_tokens_def)
  have fam: "family_of w' i = (case family_of w i of None \<Rightarrow> if rf_id f = i then Some f else None | Some g \<Rightarrow> Some g)"
    unfolding family_of_def opened(1) find_append
    by (cases "find (\<lambda>f. rf_id f = i) (iw_families w)") simp_all
  show ?thesis
  proof (cases "family_of w i")
    case None
    with spent_new [OF ok] opened(8) show ?thesis by (auto simp: session_of_def fam spent intro: session_step.intros)
  next
    case (Some g)
    then have "session_of w' i = session_of w i" by (simp add: session_of_def fam spent split: option.split)
    then show ?thesis by (simp add: idle)
  qed
next
  case (rotated r c f)
  have spent: "spent_tokens w' i = spent_tokens w i + (if rt_familyId r = i then 1 else 0)"
    using rotated spent_spend [OF ok rotated(6,9), of i] by (simp add: spent_tokens_def)
  have fam: "family_of w' i = family_of w i" using rotated by (simp add: family_of_def)
  show ?thesis
  proof (cases "rt_familyId r = i")
    case True
    then have "family_of w i = Some f" using family_of_eq [OF ok rotated(5)] rotated(7) by simp
    then show ?thesis using rotated(10) True by (simp add: session_of_def fam spent live_family_def refreshed)
  next
    case False
    then have "session_of w' i = session_of w i" by (simp add: session_of_def fam spent split: option.split)
    then show ?thesis by (simp add: idle)
  qed
next
  case (closed selected reason)
  have spent: "spent_tokens w' i = spent_tokens w i" using closed by (simp add: spent_tokens_def)
  have fam: "family_of w' i = map_option (close_if selected (iw_now w) reason) (family_of w i)"
    unfolding family_of_def closed(1) find_map by (simp add: comp_def if_distrib cong: if_cong)
  show ?thesis
    by (cases "family_of w i") (auto simp: session_of_def fam spent live_family_def split: option.splits intro: session_step.intros)
qed

lemma run_session: "sessions_ok w \<Longrightarrow> session_step (session_of w i) (session_of (identity_step sign e w) i)"
  by (rule effect_session [OF event_effect])

lemma closed_for_ever:
  assumes "sessions_ok w" and "session_of w i = ClosedSession n reason"
  shows "session_of (run_events sign es w) i = ClosedSession n reason"
proof (induction es rule: rev_induct)
  case (snoc e es)
  from run_session [where i = i and sign = sign and e = e, OF run_ok [OF assms(1), where sign = sign and es = es]] snoc.IH show ?case
    by (auto elim: closed_stepE)
qed (simp add: assms)

section \<open>Refreshes\<close>

lemma transaction_Inr: "auth_transaction body w = (Inr x, w') \<longleftrightarrow> body w = Inr (x, w')"
  by (auto simp: auth_transaction_def split: sum.splits js_error.splits)

text \<open>What a refresh that issues has checked, and what it leaves.\<close>

lemma refresh_issued:
  assumes "rotate_session sign input w = (Inr (RefreshIssued issue), w')"
  obtains row where "readRefresh (ri_familyId input) (ri_presentedDigest input) w = Some row"
    and "rt_csrfDigest (rr_token row) = ri_presentedCsrfDigest input" and "rf_revoked (rr_family row) = None"
    and "tna_isActive (rr_tenant row)" and "acc_isActive (rr_user row)" and "rt_usedAt (rr_token row) = None"
    and "iw_now w < rt_idleExpiresAt (rr_token row)" and "iw_now w < rf_absoluteExpiresAt (rr_family row)"
    and "iw_tokens w' = map (spend (rr_token row) (iw_now w)) (iw_tokens w) @ [child_token input row (iw_now w)]"
proof -
  from assms have b: "evaluateLockedRefresh sign input w = Inr (RefreshIssued issue, w')"
    unfolding rotate_session_def transaction_Inr .
  obtain row where row: "readRefresh (ri_familyId input) (ri_presentedDigest input) w = Some row"
    using b by (auto simp: evaluateLockedRefresh_def split: if_splits option.splits)
  from b row have checks: "rt_csrfDigest (rr_token row) = ri_presentedCsrfDigest input" "rf_revoked (rr_family row) = None"
      "tna_isActive (rr_tenant row)" "acc_isActive (rr_user row)" "rt_usedAt (rr_token row) = None"
      "iw_now w < rt_idleExpiresAt (rr_token row)" "iw_now w < rf_absoluteExpiresAt (rr_family row)"
      and rot: "rotateCurrent sign input row w = Inr (issue, w')"
    by (auto simp: evaluateLockedRefresh_def safeDigestEqual_def bindR_eq_Inr simp del: not_None_eq split: if_splits)
  from rot obtain n w1 where m: "mark_used (rt_id (rr_token row)) w = Inr (n, w1)"
      and t: "insert_token (child_token input row (iw_now w)) w1 = Inr w'"
    by (auto simp: rotateCurrent_def markUsedAndInsertChild_def Let_def bindR_eq_Inr split: if_splits)
  have "iw_tokens w' = map (spend (rr_token row) (iw_now w)) (iw_tokens w) @ [child_token input row (iw_now w)]"
    using mark_used_Inr [OF m] insert_token_Inr [OF t] by simp
  with that row checks show thesis by blast
qed

lemma refresh_needs_open:
  assumes ok: "sessions_ok w" and "rotate_session sign input w = (Inr (RefreshIssued issue), w')"
  shows "session_of w (ri_familyId input) = OpenSession (spent_tokens w (ri_familyId input))"
proof -
  from assms(2) obtain row where row: "readRefresh (ri_familyId input) (ri_presentedDigest input) w = Some row"
    and "rf_revoked (rr_family row) = None" by (rule refresh_issued)
  then show ?thesis using family_of_eq [OF ok readRefresh_Some(1) [OF row]] readRefresh_Some(2) [OF row]
    by (simp add: session_of_def)
qed

text \<open>A closed session never issues again.\<close>

abbreviation never_issues :: "(access_claims \<Rightarrow> string result) \<Rightarrow> string \<Rightarrow> identity_world \<Rightarrow> bool" where
  "never_issues sign i w \<equiv> (\<forall>es input issue. ri_familyId input = i \<longrightarrow>
     fst (rotate_session sign input (run_events sign es w)) \<noteq> Inr (RefreshIssued issue))"

lemma closed_never_issues:
  assumes ok: "sessions_ok w" and "session_of w i = ClosedSession n reason"
  shows "never_issues sign i w"
proof (intro allI impI notI)
  fix es input issue
  assume i: "ri_familyId input = i" and "fst (rotate_session sign input (run_events sign es w)) = Inr (RefreshIssued issue)"
  then have "rotate_session sign input (run_events sign es w)
      = (Inr (RefreshIssued issue), snd (rotate_session sign input (run_events sign es w)))" by (simp add: prod_eq_iff)
  from refresh_needs_open [OF run_ok [OF ok] this] show False using closed_for_ever [OF assms] i by simp
qed

lemma ended_session:
  assumes ok: "sessions_ok w" and f: "f \<in> set (iw_families w)" and sel: "selected f"
    and fam: "iw_families w' = map (close_if selected (iw_now w) reason) (iw_families w)" and tok: "iw_tokens w' = iw_tokens w"
  shows "\<exists>rs. session_of w' (rf_id f) = ClosedSession (spent_tokens w (rf_id f)) rs \<and> (live_family f \<longrightarrow> rs = reason)"
proof -
  have "family_of w' (rf_id f) = Some (close_if selected (iw_now w) reason f)"
    using family_of_eq [OF ok f] unfolding family_of_def fam find_map by (simp add: comp_def if_distrib cong: if_cong)
  moreover have "spent_tokens w' (rf_id f) = spent_tokens w (rf_id f)" by (simp add: spent_tokens_def tok)
  ultimately show ?thesis using sel by (cases "rf_revoked f") (auto simp: session_of_def live_family_def)
qed

text \<open>A spent token is never forgotten.\<close>

lemma spent_stays: "r \<in> set (iw_tokens w) \<Longrightarrow> rt_usedAt r \<noteq> None \<Longrightarrow> r \<in> set (iw_tokens (run_events sign es w))"
proof (induction es rule: rev_induct)
  case (snoc e es)
  then have r: "r \<in> set (iw_tokens (run_events sign es w))" by simp
  from event_effect [of "run_events sign es w" sign e] show ?case
    by cases (use r snoc.prems(2) in \<open>auto simp: image_iff intro!: bexI [of _ r]\<close>)
qed simp

section \<open>Replays\<close>

lemma filter_eq_one: "x \<in> set xs \<Longrightarrow> distinct xs \<Longrightarrow> filter (\<lambda>y. y = x) xs = [x]"
proof (induction xs)
  case (Cons a xs)
  then have "filter (\<lambda>y. y = x) xs = []" if "a = x" using that by (auto simp: filter_empty_conv)
  with Cons show ?case by (cases "a = x") simp_all
qed simp

lemma filter_by_key:
  assumes "distinct (map g xs)" and x: "x \<in> set xs" "P x" and key: "\<And>y. P y \<Longrightarrow> g y = g x"
  shows "filter P xs = [x]"
proof -
  have inj: "inj_on g (set xs)" using assms(1) by (simp add: distinct_map)
  have "P y \<longleftrightarrow> y = x" if "y \<in> set xs" for y
    using x(2) inj_onD [OF inj key that x(1)] by blast
  then have "filter P xs = filter (\<lambda>y. y = x) xs" by (rule filter_cong [OF refl])
  then show ?thesis using assms(1) filter_eq_one [OF x(1)] by (simp add: distinct_map)
qed

lemma concat_filter: "concat (map (\<lambda>x. if P x then F x else []) xs) = concat (map F (filter P xs))"
  by (induction xs) auto

lemma readRefresh_exact:
  assumes ok: "sessions_ok w" and ids: "distinct (map tna_id (iw_tenants w))" "distinct (map acc_id (iw_users w))"
    and f: "f \<in> set (iw_families w)" and r: "r \<in> set (iw_tokens w)" "rt_familyId r = rf_id f"
    and u: "u \<in> set (iw_users w)" "acc_id u = rf_userId f" "acc_tenantId u = rf_tenantId f"
    and t: "t \<in> set (iw_tenants w)" "tna_id t = rf_tenantId f"
  shows "readRefresh (rf_id f) (rt_tokenDigest r) w = Some \<lparr>rr_family = f, rr_token = r, rr_user = u, rr_tenant = t\<rparr>"
proof -
  have fs: "filter (\<lambda>x. rf_id x = rf_id f) (iw_families w) = [f]"
    by (rule filter_by_key [OF sessions_okD(1) [OF ok] f]) simp_all
  have tenant: "rt_tenantId r = rf_tenantId f"
    using sessions_okD(6) [OF ok r(1)] r(2) same_family [OF ok f] by (fastforce simp: token_ok_def)
  have rs: "filter (\<lambda>x. rt_familyId x = rf_id f \<and> rt_tenantId x = rf_tenantId f \<and> rt_tokenDigest x = rt_tokenDigest r) (iw_tokens w) = [r]"
    by (rule filter_by_key [OF sessions_okD(3) [OF ok] r(1)]) (simp_all add: r(2) tenant)
  have us: "filter (\<lambda>x. acc_id x = rf_userId f \<and> acc_tenantId x = rf_tenantId f) (iw_users w) = [u]"
    by (rule filter_by_key [OF ids(2) u(1)]) (simp_all add: u(2,3))
  have ts: "filter (\<lambda>x. tna_id x = rf_tenantId f) (iw_tenants w) = [t]"
    by (rule filter_by_key [OF ids(1) t(1)]) (simp_all add: t(2))
  show ?thesis unfolding readRefresh_def concat_filter fs by (simp add: concat_filter rs us ts only_def)
qed

lemma reuse_revoked:
  assumes ok: "sessions_ok w" and f: "f \<in> set (iw_families w)" "rf_revoked f = None"
    and t: "t \<in> set (iw_tenants w)" "tna_id t = rf_tenantId f"
    and request: "requestId \<noteq> []" "hd requestId \<noteq> CHR '' ''" "last requestId \<noteq> CHR '' ''"
  shows "\<exists>w1 a. revoke_families (\<lambda>g. rf_id g = rf_id f) RvReuseDetected w = Inr (1, w1)
    \<and> insertRefreshReuseAudit (rf_tenantId f) (rf_userId f) requestId w1 = Inr (w1\<lparr>iw_audit := iw_audit w1 @ [a]\<rparr>)
    \<and> au_action a = ''user.login.refresh_reuse_detected''"
proof -
  have one: "filter (\<lambda>g. rf_id g = rf_id f \<and> live_family g) (iw_families w) = [f]"
    using filter_by_key [OF sessions_okD(1) [OF ok] f(1), of "\<lambda>g. rf_id g = rf_id f \<and> live_family g"] f(2)
    by (simp add: live_family_def)
  have "\<not> iw_now w < rf_createdAt g" if "g \<in> set (iw_families w)" for g
    using sessions_okD(4) [OF ok that] by (simp add: family_ok_def)
  then obtain w1 where rev: "revoke_families (\<lambda>g. rf_id g = rf_id f) RvReuseDetected w = Inr (1, w1)"
    by (auto simp: revoke_families_def Let_def one)
  have "iw_tenants w1 = iw_tenants w" using revoke_Inr [OF rev] by simp
  then show ?thesis using rev t request by (auto simp: insertRefreshReuseAudit_def insert_audit_def)
qed

lemma same_digest:
  "sessions_ok w \<Longrightarrow> t \<in> set (iw_tokens w) \<Longrightarrow> u \<in> set (iw_tokens w) \<Longrightarrow> rt_tokenDigest t = rt_tokenDigest u \<Longrightarrow> t = u"
  by (auto dest!: sessions_okD(3) simp: distinct_map inj_on_def)

text \<open>A refresh that issues counts.\<close>

lemma issued_families: "evaluateLockedRefresh sign input w = Inr (RefreshIssued issue, w') \<Longrightarrow> iw_families w' = iw_families w"
  by (auto simp: evaluateLockedRefresh_def rotateCurrent_def markUsedAndInsertChild_def mark_used_def Let_def bindR_eq_Inr
      dest!: insert_token_Inr split: if_splits option.splits)

lemma issued_counts:
  assumes ok: "sessions_ok w" and issued: "rotate_session sign input w = (Inr (RefreshIssued issue), w')"
    and row: "readRefresh (ri_familyId input) (ri_presentedDigest input) w = Some row"
    and toks: "iw_tokens w' = map (spend (rr_token row) (iw_now w)) (iw_tokens w) @ [child_token input row (iw_now w)]"
    and unused: "rt_usedAt (rr_token row) = None"
  shows "session_of w' (ri_familyId input) = OpenSession (Suc (spent_tokens w (ri_familyId input)))"
proof -
  have fam: "iw_families w' = iw_families w" using issued issued_families unfolding rotate_session_def transaction_Inr by blast
  have "spent_tokens w' (ri_familyId input) = Suc (spent_tokens w (ri_familyId input))"
    using spent_spend [OF ok readRefresh_Some(3) [OF row] unused, of "ri_familyId input" "iw_now w"] readRefresh_Some(4) [OF row]
    by (simp add: spent_tokens_def toks child_token_def)
  moreover obtain f where "family_of w (ri_familyId input) = Some f" "rf_revoked f = None"
    using refresh_needs_open [OF ok issued] by (auto simp: session_of_def split: option.splits)
  moreover have "family_of w' (ri_familyId input) = family_of w (ri_familyId input)" by (simp add: family_of_def fam)
  ultimately show ?thesis by (simp add: session_of_def)
qed

section \<open>Changes of a user\<close>

lemma password_closes:
  assumes "passwordTransaction input w = Inr (x, w')"
  shows "iw_families w' = map (close_if (of_user (pi_tenantId input) (pi_targetUserId input)) (iw_now w) RvPasswordReset) (iw_families w)
    \<and> iw_tokens w' = iw_tokens w"
proof -
  from assms obtain existed w1 n w2 a where "writeCredential input existed w = Inr w1"
    and r: "revoke_families (of_user (pi_tenantId input) (pi_targetUserId input)) RvPasswordReset w1 = Inr (n, w2)"
    and a: "insert_audit a w2 = Inr w'"
    by (auto simp: passwordTransaction_def Let_def bindR_eq_Inr audit_defs split: if_splits)
  then obtain ps where "w1 = w\<lparr>iw_passwords := ps\<rparr>" using writeCredential_Inr by blast
  with insert_audit_Inr [OF a] revoke_Inr [OF r] show ?thesis by simp
qed

lemma patch_closes:
  assumes b: "patchLocked tenantId userId expected changes w = Inr (PatchUpdated user, w')"
    and account: "lockUser tenantId userId w = Some account"
    and changed: "acc_role user \<noteq> acc_role account \<or> acc_isActive account \<and> \<not> acc_isActive user"
  shows "\<exists>reason. iw_families w' = map (close_if (of_user tenantId userId) (iw_now w) reason) (iw_families w) \<and> iw_tokens w' = iw_tokens w"
  using b
proof (cases rule: patchLocked_cases)
  case (2 account' w1)
  then have "familyRevocationReason account changes \<noteq> None"
    using changed account by (auto simp: familyRevocationReason_def patched_def)
  then show ?thesis using 2(5) 2(1) account write_user_frame(3) [OF 2(3)] by auto
qed simp

lemma activeAdmin_pos: "0 < activeAdminCount tenantId w \<longleftrightarrow> has_admin tenantId w"
  by (auto simp: activeAdminCount_def has_admin_def filter_empty_conv)

section \<open>A sample\<close>

text \<open>One tenant with two administrators, one of whom logs in and refreshes once.\<close>

definition sample_user :: user_account where
  "sample_user = \<lparr>acc_id = ''u'', acc_tenantId = ''t'', acc_email = ''a@b'', acc_name = ''A'', acc_role = TenantAdmin,
     acc_isActive = True, acc_createdAt = 0, acc_updatedAt = 0\<rparr>"

definition sample_colleague :: user_account where
  "sample_colleague = sample_user\<lparr>acc_id := ''v'', acc_email := ''c@b''\<rparr>"

definition sample_world :: identity_world where
  "sample_world = \<lparr>iw_tenants = [\<lparr>tna_id = ''t'', tna_isActive = True\<rparr>], iw_users = [sample_user, sample_colleague],
     iw_passwords = [\<lparr>pw_tenantId = ''t'', pw_userId = ''u'', pw_hash = ''h'', pw_changedAt = 0, pw_createdAt = 0\<rparr>],
     iw_keys = [], iw_families = [], iw_tokens = [], iw_audit = [], iw_now = 5\<rparr>"

definition sample_digest :: "char \<Rightarrow> string" where "sample_digest c = replicate 32 c"

definition sample_sign :: "access_claims \<Rightarrow> string result" where "sample_sign c = Inr ''jwt''"

definition sample_login :: login_issue_input where
  "sample_login = \<lparr>li_tenantId = ''t'', li_email = ''a@b'', li_expectedPasswordHash = ''h'', li_requestId = ''r'', li_familyId = ''f'',
     li_tokenId = ''k1'', li_tokenDigest = sample_digest (CHR ''1''), li_csrfDigest = sample_digest (CHR ''c''),
     li_refreshToken = ''x'', li_csrfToken = ''y'', li_accessLifetimeSeconds = 900\<rparr>"

definition sample_refresh :: "string \<Rightarrow> char \<Rightarrow> refresh_input" where
  "sample_refresh child d = \<lparr>ri_familyId = ''f'', ri_presentedDigest = sample_digest (CHR ''1''), ri_presentedCsrfDigest = sample_digest (CHR ''c''),
     ri_requestId = ''r'', ri_childId = child, ri_childTokenDigest = sample_digest d, ri_childCsrfDigest = sample_digest (CHR ''c''),
     ri_refreshToken = ''x'', ri_csrfToken = ''y'', ri_accessLifetimeSeconds = 900\<rparr>"

definition sample_family :: refresh_family where
  "sample_family = new_family sample_login sample_user 5"

definition sample_root :: refresh_token where
  "sample_root = root_token sample_login 5"

definition sample_tenant :: tenant_account where "sample_tenant = \<lparr>tna_id = ''t'', tna_isActive = True\<rparr>"

definition sample_password :: password_input where
  "sample_password = \<lparr>pi_tenantId = ''t'', pi_actorUserId = ''v'', pi_targetUserId = ''u'', pi_requestId = ''r'',
     pi_passwordHash = ''$argon2id$v=19$x''\<rparr>"

definition sample_leave :: user_patch_changes where
  "sample_leave = \<lparr>up_email = None, up_name = None, up_role = None, up_isActive = Some False\<rparr>"

text \<open>After the login, and after a refresh.\<close>

abbreviation sample_session :: identity_world where
  "sample_session \<equiv> run_events sample_sign [EvLogin sample_login] sample_world"

abbreviation sample_refreshed :: identity_world where
  "sample_refreshed \<equiv> run_events sample_sign [EvLogin sample_login, EvRefresh (sample_refresh ''k2'' (CHR ''2''))] sample_world"

lemma sample_start:
  "no_sessions sample_world" "distinct (map tna_id (iw_tenants sample_world))" "distinct (map acc_id (iw_users sample_world))"
  "0 < activeAdminCount ''t'' sample_world"
  by code_simp+

lemma sample_in_session:
  "sample_family \<in> set (iw_families sample_session)" "lockUser ''t'' ''u'' sample_session = Some sample_user"
  by code_simp+

lemma sample_in_refreshed:
  "sample_family \<in> set (iw_families sample_refreshed)" "sample_root\<lparr>rt_usedAt := Some 5\<rparr> \<in> set (iw_tokens sample_refreshed)"
  "sample_user \<in> set (iw_users sample_refreshed)" "sample_tenant \<in> set (iw_tenants sample_refreshed)"
  "spent_tokens sample_refreshed ''f'' = 1"
  by code_simp+

lemma session_sample_fields:
  "rf_revoked sample_family = None" "rf_id sample_family = ''f''" "rf_tenantId sample_family = ''t''" "rf_userId sample_family = ''u''"
  "rt_familyId (sample_root\<lparr>rt_usedAt := Some 5\<rparr>) = ''f''" "rt_usedAt (sample_root\<lparr>rt_usedAt := Some 5\<rparr>) \<noteq> None"
  "ri_familyId (sample_refresh k d) = ''f''" "ri_presentedDigest (sample_refresh k d) = rt_tokenDigest (sample_root\<lparr>rt_usedAt := Some 5\<rparr>)"
  "ri_presentedCsrfDigest (sample_refresh k d) = rt_csrfDigest (sample_root\<lparr>rt_usedAt := Some 5\<rparr>)" "ri_requestId (sample_refresh k d) = ''r''"
  "acc_id sample_user = ''u''" "acc_tenantId sample_user = ''t''" "acc_isActive sample_user"
  "tna_id sample_tenant = ''t''" "tna_isActive sample_tenant"
  by (simp_all add: sample_family_def sample_root_def sample_refresh_def sample_user_def sample_tenant_def new_family_def root_token_def sample_login_def)

lemma issues_eq: "(case fst p of Inr (RefreshIssued _) \<Rightarrow> True | _ \<Rightarrow> False) \<Longrightarrow> \<exists>issue. p = (Inr (RefreshIssued issue), snd p)"
  by (cases p) (auto split: sum.splits refresh_result.splits)

lemma sample_issued:
  "\<exists>issue. rotate_session sample_sign (sample_refresh ''k2'' (CHR ''2'')) sample_session
     = (Inr (RefreshIssued issue), snd (rotate_session sample_sign (sample_refresh ''k2'' (CHR ''2'')) sample_session))"
  by (rule issues_eq) code_simp

lemma sample_password_set:
  "set_password sample_password sample_session = (Inr (), snd (set_password sample_password sample_session))"
proof -
  have "case fst (set_password sample_password sample_session) of Inr _ \<Rightarrow> True | _ \<Rightarrow> False" by code_simp
  then show ?thesis by (cases "set_password sample_password sample_session") (auto split: sum.splits)
qed

lemma sample_left:
  "fst (patch_user ''t'' ''u'' (micros_text 0) sample_leave sample_session) = Inr (PatchUpdated (patched sample_user sample_leave 5))"
  by code_simp

section \<open>Properties\<close>

text \<open>
  In every state the identity tables can reach, whatever logins, refreshes, logouts, password and user
  changes have run and however they failed, the sessions are consistent: ids and digests are unique,
  every family of an existing user lives thirty days and has exactly one unspent token, and every other
  token is spent; no token outlives its family or seven days, and each but the first follows a spent one.
\<close>

theorem sessions_consistent:
  assumes "no_sessions w"
  shows "sessions_ok (run_events sign es w)"
  using start_ok [OF assms] by (rule run_ok)

theorem sessions_consistent_witness:
  "sessions_ok sample_refreshed"
  by (rule sessions_consistent [OF sample_start(1)])

text \<open>
  C3: Sessions refine the abstract session: in every reachable state, each event, seen through any family id,
  leaves the session as it is, starts it, counts one more refresh, or closes it; a closed one stays closed.
\<close>

theorem sessions_life_cycle:
  assumes "no_sessions w"
  shows "session_step (session_of (run_events sign es w) i) (session_of (run_events sign (es @ [e]) w) i)"
  using run_session [OF run_ok [OF start_ok [OF assms]]] by simp

theorem sessions_life_cycle_witness:
  "session_step (session_of sample_session ''f'')
     (session_of (run_events sample_sign ([EvLogin sample_login] @ [EvRefresh (sample_refresh ''k2'' (CHR ''2''))]) sample_world) ''f'')"
  by (rule sessions_life_cycle [OF sample_start(1)])

text \<open>
  C5: Replay detection: in a reachable state, presenting a spent refresh token of a live session of an active
  user, with its CSRF proof, is refused, closes the session for reuse and audits it; after that no sequence
  of events makes any token of the family good again.
\<close>

theorem replay_closes_session:
  assumes start: "no_sessions w0" "distinct (map tna_id (iw_tenants w0))" "distinct (map acc_id (iw_users w0))"
    and w: "w = run_events sign es w0"
    and f: "f \<in> set (iw_families w)" "rf_revoked f = None" "ri_familyId input = rf_id f"
    and r: "r \<in> set (iw_tokens w)" "rt_familyId r = rf_id f" "rt_usedAt r \<noteq> None"
    and proof_of_r: "ri_presentedDigest input = rt_tokenDigest r" "ri_presentedCsrfDigest input = rt_csrfDigest r"
    and u: "u \<in> set (iw_users w)" "acc_id u = rf_userId f" "acc_tenantId u = rf_tenantId f" "acc_isActive u"
    and t: "t \<in> set (iw_tenants w)" "tna_id t = rf_tenantId f" "tna_isActive t"
    and request: "ri_requestId input \<noteq> []" "hd (ri_requestId input) \<noteq> CHR '' ''" "last (ri_requestId input) \<noteq> CHR '' ''"
  shows "\<exists>w'. rotate_session sign input w = (Inr RefreshInvalid, w')
    \<and> session_of w' (rf_id f) = ClosedSession (spent_tokens w (rf_id f)) RvReuseDetected
    \<and> length (iw_audit w') = Suc (length (iw_audit w)) \<and> au_action (last (iw_audit w')) = ''user.login.refresh_reuse_detected''
    \<and> never_issues sign (rf_id f) w'"
proof -
  have ok: "sessions_ok w" unfolding w by (rule run_ok [OF start_ok [OF start(1)]])
  have ids: "distinct (map tna_id (iw_tenants w))" "distinct (map acc_id (iw_users w))"
    using run_grows [of w0 sign es] start(2,3) by (simp_all add: grows_def w)
  obtain w1 a where rev: "revoke_families (\<lambda>g. rf_id g = rf_id f) RvReuseDetected w = Inr (1, w1)"
      and aud: "insertRefreshReuseAudit (rf_tenantId f) (rf_userId f) (ri_requestId input) w1 = Inr (w1\<lparr>iw_audit := iw_audit w1 @ [a]\<rparr>)"
      and a: "au_action a = ''user.login.refresh_reuse_detected''"
    using reuse_revoked [OF ok f(1,2) _ _ request] t by blast
  let ?w' = "w1\<lparr>iw_audit := iw_audit w1 @ [a]\<rparr>"
  have body: "evaluateLockedRefresh sign input w = Inr (RefreshInvalid, ?w')"
    unfolding evaluateLockedRefresh_def f(3) proof_of_r readRefresh_exact [OF ok ids f(1) r(1,2) u(1-3) t(1,2)]
    using f(2) r(3) u(4) t(3) filter_by_key [OF sessions_okD(1) [OF ok] f(1), of "\<lambda>g. rf_id g = rf_id f"]
    by (simp add: revokeReuse_def rev aud safeDigestEqual_def)
  then have run: "rotate_session sign input w = (Inr RefreshInvalid, ?w')" by (simp add: rotate_session_def transaction_Inr)
  from revoke_Inr [OF rev] have "session_of ?w' (rf_id f) = ClosedSession (spent_tokens w (rf_id f)) RvReuseDetected"
    using ended_session [OF ok f(1), of "\<lambda>g. rf_id g = rf_id f" ?w' RvReuseDetected] f(2) by (simp add: live_family_def)
  moreover have "sessions_ok ?w'" using effect_ok [OF refresh_effect ok, of sign input] run by simp
  ultimately show ?thesis using run a revoke_Inr [OF rev] closed_never_issues by (intro exI [of _ ?w']) simp
qed

theorem replay_closes_session_witness:
  "\<exists>w'. rotate_session sample_sign (sample_refresh ''k3'' (CHR ''3'')) sample_refreshed = (Inr RefreshInvalid, w')
     \<and> session_of w' ''f'' = ClosedSession 1 RvReuseDetected"
  using replay_closes_session [OF sample_start(1-3) refl sample_in_refreshed(1) session_sample_fields(1), of "sample_refresh ''k3'' (CHR ''3'')",
      OF _ sample_in_refreshed(2) _ _ _ _ sample_in_refreshed(3) _ _ _ sample_in_refreshed(4)] sample_in_refreshed(5)
  by (simp add: session_sample_fields) blast

text \<open>
  C19: A refresh token is good for one use: a refresh that issues has found the digest at an unspent, unexpired
  token of a live family with a matching CSRF digest, counts as one more refresh of the session, and no
  refresh that presents the same digest ever issues again, whatever family it names and whatever runs between.
\<close>

theorem refresh_single_use:
  assumes start: "no_sessions w0" and w: "w = run_events sign es w0"
    and issued: "rotate_session sign input w = (Inr (RefreshIssued issue), w')"
  shows "(\<exists>f r. f \<in> set (iw_families w) \<and> rf_id f = ri_familyId input \<and> rf_revoked f = None \<and> iw_now w < rf_absoluteExpiresAt f
      \<and> r \<in> set (iw_tokens w) \<and> rt_familyId r = rf_id f \<and> rt_tokenDigest r = ri_presentedDigest input
      \<and> rt_csrfDigest r = ri_presentedCsrfDigest input \<and> rt_usedAt r = None \<and> iw_now w < rt_idleExpiresAt r)
    \<and> session_of w' (ri_familyId input) = OpenSession (Suc (spent_tokens w (ri_familyId input)))
    \<and> (\<forall>es' input' issue'. ri_presentedDigest input' = ri_presentedDigest input \<longrightarrow>
         fst (rotate_session sign input' (run_events sign es' w')) \<noteq> Inr (RefreshIssued issue'))"
proof -
  have ok: "sessions_ok w" unfolding w by (rule run_ok [OF start_ok [OF start]])
  then have ok': "sessions_ok w'" using effect_ok [OF refresh_effect ok, of sign input] issued by simp
  obtain row where row: "readRefresh (ri_familyId input) (ri_presentedDigest input) w = Some row"
    and checks: "rt_csrfDigest (rr_token row) = ri_presentedCsrfDigest input" "rf_revoked (rr_family row) = None"
      "rt_usedAt (rr_token row) = None" "iw_now w < rt_idleExpiresAt (rr_token row)" "iw_now w < rf_absoluteExpiresAt (rr_family row)"
    and toks: "iw_tokens w' = map (spend (rr_token row) (iw_now w)) (iw_tokens w) @ [child_token input row (iw_now w)]"
    using issued by (rule refresh_issued)
  note r = readRefresh_Some [OF row]
  let ?r = "(rr_token row)\<lparr>rt_usedAt := Some (iw_now w)\<rparr>"
  have spent: "?r \<in> set (iw_tokens w')" using r(3) checks(3) unfolding toks by (auto simp: image_iff intro!: bexI [of _ "rr_token row"])
  have never: "fst (rotate_session sign input' (run_events sign es' w')) \<noteq> Inr (RefreshIssued issue')"
    if d: "ri_presentedDigest input' = ri_presentedDigest input" for es' input' issue'
  proof
    let ?v = "run_events sign es' w'"
    assume "fst (rotate_session sign input' ?v) = Inr (RefreshIssued issue')"
    then have "rotate_session sign input' ?v = (Inr (RefreshIssued issue'), snd (rotate_session sign input' ?v))" by (simp add: prod_eq_iff)
    then obtain row' where row': "readRefresh (ri_familyId input') (ri_presentedDigest input') ?v = Some row'"
      and unused: "rt_usedAt (rr_token row') = None" by (rule refresh_issued)
    have "rr_token row' = ?r"
      using same_digest [OF run_ok [OF ok'] readRefresh_Some(3) [OF row'] spent_stays [OF spent]] readRefresh_Some(6) [OF row'] r(6) d by simp
    with unused show False by simp
  qed
  have open': "session_of w' (ri_familyId input) = OpenSession (Suc (spent_tokens w (ri_familyId input)))"
    using issued_counts [OF ok issued row toks checks(3)] .
  have found: "\<exists>f r. f \<in> set (iw_families w) \<and> rf_id f = ri_familyId input \<and> rf_revoked f = None \<and> iw_now w < rf_absoluteExpiresAt f
      \<and> r \<in> set (iw_tokens w) \<and> rt_familyId r = rf_id f \<and> rt_tokenDigest r = ri_presentedDigest input
      \<and> rt_csrfDigest r = ri_presentedCsrfDigest input \<and> rt_usedAt r = None \<and> iw_now w < rt_idleExpiresAt r"
    by (rule exI [of _ "rr_family row"], rule exI [of _ "rr_token row"]) (simp add: r checks)
  show ?thesis by (intro conjI allI impI) (fact found, fact open', erule never)
qed

theorem refresh_single_use_witness:
  "\<not> (\<exists>issue. fst (rotate_session sample_sign (sample_refresh ''k3'' (CHR ''3'')) (run_events sample_sign [EvTick 7]
      (snd (rotate_session sample_sign (sample_refresh ''k2'' (CHR ''2'')) sample_session)))) = Inr (RefreshIssued issue))"
proof -
  obtain issue where "rotate_session sample_sign (sample_refresh ''k2'' (CHR ''2'')) sample_session
     = (Inr (RefreshIssued issue), snd (rotate_session sample_sign (sample_refresh ''k2'' (CHR ''2'')) sample_session))"
    using sample_issued by blast
  note once = refresh_single_use [OF sample_start(1) refl this, THEN conjunct2, THEN conjunct2, rule_format]
  have "ri_presentedDigest (sample_refresh ''k3'' (CHR ''3'')) = ri_presentedDigest (sample_refresh ''k2'' (CHR ''2''))"
    by (simp add: sample_refresh_def)
  from once [OF this] show ?thesis by blast
qed

text \<open>
  Setting a user's password closes, for ever, every session the user had: in a reachable state, when the
  transaction succeeds, each of the user's families is closed and no refresh of it issues again.
\<close>

theorem password_reset_closes_sessions:
  assumes start: "no_sessions w0" and w: "w = run_events sign es w0"
    and set: "set_password input w = (Inr (), w')"
    and f: "f \<in> set (iw_families w)" "rf_tenantId f = pi_tenantId input" "rf_userId f = pi_targetUserId input"
  shows "(\<exists>rs. session_of w' (rf_id f) = ClosedSession (spent_tokens w (rf_id f)) rs \<and> (rf_revoked f = None \<longrightarrow> rs = RvPasswordReset))
    \<and> never_issues sign (rf_id f) w'"
proof -
  have ok: "sessions_ok w" unfolding w by (rule run_ok [OF start_ok [OF start]])
  have b: "passwordTransaction input w = Inr ((), w')" using set unfolding set_password_def transaction_Inr .
  have w': "iw_families w' = map (close_if (of_user (pi_tenantId input) (pi_targetUserId input)) (iw_now w) RvPasswordReset) (iw_families w)"
    "iw_tokens w' = iw_tokens w"
    using password_closes [OF b] by simp_all
  obtain rs where rs: "session_of w' (rf_id f) = ClosedSession (spent_tokens w (rf_id f)) rs" "live_family f \<longrightarrow> rs = RvPasswordReset"
    using ended_session [OF ok f(1) _ w'] f(2,3) by (auto simp: of_user_def)
  moreover have "sessions_ok w'" using effect_ok [OF password_effect ok, of input] set by simp
  ultimately show ?thesis using closed_never_issues by (auto simp: live_family_def)
qed

theorem password_reset_closes_sessions_witness:
  "\<exists>rs. session_of (snd (set_password sample_password sample_session)) ''f'' = ClosedSession (spent_tokens sample_session ''f'') rs"
  using password_reset_closes_sessions [OF sample_start(1) refl sample_password_set sample_in_session(1)]
  by (auto simp: sample_password_def session_sample_fields)

text \<open>
  A patch that deactivates a user or changes the user's role closes, for ever, every session the user had.
\<close>

theorem access_change_closes_sessions:
  assumes start: "no_sessions w0" and w: "w = run_events sign es w0"
    and patch: "patch_user tenantId userId expected changes w = (Inr (PatchUpdated user), w')"
    and account: "lockUser tenantId userId w = Some account"
    and changed: "acc_role user \<noteq> acc_role account \<or> acc_isActive account \<and> \<not> acc_isActive user"
    and f: "f \<in> set (iw_families w)" "rf_tenantId f = tenantId" "rf_userId f = userId"
  shows "(\<exists>n rs. session_of w' (rf_id f) = ClosedSession n rs) \<and> never_issues sign (rf_id f) w'"
proof -
  have ok: "sessions_ok w" unfolding w by (rule run_ok [OF start_ok [OF start]])
  have b: "patchLocked tenantId userId expected changes w = Inr (PatchUpdated user, w')"
    using patch by (auto simp: patch_user_def withTenantTransaction_def split: if_splits sum.splits)
  obtain reason where w': "iw_families w' = map (close_if (of_user tenantId userId) (iw_now w) reason) (iw_families w)"
      "iw_tokens w' = iw_tokens w"
    using patch_closes [OF b account changed] by blast
  obtain n rs where "session_of w' (rf_id f) = ClosedSession n rs"
    using ended_session [OF ok f(1) _ w'] f(2,3) by (auto simp: of_user_def)
  moreover have "sessions_ok w'" using effect_ok [OF patch_effect ok, of tenantId userId expected changes] patch by simp
  ultimately show ?thesis using closed_never_issues by auto
qed

theorem access_change_closes_sessions_witness:
  "\<exists>n rs. session_of (snd (patch_user ''t'' ''u'' (micros_text 0) sample_leave sample_session)) ''f'' = ClosedSession n rs"
proof -
  have "patch_user ''t'' ''u'' (micros_text 0) sample_leave sample_session
      = (Inr (PatchUpdated (patched sample_user sample_leave 5)), snd (patch_user ''t'' ''u'' (micros_text 0) sample_leave sample_session))"
    using sample_left by (simp add: prod_eq_iff)
  from access_change_closes_sessions [OF sample_start(1) refl this sample_in_session(2) _ sample_in_session(1)] show ?thesis
    by (simp add: patched_def next_active_def sample_leave_def session_sample_fields)
qed

text \<open>
  C10: A tenant keeps an active administrator: from a state whose user ids are unique and where the tenant has
  one, no sequence of logins, refreshes, logouts, password settings, user creations and patches leaves it none.
\<close>

theorem last_admin_stays:
  assumes "distinct (map acc_id (iw_users w))" and "0 < activeAdminCount tenantId w"
  shows "0 < activeAdminCount tenantId (run_events sign es w)"
  using assms run_grows [of w sign es] unfolding grows_def activeAdmin_pos by blast

theorem last_admin_stays_witness:
  "0 < activeAdminCount ''t'' (run_events sample_sign [EvPatchUser ''t'' ''u'' (micros_text 0) sample_leave,
     EvPatchUser ''t'' ''v'' (micros_text 0) sample_leave] sample_world)"
  by (rule last_admin_stays [OF sample_start(3,4)])

end
