(* ===== verification/Authentication.thy ===== *)
theory Authentication
  imports Api_Keys
begin

text \<open>
  Who a request is: core/tenant/jwt-validation.ts checks the header and the claims of a token,
  auth-repository.ts finds the identity in the tables, auth-service.ts puts them together, and
  apps/api/plugins/auth.ts takes the credential from the request. The verification of a signature
  (@fastify/jwt) is the parameter \<open>verify\<close>: None when it throws, else the payload. \<open>number_value\<close> is the
  value of a number that is no integer, None when it is not finite; sums and differences of times
  in seconds are exact, as they are for doubles of that size. The clock of the process is in milliseconds.
\<close>

section \<open>Tokens\<close>

record jwt_policy =
  jp_issuer :: string
  jp_audience :: string
  jp_maxLifetimeSeconds :: int
  jp_clockToleranceSeconds :: int

record jwt_assertions =
  ja_userId :: string
  ja_tenantId :: string
  ja_role :: user_role

record cookie_assertions = jwt_assertions +
  ja_familyId :: string
  ja_csrfHash :: string

text \<open>\<open>/"typ"\s*:/gu\<close>: matches of the pattern do not overlap. On the bytes: a space outside ASCII after the
  quote is no JSON, and the header is refused either way.\<close>

definition key_at :: "string \<Rightarrow> string \<Rightarrow> bool" where
  "key_at k s =
     (let quoted = [CHR 0x22] @ k @ [CHR 0x22] in
      prefix quoted s \<and> (case dropWhile is_ws (drop (length quoted) s) of c # _ \<Rightarrow> c = CHR '':'' | [] \<Rightarrow> False))"

definition jsonKeyCount :: "string \<Rightarrow> string \<Rightarrow> nat" where
  "jsonKeyCount s k = length (filter (key_at k) (suffixes s))"

definition validateJwtProtectedHeader :: "(string \<Rightarrow> json option) \<Rightarrow> string \<Rightarrow> unit result" where
  "validateJwtProtectedHeader parse_bytes token =
     (case split_on (CHR ''.'') token of
        [encoded, s1, s2] \<Rightarrow>
          if \<exists>s\<in>set [encoded, s1, s2]. s = [] \<or> \<not> list_all cursor_letter s then Inl (authError AuthInvalid)
          else let decoded = base64url_bytes encoded in
            if base64url decoded \<noteq> encoded then Inl (authError AuthInvalid)
            else if jsonKeyCount decoded ''typ'' \<noteq> 1 \<or> jsonKeyCount decoded ''alg'' \<noteq> 1 then Inl (authError AuthInvalid)
            else (case parse_bytes decoded of
                Some (JObj kvs) \<Rightarrow>
                  if sort (object_keys kvs) \<noteq> [''alg'', ''typ''] then Inl (authError AuthInvalid)
                  else if json_prop kvs ''typ'' \<noteq> JStr ''JWT'' \<or> json_prop kvs ''alg'' \<noteq> JStr ''RS256'' then Inl (authError AuthInvalid)
                  else Inr ()
              | _ \<Rightarrow> Inl (authError AuthInvalid))
      | _ \<Rightarrow> Inl (authError AuthInvalid))"

definition isCanonicalUuid :: "json \<Rightarrow> string option" where
  "isCanonicalUuid v = (case v of JStr s \<Rightarrow> if lower_uuid s then Some s else None | _ \<Rightarrow> None)"

definition isCanonicalHash :: "json \<Rightarrow> string option" where
  "isCanonicalHash v = (case v of
       JStr s \<Rightarrow> if list_all cursor_letter s \<and> length s = 43 \<and> base64url (base64url_bytes s) = s then Some s else None
     | _ \<Rightarrow> None)"

definition numericDate :: "(string \<Rightarrow> rat option) \<Rightarrow> json \<Rightarrow> rat option" where
  "numericDate number_value v = (case v of JInt i \<Rightarrow> Some (of_int i) | JFloat s \<Rightarrow> number_value s | _ \<Rightarrow> None)"

text \<open>\<open>typeof payload.jti === 'string'\<close> and not blank.\<close>

definition blank_jti :: "json \<Rightarrow> bool" where
  "blank_jti v = (case v of JStr s \<Rightarrow> trim s = [] | _ \<Rightarrow> True)"

text \<open>Every failure of the checks is \<open>AUTH_INVALID\<close>, so their order shows nowhere.\<close>

definition claim_times_valid :: "jwt_policy \<Rightarrow> int \<Rightarrow> rat \<Rightarrow> rat \<Rightarrow> rat option \<Rightarrow> bool" where
  "claim_times_valid policy clock issuedAt expiresAt notBefore =
     (let now = of_int clock / 1000; tolerance = of_int (jp_clockToleranceSeconds policy) in
      \<not> (issuedAt > now + tolerance \<or> expiresAt < now - tolerance \<or> expiresAt \<le> issuedAt
         \<or> expiresAt - issuedAt > of_int (jp_maxLifetimeSeconds policy)
         \<or> (case notBefore of None \<Rightarrow> False | Some n \<Rightarrow> n > now + tolerance)))"

definition validateJwtClaims :: "(string \<Rightarrow> rat option) \<Rightarrow> json \<Rightarrow> jwt_policy \<Rightarrow> int \<Rightarrow> jwt_assertions result" where
  "validateJwtClaims number_value payload policy clock =
     (case payload of
        JObj kvs \<Rightarrow>
          if json_prop kvs ''iss'' \<noteq> JStr (jp_issuer policy) \<or> json_prop kvs ''aud'' \<noteq> JStr (jp_audience policy) then Inl (authError AuthInvalid)
          else if blank_jti (json_prop kvs ''jti'') then Inl (authError AuthInvalid)
          else (case (isCanonicalUuid (json_prop kvs ''sub''), isCanonicalUuid (json_prop kvs ''tenant_id''), isUserRole (json_prop kvs ''role''),
                 numericDate number_value (json_prop kvs ''iat''), numericDate number_value (json_prop kvs ''exp'')) of
              (Some userId, Some tenantId, Some role, Some issuedAt, Some expiresAt) \<Rightarrow>
                (let nbf = json_prop kvs ''nbf'' in
                 if nbf \<noteq> JUndefined \<and> numericDate number_value nbf = None then Inl (authError AuthInvalid)
                 else if \<not> claim_times_valid policy clock issuedAt expiresAt
                     (if nbf = JUndefined then None else numericDate number_value nbf) then Inl (authError AuthInvalid)
                 else Inr \<lparr>ja_userId = userId, ja_tenantId = tenantId, ja_role = role\<rparr>)
            | _ \<Rightarrow> Inl (authError AuthInvalid))
      | _ \<Rightarrow> Inl (authError AuthInvalid))"

definition validateCookieJwtClaims :: "(string \<Rightarrow> rat option) \<Rightarrow> json \<Rightarrow> jwt_policy \<Rightarrow> int \<Rightarrow> cookie_assertions result" where
  "validateCookieJwtClaims number_value payload policy clock =
     bindR (validateJwtClaims number_value payload policy clock) (\<lambda>a.
     case (isCanonicalUuid (property payload ''sid''), isCanonicalHash (property payload ''csrf_hash'')) of
       (Some familyId, Some csrfHash) \<Rightarrow>
         Inr \<lparr>ja_userId = ja_userId a, ja_tenantId = ja_tenantId a, ja_role = ja_role a, ja_familyId = familyId, ja_csrfHash = csrfHash\<rparr>
     | _ \<Rightarrow> Inl (authError AuthInvalid))"

section \<open>Identities\<close>

record api_key_identity =
  ki_apiKeyId :: string
  ki_tenantId :: string
  ki_tenantActive :: bool

record user_identity =
  ui_actorUserId :: string
  ui_tenantId :: string
  ui_role :: user_role
  ui_userActive :: bool
  ui_tenantActive :: bool

definition findApiKeyIdentity :: "string \<Rightarrow> identity_world \<Rightarrow> api_key_identity option" where
  "findApiKeyIdentity keyHash w =
     only [\<lparr>ki_apiKeyId = ak_id k, ki_tenantId = tna_id t, ki_tenantActive = tna_isActive t\<rparr>.
       k \<leftarrow> iw_keys w, ak_keyHash k = keyHash \<and> ak_revokedAt k = None,
       t \<leftarrow> iw_tenants w, tna_id t = ak_tenantId k]"

definition identity_row :: "user_account \<Rightarrow> tenant_account \<Rightarrow> user_identity" where
  "identity_row u t = \<lparr>ui_actorUserId = acc_id u, ui_tenantId = tna_id t, ui_role = acc_role u,
     ui_userActive = acc_isActive u, ui_tenantActive = tna_isActive t\<rparr>"

definition findUserIdentity :: "'x jwt_assertions_scheme \<Rightarrow> identity_world \<Rightarrow> user_identity option" where
  "findUserIdentity a w =
     only [identity_row u t.
       u \<leftarrow> iw_users w, acc_id u = ja_userId a \<and> acc_tenantId u = ja_tenantId a \<and> acc_role u = ja_role a,
       t \<leftarrow> iw_tenants w, tna_id t = ja_tenantId a]"

definition findCookieUserIdentity :: "cookie_assertions \<Rightarrow> identity_world \<Rightarrow> user_identity option" where
  "findCookieUserIdentity a w =
     only [identity_row u t.
       u \<leftarrow> iw_users w, acc_id u = ja_userId a \<and> acc_tenantId u = ja_tenantId a \<and> acc_role u = ja_role a,
       t \<leftarrow> iw_tenants w, tna_id t = ja_tenantId a,
       f \<leftarrow> iw_families w, rf_id f = ja_familyId a \<and> rf_tenantId f = acc_tenantId u \<and> rf_userId f = acc_id u
         \<and> live_family f \<and> iw_now w < rf_absoluteExpiresAt f]"

section \<open>Authentication\<close>

record jwt_runtime =
  jr_verify :: "string \<Rightarrow> json option"
  jr_policy :: jwt_policy
  jr_number_value :: "string \<Rightarrow> rat option"
  jr_parse_bytes :: "string \<Rightarrow> json option"
  jr_sha256 :: "string \<Rightarrow> string"
  jr_sha256_hex :: "string \<Rightarrow> string"

definition authenticateApiKey :: "jwt_runtime \<Rightarrow> string \<Rightarrow> string \<Rightarrow> identity_world \<Rightarrow> request_context result" where
  "authenticateApiKey runtime plaintext requestId w =
     bindR (hashApiKeyCredential (jr_sha256_hex runtime) plaintext) (\<lambda>keyHash.
     bindR (orElse (findApiKeyIdentity keyHash w) (authError AuthInvalid)) (\<lambda>identity.
     if \<not> ki_tenantActive identity then Inl (authError TenantInactive)
     else Inr (createApiKeyRequestContext (ki_tenantId identity) (ki_apiKeyId identity) requestId)))"

definition userContext :: "user_identity option \<Rightarrow> string \<Rightarrow> request_context result" where
  "userContext identity requestId =
     bindR (orElse identity (authError AuthInvalid)) (\<lambda>i.
     if \<not> ui_userActive i then Inl (authError UserInactive)
     else if \<not> ui_tenantActive i then Inl (authError TenantInactive)
     else Inr (createUserRequestContext (ui_tenantId i) (ui_actorUserId i) (ui_role i) requestId))"

definition verified_payload :: "jwt_runtime \<Rightarrow> string \<Rightarrow> json result" where
  "verified_payload runtime token =
     bindR (validateJwtProtectedHeader (jr_parse_bytes runtime) token) (\<lambda>_.
     orElse (jr_verify runtime token) (authError AuthInvalid))"

definition authenticateBearer :: "jwt_runtime \<Rightarrow> string \<Rightarrow> string \<Rightarrow> int \<Rightarrow> identity_world \<Rightarrow> request_context result" where
  "authenticateBearer runtime token requestId clock w =
     bindR (verified_payload runtime token) (\<lambda>payload.
     bindR (validateJwtClaims (jr_number_value runtime) payload (jr_policy runtime) clock) (\<lambda>a.
     userContext (findUserIdentity a w) requestId))"

definition authenticateCookie :: "jwt_runtime \<Rightarrow> string \<Rightarrow> string \<Rightarrow> access_cookie_proof option \<Rightarrow> int \<Rightarrow> identity_world \<Rightarrow> request_context result" where
  "authenticateCookie runtime token requestId accessProof clock w =
     bindR (verified_payload runtime token) (\<lambda>payload.
     bindR (validateCookieJwtClaims (jr_number_value runtime) payload (jr_policy runtime) clock) (\<lambda>a.
     bindR (orElse accessProof (authError CsrfInvalid)) (\<lambda>p.
     bindR (assertAccessCookieProof (jr_sha256 runtime) p (ja_csrfHash a)) (\<lambda>_.
     userContext (findCookieUserIdentity a w) requestId))))"

definition authenticate :: "jwt_runtime \<Rightarrow> credential \<Rightarrow> string \<Rightarrow> access_cookie_proof option \<Rightarrow> int \<Rightarrow> identity_world \<Rightarrow> request_context result" where
  "authenticate runtime presented requestId accessProof clock w =
     (case presented of
        ApiKeyCredential k \<Rightarrow> authenticateApiKey runtime k requestId w
      | JwtCredential t \<Rightarrow> authenticateBearer runtime t requestId clock w
      | AccessCookie t \<Rightarrow> authenticateCookie runtime t requestId accessProof clock w)"

section \<open>The request\<close>

record http_call =
  hc_method :: string
  hc_headers :: headers
  hc_cookies :: "(string \<times> string) list"
  hc_body :: json
  hc_id :: string

record cookie_policy =
  ck_publicOrigin :: string
  ck_accessName :: string
  ck_csrfName :: string

text \<open>\<open>/^application\/x-www-form-urlencoded(?:\s*;|$)/iu\<close>.\<close>

definition isFormContentType :: "header_value option \<Rightarrow> bool" where
  "isFormContentType v =
     (case v of
        Some (One s) \<Rightarrow>
          let t = ''application/x-www-form-urlencoded''; rest = drop (length t) s in
          map lower_ascii (take (length t) s) = t
          \<and> (rest = [] \<or> (case dropWhile is_ws rest of c # _ \<Rightarrow> c = CHR '';'' | [] \<Rightarrow> False))
      | _ \<Rightarrow> False)"

definition formCsrfHeaders :: "headers \<Rightarrow> json \<Rightarrow> headers" where
  "formCsrfHeaders hs body =
     (if map_of hs ''x-csrf-token'' \<noteq> None \<or> \<not> isFormContentType (map_of hs ''content-type'') then hs
      else case body of
          JObj kvs \<Rightarrow> (case json_prop kvs ''_csrf'' of JStr s \<Rightarrow> (''x-csrf-token'', One s) # hs | _ \<Rightarrow> hs)
        | _ \<Rightarrow> hs)"

definition raw_cookie :: "headers \<Rightarrow> string option" where
  "raw_cookie hs = (case map_of hs ''cookie'' of Some (One s) \<Rightarrow> Some s | _ \<Rightarrow> None)"

definition cookieCsrf :: "http_call \<Rightarrow> cookie_policy \<Rightarrow> credential \<Rightarrow> string option result" where
  "cookieCsrf call policy presented =
     (case presented of
        AccessCookie _ \<Rightarrow> assertCanonicalCookie (raw_cookie (hc_headers call)) (ck_csrfName policy)
          (map_of (hc_cookies call) (ck_csrfName policy)) CsrfInvalid
      | _ \<Rightarrow> Inr None)"

definition authenticate_call :: "jwt_runtime \<Rightarrow> cookie_policy \<Rightarrow> http_call \<Rightarrow> int \<Rightarrow> identity_world \<Rightarrow> request_context result" where
  "authenticate_call runtime policy call clock w =
     bindR (assertCanonicalCookie (raw_cookie (hc_headers call)) (ck_accessName policy)
       (map_of (hc_cookies call) (ck_accessName policy)) AuthInvalid) (\<lambda>access.
     bindR (selectRequestCredential (hc_headers call) access) (\<lambda>presented.
     bindR (cookieCsrf call policy presented) (\<lambda>csrf.
     authenticate runtime presented (hc_id call) (Some \<lparr>pf_method = hc_method call,
       pf_headers = formCsrfHeaders (hc_headers call) (hc_body call), pf_csrfCookie = csrf,
       pf_expectedOrigin = ck_publicOrigin policy\<rparr>) clock w)))"

section \<open>Sessions in requests and answers\<close>

record login_input =
  lg_tenantId :: string
  lg_email :: string
  lg_password :: string

definition invalid_session_request :: js_error where
  "invalid_session_request = AppError ''VALIDATION_ERROR'' ''Session request is invalid.'' 400"

definition parseLoginInput :: "json \<Rightarrow> login_input result" where
  "parseLoginInput input =
     (case input of
        JObj kvs \<Rightarrow>
          if sort (object_keys kvs) \<noteq> [''email'', ''password'', ''tenant_id''] then Inl invalid_session_request
          else (case bindR (bindR (string_input (json_prop kvs ''tenant_id'')) parseUserId) (\<lambda>tenantId.
                bindR (bindR (string_input (json_prop kvs ''email'')) normalizeUserEmail) (\<lambda>email.
                bindR (normalizePassword (json_prop kvs ''password'')) (\<lambda>password.
                Inr \<lparr>lg_tenantId = tenantId, lg_email = email, lg_password = password\<rparr>))) of
              Inl _ \<Rightarrow> Inl invalid_session_request
            | Inr x \<Rightarrow> Inr x)
      | _ \<Rightarrow> Inl invalid_session_request)"

record session_cookie =
  sc_name :: string
  sc_value :: string
  sc_httpOnly :: bool
  sc_maxAge :: int

text \<open>\<open>Math.max(0, Math.floor((Date.parse(timestamp) - now) / 1000))\<close> of a time stamp that parses; every cookie has the path \<open>/\<close> and is strict.\<close>

definition remainingSeconds :: "(string \<Rightarrow> int option) \<Rightarrow> string \<Rightarrow> int \<Rightarrow> int" where
  "remainingSeconds date_parse timestamp now =
     (case date_parse timestamp of None \<Rightarrow> 0 | Some t \<Rightarrow> max 0 ((t - now) div 1000))"

definition setSessionCookies :: "(string \<Rightarrow> int option) \<Rightarrow> string \<Rightarrow> string \<Rightarrow> string \<Rightarrow> session_issue \<Rightarrow> int \<Rightarrow> session_cookie list" where
  "setSessionCookies date_parse accessName refreshName csrfName issue now =
     (let accessMaxAge = remainingSeconds date_parse (sm_access_expires_at (si_session issue)) now;
          refreshMaxAge = min (remainingSeconds date_parse (sm_refresh_idle_expires_at (si_session issue)) now)
            (remainingSeconds date_parse (sm_refresh_absolute_expires_at (si_session issue)) now) in
      [\<lparr>sc_name = accessName, sc_value = si_accessToken issue, sc_httpOnly = True, sc_maxAge = accessMaxAge\<rparr>,
       \<lparr>sc_name = refreshName, sc_value = si_refreshToken issue, sc_httpOnly = True, sc_maxAge = refreshMaxAge\<rparr>,
       \<lparr>sc_name = csrfName, sc_value = si_csrfToken issue, sc_httpOnly = False, sc_maxAge = refreshMaxAge\<rparr>])"

end
