(* ===== verification/Authentication_Claims.thy ===== *)
theory Authentication_Claims
  imports Session_Claims Authentication
begin

text \<open>
  What authentication promises over the reachable states of the identity tables: who is let in is active
  and has the role the table says, a closed session's cookie is refused for ever, and a rotated API key
  stops working while its replacement starts.
\<close>

section \<open>Sessions and cookies\<close>

text \<open>The cookies a session handed out, whatever their claims otherwise are.\<close>

definition cookie_of :: "jwt_runtime \<Rightarrow> string \<Rightarrow> string \<Rightarrow> bool" where
  "cookie_of runtime i token = (\<exists>payload. jr_verify runtime token = Some payload \<and> property payload ''sid'' = JStr i)"

lemma userContext_Inr:
  "userContext identity requestId = Inr c \<longleftrightarrow>
     (\<exists>i. identity = Some i \<and> ui_userActive i \<and> ui_tenantActive i
        \<and> c = createUserRequestContext (ui_tenantId i) (ui_actorUserId i) (ui_role i) requestId)"
  by (auto simp: userContext_def bindR_eq_Inr)

lemma isUserRole_Some: "isUserRole v = Some r \<Longrightarrow> v = JStr (role_text r)"
  by (auto simp: isUserRole_def find_Some_iff split: json.splits)

lemma isCanonicalUuid_Some: "isCanonicalUuid v = Some x \<Longrightarrow> v = JStr x"
  by (auto simp: isCanonicalUuid_def split: json.splits if_splits)

lemma isCanonicalHash_Some: "isCanonicalHash v = Some x \<Longrightarrow> v = JStr x \<and> list_all cursor_letter x"
  by (auto simp: isCanonicalHash_def split: json.splits if_splits)

text \<open>What the claims of an accepted token say.\<close>

lemma validateJwtClaims_Inr:
  assumes "validateJwtClaims nv payload policy clock = Inr a"
  shows "property payload ''iss'' = JStr (jp_issuer policy)" and "property payload ''aud'' = JStr (jp_audience policy)"
    and "property payload ''sub'' = JStr (ja_userId a)" and "property payload ''tenant_id'' = JStr (ja_tenantId a)"
    and "property payload ''role'' = JStr (role_text (ja_role a))"
    and "\<exists>iat exp. numericDate nv (property payload ''iat'') = Some iat \<and> numericDate nv (property payload ''exp'') = Some exp
      \<and> iat \<le> of_int clock / 1000 + of_int (jp_clockToleranceSeconds policy)
      \<and> of_int clock / 1000 - of_int (jp_clockToleranceSeconds policy) \<le> exp
      \<and> exp - iat \<le> of_int (jp_maxLifetimeSeconds policy)"
  using assms
  by (auto simp: validateJwtClaims_def property_def claim_times_valid_def Let_def not_less
      dest!: isUserRole_Some isCanonicalUuid_Some split: json.splits if_splits option.splits)

lemma validateCookieJwtClaims_Inr:
  assumes "validateCookieJwtClaims nv payload policy clock = Inr a"
  shows "\<exists>b. validateJwtClaims nv payload policy clock = Inr b \<and> ja_userId b = ja_userId a \<and> ja_tenantId b = ja_tenantId a \<and> ja_role b = ja_role a"
    and "property payload ''sid'' = JStr (ja_familyId a)" and "property payload ''csrf_hash'' = JStr (ja_csrfHash a)"
    and "list_all cursor_letter (ja_csrfHash a)"
proof -
  from assms obtain b f h where b: "validateJwtClaims nv payload policy clock = Inr b"
      and f: "isCanonicalUuid (property payload ''sid'') = Some f" and h: "isCanonicalHash (property payload ''csrf_hash'') = Some h"
      and a: "\<lparr>ja_userId = ja_userId b, ja_tenantId = ja_tenantId b, ja_role = ja_role b, ja_familyId = f, ja_csrfHash = h\<rparr> = a"
    unfolding validateCookieJwtClaims_def bindR_eq_Inr
    by (cases "isCanonicalUuid (property payload ''sid'')"; cases "isCanonicalHash (property payload ''csrf_hash'')") auto
  from a b isCanonicalUuid_Some [OF f] isCanonicalHash_Some [OF h]
  show "\<exists>b. validateJwtClaims nv payload policy clock = Inr b \<and> ja_userId b = ja_userId a \<and> ja_tenantId b = ja_tenantId a \<and> ja_role b = ja_role a"
    and "property payload ''sid'' = JStr (ja_familyId a)" and "property payload ''csrf_hash'' = JStr (ja_csrfHash a)"
    and "list_all cursor_letter (ja_csrfHash a)" by auto
qed

lemma cookie_claims_sid:
  "validateCookieJwtClaims nv payload policy clock = Inr a \<Longrightarrow> property payload ''sid'' = JStr (ja_familyId a)"
  by (rule validateCookieJwtClaims_Inr)

lemma findCookie_Some:
  assumes "findCookieUserIdentity a w = Some i"
  obtains u t f where "u \<in> set (iw_users w)" "t \<in> set (iw_tenants w)" "f \<in> set (iw_families w)" "i = identity_row u t"
    "tna_id t = acc_tenantId u" "acc_role u = ja_role a" "acc_id u = ja_userId a" "acc_tenantId u = ja_tenantId a"
    "rf_id f = ja_familyId a" "rf_tenantId f = acc_tenantId u" "rf_userId f = acc_id u"
    "live_family f" "iw_now w < rf_absoluteExpiresAt f"
proof -
  from only_mem [OF assms [unfolded findCookieUserIdentity_def]] obtain u t f
    where "u \<in> set (iw_users w)" "t \<in> set (iw_tenants w)" "f \<in> set (iw_families w)" "i = identity_row u t"
      "tna_id t = ja_tenantId a" "acc_tenantId u = ja_tenantId a" "acc_role u = ja_role a" "acc_id u = ja_userId a"
      "rf_id f = ja_familyId a" "rf_tenantId f = ja_tenantId a" "rf_userId f = ja_userId a" "live_family f" "iw_now w < rf_absoluteExpiresAt f"
    by (auto split: if_splits)
  then show thesis by (intro that [of u t f]) simp_all
qed

lemma findUser_Some:
  assumes "findUserIdentity a w = Some i"
  obtains u t where "u \<in> set (iw_users w)" "t \<in> set (iw_tenants w)" "i = identity_row u t" "tna_id t = acc_tenantId u" "acc_role u = ja_role a"
    "acc_id u = ja_userId a" "acc_tenantId u = ja_tenantId a"
  using only_mem [OF assms [unfolded findUserIdentity_def]] by auto

lemma findApiKey_Some:
  assumes "findApiKeyIdentity h w = Some i"
  obtains k t where "k \<in> set (iw_keys w)" "t \<in> set (iw_tenants w)" "ak_keyHash k = h" "ak_revokedAt k = None" "tna_id t = ak_tenantId k"
    "i = \<lparr>ki_apiKeyId = ak_id k, ki_tenantId = tna_id t, ki_tenantActive = tna_isActive t\<rparr>"
  using only_mem [OF assms [unfolded findApiKeyIdentity_def]] by auto

lemma cookie_needs_live:
  assumes "authenticateCookie runtime token requestId accessProof clock w = Inr c" and "cookie_of runtime i token"
  obtains f where "f \<in> set (iw_families w)" "rf_id f = i" "live_family f" "iw_now w < rf_absoluteExpiresAt f"
    "ctx_tenantId c = rf_tenantId f" "ctx_actorUserId c = Some (rf_userId f)"
proof -
  from assms(1) obtain payload a where p: "jr_verify runtime token = Some payload"
    and v: "validateCookieJwtClaims (jr_number_value runtime) payload (jr_policy runtime) clock = Inr a"
    and uc: "userContext (findCookieUserIdentity a w) requestId = Inr c"
    by (auto simp: authenticateCookie_def verified_payload_def bindR_eq_Inr)
  then obtain idn where f: "findCookieUserIdentity a w = Some idn"
    and c: "c = createUserRequestContext (ui_tenantId idn) (ui_actorUserId idn) (ui_role idn) requestId"
    by (auto simp: userContext_Inr)
  have i: "ja_familyId a = i" using cookie_claims_sid [OF v] assms(2) p by (simp add: cookie_of_def)
  from f show thesis
  proof (rule findCookie_Some)
    fix u t g
    assume "g \<in> set (iw_families w)" "idn = identity_row u t" "tna_id t = acc_tenantId u" "rf_id g = ja_familyId a"
      "rf_tenantId g = acc_tenantId u" "rf_userId g = acc_id u" "live_family g" "iw_now w < rf_absoluteExpiresAt g"
    then show thesis using that [of g] i c by (simp add: identity_row_def createUserRequestContext_def)
  qed
qed

lemma closed_cookie_refused:
  assumes ok: "sessions_ok w" and closed: "session_of w i = ClosedSession n reason" and "cookie_of runtime i token"
  shows "authenticateCookie runtime token requestId accessProof clock w \<noteq> Inr c"
proof
  assume "authenticateCookie runtime token requestId accessProof clock w = Inr c"
  then obtain f where f: "f \<in> set (iw_families w)" "rf_id f = i" "live_family f" using assms(3) by (rule cookie_needs_live)
  from family_of_eq [OF ok f(1)] f(2,3) have "session_of w i = OpenSession (spent_tokens w i)"
    by (simp add: session_of_def live_family_def)
  with closed show False by simp
qed

text \<open>What the proof of a cookie shows.\<close>

lemma cursor_letters_plain: "list_all cursor_letter s \<Longrightarrow> list_all plain_char s"
  by (auto simp: list_all_iff cursor_letter_def plain_char_def is_digit_def is_lower_def is_upper_def code_def)

lemma same_bytes: "safeStringEqual a b \<Longrightarrow> isCanonicalOpaqueSecret a \<Longrightarrow> isCanonicalOpaqueSecret b \<Longrightarrow> a = b"
  by (simp add: safeStringEqual_def isCanonicalOpaqueSecret_def utf8_plain cursor_letters_plain)

lemma same_letters: "safeStringEqual a b \<Longrightarrow> list_all cursor_letter a \<Longrightarrow> list_all cursor_letter b \<Longrightarrow> a = b"
  by (simp add: safeStringEqual_def utf8_plain cursor_letters_plain)

lemma cookie_proof_Inr:
  assumes "assertAccessCookieProof sha256 p csrfHash = Inr x" and "isUnsafe (pf_method p)" and letters: "list_all cursor_letter csrfHash"
  shows "oneHeader (map_of (pf_headers p) ''origin'') = Some (pf_expectedOrigin p)"
    and "\<exists>csrf. oneHeader (map_of (pf_headers p) ''x-csrf-token'') = Some csrf \<and> pf_csrfCookie p = Some csrf
      \<and> csrfHash = base64url (sha256 (utf8_bytes csrf))"
proof -
  have hash: "base64url (sha256 (utf8_bytes csrf)) = csrfHash" if "safeStringEqual (digestSecretBase64url sha256 csrf) csrfHash" for csrf
    using same_letters [OF that _ letters] base64url_letters
    by (simp add: digestSecretBase64url_def digestSecret_def list_all_iff cursor_letter_def)
  from assms(1,2) same_bytes hash
  show "oneHeader (map_of (pf_headers p) ''origin'') = Some (pf_expectedOrigin p)"
    and "\<exists>csrf. oneHeader (map_of (pf_headers p) ''x-csrf-token'') = Some csrf \<and> pf_csrfCookie p = Some csrf
      \<and> csrfHash = base64url (sha256 (utf8_bytes csrf))"
    by (auto simp: assertAccessCookieProof_def assertSameOrigin_def assertDoubleSubmit_def Let_def bindR_eq_Inr split: if_splits option.splits)
qed

text \<open>A bearer token is not tied to a session.\<close>

lemma bearer_ignores_sessions:
  "authenticateBearer runtime token requestId clock (w\<lparr>iw_families := fs, iw_tokens := ts\<rparr>) = authenticateBearer runtime token requestId clock w"
  by (simp add: authenticateBearer_def findUserIdentity_def cong: if_cong)

section \<open>Rotated keys\<close>

lemma created_key_pattern:
  assumes "createApiKeyCredential sha256_hex p entropy = Inr cr"
  shows "api_key_pattern (akc_plaintext cr)" and "akc_keyHash cr = sha256_hex (utf8_bytes (akc_plaintext cr))"
proof -
  from assms have p: "key_prefix (trim p)" and e: "length entropy = 32"
    and cr: "akc_plaintext cr = trim p @ ''_live_v1_'' @ base64url entropy" "akc_keyHash cr = sha256_hex (utf8_bytes (akc_plaintext cr))"
    by (auto simp: createApiKeyCredential_def validateApiKeyPrefix_def Let_def bindR_eq_Inr split: if_splits)
  then show "akc_keyHash cr = sha256_hex (utf8_bytes (akc_plaintext cr))" by simp
  have letters: "\<forall>c\<in>set (trim p). key_letter c" using p by (simp add: key_prefix_def list_all_iff)
  have "\<not> key_letter (CHR ''_'')" by code_simp
  with letters have "takeWhile key_letter (akc_plaintext cr) = trim p" "dropWhile key_letter (akc_plaintext cr) = ''_live_v1_'' @ base64url entropy"
    unfolding cr by (simp_all add: takeWhile_append2 dropWhile_append2)
  then show "api_key_pattern (akc_plaintext cr)" using p e base64url_letters [of entropy]
    by (simp add: api_key_pattern_def Let_def base64url_length cursor_letter_def [abs_def])
qed

abbreviation revoke_key :: "string \<Rightarrow> string \<Rightarrow> int \<Rightarrow> api_key_row \<Rightarrow> api_key_row" where
  "revoke_key tenantId i now k \<equiv> (if live_key tenantId i k then k\<lparr>ak_revokedAt := Some now\<rparr> else k)"

lemma performRotation_Inr:
  assumes "performRotation new_id input w = Inr ((revoked, replacement), w')"
  obtains old where "old \<in> set (iw_keys w)" "live_key (rr_tenantId input) (rr_apiKeyId input) old"
    and "filter (live_key (rr_tenantId input) (rr_apiKeyId input)) (iw_keys w) = [old]"
    and "replacement = \<lparr>ak_id = new_id, ak_tenantId = rr_tenantId input, ak_keyHash = rr_keyHash input, ak_note = rr_note input,
      ak_createdAt = iw_now w, ak_revokedAt = None\<rparr>"
    and "iw_keys w' = map (revoke_key (rr_tenantId input) (rr_apiKeyId input) (iw_now w)) (iw_keys w) @ [replacement]"
    and "\<forall>k\<in>set (iw_keys w). ak_keyHash k \<noteq> rr_keyHash input" and "iw_tenants w' = iw_tenants w"
    and "\<exists>t\<in>set (iw_tenants w). tna_id t = rr_tenantId input"
proof -
  let ?hit = "live_key (rr_tenantId input) (rr_apiKeyId input)"
  from assms obtain old w1 w2 a where old: "find ?hit (iw_keys w) = Some old"
    and rep: "replacement = \<lparr>ak_id = new_id, ak_tenantId = rr_tenantId input, ak_keyHash = rr_keyHash input, ak_note = rr_note input,
      ak_createdAt = iw_now w, ak_revokedAt = None\<rparr>"
    and r: "revokeSelectedKey input w = Inr w1" and i: "insert_key replacement w1 = Inr w2" and "insert_audit a w2 = Inr w'"
    by (auto simp: performRotation_def Let_def bindR_eq_Inr split: option.splits)
  then have w': "w' = w2\<lparr>iw_audit := iw_audit w2 @ [a]\<rparr>" by (simp add: insert_audit_Inr)
  from r have w1: "w1 = w\<lparr>iw_keys := map (revoke_key (rr_tenantId input) (rr_apiKeyId input) (iw_now w)) (iw_keys w)\<rparr>"
    and one: "length (filter ?hit (iw_keys w)) = 1" by (auto simp: revokeSelectedKey_def Let_def split: if_splits)
  from i have w2: "w2 = w1\<lparr>iw_keys := iw_keys w1 @ [replacement]\<rparr>" and new: "\<forall>x\<in>set (iw_keys w1). ak_keyHash x \<noteq> ak_keyHash replacement"
    and tenant: "\<exists>t\<in>set (iw_tenants w1). tna_id t = ak_tenantId replacement" by (auto simp: insert_key_def split: if_splits)
  have oldk: "old \<in> set (iw_keys w)" "?hit old" using old by (auto simp: find_Some_iff)
  then have mem: "old \<in> set (filter ?hit (iw_keys w))" by simp
  obtain y where "filter ?hit (iw_keys w) = [y]" using one by (cases "filter ?hit (iw_keys w)") auto
  with mem have "filter ?hit (iw_keys w) = [old]" by (metis empty_iff empty_set set_ConsD)
  moreover have "ak_keyHash k \<noteq> rr_keyHash input" if "k \<in> set (iw_keys w)" for k
  proof -
    have "revoke_key (rr_tenantId input) (rr_apiKeyId input) (iw_now w) k \<in> set (iw_keys w1)" using that by (simp add: w1 image_iff) blast
    with new show ?thesis by (auto simp: rep split: if_splits)
  qed
  ultimately show thesis using that [of old] oldk w' w2 w1 rep tenant by simp
qed

lemma same_by_key: "distinct (map g xs) \<Longrightarrow> x \<in> set xs \<Longrightarrow> y \<in> set xs \<Longrightarrow> g x = g y \<Longrightarrow> x = y"
  by (auto simp: distinct_map inj_on_def)

lemma old_key_dead:
  assumes "distinct (map ak_keyHash ks)" and old: "old \<in> set ks" "live_key t i old"
    and keys: "iw_keys w' = map (revoke_key t i n) ks @ [replacement]" and "ak_keyHash replacement \<noteq> ak_keyHash old"
  shows "findApiKeyIdentity (ak_keyHash old) w' = None"
proof -
  have "filter (\<lambda>k. ak_keyHash k = ak_keyHash old \<and> ak_revokedAt k = None) (iw_keys w') = []"
  proof -
    have eq: "k = old" if "k \<in> set ks" "ak_keyHash k = ak_keyHash old" for k
      using same_by_key [OF assms(1) that(1) old(1) that(2)] .
    then show ?thesis using assms(5) old(2) by (auto simp: keys filter_empty_conv)
  qed
  then show ?thesis by (simp add: findApiKeyIdentity_def concat_filter only_def)
qed

lemma new_key_found:
  assumes ids: "distinct (map tna_id (iw_tenants w))" and keys: "iw_keys w' = map (revoke_key t i n) (iw_keys w) @ [replacement]"
    and rep: "ak_tenantId replacement = t" "ak_revokedAt replacement = None"
    and tenants: "iw_tenants w' = iw_tenants w" and tenant: "\<exists>x\<in>set (iw_tenants w). tna_id x = t"
    and fresh: "\<forall>k\<in>set (iw_keys w). ak_keyHash k \<noteq> ak_keyHash replacement"
  shows "findApiKeyIdentity (ak_keyHash replacement) w' = Some \<lparr>ki_apiKeyId = ak_id replacement, ki_tenantId = t,
    ki_tenantActive = (\<exists>x\<in>set (iw_tenants w). tna_id x = t \<and> tna_isActive x)\<rparr>"
proof -
  from tenant obtain x where x: "x \<in> set (iw_tenants w)" "tna_id x = t" by blast
  have ts: "filter (\<lambda>y. tna_id y = t) (iw_tenants w) = [x]" by (rule filter_by_key [OF ids x(1)]) (simp_all add: x(2))
  have "filter (\<lambda>k. ak_keyHash k = ak_keyHash replacement \<and> ak_revokedAt k = None) (map (revoke_key t i n) (iw_keys w)) = []"
    using fresh by (auto simp: filter_empty_conv)
  then have ks: "filter (\<lambda>k. ak_keyHash k = ak_keyHash replacement \<and> ak_revokedAt k = None) (iw_keys w') = [replacement]"
    by (simp add: keys rep)
  have "y = x" if "y \<in> set (iw_tenants w)" "tna_id y = t" for y
    using same_by_key [OF ids that(1) x(1)] that(2) x(2) by simp
  then have "(\<exists>y\<in>set (iw_tenants w). tna_id y = t \<and> tna_isActive y) \<longleftrightarrow> tna_isActive x" using x by blast
  then show ?thesis unfolding findApiKeyIdentity_def concat_filter ks by (simp add: concat_filter tenants rep ts only_def x(2))
qed

lemma others_kept:
  "(\<And>k. k \<in> set ks \<Longrightarrow> live_key t i k \<Longrightarrow> ak_keyHash k = h) \<Longrightarrow>
    filter (\<lambda>k. ak_keyHash k \<noteq> h) (map (revoke_key t i n) ks) = filter (\<lambda>k. ak_keyHash k \<noteq> h) ks"
  by (induction ks) auto

lemma live_count:
  "filter (live_key t i) ks = [old] \<Longrightarrow>
    Suc (length (filter (\<lambda>k. ak_tenantId k = t \<and> ak_revokedAt k = None) (map (revoke_key t i n) ks)))
      = length (filter (\<lambda>k. ak_tenantId k = t \<and> ak_revokedAt k = None) ks)"
proof -
  have "length (filter (\<lambda>k. ak_tenantId k = t \<and> ak_revokedAt k = None) (map (revoke_key t i n) ks)) + length (filter (live_key t i) ks)
      = length (filter (\<lambda>k. ak_tenantId k = t \<and> ak_revokedAt k = None) ks)"
    by (induction ks) (auto simp: live_key_def)
  then show "filter (live_key t i) ks = [old] \<Longrightarrow> ?thesis" by simp
qed

section \<open>A sample\<close>

definition sample_logout :: logout_input where
  "sample_logout = \<lparr>lo_familyId = ''f'', lo_presentedDigest = sample_digest (CHR ''1''), lo_presentedCsrfDigest = sample_digest (CHR ''c''),
     lo_requestId = ''r''\<rparr>"

text \<open>A runtime whose tokens all carry the sample's claims, and whose digest is the identity.\<close>

definition sample_runtime :: jwt_runtime where
  "sample_runtime = \<lparr>jr_verify = (\<lambda>_. Some (JObj [(''sid'', JStr ''f'')])),
     jr_policy = \<lparr>jp_issuer = ''i'', jp_audience = ''a'', jp_maxLifetimeSeconds = 900, jp_clockToleranceSeconds = 30\<rparr>,
     jr_number_value = (\<lambda>_. None), jr_parse_bytes = (\<lambda>_. None), jr_sha256 = (\<lambda>s. s), jr_sha256_hex = (\<lambda>s. s)\<rparr>"

definition sample_plaintext :: string where
  "sample_plaintext = ''ab_live_v1_'' @ replicate 43 (CHR ''A'')"

definition sample_key_id :: string where
  "sample_key_id = ''00000000-0000-4000-8000-000000000001''"

definition sample_key_world :: identity_world where
  "sample_key_world = sample_world\<lparr>iw_keys := [\<lparr>ak_id = sample_key_id, ak_tenantId = ''t'', ak_keyHash = sample_plaintext,
     ak_note = None, ak_createdAt = 0, ak_revokedAt = None\<rparr>]\<rparr>"

definition sample_rotation :: "json result \<times> identity_world" where
  "sample_rotation = rotate_key_service (jr_sha256_hex sample_runtime) ''ab'' (replicate 32 (CHR ''x'')) ''new'' ''audit''
     (createUserRequestContext ''t'' ''u'' TenantAdmin ''r'') (JObj [(''api_key_id'', JStr sample_key_id)]) sample_key_world"

lemma sample_closed:
  "session_of (run_events sample_sign [EvLogin sample_login, EvLogout sample_logout] sample_world) ''f'' = ClosedSession 0 RvLogout"
  by code_simp

lemma sample_cookie: "cookie_of sample_runtime ''f'' token"
  by (simp add: cookie_of_def sample_runtime_def property_def json_prop_def)

text \<open>A cookie of a session of an administrator, for an unsafe method.\<close>

definition sample_tenant_id :: string where
  "sample_tenant_id = ''00000000-0000-4000-8000-000000000002''"

definition sample_user_id :: string where
  "sample_user_id = ''00000000-0000-4000-8000-000000000003''"

definition sample_csrf :: string where
  "sample_csrf = replicate 43 (CHR ''A'')"

definition sample_token :: string where
  "sample_token = base64url (concat [[CHR 0x7B, CHR 0x22], ''typ'', [CHR 0x22], '':'', [CHR 0x22], ''JWT'', [CHR 0x22], '','', [CHR 0x22], ''alg'',
     [CHR 0x22], '':'', [CHR 0x22], ''RS256'', [CHR 0x22, CHR 0x7D]]) @ ''.A.A''"

definition sample_cookie_runtime :: jwt_runtime where
  "sample_cookie_runtime = \<lparr>jr_verify = (\<lambda>_. Some (JObj [(''iss'', JStr ''i''), (''aud'', JStr ''a''), (''jti'', JStr ''j''),
       (''sub'', JStr sample_user_id), (''tenant_id'', JStr sample_tenant_id), (''role'', JStr ''tenant_admin''),
       (''iat'', JInt 0), (''exp'', JInt 900), (''sid'', JStr sample_key_id), (''csrf_hash'', JStr (base64url (take 32 sample_csrf)))])),
     jr_policy = \<lparr>jp_issuer = ''i'', jp_audience = ''a'', jp_maxLifetimeSeconds = 900, jp_clockToleranceSeconds = 30\<rparr>,
     jr_number_value = (\<lambda>_. None), jr_parse_bytes = (\<lambda>_. Some (JObj [(''typ'', JStr ''JWT''), (''alg'', JStr ''RS256'')])),
     jr_sha256 = take 32, jr_sha256_hex = (\<lambda>s. s)\<rparr>"

definition sample_proof :: access_cookie_proof where
  "sample_proof = \<lparr>pf_method = ''POST'', pf_headers = [(''origin'', One ''o''), (''x-csrf-token'', One sample_csrf)],
     pf_csrfCookie = Some sample_csrf, pf_expectedOrigin = ''o''\<rparr>"

definition sample_cookie_world :: identity_world where
  "sample_cookie_world = sample_world\<lparr>iw_tenants := [\<lparr>tna_id = sample_tenant_id, tna_isActive = True\<rparr>],
     iw_users := [sample_user\<lparr>acc_id := sample_user_id, acc_tenantId := sample_tenant_id\<rparr>],
     iw_families := [\<lparr>rf_id = sample_key_id, rf_tenantId = sample_tenant_id, rf_userId = sample_user_id, rf_absoluteExpiresAt = 9,
       rf_revoked = None, rf_createdAt = 0\<rparr>]\<rparr>"

lemma sample_token_verified:
  "validateJwtProtectedHeader (jr_parse_bytes sample_cookie_runtime) sample_token = Inr ()"
  by code_simp

lemma sample_cookie_claims:
  "(case jr_verify sample_cookie_runtime sample_token of Some payload \<Rightarrow>
     validateCookieJwtClaims (jr_number_value sample_cookie_runtime) payload (jr_policy sample_cookie_runtime) 1000
       = Inr \<lparr>ja_userId = sample_user_id, ja_tenantId = sample_tenant_id, ja_role = TenantAdmin, ja_familyId = sample_key_id,
           ja_csrfHash = base64url (take 32 sample_csrf)\<rparr>)"
  by code_simp

lemma sample_proof_holds:
  "assertAccessCookieProof (jr_sha256 sample_cookie_runtime) sample_proof (base64url (take 32 sample_csrf)) = Inr ()"
  by code_simp

lemma sample_unsafe: "isUnsafe (pf_method sample_proof)"
  by code_simp

lemma sample_cookie_identity:
  "userContext (findCookieUserIdentity \<lparr>ja_userId = sample_user_id, ja_tenantId = sample_tenant_id, ja_role = TenantAdmin,
     ja_familyId = sample_key_id, ja_csrfHash = base64url (take 32 sample_csrf)\<rparr> sample_cookie_world) ''r''
     = Inr (createUserRequestContext sample_tenant_id sample_user_id TenantAdmin ''r'')"
  by code_simp

lemma sample_cookie_authenticates:
  "authenticate sample_cookie_runtime (AccessCookie sample_token) ''r'' (Some sample_proof) 1000 sample_cookie_world
     = Inr (createUserRequestContext sample_tenant_id sample_user_id TenantAdmin ''r'')"
proof -
  have verified: "jr_verify sample_cookie_runtime sample_token \<noteq> None" by (simp add: sample_cookie_runtime_def)
  then show ?thesis
    using sample_cookie_claims sample_proof_holds sample_cookie_identity sample_token_verified
    by (cases "jr_verify sample_cookie_runtime sample_token")
      (simp_all add: authenticate_def authenticateCookie_def verified_payload_def)
qed

lemma sample_key_unique: "distinct (map ak_keyHash (iw_keys sample_key_world))" "distinct (map tna_id (iw_tenants sample_key_world))"
  by code_simp+

lemma sample_rotated: "ok (fst sample_rotation)"
  by code_simp

section \<open>Properties\<close>

text \<open>
  C11: A cookie is good only while its session is: once a session is closed, by a logout, a replay, a
  password reset, a change of role or activity, no access cookie of it authenticates, in any later
  state of the tables, at any time, for any method and proof.
\<close>

theorem closed_session_cookie_refused:
  assumes start: "no_sessions w0" and w: "w = run_events sign es w0"
    and closed: "session_of w i = ClosedSession n reason" and cookie: "cookie_of runtime i token"
  shows "authenticate runtime (AccessCookie token) requestId accessProof clock (run_events sign es' w) \<noteq> Inr c"
proof -
  have ok: "sessions_ok w" unfolding w by (rule run_ok [OF start_ok [OF start]])
  from closed_cookie_refused [OF run_ok [OF ok] closed_for_ever [OF ok closed] cookie] show ?thesis
    by (simp add: authenticate_def)
qed

theorem closed_session_cookie_refused_witness:
  "\<not> (\<exists>c. authenticate sample_runtime (AccessCookie ''token'') ''r'' None 0 (run_events sample_sign [EvTick 1]
     (run_events sample_sign [EvLogin sample_login, EvLogout sample_logout] sample_world)) = Inr c)"
  using closed_session_cookie_refused [OF sample_start(1) refl sample_closed sample_cookie] by blast

text \<open>
  C40: Who authenticates is who the credential and the tables say: a context stands for an active tenant, and
  either for one of its API keys that is not revoked, presented in plaintext, with the analyst's role, or for
  one of its users, active and with the role the table has. A token, as a bearer or a cookie, is one the
  verification accepts for the issuer and the audience of the policy, in its life time up to the tolerance of the
  clock, and its subject, tenant and role are the context's. A cookie moreover names a session of that user that
  is in the table, not revoked and not past its absolute end, and under a method that is not safe the request
  came from the expected origin with a CSRF header that equals the CSRF cookie and whose digest is the token's
  \<open>csrf_hash\<close>.
\<close>

theorem authentication_sound:
  assumes "authenticate runtime presented requestId accessProof clock w = Inr c"
  shows "(\<exists>t\<in>set (iw_tenants w). tna_id t = ctx_tenantId c \<and> tna_isActive t)
    \<and> (case ctx_actorType c of
         ApiKeyActor \<Rightarrow> ctx_role c = API_KEY_ROLE \<and> (\<exists>p. presented = ApiKeyCredential p \<and> api_key_pattern p
           \<and> (\<exists>k\<in>set (iw_keys w). ak_tenantId k = ctx_tenantId c \<and> ak_revokedAt k = None \<and> ak_keyHash k = jr_sha256_hex runtime (utf8_bytes p)))
       | UserActor \<Rightarrow> (\<exists>u\<in>set (iw_users w). acc_tenantId u = ctx_tenantId c \<and> ctx_actorUserId c = Some (acc_id u)
           \<and> acc_isActive u \<and> ctx_role c = acc_role u))
    \<and> (\<forall>token. presented = JwtCredential token \<or> presented = AccessCookie token \<longrightarrow>
         ctx_actorType c = UserActor
         \<and> (\<exists>payload userId iat exp. jr_verify runtime token = Some payload
           \<and> property payload ''iss'' = JStr (jp_issuer (jr_policy runtime)) \<and> property payload ''aud'' = JStr (jp_audience (jr_policy runtime))
           \<and> property payload ''sub'' = JStr userId \<and> ctx_actorUserId c = Some userId
           \<and> property payload ''tenant_id'' = JStr (ctx_tenantId c) \<and> property payload ''role'' = JStr (role_text (ctx_role c))
           \<and> numericDate (jr_number_value runtime) (property payload ''iat'') = Some iat
           \<and> numericDate (jr_number_value runtime) (property payload ''exp'') = Some exp
           \<and> iat \<le> of_int clock / 1000 + of_int (jp_clockToleranceSeconds (jr_policy runtime))
           \<and> of_int clock / 1000 - of_int (jp_clockToleranceSeconds (jr_policy runtime)) \<le> exp
           \<and> exp - iat \<le> of_int (jp_maxLifetimeSeconds (jr_policy runtime))
           \<and> (presented = AccessCookie token \<longrightarrow>
                (\<exists>f\<in>set (iw_families w). property payload ''sid'' = JStr (rf_id f) \<and> rf_tenantId f = ctx_tenantId c
                   \<and> rf_userId f = userId \<and> rf_revoked f = None \<and> iw_now w < rf_absoluteExpiresAt f)
                \<and> (\<exists>p. accessProof = Some p \<and> (isUnsafe (pf_method p) \<longrightarrow>
                     oneHeader (map_of (pf_headers p) ''origin'') = Some (pf_expectedOrigin p)
                     \<and> (\<exists>csrf. oneHeader (map_of (pf_headers p) ''x-csrf-token'') = Some csrf \<and> pf_csrfCookie p = Some csrf
                          \<and> property payload ''csrf_hash'' = JStr (base64url (jr_sha256 runtime (utf8_bytes csrf)))))))))"
proof (cases presented)
  case (ApiKeyCredential p)
  with assms obtain i where pat: "api_key_pattern p"
    and find: "findApiKeyIdentity (jr_sha256_hex runtime (utf8_bytes p)) w = Some i" and active: "ki_tenantActive i"
    and c: "c = createApiKeyRequestContext (ki_tenantId i) (ki_apiKeyId i) requestId"
    by (auto simp: authenticate_def authenticateApiKey_def hashApiKeyCredential_def bindR_eq_Inr split: if_splits)
  from find obtain k t where "k \<in> set (iw_keys w)" "t \<in> set (iw_tenants w)" "ak_keyHash k = jr_sha256_hex runtime (utf8_bytes p)"
      "ak_revokedAt k = None" "tna_id t = ak_tenantId k"
      "i = \<lparr>ki_apiKeyId = ak_id k, ki_tenantId = tna_id t, ki_tenantActive = tna_isActive t\<rparr>" by (rule findApiKey_Some)
  with ApiKeyCredential pat active c show ?thesis by (auto simp: createApiKeyRequestContext_def)
next
  case (JwtCredential token)
  with assms obtain payload a i where p: "jr_verify runtime token = Some payload"
    and v: "validateJwtClaims (jr_number_value runtime) payload (jr_policy runtime) clock = Inr a"
    and find: "findUserIdentity a w = Some i" and active: "ui_userActive i" "ui_tenantActive i"
    and c: "c = createUserRequestContext (ui_tenantId i) (ui_actorUserId i) (ui_role i) requestId"
    by (auto simp: authenticate_def authenticateBearer_def verified_payload_def bindR_eq_Inr userContext_Inr)
  from find obtain u t where "u \<in> set (iw_users w)" "t \<in> set (iw_tenants w)" "i = identity_row u t" "tna_id t = acc_tenantId u"
    "acc_role u = ja_role a" "acc_id u = ja_userId a" "acc_tenantId u = ja_tenantId a" by (rule findUser_Some)
  with JwtCredential active c p validateJwtClaims_Inr [OF v] show ?thesis
    by (auto simp: createUserRequestContext_def identity_row_def)
next
  case (AccessCookie token)
  with assms obtain payload a i p where ver: "jr_verify runtime token = Some payload"
    and v: "validateCookieJwtClaims (jr_number_value runtime) payload (jr_policy runtime) clock = Inr a"
    and find: "findCookieUserIdentity a w = Some i" and active: "ui_userActive i" "ui_tenantActive i"
    and c: "c = createUserRequestContext (ui_tenantId i) (ui_actorUserId i) (ui_role i) requestId"
    and proved: "accessProof = Some p" "assertAccessCookieProof (jr_sha256 runtime) p (ja_csrfHash a) = Inr ()"
    by (auto simp: authenticate_def authenticateCookie_def verified_payload_def bindR_eq_Inr userContext_Inr)
  note cookie = validateCookieJwtClaims_Inr [OF v]
  from cookie(1) obtain b where b: "validateJwtClaims (jr_number_value runtime) payload (jr_policy runtime) clock = Inr b"
    "ja_userId b = ja_userId a" "ja_tenantId b = ja_tenantId a" "ja_role b = ja_role a" by blast
  note claims = validateJwtClaims_Inr [OF b(1), unfolded b(2-4)]
  from find show ?thesis
  proof (rule findCookie_Some)
    fix u t f
    assume row: "u \<in> set (iw_users w)" "t \<in> set (iw_tenants w)" "f \<in> set (iw_families w)" "i = identity_row u t"
      "tna_id t = acc_tenantId u" "acc_role u = ja_role a" "acc_id u = ja_userId a" "acc_tenantId u = ja_tenantId a"
      "rf_id f = ja_familyId a" "rf_tenantId f = acc_tenantId u" "rf_userId f = acc_id u" "live_family f" "iw_now w < rf_absoluteExpiresAt f"
    have ctx: "ctx_tenantId c = ja_tenantId a" "ctx_actorUserId c = Some (ja_userId a)" "ctx_role c = ja_role a" "ctx_actorType c = UserActor"
      using c row by (simp_all add: createUserRequestContext_def identity_row_def)
    have session: "\<exists>f\<in>set (iw_families w). property payload ''sid'' = JStr (rf_id f) \<and> rf_tenantId f = ctx_tenantId c
        \<and> rf_userId f = ja_userId a \<and> rf_revoked f = None \<and> iw_now w < rf_absoluteExpiresAt f"
      using row(3,7-13) cookie(2) by (intro bexI [of _ f]) (simp_all add: ctx live_family_def)
    have proof': "isUnsafe (pf_method p) \<longrightarrow> oneHeader (map_of (pf_headers p) ''origin'') = Some (pf_expectedOrigin p)
        \<and> (\<exists>csrf. oneHeader (map_of (pf_headers p) ''x-csrf-token'') = Some csrf \<and> pf_csrfCookie p = Some csrf
          \<and> property payload ''csrf_hash'' = JStr (base64url (jr_sha256 runtime (utf8_bytes csrf))))"
      using cookie_proof_Inr [OF proved(2) _ cookie(4)] by (auto simp: cookie(3))
    have who: "\<exists>u\<in>set (iw_users w). acc_tenantId u = ctx_tenantId c \<and> ctx_actorUserId c = Some (acc_id u) \<and> acc_isActive u
        \<and> ctx_role c = acc_role u" and where': "\<exists>t\<in>set (iw_tenants w). tna_id t = ctx_tenantId c \<and> tna_isActive t"
      using row active by (auto simp: ctx identity_row_def)
    from claims(6) obtain iat exp where times: "numericDate (jr_number_value runtime) (property payload ''iat'') = Some iat"
        "numericDate (jr_number_value runtime) (property payload ''exp'') = Some exp"
        "iat \<le> of_int clock / 1000 + of_int (jp_clockToleranceSeconds (jr_policy runtime))"
        "of_int clock / 1000 - of_int (jp_clockToleranceSeconds (jr_policy runtime)) \<le> exp"
        "exp - iat \<le> of_int (jp_maxLifetimeSeconds (jr_policy runtime))" by blast
    show ?thesis
      using who where' ver claims(1-5) times session proved(1) proof' ctx AccessCookie by auto
  qed
qed

theorem authentication_sound_witness:
  "authenticate sample_cookie_runtime (AccessCookie sample_token) ''r'' (Some sample_proof) 1000 sample_cookie_world
     = Inr (createUserRequestContext sample_tenant_id sample_user_id TenantAdmin ''r'')
   \<and> isUnsafe (pf_method sample_proof)
   \<and> (\<exists>payload. jr_verify sample_cookie_runtime sample_token = Some payload \<and> property payload ''sub'' = JStr sample_user_id)"
  using authentication_sound [OF sample_cookie_authenticates] sample_cookie_authenticates
  by (auto simp: sample_unsafe createUserRequestContext_def)

text \<open>
  C12: Rotating an API key replaces it at once: in any state with unique key hashes and tenant ids, a rotation
  that answers has revoked the one live key it names, so that no plaintext with that key's hash
  authenticates any more, and the plaintext in the answer is the only thing that does so instead: it
  authenticates as the replacement, for an active tenant. All other keys keep their rows, and the tenant
  has as many live keys as before.
\<close>

theorem rotation_replaces_key:
  assumes unique: "distinct (map ak_keyHash (iw_keys w))" "distinct (map tna_id (iw_tenants w))"
    and rotated: "rotate_key_service (jr_sha256_hex runtime) apiKeyPrefix entropy new_id audit_id ctx body w = (Inr answer, w')"
  shows "\<exists>old plaintext. old \<in> set (iw_keys w) \<and> ak_tenantId old = ctx_tenantId ctx \<and> ak_revokedAt old = None
    \<and> (\<forall>p requestId proof' clock c. jr_sha256_hex runtime (utf8_bytes p) = ak_keyHash old
         \<longrightarrow> authenticate runtime (ApiKeyCredential p) requestId proof' clock w' \<noteq> Inr c)
    \<and> property answer ''apiKey'' = JStr plaintext
    \<and> (\<forall>requestId proof' clock. authenticate runtime (ApiKeyCredential plaintext) requestId proof' clock w'
         = (if \<exists>t\<in>set (iw_tenants w). tna_id t = ctx_tenantId ctx \<and> tna_isActive t
            then Inr (createApiKeyRequestContext (ctx_tenantId ctx) new_id requestId) else Inl (authError TenantInactive)))
    \<and> filter (\<lambda>k. ak_keyHash k \<noteq> ak_keyHash old) (butlast (iw_keys w')) = filter (\<lambda>k. ak_keyHash k \<noteq> ak_keyHash old) (iw_keys w)
    \<and> length (filter (\<lambda>k. ak_tenantId k = ctx_tenantId ctx \<and> ak_revokedAt k = None) (iw_keys w'))
        = length (filter (\<lambda>k. ak_tenantId k = ctx_tenantId ctx \<and> ak_revokedAt k = None) (iw_keys w))"
proof -
  obtain cr input revoked replacement where cr: "createApiKeyCredential (jr_sha256_hex runtime) apiKeyPrefix entropy = Inr cr"
    and perform: "performRotation new_id input w = Inr ((revoked, replacement), w')"
    and input: "rr_tenantId input = ctx_tenantId ctx" "rr_keyHash input = akc_keyHash cr"
    and answer: "property answer ''apiKey'' = JStr (akc_plaintext cr)"
    using rotated by (auto simp: rotate_key_service_def rotate_key_def property_def json_prop_def split: sum.splits js_error.splits)
  from perform obtain old where old: "old \<in> set (iw_keys w)" "live_key (ctx_tenantId ctx) (rr_apiKeyId input) old"
    and one: "filter (live_key (ctx_tenantId ctx) (rr_apiKeyId input)) (iw_keys w) = [old]"
    and rep: "replacement = \<lparr>ak_id = new_id, ak_tenantId = ctx_tenantId ctx, ak_keyHash = akc_keyHash cr, ak_note = rr_note input,
      ak_createdAt = iw_now w, ak_revokedAt = None\<rparr>"
    and keys: "iw_keys w' = map (revoke_key (ctx_tenantId ctx) (rr_apiKeyId input) (iw_now w)) (iw_keys w) @ [replacement]"
    and fresh: "\<forall>k\<in>set (iw_keys w). ak_keyHash k \<noteq> akc_keyHash cr" and tenants: "iw_tenants w' = iw_tenants w"
    and tenant: "\<exists>t\<in>set (iw_tenants w). tna_id t = ctx_tenantId ctx"
    unfolding input [symmetric] by (rule performRotation_Inr)
  note credential = created_key_pattern [OF cr]
  show ?thesis
  proof (intro exI [of _ old] exI [of _ "akc_plaintext cr"] conjI allI impI)
    show "old \<in> set (iw_keys w)" "ak_tenantId old = ctx_tenantId ctx" "ak_revokedAt old = None"
      using old by (simp_all add: live_key_def)
    show "property answer ''apiKey'' = JStr (akc_plaintext cr)" by (rule answer)
    show "authenticate runtime (ApiKeyCredential p) requestId proof' clock w' \<noteq> Inr c"
      if "jr_sha256_hex runtime (utf8_bytes p) = ak_keyHash old" for p requestId proof' clock c
      using old_key_dead [OF unique(1) old keys] fresh old(1) rep that
      by (auto simp: authenticate_def authenticateApiKey_def hashApiKeyCredential_def bindR_eq_Inr split: if_splits)
    show "authenticate runtime (ApiKeyCredential (akc_plaintext cr)) requestId proof' clock w'
         = (if \<exists>t\<in>set (iw_tenants w). tna_id t = ctx_tenantId ctx \<and> tna_isActive t
            then Inr (createApiKeyRequestContext (ctx_tenantId ctx) new_id requestId) else Inl (authError TenantInactive))"
      for requestId proof' clock
      using new_key_found [OF unique(2) keys _ _ tenants tenant] fresh credential rep
      by (simp add: authenticate_def authenticateApiKey_def hashApiKeyCredential_def)
    show "filter (\<lambda>k. ak_keyHash k \<noteq> ak_keyHash old) (butlast (iw_keys w')) = filter (\<lambda>k. ak_keyHash k \<noteq> ak_keyHash old) (iw_keys w)"
      unfolding keys butlast_snoc
    proof (rule others_kept)
      fix k assume "k \<in> set (iw_keys w)" "live_key (ctx_tenantId ctx) (rr_apiKeyId input) k"
      then have "k \<in> set (filter (live_key (ctx_tenantId ctx) (rr_apiKeyId input)) (iw_keys w))" by simp
      then show "ak_keyHash k = ak_keyHash old" unfolding one by simp
    qed
    show "length (filter (\<lambda>k. ak_tenantId k = ctx_tenantId ctx \<and> ak_revokedAt k = None) (iw_keys w'))
        = length (filter (\<lambda>k. ak_tenantId k = ctx_tenantId ctx \<and> ak_revokedAt k = None) (iw_keys w))"
      unfolding keys using live_count [OF one] rep by simp
  qed
qed

theorem rotation_replaces_key_witness:
  "\<exists>plaintext answer. fst sample_rotation = Inr answer \<and> property answer ''apiKey'' = JStr plaintext
     \<and> length (filter (\<lambda>k. ak_tenantId k = ''t'' \<and> ak_revokedAt k = None) (iw_keys (snd sample_rotation))) = 1"
proof -
  obtain answer where a: "fst sample_rotation = Inr answer" using sample_rotated by (cases "fst sample_rotation") auto
  then have "sample_rotation = (Inr answer, snd sample_rotation)" by (simp add: prod_eq_iff)
  then have r: "rotate_key_service (jr_sha256_hex sample_runtime) ''ab'' (replicate 32 (CHR ''x'')) ''new'' ''audit''
     (createUserRequestContext ''t'' ''u'' TenantAdmin ''r'') (JObj [(''api_key_id'', JStr sample_key_id)]) sample_key_world
     = (Inr answer, snd sample_rotation)" unfolding sample_rotation_def .
  have "length (filter (\<lambda>k. ak_tenantId k = ''t'' \<and> ak_revokedAt k = None) (iw_keys sample_key_world)) = 1" by code_simp
  with rotation_replaces_key [OF sample_key_unique r] a show ?thesis
    by (auto simp: createUserRequestContext_def)
qed

end
