(* ===== verification/Price_Tables.thy ===== *)
theory Price_Tables
  imports Inputs Usage_Types
begin

text \<open>
  Price tables: core/price-tables/price-tables-input.ts, price-tables-repository.ts and
  price-tables-service.ts, over the tables of migrations 0012 and 0013 with their constraints and
  triggers. A version is created as a draft with its items in one transaction, is activated or, when
  stale, blocked. Dates are kept as their texts \<open>YYYY-MM-DD\<close>, whose order is the order of days.
  Generated ids, \<open>Date.parse\<close>, SHA-256, the casts of \<open>timestamptz\<close> and \<open>uuid\<close>, and what \<open>jsonb\<close>
  makes of a value (its size as text, None when it refuses it) are arguments.
\<close>

section \<open>Types\<close>

datatype price_status = PvDraft | PvActive | PvSuperseded | PvBlocked

definition price_status_text :: "price_status \<Rightarrow> string" where
  "price_status_text s = (case s of PvDraft \<Rightarrow> ''draft'' | PvActive \<Rightarrow> ''active'' | PvSuperseded \<Rightarrow> ''superseded'' | PvBlocked \<Rightarrow> ''blocked'')"

datatype payment_option = NoUpfront | PartialUpfront | AllUpfront | Monthly

definition payment_text :: "payment_option \<Rightarrow> string" where
  "payment_text p = (case p of NoUpfront \<Rightarrow> ''no_upfront'' | PartialUpfront \<Rightarrow> ''partial_upfront'' | AllUpfront \<Rightarrow> ''all_upfront''
     | Monthly \<Rightarrow> ''monthly'')"

record price_item_input =
  pti_sku :: string
  pti_region :: string
  pti_termMonths :: int
  pti_paymentOption :: payment_option
  pti_hourlyRateCents :: string
  pti_upfrontCents :: string
  pti_coverageRules :: "(string \<times> json) list"

record price_table_input =
  ptc_provider :: provider
  ptc_instrument :: instrument
  ptc_versionLabel :: string
  ptc_effectiveFrom :: string
  ptc_effectiveTo :: "string option"
  ptc_sourceUri :: string
  ptc_items :: "price_item_input list"
  ptc_checksum :: string

record price_list_query =
  ptl_limit :: nat
  ptl_provider :: "provider option"
  ptl_instrument :: "instrument option"
  ptl_status :: "price_status option"

section \<open>Input\<close>

definition parseProvider :: "json \<Rightarrow> provider result" where
  "parseProvider v = bindR (string_input v) (\<lambda>s. orElse (provider_of s) invalid_request)"

definition instruments :: "instrument list" where
  "instruments = [AwsComputeSavingsPlan, AwsReservedInstance, AzureSavingsPlan, AzureReservation, GcpCommittedUseDiscount]"

definition parseInstrument :: "json \<Rightarrow> instrument result" where
  "parseInstrument v = bindR (string_input v) (\<lambda>s. orElse (find (\<lambda>i. instrument_text i = s) instruments) invalid_request)"

definition parseStatus :: "json \<Rightarrow> price_status result" where
  "parseStatus v = bindR (string_input v)
     (\<lambda>s. orElse (find (\<lambda>x. price_status_text x = s) [PvDraft, PvActive, PvSuperseded, PvBlocked]) invalid_request)"

definition term_value :: "json \<Rightarrow> int result" where
  "term_value v = (case v of JInt i \<Rightarrow> if i = 12 \<or> i = 36 then Inr i else Inl invalid_request | _ \<Rightarrow> Inl invalid_request)"

definition payment :: "json \<Rightarrow> payment_option result" where
  "payment v = bindR (string_input v)
     (\<lambda>s. orElse (find (\<lambda>p. payment_text p = s) [NoUpfront, PartialUpfront, AllUpfront, Monthly]) invalid_request)"

text \<open>\<open>/^[A-Za-z0-9][A-Za-z0-9._/-]\{0,2047\}$/u\<close>.\<close>

definition key_start :: "char \<Rightarrow> bool" where
  "key_start c = (is_lower c \<or> is_upper c \<or> is_digit c)"

definition object_key_pattern :: "string \<Rightarrow> bool" where
  "object_key_pattern s =
     (s \<noteq> [] \<and> key_start (hd s) \<and> list_all (\<lambda>c. key_start c \<or> c \<in> set ''._/-'') s \<and> length s \<le> 2048)"

definition objectKey :: "json \<Rightarrow> string result" where
  "objectKey v = bindR (string_input v) (\<lambda>s.
     if trim s \<noteq> s \<or> \<not> object_key_pattern s \<or> str_includes ''..'' s \<or> str_includes ''//'' s \<or> CHR 0x5C \<in> set s
     then Inl invalid_request else Inr s)"

text \<open>\<open>/^[0-9]\{4\}-(?:0[1-9]|1[0-2])-[0-3][0-9]$/u\<close>.\<close>

definition date_pattern :: "string \<Rightarrow> bool" where
  "date_pattern s =
     (shape_match (replicate 4 is_digit @ [(=) (CHR ''-''), digit_in 0 1, is_digit, (=) (CHR ''-''), digit_in 0 3, is_digit]) s
      \<and> 1 \<le> dec_val (take 2 (drop 5 s)) \<and> dec_val (take 2 (drop 5 s)) \<le> 12)"

definition day_start :: "string \<Rightarrow> string" where
  "day_start d = d @ ''T00:00:00Z''"

definition dateValue :: "(string \<Rightarrow> int option) \<Rightarrow> json \<Rightarrow> string result" where
  "dateValue date_parse v = bindR (string_input v) (\<lambda>s.
     if \<not> date_pattern s then Inl invalid_request
     else case date_parse (day_start s) of
         None \<Rightarrow> Inl invalid_request
       | Some t \<Rightarrow> if take 10 (iso_string t) = s then Inr s else Inl invalid_request)"

definition nullableDate :: "(string \<Rightarrow> int option) \<Rightarrow> json \<Rightarrow> string option result" where
  "nullableDate date_parse v = (if v = JNull then Inr None else bindR (dateValue date_parse v) (\<lambda>d. Inr (Some d)))"

definition unsignedInteger :: "json \<Rightarrow> string result" where
  "unsignedInteger v = bindR (string_input v) (\<lambda>s. if unsigned_integer_pattern s then Inr s else Inl invalid_request)"

definition isSupportedPair :: "provider \<Rightarrow> instrument \<Rightarrow> bool" where
  "isSupportedPair p i =
     ((p = Aws \<and> (i = AwsComputeSavingsPlan \<or> i = AwsReservedInstance))
      \<or> (p = Azure \<and> (i = AzureSavingsPlan \<or> i = AzureReservation)) \<or> (p = Gcp \<and> i = GcpCommittedUseDiscount))"

definition validateCoverageRules :: "provider \<Rightarrow> instrument \<Rightarrow> (string \<times> json) list \<Rightarrow> unit result" where
  "validateCoverageRules p i rules =
     (let service = json_prop rules ''service_code'' in
      if json_prop rules ''usage_family'' \<noteq> JStr ''compute'' then Inl invalid_request
      else if p = Aws \<and> service = JStr ''AmazonEC2'' then Inr ()
      else if p = Azure \<and> service = JStr ''Microsoft.Compute'' then Inr ()
      else if i = GcpCommittedUseDiscount \<and> service = JStr ''Compute Engine'' then Inr ()
      else Inl invalid_request)"

definition priceItem :: "provider \<Rightarrow> instrument \<Rightarrow> json \<Rightarrow> price_item_input result" where
  "priceItem p i v =
     bindR (closedRecord v [''sku'', ''region'', ''term_months'', ''payment_option'', ''hourly_rate_cents'', ''upfront_cents'',
       ''coverage_rules'']) (\<lambda>kvs.
     bindR (term_value (json_prop kvs ''term_months'')) (\<lambda>months.
     bindR (payment (json_prop kvs ''payment_option'')) (\<lambda>option.
     bindR (coverage (json_prop kvs ''coverage_rules'')) (\<lambda>rules.
     bindR (validateCoverageRules p i rules) (\<lambda>_.
     bindR (cleanText 1 512 (json_prop kvs ''sku'')) (\<lambda>sku.
     bindR (cleanText 1 128 (json_prop kvs ''region'')) (\<lambda>region.
     bindR (unsignedInteger (json_prop kvs ''hourly_rate_cents'')) (\<lambda>hourly.
     bindR (unsignedInteger (json_prop kvs ''upfront_cents'')) (\<lambda>upfront.
     Inr \<lparr>pti_sku = sku, pti_region = region, pti_termMonths = months, pti_paymentOption = option, pti_hourlyRateCents = hourly,
       pti_upfrontCents = upfront, pti_coverageRules = rules\<rparr>)))))))))"

definition item_json :: "price_item_input \<Rightarrow> json" where
  "item_json x = JObj
     [(''sku'', JStr (pti_sku x)), (''region'', JStr (pti_region x)), (''term_months'', JInt (pti_termMonths x)),
      (''payment_option'', JStr (payment_text (pti_paymentOption x))), (''hourly_rate_cents'', JStr (pti_hourlyRateCents x)),
      (''upfront_cents'', JStr (pti_upfrontCents x)), (''coverage_rules'', JObj (pti_coverageRules x))]"

definition price_checksum :: "(string \<Rightarrow> string) \<Rightarrow> price_table_input \<Rightarrow> string" where
  "price_checksum sha256_hex x = sha256_hex (utf8_bytes (stringify (JObj
     [(''provider'', JStr (provider_text (ptc_provider x))), (''instrument'', JStr (instrument_text (ptc_instrument x))),
      (''version_label'', JStr (ptc_versionLabel x)), (''effective_from'', JStr (ptc_effectiveFrom x)),
      (''effective_to'', (case ptc_effectiveTo x of None \<Rightarrow> JNull | Some d \<Rightarrow> JStr d)), (''source_uri'', JStr (ptc_sourceUri x)),
      (''items'', JArr (map item_json (ptc_items x)))])))"

definition other_than :: "'a option \<Rightarrow> 'a \<Rightarrow> bool" where
  "other_than expected x = (case expected of None \<Rightarrow> False | Some e \<Rightarrow> x \<noteq> e)"

definition parseCommitmentPriceTable :: "(string \<Rightarrow> int option) \<Rightarrow> (string \<Rightarrow> string) \<Rightarrow> json \<Rightarrow> provider option \<Rightarrow> instrument option
    \<Rightarrow> price_table_input result" where
  "parseCommitmentPriceTable date_parse sha256_hex body expectedProvider expectedInstrument =
     bindR (closedRecord body [''provider'', ''instrument'', ''version_label'', ''effective_from'', ''effective_to'', ''source_uri'',
       ''items'']) (\<lambda>kvs.
     bindR (parseProvider (json_prop kvs ''provider'')) (\<lambda>p.
     bindR (parseInstrument (json_prop kvs ''instrument'')) (\<lambda>i.
     if \<not> isSupportedPair p i \<or> other_than expectedProvider p \<or> other_than expectedInstrument i then Inl invalid_request
     else case json_prop kvs ''items'' of
         JArr vs \<Rightarrow>
           if length vs < 1 \<or> length vs > 5000 then Inl invalid_request
           else
             bindR (cleanText 1 128 (json_prop kvs ''version_label'')) (\<lambda>label.
             bindR (dateValue date_parse (json_prop kvs ''effective_from'')) (\<lambda>start.
             bindR (nullableDate date_parse (json_prop kvs ''effective_to'')) (\<lambda>end.
             bindR (objectKey (json_prop kvs ''source_uri'')) (\<lambda>uri.
             bindR (traverseR (priceItem p i) vs) (\<lambda>items.
             if (case end of None \<Rightarrow> False | Some e \<Rightarrow> e < start) then Inl invalid_request
             else
               let input = \<lparr>ptc_provider = p, ptc_instrument = i, ptc_versionLabel = label, ptc_effectiveFrom = start,
                 ptc_effectiveTo = end, ptc_sourceUri = uri, ptc_items = items, ptc_checksum = []\<rparr>
               in Inr (input\<lparr>ptc_checksum := price_checksum sha256_hex input\<rparr>))))))
       | _ \<Rightarrow> Inl invalid_request)))"

definition parsePriceTableCreateBody :: "(string \<Rightarrow> int option) \<Rightarrow> (string \<Rightarrow> string) \<Rightarrow> json \<Rightarrow> price_table_input result" where
  "parsePriceTableCreateBody date_parse sha256_hex body = parseCommitmentPriceTable date_parse sha256_hex body None None"

text \<open>The parsers of one instrument each.\<close>

definition parseInstrumentPriceTable :: "instrument \<Rightarrow> (string \<Rightarrow> int option) \<Rightarrow> (string \<Rightarrow> string) \<Rightarrow> json \<Rightarrow> price_table_input result" where
  "parseInstrumentPriceTable i date_parse sha256_hex body =
     parseCommitmentPriceTable date_parse sha256_hex body (Some (instrument_provider i)) (Some i)"

definition parsePriceTableId :: "json \<Rightarrow> string result" where
  "parsePriceTableId v = bindR (string_input v) (\<lambda>s. if lower_uuid s then Inr s else Inl invalid_request)"

definition parsePriceTableListQuery :: "json \<Rightarrow> price_list_query result" where
  "parsePriceTableListQuery query =
     bindR (closedRecord query [''limit'', ''cursor'', ''provider'', ''instrument'', ''status'']) (\<lambda>kvs.
     bindR (parseLimit (json_prop kvs ''limit'')) (\<lambda>limit.
     bindR (given parseProvider (json_prop kvs ''provider'')) (\<lambda>p.
     bindR (given parseInstrument (json_prop kvs ''instrument'')) (\<lambda>i.
     bindR (given parseStatus (json_prop kvs ''status'')) (\<lambda>s.
     Inr \<lparr>ptl_limit = limit, ptl_provider = p, ptl_instrument = i, ptl_status = s\<rparr>)))))"

section \<open>The tables\<close>

record price_version =
  pv_id :: string
  pv_tenantId :: string
  pv_provider :: provider
  pv_instrument :: instrument
  pv_versionLabel :: string
  pv_effectiveFrom :: string
  pv_effectiveTo :: "string option"
  pv_sourceUri :: string
  pv_status :: price_status
  pv_checksum :: string
  pv_createdAt :: int
  pv_updatedAt :: int

record price_row =
  pit_tenantId :: string
  pit_versionId :: string
  pit_provider :: provider
  pit_instrument :: instrument
  pit_sku :: string
  pit_region :: string
  pit_termMonths :: int
  pit_paymentOption :: payment_option
  pit_hourlyRateCents :: int
  pit_upfrontCents :: int
  pit_coverageRules :: json

text \<open>\<open>ptw_now\<close> is the clock of the database in microseconds.\<close>

record price_world =
  ptw_tenants :: "string list"
  ptw_versions :: "price_version list"
  ptw_items :: "price_row list"
  ptw_now :: int

definition version_row_check :: "price_version \<Rightarrow> bool" where
  "version_row_check v =
     (isSupportedPair (pv_provider v) (pv_instrument v) \<and> clean_column 128 (pv_versionLabel v) \<and> clean_column 2048 (pv_sourceUri v)
      \<and> (case pv_effectiveTo v of None \<Rightarrow> True | Some e \<Rightarrow> pv_effectiveFrom v \<le> e)
      \<and> length (pv_checksum v) = 64 \<and> list_all hex_lower (pv_checksum v) \<and> pv_createdAt v \<le> pv_updatedAt v)"

text \<open>The key of both unique constraints, beside the label and the checksum.\<close>

definition same_market :: "price_version \<Rightarrow> price_version \<Rightarrow> bool" where
  "same_market a b = (pv_tenantId a = pv_tenantId b \<and> pv_provider a = pv_provider b \<and> pv_instrument a = pv_instrument b)"

definition version_clash :: "price_version \<Rightarrow> price_version \<Rightarrow> bool" where
  "version_clash a b =
     (pv_id a = pv_id b \<or> (same_market a b \<and> (pv_versionLabel a = pv_versionLabel b \<or> pv_checksum a = pv_checksum b)))"

text \<open>The year 0000 of JavaScript is not a year of the type \<open>date\<close>.\<close>

definition date_cast_fails :: "string \<Rightarrow> bool" where
  "date_cast_fails d = (take 4 d = ''0000'')"

definition insert_version :: "price_version \<Rightarrow> price_world \<Rightarrow> price_world result" where
  "insert_version v w =
     (if date_cast_fails (pv_effectiveFrom v) \<or> (case pv_effectiveTo v of None \<Rightarrow> False | Some e \<Rightarrow> date_cast_fails e)
      then Inl (sqlstate ''22008'')
      else if pv_status v \<noteq> PvDraft \<or> \<not> version_row_check v then Inl (sqlstate ''23514'')
      else if \<exists>x\<in>set (ptw_versions w). version_clash v x then Inl (sqlstate ''23505'')
      else if pv_tenantId v \<notin> set (ptw_tenants w) then Inl (sqlstate ''23503'')
      else Inr (w\<lparr>ptw_versions := ptw_versions w @ [v]\<rparr>))"

definition item_row_check :: "(json \<Rightarrow> nat option) \<Rightarrow> price_row \<Rightarrow> bool" where
  "item_row_check jsonb x =
     (isSupportedPair (pit_provider x) (pit_instrument x) \<and> clean_column 512 (pit_sku x) \<and> clean_column 128 (pit_region x)
      \<and> 0 < pit_termMonths x \<and> 0 \<le> pit_hourlyRateCents x \<and> 0 \<le> pit_upfrontCents x
      \<and> (case pit_coverageRules x of
          JObj kvs \<Rightarrow> (case jsonb (JObj kvs) of None \<Rightarrow> False | Some n \<Rightarrow> n \<le> 65536) \<and> (\<forall>k\<in>set (object_keys kvs). k \<notin> set reserved_rules)
        | _ \<Rightarrow> False))"

definition same_dimensions :: "price_row \<Rightarrow> price_row \<Rightarrow> bool" where
  "same_dimensions a b =
     (pit_tenantId a = pit_tenantId b \<and> pit_versionId a = pit_versionId b \<and> pit_provider a = pit_provider b
      \<and> pit_instrument a = pit_instrument b \<and> pit_sku a = pit_sku b \<and> pit_region a = pit_region b
      \<and> pit_termMonths a = pit_termMonths b \<and> pit_paymentOption a = pit_paymentOption b)"

definition item_of_version :: "price_row \<Rightarrow> price_version \<Rightarrow> bool" where
  "item_of_version x v =
     (pv_tenantId v = pit_tenantId x \<and> pv_id v = pit_versionId x \<and> pv_provider v = pit_provider x \<and> pv_instrument v = pit_instrument x)"

definition insert_item :: "(json \<Rightarrow> nat option) \<Rightarrow> price_row \<Rightarrow> price_world \<Rightarrow> price_world result" where
  "insert_item jsonb x w =
     (if (case find (item_of_version x) (ptw_versions w) of None \<Rightarrow> False | Some v \<Rightarrow> pv_status v \<noteq> PvDraft) then Inl (sqlstate ''55000'')
      else if \<not> item_row_check jsonb x then Inl (sqlstate ''23514'')
      else if \<exists>y\<in>set (ptw_items w). same_dimensions x y then Inl (sqlstate ''23505'')
      else if \<not> (\<exists>v\<in>set (ptw_versions w). item_of_version x v) then Inl (sqlstate ''23503'')
      else Inr (w\<lparr>ptw_items := ptw_items w @ [x]\<rparr>))"

text \<open>\<open>$9::bigint\<close>.\<close>

definition bigint_cast :: "string \<Rightarrow> int result" where
  "bigint_cast s = (if int (dec_val s) < 2 ^ 63 then Inr (int (dec_val s)) else Inl (sqlstate ''22003''))"

section \<open>The repository\<close>

record price_record =
  pr_version :: price_version
  pr_itemCount :: string

definition items_of :: "price_version \<Rightarrow> price_world \<Rightarrow> price_row list" where
  "items_of v w = filter (\<lambda>x. pit_tenantId x = pv_tenantId v \<and> pit_versionId x = pv_id v) (ptw_items w)"

definition price_projection :: "price_world \<Rightarrow> price_version \<Rightarrow> price_record" where
  "price_projection w v = \<lparr>pr_version = v, pr_itemCount = show_nat (length (items_of v w))\<rparr>"

definition version_at :: "string \<Rightarrow> string \<Rightarrow> price_version \<Rightarrow> bool" where
  "version_at tenantId i v = (pv_tenantId v = tenantId \<and> pv_id v = i)"

definition get_version :: "string \<Rightarrow> string \<Rightarrow> price_world \<Rightarrow> price_record option" where
  "get_version tenantId i w = map_option (price_projection w) (find (version_at tenantId i) (ptw_versions w))"

definition item_row :: "string \<Rightarrow> string \<Rightarrow> price_table_input \<Rightarrow> price_item_input \<Rightarrow> price_row result" where
  "item_row tenantId versionId input x =
     bindR (bigint_cast (pti_hourlyRateCents x)) (\<lambda>hourly. bindR (bigint_cast (pti_upfrontCents x)) (\<lambda>upfront.
     Inr \<lparr>pit_tenantId = tenantId, pit_versionId = versionId, pit_provider = ptc_provider input, pit_instrument = ptc_instrument input,
       pit_sku = pti_sku x, pit_region = pti_region x, pit_termMonths = pti_termMonths x, pit_paymentOption = pti_paymentOption x,
       pit_hourlyRateCents = hourly, pit_upfrontCents = upfront, pit_coverageRules = JObj (pti_coverageRules x)\<rparr>))"

fun insert_items :: "(json \<Rightarrow> nat option) \<Rightarrow> string \<Rightarrow> string \<Rightarrow> price_table_input \<Rightarrow> price_item_input list \<Rightarrow> price_world \<Rightarrow> price_world result" where
  "insert_items jsonb tenantId versionId input [] w = Inr w"
| "insert_items jsonb tenantId versionId input (x # xs) w =
     bindR (item_row tenantId versionId input x) (\<lambda>row. bindR (insert_item jsonb row w) (insert_items jsonb tenantId versionId input xs))"

definition draft_version :: "string \<Rightarrow> string \<Rightarrow> price_table_input \<Rightarrow> int \<Rightarrow> price_version" where
  "draft_version new_id tenantId input now =
     \<lparr>pv_id = new_id, pv_tenantId = tenantId, pv_provider = ptc_provider input, pv_instrument = ptc_instrument input,
      pv_versionLabel = ptc_versionLabel input, pv_effectiveFrom = ptc_effectiveFrom input, pv_effectiveTo = ptc_effectiveTo input,
      pv_sourceUri = ptc_sourceUri input, pv_status = PvDraft, pv_checksum = ptc_checksum input, pv_createdAt = now, pv_updatedAt = now\<rparr>"

definition create_in_transaction :: "(json \<Rightarrow> nat option) \<Rightarrow> string \<Rightarrow> string \<Rightarrow> price_table_input \<Rightarrow> price_world
    \<Rightarrow> (price_record \<times> price_world) result" where
  "create_in_transaction jsonb new_id tenantId input w =
     bindR (insert_version (draft_version new_id tenantId input (ptw_now w)) w) (\<lambda>w1.
     bindR (insert_items jsonb tenantId new_id input (ptc_items input) w1) (\<lambda>w2.
     bindR (orElse (get_version tenantId new_id w2) (Thrown ''TypeError'')) (\<lambda>row. Inr (row, w2))))"

definition withPriceTransaction :: "string \<Rightarrow> (price_world \<Rightarrow> ('a \<times> price_world) result) \<Rightarrow> price_world \<Rightarrow> 'a result \<times> price_world" where
  "withPriceTransaction tenantId operation w =
     (if tenantId \<notin> set (ptw_tenants w) then (Inl (Thrown ''Authenticated tenant vanished.''), w)
      else case operation w of Inl e \<Rightarrow> (Inl e, w) | Inr (x, w') \<Rightarrow> (Inr x, w'))"

definition create_version :: "(json \<Rightarrow> nat option) \<Rightarrow> string \<Rightarrow> string \<Rightarrow> price_table_input \<Rightarrow> price_world \<Rightarrow> price_record result \<times> price_world" where
  "create_version jsonb new_id tenantId input = withPriceTransaction tenantId (create_in_transaction jsonb new_id tenantId input)"

definition version_key :: "price_version \<Rightarrow> boundary" where
  "version_key v = (micros_text (pv_createdAt v), pv_id v)"

definition list_versions :: "(string \<Rightarrow> int option) \<Rightarrow> (string \<Rightarrow> string option) \<Rightarrow> string \<Rightarrow> price_list_query \<Rightarrow> boundary option
    \<Rightarrow> price_world \<Rightarrow> price_record list result" where
  "list_versions timestamptz_of uuid_of tenantId query cursor w =
     bindR (cast_boundary timestamptz_of uuid_of cursor) (\<lambda>b.
     Inr (map (price_projection w) (keyset_query version_key b (ptl_limit query + 1)
       (filter (\<lambda>v. pv_tenantId v = tenantId \<and> given_is (ptl_provider query) (pv_provider v)
          \<and> given_is (ptl_instrument query) (pv_instrument v) \<and> given_is (ptl_status query) (pv_status v)) (ptw_versions w)))))"

text \<open>The trigger of an UPDATE that changes the status only; \<open>overlaps\<close> is the test under its advisory lock.\<close>

definition status_move :: "price_status \<Rightarrow> price_status \<Rightarrow> bool" where
  "status_move old new =
     ((old = PvDraft \<and> (new = PvActive \<or> new = PvBlocked)) \<or> (old = PvActive \<and> (new = PvSuperseded \<or> new = PvBlocked)))"

definition until :: "string option \<Rightarrow> string \<Rightarrow> bool" where
  "until e d = (case e of None \<Rightarrow> True | Some x \<Rightarrow> d \<le> x)"

definition overlaps :: "price_version \<Rightarrow> price_version \<Rightarrow> bool" where
  "overlaps v x =
     (same_market x v \<and> pv_status x = PvActive \<and> pv_id x \<noteq> pv_id v
      \<and> until (pv_effectiveTo v) (pv_effectiveFrom x) \<and> until (pv_effectiveTo x) (pv_effectiveFrom v))"

definition update_status :: "price_status \<Rightarrow> price_version \<Rightarrow> price_world \<Rightarrow> price_world result" where
  "update_status status v w =
     (let v' = v\<lparr>pv_status := status, pv_updatedAt := ptw_now w\<rparr> in
      if \<not> status_move (pv_status v) status then Inl (sqlstate ''55000'')
      else if status = PvActive \<and> (\<exists>x\<in>set (ptw_versions w). overlaps v x) then Inl (sqlstate ''23P01'')
      else if \<not> version_row_check v' then Inl (sqlstate ''23514'')
      else Inr (w\<lparr>ptw_versions := map (\<lambda>x. if pv_id x = pv_id v then v' else x) (ptw_versions w)\<rparr>))"

definition transition :: "price_status \<Rightarrow> string \<Rightarrow> string \<Rightarrow> price_world \<Rightarrow> price_record option result \<times> price_world" where
  "transition status tenantId i w =
     (case find (version_at tenantId i) (ptw_versions w) of
        None \<Rightarrow> (Inr None, w)
      | Some v \<Rightarrow> (case update_status status v w of Inl e \<Rightarrow> (Inl e, w) | Inr w' \<Rightarrow> (Inr (get_version tenantId i w'), w')))"

section \<open>The service\<close>

definition price_not_found :: js_error where
  "price_not_found = AppError ''NOT_FOUND'' ''The requested resource was not found.'' 404"

definition price_stale :: js_error where
  "price_stale = AppError ''PRICE_TABLE_STALE'' ''Price table is stale.'' 409"

definition price_unavailable :: js_error where
  "price_unavailable = AppError ''PRICE_TABLES_UNAVAILABLE'' ''Price tables are temporarily unavailable.'' 503"

definition price_safe :: "'a result \<Rightarrow> 'a result" where
  "price_safe r = (case r of Inl (Thrown _) \<Rightarrow> Inl price_unavailable | _ \<Rightarrow> r)"

definition toPriceTable :: "price_record \<Rightarrow> json" where
  "toPriceTable row =
     (let v = pr_version row in JObj
       [(''id'', JStr (pv_id v)), (''provider'', JStr (provider_text (pv_provider v))),
        (''instrument'', JStr (instrument_text (pv_instrument v))), (''version_label'', JStr (pv_versionLabel v)),
        (''effective_from'', JStr (pv_effectiveFrom v)),
        (''effective_to'', (case pv_effectiveTo v of None \<Rightarrow> JNull | Some d \<Rightarrow> JStr d)), (''source_uri'', JStr (pv_sourceUri v)),
        (''status'', JStr (price_status_text (pv_status v))), (''checksum'', JStr (pv_checksum v)),
        (''item_count'', JStr (pr_itemCount row)), (''created_at'', JStr (micros_text (pv_createdAt v))),
        (''updated_at'', JStr (micros_text (pv_updatedAt v)))])"

definition isStale :: "(string \<Rightarrow> int option) \<Rightarrow> string \<Rightarrow> int \<Rightarrow> int \<Rightarrow> bool" where
  "isStale date_parse effectiveFrom staleDays now =
     (let cutoff = now div ms_per_day * ms_per_day - staleDays * ms_per_day in
      case date_parse (day_start effectiveFrom) of None \<Rightarrow> False | Some t \<Rightarrow> t < cutoff)"

definition createPriceTable :: "(string \<Rightarrow> int option) \<Rightarrow> (string \<Rightarrow> string) \<Rightarrow> (json \<Rightarrow> nat option) \<Rightarrow> string \<Rightarrow> string \<Rightarrow> json
    \<Rightarrow> price_world \<Rightarrow> json result \<times> price_world" where
  "createPriceTable date_parse sha256_hex jsonb new_id tenantId body w =
     (case parsePriceTableCreateBody date_parse sha256_hex body of
        Inl e \<Rightarrow> (Inl e, w)
      | Inr input \<Rightarrow>
          (case create_version jsonb new_id tenantId input w of (r, w') \<Rightarrow> (bindR (price_safe r) (\<lambda>row. Inr (toPriceTable row)), w')))"

definition listPriceTables :: "(string \<Rightarrow> json option) \<Rightarrow> (string \<Rightarrow> int option) \<Rightarrow> (string \<Rightarrow> string option) \<Rightarrow> string \<Rightarrow> json
    \<Rightarrow> price_world \<Rightarrow> (json list \<times> string option) result" where
  "listPriceTables parse_bytes timestamptz_of uuid_of tenantId query w =
     bindR (parsePriceTableListQuery query) (\<lambda>parsed.
     bindR (case property query ''cursor'' of JStr c \<Rightarrow> bindR (decodePriceTableCursor parse_bytes c) (\<lambda>b. Inr (Some b)) | _ \<Rightarrow> Inr None) (\<lambda>cursor.
     bindR (price_safe (list_versions timestamptz_of uuid_of tenantId parsed cursor w)) (\<lambda>rows.
     let selected = take (ptl_limit parsed) rows in
     Inr (map toPriceTable selected,
       if length rows > ptl_limit parsed \<and> selected \<noteq> []
       then Some (encodePriceTableCursor (fst (version_key (pr_version (last selected)))) (snd (version_key (pr_version (last selected)))))
       else None))))"

definition activatePriceTable :: "(string \<Rightarrow> int option) \<Rightarrow> int \<Rightarrow> int \<Rightarrow> string \<Rightarrow> json \<Rightarrow> price_world \<Rightarrow> json result \<times> price_world" where
  "activatePriceTable date_parse staleDays clock tenantId idValue w =
     (case parsePriceTableId idValue of
        Inl e \<Rightarrow> (Inl e, w)
      | Inr i \<Rightarrow>
          (case get_version tenantId i w of
             None \<Rightarrow> (Inl price_not_found, w)
           | Some existing \<Rightarrow>
               if isStale date_parse (pv_effectiveFrom (pr_version existing)) staleDays clock
               then (case transition PvBlocked tenantId i w of (r, w') \<Rightarrow> (bindR (price_safe r) (\<lambda>_. Inl price_stale), w'))
               else (case transition PvActive tenantId i w of
                   (r, w') \<Rightarrow> (bindR (price_safe r) (\<lambda>row. bindR (orElse row price_not_found) (\<lambda>x. Inr (toPriceTable x))), w'))))"

end
