(* ===== verification/Price_Table_Claims.thy ===== *)
theory Price_Table_Claims
  imports Price_Tables
begin

text \<open>
  What the price tables promise in every reachable state: versions are complete, items belong to one
  version, and on any day at most one active table of a market applies; with the outcome of every
  activation and of every creation.
\<close>

section \<open>Steps\<close>

inductive price_step :: "(string \<Rightarrow> int option) \<Rightarrow> (string \<Rightarrow> string) \<Rightarrow> (json \<Rightarrow> nat option) \<Rightarrow> price_world \<Rightarrow> price_world \<Rightarrow> bool"
  for date_parse sha256_hex jsonb where
  step_create: "price_step date_parse sha256_hex jsonb w (snd (createPriceTable date_parse sha256_hex jsonb new_id tenantId body w))"
| step_activate: "price_step date_parse sha256_hex jsonb w (snd (activatePriceTable date_parse staleDays clock tenantId idValue w))"
| step_tenant: "price_step date_parse sha256_hex jsonb w (w\<lparr>ptw_tenants := tenantId # ptw_tenants w\<rparr>)"
| step_tick: "price_step date_parse sha256_hex jsonb w (w\<lparr>ptw_now := ptw_now w + int d\<rparr>)"

inductive price_reachable :: "(string \<Rightarrow> int option) \<Rightarrow> (string \<Rightarrow> string) \<Rightarrow> (json \<Rightarrow> nat option) \<Rightarrow> price_world \<Rightarrow> bool"
  for date_parse sha256_hex jsonb where
  price_start: "ptw_versions w = [] \<Longrightarrow> ptw_items w = [] \<Longrightarrow> price_reachable date_parse sha256_hex jsonb w"
| price_next: "price_reachable date_parse sha256_hex jsonb w \<Longrightarrow> price_step date_parse sha256_hex jsonb w w'
    \<Longrightarrow> price_reachable date_parse sha256_hex jsonb w'"

inductive_cases price_stepE: "price_step date_parse sha256_hex jsonb w w'"

section \<open>What the statements do\<close>

definition with_status :: "price_status \<Rightarrow> price_version \<Rightarrow> price_world \<Rightarrow> price_world" where
  "with_status status v w = w\<lparr>ptw_versions :=
     map (\<lambda>x. if pv_id x = pv_id v then v\<lparr>pv_status := status, pv_updatedAt := ptw_now w\<rparr> else x) (ptw_versions w)\<rparr>"

lemma with_status_fields [simp]:
  "ptw_items (with_status s v w) = ptw_items w" "ptw_now (with_status s v w) = ptw_now w"
  "ptw_tenants (with_status s v w) = ptw_tenants w"
  by (simp_all add: with_status_def)

lemma update_status_Inr:
  "update_status s v w = Inr w' \<longleftrightarrow>
     status_move (pv_status v) s \<and> (s = PvActive \<longrightarrow> \<not> (\<exists>x\<in>set (ptw_versions w). overlaps v x))
     \<and> version_row_check (v\<lparr>pv_status := s, pv_updatedAt := ptw_now w\<rparr>) \<and> w' = with_status s v w"
  by (auto simp: update_status_def Let_def with_status_def)

lemma insert_version_Inr:
  "insert_version v w = Inr w' \<Longrightarrow>
     w' = w\<lparr>ptw_versions := ptw_versions w @ [v]\<rparr> \<and> pv_status v = PvDraft \<and> version_row_check v
     \<and> (\<forall>x\<in>set (ptw_versions w). \<not> version_clash v x)"
  by (auto simp: insert_version_def split: if_splits)

lemma insert_item_Inr:
  "insert_item jsonb x w = Inr w' \<Longrightarrow>
     w' = w\<lparr>ptw_items := ptw_items w @ [x]\<rparr> \<and> item_row_check jsonb x \<and> (\<forall>y\<in>set (ptw_items w). \<not> same_dimensions x y)
     \<and> (\<exists>v\<in>set (ptw_versions w). item_of_version x v)"
  by (auto simp: insert_item_def split: if_splits)

lemma item_row_Inr:
  "item_row t i input x = Inr row \<Longrightarrow>
     pit_tenantId row = t \<and> pit_versionId row = i \<and> pit_provider row = ptc_provider input \<and> pit_instrument row = ptc_instrument input
     \<and> pit_sku row = pti_sku x \<and> pit_region row = pti_region x \<and> pit_termMonths row = pti_termMonths x
     \<and> pit_paymentOption row = pti_paymentOption x \<and> pit_hourlyRateCents row < 2 ^ 63 \<and> pit_upfrontCents row < 2 ^ 63"
  by (auto simp: item_row_def bigint_cast_def bindR_eq_Inr split: if_splits)

definition differ :: "price_row \<Rightarrow> price_row \<Rightarrow> bool" where
  "differ x y = (\<not> same_dimensions x y)"

lemma differ_sym: "differ x y = differ y x"
  by (auto simp: differ_def same_dimensions_def)

definition cents_in_range :: "price_row \<Rightarrow> bool" where
  "cents_in_range x = (0 \<le> pit_hourlyRateCents x \<and> pit_hourlyRateCents x < 2 ^ 63 \<and> 0 \<le> pit_upfrontCents x \<and> pit_upfrontCents x < 2 ^ 63)"

lemma insert_items_Inr:
  "insert_items jsonb t i input xs w = Inr w' \<Longrightarrow> sorted_wrt differ (ptw_items w) \<Longrightarrow>
     \<exists>rows. w' = w\<lparr>ptw_items := ptw_items w @ rows\<rparr> \<and> traverseR (item_row t i input) xs = Inr rows
       \<and> sorted_wrt differ (ptw_items w @ rows)
       \<and> (\<forall>x\<in>set rows. pit_tenantId x = t \<and> pit_versionId x = i \<and> cents_in_range x \<and> item_row_check jsonb x
            \<and> (\<exists>v\<in>set (ptw_versions w). item_of_version x v))"
proof (induction xs arbitrary: w)
  case (Cons x xs)
  then obtain row w1 where row: "item_row t i input x = Inr row" and ins: "insert_item jsonb row w = Inr w1"
    and rest: "insert_items jsonb t i input xs w1 = Inr w'" by (auto simp: bindR_eq_Inr)
  note new = insert_item_Inr [OF ins]
  have "sorted_wrt differ (ptw_items w1)"
    using new Cons.prems(2) by (auto simp: sorted_wrt_append differ_sym [of _ row]) (auto simp: differ_def)
  from Cons.IH [OF rest this] obtain rows where w': "w' = w1\<lparr>ptw_items := ptw_items w1 @ rows\<rparr>"
      "traverseR (item_row t i input) xs = Inr rows" "sorted_wrt differ (ptw_items w1 @ rows)"
      "\<forall>x\<in>set rows. pit_tenantId x = t \<and> pit_versionId x = i \<and> cents_in_range x \<and> item_row_check jsonb x
         \<and> (\<exists>v\<in>set (ptw_versions w1). item_of_version x v)"
    by blast
  have "cents_in_range row" using item_row_Inr [OF row] new by (simp add: cents_in_range_def item_row_check_def)
  then show ?case using w' new row item_row_Inr [OF row] by (intro exI [of _ "row # rows"]) simp
qed simp

section \<open>Three effects\<close>

text \<open>A day on which a version applies.\<close>

definition applies_on :: "string \<Rightarrow> price_version \<Rightarrow> bool" where
  "applies_on d v = (pv_effectiveFrom v \<le> d \<and> until (pv_effectiveTo v) d)"

lemma applies_overlap:
  "applies_on d v \<Longrightarrow> applies_on d x \<Longrightarrow> until (pv_effectiveTo v) (pv_effectiveFrom x)"
  by (auto simp: applies_on_def until_def split: option.splits)

inductive price_effect :: "price_world \<Rightarrow> price_world \<Rightarrow> bool" where
  price_stays: "ptw_versions w' = ptw_versions w \<Longrightarrow> ptw_items w' = ptw_items w \<Longrightarrow> ptw_now w \<le> ptw_now w' \<Longrightarrow> price_effect w w'"
| price_added: "w' = w\<lparr>ptw_versions := ptw_versions w @ [v], ptw_items := ptw_items w @ rows\<rparr> \<Longrightarrow> pv_status v = PvDraft
    \<Longrightarrow> version_row_check v \<Longrightarrow> pv_createdAt v = ptw_now w \<Longrightarrow> \<forall>x\<in>set (ptw_versions w). \<not> version_clash v x
    \<Longrightarrow> rows \<noteq> [] \<Longrightarrow> length rows \<le> 5000 \<Longrightarrow> sorted_wrt differ (ptw_items w) \<longrightarrow> sorted_wrt differ (ptw_items w @ rows)
    \<Longrightarrow> \<forall>x\<in>set rows. item_of_version x v \<and> cents_in_range x \<Longrightarrow> price_effect w w'"
| price_moved: "w' = with_status s v w \<Longrightarrow> v \<in> set (ptw_versions w) \<Longrightarrow> status_move (pv_status v) s \<Longrightarrow> s \<noteq> PvSuperseded
    \<Longrightarrow> version_row_check (v\<lparr>pv_status := s, pv_updatedAt := ptw_now w\<rparr>)
    \<Longrightarrow> s = PvActive \<longrightarrow> (\<forall>x\<in>set (ptw_versions w). \<not> overlaps v x) \<Longrightarrow> price_effect w w'"

lemma transition_effect: "s \<noteq> PvSuperseded \<Longrightarrow> price_effect w (snd (transition s t i w))"
proof (cases "find (version_at t i) (ptw_versions w)")
  case None
  then show ?thesis by (simp add: transition_def price_stays)
next
  case (Some v)
  then have v: "v \<in> set (ptw_versions w)" by (auto simp: find_Some_iff)
  assume "s \<noteq> PvSuperseded"
  show ?thesis
  proof (cases "update_status s v w")
    case (Inl e)
    with Some show ?thesis by (simp add: transition_def price_stays)
  next
    case (Inr w')
    note moved = Inr [unfolded update_status_Inr]
    from Some Inr have "snd (transition s t i w) = w'" by (simp add: transition_def)
    with moved have e: "snd (transition s t i w) = with_status s v w" by simp
    show ?thesis by (rule price_moved [OF e v]) (use moved \<open>s \<noteq> PvSuperseded\<close> in simp_all)
  qed
qed

lemma activate_effect: "price_effect w (snd (activatePriceTable date_parse staleDays clock tenantId idValue w))"
proof -
  have "price_effect w (snd (case transition s tenantId i w of (r, w') \<Rightarrow> (f r, w')))" if "s \<noteq> PvSuperseded" for s i and f :: "price_record option result \<Rightarrow> json result"
    using transition_effect [OF that, of w tenantId i] by (simp add: case_prod_beta)
  then show ?thesis by (simp add: activatePriceTable_def price_stays split: sum.splits option.splits)
qed

lemma parsed_items:
  assumes "parsePriceTableCreateBody date_parse sha256_hex body = Inr input"
  shows "ptc_items input \<noteq> []" and "length (ptc_items input) \<le> 5000"
proof -
  from assms obtain p i vs items where "ptc_items input = items" "traverseR (priceItem p i) vs = Inr items"
      "vs \<noteq> []" "length vs \<le> 5000"
    by (auto simp: parsePriceTableCreateBody_def parseCommitmentPriceTable_def bindR_eq_Inr Let_def not_less
        split: if_splits json.splits)
  then have "length (ptc_items input) = length vs" "vs \<noteq> []" "length vs \<le> 5000" using traverseR_length by auto
  then show "ptc_items input \<noteq> []" "length (ptc_items input) \<le> 5000" by auto
qed

lemma create_Inr:
  assumes "create_version jsonb new_id tenantId input w = (Inr row, w')" and "sorted_wrt differ (ptw_items w)"
  obtains rows where "w' = w\<lparr>ptw_versions := ptw_versions w @ [draft_version new_id tenantId input (ptw_now w)], ptw_items := ptw_items w @ rows\<rparr>"
    and "version_row_check (draft_version new_id tenantId input (ptw_now w))"
    and "\<forall>x\<in>set (ptw_versions w). \<not> version_clash (draft_version new_id tenantId input (ptw_now w)) x"
    and "traverseR (item_row tenantId new_id input) (ptc_items input) = Inr rows"
    and "sorted_wrt differ (ptw_items w @ rows)"
    and "\<forall>x\<in>set rows. item_of_version x (draft_version new_id tenantId input (ptw_now w)) \<and> cents_in_range x"
    and "get_version tenantId new_id w' = Some row"
proof -
  let ?v = "draft_version new_id tenantId input (ptw_now w)"
  from assms(1) obtain w1 where v: "insert_version ?v w = Inr w1"
    and items: "insert_items jsonb tenantId new_id input (ptc_items input) w1 = Inr w'" and get: "get_version tenantId new_id w' = Some row"
    by (auto simp: create_version_def withPriceTransaction_def create_in_transaction_def bindR_eq_Inr split: if_splits sum.splits)
  note new = insert_version_Inr [OF v]
  from insert_items_Inr [OF items] new assms(2) obtain rows where rows: "w' = w1\<lparr>ptw_items := ptw_items w1 @ rows\<rparr>"
      "traverseR (item_row tenantId new_id input) (ptc_items input) = Inr rows" "sorted_wrt differ (ptw_items w1 @ rows)"
      "\<forall>x\<in>set rows. pit_tenantId x = tenantId \<and> pit_versionId x = new_id \<and> cents_in_range x" by auto
  have "pit_provider x = ptc_provider input \<and> pit_instrument x = ptc_instrument input" if "x \<in> set rows" for x
    using traverseR_set [OF rows(2) that] item_row_Inr by blast
  then have "\<forall>x\<in>set rows. item_of_version x ?v \<and> cents_in_range x" using rows(4) by (simp add: item_of_version_def draft_version_def)
  with rows new get show thesis by (intro that [of rows]) simp_all
qed

lemma price_create_effect:
  assumes "sorted_wrt differ (ptw_items w)"
  shows "price_effect w (snd (createPriceTable date_parse sha256_hex jsonb new_id tenantId body w))"
proof (cases "parsePriceTableCreateBody date_parse sha256_hex body")
  case (Inl e)
  then show ?thesis by (simp add: createPriceTable_def price_stays)
next
  case (Inr input)
  obtain r w' where c: "create_version jsonb new_id tenantId input w = (r, w')" by fastforce
  then have w': "snd (createPriceTable date_parse sha256_hex jsonb new_id tenantId body w) = w'" by (simp add: createPriceTable_def Inr)
  show ?thesis
  proof (cases r)
    case (Inl e)
    with c have "w' = w" by (auto simp: create_version_def withPriceTransaction_def split: if_splits sum.splits prod.splits)
    then show ?thesis by (simp add: w' price_stays)
  next
    case r: (Inr row)
    from create_Inr [OF c [unfolded r] assms] obtain rows
      where rows: "w' = w\<lparr>ptw_versions := ptw_versions w @ [draft_version new_id tenantId input (ptw_now w)], ptw_items := ptw_items w @ rows\<rparr>"
        "version_row_check (draft_version new_id tenantId input (ptw_now w))"
        "\<forall>x\<in>set (ptw_versions w). \<not> version_clash (draft_version new_id tenantId input (ptw_now w)) x"
        "traverseR (item_row tenantId new_id input) (ptc_items input) = Inr rows" "sorted_wrt differ (ptw_items w @ rows)"
        "\<forall>x\<in>set rows. item_of_version x (draft_version new_id tenantId input (ptw_now w)) \<and> cents_in_range x" .
    have "length rows = length (ptc_items input)" using rows(4) by (rule traverseR_length)
    with parsed_items [OF Inr] have "rows \<noteq> []" "length rows \<le> 5000" by auto
    then show ?thesis unfolding w' using rows by (intro price_added) (simp_all add: draft_version_def)
  qed
qed

section \<open>The invariant\<close>

definition price_tables_ok :: "price_world \<Rightarrow> bool" where
  "price_tables_ok w =
     (distinct (map pv_id (ptw_versions w))
      \<and> (\<forall>v\<in>set (ptw_versions w). version_row_check v \<and> pv_status v \<noteq> PvSuperseded \<and> pv_createdAt v \<le> ptw_now w
           \<and> items_of v w \<noteq> [] \<and> length (items_of v w) \<le> 5000
           \<and> (\<forall>x\<in>set (ptw_versions w). (version_clash v x \<longrightarrow> x = v) \<and> (pv_status v = PvActive \<longrightarrow> \<not> overlaps v x)))
      \<and> sorted_wrt differ (ptw_items w)
      \<and> (\<forall>x\<in>set (ptw_items w). cents_in_range x \<and> (\<exists>v\<in>set (ptw_versions w). item_of_version x v)))"

lemma ok_sorted: "price_tables_ok w \<Longrightarrow> sorted_wrt differ (ptw_items w)"
  by (simp add: price_tables_ok_def)

lemma ok_unique: "price_tables_ok w \<Longrightarrow> v \<in> set (ptw_versions w) \<Longrightarrow> x \<in> set (ptw_versions w) \<Longrightarrow> pv_id v = pv_id x \<Longrightarrow> v = x"
  unfolding price_tables_ok_def by (auto simp: distinct_map inj_on_def)

lemma ok_stays:
  assumes "price_tables_ok w" "ptw_versions w' = ptw_versions w" "ptw_items w' = ptw_items w" "ptw_now w \<le> ptw_now w'"
  shows "price_tables_ok w'"
  using assms unfolding price_tables_ok_def items_of_def by (auto intro: order_trans)

lemma version_clash_sym: "version_clash a b = version_clash b a"
  by (auto simp: version_clash_def same_market_def)

lemma new_items:
  assumes ok: "price_tables_ok w" and w': "w' = w\<lparr>ptw_versions := ptw_versions w @ [v], ptw_items := ptw_items w @ rows\<rparr>"
    and fresh: "\<And>x. x \<in> set (ptw_versions w) \<Longrightarrow> pv_id x \<noteq> pv_id v" and rows: "\<forall>x\<in>set rows. item_of_version x v \<and> cents_in_range x"
  shows "items_of v w' = rows"
proof -
  have "\<not> (pit_tenantId y = pv_tenantId v \<and> pit_versionId y = pv_id v)" if "y \<in> set (ptw_items w)" for y
    using ok that fresh unfolding price_tables_ok_def item_of_version_def by metis
  then have "filter (\<lambda>x. pit_tenantId x = pv_tenantId v \<and> pit_versionId x = pv_id v) (ptw_items w) = []" by (simp add: filter_empty_conv)
  then show ?thesis using rows by (simp add: items_of_def w' item_of_version_def)
qed

lemma ok_added:
  assumes ok: "price_tables_ok w" and w': "w' = w\<lparr>ptw_versions := ptw_versions w @ [v], ptw_items := ptw_items w @ rows\<rparr>"
    and draft: "pv_status v = PvDraft" and check: "version_row_check v" and at: "pv_createdAt v = ptw_now w"
    and new: "\<forall>x\<in>set (ptw_versions w). \<not> version_clash v x" and rows: "rows \<noteq> []" "length rows \<le> 5000"
    and items: "sorted_wrt differ (ptw_items w) \<longrightarrow> sorted_wrt differ (ptw_items w @ rows)" "\<forall>x\<in>set rows. item_of_version x v \<and> cents_in_range x"
  shows "price_tables_ok w'"
proof -
  have fresh: "pv_id x \<noteq> pv_id v" if "x \<in> set (ptw_versions w)" for x using new that by (auto simp: version_clash_def)
  have "items_of x w' = items_of x w" if x: "x \<in> set (ptw_versions w)" for x
    using items(2) fresh [OF x] by (auto simp: w' items_of_def item_of_version_def filter_empty_conv)
  moreover have "items_of v w' = rows" using new_items [OF ok w' fresh items(2)] .
  moreover have "\<not> overlaps x v" for x using draft by (simp add: overlaps_def)
  moreover have "\<forall>x\<in>set (ptw_versions w). \<not> version_clash x v" using new version_clash_sym by blast
  moreover have "pv_id v \<notin> pv_id ` set (ptw_versions w)" using fresh by force
  ultimately show ?thesis
    using ok draft check at new rows items
    by (auto simp: price_tables_ok_def w')
qed

text \<open>A version with another status, and what does not look at the status.\<close>

abbreviation restamp :: "price_status \<Rightarrow> int \<Rightarrow> price_version \<Rightarrow> price_version" where
  "restamp s now v \<equiv> v\<lparr>pv_status := s, pv_updatedAt := now\<rparr>"

lemma restamp_frame [simp]:
  "version_clash (restamp s n v) x = version_clash v x" "version_clash x (restamp s n v) = version_clash x v"
  "item_of_version y (restamp s n v) = item_of_version y v" "items_of (restamp s n v) w = items_of v w"
  "overlaps (restamp s n v) x = overlaps v x"
  by (simp_all add: version_clash_def same_market_def item_of_version_def items_of_def overlaps_def)

lemma items_of_status [simp]: "items_of x (with_status s v w) = items_of x w"
  by (simp add: items_of_def)

lemma overlaps_sym: "pv_status a = PvActive \<Longrightarrow> pv_status b = PvActive \<Longrightarrow> overlaps a b = overlaps b a"
  by (auto simp: overlaps_def same_market_def)

lemma with_status_versions:
  assumes "price_tables_ok w" and "v \<in> set (ptw_versions w)"
  shows "set (ptw_versions (with_status s v w)) = insert (restamp s (ptw_now w) v) (set (ptw_versions w) - {v})"
    and "map pv_id (ptw_versions (with_status s v w)) = map pv_id (ptw_versions w)"
proof -
  have "pv_id x = pv_id v \<longleftrightarrow> x = v" if "x \<in> set (ptw_versions w)" for x using ok_unique [OF assms(1) that assms(2)] by auto
  then have "map (\<lambda>x. if pv_id x = pv_id v then restamp s (ptw_now w) v else x) (ptw_versions w)
      = map (\<lambda>x. if x = v then restamp s (ptw_now w) v else x) (ptw_versions w)" by simp
  then show "set (ptw_versions (with_status s v w)) = insert (restamp s (ptw_now w) v) (set (ptw_versions w) - {v})"
    and "map pv_id (ptw_versions (with_status s v w)) = map pv_id (ptw_versions w)"
    using assms(2) by (auto simp: with_status_def)
qed

lemma ok_moved:
  assumes ok: "price_tables_ok w" and v: "v \<in> set (ptw_versions w)" and s: "s \<noteq> PvSuperseded"
    and check: "version_row_check (restamp s (ptw_now w) v)"
    and free: "s = PvActive \<longrightarrow> (\<forall>x\<in>set (ptw_versions w). \<not> overlaps v x)"
  shows "price_tables_ok (with_status s v w)"
proof -
  let ?v = "restamp s (ptw_now w) v"
  have all: "version_row_check a \<and> pv_status a \<noteq> PvSuperseded \<and> pv_createdAt a \<le> ptw_now w \<and> items_of a w \<noteq> []
      \<and> length (items_of a w) \<le> 5000 \<and> (\<forall>x\<in>set (ptw_versions w). (version_clash a x \<longrightarrow> x = a) \<and> (pv_status a = PvActive \<longrightarrow> \<not> overlaps a x))"
    if "a \<in> set (ptw_versions w)" for a
    using ok that by (simp add: price_tables_ok_def)
  have pair: "\<not> overlaps a ?v" if a: "a \<in> set (ptw_versions w)" "a \<noteq> v" "pv_status a = PvActive" for a
  proof (cases "s = PvActive")
    case True
    with free a(1) have "\<not> overlaps ?v a" by simp
    with a(3) True show ?thesis by (subst overlaps_sym) simp_all
  qed (simp add: overlaps_def)
  have self: "\<not> overlaps ?v ?v" by (simp add: overlaps_def)
  have "\<exists>x\<in>set (ptw_versions (with_status s v w)). item_of_version y x" if y: "y \<in> set (ptw_items w)" for y
  proof -
    from ok y obtain x where "x \<in> set (ptw_versions w)" "item_of_version y x" by (auto simp: price_tables_ok_def)
    then show ?thesis unfolding with_status_versions(1) [OF ok v] by (cases "x = v") auto
  qed
  moreover have "version_clash v x \<longrightarrow> x = v" "version_clash x v \<longrightarrow> x = v" if "x \<in> set (ptw_versions w)" for x
    using all [OF v] that version_clash_sym [of x v] by blast+
  ultimately show ?thesis
    unfolding price_tables_ok_def with_status_versions [OF ok v]
    using ok all v s check free pair self
    by (auto simp: price_tables_ok_def)
qed

lemma price_effect_ok: "price_effect w w' \<Longrightarrow> price_tables_ok w \<Longrightarrow> price_tables_ok w'"
  by (induction rule: price_effect.induct) (auto intro: ok_stays ok_added ok_moved)

lemma step_effect:
  assumes "price_step date_parse sha256_hex jsonb w w'" and "price_tables_ok w"
  shows "price_effect w w'"
  using assms(1) by (rule price_stepE) (simp_all add: price_create_effect [OF ok_sorted [OF assms(2)]] activate_effect price_stays)

lemma price_reachable_ok: "price_reachable date_parse sha256_hex jsonb w \<Longrightarrow> price_tables_ok w"
proof (induction rule: price_reachable.induct)
  case (price_start w)
  then show ?case by (simp add: price_tables_ok_def)
next
  case (price_next w w')
  then show ?case using step_effect price_effect_ok by blast
qed

section \<open>Errors\<close>

lemma refusing_fields [refusal]:
  "refusing (parseProvider v)" "refusing (parseInstrument v)" "refusing (term_value v)" "refusing (payment v)" "refusing (coverage v)"
  "refusing (validateCoverageRules p i r)" "refusing (cleanText a b v)" "refusing (unsignedInteger v)" "refusing (objectKey v)"
  "refusing (dateValue dp v)"
  by (auto simp: parseProvider_def parseInstrument_def term_value_def payment_def coverage_def validateCoverageRules_def cleanText_def
      unsignedInteger_def objectKey_def dateValue_def Let_def split: json.splits option.splits intro!: refusal)

lemma refusing_item [refusal]: "refusing (priceItem p i v)"
  unfolding priceItem_def by (intro refusal)

lemma refusing_nullable [refusal]: "refusing (nullableDate dp v)"
  unfolding nullableDate_def by (intro refusal)

lemma refusing_body: "refusing (parsePriceTableCreateBody dp sha body)"
  unfolding parsePriceTableCreateBody_def parseCommitmentPriceTable_def Let_def
  by (intro refusal) (auto split: json.splits intro!: refusal)

lemma throwing_insert: "throwing (insert_version v w)" "throwing (insert_item jsonb x w)"
  by (simp_all add: insert_version_def insert_item_def split: option.splits)

lemma throwing_items: "throwing (insert_items jsonb t i input xs w)"
proof (induction xs arbitrary: w)
  case (Cons x xs)
  have "throwing (item_row t i input x)"
    unfolding item_row_def by (intro throwing_bind) (simp_all add: bigint_cast_def)
  with Cons show ?case by (auto intro!: throwing_bind throwing_insert)
qed simp

lemma create_throws: "throwing (create_in_transaction jsonb new_id t input w)"
  unfolding create_in_transaction_def by (intro throwing_bind throwing_insert throwing_items) simp_all

lemma safe_throwing: "throwing r \<Longrightarrow> r = Inl e \<Longrightarrow> price_safe r = Inl price_unavailable"
  by (auto simp: throwing_def price_safe_def)

lemma create_outcome:
  assumes "create_version jsonb new_id t input w = (r, w')"
  shows "price_safe r = Inl price_unavailable \<and> w' = w \<or> ok r"
proof (cases r)
  case (Inl e)
  with assms create_throws [of jsonb new_id t input w] show ?thesis
    by (auto simp: create_version_def withPriceTransaction_def price_safe_def throwing_def split: if_splits sum.splits prod.splits)
qed simp

section \<open>What an update leaves to read\<close>

lemma get_after_status:
  assumes ok: "price_tables_ok w" and found: "find (version_at t i) (ptw_versions w) = Some v"
  shows "get_version t i (with_status s v w) = Some \<lparr>pr_version = restamp s (ptw_now w) v, pr_itemCount = show_nat (length (items_of v w))\<rparr>"
proof -
  have v: "version_at t i v" "v \<in> set (ptw_versions w)" using found by (auto simp: find_Some_iff)
  have "version_at t i (if pv_id x = pv_id v then restamp s (ptw_now w) v else x) = version_at t i x" if "x \<in> set (ptw_versions w)" for x
    using ok_unique [OF ok that v(2)] v(1) by (auto simp: version_at_def)
  then have "find (version_at t i) (ptw_versions (with_status s v w)) = Some (restamp s (ptw_now w) v)"
    unfolding with_status_def using found by (simp add: find_map_same)
  then show ?thesis by (simp add: get_version_def price_projection_def)
qed

lemma update_status_eq:
  assumes ok: "price_tables_ok w" and v: "v \<in> set (ptw_versions w)"
  shows "update_status s v w =
     (if \<not> status_move (pv_status v) s then Inl (sqlstate ''55000'')
      else if s = PvActive \<and> (\<exists>x\<in>set (ptw_versions w). overlaps v x) then Inl (sqlstate ''23P01'')
      else Inr (with_status s v w))"
proof -
  from ok v have "version_row_check v" "pv_createdAt v \<le> ptw_now w" by (simp_all add: price_tables_ok_def)
  then have "version_row_check (restamp s (ptw_now w) v)" by (simp add: version_row_check_def cong: option.case_cong)
  then show ?thesis by (auto simp: update_status_def with_status_def Let_def)
qed

lemma new_version_read:
  assumes ok: "price_tables_ok w" and w': "w' = w\<lparr>ptw_versions := ptw_versions w @ [v], ptw_items := ptw_items w @ rows\<rparr>"
    and new: "\<forall>x\<in>set (ptw_versions w). \<not> version_clash v x" and rows: "\<forall>x\<in>set rows. item_of_version x v \<and> cents_in_range x"
  shows "get_version (pv_tenantId v) (pv_id v) w' = Some \<lparr>pr_version = v, pr_itemCount = show_nat (length rows)\<rparr>"
proof -
  have fresh: "pv_id x \<noteq> pv_id v" if "x \<in> set (ptw_versions w)" for x using new that by (auto simp: version_clash_def)
  then have "find (version_at (pv_tenantId v) (pv_id v)) (ptw_versions w) = None" by (auto simp: find_None_iff version_at_def)
  then have "find (version_at (pv_tenantId v) (pv_id v)) (ptw_versions w') = Some v" by (simp add: w' find_snoc version_at_def)
  with new_items [OF ok w' fresh rows] show ?thesis by (simp add: get_version_def price_projection_def)
qed

lemma clash_refused:
  assumes "x \<in> set (ptw_versions w)" and "version_clash v x"
    and "create_version jsonb (pv_id v) (pv_tenantId v) input w = (r, w')" and "v = draft_version (pv_id v) (pv_tenantId v) input (ptw_now w)"
  shows "\<not> ok r"
proof
  assume "ok r"
  then obtain row where "r = Inr row" by (cases r) auto
  with assms(3) obtain w1 where "insert_version (draft_version (pv_id v) (pv_tenantId v) input (ptw_now w)) w = Inr w1"
    by (auto simp: create_version_def withPriceTransaction_def create_in_transaction_def bindR_eq_Inr split: if_splits sum.splits)
  with assms(4) have "insert_version v w = Inr w1" by simp
  with insert_version_Inr assms(1,2) show False by blast
qed

section \<open>A sample\<close>

definition sample_dates :: "string \<Rightarrow> int option" where
  "sample_dates s = (if s = ''2026-07-01T00:00:00Z'' then Some 1782864000000 else None)"

definition sample_sha :: "string \<Rightarrow> string" where
  "sample_sha s = replicate 64 (CHR ''a'')"

definition sample_price_body :: json where
  "sample_price_body = JObj
     [(''provider'', JStr ''aws''), (''instrument'', JStr ''aws_compute_savings_plan''), (''version_label'', JStr ''2026-07''),
      (''effective_from'', JStr ''2026-07-01''), (''effective_to'', JNull), (''source_uri'', JStr ''prices/a.json''),
      (''items'', JArr [JObj
         [(''sku'', JStr ''m5''), (''region'', JStr ''us''), (''term_months'', JInt 12), (''payment_option'', JStr ''no_upfront''),
          (''hourly_rate_cents'', JStr ''7''), (''upfront_cents'', JStr ''0''),
          (''coverage_rules'', JObj [(''usage_family'', JStr ''compute''), (''service_code'', JStr ''AmazonEC2'')])]])]"

definition sample_prices :: price_world where
  "sample_prices = \<lparr>ptw_tenants = [''t''], ptw_versions = [], ptw_items = [], ptw_now = 1782900000000000\<rparr>"

definition sample_version_id :: string where
  "sample_version_id = ''00000000-0000-4000-8000-000000000001''"

definition sample_input :: price_table_input where
  "sample_input = \<lparr>ptc_provider = Aws, ptc_instrument = AwsComputeSavingsPlan, ptc_versionLabel = ''2026-07'',
     ptc_effectiveFrom = ''2026-07-01'', ptc_effectiveTo = None, ptc_sourceUri = ''prices/a.json'',
     ptc_items = [\<lparr>pti_sku = ''m5'', pti_region = ''us'', pti_termMonths = 12, pti_paymentOption = NoUpfront,
       pti_hourlyRateCents = ''7'', pti_upfrontCents = ''0'',
       pti_coverageRules = [(''usage_family'', JStr ''compute''), (''service_code'', JStr ''AmazonEC2'')]\<rparr>],
     ptc_checksum = replicate 64 (CHR ''a'')\<rparr>"

definition sample_version :: "price_status \<Rightarrow> price_version" where
  "sample_version s = (draft_version sample_version_id ''t'' sample_input 1782900000000000)\<lparr>pv_status := s\<rparr>"

definition sample_price_row :: price_row where
  "sample_price_row = \<lparr>pit_tenantId = ''t'', pit_versionId = sample_version_id, pit_provider = Aws, pit_instrument = AwsComputeSavingsPlan,
     pit_sku = ''m5'', pit_region = ''us'', pit_termMonths = 12, pit_paymentOption = NoUpfront, pit_hourlyRateCents = 7,
     pit_upfrontCents = 0, pit_coverageRules = JObj [(''usage_family'', JStr ''compute''), (''service_code'', JStr ''AmazonEC2'')]\<rparr>"

definition sample_tables :: "price_status \<Rightarrow> price_world" where
  "sample_tables s = sample_prices\<lparr>ptw_versions := [sample_version s], ptw_items := [sample_price_row]\<rparr>"

definition sample_record :: "price_status \<Rightarrow> price_record" where
  "sample_record s = \<lparr>pr_version = sample_version s, pr_itemCount = ''1''\<rparr>"

lemma sample_parse: "parsePriceTableCreateBody sample_dates sample_sha sample_price_body = Inr sample_input"
  by code_simp

lemma sample_insert:
  "create_version (\<lambda>_. Some 60) sample_version_id ''t'' sample_input sample_prices = (Inr (sample_record PvDraft), sample_tables PvDraft)"
  by code_simp

abbreviation sample_create :: "json result \<times> price_world" where
  "sample_create \<equiv> createPriceTable sample_dates sample_sha (\<lambda>_. Some 60) sample_version_id ''t'' sample_price_body sample_prices"

lemma sample_price_created: "sample_create = (Inr (toPriceTable (sample_record PvDraft)), sample_tables PvDraft)"
  by (simp add: createPriceTable_def sample_parse sample_insert price_safe_def)

abbreviation sample_activate :: "json result \<times> price_world" where
  "sample_activate \<equiv> activatePriceTable sample_dates 30 1782900000000 ''t'' (JStr sample_version_id) (sample_tables PvDraft)"

lemma sample_steps:
  "parsePriceTableId (JStr sample_version_id) = Inr sample_version_id"
  "get_version ''t'' sample_version_id (sample_tables PvDraft) = Some (sample_record PvDraft)"
  "isStale sample_dates (pv_effectiveFrom (pr_version (sample_record PvDraft))) 30 1782900000000 = False"
  "transition PvActive ''t'' sample_version_id (sample_tables PvDraft) = (Inr (Some (sample_record PvActive)), sample_tables PvActive)"
  by code_simp+

lemma sample_activated: "sample_activate = (Inr (toPriceTable (sample_record PvActive)), sample_tables PvActive)"
  by (simp add: activatePriceTable_def sample_steps price_safe_def)

lemma sample_reachable:
  "price_reachable sample_dates sample_sha (\<lambda>_. Some 60) sample_prices"
  "price_reachable sample_dates sample_sha (\<lambda>_. Some 60) (sample_tables PvDraft)"
  "price_reachable sample_dates sample_sha (\<lambda>_. Some 60) (sample_tables PvActive)"
proof -
  let ?r = "price_reachable sample_dates sample_sha (\<lambda>_. Some 60)"
  show start: "?r sample_prices" by (rule price_start) (simp_all add: sample_prices_def)
  from price_next [OF start step_create] have "?r (snd sample_create)" .
  then show draft: "?r (sample_tables PvDraft)" by (simp add: sample_price_created)
  from price_next [OF draft step_activate] have "?r (snd sample_activate)" .
  then show "?r (sample_tables PvActive)" by (simp add: sample_activated)
qed

section \<open>Properties\<close>

text \<open>
  C23: In every state the service reaches, price tables are whole and unambiguous: ids are unique, every version
  satisfies its row's constraints and has between one and 5000 items, every item belongs to exactly one
  version, has distinct dimensions and cents within a bigint, and on no day do two active versions of one
  tenant, provider and instrument apply.
\<close>

theorem price_tables_consistent:
  assumes "price_reachable date_parse sha256_hex jsonb w"
  shows "distinct (map pv_id (ptw_versions w))
    \<and> (\<forall>v\<in>set (ptw_versions w). version_row_check v \<and> 1 \<le> length (items_of v w) \<and> length (items_of v w) \<le> 5000)
    \<and> (\<forall>x\<in>set (ptw_items w). cents_in_range x \<and> (\<exists>!v. v \<in> set (ptw_versions w) \<and> item_of_version x v))
    \<and> sorted_wrt (\<lambda>x y. \<not> same_dimensions x y) (ptw_items w)
    \<and> (\<forall>d. \<forall>a\<in>set (ptw_versions w). \<forall>b\<in>set (ptw_versions w).
         same_market a b \<and> pv_status a = PvActive \<and> pv_status b = PvActive \<and> applies_on d a \<and> applies_on d b \<longrightarrow> a = b)"
proof -
  have ok: "price_tables_ok w" by (rule price_reachable_ok [OF assms])
  have one: "a = b" if "a \<in> set (ptw_versions w)" "b \<in> set (ptw_versions w)" "same_market a b" "pv_status a = PvActive"
      "pv_status b = PvActive" "applies_on d a" "applies_on d b" for a b d
  proof (rule ccontr)
    assume "a \<noteq> b"
    then have "pv_id b \<noteq> pv_id a" using ok_unique [OF ok] that(1,2) by metis
    with that have "overlaps a b" by (auto simp: overlaps_def same_market_def intro: applies_overlap)
    with ok that show False by (simp add: price_tables_ok_def)
  qed
  have ex1: "\<exists>!v. v \<in> set (ptw_versions w) \<and> item_of_version x v" if x: "x \<in> set (ptw_items w)" for x
  proof -
    from ok x obtain v where v: "v \<in> set (ptw_versions w)" "item_of_version x v" by (auto simp: price_tables_ok_def)
    then show ?thesis using ok_unique [OF ok] by (intro ex1I [of _ v]) (auto simp: item_of_version_def)
  qed
  have "sorted_wrt (\<lambda>x y. \<not> same_dimensions x y) (ptw_items w)"
    using ok_sorted [OF ok] by (simp add: differ_def [abs_def])
  moreover have "1 \<le> length (items_of v w)" if "v \<in> set (ptw_versions w)" for v
    using ok that by (simp add: price_tables_ok_def Suc_le_eq)
  ultimately show ?thesis using ok one ex1 by (auto simp: price_tables_ok_def)
qed

theorem price_tables_consistent_witness:
  "map pv_status (ptw_versions (sample_tables PvActive)) = [PvActive] \<and> distinct (map pv_id (ptw_versions (sample_tables PvActive)))"
  using price_tables_consistent [OF sample_reachable(3)] by (simp add: sample_tables_def sample_version_def)

text \<open>
  C24: What an activation does, on every branch: a bad id is refused, an unknown one not found; a stale draft or
  active table is blocked and answered with PRICE_TABLE_STALE; a fresh draft that overlaps no active
  table becomes active, and the answer is its new row with its number of items; in every other case
  (a table that is active or blocked already, or an overlap) the answer is the 503 of an unavailable
  service and nothing changes.
\<close>

theorem activation_outcome:
  assumes "price_reachable date_parse sha256_hex jsonb w"
  shows "activatePriceTable date_parse staleDays clock tenantId idValue w =
    (case parsePriceTableId idValue of
       Inl e \<Rightarrow> (Inl invalid_request, w)
     | Inr i \<Rightarrow>
        (case find (version_at tenantId i) (ptw_versions w) of
           None \<Rightarrow> (Inl price_not_found, w)
         | Some v \<Rightarrow>
             if isStale date_parse (pv_effectiveFrom v) staleDays clock then
               (if pv_status v \<in> {PvDraft, PvActive} then (Inl price_stale, with_status PvBlocked v w) else (Inl price_unavailable, w))
             else if pv_status v = PvDraft \<and> \<not> (\<exists>x\<in>set (ptw_versions w). overlaps v x) then
               (Inr (toPriceTable \<lparr>pr_version = v\<lparr>pv_status := PvActive, pv_updatedAt := ptw_now w\<rparr>,
                  pr_itemCount = show_nat (length (items_of v w))\<rparr>), with_status PvActive v w)
             else (Inl price_unavailable, w)))"
proof (cases "parsePriceTableId idValue")
  case (Inl e)
  then have "e = invalid_request"
    by (auto simp: parsePriceTableId_def string_input_def bindR_eq_Inl split: json.splits if_splits)
  with Inl show ?thesis by (simp add: activatePriceTable_def)
next
  case (Inr i)
  have ok: "price_tables_ok w" by (rule price_reachable_ok [OF assms])
  show ?thesis
  proof (cases "find (version_at tenantId i) (ptw_versions w)")
    case None
    with Inr show ?thesis by (simp add: activatePriceTable_def get_version_def)
  next
    case (Some v)
    then have v: "v \<in> set (ptw_versions w)" by (auto simp: find_Some_iff)
    note frame = get_after_status [OF ok Some] update_status_eq [OF ok v]
    have "get_version tenantId i w = Some (price_projection w v)" by (simp add: get_version_def Some)
    then show ?thesis
      using Inr Some v
      by (cases "pv_status v")
        (auto simp: activatePriceTable_def transition_def frame status_move_def price_safe_def price_projection_def sqlstate_def)
  qed
qed

theorem activation_outcome_witness:
  "activatePriceTable sample_dates 30 1782900000000 ''t'' (JStr sample_version_id) (sample_tables PvActive)
     = (Inl price_unavailable, sample_tables PvActive)"
proof -
  have "find (version_at ''t'' sample_version_id) (ptw_versions (sample_tables PvActive)) = Some (sample_version PvActive)" by code_simp
  moreover have "isStale sample_dates (pv_effectiveFrom (sample_version PvActive)) 30 1782900000000 = False" by code_simp
  ultimately show ?thesis unfolding activation_outcome [OF sample_reachable(3)]
    by (simp add: sample_steps sample_version_def)
qed

text \<open>
  A creation answers or leaves no trace: a body that is refused with 400 or answered with 503 changes nothing;
  otherwise the one new row is the draft of the parsed body, its items are exactly the parsed items in
  their order, the answer is its row with their number, and the same body is refused from then on, for any
  generated id, by the unique constraint on labels and checksums.
\<close>

theorem price_table_created:
  assumes "price_reachable date_parse sha256_hex jsonb w"
    and "createPriceTable date_parse sha256_hex jsonb new_id tenantId body w = (r, w')"
  shows "(case r of
      Inl e \<Rightarrow> w' = w \<and> e \<in> {invalid_request, price_unavailable}
    | Inr answer \<Rightarrow> \<exists>input rows. parsePriceTableCreateBody date_parse sha256_hex body = Inr input
        \<and> ptw_versions w' = ptw_versions w @ [draft_version new_id tenantId input (ptw_now w)] \<and> ptw_items w' = ptw_items w @ rows
        \<and> traverseR (item_row tenantId new_id input) (ptc_items input) = Inr rows
        \<and> answer = toPriceTable \<lparr>pr_version = draft_version new_id tenantId input (ptw_now w), pr_itemCount = show_nat (length rows)\<rparr>
        \<and> (\<forall>other_id. createPriceTable date_parse sha256_hex jsonb other_id tenantId body w' = (Inl price_unavailable, w')))"
proof (cases "parsePriceTableCreateBody date_parse sha256_hex body")
  case (Inl e)
  with refusing_body [of date_parse sha256_hex body] assms(2) show ?thesis by (auto simp: createPriceTable_def refusing_def)
next
  case (Inr input)
  let ?v = "draft_version new_id tenantId input (ptw_now w)"
  have ok: "price_tables_ok w" by (rule price_reachable_ok [OF assms(1)])
  obtain q where c: "create_version jsonb new_id tenantId input w = (q, w')" and r: "r = bindR (price_safe q) (\<lambda>row. Inr (toPriceTable row))"
    using assms(2) Inr by (auto simp: createPriceTable_def split: prod.splits)
  show ?thesis
  proof (cases q)
    case q: (Inl e)
    with create_outcome [OF c] r show ?thesis by auto
  next
    case q: (Inr row)
    from create_Inr [OF c [unfolded q] ok_sorted [OF ok]] obtain rows
      where w': "w' = w\<lparr>ptw_versions := ptw_versions w @ [?v], ptw_items := ptw_items w @ rows\<rparr>"
        and new: "\<forall>x\<in>set (ptw_versions w). \<not> version_clash ?v x"
        and rows: "traverseR (item_row tenantId new_id input) (ptc_items input) = Inr rows"
        and of_v: "\<forall>x\<in>set rows. item_of_version x ?v \<and> cents_in_range x" and get: "get_version tenantId new_id w' = Some row" by blast
    have tenant: "tenantId \<in> set (ptw_tenants w)" using c q by (auto simp: create_version_def withPriceTransaction_def split: if_splits)
    have "row = \<lparr>pr_version = ?v, pr_itemCount = show_nat (length rows)\<rparr>"
      using get new_version_read [OF ok w' new of_v] by (simp add: draft_version_def)
    moreover have "createPriceTable date_parse sha256_hex jsonb other_id tenantId body w' = (Inl price_unavailable, w')" for other_id
    proof -
      obtain q2 w2 where c2: "create_version jsonb other_id tenantId input w' = (q2, w2)" by fastforce
      have "\<not> ok q2" using clash_refused [of ?v w' "draft_version other_id tenantId input (ptw_now w')"] c2 w'
        by (auto simp: version_clash_def same_market_def draft_version_def)
      with create_outcome [OF c2] show ?thesis by (simp add: createPriceTable_def Inr c2)
    qed
    ultimately show ?thesis using Inr q r w' rows by (simp add: price_safe_def)
  qed
qed

theorem price_table_created_witness:
  "fst (createPriceTable sample_dates sample_sha (\<lambda>_. Some 60) ''other'' ''t'' sample_price_body (sample_tables PvDraft)) = Inl price_unavailable"
  using price_table_created [OF sample_reachable(1) sample_price_created] by auto

end
