(* ===== verification/Notifications.thy ===== *)
theory Notifications
  imports Users
begin

text \<open>
  Notifications: core/notifications/notifications-input.ts, notifications-repository.ts and
  notifications-service.ts, over the tables of migrations 0024 and 0025 with their constraints and
  triggers and the users of theory Sessions. Generated ids, the files of the templates, the casts of a
  cursor and what \<open>jsonb\<close> makes of a value are arguments.
\<close>

section \<open>Types\<close>

datatype notification_status = NtUnread | NtRead | NtArchived | NtDismissed

definition notification_status_text :: "notification_status \<Rightarrow> string" where
  "notification_status_text s = (case s of NtUnread \<Rightarrow> ''unread'' | NtRead \<Rightarrow> ''read'' | NtArchived \<Rightarrow> ''archived'' | NtDismissed \<Rightarrow> ''dismissed'')"

datatype urgency = LowUrgency | MediumUrgency | HighUrgency

definition urgency_text :: "urgency \<Rightarrow> string" where
  "urgency_text u = (case u of LowUrgency \<Rightarrow> ''low'' | MediumUrgency \<Rightarrow> ''medium'' | HighUrgency \<Rightarrow> ''high'')"

datatype channel = InApp | Email

definition channel_text :: "channel \<Rightarrow> string" where
  "channel_text c = (case c of InApp \<Rightarrow> ''in_app'' | Email \<Rightarrow> ''email'')"

datatype source_type = ImportBatchSource | RecommendationSource | ApprovalSource | BacktestRunSource | EcosystemEventSource | SystemSource

definition source_text :: "source_type \<Rightarrow> string" where
  "source_text s = (case s of ImportBatchSource \<Rightarrow> ''import_batch'' | RecommendationSource \<Rightarrow> ''recommendation''
     | ApprovalSource \<Rightarrow> ''approval'' | BacktestRunSource \<Rightarrow> ''backtest_run'' | EcosystemEventSource \<Rightarrow> ''ecosystem_event''
     | SystemSource \<Rightarrow> ''system'')"

record notification =
  nt_id :: string
  nt_tenantId :: string
  nt_recipientUserId :: string
  nt_eventType :: string
  nt_sourceType :: source_type
  nt_sourceId :: "string option"
  nt_templateId :: string
  nt_urgency :: urgency
  nt_title :: string
  nt_body :: string
  nt_payload :: "(string \<times> json) list"
  nt_status :: notification_status
  nt_readAt :: "int option"
  nt_createdAt :: int
  nt_updatedAt :: int

record preference =
  np_id :: string
  np_tenantId :: string
  np_userId :: string
  np_eventType :: string
  np_channel :: channel
  np_urgency :: urgency
  np_enabled :: bool
  np_lockedByAdmin :: bool
  np_createdAt :: int
  np_updatedAt :: int

record preference_input =
  npi_eventType :: string
  npi_channel :: channel
  npi_urgency :: urgency
  npi_enabled :: bool
  npi_lockedByAdmin :: "bool option"

record notification_event =
  ne_tenantId :: string
  ne_eventType :: string
  ne_eventId :: string
  ne_sourceType :: source_type
  ne_sourceId :: "string option"
  ne_templateName :: string
  ne_urgency :: urgency
  ne_payload :: "(string \<times> json) list"
  ne_recipientUserIds :: "string list option"
  ne_recipientRoles :: "string list option"

record notification_query =
  nq_limit :: nat
  nq_cursor :: "string option"
  nq_status :: "notification_status option"
  nq_eventType :: "string option"

section \<open>Input\<close>

definition record_input :: "json \<Rightarrow> (string \<times> json) list result" where
  "record_input v = (case v of JObj kvs \<Rightarrow> Inr kvs | _ \<Rightarrow> Inl invalid_request)"

definition one_of :: "('a \<Rightarrow> string) \<Rightarrow> 'a list \<Rightarrow> json \<Rightarrow> 'a result" where
  "one_of text allowed v = bindR (string_input v) (\<lambda>s. orElse (find (\<lambda>x. text x = s) allowed) invalid_request)"

definition safeText :: "nat \<Rightarrow> json \<Rightarrow> string result" where
  "safeText limit v = bindR (string_input v) (\<lambda>s.
     let normalized = trim s in
     if normalized \<noteq> [] \<and> length normalized \<le> limit \<and> \<not> hasControlCharacters normalized then Inr s else Inl invalid_request)"

definition parseNotificationId :: "json \<Rightarrow> string result" where
  "parseNotificationId v = bindR (string_input v) (\<lambda>s. if lower_uuid s then Inr s else Inl invalid_request)"

definition notification_limit :: "json \<Rightarrow> nat result" where
  "notification_limit v = (case v of JUndefined \<Rightarrow> Inr 25 | JStr s \<Rightarrow> orElse (page_limit s) invalid_request | _ \<Rightarrow> Inl invalid_request)"

definition parseNotificationListQuery :: "json \<Rightarrow> notification_query result" where
  "parseNotificationListQuery v =
     bindR (record_input v) (\<lambda>kvs.
     bindR (notification_limit (json_prop kvs ''limit'')) (\<lambda>limit.
     bindR (given (\<lambda>c. bindR (string_input c) (\<lambda>s. if length s \<le> 512 \<and> 0 < length s then Inr s else Inl invalid_request))
         (json_prop kvs ''cursor'')) (\<lambda>cursor.
     bindR (given (one_of notification_status_text [NtUnread, NtRead, NtArchived, NtDismissed]) (json_prop kvs ''status'')) (\<lambda>status.
     bindR (given (safeText 200) (json_prop kvs ''event_type'')) (\<lambda>eventType.
     Inr \<lparr>nq_limit = limit, nq_cursor = cursor, nq_status = status, nq_eventType = eventType\<rparr>)))))"

definition preference_entry :: "json \<Rightarrow> preference_input result" where
  "preference_entry v =
     bindR (closedRecord v [''event_type'', ''channel'', ''urgency'', ''enabled'', ''locked_by_admin'']) (\<lambda>row.
     bindR (safeText 200 (json_prop row ''event_type'')) (\<lambda>eventType.
     bindR (one_of channel_text [InApp, Email] (json_prop row ''channel'')) (\<lambda>channel.
     bindR (one_of urgency_text [LowUrgency, MediumUrgency, HighUrgency] (json_prop row ''urgency'')) (\<lambda>urgency.
     bindR (bool_input (json_prop row ''enabled'')) (\<lambda>enabled.
     bindR (given bool_input (json_prop row ''locked_by_admin'')) (\<lambda>locked.
     Inr \<lparr>npi_eventType = eventType, npi_channel = channel, npi_urgency = urgency, npi_enabled = enabled, npi_lockedByAdmin = locked\<rparr>))))))"

text \<open>The set of keys seen refuses a repetition; a key joins the two texts with a character neither contains.\<close>

definition input_key :: "preference_input \<Rightarrow> string \<times> channel" where
  "input_key p = (npi_eventType p, npi_channel p)"

definition parseNotificationPreferences :: "json \<Rightarrow> preference_input list result" where
  "parseNotificationPreferences v =
     bindR (closedRecord v [''preferences'']) (\<lambda>kvs.
     case json_prop kvs ''preferences'' of
       JArr vs \<Rightarrow>
         if length vs > 100 then Inl invalid_request
         else bindR (traverseR preference_entry vs) (\<lambda>ps. if distinct (map input_key ps) then Inr ps else Inl invalid_request)
     | _ \<Rightarrow> Inl invalid_request)"

text \<open>\<open>[...new Set(xs)]\<close>: the first occurrences.\<close>

definition js_unique :: "'a list \<Rightarrow> 'a list" where
  "js_unique xs = rev (remdups (rev xs))"

definition parseUuidArray :: "json \<Rightarrow> string list result" where
  "parseUuidArray v =
     (case v of
        JArr vs \<Rightarrow> if length vs > 100 then Inl invalid_request
          else bindR (traverseR parseNotificationId vs) (\<lambda>xs. Inr (js_unique xs))
      | _ \<Rightarrow> Inl invalid_request)"

definition parseStringArray :: "json \<Rightarrow> string list result" where
  "parseStringArray v =
     (case v of
        JArr vs \<Rightarrow> if length vs > 16 then Inl invalid_request else bindR (traverseR (safeText 200) vs) (\<lambda>xs. Inr (js_unique xs))
      | _ \<Rightarrow> Inl invalid_request)"

definition array_or_empty :: "(json \<Rightarrow> 'a list result) \<Rightarrow> json \<Rightarrow> 'a list result" where
  "array_or_empty parse v = (if v = JUndefined then Inr [] else parse v)"

definition parseNotificationEventRecipients :: "json \<Rightarrow> (string list \<times> string list) result" where
  "parseNotificationEventRecipients v =
     bindR (closedRecord v [''user_ids'', ''roles'']) (\<lambda>kvs.
     bindR (array_or_empty parseUuidArray (json_prop kvs ''user_ids'')) (\<lambda>userIds.
     bindR (array_or_empty parseStringArray (json_prop kvs ''roles'')) (\<lambda>roles.
     if \<exists>r\<in>set roles. isUserRole (JStr r) = None then Inl invalid_request else Inr (userIds, roles))))"

section \<open>Templates\<close>

definition template_missing :: js_error where
  "template_missing = AppError ''NOTIFICATION_TEMPLATE_NOT_FOUND'' ''The notification template is unavailable.'' 503"

definition render_failed :: js_error where
  "render_failed = AppError ''NOTIFICATION_RENDER_FAILED'' ''The notification could not be rendered.'' 503"

text \<open>\<open>/^[a-z][a-z0-9_-]\{0,80\}$/u\<close>.\<close>

definition template_name :: "string \<Rightarrow> bool" where
  "template_name s =
     (s \<noteq> [] \<and> is_lower (hd s) \<and> list_all (\<lambda>c. is_lower c \<or> is_digit c \<or> c \<in> set ''_-'') s \<and> length s \<le> 81)"

definition notificationTemplateId :: "string \<Rightarrow> string result" where
  "notificationTemplateId templateName =
     (let normalized = trim templateName in
      if template_name normalized then Inr (''notification:'' @ normalized @ '':v1'') else Inl template_missing)"

text \<open>\<open>file\<close> reads a template, None when that fails.\<close>

definition resolveNotificationTemplate :: "(string \<Rightarrow> string option) \<Rightarrow> string \<Rightarrow> string \<Rightarrow> string result" where
  "resolveNotificationTemplate file templateId tenantId =
     (let name = take (length templateId - 16) (drop 13 templateId) in
      if templateId \<noteq> ''notification:'' @ name @ '':v1'' \<or> \<not> template_name name then Inl template_missing
      else orElse (file (map (\<lambda>c. if c = CHR '':'' then CHR ''_'' else c) templateId @ ''.hbs'')) template_missing)"

fun split_str :: "string \<Rightarrow> string \<Rightarrow> string list" where
  "split_str sep [] = [[]]"
| "split_str sep (c # cs) =
     (if take (length sep) (c # cs) = sep \<and> sep \<noteq> [] then [] # split_str sep (drop (length sep - 1) cs)
      else (case split_str sep cs of [] \<Rightarrow> [[c]] | p # ps \<Rightarrow> (c # p) # ps))"

definition text_value :: "json \<Rightarrow> string option" where
  "text_value v = (case v of JStr s \<Rightarrow> Some s | JInt i \<Rightarrow> Some (show_int i) | JFloat s \<Rightarrow> Some s
     | JBool b \<Rightarrow> Some (if b then ''true'' else ''false'') | _ \<Rightarrow> None)"

definition templateValue :: "string \<Rightarrow> notification_event \<Rightarrow> string option" where
  "templateValue key event =
     (if key = ''event_type'' then Some (ne_eventType event)
      else if key = ''event_id'' then Some (ne_eventId event)
      else if key = ''source_type'' then Some (source_text (ne_sourceType event))
      else if key = ''source_id'' then ne_sourceId event
      else if key = ''urgency'' then Some (urgency_text (ne_urgency event))
      else if take 8 key = ''payload.'' then text_value (json_prop (ne_payload event) (drop 8 key))
      else None)"

text \<open>
  A match of \<open>/\{\{\s*([a-z][a-z0-9_.-]\{0,80\})\s*\}\}/\<close> at the start of a text: its key and the text after it.
  White space, key characters and braces exclude each other, so that the match is unique.
\<close>

definition key_char :: "char \<Rightarrow> bool" where
  "key_char c = (is_lower c \<or> is_digit c \<or> c \<in> set ''_.-'')"

definition slot :: "string \<Rightarrow> (string \<times> string) option" where
  "slot s =
     (if take 2 s \<noteq> ''{{'' then None
      else let inner = dropWhile is_ws (drop 2 s); key = takeWhile key_char inner; after = dropWhile is_ws (dropWhile key_char inner) in
        if key \<noteq> [] \<and> is_lower (hd key) \<and> length key \<le> 81 \<and> take 2 after = ''}}'' then Some (key, drop 2 after) else None)"

lemma slot_shorter: "slot s = Some (key, rest) \<Longrightarrow> length rest < length s"
proof -
  assume a: "slot s = Some (key, rest)"
  let ?inner = "dropWhile is_ws (drop 2 s)"
  let ?after = "dropWhile is_ws (dropWhile key_char ?inner)"
  from a have r: "rest = drop 2 ?after" and "take 2 s = ''{{''" by (auto simp: slot_def Let_def split: if_splits)
  then have "s \<noteq> []" by auto
  have "length ?after \<le> length (drop 2 s)" by (meson length_dropWhile_le order_trans)
  then show ?thesis using \<open>s \<noteq> []\<close> by (cases s) (simp_all add: r)
qed

function substitute :: "notification_event \<Rightarrow> string \<Rightarrow> string result" where
  "substitute event s =
     (case s of
        [] \<Rightarrow> Inr []
      | c # cs \<Rightarrow>
          (case slot s of
             None \<Rightarrow> bindR (substitute event cs) (\<lambda>t. Inr (c # t))
           | Some (key, rest) \<Rightarrow>
               bindR (orElse (templateValue key event) render_failed) (\<lambda>v. bindR (substitute event rest) (\<lambda>t. Inr (v @ t)))))"
  by pat_completeness auto

termination
  by (relation "measure (\<lambda>(event, s). length s)") (auto dest: slot_shorter)

definition renderTemplatePart :: "string \<Rightarrow> notification_event \<Rightarrow> string result" where
  "renderTemplatePart template event =
     bindR (substitute event template) (\<lambda>rendered.
     if str_includes ''{{'' rendered then Inl render_failed
     else let normalized = trim rendered in
       if normalized = [] \<or> length normalized > 10000 \<or> hasControlCharacters normalized then Inl render_failed else Inr normalized)"

definition template_break :: string where
  "template_break = CHR 0x0A # ''---'' @ [CHR 0x0A]"

definition renderNotificationTemplate :: "string \<Rightarrow> notification_event \<Rightarrow> (string \<times> string) result" where
  "renderNotificationTemplate template event =
     (case split_str template_break template of
        [t, b] \<Rightarrow> bindR (renderTemplatePart t event) (\<lambda>title. bindR (renderTemplatePart b event) (\<lambda>body. Inr (title, body)))
      | _ \<Rightarrow> Inl render_failed)"

section \<open>The tables\<close>

record notification_world =
  nw_tenants :: "string list"
  nw_users :: "user_account list"
  nw_notifications :: "notification list"
  nw_preferences :: "preference list"
  nw_now :: int

definition payload_reserved :: "string list" where
  "payload_reserved = [''credentials'', ''credential'', ''password'', ''secret'', ''token'', ''api_key'', ''apiKey'', ''authorization'',
     ''cookie'', ''set-cookie'', ''raw_file'', ''raw_bytes'', ''raw_row'', ''raw_rows'', ''candidate_id'']"

definition notification_row_check :: "(json \<Rightarrow> nat option) \<Rightarrow> notification \<Rightarrow> bool" where
  "notification_row_check jsonb n =
     (clean_column 200 (nt_eventType n) \<and> clean_column 200 (nt_templateId n) \<and> clean_column 300 (nt_title n) \<and> clean_column 10000 (nt_body n)
      \<and> (case jsonb (JObj (nt_payload n)) of None \<Rightarrow> False | Some octets \<Rightarrow> octets \<le> 1048576)
      \<and> (\<forall>k\<in>set (object_keys (nt_payload n)). k \<notin> set payload_reserved)
      \<and> (nt_status n = NtUnread \<longleftrightarrow> nt_readAt n = None) \<and> nt_createdAt n \<le> nt_updatedAt n)"

definition user_of :: "string \<Rightarrow> string \<Rightarrow> user_account \<Rightarrow> bool" where
  "user_of tenantId userId u = (acc_tenantId u = tenantId \<and> acc_id u = userId)"

definition insert_notification :: "(json \<Rightarrow> nat option) \<Rightarrow> notification \<Rightarrow> notification_world \<Rightarrow> notification_world result" where
  "insert_notification jsonb n w =
     (if nt_status n \<noteq> NtUnread \<or> nt_readAt n \<noteq> None then Inl (sqlstate ''55000'')
      else if \<not> notification_row_check jsonb n then Inl (sqlstate ''23514'')
      else if \<exists>x\<in>set (nw_notifications w). nt_id x = nt_id n then Inl (sqlstate ''23505'')
      else if \<not> (\<exists>u\<in>set (nw_users w). user_of (nt_tenantId n) (nt_recipientUserId n) u) then Inl (sqlstate ''23503'')
      else Inr (w\<lparr>nw_notifications := nw_notifications w @ [n]\<rparr>))"

definition preference_row_check :: "preference \<Rightarrow> bool" where
  "preference_row_check p =
     (clean_column 200 (np_eventType p) \<and> (np_lockedByAdmin p \<longrightarrow> np_urgency p = HighUrgency \<and> np_channel p = InApp)
      \<and> np_createdAt p \<le> np_updatedAt p)"

definition same_preference :: "preference \<Rightarrow> preference \<Rightarrow> bool" where
  "same_preference p q =
     (np_tenantId p = np_tenantId q \<and> np_userId p = np_userId q \<and> np_eventType p = np_eventType q \<and> np_channel p = np_channel q)"

text \<open>\<open>INSERT \<dots> ON CONFLICT DO UPDATE \<dots> WHERE locked_by_admin = false OR $8 = 'tenant_admin'\<close>.\<close>

definition upsert_preference :: "user_role \<Rightarrow> preference \<Rightarrow> notification_world \<Rightarrow> notification_world result" where
  "upsert_preference actorRole p w =
     (if \<not> preference_row_check p then Inl (sqlstate ''23514'')
      else if \<exists>q\<in>set (nw_preferences w). same_preference p q then
        Inr (w\<lparr>nw_preferences := map (\<lambda>q. if same_preference p q \<and> (\<not> np_lockedByAdmin q \<or> actorRole = TenantAdmin)
          then q\<lparr>np_urgency := np_urgency p, np_enabled := np_enabled p, np_lockedByAdmin := np_lockedByAdmin p, np_updatedAt := nw_now w\<rparr>
          else q) (nw_preferences w)\<rparr>)
      else if \<exists>q\<in>set (nw_preferences w). np_id q = np_id p then Inl (sqlstate ''23505'')
      else if \<not> (\<exists>u\<in>set (nw_users w). user_of (np_tenantId p) (np_userId p) u) then Inl (sqlstate ''23503'')
      else Inr (w\<lparr>nw_preferences := nw_preferences w @ [p]\<rparr>))"

section \<open>The repository\<close>

definition of_recipient :: "string \<Rightarrow> string \<Rightarrow> notification \<Rightarrow> bool" where
  "of_recipient tenantId userId n = (nt_tenantId n = tenantId \<and> nt_recipientUserId n = userId)"

definition notification_key :: "notification \<Rightarrow> boundary" where
  "notification_key n = (micros_text (nt_createdAt n), nt_id n)"

definition list_notifications :: "(string \<Rightarrow> int option) \<Rightarrow> (string \<Rightarrow> string option) \<Rightarrow> string \<Rightarrow> string \<Rightarrow> notification_query
    \<Rightarrow> boundary option \<Rightarrow> notification_world \<Rightarrow> notification list result" where
  "list_notifications timestamptz_of uuid_of tenantId userId input cursor w =
     bindR (cast_boundary timestamptz_of uuid_of cursor) (\<lambda>b.
     Inr (keyset_query notification_key b (nq_limit input + 1)
       (filter (\<lambda>n. of_recipient tenantId userId n \<and> given_is (nq_status input) (nt_status n)
          \<and> given_is (nq_eventType input) (nt_eventType n)) (nw_notifications w))))"

definition unreadCount :: "string \<Rightarrow> string \<Rightarrow> notification_world \<Rightarrow> nat" where
  "unreadCount tenantId userId w = length (filter (\<lambda>n. of_recipient tenantId userId n \<and> nt_status n = NtUnread) (nw_notifications w))"

definition get_notification :: "string \<Rightarrow> string \<Rightarrow> string \<Rightarrow> notification_world \<Rightarrow> notification option" where
  "get_notification tenantId userId i w = find (\<lambda>n. of_recipient tenantId userId n \<and> nt_id n = i) (nw_notifications w)"

text \<open>The row of the UPDATE; the trigger refuses the terminal states and stamps every update.\<close>

definition read_row :: "int \<Rightarrow> notification \<Rightarrow> notification" where
  "read_row now n = (if nt_status n = NtUnread then n\<lparr>nt_status := NtRead, nt_readAt := Some now, nt_updatedAt := now\<rparr>
     else n\<lparr>nt_updatedAt := now\<rparr>)"

definition markRead :: "string \<Rightarrow> string \<Rightarrow> string \<Rightarrow> notification_world \<Rightarrow> notification option result \<times> notification_world" where
  "markRead tenantId userId i w =
     (case get_notification tenantId userId i w of
        None \<Rightarrow> (Inr None, w)
      | Some n \<Rightarrow>
          (let n' = read_row (nw_now w) n in
           if nt_status n \<in> {NtArchived, NtDismissed} then (Inl (sqlstate ''55000''), w)
           else if nt_updatedAt n' < nt_createdAt n' then (Inl (sqlstate ''23514''), w)
           else (Inr (Some n'), w\<lparr>nw_notifications := map (\<lambda>x. if nt_id x = i then n' else x) (nw_notifications w)\<rparr>)))"

definition preference_order :: "preference \<Rightarrow> string \<times> string" where
  "preference_order p = (np_eventType p, channel_text (np_channel p))"

definition preference_cmp :: "preference \<Rightarrow> preference \<Rightarrow> int" where
  "preference_cmp p q = (if preference_order p = preference_order q then 0 else if boundary_less (preference_order p) (preference_order q) then - 1 else 1)"

definition listPreferences :: "string \<Rightarrow> string \<Rightarrow> notification_world \<Rightarrow> preference list" where
  "listPreferences tenantId userId w =
     js_sort preference_cmp (filter (\<lambda>p. np_tenantId p = tenantId \<and> np_userId p = userId) (nw_preferences w))"

definition preference_locked :: js_error where
  "preference_locked = AppError ''NOTIFICATION_PREFERENCE_LOCKED'' ''This notification preference requires tenant-admin control.'' 409"

text \<open>One turn of the loop; \<open>previous\<close> is the row before the loop, \<open>new_id\<close> the id a new row gets.\<close>

definition replace_one :: "(preference_input \<Rightarrow> string) \<Rightarrow> string \<Rightarrow> string \<Rightarrow> user_role \<Rightarrow> (preference_input \<Rightarrow> preference option)
    \<Rightarrow> preference_input \<Rightarrow> notification_world \<Rightarrow> notification_world result" where
  "replace_one new_id tenantId userId actorRole previous input w =
     (let was_locked = (case previous input of None \<Rightarrow> False | Some q \<Rightarrow> np_lockedByAdmin q);
          locked = (case npi_lockedByAdmin input of Some b \<Rightarrow> b | None \<Rightarrow> was_locked) in
      if actorRole \<noteq> TenantAdmin \<and> (npi_lockedByAdmin input \<noteq> None \<or> was_locked) \<and> (npi_lockedByAdmin input \<noteq> None \<or> \<not> npi_enabled input)
      then Inl preference_locked
      else if npi_urgency input = HighUrgency \<and> \<not> npi_enabled input \<and> \<not> locked then Inl preference_locked
      else upsert_preference actorRole
        \<lparr>np_id = new_id input, np_tenantId = tenantId, np_userId = userId, np_eventType = npi_eventType input, np_channel = npi_channel input,
         np_urgency = npi_urgency input, np_enabled = npi_enabled input, np_lockedByAdmin = locked, np_createdAt = nw_now w,
         np_updatedAt = nw_now w\<rparr> w)"

fun replace_all :: "(preference_input \<Rightarrow> string) \<Rightarrow> string \<Rightarrow> string \<Rightarrow> user_role \<Rightarrow> (preference_input \<Rightarrow> preference option)
    \<Rightarrow> preference_input list \<Rightarrow> notification_world \<Rightarrow> notification_world result" where
  "replace_all new_id tenantId userId actorRole previous [] w = Inr w"
| "replace_all new_id tenantId userId actorRole previous (input # inputs) w =
     bindR (replace_one new_id tenantId userId actorRole previous input w) (replace_all new_id tenantId userId actorRole previous inputs)"

definition current_preference :: "string \<Rightarrow> string \<Rightarrow> notification_world \<Rightarrow> preference_input \<Rightarrow> preference option" where
  "current_preference tenantId userId w input =
     find (\<lambda>p. np_tenantId p = tenantId \<and> np_userId p = userId \<and> np_eventType p = npi_eventType input \<and> np_channel p = npi_channel input)
       (nw_preferences w)"

definition replacePreferences :: "(preference_input \<Rightarrow> string) \<Rightarrow> string \<Rightarrow> string \<Rightarrow> user_role \<Rightarrow> preference_input list
    \<Rightarrow> notification_world \<Rightarrow> preference list result \<times> notification_world" where
  "replacePreferences new_id tenantId userId actorRole preferences w =
     (if tenantId \<notin> set (nw_tenants w) then (Inl (Thrown ''Authenticated tenant vanished.''), w)
      else case replace_all new_id tenantId userId actorRole (current_preference tenantId userId w) preferences w of
          Inl e \<Rightarrow> (Inl e, w)
        | Inr w' \<Rightarrow> (Inr (listPreferences tenantId userId w'), w'))"

definition listRecipients :: "string \<Rightarrow> string list \<Rightarrow> string list \<Rightarrow> notification_world \<Rightarrow> user_account list" where
  "listRecipients tenantId userIds roles w =
     sort_key acc_id (filter (\<lambda>u. acc_tenantId u = tenantId \<and> acc_isActive u
       \<and> (acc_id u \<in> set userIds \<or> role_text (acc_role u) \<in> set roles)) (nw_users w))"

text \<open>The test of \<open>WHERE NOT EXISTS\<close>.\<close>

definition notified :: "string \<Rightarrow> notification_event \<Rightarrow> string \<Rightarrow> notification \<Rightarrow> bool" where
  "notified recipient event templateId n =
     (of_recipient (ne_tenantId event) recipient n \<and> nt_eventType n = ne_eventType event \<and> nt_sourceType n = ne_sourceType event
      \<and> nt_sourceId n = ne_sourceId event \<and> nt_templateId n = templateId)"

definition createForRecipient :: "(json \<Rightarrow> nat option) \<Rightarrow> string \<Rightarrow> string \<Rightarrow> notification_event \<Rightarrow> string \<Rightarrow> string \<Rightarrow> string
    \<Rightarrow> notification_world \<Rightarrow> notification option result \<times> notification_world" where
  "createForRecipient jsonb new_id recipient event templateId title body w =
     (if \<exists>n\<in>set (nw_notifications w). notified recipient event templateId n then (Inr None, w)
      else let n = \<lparr>nt_id = new_id, nt_tenantId = ne_tenantId event, nt_recipientUserId = recipient, nt_eventType = ne_eventType event,
             nt_sourceType = ne_sourceType event, nt_sourceId = ne_sourceId event, nt_templateId = templateId, nt_urgency = ne_urgency event,
             nt_title = title, nt_body = body, nt_payload = AList.update ''event_id'' (JStr (ne_eventId event)) (ne_payload event),
             nt_status = NtUnread, nt_readAt = None, nt_createdAt = nw_now w, nt_updatedAt = nw_now w\<rparr> in
        case insert_notification jsonb n w of Inl e \<Rightarrow> (Inl e, w) | Inr w' \<Rightarrow> (Inr (Some n), w'))"

section \<open>The service\<close>

definition notifications_unavailable :: js_error where
  "notifications_unavailable = AppError ''NOTIFICATIONS_UNAVAILABLE'' ''Notifications are temporarily unavailable.'' 503"

definition notification_not_found :: js_error where
  "notification_not_found = AppError ''NOT_FOUND'' ''The requested resource was not found.'' 404"

definition notification_safe :: "'a result \<Rightarrow> 'a result" where
  "notification_safe r = (case r of Inl (Thrown _) \<Rightarrow> Inl notifications_unavailable | _ \<Rightarrow> r)"

definition requireUser :: "request_context \<Rightarrow> string result" where
  "requireUser ctx =
     (case (ctx_actorType ctx, ctx_actorUserId ctx) of
        (UserActor, Some u) \<Rightarrow> Inr u
      | _ \<Rightarrow> Inl (AppError ''FORBIDDEN'' ''Access denied.'' 403))"

definition toNotification :: "notification \<Rightarrow> json" where
  "toNotification n = JObj
     [(''id'', JStr (nt_id n)), (''event_type'', JStr (nt_eventType n)), (''source_type'', JStr (source_text (nt_sourceType n))),
      (''source_id'', opt_text (nt_sourceId n)), (''template_id'', JStr (nt_templateId n)), (''urgency'', JStr (urgency_text (nt_urgency n))),
      (''title'', JStr (nt_title n)), (''body'', JStr (nt_body n)), (''payload'', JObj (nt_payload n)),
      (''status'', JStr (notification_status_text (nt_status n))), (''read_at'', opt_text (map_option micros_text (nt_readAt n))),
      (''created_at'', JStr (micros_text (nt_createdAt n))), (''updated_at'', JStr (micros_text (nt_updatedAt n)))]"

definition toPreference :: "preference \<Rightarrow> json" where
  "toPreference p = JObj
     [(''id'', JStr (np_id p)), (''event_type'', JStr (np_eventType p)), (''channel'', JStr (channel_text (np_channel p))),
      (''urgency'', JStr (urgency_text (np_urgency p))), (''enabled'', JBool (np_enabled p)), (''locked_by_admin'', JBool (np_lockedByAdmin p)),
      (''created_at'', JStr (micros_text (np_createdAt p))), (''updated_at'', JStr (micros_text (np_updatedAt p)))]"

definition listNotifications :: "(string \<Rightarrow> json option) \<Rightarrow> (string \<Rightarrow> int option) \<Rightarrow> (string \<Rightarrow> string option) \<Rightarrow> request_context \<Rightarrow> json
    \<Rightarrow> notification_world \<Rightarrow> (json list \<times> string option \<times> nat) result" where
  "listNotifications parse_bytes timestamptz_of uuid_of ctx query w =
     bindR (requireUser ctx) (\<lambda>userId.
     bindR (parseNotificationListQuery query) (\<lambda>parsed.
     bindR (case nq_cursor parsed of None \<Rightarrow> Inr None | Some c \<Rightarrow> bindR (decodeNotificationCursor parse_bytes c) (\<lambda>b. Inr (Some b))) (\<lambda>cursor.
     bindR (notification_safe (list_notifications timestamptz_of uuid_of (ctx_tenantId ctx) userId parsed cursor w)) (\<lambda>rows.
     let page = take (nq_limit parsed) rows in
     Inr (map toNotification page,
       if length rows > nq_limit parsed \<and> page \<noteq> []
       then Some (encodeNotificationCursor (fst (notification_key (last page))) (snd (notification_key (last page)))) else None,
       unreadCount (ctx_tenantId ctx) userId w)))))"

definition markNotificationRead :: "request_context \<Rightarrow> json \<Rightarrow> notification_world \<Rightarrow> json result \<times> notification_world" where
  "markNotificationRead ctx idValue w =
     (case bindR (requireUser ctx) (\<lambda>u. bindR (parseNotificationId idValue) (\<lambda>i. Inr (u, i))) of
        Inl e \<Rightarrow> (Inl e, w)
      | Inr (userId, i) \<Rightarrow>
          (case markRead (ctx_tenantId ctx) userId i w of
             (r, w') \<Rightarrow> (bindR (notification_safe r) (\<lambda>row. bindR (orElse row notification_not_found) (\<lambda>n. Inr (toNotification n))), w')))"

definition listNotificationPreferences :: "request_context \<Rightarrow> notification_world \<Rightarrow> json list result" where
  "listNotificationPreferences ctx w =
     bindR (requireUser ctx) (\<lambda>userId. Inr (map toPreference (listPreferences (ctx_tenantId ctx) userId w)))"

definition updateNotificationPreferences :: "(preference_input \<Rightarrow> string) \<Rightarrow> request_context \<Rightarrow> json \<Rightarrow> notification_world
    \<Rightarrow> json list result \<times> notification_world" where
  "updateNotificationPreferences new_id ctx body w =
     (case bindR (requireUser ctx) (\<lambda>u. bindR (parseNotificationPreferences body) (\<lambda>ps. Inr (u, ps))) of
        Inl e \<Rightarrow> (Inl e, w)
      | Inr (userId, preferences) \<Rightarrow>
          (case replacePreferences new_id (ctx_tenantId ctx) userId (ctx_role ctx) preferences w of
             (r, w') \<Rightarrow> (bindR (notification_safe r) (\<lambda>rows. Inr (map toPreference rows)), w')))"

definition notificationEnabled :: "preference list \<Rightarrow> notification_event \<Rightarrow> bool" where
  "notificationEnabled preferences event =
     (case find (\<lambda>p. np_eventType p = ne_eventType event \<and> np_channel p = InApp) preferences of
        None \<Rightarrow> True
      | Some p \<Rightarrow> if np_enabled p then True else if ne_urgency event = HighUrgency then \<not> np_lockedByAdmin p else False)"

definition DEFAULT_RECIPIENT_ROLES :: "string list" where
  "DEFAULT_RECIPIENT_ROLES = [''tenant_admin'', ''finops_analyst'', ''finance_approver'', ''read_only_auditor'']"

text \<open>The loop over the recipients: every turn is committed, the first that fails ends the call.\<close>

fun emit_to :: "(json \<Rightarrow> nat option) \<Rightarrow> (string \<Rightarrow> string) \<Rightarrow> string \<Rightarrow> string \<Rightarrow> notification_event \<Rightarrow> user_account list
    \<Rightarrow> notification_world \<Rightarrow> notification list result \<times> notification_world" where
  "emit_to jsonb new_id templateId template event [] w = (Inr [], w)"
| "emit_to jsonb new_id templateId template event (u # us) w =
     (if \<not> notificationEnabled (listPreferences (ne_tenantId event) (acc_id u) w) event
      then emit_to jsonb new_id templateId template event us w
      else case renderNotificationTemplate template event of
          Inl e \<Rightarrow> (Inl e, w)
        | Inr (title, body) \<Rightarrow>
            (case createForRecipient jsonb (new_id (acc_id u)) (acc_id u) event templateId title body w of
               (Inl e, w1) \<Rightarrow> (notification_safe (Inl e), w1)
             | (Inr row, w1) \<Rightarrow>
                 (case emit_to jsonb new_id templateId template event us w1 of
                    (Inl e, w2) \<Rightarrow> (Inl e, w2)
                  | (Inr rows, w2) \<Rightarrow> (Inr (case row of None \<Rightarrow> rows | Some n \<Rightarrow> n # rows), w2))))"

definition template_safe :: "string result \<Rightarrow> string result" where
  "template_safe r = (case r of Inl (Thrown _) \<Rightarrow> Inl template_missing | _ \<Rightarrow> r)"

definition emitNotification :: "(json \<Rightarrow> nat option) \<Rightarrow> (string \<Rightarrow> string) \<Rightarrow> (string \<Rightarrow> string \<Rightarrow> string result) \<Rightarrow> string list
    \<Rightarrow> notification_event \<Rightarrow> notification_world \<Rightarrow> notification list result \<times> notification_world" where
  "emitNotification jsonb new_id resolveTemplate defaultRecipientRoles event w =
     (case bindR (notificationTemplateId (ne_templateName event)) (\<lambda>templateId.
           bindR (template_safe (resolveTemplate templateId (ne_tenantId event))) (\<lambda>template. Inr (templateId, template))) of
        Inl e \<Rightarrow> (Inl e, w)
      | Inr (templateId, template) \<Rightarrow>
          emit_to jsonb new_id templateId template event
            (listRecipients (ne_tenantId event) (case ne_recipientUserIds event of None \<Rightarrow> [] | Some ids \<Rightarrow> ids)
              (case ne_recipientRoles event of
                 Some roles \<Rightarrow> roles
               | None \<Rightarrow> if ne_recipientUserIds event \<noteq> None then [] else defaultRecipientRoles) w) w)"

end
