(* ===== verification/Notification_Claims.thy ===== *)
theory Notification_Claims
  imports Notifications
begin

text \<open>
  What notifications promise: in every reachable state a recipient has at most one for an event's source and
  template, read and unread are told by the read time, and locks are where the table allows them; an emission
  reaches exactly the recipients whose preferences do not silence it, and repeating it adds nothing; a
  user who is no administrator can neither set nor change a lock.
\<close>

section \<open>Steps\<close>

definition user_keys_of :: "notification_world \<Rightarrow> (string \<times> string) set" where
  "user_keys_of w = (\<lambda>u. (acc_tenantId u, acc_id u)) ` set (nw_users w)"

text \<open>Users come and change, but are never removed (migration 0002 has no cascade, and no code deletes them).\<close>

inductive notification_step :: "(json \<Rightarrow> nat option) \<Rightarrow> notification_world \<Rightarrow> notification_world \<Rightarrow> bool"
  for jsonb where
  nstep_emit: "notification_step jsonb w (snd (emitNotification jsonb new_id resolveTemplate roles event w))"
| nstep_read: "notification_step jsonb w (snd (markNotificationRead ctx idValue w))"
| nstep_preferences: "notification_step jsonb w (snd (updateNotificationPreferences new_pref_id ctx body w))"
| nstep_users: "user_keys_of w \<subseteq> user_keys_of (w\<lparr>nw_users := users\<rparr>)
    \<Longrightarrow> notification_step jsonb w (w\<lparr>nw_users := users, nw_tenants := tenants\<rparr>)"
| nstep_tick: "notification_step jsonb w (w\<lparr>nw_now := nw_now w + int d\<rparr>)"

inductive notification_reachable :: "(json \<Rightarrow> nat option) \<Rightarrow> notification_world \<Rightarrow> bool" for jsonb where
  nstart: "nw_notifications w = [] \<Longrightarrow> nw_preferences w = [] \<Longrightarrow> notification_reachable jsonb w"
| nnext: "notification_reachable jsonb w \<Longrightarrow> notification_step jsonb w w' \<Longrightarrow> notification_reachable jsonb w'"

inductive_cases notification_stepE: "notification_step jsonb w w'"

section \<open>The invariant\<close>

definition apart :: "notification \<Rightarrow> notification \<Rightarrow> bool" where
  "apart a b = (\<not> (nt_tenantId a = nt_tenantId b \<and> nt_recipientUserId a = nt_recipientUserId b \<and> nt_eventType a = nt_eventType b
     \<and> nt_sourceType a = nt_sourceType b \<and> nt_sourceId a = nt_sourceId b \<and> nt_templateId a = nt_templateId b))"

definition pref_apart :: "preference \<Rightarrow> preference \<Rightarrow> bool" where
  "pref_apart p q = (\<not> same_preference p q)"


lemma pref_apart_sym: "pref_apart p q = pref_apart q p"
  by (auto simp: pref_apart_def same_preference_def)

definition notification_ok :: "notification_world \<Rightarrow> notification \<Rightarrow> bool" where
  "notification_ok w n =
     ((nt_tenantId n, nt_recipientUserId n) \<in> user_keys_of w \<and> clean_column 300 (nt_title n) \<and> clean_column 10000 (nt_body n)
      \<and> nt_createdAt n \<le> nw_now w
      \<and> (case nt_readAt n of None \<Rightarrow> nt_status n = NtUnread | Some t \<Rightarrow> nt_status n = NtRead \<and> nt_createdAt n \<le> t \<and> t \<le> nw_now w))"

definition preference_ok :: "notification_world \<Rightarrow> preference \<Rightarrow> bool" where
  "preference_ok w p =
     ((np_tenantId p, np_userId p) \<in> user_keys_of w \<and> (np_lockedByAdmin p \<longrightarrow> np_urgency p = HighUrgency \<and> np_channel p = InApp))"

definition notifications_ok :: "notification_world \<Rightarrow> bool" where
  "notifications_ok w =
     (distinct (map nt_id (nw_notifications w)) \<and> sorted_wrt apart (nw_notifications w)
      \<and> sorted_wrt pref_apart (nw_preferences w)
      \<and> (\<forall>n\<in>set (nw_notifications w). notification_ok w n) \<and> (\<forall>p\<in>set (nw_preferences w). preference_ok w p))"

lemma insert_notification_Inr:
  "insert_notification jsonb n w = Inr w' \<Longrightarrow>
     w' = w\<lparr>nw_notifications := nw_notifications w @ [n]\<rparr> \<and> notification_row_check jsonb n
     \<and> (\<forall>x\<in>set (nw_notifications w). nt_id x \<noteq> nt_id n) \<and> (nt_tenantId n, nt_recipientUserId n) \<in> user_keys_of w"
  by (force simp: insert_notification_def user_keys_of_def user_of_def split: if_splits)

lemma user_keys_frame [simp]:
  "user_keys_of (w\<lparr>nw_notifications := ns\<rparr>) = user_keys_of w" "user_keys_of (w\<lparr>nw_preferences := ps\<rparr>) = user_keys_of w"
  "user_keys_of (w\<lparr>nw_now := t\<rparr>) = user_keys_of w"
  by (simp_all add: user_keys_of_def)

lemma create_cases:
  assumes "createForRecipient jsonb new_id recipient event templateId title body w = (r, w')"
  obtains (there) "r = Inr None" "w' = w" "\<exists>n\<in>set (nw_notifications w). notified recipient event templateId n"
  | (failed) e where "r = Inl (Thrown e)" "w' = w" "\<not> (\<exists>n\<in>set (nw_notifications w). notified recipient event templateId n)"
  | (made) n where "r = Inr (Some n)" "w' = w\<lparr>nw_notifications := nw_notifications w @ [n]\<rparr>" "notified recipient event templateId n"
    "\<not> (\<exists>n\<in>set (nw_notifications w). notified recipient event templateId n)" "notification_row_check jsonb n"
    "\<forall>x\<in>set (nw_notifications w). nt_id x \<noteq> nt_id n" "(nt_tenantId n, nt_recipientUserId n) \<in> user_keys_of w"
    "nt_status n = NtUnread" "nt_readAt n = None" "nt_createdAt n = nw_now w"
proof (cases "\<exists>n\<in>set (nw_notifications w). notified recipient event templateId n")
  case True
  with assms there show thesis by (auto simp: createForRecipient_def)
next
  case False
  define n where "n = \<lparr>nt_id = new_id, nt_tenantId = ne_tenantId event, nt_recipientUserId = recipient, nt_eventType = ne_eventType event,
             nt_sourceType = ne_sourceType event, nt_sourceId = ne_sourceId event, nt_templateId = templateId, nt_urgency = ne_urgency event,
             nt_title = title, nt_body = body, nt_payload = AList.update ''event_id'' (JStr (ne_eventId event)) (ne_payload event),
             nt_status = NtUnread, nt_readAt = None, nt_createdAt = nw_now w, nt_updatedAt = nw_now w\<rparr>"
  have r: "(r, w') = (case insert_notification jsonb n w of Inl e \<Rightarrow> (Inl e, w) | Inr w1 \<Rightarrow> (Inr (Some n), w1))"
    using assms False by (simp only: createForRecipient_def if_False Let_def n_def)
  have n: "notified recipient event templateId n" "nt_status n = NtUnread" "nt_readAt n = None" "nt_createdAt n = nw_now w"
    by (simp_all add: n_def notified_def of_recipient_def)
  show thesis
  proof (cases "insert_notification jsonb n w")
    case (Inl e)
    then obtain s where "e = Thrown s" by (auto simp: insert_notification_def sqlstate_def split: if_splits)
    with Inl False r show thesis by (intro failed) simp_all
  next
    case (Inr w1)
    with insert_notification_Inr [OF this] r n False show thesis by (intro made [of n]) simp_all
  qed
qed

lemma notified_apart: "notified recipient event templateId n \<Longrightarrow> \<not> notified recipient event templateId x \<Longrightarrow> apart x n"
  by (auto simp: notified_def of_recipient_def apart_def)

lemma create_ok:
  assumes "createForRecipient jsonb new_id recipient event templateId title body w = (r, w')" and ok: "notifications_ok w"
  shows "notifications_ok w'"
  using assms(1)
proof (cases rule: create_cases)
  case (made n)
  have "\<forall>x\<in>set (nw_notifications w). apart x n" using made(3,4) notified_apart by blast
  moreover have "notification_ok w n" using made by (simp add: notification_ok_def notification_row_check_def)
  moreover have "notification_ok w' x = notification_ok w x" "preference_ok w' p = preference_ok w p" for x p
    by (simp_all add: made(2) notification_ok_def preference_ok_def cong: option.case_cong)
  ultimately show ?thesis using ok made(6) by (auto simp: notifications_ok_def made(2) sorted_wrt_append)
qed (use ok in simp_all)

lemma emit_to_ok: "notifications_ok w \<Longrightarrow> notifications_ok (snd (emit_to jsonb new_id templateId template event us w))"
proof (induction us arbitrary: w)
  case (Cons u us)
  have "notifications_ok w1" if "createForRecipient jsonb i r e t a b w = (q, w1)" for i r e t a b q w1
    using create_ok [OF that Cons.prems] .
  with Cons show ?case by (auto split: sum.splits prod.splits) (metis snd_conv)+
qed simp

lemma emit_ok: "notifications_ok w \<Longrightarrow> notifications_ok (snd (emitNotification jsonb new_id resolveTemplate roles event w))"
  by (simp add: emitNotification_def emit_to_ok split: sum.splits prod.splits)

section \<open>Reading\<close>

lemma read_row_fields [simp]:
  "nt_id (read_row t n) = nt_id n" "nt_tenantId (read_row t n) = nt_tenantId n" "nt_recipientUserId (read_row t n) = nt_recipientUserId n"
  "apart (read_row t n) x = apart n x" "apart x (read_row t n) = apart x n"
  "nt_title (read_row t n) = nt_title n" "nt_body (read_row t n) = nt_body n" "nt_createdAt (read_row t n) = nt_createdAt n"
  by (simp_all add: read_row_def apart_def)

lemma sorted_wrt_map_same: "sorted_wrt r xs \<Longrightarrow> (\<And>x y. r (f x) (f y) = r x y) \<Longrightarrow> sorted_wrt r (map f xs)"
  by (simp add: sorted_wrt_map)

lemma markRead_ok: "notifications_ok w \<Longrightarrow> notifications_ok (snd (markRead t u i w))"
proof (cases "get_notification t u i w")
  case None
  then show "notifications_ok w \<Longrightarrow> ?thesis" by (simp add: markRead_def)
next
  case (Some n)
  assume ok: "notifications_ok w"
  let ?f = "\<lambda>x. if nt_id x = i then read_row (nw_now w) n else x"
  from Some have n: "n \<in> set (nw_notifications w)" "nt_id n = i" by (auto simp: get_notification_def find_Some_iff)
  have f: "?f x = (if nt_id x = i then read_row (nw_now w) x else x)" if "x \<in> set (nw_notifications w)" for x
    using ok n that unfolding notifications_ok_def by (auto simp: distinct_map inj_on_def)
  then have m: "map ?f (nw_notifications w) = map (\<lambda>x. if nt_id x = i then read_row (nw_now w) x else x) (nw_notifications w)" by simp
  let ?w = "w\<lparr>nw_notifications := map (\<lambda>x. if nt_id x = i then read_row (nw_now w) x else x) (nw_notifications w)\<rparr>"
  have "notification_ok ?w (read_row (nw_now w) x)" if "notification_ok w x" for x
    using that by (auto simp: notification_ok_def read_row_def split: option.splits)
  moreover have "notification_ok ?w x = notification_ok w x" "preference_ok ?w p = preference_ok w p" for x p
    by (simp_all add: notification_ok_def preference_ok_def cong: option.case_cong)
  moreover have "distinct (map (nt_id \<circ> (\<lambda>x. if nt_id x = i then read_row (nw_now w) x else x)) (nw_notifications w))"
  proof -
    have "nt_id \<circ> (\<lambda>x. if nt_id x = i then read_row (nw_now w) x else x) = nt_id" by auto
    with ok show ?thesis by (simp add: notifications_ok_def)
  qed
  moreover have "sorted_wrt apart (nw_notifications ?w)"
    using sorted_wrt_map_same [of apart "nw_notifications w" "\<lambda>x. if nt_id x = i then read_row (nw_now w) x else x"] ok
    by (simp add: notifications_ok_def)
  ultimately have "notifications_ok ?w" using ok by (auto simp: notifications_ok_def)
  then show ?thesis using ok by (simp add: markRead_def Some Let_def m)
qed

section \<open>Preferences\<close>

lemma preferences_frame [simp]:
  "notification_ok (w\<lparr>nw_preferences := ps\<rparr>) n = notification_ok w n" "preference_ok (w\<lparr>nw_preferences := ps\<rparr>) p = preference_ok w p"
  by (simp_all add: notification_ok_def preference_ok_def cong: option.case_cong)

definition overlay :: "preference \<Rightarrow> int \<Rightarrow> preference \<Rightarrow> preference" where
  "overlay p now q = q\<lparr>np_urgency := np_urgency p, np_enabled := np_enabled p, np_lockedByAdmin := np_lockedByAdmin p, np_updatedAt := now\<rparr>"

definition taken :: "user_role \<Rightarrow> preference \<Rightarrow> preference \<Rightarrow> bool" where
  "taken role p q = (same_preference p q \<and> (\<not> np_lockedByAdmin q \<or> role = TenantAdmin))"

abbreviation overlaid :: "user_role \<Rightarrow> preference \<Rightarrow> int \<Rightarrow> preference \<Rightarrow> preference" where
  "overlaid role p now q \<equiv> (if taken role p q then overlay p now q else q)"

lemma overlay_fields [simp]:
  "np_tenantId (overlay p t q) = np_tenantId q" "np_userId (overlay p t q) = np_userId q" "np_eventType (overlay p t q) = np_eventType q"
  "np_channel (overlay p t q) = np_channel q" "np_urgency (overlay p t q) = np_urgency p"
  "np_lockedByAdmin (overlay p t q) = np_lockedByAdmin p" "pref_apart (overlay p t q) r = pref_apart q r" "pref_apart r (overlay p t q) = pref_apart r q"
  by (simp_all add: overlay_def pref_apart_def same_preference_def)

lemma upsert_cases:
  assumes "upsert_preference role p w = Inr w'"
  obtains (inserted) "w' = w\<lparr>nw_preferences := nw_preferences w @ [p]\<rparr>" "preference_row_check p"
      "\<forall>q\<in>set (nw_preferences w). \<not> same_preference p q" "(np_tenantId p, np_userId p) \<in> user_keys_of w"
  | (updated) q where "q \<in> set (nw_preferences w)" "same_preference p q" "preference_row_check p"
      "w' = w\<lparr>nw_preferences := map (overlaid role p (nw_now w)) (nw_preferences w)\<rparr>"
proof (cases "\<exists>q\<in>set (nw_preferences w). same_preference p q")
  case True
  with assms updated show thesis by (auto simp: upsert_preference_def overlay_def taken_def cong: if_cong split: if_splits)
next
  case False
  with assms inserted show thesis by (force simp: upsert_preference_def user_keys_of_def user_of_def split: if_splits)
qed

lemma upsert_ok:
  assumes "upsert_preference role p w = Inr w'" and ok: "notifications_ok w"
  shows "notifications_ok w'"
  using assms(1)
proof (cases rule: upsert_cases)
  case inserted
  then have "preference_ok w p" by (simp add: preference_ok_def preference_row_check_def)
  moreover have "\<forall>q\<in>set (nw_preferences w). pref_apart q p" using inserted by (auto simp: pref_apart_def same_preference_def)
  ultimately show ?thesis using ok by (auto simp: notifications_ok_def inserted(1) sorted_wrt_append)
next
  case (updated q)
  have "sorted_wrt pref_apart (map (overlaid role p (nw_now w)) (nw_preferences w))"
    by (rule sorted_wrt_map_same) (use ok in \<open>simp_all add: notifications_ok_def\<close>)
  moreover have "preference_ok w (overlay p (nw_now w) q)" if "preference_ok w q" "taken role p q" for q
    using that updated(3) by (auto simp: preference_ok_def preference_row_check_def taken_def same_preference_def)
  ultimately show ?thesis using ok by (auto simp: notifications_ok_def updated(4))
qed

lemma replace_one_Inr:
  "replace_one new_id t u role previous input w = Inr w' \<Longrightarrow>
     \<exists>p. upsert_preference role p w = Inr w' \<and> np_tenantId p = t \<and> np_userId p = u \<and> np_eventType p = npi_eventType input
       \<and> np_channel p = npi_channel input
       \<and> np_lockedByAdmin p = (case npi_lockedByAdmin input of Some b \<Rightarrow> b | None \<Rightarrow>
           (case previous input of None \<Rightarrow> False | Some q \<Rightarrow> np_lockedByAdmin q))
       \<and> (role \<noteq> TenantAdmin \<longrightarrow> npi_lockedByAdmin input = None)"
  unfolding replace_one_def Let_def by (auto split: if_splits)

lemma replace_all_ok: "replace_all new_id t u role previous inputs w = Inr w' \<Longrightarrow> notifications_ok w \<Longrightarrow> notifications_ok w'"
proof (induction inputs arbitrary: w)
  case (Cons input inputs)
  from Cons.prems(1) obtain w1 where "replace_one new_id t u role previous input w = Inr w1"
    and rest: "replace_all new_id t u role previous inputs w1 = Inr w'" by (auto simp: bindR_eq_Inr)
  with replace_one_Inr upsert_ok Cons.prems(2) have "notifications_ok w1" by blast
  with Cons.IH [OF rest] show ?case by simp
qed simp

lemma update_preferences_ok:
  "notifications_ok w \<Longrightarrow> notifications_ok (snd (updateNotificationPreferences new_id ctx body w))"
  using replace_all_ok
  by (auto simp: updateNotificationPreferences_def replacePreferences_def split: sum.splits prod.splits)

lemma notification_step_ok: "notification_step jsonb w w' \<Longrightarrow> notifications_ok w \<Longrightarrow> notifications_ok w'"
proof (erule notification_stepE)
  fix users tenants
  assume "user_keys_of w \<subseteq> user_keys_of (w\<lparr>nw_users := users\<rparr>)" "w' = w\<lparr>nw_users := users, nw_tenants := tenants\<rparr>" "notifications_ok w"
  then show "notifications_ok w'"
    by (auto simp: notifications_ok_def notification_ok_def preference_ok_def user_keys_of_def cong: option.case_cong)
next
  fix d
  assume "w' = w\<lparr>nw_now := nw_now w + int d\<rparr>" "notifications_ok w"
  then show "notifications_ok w'"
    by (fastforce simp: notifications_ok_def notification_ok_def preference_ok_def split: option.splits)
qed (simp_all add: emit_ok update_preferences_ok markNotificationRead_def markRead_ok case_prod_beta split: sum.splits)

lemma reachable_notifications: "notification_reachable jsonb w \<Longrightarrow> notifications_ok w"
proof (induction rule: notification_reachable.induct)
  case (nstart w)
  then show ?case by (simp add: notifications_ok_def)
qed (rule notification_step_ok)

section \<open>Who is reached\<close>

text \<open>A preference that silences an event for a user: disabled, and for a high urgency only when locked.\<close>

definition silenced :: "notification_world \<Rightarrow> notification_event \<Rightarrow> string \<Rightarrow> bool" where
  "silenced w event userId = (\<exists>p\<in>set (nw_preferences w). np_tenantId p = ne_tenantId event \<and> np_userId p = userId
     \<and> np_eventType p = ne_eventType event \<and> np_channel p = InApp \<and> \<not> np_enabled p
     \<and> (ne_urgency event = HighUrgency \<longrightarrow> np_lockedByAdmin p))"

lemma preferences_unique:
  "sorted_wrt pref_apart ps \<Longrightarrow> p \<in> set ps \<Longrightarrow> q \<in> set ps \<Longrightarrow> same_preference p q \<Longrightarrow> p = q"
  by (induction ps) (auto simp: pref_apart_def same_preference_def)


lemma notifications_frame [simp]:
  "listPreferences t u (w\<lparr>nw_notifications := ns\<rparr>) = listPreferences t u w"
  "silenced (w\<lparr>nw_notifications := ns\<rparr>) event u = silenced w event u"
  "listRecipients t ids roles (w\<lparr>nw_notifications := ns\<rparr>) = listRecipients t ids roles w"
  by (simp_all add: listPreferences_def silenced_def listRecipients_def)






section \<open>Locks\<close>

lemma filter_map_if:
  "(\<And>x. x \<in> set xs \<Longrightarrow> s x \<Longrightarrow> \<not> r x \<and> \<not> r (f x)) \<Longrightarrow> filter r (map (\<lambda>x. if s x then f x else x) xs) = filter r xs"
  by (induction xs) auto

lemma upsert_locks:
  assumes "upsert_preference role p w = Inr w'" and role: "role \<noteq> TenantAdmin" and ok: "notifications_ok w"
    and lock: "np_lockedByAdmin p \<longrightarrow> (\<exists>q\<in>set (nw_preferences w). same_preference p q \<and> np_lockedByAdmin q)"
  shows "filter np_lockedByAdmin (nw_preferences w') = filter np_lockedByAdmin (nw_preferences w)"
  using assms(1)
proof (cases rule: upsert_cases)
  case inserted
  with lock show ?thesis by auto
next
  case (updated q)
  have "\<not> np_lockedByAdmin p" if x: "x \<in> set (nw_preferences w)" "taken role p x" for x
  proof
    assume "np_lockedByAdmin p"
    with lock obtain y where y: "y \<in> set (nw_preferences w)" "same_preference p y" "np_lockedByAdmin y" by blast
    with x role have "same_preference y x" "\<not> np_lockedByAdmin x" by (auto simp: taken_def same_preference_def)
    with preferences_unique [of "nw_preferences w" y x] ok x(1) y show False by (simp add: notifications_ok_def)
  qed
  then show ?thesis using role by (simp add: updated(4)) (rule filter_map_if, auto simp: taken_def)
qed

lemma upsert_others:
  assumes "upsert_preference role p w = Inr w'"
  shows "filter (\<lambda>q. \<not> (np_tenantId q = np_tenantId p \<and> np_userId q = np_userId p)) (nw_preferences w')
    = filter (\<lambda>q. \<not> (np_tenantId q = np_tenantId p \<and> np_userId q = np_userId p)) (nw_preferences w)"
  using assms
proof (cases rule: upsert_cases)
  case (updated q)
  then have e: "nw_preferences w' = map (overlaid role p (nw_now w)) (nw_preferences w)" by simp
  show ?thesis unfolding e by (rule filter_map_if) (auto simp: taken_def same_preference_def)
qed simp

lemma replace_all_locks:
  "replace_all new_id t u role previous inputs w = Inr w' \<Longrightarrow> role \<noteq> TenantAdmin \<Longrightarrow> notifications_ok w \<Longrightarrow>
   (\<And>input q. previous input = Some q \<Longrightarrow> np_lockedByAdmin q \<Longrightarrow> q \<in> set (nw_preferences w) \<and> np_tenantId q = t \<and> np_userId q = u
      \<and> np_eventType q = npi_eventType input \<and> np_channel q = npi_channel input) \<Longrightarrow>
   filter np_lockedByAdmin (nw_preferences w') = filter np_lockedByAdmin (nw_preferences w)"
proof (induction inputs arbitrary: w)
  case (Cons input inputs)
  from Cons.prems(1) obtain w1 where one: "replace_one new_id t u role previous input w = Inr w1"
    and rest: "replace_all new_id t u role previous inputs w1 = Inr w'" by (auto simp: bindR_eq_Inr)
  from replace_one_Inr [OF one] Cons.prems(2) obtain p where up: "upsert_preference role p w = Inr w1"
    and p: "np_tenantId p = t" "np_userId p = u" "np_eventType p = npi_eventType input" "np_channel p = npi_channel input"
    and lock: "np_lockedByAdmin p = (case previous input of None \<Rightarrow> False | Some q \<Rightarrow> np_lockedByAdmin q)" by auto
  have "np_lockedByAdmin p \<longrightarrow> (\<exists>q\<in>set (nw_preferences w). same_preference p q \<and> np_lockedByAdmin q)"
  proof
    assume "np_lockedByAdmin p"
    with lock obtain q where q: "previous input = Some q" "np_lockedByAdmin q" by (auto split: option.splits)
    with Cons.prems(4) [OF q] p show "\<exists>q\<in>set (nw_preferences w). same_preference p q \<and> np_lockedByAdmin q"
      by (intro bexI [of _ q]) (simp_all add: same_preference_def)
  qed
  from upsert_locks [OF up Cons.prems(2,3) this] have keep: "filter np_lockedByAdmin (nw_preferences w1) = filter np_lockedByAdmin (nw_preferences w)" .
  have "q \<in> set (nw_preferences w1)" if "q \<in> set (nw_preferences w)" "np_lockedByAdmin q" for q
  proof -
    have "q \<in> set (filter np_lockedByAdmin (nw_preferences w1))" unfolding keep using that by simp
    then show ?thesis by simp
  qed
  with Cons.IH [OF rest Cons.prems(2) upsert_ok [OF up Cons.prems(3)]] Cons.prems(4) keep show ?case by auto
qed simp

lemma replace_all_others:
  "replace_all new_id t u role previous inputs w = Inr w' \<Longrightarrow>
     filter (\<lambda>q. \<not> (np_tenantId q = t \<and> np_userId q = u)) (nw_preferences w')
       = filter (\<lambda>q. \<not> (np_tenantId q = t \<and> np_userId q = u)) (nw_preferences w)"
proof (induction inputs arbitrary: w)
  case (Cons input inputs)
  from Cons.prems obtain w1 where "replace_one new_id t u role previous input w = Inr w1"
    and rest: "replace_all new_id t u role previous inputs w1 = Inr w'" by (auto simp: bindR_eq_Inr)
  with replace_one_Inr obtain p where "upsert_preference role p w = Inr w1" "np_tenantId p = t" "np_userId p = u" by blast
  from upsert_others [OF this(1)] this(2,3) Cons.IH [OF rest] show ?case by simp
qed simp

section \<open>A sample\<close>

definition sample_user_row :: user_account where
  "sample_user_row = \<lparr>acc_id = ''u'', acc_tenantId = ''t'', acc_email = ''u@x'', acc_name = ''U'', acc_role = FinopsAnalyst,
     acc_isActive = True, acc_createdAt = 0, acc_updatedAt = 0\<rparr>"

definition sample_board :: notification_world where
  "sample_board = \<lparr>nw_tenants = [''t''], nw_users = [sample_user_row], nw_notifications = [], nw_preferences = [], nw_now = 5\<rparr>"






lemma sample_board_reachable: "notification_reachable (\<lambda>_. Some 40) sample_board"
  by (rule nstart) (simp_all add: sample_board_def)


definition sample_preferences :: json where
  "sample_preferences = JObj [(''preferences'', JArr [JObj [(''event_type'', JStr ''import.completed''), (''channel'', JStr ''in_app''),
     (''urgency'', JStr ''low''), (''enabled'', JBool False)]])]"

definition sample_analyst :: request_context where
  "sample_analyst = createUserRequestContext ''t'' ''u'' FinopsAnalyst ''r''"

section \<open>Properties\<close>





text \<open>
  C27: Only an administrator sets or changes a lock: whatever body a user of another role sends, the locked
  preferences of the tenant are the same rows afterwards; and no update, of any role, touches the
  preferences of another user. A refused update changes nothing.
\<close>

theorem locks_need_admin:
  assumes "notification_reachable jsonb w"
    and "updateNotificationPreferences new_id ctx body w = (r, w')"
  shows "(ctx_role ctx \<noteq> TenantAdmin \<longrightarrow> filter np_lockedByAdmin (nw_preferences w') = filter np_lockedByAdmin (nw_preferences w))
    \<and> (\<forall>userId. ctx_actorUserId ctx = Some userId \<longrightarrow>
         filter (\<lambda>q. \<not> (np_tenantId q = ctx_tenantId ctx \<and> np_userId q = userId)) (nw_preferences w')
           = filter (\<lambda>q. \<not> (np_tenantId q = ctx_tenantId ctx \<and> np_userId q = userId)) (nw_preferences w))
    \<and> (\<not> ok r \<longrightarrow> w' = w)"
proof (cases "bindR (requireUser ctx) (\<lambda>u. bindR (parseNotificationPreferences body) (\<lambda>ps. Inr (u, ps)))")
  case (Inl e)
  with assms(2) show ?thesis by (simp add: updateNotificationPreferences_def)
next
  case (Inr x)
  obtain userId inputs where x: "x = (userId, inputs)" by (cases x)
  from Inr have user: "ctx_actorUserId ctx = Some userId"
    by (auto simp: x bindR_eq_Inr requireUser_def split: actor_type.splits option.splits)
  have ok: "notifications_ok w" by (rule reachable_notifications [OF assms(1)])
  obtain q where q: "replacePreferences new_id (ctx_tenantId ctx) userId (ctx_role ctx) inputs w = (q, w')"
    and r: "r = bindR (notification_safe q) (\<lambda>rows. Inr (map toPreference rows))"
    using assms(2) Inr by (auto simp: updateNotificationPreferences_def x split: prod.splits)
  show ?thesis
  proof (cases q)
    case (Inl e)
    with q have "w' = w" by (auto simp: replacePreferences_def split: if_splits sum.splits)
    then show ?thesis by simp
  next
    case (Inr rows)
    with q have all: "replace_all new_id (ctx_tenantId ctx) userId (ctx_role ctx) (current_preference (ctx_tenantId ctx) userId w) inputs w = Inr w'"
      by (auto simp: replacePreferences_def split: if_splits sum.splits)
    have "filter np_lockedByAdmin (nw_preferences w') = filter np_lockedByAdmin (nw_preferences w)" if "ctx_role ctx \<noteq> TenantAdmin"
      by (rule replace_all_locks [OF all that ok]) (auto simp: current_preference_def find_Some_iff)
    then show ?thesis using replace_all_others [OF all] user r Inr by (auto simp: notification_safe_def)
  qed
qed

theorem locks_need_admin_witness:
  "filter np_lockedByAdmin (nw_preferences (snd (updateNotificationPreferences (\<lambda>_. ''p'') sample_analyst sample_preferences sample_board))) = []"
  using locks_need_admin [OF sample_board_reachable, of "\<lambda>_. ''p''" sample_analyst sample_preferences]
  by (cases "updateNotificationPreferences (\<lambda>_. ''p'') sample_analyst sample_preferences sample_board")
    (simp add: sample_board_def sample_analyst_def createUserRequestContext_def)

end
