(* ===== verification/Argon_Executor.thy ===== *)
theory Argon_Executor
  imports Auth_Errors "HOL-Library.Sublist" "HOL-Library.Multiset"
begin

text \<open>
  The executor that bounds password hashing: core/tenant/argon-executor.ts. Operations are numbers; beside
  the code's state (\<open>active\<close>, \<open>closed\<close>, \<open>queue\<close>) the model keeps what the promises know: which operations
  run, which are settled and whose \<open>finally\<close> callback is still to come, and what their callers got.
  A step is one run of a synchronous part of the code: a call of \<open>run\<close> or \<open>close\<close>, the settling of an
  operation, or a \<open>finally\<close> callback; these interleave freely.
\<close>

section \<open>The executor\<close>

datatype outcome = Fulfilled string | Unavailable

record executor =
  ex_concurrency :: nat
  ex_queueLimit :: nat
  ex_active :: nat
  ex_closed :: bool
  ex_queue :: "nat list"
  ex_running :: "nat list"
  ex_finishing :: "nat list"
  ex_started :: "nat list"
  ex_settled :: "(nat \<times> outcome) list"

definition MAX_ARGON_CONCURRENCY :: int where
  "MAX_ARGON_CONCURRENCY = 2"

definition MAX_ARGON_QUEUE_LIMIT :: int where
  "MAX_ARGON_QUEUE_LIMIT = 32"

text \<open>The options are numbers; None is one that is no safe integer.\<close>

definition validateBounds :: "int option \<Rightarrow> int option \<Rightarrow> unit result" where
  "validateBounds concurrency queueLimit =
     (case (concurrency, queueLimit) of
        (Some c, Some q) \<Rightarrow>
          if c < 1 \<or> c > MAX_ARGON_CONCURRENCY \<or> q < 0 \<or> q > MAX_ARGON_QUEUE_LIMIT
          then Inl (Thrown ''ArgonExecutorConfigurationError'') else Inr ()
      | _ \<Rightarrow> Inl (Thrown ''ArgonExecutorConfigurationError''))"

definition createArgonExecutor :: "int option \<Rightarrow> int option \<Rightarrow> executor result" where
  "createArgonExecutor concurrency queueLimit =
     bindR (validateBounds concurrency queueLimit) (\<lambda>_.
     Inr \<lparr>ex_concurrency = nat (case concurrency of Some c \<Rightarrow> c | None \<Rightarrow> 0), ex_queueLimit = nat (case queueLimit of Some q \<Rightarrow> q | None \<Rightarrow> 0),
       ex_active = 0, ex_closed = False, ex_queue = [], ex_running = [], ex_finishing = [], ex_started = [], ex_settled = []\<rparr>)"

definition snapshot :: "executor \<Rightarrow> nat \<times> nat \<times> bool" where
  "snapshot s = (ex_active s, length (ex_queue s), ex_closed s)"

definition refuse :: "nat \<Rightarrow> executor \<Rightarrow> executor" where
  "refuse i s = s\<lparr>ex_settled := ex_settled s @ [(i, Unavailable)]\<rparr>"

definition start :: "nat \<Rightarrow> executor \<Rightarrow> executor" where
  "start i s = s\<lparr>ex_active := ex_active s + 1, ex_running := ex_running s @ [i], ex_started := ex_started s @ [i]\<rparr>"

function drain :: "executor \<Rightarrow> executor" where
  "drain s =
     (case ex_queue s of
        [] \<Rightarrow> s
      | i # rest \<Rightarrow> if \<not> ex_closed s \<and> ex_active s < ex_concurrency s then drain (start i (s\<lparr>ex_queue := rest\<rparr>)) else s)"
  by pat_completeness auto

termination
  by (relation "measure (\<lambda>s. length (ex_queue s))") (auto simp: start_def)

definition schedule :: "nat \<Rightarrow> executor \<Rightarrow> executor" where
  "schedule i s =
     (if ex_closed s then refuse i s
      else if ex_active s < ex_concurrency s then start i s
      else if ex_queueLimit s \<le> length (ex_queue s) then refuse i s
      else s\<lparr>ex_queue := ex_queue s @ [i]\<rparr>)"

text \<open>The promise of a running operation settles: with a value, or with anything else, which the caller never sees.\<close>

definition settle :: "nat \<Rightarrow> string option \<Rightarrow> executor \<Rightarrow> executor" where
  "settle i r s =
     s\<lparr>ex_running := remove1 i (ex_running s), ex_finishing := ex_finishing s @ [i],
       ex_settled := ex_settled s @ [(i, case r of Some v \<Rightarrow> Fulfilled v | None \<Rightarrow> Unavailable)]\<rparr>"

text \<open>Its \<open>finally\<close> callback.\<close>

definition finish :: "nat \<Rightarrow> executor \<Rightarrow> executor" where
  "finish i s = drain (s\<lparr>ex_active := ex_active s - 1, ex_finishing := remove1 i (ex_finishing s)\<rparr>)"

definition closeExecutor :: "executor \<Rightarrow> executor" where
  "closeExecutor s =
     (if ex_closed s then s
      else s\<lparr>ex_closed := True, ex_queue := [], ex_settled := ex_settled s @ map (\<lambda>i. (i, Unavailable)) (ex_queue s)\<rparr>)"

declare drain.simps [simp del]

section \<open>Steps\<close>

text \<open>The second component is what callers submitted, in order; a call has a number of its own.\<close>

inductive executor_step :: "executor \<times> nat list \<Rightarrow> executor \<times> nat list \<Rightarrow> bool" where
  submitted: "i \<notin> set calls \<Longrightarrow> executor_step (s, calls) (schedule i s, calls @ [i])"
| settled: "i \<in> set (ex_running s) \<Longrightarrow> executor_step (s, calls) (settle i r s, calls)"
| finished: "i \<in> set (ex_finishing s) \<Longrightarrow> executor_step (s, calls) (finish i s, calls)"
| was_closed: "executor_step (s, calls) (closeExecutor s, calls)"

inductive executor_reachable :: "executor \<times> nat list \<Rightarrow> bool" where
  created: "createArgonExecutor concurrency queueLimit = Inr s \<Longrightarrow> executor_reachable (s, [])"
| stepped: "executor_reachable c \<Longrightarrow> executor_step c c' \<Longrightarrow> executor_reachable c'"

inductive_cases executor_stepE: "executor_step (s, calls) c"

section \<open>The invariant\<close>

definition executor_ok :: "executor \<Rightarrow> nat list \<Rightarrow> bool" where
  "executor_ok s calls =
     (1 \<le> ex_concurrency s \<and> ex_concurrency s \<le> 2 \<and> ex_queueLimit s \<le> 32
      \<and> ex_active s = length (ex_running s) + length (ex_finishing s) \<and> ex_active s \<le> ex_concurrency s
      \<and> length (ex_queue s) \<le> ex_queueLimit s
      \<and> (ex_active s < ex_concurrency s \<or> ex_closed s \<longrightarrow> ex_queue s = [])
      \<and> distinct calls \<and> subseq (ex_started s @ ex_queue s) calls
      \<and> mset calls = mset (ex_queue s) + mset (ex_running s) + mset (map fst (ex_settled s)))"

text \<open>The same while \<open>drain\<close> is at work: a place may be free although something waits.\<close>

definition draining :: "executor \<Rightarrow> nat list \<Rightarrow> bool" where
  "draining s calls =
     (1 \<le> ex_concurrency s \<and> ex_concurrency s \<le> 2 \<and> ex_queueLimit s \<le> 32
      \<and> ex_active s = length (ex_running s) + length (ex_finishing s) \<and> ex_active s \<le> ex_concurrency s
      \<and> length (ex_queue s) \<le> ex_queueLimit s \<and> (ex_closed s \<longrightarrow> ex_queue s = [])
      \<and> distinct calls \<and> subseq (ex_started s @ ex_queue s) calls
      \<and> mset calls = mset (ex_queue s) + mset (ex_running s) + mset (map fst (ex_settled s)))"

lemma drain_ok: "draining s calls \<Longrightarrow> executor_ok (drain s) calls"
proof (induction s rule: drain.induct)
  case (1 s)
  show ?case
  proof (cases "ex_queue s")
    case Nil
    with 1(2) show ?thesis by (simp add: drain.simps [of s] executor_ok_def draining_def)
  next
    case (Cons i rest)
    show ?thesis
    proof (cases "\<not> ex_closed s \<and> ex_active s < ex_concurrency s")
      case True
      have "draining (start i (s\<lparr>ex_queue := rest\<rparr>)) calls"
        using 1(2) True Cons by (simp add: draining_def start_def)
      with 1(1) [OF Cons True] show ?thesis by (simp add: drain.simps [of s] Cons True)
    next
      case False
      with 1(2) Cons show ?thesis by (auto simp: drain.simps [of s] executor_ok_def draining_def)
    qed
  qed
qed

lemma subseq_new: "subseq xs ys \<Longrightarrow> subseq (xs @ [i]) (ys @ [i])"
  by (rule list_emb_append_mono) auto

lemma subseq_later: "subseq xs ys \<Longrightarrow> subseq xs (ys @ [i])"
  by (meson subseq_order.trans subseq_rev_drop_many)

lemma refuse_ok: "executor_ok s calls \<Longrightarrow> i \<notin> set calls \<Longrightarrow> executor_ok (refuse i s) (calls @ [i])"
  by (simp add: refuse_def executor_ok_def subseq_later)

lemma start_place_ok:
  assumes "executor_ok s calls" and "i \<notin> set calls" and "\<not> ex_closed s" and "ex_active s < ex_concurrency s"
  shows "executor_ok (start i s) (calls @ [i])"
proof -
  from assms have idle: "ex_queue s = []" by (simp add: executor_ok_def)
  with assms(1) have "subseq (ex_started s) calls" by (simp add: executor_ok_def)
  from subseq_new [OF this, of i] show ?thesis using assms idle by (simp add: start_def executor_ok_def)
qed

lemma enqueue_ok:
  assumes "executor_ok s calls" and "i \<notin> set calls" and "\<not> ex_closed s"
    and "\<not> ex_active s < ex_concurrency s" and "length (ex_queue s) < ex_queueLimit s"
  shows "executor_ok (s\<lparr>ex_queue := ex_queue s @ [i]\<rparr>) (calls @ [i])"
  using assms subseq_new [of "ex_started s @ ex_queue s" calls i] by (simp add: executor_ok_def)

lemma schedule_ok: "executor_ok s calls \<Longrightarrow> i \<notin> set calls \<Longrightarrow> executor_ok (schedule i s) (calls @ [i])"
  unfolding schedule_def by (simp add: refuse_ok start_place_ok enqueue_ok not_le split: if_split)

lemma settle_ok: "executor_ok s calls \<Longrightarrow> i \<in> set (ex_running s) \<Longrightarrow> executor_ok (settle i r s) calls"
proof -
  assume ok: "executor_ok s calls" and running: "i \<in> set (ex_running s)"
  then have "mset (ex_running s) = add_mset i (mset (remove1 i (ex_running s)))" by simp
  moreover from running have "length (ex_running s) = Suc (length (remove1 i (ex_running s)))"
    by (metis calculation size_add_mset size_mset)
  ultimately show ?thesis using ok by (simp add: settle_def executor_ok_def del: mset_remove1)
qed

lemma finish_ok:
  assumes "executor_ok s calls" and "i \<in> set (ex_finishing s)"
  shows "executor_ok (finish i s) calls"
proof -
  from assms(2) have "length (ex_finishing s) = Suc (length (remove1 i (ex_finishing s)))"
    by (metis in_set_conv_decomp_first length_remove1 length_pos_if_in_set Suc_diff_1)
  with assms(1) have "draining (s\<lparr>ex_active := ex_active s - 1, ex_finishing := remove1 i (ex_finishing s)\<rparr>) calls"
    by (auto simp: executor_ok_def draining_def simp del: length_remove1)
  then show ?thesis by (simp add: finish_def drain_ok)
qed

lemma close_ok: "executor_ok s calls \<Longrightarrow> executor_ok (closeExecutor s) calls"
proof (cases "ex_closed s")
  case False
  assume ok: "executor_ok s calls"
  then have "subseq (ex_started s) calls"
    unfolding executor_ok_def by (blast intro: subseq_order.trans list_emb_append2 subseq_rev_drop_many)
  with ok False show ?thesis by (simp add: closeExecutor_def executor_ok_def comp_def)
qed (simp add: closeExecutor_def)

lemma executor_step_ok: "executor_step (s, calls) (s', calls') \<Longrightarrow> executor_ok s calls \<Longrightarrow> executor_ok s' calls'"
  by (erule executor_stepE) (simp_all add: schedule_ok settle_ok finish_ok close_ok)

lemma executor_reachable_ok: "executor_reachable c \<Longrightarrow> executor_ok (fst c) (snd c)"
proof (induction rule: executor_reachable.induct)
  case (created concurrency queueLimit s)
  then show ?case
    by (auto simp: createArgonExecutor_def validateBounds_def executor_ok_def MAX_ARGON_CONCURRENCY_def
        MAX_ARGON_QUEUE_LIMIT_def bindR_eq_Inr split: option.splits if_splits)
next
  case (stepped c c')
  then show ?case by (metis executor_step_ok prod.collapse)
qed

section \<open>Getting all work done\<close>

text \<open>The steps the executor makes without its callers: operations settle and their callbacks run.\<close>

inductive settling :: "executor \<Rightarrow> executor \<Rightarrow> bool" where
  operation: "i \<in> set (ex_running s) \<Longrightarrow> settling s (settle i r s)"
| callback: "i \<in> set (ex_finishing s) \<Longrightarrow> settling s (finish i s)"

definition work :: "executor \<Rightarrow> nat" where
  "work s = 2 * length (ex_queue s) + 2 * length (ex_running s) + length (ex_finishing s)"

lemma work_drain: "work (drain s) = work s"
proof (induction s rule: drain.induct)
  case (1 s)
  then show ?case by (cases "ex_queue s") (auto simp: drain.simps [of s] work_def start_def)
qed

lemma settling_work: "settling s s' \<Longrightarrow> work s = Suc (work s')"
proof (induction rule: settling.induct)
  case (operation i s r)
  then have "length (ex_running s) = Suc (length (remove1 i (ex_running s)))"
    by (simp add: length_remove1) (metis Suc_pred length_pos_if_in_set)
  then show ?case by (simp add: work_def settle_def del: length_remove1)
next
  case (callback i s)
  then have "length (ex_finishing s) = Suc (length (remove1 i (ex_finishing s)))"
    by (simp add: length_remove1) (metis Suc_pred length_pos_if_in_set)
  then show ?case unfolding finish_def work_drain by (simp add: work_def del: length_remove1)
qed

lemma settling_reachable: "settling s s' \<Longrightarrow> executor_reachable (s, calls) \<Longrightarrow> executor_reachable (s', calls)"
  by (induction rule: settling.induct) (blast intro: stepped executor_step.intros)+

lemma settlings_reachable:
  "(settling ^^ n) s s' \<Longrightarrow> executor_reachable (s, calls) \<Longrightarrow> executor_reachable (s', calls) \<and> work s = n + work s'"
proof (induction n arbitrary: s')
  case (Suc n)
  then obtain t where "(settling ^^ n) s t" and "settling t s'" by auto
  with Suc show ?case by (auto dest: settling_work settling_reachable)
qed simp

lemma busy_settles: "executor_reachable (s, calls) \<Longrightarrow> 0 < work s \<Longrightarrow> \<exists>s'. settling s s'"
proof -
  assume reachable: "executor_reachable (s, calls)" and busy: "0 < work s"
  from executor_reachable_ok [OF reachable] have ok: "executor_ok s calls" by simp
  have "ex_running s \<noteq> [] \<or> ex_finishing s \<noteq> []"
    using ok busy by (auto simp: executor_ok_def work_def)
  then show ?thesis by (metis settling.intros list.set_intros(1) neq_Nil_conv)
qed

section \<open>After the close\<close>

lemma drain_closed: "ex_closed s \<Longrightarrow> drain s = s"
  by (simp add: drain.simps [of s] split: list.splits)

text \<open>Nothing starts any more, and what had not been started is refused, like every later call.\<close>

definition refused :: "nat list \<Rightarrow> executor \<Rightarrow> bool" where
  "refused is s = (\<forall>i \<in> set is. (i, Unavailable) \<in> set (ex_settled s))"

lemma closed_step:
  assumes "executor_step (s, calls) (s', calls')" and "ex_closed s" and "refused is s"
  shows "ex_closed s' \<and> ex_started s' = ex_started s
    \<and> (\<exists>late. calls' = calls @ late \<and> refused (is @ late) s')"
  using assms
proof (elim executor_stepE, goal_cases)
  case (1 i)
  then show ?case by (auto simp: schedule_def refuse_def refused_def)
next
  case (2 i r)
  then show ?case by (auto simp: settle_def refused_def)
next
  case (3 i)
  then show ?case by (auto simp: finish_def drain_closed refused_def)
next
  case 4
  then show ?case by (auto simp: closeExecutor_def refused_def)
qed

lemma closed_steps:
  "executor_step\<^sup>*\<^sup>* (s, calls) c \<Longrightarrow> ex_closed s \<Longrightarrow> refused is s \<Longrightarrow>
     ex_closed (fst c) \<and> ex_started (fst c) = ex_started s
     \<and> (\<exists>late. snd c = calls @ late \<and> refused (is @ late) (fst c))"
proof (induction rule: rtranclp_induct)
  case (step c c')
  then obtain late where "ex_closed (fst c)" "ex_started (fst c) = ex_started s" "snd c = calls @ late"
    and "refused (is @ late) (fst c)" by blast
  moreover from step(2) have "executor_step (fst c, snd c) (fst c', snd c')" by simp
  ultimately show ?case using closed_step [of "fst c" "snd c" "fst c'" "snd c'" "is @ late"] by auto
qed (auto intro: exI [of _ "[]"])

section \<open>Properties\<close>

text \<open>C28: at any moment, however calls, settling operations, callbacks and a close interleave, the executor
  runs at most the one or two operations it was created for (counting those whose callback is still to come,
  which is what its snapshot reports) and lets at most 32 wait; something waits only while it is open and
  every place is taken; operations start in the order of their calls; and every call is exactly one of
  waiting, running and settled.\<close>

theorem executor_bounded:
  assumes "executor_reachable (s, calls)"
  shows "ex_concurrency s \<in> {1, 2} \<and> length (ex_running s) + length (ex_finishing s) \<le> ex_concurrency s
    \<and> length (ex_queue s) \<le> ex_queueLimit s \<and> ex_queueLimit s \<le> 32
    \<and> snapshot s = (length (ex_running s) + length (ex_finishing s), length (ex_queue s), ex_closed s)
    \<and> (ex_queue s = [] \<or> \<not> ex_closed s \<and> ex_active s = ex_concurrency s)
    \<and> subseq (ex_started s @ ex_queue s) calls
    \<and> distinct (ex_queue s @ ex_running s @ map fst (ex_settled s))
    \<and> set calls = set (ex_queue s) \<union> set (ex_running s) \<union> fst ` set (ex_settled s)"
proof -
  from executor_reachable_ok [OF assms] have ok: "executor_ok s calls" by simp
  then have parts: "mset calls = mset (ex_queue s @ ex_running s @ map fst (ex_settled s))"
    by (simp add: executor_ok_def)
  from ok have "distinct calls" by (simp add: executor_ok_def)
  with parts have "distinct (ex_queue s @ ex_running s @ map fst (ex_settled s))"
    by (metis mset_eq_imp_distinct_iff)
  moreover from arg_cong [OF parts, of set_mset]
  have "set calls = set (ex_queue s) \<union> set (ex_running s) \<union> fst ` set (ex_settled s)" by auto
  ultimately show ?thesis using ok by (auto simp: executor_ok_def snapshot_def)
qed

definition new_executor :: executor where
  "new_executor = projr (createArgonExecutor (Some 1) (Some 1))"

lemma new_executor: "executor_reachable (new_executor, [])"
  unfolding new_executor_def
  by (rule created [of "Some 1" "Some 1"])
    (simp add: createArgonExecutor_def validateBounds_def MAX_ARGON_CONCURRENCY_def MAX_ARGON_QUEUE_LIMIT_def)

lemma busy_executor:
  "executor_reachable (schedule 9 (schedule 8 (schedule 7 new_executor)), [7, 8, 9])"
proof -
  have "executor_reachable (schedule 7 new_executor, [] @ [7])"
    by (rule stepped [OF new_executor submitted]) simp
  then have "executor_reachable (schedule 8 (schedule 7 new_executor), ([] @ [7]) @ [8])"
    by (rule stepped [OF _ submitted]) simp
  then have "executor_reachable (schedule 9 (schedule 8 (schedule 7 new_executor)), (([] @ [7]) @ [8]) @ [9])"
    by (rule stepped [OF _ submitted]) simp
  then show ?thesis by simp
qed

lemma busy_state:
  "schedule 9 (schedule 8 (schedule 7 new_executor)) =
     \<lparr>ex_concurrency = 1, ex_queueLimit = 1, ex_active = 1, ex_closed = False, ex_queue = [8], ex_running = [7],
      ex_finishing = [], ex_started = [7], ex_settled = [(9, Unavailable)]\<rparr>"
  by code_simp

theorem executor_bounded_witness:
  "executor_reachable (schedule 9 (schedule 8 (schedule 7 new_executor)), [7, 8, 9])
   \<and> subseq [7, 8] [7, 8, 9 :: nat]"
  using executor_bounded [OF busy_executor] busy_executor unfolding busy_state by simp

text \<open>C29: what the executor accepted gets done. From any reachable state, however operations settle and
  their callbacks run, exactly \<open>work\<close> such steps are possible, none of them gets stuck before the last, and
  after the last nothing waits, runs or is active and every call has been settled exactly once.\<close>

theorem executor_settles_all:
  assumes "executor_reachable (s, calls)" and "(settling ^^ n) s s'"
  shows "n \<le> work s \<and> (n = work s \<or> (\<exists>s''. settling s' s''))
    \<and> (n = work s \<longrightarrow> snapshot s' = (0, 0, ex_closed s') \<and> mset (map fst (ex_settled s')) = mset calls)"
proof -
  from settlings_reachable [OF assms(2,1)] have reachable: "executor_reachable (s', calls)"
    and steps: "work s = n + work s'" by auto
  from busy_settles [OF reachable] steps have "n = work s \<or> (\<exists>s''. settling s' s'')" by (cases "work s'") auto
  with steps executor_reachable_ok [OF reachable] show ?thesis
    by (auto simp: work_def executor_ok_def snapshot_def)
qed

text \<open>Operation 7 settles and its callback lets 8 start.\<close>

lemma busy_settling:
  "(settling ^^ 2) (schedule 9 (schedule 8 (schedule 7 new_executor)))
     (finish 7 (settle 7 None (schedule 9 (schedule 8 (schedule 7 new_executor)))))"
proof -
  let ?s = "schedule 9 (schedule 8 (schedule 7 new_executor))"
  have "settling ?s (settle 7 None ?s)" by (rule operation) (simp add: busy_state)
  moreover have "settling (settle 7 None ?s) (finish 7 (settle 7 None ?s))"
    by (rule callback) (simp add: busy_state settle_def)
  ultimately show ?thesis by (auto simp: numeral_2_eq_2)
qed

theorem executor_settles_all_witness:
  "2 \<le> work (schedule 9 (schedule 8 (schedule 7 new_executor)))
   \<and> (\<exists>s. settling (finish 7 (settle 7 None (schedule 9 (schedule 8 (schedule 7 new_executor))))) s)"
  using executor_settles_all [OF busy_executor busy_settling] unfolding busy_state by (simp add: work_def)

text \<open>after \<open>close\<close> no operation is started, whatever happens later, and everything that was still
  waiting and every call made since has been refused as unavailable.\<close>

theorem executor_closed:
  assumes "executor_reachable (s, calls)" and "\<not> ex_closed s"
    and "executor_step\<^sup>*\<^sup>* (closeExecutor s, calls) (s', calls')"
  shows "ex_started s' = ex_started s \<and> snapshot s' = (length (ex_running s') + length (ex_finishing s'), 0, True)
    \<and> (\<exists>late. calls' = calls @ late \<and> refused (ex_queue s @ late) s')"
proof -
  from assms(2) have start: "ex_closed (closeExecutor s)" "refused (ex_queue s) (closeExecutor s)"
    "ex_started (closeExecutor s) = ex_started s" by (auto simp: closeExecutor_def refused_def)
  have "executor_reachable (closeExecutor s, calls)" by (rule stepped [OF assms(1) was_closed])
  with assms(3) have "executor_reachable (s', calls')"
    by (induction rule: rtranclp_induct) (auto intro: stepped)
  from executor_reachable_ok [OF this] closed_steps [OF assms(3) start(1,2)] start(3) show ?thesis
    by (auto simp: snapshot_def executor_ok_def)
qed

theorem executor_closed_witness:
  "refused [8] (closeExecutor (schedule 9 (schedule 8 (schedule 7 new_executor))))"
  using executor_closed [OF busy_executor _ rtranclp.rtrancl_refl] by (simp add: busy_state)

end
