(* ===== verification/Optimizer_Policies.thy ===== *)
theory Optimizer_Policies
  imports Price_Tables
begin

text \<open>
  Optimizer policies: core/optimizer-policies/optimizer-policies-input.ts, optimizer-policies-repository.ts
  and optimizer-policies-service.ts, over the table of migration 0017 with its constraints and its
  lifecycle trigger. A policy is created as a draft; once active its terms are frozen, and it can only be
  archived. The percentage is kept in hundredths, as NUMERIC(5,2) stores it. What \<open>jsonb\<close> makes of a value
  (the value it stores and its size as text, None when it refuses it) and the casts of a cursor are
  arguments. The helpers whose copies agree with those of the price tables are taken from there.
\<close>

section \<open>Types\<close>

datatype policy_objective = MaximizeExpectedSavings | MinimizeDownsideLoss | EfficientFrontier

definition objective_text :: "policy_objective \<Rightarrow> string" where
  "objective_text x = (case x of MaximizeExpectedSavings \<Rightarrow> ''maximize_expected_savings''
     | MinimizeDownsideLoss \<Rightarrow> ''minimize_downside_loss'' | EfficientFrontier \<Rightarrow> ''efficient_frontier'')"

datatype policy_status = PolicyDraft | PolicyActive | PolicyArchived

definition policy_status_text :: "policy_status \<Rightarrow> string" where
  "policy_status_text x = (case x of PolicyDraft \<Rightarrow> ''draft'' | PolicyActive \<Rightarrow> ''active'' | PolicyArchived \<Rightarrow> ''archived'')"

record policy_input =
  pin_name :: string
  pin_objective :: policy_objective
  pin_maxDownsideLossCents :: string
  pin_minExpectedSavingsCents :: string
  pin_maxUtilizationGapPct :: string
  pin_approvalThresholdCents :: string
  pin_allowedInstruments :: "instrument list"
  pin_config :: "(string \<times> json) list"

record policy_patch =
  pp_name :: "string option"
  pp_objective :: "policy_objective option"
  pp_maxDownsideLossCents :: "string option"
  pp_minExpectedSavingsCents :: "string option"
  pp_maxUtilizationGapPct :: "string option"
  pp_approvalThresholdCents :: "string option"
  pp_allowedInstruments :: "instrument list option"
  pp_config :: "(string \<times> json) list option"
  pp_status :: "policy_status option"

record policy_list_query =
  plq_limit :: nat
  plq_status :: "policy_status option"

section \<open>Input\<close>

definition POLICY_FIELDS :: "string list" where
  "POLICY_FIELDS = [''name'', ''objective'', ''max_downside_loss_cents'', ''min_expected_savings_cents'', ''max_utilization_gap_pct'',
     ''approval_threshold_cents'', ''allowed_instruments'', ''config'']"

definition objective :: "json \<Rightarrow> policy_objective result" where
  "objective v = bindR (string_input v)
     (\<lambda>s. orElse (find (\<lambda>x. objective_text x = s) [MaximizeExpectedSavings, MinimizeDownsideLoss, EfficientFrontier]) invalid_request)"

definition policy_status :: "json \<Rightarrow> policy_status result" where
  "policy_status v = bindR (string_input v)
     (\<lambda>s. orElse (find (\<lambda>x. policy_status_text x = s) [PolicyDraft, PolicyActive, PolicyArchived]) invalid_request)"

definition allowedInstruments :: "json \<Rightarrow> instrument list result" where
  "allowedInstruments v =
     (case v of
        JArr vs \<Rightarrow>
          if length vs < 1 \<or> length vs > 5 then Inl invalid_request
          else bindR (traverseR parseInstrument vs) (\<lambda>is. if distinct is then Inr is else Inl invalid_request)
      | _ \<Rightarrow> Inl invalid_request)"

text \<open>\<open>/^(?:0|[1-9][0-9]\{0,18\})$/u\<close> and the largest \<open>bigint\<close>.\<close>

definition unsignedBigint :: "json \<Rightarrow> string result" where
  "unsignedBigint v = bindR (string_input v) (\<lambda>s.
     if \<not> unsigned_integer_pattern s then Inl invalid_request
     else if dec_val s > 9223372036854775807 then Inl invalid_request else Inr (show_nat (dec_val s)))"

text \<open>\<open>/^(?:100(?:\.0\{1,2\})?|[0-9]\{1,2\}(?:\.[0-9]\{1,2\})?)$/u\<close>.\<close>

definition utilization_gap_pattern :: "string \<Rightarrow> bool" where
  "utilization_gap_pattern s =
     (case split_on (CHR ''.'') s of
        [w] \<Rightarrow> w = ''100'' \<or> (length w \<in> {1, 2} \<and> list_all is_digit w)
      | [w, f] \<Rightarrow> length f \<in> {1, 2} \<and> list_all is_digit f
          \<and> ((w = ''100'' \<and> list_all ((=) (CHR ''0'')) f) \<or> (length w \<in> {1, 2} \<and> list_all is_digit w))
      | _ \<Rightarrow> False)"

text \<open>\<open>Number(value).toFixed(2)\<close> of such a text: at most two decimals, so the digits stay.\<close>

definition to_fixed_2 :: "string \<Rightarrow> string" where
  "to_fixed_2 s =
     (let parts = split_on (CHR ''.'') s in
      show_nat (dec_val (hd parts)) @ ''.'' @ pad_end 2 (CHR ''0'') (if length parts > 1 then parts ! 1 else []))"

definition utilizationGap :: "json \<Rightarrow> string result" where
  "utilizationGap v = bindR (string_input v) (\<lambda>s. if utilization_gap_pattern s then Inr (to_fixed_2 s) else Inl invalid_request)"

definition configObject :: "json \<Rightarrow> (string \<times> json) list result" where
  "configObject v = coverage v"

definition parseOptimizerPolicyCreateBody :: "json \<Rightarrow> policy_input result" where
  "parseOptimizerPolicyCreateBody body =
     bindR (closedRecord body POLICY_FIELDS) (\<lambda>kvs.
     if \<exists>k\<in>set POLICY_FIELDS. json_prop kvs k = JUndefined then Inl invalid_request
     else
       bindR (cleanText 1 200 (json_prop kvs ''name'')) (\<lambda>name.
       bindR (objective (json_prop kvs ''objective'')) (\<lambda>goal.
       bindR (unsignedBigint (json_prop kvs ''max_downside_loss_cents'')) (\<lambda>loss.
       bindR (unsignedBigint (json_prop kvs ''min_expected_savings_cents'')) (\<lambda>savings.
       bindR (utilizationGap (json_prop kvs ''max_utilization_gap_pct'')) (\<lambda>gap.
       bindR (unsignedBigint (json_prop kvs ''approval_threshold_cents'')) (\<lambda>threshold.
       bindR (allowedInstruments (json_prop kvs ''allowed_instruments'')) (\<lambda>allowed.
       bindR (configObject (json_prop kvs ''config'')) (\<lambda>config.
       Inr \<lparr>pin_name = name, pin_objective = goal, pin_maxDownsideLossCents = loss, pin_minExpectedSavingsCents = savings,
         pin_maxUtilizationGapPct = gap, pin_approvalThresholdCents = threshold, pin_allowedInstruments = allowed,
         pin_config = config\<rparr>)))))))))"

definition parseOptimizerPolicyPatchBody :: "json \<Rightarrow> policy_patch result" where
  "parseOptimizerPolicyPatchBody body =
     bindR (closedRecord body (POLICY_FIELDS @ [''status''])) (\<lambda>kvs.
     if object_keys kvs = [] then Inl invalid_request
     else
       bindR (given (cleanText 1 200) (json_prop kvs ''name'')) (\<lambda>name.
       bindR (given objective (json_prop kvs ''objective'')) (\<lambda>goal.
       bindR (given unsignedBigint (json_prop kvs ''max_downside_loss_cents'')) (\<lambda>loss.
       bindR (given unsignedBigint (json_prop kvs ''min_expected_savings_cents'')) (\<lambda>savings.
       bindR (given utilizationGap (json_prop kvs ''max_utilization_gap_pct'')) (\<lambda>gap.
       bindR (given unsignedBigint (json_prop kvs ''approval_threshold_cents'')) (\<lambda>threshold.
       bindR (given allowedInstruments (json_prop kvs ''allowed_instruments'')) (\<lambda>allowed.
       bindR (given configObject (json_prop kvs ''config'')) (\<lambda>config.
       bindR (given policy_status (json_prop kvs ''status'')) (\<lambda>status.
       Inr \<lparr>pp_name = name, pp_objective = goal, pp_maxDownsideLossCents = loss, pp_minExpectedSavingsCents = savings,
         pp_maxUtilizationGapPct = gap, pp_approvalThresholdCents = threshold, pp_allowedInstruments = allowed,
         pp_config = config, pp_status = status\<rparr>))))))))))"

definition parseOptimizerPolicyListQuery :: "json \<Rightarrow> policy_list_query result" where
  "parseOptimizerPolicyListQuery query =
     bindR (closedRecord query [''limit'', ''cursor'', ''status'']) (\<lambda>kvs.
     bindR (parseLimit (json_prop kvs ''limit'')) (\<lambda>limit.
     bindR (given policy_status (json_prop kvs ''status'')) (\<lambda>status. Inr \<lparr>plq_limit = limit, plq_status = status\<rparr>)))"

definition parseOptimizerPolicyId :: "json \<Rightarrow> string result" where
  "parseOptimizerPolicyId v = bindR (string_input v) (\<lambda>s. if lower_uuid s then Inr s else Inl invalid_request)"

section \<open>The table\<close>

record policy_terms =
  op_name :: string
  op_objective :: policy_objective
  op_maxDownsideLossCents :: int
  op_minExpectedSavingsCents :: int
  op_maxUtilizationGapPct :: int
  op_approvalThresholdCents :: int
  op_allowedInstruments :: "instrument list"
  op_config :: json

record policy_row =
  op_id :: string
  op_tenantId :: string
  op_terms :: policy_terms
  op_status :: policy_status
  op_createdAt :: int
  op_updatedAt :: int

text \<open>\<open>pw_now\<close> is the clock of the database in microseconds.\<close>

record policy_world =
  pw_tenants :: "string list"
  pw_policies :: "policy_row list"
  pw_now :: int

text \<open>\<open>$6::numeric\<close> in hundredths.\<close>

definition hundredths :: "string \<Rightarrow> int" where
  "hundredths s = int (dec_val (filter is_digit s))"

definition policy_terms_check :: "jsonb \<Rightarrow> policy_terms \<Rightarrow> bool" where
  "policy_terms_check jsonb_of t =
     (clean_column 200 (op_name t)
      \<and> 0 \<le> op_maxDownsideLossCents t \<and> 0 \<le> op_minExpectedSavingsCents t \<and> 0 \<le> op_approvalThresholdCents t
      \<and> 0 \<le> op_maxUtilizationGapPct t \<and> op_maxUtilizationGapPct t \<le> 10000
      \<and> op_allowedInstruments t \<noteq> [] \<and> length (op_allowedInstruments t) \<le> 5 \<and> distinct (op_allowedInstruments t)
      \<and> config_column jsonb_of (op_config t))"

definition policy_row_check :: "jsonb \<Rightarrow> policy_row \<Rightarrow> bool" where
  "policy_row_check jsonb_of p = (policy_terms_check jsonb_of (op_terms p) \<and> op_createdAt p \<le> op_updatedAt p)"

definition same_name :: "policy_row \<Rightarrow> policy_row \<Rightarrow> bool" where
  "same_name p q = (op_tenantId p = op_tenantId q \<and> op_name (op_terms p) = op_name (op_terms q))"

definition name_taken :: js_error where
  "name_taken = sqlstate ''23505 optimizer_policies_name_key''"

definition insert_policy :: "jsonb \<Rightarrow> policy_row \<Rightarrow> policy_world \<Rightarrow> policy_world result" where
  "insert_policy jsonb_of p w =
     (if op_status p \<noteq> PolicyDraft \<or> \<not> policy_row_check jsonb_of p then Inl (sqlstate ''23514'')
      else if \<exists>q\<in>set (pw_policies w). op_id q = op_id p then Inl (sqlstate ''23505'')
      else if \<exists>q\<in>set (pw_policies w). same_name p q then Inl name_taken
      else if op_tenantId p \<notin> set (pw_tenants w) then Inl (sqlstate ''23503'')
      else Inr (w\<lparr>pw_policies := pw_policies w @ [p]\<rparr>))"

text \<open>The trigger of an UPDATE; id, tenant and creation time are not assigned.\<close>

definition policy_lifecycle :: "policy_row \<Rightarrow> policy_row \<Rightarrow> bool" where
  "policy_lifecycle old new =
     (case op_status old of
        PolicyArchived \<Rightarrow> False
      | PolicyActive \<Rightarrow> op_terms new = op_terms old \<and> op_status new = PolicyArchived
      | PolicyDraft \<Rightarrow> True)"

definition update_policy :: "jsonb \<Rightarrow> policy_row \<Rightarrow> policy_row \<Rightarrow> policy_world \<Rightarrow> policy_world result" where
  "update_policy jsonb_of old new w =
     (let new' = new\<lparr>op_updatedAt := pw_now w\<rparr> in
      if \<not> policy_lifecycle old new then Inl (sqlstate ''55000'')
      else if \<not> policy_row_check jsonb_of new' then Inl (sqlstate ''23514'')
      else if \<exists>q\<in>set (pw_policies w). op_id q \<noteq> op_id old \<and> same_name new' q then Inl name_taken
      else Inr (w\<lparr>pw_policies := map (\<lambda>q. if op_id q = op_id old then new' else q) (pw_policies w)\<rparr>))"

section \<open>The repository\<close>

definition policy_at :: "string \<Rightarrow> string \<Rightarrow> policy_row \<Rightarrow> bool" where
  "policy_at tenantId i p = (op_tenantId p = tenantId \<and> op_id p = i)"

definition get_policy :: "string \<Rightarrow> string \<Rightarrow> policy_world \<Rightarrow> policy_row option" where
  "get_policy tenantId i w = find (policy_at tenantId i) (pw_policies w)"

definition input_terms :: "policy_input \<Rightarrow> json \<Rightarrow> policy_terms" where
  "input_terms x config =
     \<lparr>op_name = pin_name x, op_objective = pin_objective x, op_maxDownsideLossCents = int (dec_val (pin_maxDownsideLossCents x)),
      op_minExpectedSavingsCents = int (dec_val (pin_minExpectedSavingsCents x)),
      op_maxUtilizationGapPct = hundredths (pin_maxUtilizationGapPct x),
      op_approvalThresholdCents = int (dec_val (pin_approvalThresholdCents x)), op_allowedInstruments = pin_allowedInstruments x,
      op_config = config\<rparr>"

definition create_policy :: "jsonb \<Rightarrow> string \<Rightarrow> string \<Rightarrow> policy_input \<Rightarrow> policy_world \<Rightarrow> policy_row result \<times> policy_world" where
  "create_policy jsonb_of new_id tenantId input w =
     (case bindR (jsonb_cast jsonb_of (pin_config input)) (\<lambda>config.
         insert_policy jsonb_of \<lparr>op_id = new_id, op_tenantId = tenantId, op_terms = input_terms input config, op_status = PolicyDraft,
           op_createdAt = pw_now w, op_updatedAt = pw_now w\<rparr> w) of
        Inl e \<Rightarrow> (Inl e, w)
      | Inr w' \<Rightarrow> (orElse (get_policy tenantId new_id w') (Thrown ''TypeError''), w'))"

definition policy_key :: "policy_row \<Rightarrow> boundary" where
  "policy_key p = (micros_text (op_createdAt p), op_id p)"

definition list_policies :: "(string \<Rightarrow> int option) \<Rightarrow> (string \<Rightarrow> string option) \<Rightarrow> string \<Rightarrow> policy_list_query \<Rightarrow> boundary option
    \<Rightarrow> policy_world \<Rightarrow> policy_row list result" where
  "list_policies timestamptz_of uuid_of tenantId query cursor w =
     bindR (cast_boundary timestamptz_of uuid_of cursor) (\<lambda>b.
     Inr (keyset_query policy_key b (plq_limit query + 1)
       (filter (\<lambda>p. op_tenantId p = tenantId \<and> given_is (plq_status query) (op_status p)) (pw_policies w))))"

text \<open>\<open>COALESCE($5::bigint, x)\<close>.\<close>

definition coalesce_cents :: "string option \<Rightarrow> int \<Rightarrow> int" where
  "coalesce_cents v x = (case v of None \<Rightarrow> x | Some s \<Rightarrow> int (dec_val s))"

definition coalesce :: "'a option \<Rightarrow> 'a \<Rightarrow> 'a" where
  "coalesce v x = (case v of None \<Rightarrow> x | Some y \<Rightarrow> y)"

definition patched_terms :: "policy_patch \<Rightarrow> json option \<Rightarrow> policy_terms \<Rightarrow> policy_terms" where
  "patched_terms x config t =
     \<lparr>op_name = coalesce (pp_name x) (op_name t), op_objective = coalesce (pp_objective x) (op_objective t),
      op_maxDownsideLossCents = coalesce_cents (pp_maxDownsideLossCents x) (op_maxDownsideLossCents t),
      op_minExpectedSavingsCents = coalesce_cents (pp_minExpectedSavingsCents x) (op_minExpectedSavingsCents t),
      op_maxUtilizationGapPct = coalesce (map_option hundredths (pp_maxUtilizationGapPct x)) (op_maxUtilizationGapPct t),
      op_approvalThresholdCents = coalesce_cents (pp_approvalThresholdCents x) (op_approvalThresholdCents t),
      op_allowedInstruments = coalesce (pp_allowedInstruments x) (op_allowedInstruments t),
      op_config = coalesce config (op_config t)\<rparr>"

definition patch_config :: "jsonb \<Rightarrow> policy_patch \<Rightarrow> json option result" where
  "patch_config jsonb_of x =
     (case pp_config x of None \<Rightarrow> Inr None | Some kvs \<Rightarrow> bindR (jsonb_cast jsonb_of kvs) (\<lambda>v. Inr (Some v)))"

definition patch_policy :: "jsonb \<Rightarrow> string \<Rightarrow> string \<Rightarrow> policy_patch \<Rightarrow> policy_world \<Rightarrow> policy_row option result \<times> policy_world" where
  "patch_policy jsonb_of tenantId i input w =
     (case patch_config jsonb_of input of
        Inl e \<Rightarrow> (Inl e, w)
      | Inr config \<Rightarrow>
          (case get_policy tenantId i w of
             None \<Rightarrow> (Inr None, w)
           | Some old \<Rightarrow>
               (case update_policy jsonb_of old (old\<lparr>op_terms := patched_terms input config (op_terms old),
                    op_status := coalesce (pp_status input) (op_status old)\<rparr>) w of
                  Inl e \<Rightarrow> (Inl e, w)
                | Inr w' \<Rightarrow> (Inr (get_policy tenantId i w'), w'))))"

section \<open>The service\<close>

definition policy_not_found :: js_error where
  "policy_not_found = AppError ''NOT_FOUND'' ''The requested resource was not found.'' 404"

definition policy_conflict :: js_error where
  "policy_conflict = AppError ''OPTIMIZER_POLICY_CONFLICT'' ''Optimizer policy already exists.'' 409"

definition policy_frozen :: js_error where
  "policy_frozen = AppError ''OPTIMIZER_POLICY_FROZEN'' ''Optimizer policy cannot be changed in its current status.'' 409"

definition policies_unavailable :: js_error where
  "policies_unavailable = AppError ''OPTIMIZER_POLICIES_UNAVAILABLE'' ''Optimizer policies are temporarily unavailable.'' 503"

definition policy_safe :: "'a result \<Rightarrow> 'a result" where
  "policy_safe r =
     (case r of
        Inl (Thrown s) \<Rightarrow> Inl (if Thrown s = name_taken then policy_conflict
          else if Thrown s = sqlstate ''55000'' then policy_frozen else policies_unavailable)
      | _ \<Rightarrow> r)"

text \<open>\<open>to_char(max_utilization_gap_pct, 'FM990.00')\<close>.\<close>

definition percent_text :: "int \<Rightarrow> string" where
  "percent_text n = show_int (n div 100) @ ''.'' @ pad_start 2 (CHR ''0'') (show_int (n mod 100))"

definition toPolicy :: "policy_row \<Rightarrow> json" where
  "toPolicy p =
     (let t = op_terms p in JObj
       [(''id'', JStr (op_id p)), (''name'', JStr (op_name t)), (''objective'', JStr (objective_text (op_objective t))),
        (''max_downside_loss_cents'', JStr (show_int (op_maxDownsideLossCents t))),
        (''min_expected_savings_cents'', JStr (show_int (op_minExpectedSavingsCents t))),
        (''max_utilization_gap_pct'', JStr (percent_text (op_maxUtilizationGapPct t))),
        (''approval_threshold_cents'', JStr (show_int (op_approvalThresholdCents t))),
        (''allowed_instruments'', JArr (map (\<lambda>i. JStr (instrument_text i)) (op_allowedInstruments t))), (''config'', op_config t),
        (''status'', JStr (policy_status_text (op_status p))), (''created_at'', JStr (micros_text (op_createdAt p))),
        (''updated_at'', JStr (micros_text (op_updatedAt p)))])"

definition createPolicy :: "jsonb \<Rightarrow> string \<Rightarrow> string \<Rightarrow> json \<Rightarrow> policy_world \<Rightarrow> json result \<times> policy_world" where
  "createPolicy jsonb_of new_id tenantId body w =
     (case parseOptimizerPolicyCreateBody body of
        Inl e \<Rightarrow> (Inl e, w)
      | Inr input \<Rightarrow>
          (case create_policy jsonb_of new_id tenantId input w of (r, w') \<Rightarrow> (bindR (policy_safe r) (\<lambda>row. Inr (toPolicy row)), w')))"

definition listPolicies :: "(string \<Rightarrow> json option) \<Rightarrow> (string \<Rightarrow> int option) \<Rightarrow> (string \<Rightarrow> string option) \<Rightarrow> string \<Rightarrow> json
    \<Rightarrow> policy_world \<Rightarrow> (json list \<times> string option) result" where
  "listPolicies parse_bytes timestamptz_of uuid_of tenantId query w =
     bindR (parseOptimizerPolicyListQuery query) (\<lambda>parsed.
     bindR (case property query ''cursor'' of JStr c \<Rightarrow> bindR (decodeOptimizerPolicyCursor parse_bytes c) (\<lambda>b. Inr (Some b)) | _ \<Rightarrow> Inr None) (\<lambda>cursor.
     bindR (policy_safe (list_policies timestamptz_of uuid_of tenantId parsed cursor w)) (\<lambda>rows.
     let selected = take (plq_limit parsed) rows in
     Inr (map toPolicy selected,
       if length rows > plq_limit parsed \<and> selected \<noteq> []
       then Some (encodeOptimizerPolicyCursor (fst (policy_key (last selected))) (snd (policy_key (last selected)))) else None))))"

definition patchPolicy :: "jsonb \<Rightarrow> string \<Rightarrow> json \<Rightarrow> json \<Rightarrow> policy_world \<Rightarrow> json result \<times> policy_world" where
  "patchPolicy jsonb_of tenantId idValue body w =
     (case bindR (parseOptimizerPolicyId idValue) (\<lambda>i. bindR (parseOptimizerPolicyPatchBody body) (\<lambda>input. Inr (i, input))) of
        Inl e \<Rightarrow> (Inl e, w)
      | Inr (i, input) \<Rightarrow>
          (case patch_policy jsonb_of tenantId i input w of
             (r, w') \<Rightarrow> (bindR (policy_safe r) (\<lambda>row. bindR (orElse row policy_not_found) (\<lambda>x. Inr (toPolicy x))), w')))"

end
