(* ===== verification/Optimizer_Policy_Claims.thy ===== *)
theory Optimizer_Policy_Claims
  imports Optimizer_Policies Optimizer
begin

text \<open>
  What the optimizer policies promise: parsed bodies satisfy the constraints of the table, the table is
  consistent in every reachable state, the terms of a policy never change once it is active, and the
  outcome of every patch.
\<close>

section \<open>Steps\<close>

inductive policy_step :: "jsonb \<Rightarrow> policy_world \<Rightarrow> policy_world \<Rightarrow> bool" for jsonb_of where
  policy_created: "policy_step jsonb_of w (snd (createPolicy jsonb_of new_id tenantId body w))"
| policy_patched: "policy_step jsonb_of w (snd (patchPolicy jsonb_of tenantId idValue body w))"
| policy_tenant: "policy_step jsonb_of w (w\<lparr>pw_tenants := tenantId # pw_tenants w\<rparr>)"
| policy_tick: "policy_step jsonb_of w (w\<lparr>pw_now := pw_now w + int d\<rparr>)"

inductive policy_reachable :: "jsonb \<Rightarrow> policy_world \<Rightarrow> bool" for jsonb_of where
  policy_start: "pw_policies w = [] \<Longrightarrow> policy_reachable jsonb_of w"
| policy_next: "policy_reachable jsonb_of w \<Longrightarrow> policy_step jsonb_of w w' \<Longrightarrow> policy_reachable jsonb_of w'"

inductive_cases policy_stepE: "policy_step jsonb_of w w'"

section \<open>Parsed values\<close>

lemma cleanText_clean: "cleanText lo hi v = Inr t \<Longrightarrow> 1 \<le> lo \<Longrightarrow> clean_column hi t"
proof -
  assume "cleanText lo hi v = Inr t" and lo: "1 \<le> lo"
  then obtain s where t: "t = trim s" "lo \<le> length t" "length t \<le> hi" "\<not> hasControlCharacters t"
    by (auto simp: cleanText_def Let_def bindR_eq_Inr not_less split: if_splits)
  with lo have ne: "trim s \<noteq> []" by auto
  have "is_ws (CHR '' '')" by code_simp
  with trim_hd_last [OF ne] have "hd t \<noteq> CHR '' ''" "last t \<noteq> CHR '' ''" by (auto simp: t(1))
  with t ne show ?thesis by (simp add: clean_column_def)
qed

lemma unsignedBigint_range: "unsignedBigint v = Inr t \<Longrightarrow> t = show_nat (dec_val t) \<and> dec_val t < 2 ^ 63"
  by (auto simp: unsignedBigint_def bindR_eq_Inr not_less split: if_splits)

lemma digits_filter: "list_all is_digit s \<Longrightarrow> filter is_digit s = s"
  by (induction s) auto

lemma show_nat_filter [simp]: "filter is_digit (show_nat n) = show_nat n"
  by (rule digits_filter) (use show_nat_digits in \<open>simp add: list_all_iff\<close>)

lemma is_digit_chars [simp]: "is_digit (CHR ''0'')" "\<not> is_digit (CHR ''.'')"
  by code_simp+

lemma dec_val_append: "dec_val (xs @ ys) = dec_val xs * 10 ^ length ys + dec_val ys"
  by (induction ys rule: rev_induct) (simp_all add: append_assoc [symmetric] del: append_assoc)

lemma hundredths_text:
  assumes "list_all is_digit f" and "length f = 2"
  shows "hundredths (show_nat n @ ''.'' @ f) = int (100 * n + dec_val f)"
  using assms by (simp add: hundredths_def digits_filter dec_val_append)

lemma pad_2: "list_all is_digit f \<Longrightarrow> length f \<le> 2 \<Longrightarrow> list_all is_digit (pad_end 2 (CHR ''0'') f) \<and> length (pad_end 2 (CHR ''0'') f) = 2"
  by (auto simp: pad_end_def list_all_iff)

lemma dec_val_all_zeros: "list_all ((=) (CHR ''0'')) f \<Longrightarrow> dec_val f = 0"
proof (induction f rule: rev_induct)
  case (snoc c f)
  moreover have "digit_val (CHR ''0'') = 0" by code_simp
  ultimately show ?case by auto
qed simp

lemma gap_fraction:
  assumes "to_fixed_2 s = show_nat n @ ''.'' @ pad_end 2 (CHR ''0'') f" and "list_all is_digit f" and "length f \<le> 2"
    and "n < 100 \<or> n = 100 \<and> list_all ((=) (CHR ''0'')) f"
  shows "0 \<le> hundredths (to_fixed_2 s) \<and> hundredths (to_fixed_2 s) \<le> 10000"
proof -
  from pad_2 [OF assms(2,3)] have pad: "list_all is_digit (pad_end 2 (CHR ''0'') f)" "length (pad_end 2 (CHR ''0'') f) = 2" by auto
  then have "dec_val (pad_end 2 (CHR ''0'') f) < 10 ^ 2" using dec_val_bound [of "pad_end 2 (CHR ''0'') f"] by (simp add: list_all_iff)
  moreover have "dec_val (pad_end 2 (CHR ''0'') f) = 0" if z: "list_all ((=) (CHR ''0'')) f"
  proof (rule dec_val_all_zeros)
    have "list_all ((=) (CHR ''0'')) (replicate n (CHR ''0''))" for n by (induction n) simp_all
    with z show "list_all ((=) (CHR ''0'')) (pad_end 2 (CHR ''0'') f)" by (simp add: pad_end_def)
  qed
  ultimately have "n < 100 \<and> dec_val (pad_end 2 (CHR ''0'') f) < 100 \<or> n = 100 \<and> dec_val (pad_end 2 (CHR ''0'') f) = 0"
    using assms(4) by fastforce
  then have "100 * n + dec_val (pad_end 2 (CHR ''0'') f) \<le> 10000" by linarith
  then show ?thesis unfolding assms(1) hundredths_text [OF pad] by linarith
qed

lemma short_digits: "length w \<in> {1, 2} \<Longrightarrow> list_all is_digit w \<Longrightarrow> dec_val w < 100"
proof -
  assume "length w \<in> {1, 2}" and "list_all is_digit w"
  then have "dec_val w < 10 ^ length w" "(10 :: nat) ^ length w \<le> 10 ^ 2" using dec_val_bound [of w] by (auto simp: list_all_iff)
  then show ?thesis by simp
qed

lemma gap_range: "utilizationGap v = Inr t \<Longrightarrow> 0 \<le> hundredths t \<and> hundredths t \<le> 10000"
proof -
  assume "utilizationGap v = Inr t"
  then obtain s where t: "t = to_fixed_2 s" and p: "utilization_gap_pattern s"
    by (auto simp: utilizationGap_def bindR_eq_Inr split: if_splits)
  have d100: "dec_val ''100'' = 100" by code_simp
  from p consider w where "split_on (CHR ''.'') s = [w]" "w = ''100'' \<or> length w \<in> {1, 2} \<and> list_all is_digit w"
    | w f where "split_on (CHR ''.'') s = [w, f]" "length f \<in> {1, 2}" "list_all is_digit f"
        "w = ''100'' \<and> list_all ((=) (CHR ''0'')) f \<or> length w \<in> {1, 2} \<and> list_all is_digit w"
    unfolding utilization_gap_pattern_def by (auto split: list.splits)
  then show ?thesis
  proof cases
    case 1
    then have "to_fixed_2 s = show_nat (dec_val w) @ ''.'' @ pad_end 2 (CHR ''0'') []" by (simp add: to_fixed_2_def)
    moreover have "dec_val w < 100 \<or> dec_val w = 100" using 1(2) d100 short_digits by blast
    ultimately show ?thesis unfolding t by (intro gap_fraction) auto
  next
    case 2
    then have "to_fixed_2 s = show_nat (dec_val w) @ ''.'' @ pad_end 2 (CHR ''0'') f" by (simp add: to_fixed_2_def)
    moreover have "dec_val w < 100 \<or> dec_val w = 100 \<and> list_all ((=) (CHR ''0'')) f" using 2(4) d100 short_digits by blast
    ultimately show ?thesis unfolding t using 2(2,3) by (intro gap_fraction) auto
  qed
qed

lemma allowed_range: "allowedInstruments v = Inr is \<Longrightarrow> is \<noteq> [] \<and> length is \<le> 5 \<and> distinct is"
  by (auto simp: allowedInstruments_def bindR_eq_Inr not_less split: json.splits if_splits dest!: traverseR_length)

section \<open>Terms\<close>

text \<open>What every stored policy satisfies but for the size and the keys of its configuration.\<close>

definition bigint_range :: "int \<Rightarrow> bool" where
  "bigint_range n = (0 \<le> n \<and> n < 2 ^ 63)"

definition terms_ok :: "policy_terms \<Rightarrow> bool" where
  "terms_ok t =
     (clean_column 200 (op_name t) \<and> bigint_range (op_maxDownsideLossCents t) \<and> bigint_range (op_minExpectedSavingsCents t)
      \<and> bigint_range (op_approvalThresholdCents t) \<and> 0 \<le> op_maxUtilizationGapPct t \<and> op_maxUtilizationGapPct t \<le> 10000
      \<and> op_allowedInstruments t \<noteq> [] \<and> length (op_allowedInstruments t) \<le> 5 \<and> distinct (op_allowedInstruments t))"

lemma terms_check: "terms_ok t \<Longrightarrow> policy_terms_check jsonb_of t = config_column jsonb_of (op_config t)"
  by (auto simp: terms_ok_def policy_terms_check_def bigint_range_def)

lemma unsignedBigint_bigint: "unsignedBigint v = Inr t \<Longrightarrow> bigint_range (int (dec_val t))"
  using unsignedBigint_range [of v t] by (simp add: bigint_range_def)

lemma create_body_terms:
  assumes "parseOptimizerPolicyCreateBody body = Inr input"
  shows "terms_ok (input_terms input config)"
  using assms
  by (auto simp: parseOptimizerPolicyCreateBody_def bindR_eq_Inr input_terms_def terms_ok_def
      intro!: cleanText_clean unsignedBigint_bigint dest!: gap_range allowed_range split: if_splits)

lemma given_Inr: "given parse v = Inr x \<longleftrightarrow> (v = JUndefined \<and> x = None) \<or> (v \<noteq> JUndefined \<and> (\<exists>y. parse v = Inr y \<and> x = Some y))"
  by (auto simp: given_def bindR_eq_Inr)

text \<open>What the body of a patch can set, field by field.\<close>

definition given_satisfies :: "('a \<Rightarrow> bool) \<Rightarrow> 'a option \<Rightarrow> bool" where
  "given_satisfies P v = (case v of None \<Rightarrow> True | Some x \<Rightarrow> P x)"

lemma given_parsed: "given parse v = Inr x \<Longrightarrow> (\<And>y. parse v = Inr y \<Longrightarrow> P y) \<Longrightarrow> given_satisfies P x"
  by (auto simp: given_Inr given_satisfies_def)

lemma coalesce_ok: "given_satisfies P v \<Longrightarrow> P x \<Longrightarrow> P (coalesce v x)"
  by (cases v) (simp_all add: given_satisfies_def coalesce_def)

lemma coalesce_cents_ok: "given_satisfies (\<lambda>s. bigint_range (int (dec_val s))) v \<Longrightarrow> bigint_range x \<Longrightarrow> bigint_range (coalesce_cents v x)"
  by (cases v) (simp_all add: given_satisfies_def coalesce_cents_def)

lemma patch_body_terms:
  assumes "parseOptimizerPolicyPatchBody body = Inr input" and "terms_ok t"
  shows "terms_ok (patched_terms input config t)"
proof -
  from assms(1) obtain kvs where
    n: "given (cleanText 1 200) (json_prop kvs ''name'') = Inr (pp_name input)"
    and l: "given unsignedBigint (json_prop kvs ''max_downside_loss_cents'') = Inr (pp_maxDownsideLossCents input)"
    and m: "given unsignedBigint (json_prop kvs ''min_expected_savings_cents'') = Inr (pp_minExpectedSavingsCents input)"
    and u: "given utilizationGap (json_prop kvs ''max_utilization_gap_pct'') = Inr (pp_maxUtilizationGapPct input)"
    and h: "given unsignedBigint (json_prop kvs ''approval_threshold_cents'') = Inr (pp_approvalThresholdCents input)"
    and i: "given allowedInstruments (json_prop kvs ''allowed_instruments'') = Inr (pp_allowedInstruments input)"
    by (auto simp: parseOptimizerPolicyPatchBody_def bindR_eq_Inr split: if_splits)
  have name: "given_satisfies (clean_column 200) (pp_name input)"
    using n by (rule given_parsed) (simp add: cleanText_clean)
  have cents: "given unsignedBigint v = Inr x \<Longrightarrow> given_satisfies (\<lambda>s. bigint_range (int (dec_val s))) x" for v x
    by (erule given_parsed) (rule unsignedBigint_bigint)
  note loss = cents [OF l] and savings = cents [OF m] and threshold = cents [OF h]
  have gap: "given_satisfies (\<lambda>s. 0 \<le> hundredths s \<and> hundredths s \<le> 10000) (pp_maxUtilizationGapPct input)"
    using u by (rule given_parsed) (rule gap_range)
  have allowed: "given_satisfies (\<lambda>is. is \<noteq> [] \<and> length is \<le> 5 \<and> distinct is) (pp_allowedInstruments input)"
    using i by (rule given_parsed) (rule allowed_range)
  have "given_satisfies (\<lambda>h. 0 \<le> h \<and> h \<le> 10000) (map_option hundredths (pp_maxUtilizationGapPct input))"
    using gap by (cases "pp_maxUtilizationGapPct input") (simp_all add: given_satisfies_def)
  from coalesce_ok [OF this, of "op_maxUtilizationGapPct t"] coalesce_ok [OF name, of "op_name t"]
    coalesce_ok [OF allowed, of "op_allowedInstruments t"] coalesce_cents_ok [OF loss, of "op_maxDownsideLossCents t"]
    coalesce_cents_ok [OF savings, of "op_minExpectedSavingsCents t"] coalesce_cents_ok [OF threshold, of "op_approvalThresholdCents t"]
  show ?thesis using assms(2) by (simp add: terms_ok_def patched_terms_def)
qed

section \<open>Two effects\<close>

definition with_policy :: "policy_row \<Rightarrow> policy_world \<Rightarrow> policy_world" where
  "with_policy p w = w\<lparr>pw_policies := map (\<lambda>q. if op_id q = op_id p then p else q) (pw_policies w)\<rparr>"

inductive policy_effect :: "jsonb \<Rightarrow> policy_world \<Rightarrow> policy_world \<Rightarrow> bool" for jsonb_of where
  policies_stay: "pw_policies w' = pw_policies w \<Longrightarrow> pw_now w \<le> pw_now w' \<Longrightarrow> policy_effect jsonb_of w w'"
| policy_added: "w' = w\<lparr>pw_policies := pw_policies w @ [p]\<rparr> \<Longrightarrow> op_status p = PolicyDraft \<Longrightarrow> policy_row_check jsonb_of p
    \<Longrightarrow> terms_ok (op_terms p) \<Longrightarrow> op_createdAt p = pw_now w \<Longrightarrow> \<forall>q\<in>set (pw_policies w). op_id q \<noteq> op_id p \<and> \<not> same_name p q
    \<Longrightarrow> policy_effect jsonb_of w w'"
| policy_changed: "w' = with_policy p w \<Longrightarrow> old \<in> set (pw_policies w) \<Longrightarrow> op_id p = op_id old \<Longrightarrow> op_tenantId p = op_tenantId old
    \<Longrightarrow> op_createdAt p = op_createdAt old \<Longrightarrow> policy_lifecycle old p \<Longrightarrow> policy_row_check jsonb_of p \<Longrightarrow> terms_ok (op_terms p)
    \<Longrightarrow> \<forall>q\<in>set (pw_policies w). op_id q \<noteq> op_id old \<longrightarrow> \<not> same_name p q \<Longrightarrow> policy_effect jsonb_of w w'"

definition policies_ok :: "jsonb \<Rightarrow> policy_world \<Rightarrow> bool" where
  "policies_ok jsonb_of w =
     (distinct (map op_id (pw_policies w))
      \<and> (\<forall>p\<in>set (pw_policies w). policy_row_check jsonb_of p \<and> terms_ok (op_terms p) \<and> op_createdAt p \<le> pw_now w
           \<and> (\<forall>q\<in>set (pw_policies w). same_name p q \<longrightarrow> q = p)))"

lemma policy_unique: "policies_ok jsonb_of w \<Longrightarrow> p \<in> set (pw_policies w) \<Longrightarrow> q \<in> set (pw_policies w) \<Longrightarrow> op_id p = op_id q \<Longrightarrow> p = q"
  unfolding policies_ok_def by (auto simp: distinct_map inj_on_def)

lemma same_name_sym: "same_name p q = same_name q p"
  by (auto simp: same_name_def)

lemma policy_effect_ok: "policy_effect jsonb_of w w' \<Longrightarrow> policies_ok jsonb_of w \<Longrightarrow> policies_ok jsonb_of w'"
proof (induction rule: policy_effect.induct)
  case (policies_stay w' w)
  then show ?case unfolding policies_ok_def by (auto intro: order_trans)
next
  case (policy_added w' w p)
  then have "op_id p \<notin> op_id ` set (pw_policies w)" by force
  with policy_added show ?case by (auto simp: policies_ok_def same_name_sym)
next
  case (policy_changed w' p w old)
  have rows: "set (pw_policies w') = insert p (set (pw_policies w) - {old})"
  proof -
    have "op_id q = op_id p \<longleftrightarrow> q = old" if "q \<in> set (pw_policies w)" for q
      using policy_unique [OF policy_changed.prems that policy_changed.hyps(2)] policy_changed.hyps(3) by auto
    then have "pw_policies w' = map (\<lambda>q. if q = old then p else q) (pw_policies w)"
      by (simp add: policy_changed.hyps(1) with_policy_def)
    then show ?thesis using policy_changed.hyps(2) by auto
  qed
  have others: "op_id q \<noteq> op_id old" if "q \<in> set (pw_policies w) - {old}" for q
    using policy_unique [OF policy_changed.prems] policy_changed.hyps(2) that by blast
  have "map op_id (pw_policies w') = map op_id (pw_policies w)"
    using policy_changed.hyps(1) by (auto simp: with_policy_def)
  moreover have "op_createdAt p \<le> pw_now w'" using policy_changed by (auto simp: policies_ok_def with_policy_def)
  moreover have "pw_now w' = pw_now w" by (simp add: policy_changed.hyps(1) with_policy_def)
  ultimately show ?case
    using policy_changed others unfolding policies_ok_def rows by (auto simp: same_name_sym)
qed

lemma policy_effect_refl [simp]: "policy_effect jsonb_of w w"
  by (simp add: policies_stay)

section \<open>What the operations do\<close>

lemma insert_policy_Inr:
  "insert_policy jsonb_of p w = Inr w' \<Longrightarrow>
     w' = w\<lparr>pw_policies := pw_policies w @ [p]\<rparr> \<and> op_status p = PolicyDraft \<and> policy_row_check jsonb_of p
     \<and> (\<forall>q\<in>set (pw_policies w). op_id q \<noteq> op_id p \<and> \<not> same_name p q)"
  by (auto simp: insert_policy_def split: if_splits)

lemma policy_create_effect: "policy_effect jsonb_of w (snd (createPolicy jsonb_of new_id tenantId body w))"
proof (cases "parseOptimizerPolicyCreateBody body")
  case (Inl e)
  then show ?thesis by (simp add: createPolicy_def policies_stay)
next
  case (Inr input)
  let ?p = "\<lambda>config. \<lparr>op_id = new_id, op_tenantId = tenantId, op_terms = input_terms input config, op_status = PolicyDraft,
      op_createdAt = pw_now w, op_updatedAt = pw_now w\<rparr>"
  let ?r = "bindR (jsonb_cast jsonb_of (pin_config input)) (\<lambda>config. insert_policy jsonb_of (?p config) w)"
  show ?thesis
  proof (cases ?r)
    case (Inl e)
    then show ?thesis by (simp add: createPolicy_def Inr create_policy_def policies_stay)
  next
    case r: (Inr w')
    then obtain config where ins: "insert_policy jsonb_of (?p config) w = Inr w'" by (auto simp: bindR_eq_Inr)
    have "snd (createPolicy jsonb_of new_id tenantId body w) = w'" by (simp add: createPolicy_def Inr create_policy_def r)
    with insert_policy_Inr [OF ins] create_body_terms [OF Inr] show ?thesis by (auto intro!: policy_added [of _ _ "?p config"])
  qed
qed

text \<open>The row a patch asks for.\<close>

definition patched :: "policy_patch \<Rightarrow> json option \<Rightarrow> int \<Rightarrow> policy_row \<Rightarrow> policy_row" where
  "patched input config now p = p\<lparr>op_terms := patched_terms input config (op_terms p),
     op_status := coalesce (pp_status input) (op_status p), op_updatedAt := now\<rparr>"

lemma patched_fields [simp]:
  "op_id (patched input config now p) = op_id p" "op_tenantId (patched input config now p) = op_tenantId p"
  "op_createdAt (patched input config now p) = op_createdAt p" "op_updatedAt (patched input config now p) = now"
  "op_terms (patched input config now p) = patched_terms input config (op_terms p)"
  "op_status (patched input config now p) = coalesce (pp_status input) (op_status p)"
  by (simp_all add: patched_def)

lemma found_policy: "get_policy t i w = Some p \<Longrightarrow> p \<in> set (pw_policies w) \<and> op_id p = i \<and> op_tenantId p = t"
  by (auto simp: get_policy_def find_Some_iff policy_at_def)

lemma get_after_patch:
  assumes "policies_ok jsonb_of w" and "get_policy t i w = Some old" and "op_id p = i" and "op_tenantId p = t"
  shows "get_policy t i (with_policy p w) = Some p"
proof -
  have "policy_at t i (if op_id q = op_id p then p else q) = policy_at t i q" if "q \<in> set (pw_policies w)" for q
    using policy_unique [OF assms(1) that, of old] found_policy [OF assms(2)] assms(3,4) by (auto simp: policy_at_def)
  then have "find (policy_at t i) (pw_policies (with_policy p w)) = map_option (\<lambda>q. if op_id q = op_id p then p else q) (find (policy_at t i) (pw_policies w))"
    by (simp add: with_policy_def find_map_same)
  with assms(2) found_policy [OF assms(2)] assms(3) show ?thesis by (simp add: get_policy_def)
qed

text \<open>A patch of a row that is there, with a body that parses and a configuration \<open>jsonb\<close> takes.\<close>

lemma patch_policy_eq:
  assumes ok: "policies_ok jsonb_of w" and parsed: "parseOptimizerPolicyPatchBody body = Inr input"
    and config: "patch_config jsonb_of input = Inr config" and found: "get_policy t i w = Some p"
  shows "patch_policy jsonb_of t i input w =
     (let new = patched input config (pw_now w) p in
      if \<not> policy_lifecycle p new then (Inl (sqlstate ''55000''), w)
      else if \<not> config_column jsonb_of (op_config (op_terms new)) then (Inl (sqlstate ''23514''), w)
      else if \<exists>q\<in>set (pw_policies w). op_id q \<noteq> i \<and> same_name new q then (Inl name_taken, w)
      else (Inr (Some new), with_policy new w))"
proof -
  let ?new = "patched input config (pw_now w) p"
  from found have p: "p \<in> set (pw_policies w)" "op_id p = i" "op_tenantId p = t" by (auto dest: found_policy)
  with ok have "terms_ok (op_terms p)" "op_createdAt p \<le> pw_now w" by (auto simp: policies_ok_def)
  with patch_body_terms [OF parsed] have "policy_row_check jsonb_of ?new = config_column jsonb_of (op_config (op_terms ?new))"
    by (simp add: policy_row_check_def terms_check)
  moreover have "get_policy t i (with_policy ?new w) = Some ?new" using get_after_patch [OF ok found] p by simp
  moreover have "policy_lifecycle p (p\<lparr>op_terms := patched_terms input config (op_terms p), op_status := coalesce (pp_status input) (op_status p)\<rparr>)
      = policy_lifecycle p ?new"
    by (simp add: policy_lifecycle_def split: policy_status.splits)
  ultimately show ?thesis
    using p by (auto simp: patch_policy_def config found update_policy_def Let_def with_policy_def patched_def [symmetric])
qed

lemma policy_patch_effect:
  assumes ok: "policies_ok jsonb_of w"
  shows "policy_effect jsonb_of w (snd (patchPolicy jsonb_of tenantId idValue body w))"
proof (cases "bindR (parseOptimizerPolicyId idValue) (\<lambda>i. bindR (parseOptimizerPolicyPatchBody body) (\<lambda>input. Inr (i, input)))")
  case (Inl e)
  then show ?thesis by (simp add: patchPolicy_def policies_stay)
next
  case (Inr x)
  then obtain i input where parsed: "parseOptimizerPolicyPatchBody body = Inr input" and x: "x = (i, input)" by (auto simp: bindR_eq_Inr)
  have e: "snd (patchPolicy jsonb_of tenantId idValue body w) = snd (patch_policy jsonb_of tenantId i input w)"
    by (simp add: patchPolicy_def Inr x case_prod_beta)
  consider "snd (patch_policy jsonb_of tenantId i input w) = w"
    | config p where "patch_config jsonb_of input = Inr config" "get_policy tenantId i w = Some p"
    by (cases "patch_config jsonb_of input"; cases "get_policy tenantId i w") (auto simp: patch_policy_def)
  then show ?thesis
  proof cases
    case 1
    then show ?thesis by (simp add: e policies_stay)
  next
    case 2
    let ?new = "patched input config (pw_now w) p"
    from 2 have p: "p \<in> set (pw_policies w)" "op_id p = i" by (auto dest: found_policy)
    with ok have old: "terms_ok (op_terms p)" "op_createdAt p \<le> pw_now w" by (auto simp: policies_ok_def)
    from patch_body_terms [OF parsed old(1)] have terms: "terms_ok (op_terms ?new)" by simp
    show ?thesis
    proof (cases "policy_lifecycle p ?new \<and> config_column jsonb_of (op_config (op_terms ?new))
        \<and> \<not> (\<exists>q\<in>set (pw_policies w). op_id q \<noteq> i \<and> same_name ?new q)")
      case True
      with p old terms have "policy_effect jsonb_of w (with_policy ?new w)"
        by (intro policy_changed [of _ ?new _ p]) (auto simp: policy_row_check_def terms_check)
      with True show ?thesis by (auto simp: e patch_policy_eq [OF ok parsed 2] Let_def)
    next
      case False
      then show ?thesis by (auto simp: e patch_policy_eq [OF ok parsed 2] Let_def intro: policies_stay)
    qed
  qed
qed

lemma policy_step_effect: "policy_step jsonb_of w w' \<Longrightarrow> policies_ok jsonb_of w \<Longrightarrow> policy_effect jsonb_of w w'"
  by (erule policy_stepE) (auto simp: policy_create_effect policy_patch_effect intro: policies_stay)

lemma policy_reachable_ok: "policy_reachable jsonb_of w \<Longrightarrow> policies_ok jsonb_of w"
proof (induction rule: policy_reachable.induct)
  case (policy_start w)
  then show ?case by (simp add: policies_ok_def)
next
  case (policy_next w w')
  then show ?case using policy_step_effect policy_effect_ok by blast
qed

section \<open>Frozen terms\<close>

text \<open>What a policy that is active or archived becomes: itself, or the same terms archived.\<close>

definition settled_from :: "policy_row \<Rightarrow> policy_row \<Rightarrow> bool" where
  "settled_from p q = (op_id q = op_id p \<and> op_tenantId q = op_tenantId p \<and> op_terms q = op_terms p \<and> op_createdAt q = op_createdAt p
     \<and> (q = p \<or> op_status p = PolicyActive \<and> op_status q = PolicyArchived))"

lemma effect_settled:
  assumes "policy_effect jsonb_of w w'" and "policies_ok jsonb_of w" and "p \<in> set (pw_policies w)" and "op_status p \<noteq> PolicyDraft"
  shows "\<exists>q\<in>set (pw_policies w'). settled_from p q"
  using assms
proof (induction rule: policy_effect.induct)
  case (policies_stay w' w)
  then show ?case by (auto simp: settled_from_def)
next
  case (policy_added w' w q)
  then show ?case by (auto simp: settled_from_def)
next
  case (policy_changed w' new w old)
  show ?case
  proof (cases "p = old")
    case True
    have "settled_from p new" using policy_changed True by (auto simp: settled_from_def policy_lifecycle_def split: policy_status.splits)
    moreover have "new \<in> set (pw_policies w')" using policy_changed by (force simp: with_policy_def)
    ultimately show ?thesis by blast
  next
    case False
    then have "op_id p \<noteq> op_id new" using policy_changed policy_unique [of jsonb_of w p old] by auto
    then have "p \<in> set (pw_policies w')" using policy_changed by (force simp: with_policy_def)
    then show ?thesis by (auto simp: settled_from_def)
  qed
qed

lemma settled_trans: "settled_from p q \<Longrightarrow> settled_from q r \<Longrightarrow> settled_from p r"
  by (auto simp: settled_from_def)

lemma settled_not_draft: "settled_from p q \<Longrightarrow> op_status p \<noteq> PolicyDraft \<Longrightarrow> op_status q \<noteq> PolicyDraft"
  by (auto simp: settled_from_def)

section \<open>Reading the terms back\<close>

lemma split_percent: "0 \<le> n \<Longrightarrow> split_on (CHR ''.'') (percent_text n) = [show_int (n div 100), pad_start 2 (CHR ''0'') (show_int (n mod 100))]"
proof -
  assume n: "0 \<le> n"
  have dot: "\<not> is_digit (CHR ''.'')" by simp
  have "CHR ''.'' \<notin> set (show_nat (nat (n div 100)))" using show_nat_digits dot by blast
  moreover have "CHR ''.'' \<notin> set (pad_start 2 (CHR ''0'') (show_nat (nat (n mod 100))))" using pad_digits dot by blast
  ultimately show ?thesis using n by (simp add: percent_text_def show_int_nat split_on_append split_on_no_sep)
qed

lemma percent_bps:
  assumes "0 \<le> n"
  shows "decimalPercentToBps (percent_text n) = Inr n"
proof -
  let ?f = "pad_start 2 (CHR ''0'') (show_nat (nat (n mod 100)))"
  have f: "list_all is_digit ?f" "dec_val ?f = nat (n mod 100)"
    using pad_digits by (auto simp: list_all_iff pad_start_def)
  have "length (show_nat (nat (n mod 100))) \<le> Suc 1" by (rule show_nat_short) simp
  then have len: "length ?f = 2" by (simp add: pad_start_def)
  have "slice 0 2 (pad_end 2 (CHR ''0'') ?f) = ?f" using len by (simp add: pad_end_def slice_def)
  moreover have "bigint_of ?f = Some (int (dec_val ?f))"
    by (rule digits_bigint_of) (use f len in \<open>auto simp: list_all_iff\<close>)
  moreover have "bigint_of (show_int (n div 100)) = Some (n div 100)" by simp
  ultimately show ?thesis
    using assms f by (simp add: decimalPercentToBps_def split_percent Let_def show_int_nat bindR_eq_Inr bigintR_def)
qed

section \<open>A sample\<close>

definition sample_jsonb :: jsonb where
  "sample_jsonb v = Some (v, 20)"

definition sample_policy_body :: json where
  "sample_policy_body = JObj
     [(''name'', JStr ''  Default ''), (''objective'', JStr ''maximize_expected_savings''), (''max_downside_loss_cents'', JStr ''5000''),
      (''min_expected_savings_cents'', JStr ''100''), (''max_utilization_gap_pct'', JStr ''7.5''), (''approval_threshold_cents'', JStr ''0''),
      (''allowed_instruments'', JArr [JStr ''aws_compute_savings_plan'']), (''config'', JObj [(''liquidity_penalty_bps'', JInt 25)])]"

definition sample_terms :: policy_terms where
  "sample_terms = \<lparr>op_name = ''Default'', op_objective = MaximizeExpectedSavings, op_maxDownsideLossCents = 5000,
     op_minExpectedSavingsCents = 100, op_maxUtilizationGapPct = 750, op_approvalThresholdCents = 0,
     op_allowedInstruments = [AwsComputeSavingsPlan], op_config = JObj [(''liquidity_penalty_bps'', JInt 25)]\<rparr>"

definition sample_policy_id :: string where
  "sample_policy_id = ''00000000-0000-4000-8000-000000000002''"

definition sample_policy :: "policy_status \<Rightarrow> policy_row" where
  "sample_policy s = \<lparr>op_id = sample_policy_id, op_tenantId = ''t'', op_terms = sample_terms, op_status = s, op_createdAt = 10, op_updatedAt = 10\<rparr>"

definition sample_policies :: "policy_status list \<Rightarrow> policy_world" where
  "sample_policies ss = \<lparr>pw_tenants = [''t''], pw_policies = map sample_policy ss, pw_now = 10\<rparr>"

lemma sample_policy_created:
  "snd (createPolicy sample_jsonb sample_policy_id ''t'' sample_policy_body (sample_policies [])) = sample_policies [PolicyDraft]"
  by code_simp

lemma sample_policy_activated:
  "snd (patchPolicy sample_jsonb ''t'' (JStr sample_policy_id) (JObj [(''status'', JStr ''active'')]) (sample_policies [PolicyDraft]))
     = sample_policies [PolicyActive]"
  by code_simp

lemma sample_policies_reachable:
  "policy_reachable sample_jsonb (sample_policies [PolicyDraft])" "policy_reachable sample_jsonb (sample_policies [PolicyActive])"
proof -
  have "policy_reachable sample_jsonb (sample_policies [])" by (rule policy_start) (simp add: sample_policies_def)
  from policy_next [OF this policy_created] sample_policy_created show draft: "policy_reachable sample_jsonb (sample_policies [PolicyDraft])"
    by metis
  from policy_next [OF draft policy_patched] sample_policy_activated show "policy_reachable sample_jsonb (sample_policies [PolicyActive])"
    by metis
qed

section \<open>Properties\<close>

text \<open>
  In every state the service reaches, ids are unique, a tenant has no two policies of one name, and every
  policy has a clean name, amounts that fit a bigint and are not negative, a gap between 0 and 100 percent,
  between one and five different instruments and a configuration of at most 64 KiB without reserved keys.
\<close>

theorem policies_consistent:
  assumes "policy_reachable jsonb_of w"
  shows "distinct (map op_id (pw_policies w))
    \<and> distinct (map (\<lambda>p. (op_tenantId p, op_name (op_terms p))) (pw_policies w))
    \<and> (\<forall>p\<in>set (pw_policies w). clean_column 200 (op_name (op_terms p))
         \<and> op_maxDownsideLossCents (op_terms p) \<in> {0..<2 ^ 63} \<and> op_minExpectedSavingsCents (op_terms p) \<in> {0..<2 ^ 63}
         \<and> op_approvalThresholdCents (op_terms p) \<in> {0..<2 ^ 63} \<and> op_maxUtilizationGapPct (op_terms p) \<in> {0..10000}
         \<and> length (op_allowedInstruments (op_terms p)) \<in> {1..5} \<and> distinct (op_allowedInstruments (op_terms p))
         \<and> config_column jsonb_of (op_config (op_terms p)) \<and> op_createdAt p \<le> op_updatedAt p)"
proof -
  have ok: "policies_ok jsonb_of w" by (rule policy_reachable_ok [OF assms])
  then have ids: "distinct (map op_id (pw_policies w))" by (simp add: policies_ok_def)
  then have "distinct (pw_policies w)" by (simp add: distinct_map)
  moreover have "inj_on (\<lambda>p. (op_tenantId p, op_name (op_terms p))) (set (pw_policies w))"
    using ok by (auto simp: inj_on_def policies_ok_def same_name_def)
  ultimately have names: "distinct (map (\<lambda>p. (op_tenantId p, op_name (op_terms p))) (pw_policies w))" by (simp add: distinct_map)
  have "policy_row_check jsonb_of p" "terms_ok (op_terms p)" if "p \<in> set (pw_policies w)" for p
    using ok that by (auto simp: policies_ok_def)
  then show ?thesis using ids names by (auto simp: terms_ok_def bigint_range_def policy_row_check_def policy_terms_check_def Suc_le_eq)
qed

theorem policies_consistent_witness:
  "distinct (map op_id (pw_policies (sample_policies [PolicyActive]))) \<and> op_maxUtilizationGapPct sample_terms = 750"
  using policies_consistent [OF sample_policies_reachable(2)] by (simp add: sample_terms_def)

text \<open>
  C30: Once a policy is active its terms never change again, through any sequence of requests of any tenant:
  it keeps its id, its tenant, its terms and its creation time, and the only thing that can happen to it
  is that it is archived; an archived policy stays as it is.
\<close>

theorem active_policy_frozen:
  assumes "policy_reachable jsonb_of w" and "(policy_step jsonb_of)\<^sup>*\<^sup>* w w'"
    and "p \<in> set (pw_policies w)" and "op_status p \<noteq> PolicyDraft"
  shows "\<exists>q\<in>set (pw_policies w'). op_id q = op_id p \<and> op_tenantId q = op_tenantId p \<and> op_terms q = op_terms p
    \<and> op_createdAt q = op_createdAt p \<and> (q = p \<or> op_status p = PolicyActive \<and> op_status q = PolicyArchived)"
  using assms(2)
proof (induction rule: rtranclp_induct)
  case base
  with assms(3) show ?case by blast
next
  case (step v v')
  have "policy_reachable jsonb_of v" using step(1) assms(1) by (induction rule: rtranclp_induct) (auto intro: policy_next)
  then have ok: "policies_ok jsonb_of v" by (rule policy_reachable_ok)
  from step(3) obtain q where q: "q \<in> set (pw_policies v)" "settled_from p q" by (auto simp: settled_from_def)
  from effect_settled [OF policy_step_effect [OF step(2) ok] ok q(1) settled_not_draft [OF q(2) assms(4)]]
  obtain r where "r \<in> set (pw_policies v')" "settled_from q r" by blast
  with settled_trans [OF q(2)] show ?case unfolding settled_from_def by blast
qed

text \<open>An attempt to rename it.\<close>

theorem active_policy_frozen_witness:
  "\<exists>q\<in>set (pw_policies (snd (patchPolicy sample_jsonb ''t'' (JStr sample_policy_id) (JObj [(''name'', JStr ''x'')]) (sample_policies [PolicyActive])))).
     op_terms q = sample_terms"
proof -
  have "sample_policy PolicyActive \<in> set (pw_policies (sample_policies [PolicyActive]))" by (simp add: sample_policies_def)
  from active_policy_frozen [OF sample_policies_reachable(2) r_into_rtranclp [of "policy_step sample_jsonb", OF policy_patched
      [where tenantId = "''t''" and idValue = "JStr sample_policy_id" and body = "JObj [(''name'', JStr ''x'')]"]] this]
  show ?thesis by (auto simp: sample_policy_def)
qed



end
