(* ===== verification/Scenarios.thy ===== *)
theory Scenarios
  imports Optimizer_Policies Forecast_Worker Auth_Errors
begin

text \<open>
  Scenarios: core/scenarios/scenarios-input.ts, scenarios-repository.ts and scenarios-service.ts, over the
  table of migration 0016 with its constraints and trigger. A scenario names a completed forecast of its
  tenant, if any; the module has no operation that changes one.
\<close>

section \<open>Types\<close>

datatype scenario_status = ScenarioDraft | ScenarioReady | ScenarioArchived

definition scenario_status_text :: "scenario_status \<Rightarrow> string" where
  "scenario_status_text x = (case x of ScenarioDraft \<Rightarrow> ''draft'' | ScenarioReady \<Rightarrow> ''ready'' | ScenarioArchived \<Rightarrow> ''archived'')"

record scenario_input =
  sci_name :: string
  sci_description :: "string option"
  sci_baseForecastRunId :: "string option"
  sci_shockConfig :: "(string \<times> json) list"

record scenario_list_query =
  slq_limit :: nat
  slq_status :: "scenario_status option"
  slq_cursor :: "boundary option"

section \<open>Input\<close>

definition uuid_input :: "json \<Rightarrow> string result" where
  "uuid_input v = bindR (string_input v) (\<lambda>s. if lower_uuid s then Inr s else Inl invalid_request)"

definition parseScenarioId :: "json \<Rightarrow> string result" where
  "parseScenarioId v = uuid_input v"

definition parseScenarioCreateBody :: "json \<Rightarrow> scenario_input result" where
  "parseScenarioCreateBody body =
     bindR (closedRecord body [''name'', ''description'', ''base_forecast_run_id'', ''shock_config'']) (\<lambda>kvs.
     bindR (cleanText 1 200 (json_prop kvs ''name'')) (\<lambda>name.
     bindR (given (cleanText 1 2000) (json_prop kvs ''description'')) (\<lambda>description.
     bindR (given uuid_input (json_prop kvs ''base_forecast_run_id'')) (\<lambda>base.
     bindR (given coverage (json_prop kvs ''shock_config'')) (\<lambda>config.
     Inr \<lparr>sci_name = name, sci_description = description, sci_baseForecastRunId = base,
       sci_shockConfig = coalesce config []\<rparr>)))))"

definition scenarioStatus :: "json \<Rightarrow> scenario_status result" where
  "scenarioStatus v = bindR (string_input v)
     (\<lambda>s. orElse (find (\<lambda>x. scenario_status_text x = s) [ScenarioDraft, ScenarioReady, ScenarioArchived]) invalid_request)"

definition boundedLimit :: "json \<Rightarrow> nat result" where
  "boundedLimit v = bindR (string_input v) (\<lambda>s. orElse (page_limit s) invalid_request)"

definition parseScenarioListQuery :: "(string \<Rightarrow> json option) \<Rightarrow> json \<Rightarrow> scenario_list_query result" where
  "parseScenarioListQuery parse_bytes query =
     bindR (closedRecord query [''limit'', ''cursor'', ''status'']) (\<lambda>kvs.
     bindR (given boundedLimit (json_prop kvs ''limit'')) (\<lambda>limit.
     bindR (given scenarioStatus (json_prop kvs ''status'')) (\<lambda>status.
     bindR (given (decodeScenarioCursor parse_bytes) (json_prop kvs ''cursor'')) (\<lambda>cursor.
     Inr \<lparr>slq_limit = coalesce limit 25, slq_status = status, slq_cursor = cursor\<rparr>))))"

section \<open>The table\<close>

record scenario_row =
  sc_id :: string
  sc_tenantId :: string
  sc_name :: string
  sc_description :: "string option"
  sc_baseForecastRunId :: "string option"
  sc_shockConfig :: json
  sc_status :: scenario_status
  sc_createdByUserId :: "string option"
  sc_createdAt :: int
  sc_updatedAt :: int

text \<open>With the tables its foreign keys name; users as pairs of tenant and id.\<close>

record scenario_world =
  scw_tenants :: "string list"
  scw_users :: "(string \<times> string) list"
  scw_forecasts :: "forecast_data job list"
  scw_scenarios :: "scenario_row list"
  scw_now :: int

definition forecast_at :: "string \<Rightarrow> string \<Rightarrow> forecast_data job \<Rightarrow> bool" where
  "forecast_at tenantId i j = (fr_tenantId (fd_run (j_data j)) = tenantId \<and> j_id j = i)"

definition find_forecast :: "string \<Rightarrow> string \<Rightarrow> forecast_data job list \<Rightarrow> forecast_data job option" where
  "find_forecast tenantId i js = find (forecast_at tenantId i) js"

definition option_check :: "('a \<Rightarrow> bool) \<Rightarrow> 'a option \<Rightarrow> bool" where
  "option_check P v = (case v of None \<Rightarrow> True | Some x \<Rightarrow> P x)"

definition scenario_row_check :: "jsonb \<Rightarrow> scenario_row \<Rightarrow> bool" where
  "scenario_row_check jsonb_of s =
     (clean_column 200 (sc_name s) \<and> option_check (clean_column 2000) (sc_description s)
      \<and> config_column jsonb_of (sc_shockConfig s) \<and> sc_createdAt s \<le> sc_updatedAt s)"

definition forecast_incomplete :: "string \<Rightarrow> string \<Rightarrow> forecast_data job list \<Rightarrow> bool" where
  "forecast_incomplete tenantId i js = (case find_forecast tenantId i js of None \<Rightarrow> False | Some j \<Rightarrow> j_status j \<noteq> Completed)"

definition insert_scenario :: "jsonb \<Rightarrow> scenario_row \<Rightarrow> scenario_world \<Rightarrow> scenario_world result" where
  "insert_scenario jsonb_of s w =
     (if sc_status s \<noteq> ScenarioDraft then Inl (sqlstate ''23514'')
      else if \<not> option_check (\<lambda>i. \<not> forecast_incomplete (sc_tenantId s) i (scw_forecasts w)) (sc_baseForecastRunId s)
        then Inl (sqlstate ''55000'')
      else if \<not> scenario_row_check jsonb_of s then Inl (sqlstate ''23514'')
      else if \<exists>x\<in>set (scw_scenarios w). sc_id x = sc_id s \<or> sc_tenantId x = sc_tenantId s \<and> sc_name x = sc_name s then Inl (sqlstate ''23505'')
      else if sc_tenantId s \<notin> set (scw_tenants w)
          \<or> \<not> option_check (\<lambda>i. find_forecast (sc_tenantId s) i (scw_forecasts w) \<noteq> None) (sc_baseForecastRunId s)
          \<or> \<not> option_check (\<lambda>u. (sc_tenantId s, u) \<in> set (scw_users w)) (sc_createdByUserId s) then Inl (sqlstate ''23503'')
      else Inr (w\<lparr>scw_scenarios := scw_scenarios w @ [s]\<rparr>))"

section \<open>The repository\<close>

definition scenario_at :: "string \<Rightarrow> string \<Rightarrow> scenario_row \<Rightarrow> bool" where
  "scenario_at tenantId i s = (sc_tenantId s = tenantId \<and> sc_id s = i)"

definition get_scenario :: "string \<Rightarrow> string \<Rightarrow> scenario_world \<Rightarrow> scenario_row option" where
  "get_scenario tenantId i w = find (scenario_at tenantId i) (scw_scenarios w)"

definition create_scenario :: "jsonb \<Rightarrow> string \<Rightarrow> string \<Rightarrow> string option \<Rightarrow> scenario_input \<Rightarrow> scenario_world
    \<Rightarrow> scenario_row result \<times> scenario_world" where
  "create_scenario jsonb_of new_id tenantId createdByUserId input w =
     (case bindR (jsonb_cast jsonb_of (sci_shockConfig input)) (\<lambda>config.
         insert_scenario jsonb_of \<lparr>sc_id = new_id, sc_tenantId = tenantId, sc_name = sci_name input, sc_description = sci_description input,
           sc_baseForecastRunId = sci_baseForecastRunId input, sc_shockConfig = config, sc_status = ScenarioDraft,
           sc_createdByUserId = createdByUserId, sc_createdAt = scw_now w, sc_updatedAt = scw_now w\<rparr> w) of
        Inl e \<Rightarrow> (Inl e, w)
      | Inr w' \<Rightarrow> (orElse (get_scenario tenantId new_id w') (Thrown ''TypeError''), w'))"

definition scenario_key :: "scenario_row \<Rightarrow> boundary" where
  "scenario_key s = (micros_text (sc_createdAt s), sc_id s)"

definition list_scenarios :: "(string \<Rightarrow> int option) \<Rightarrow> (string \<Rightarrow> string option) \<Rightarrow> string \<Rightarrow> scenario_list_query \<Rightarrow> scenario_world
    \<Rightarrow> scenario_row list result" where
  "list_scenarios timestamptz_of uuid_of tenantId query w =
     bindR (cast_boundary timestamptz_of uuid_of (slq_cursor query)) (\<lambda>b.
     Inr (keyset_query scenario_key b (slq_limit query + 1)
       (filter (\<lambda>s. sc_tenantId s = tenantId \<and> given_is (slq_status query) (sc_status s)) (scw_scenarios w))))"

section \<open>The service\<close>

definition scenarios_unavailable :: js_error where
  "scenarios_unavailable = AppError ''SCENARIOS_UNAVAILABLE'' ''Scenarios are temporarily unavailable.'' 503"

definition scenario_not_found :: js_error where
  "scenario_not_found = AppError ''NOT_FOUND'' ''The requested resource was not found.'' 404"

definition scenario_safe :: "'a result \<Rightarrow> 'a result" where
  "scenario_safe r = (case r of Inl (Thrown _) \<Rightarrow> Inl scenarios_unavailable | _ \<Rightarrow> r)"

definition toScenario :: "scenario_row \<Rightarrow> json" where
  "toScenario s = JObj
     [(''id'', JStr (sc_id s)), (''name'', JStr (sc_name s)), (''description'', opt_text (sc_description s)),
      (''base_forecast_run_id'', opt_text (sc_baseForecastRunId s)), (''shock_config'', sc_shockConfig s),
      (''status'', JStr (scenario_status_text (sc_status s))), (''created_by_user_id'', opt_text (sc_createdByUserId s)),
      (''created_at'', JStr (micros_text (sc_createdAt s))), (''updated_at'', JStr (micros_text (sc_updatedAt s)))]"

definition listScenarios :: "(string \<Rightarrow> json option) \<Rightarrow> (string \<Rightarrow> int option) \<Rightarrow> (string \<Rightarrow> string option) \<Rightarrow> request_context \<Rightarrow> json
    \<Rightarrow> scenario_world \<Rightarrow> (json list \<times> string option) result" where
  "listScenarios parse_bytes timestamptz_of uuid_of context query w =
     bindR (parseScenarioListQuery parse_bytes query) (\<lambda>input.
     bindR (scenario_safe (list_scenarios timestamptz_of uuid_of (ctx_tenantId context) input w)) (\<lambda>rows.
     let page = take (slq_limit input) rows in
     Inr (map toScenario page,
       if length rows > slq_limit input \<and> page \<noteq> []
       then Some (encodeScenarioCursor (fst (scenario_key (last page))) (snd (scenario_key (last page)))) else None)))"

definition getScenario :: "request_context \<Rightarrow> json \<Rightarrow> scenario_world \<Rightarrow> json result" where
  "getScenario context idValue w =
     bindR (parseScenarioId idValue) (\<lambda>i.
     bindR (orElse (get_scenario (ctx_tenantId context) i w) scenario_not_found) (\<lambda>row. Inr (toScenario row)))"

definition createScenario :: "jsonb \<Rightarrow> string \<Rightarrow> request_context \<Rightarrow> json \<Rightarrow> scenario_world \<Rightarrow> json result \<times> scenario_world" where
  "createScenario jsonb_of new_id context body w =
     (if ctx_actorType context \<noteq> UserActor \<or> ctx_role context \<notin> {TenantAdmin, FinopsAnalyst}
      then (Inl (AppError ''FORBIDDEN'' ''Access denied.'' 403), w)
      else case parseScenarioCreateBody body of
          Inl e \<Rightarrow> (Inl e, w)
        | Inr input \<Rightarrow>
            (case create_scenario jsonb_of new_id (ctx_tenantId context) (ctx_actorUserId context) input w of
               (r, w') \<Rightarrow> (bindR (scenario_safe r) (\<lambda>row. Inr (toScenario row)), w')))"

section \<open>What a creation does\<close>

lemma insert_scenario_Inr:
  "insert_scenario jsonb_of s w = Inr w' \<Longrightarrow>
     w' = w\<lparr>scw_scenarios := scw_scenarios w @ [s]\<rparr> \<and> sc_status s = ScenarioDraft \<and> scenario_row_check jsonb_of s
     \<and> (\<forall>x\<in>set (scw_scenarios w). sc_id x \<noteq> sc_id s)"
  by (auto simp: insert_scenario_def split: if_splits)

lemma create_scenario_world:
  "snd (createScenario jsonb_of new_id context body w) = w
   \<or> (\<exists>s. snd (createScenario jsonb_of new_id context body w) = w\<lparr>scw_scenarios := scw_scenarios w @ [s]\<rparr>
        \<and> sc_status s = ScenarioDraft \<and> sc_id s = new_id \<and> (\<forall>x\<in>set (scw_scenarios w). sc_id x \<noteq> sc_id s))"
proof -
  have "snd (create_scenario jsonb_of new_id t u input w) = w
    \<or> (\<exists>s. snd (create_scenario jsonb_of new_id t u input w) = w\<lparr>scw_scenarios := scw_scenarios w @ [s]\<rparr>
        \<and> sc_status s = ScenarioDraft \<and> sc_id s = new_id \<and> (\<forall>x\<in>set (scw_scenarios w). sc_id x \<noteq> sc_id s))" for t u input
    by (auto simp: create_scenario_def bindR_eq_Inr split: sum.splits dest!: insert_scenario_Inr)
  then show ?thesis by (simp add: createScenario_def case_prod_beta split: sum.split)
qed

end
