(* ===== verification/Run_Requests.thy ===== *)
theory Run_Requests
  imports Scenarios Optimizer_Worker
begin

text \<open>
  Optimizer runs on request: core/optimizer-runs/optimizer-runs-input.ts, optimizer-runs-service.ts and the
  part of optimizer-runs-repository.ts it calls, over the table of migration 0018 with its constraints and
  trigger, together with the policies, price tables, scenarios and forecasts a request names. A request
  resolves its inputs with four queries that run in any order (\<open>Promise.all\<close>), stores their snapshot and then
  inserts the run. Anything may happen between any two of these statements, so that a request is a value of the
  world while its queries run, and again from the stored snapshot until its run is inserted.
\<close>

section \<open>Input\<close>

record run_request =
  rrq_forecastRunId :: string
  rrq_scenarioId :: "string option"
  rrq_optimizerPolicyId :: string
  rrq_provider :: provider
  rrq_instrument :: instrument
  rrq_priceTableVersionIds :: "string list option"

definition uuidArray :: "json \<Rightarrow> string list result" where
  "uuidArray v =
     (case v of
        JArr vs \<Rightarrow>
          if length vs < 1 \<or> length vs > 16 then Inl invalid_request
          else bindR (traverseR uuid_input vs) (\<lambda>is. if distinct is then Inr is else Inl invalid_request)
      | _ \<Rightarrow> Inl invalid_request)"

definition parseOptimizerRunCreateBody :: "json \<Rightarrow> run_request result" where
  "parseOptimizerRunCreateBody body =
     bindR (closedRecord body [''forecast_run_id'', ''scenario_id'', ''optimizer_policy_id'', ''provider'', ''instrument'',
       ''price_table_version_ids'']) (\<lambda>kvs.
     if json_prop kvs ''forecast_run_id'' = JUndefined \<or> json_prop kvs ''optimizer_policy_id'' = JUndefined then Inl invalid_request
     else
       bindR (given parseProvider (json_prop kvs ''provider'')) (\<lambda>p.
       bindR (given parseInstrument (json_prop kvs ''instrument'')) (\<lambda>i.
       let provider = coalesce p Aws; instrument = coalesce i AwsComputeSavingsPlan in
       if \<not> isSupportedPair provider instrument then Inl invalid_request
       else
         bindR (uuid_input (json_prop kvs ''forecast_run_id'')) (\<lambda>forecast.
         bindR (given uuid_input (json_prop kvs ''scenario_id'')) (\<lambda>scenario.
         bindR (uuid_input (json_prop kvs ''optimizer_policy_id'')) (\<lambda>policy.
         bindR (given uuidArray (json_prop kvs ''price_table_version_ids'')) (\<lambda>ids.
         Inr \<lparr>rrq_forecastRunId = forecast, rrq_scenarioId = scenario, rrq_optimizerPolicyId = policy, rrq_provider = provider,
           rrq_instrument = instrument, rrq_priceTableVersionIds = ids\<rparr>)))))))"

definition parseOptimizerRunId :: "json \<Rightarrow> string result" where
  "parseOptimizerRunId v = uuid_input v"

section \<open>The world\<close>

record run_columns =
  rc_forecastRunId :: string
  rc_scenarioId :: "string option"
  rc_optimizerPolicyId :: string
  rc_randomSeed :: int
  rc_createdByUserId :: "string option"
  rc_updatedAt :: int

text \<open>A row of optimizer_runs: what the worker reads and writes, and the other columns.\<close>

record run_row =
  rr_job :: "run_data job"
  rr_columns :: run_columns

record pending_run =
  pd_id :: string
  pd_tenantId :: string
  pd_input :: run_request
  pd_priceTableVersionIds :: "string list"
  pd_createdByUserId :: "string option"

text \<open>A request whose inputs are being read: what each query gave, None while it has not run.\<close>

record request_reading =
  rd_tenantId :: string
  rd_createdByUserId :: "string option"
  rd_input :: run_request
  rd_forecast :: "forecast_data job option option"
  rd_policy :: "policy_row option option"
  rd_scenario :: "scenario_row option option"
  rd_prices :: "price_version list option option"

record request_world =
  rq_tables :: scenario_world
  rq_policies :: policy_world
  rq_prices :: price_world
  rq_runs :: "run_row list"
  rq_objects :: "(string \<times> string) list"
  rq_reading :: "request_reading list"
  rq_pending :: "pending_run list"

section \<open>Resolving the inputs\<close>

definition run_input_invalid :: js_error where
  "run_input_invalid = AppError ''OPTIMIZER_RUN_INPUT_INVALID'' ''Optimizer run inputs are not eligible.'' 409"

record resolved_inputs =
  ri_forecastRun :: "forecast_data job"
  ri_policy :: policy_row
  ri_scenario :: "scenario_row option"
  ri_priceTableVersions :: "price_version list"

text \<open>\<open>ORDER BY effective_from DESC, id DESC\<close>.\<close>

definition price_order :: "price_version \<Rightarrow> price_version \<Rightarrow> int" where
  "price_order a b =
     newest_first (\<lambda>v. (pv_effectiveFrom v, pv_id v)) a b"

definition eligible_version :: "string \<Rightarrow> provider \<Rightarrow> instrument \<Rightarrow> price_version \<Rightarrow> bool" where
  "eligible_version tenantId p i v = (pv_tenantId v = tenantId \<and> pv_provider v = p \<and> pv_instrument v = i \<and> pv_status v = PvActive)"

definition priceSnapshots :: "string \<Rightarrow> run_request \<Rightarrow> price_world \<Rightarrow> price_version list option" where
  "priceSnapshots tenantId input w =
     (let rows = js_sort price_order (filter (\<lambda>v. eligible_version tenantId (rrq_provider input) (rrq_instrument input) v
            \<and> option_check (\<lambda>is. pv_id v \<in> set is) (rrq_priceTableVersionIds input)) (ptw_versions w)) in
      if option_check (\<lambda>is. length rows = length is) (rrq_priceTableVersionIds input) then Some rows else None)"

definition scenario_of :: "string \<Rightarrow> run_request \<Rightarrow> scenario_world \<Rightarrow> scenario_row option" where
  "scenario_of tenantId input w = (case rrq_scenarioId input of None \<Rightarrow> None | Some i \<Rightarrow> get_scenario tenantId i w)"

text \<open>The four queries.\<close>

definition new_reading :: "request_context \<Rightarrow> run_request \<Rightarrow> request_reading" where
  "new_reading context input = \<lparr>rd_tenantId = ctx_tenantId context, rd_createdByUserId = ctx_actorUserId context, rd_input = input,
     rd_forecast = None, rd_policy = None, rd_scenario = None, rd_prices = None\<rparr>"

definition read_forecast :: "request_world \<Rightarrow> request_reading \<Rightarrow> request_reading" where
  "read_forecast w rd = rd\<lparr>rd_forecast := Some (find_forecast (rd_tenantId rd) (rrq_forecastRunId (rd_input rd)) (scw_forecasts (rq_tables w)))\<rparr>"

definition read_policy :: "request_world \<Rightarrow> request_reading \<Rightarrow> request_reading" where
  "read_policy w rd = rd\<lparr>rd_policy := Some (get_policy (rd_tenantId rd) (rrq_optimizerPolicyId (rd_input rd)) (rq_policies w))\<rparr>"

definition read_scenario :: "request_world \<Rightarrow> request_reading \<Rightarrow> request_reading" where
  "read_scenario w rd = rd\<lparr>rd_scenario := Some (scenario_of (rd_tenantId rd) (rd_input rd) (rq_tables w))\<rparr>"

definition read_prices :: "request_world \<Rightarrow> request_reading \<Rightarrow> request_reading" where
  "read_prices w rd = rd\<lparr>rd_prices := Some (priceSnapshots (rd_tenantId rd) (rd_input rd) (rq_prices w))\<rparr>"

text \<open>\<open>resolveInputs\<close> after its queries.\<close>

definition eligible_inputs :: "run_request \<Rightarrow> forecast_data job option \<Rightarrow> policy_row option \<Rightarrow> scenario_row option \<Rightarrow> price_version list option
    \<Rightarrow> resolved_inputs option result" where
  "eligible_inputs input forecast policy scenario prices =
     (case (forecast, policy, prices) of
        (Some forecast, Some policy, Some prices) \<Rightarrow>
          if rrq_scenarioId input \<noteq> None \<and> scenario = None then Inr None
          else if j_status forecast \<noteq> Completed then Inl run_input_invalid
          else if op_status policy \<noteq> PolicyActive then Inl run_input_invalid
          else if rrq_instrument input \<notin> set (op_allowedInstruments (op_terms policy)) then Inl run_input_invalid
          else if \<not> option_check (\<lambda>s. sc_status s = ScenarioReady) scenario then Inl run_input_invalid
          else if prices = [] then Inl run_input_invalid
          else Inr (Some \<lparr>ri_forecastRun = forecast, ri_policy = policy, ri_scenario = scenario, ri_priceTableVersions = prices\<rparr>)
      | _ \<Rightarrow> Inr None)"

text \<open>None while a query has not run.\<close>

definition resolveInputs :: "request_reading \<Rightarrow> resolved_inputs option result option" where
  "resolveInputs rd =
     (case (rd_forecast rd, rd_policy rd, rd_scenario rd, rd_prices rd) of
        (Some forecast, Some policy, Some scenario, Some prices) \<Rightarrow> Some (eligible_inputs (rd_input rd) forecast policy scenario prices)
      | _ \<Rightarrow> None)"

section \<open>The snapshot\<close>

definition run_status_text :: "job_status \<Rightarrow> string" where
  "run_status_text s = (case s of Queued \<Rightarrow> ''queued'' | Running \<Rightarrow> ''running'' | Completed \<Rightarrow> ''completed'' | Failed \<Rightarrow> ''failed''
     | Infeasible \<Rightarrow> ''infeasible'' | Cancelled \<Rightarrow> ''cancelled'')"

definition forecast_snapshot :: "forecast_data job \<Rightarrow> json" where
  "forecast_snapshot j = JObj
     [(''id'', JStr (j_id j)), (''status'', JStr (run_status_text (j_status j))), (''outputUri'', opt_text (fd_outputUri (j_data j))),
      (''qualityMetrics'', fd_qualityMetrics (j_data j))]"

definition policy_snapshot_json :: "policy_row \<Rightarrow> json" where
  "policy_snapshot_json p =
     (let t = op_terms p in JObj
       [(''id'', JStr (op_id p)), (''status'', JStr (policy_status_text (op_status p))), (''objective'', JStr (objective_text (op_objective t))),
        (''maxDownsideLossCents'', JStr (show_int (op_maxDownsideLossCents t))),
        (''minExpectedSavingsCents'', JStr (show_int (op_minExpectedSavingsCents t))),
        (''maxUtilizationGapPct'', JStr (percent_text (op_maxUtilizationGapPct t))),
        (''approvalThresholdCents'', JStr (show_int (op_approvalThresholdCents t))),
        (''allowedInstruments'', JArr (map (\<lambda>i. JStr (instrument_text i)) (op_allowedInstruments t))), (''config'', op_config t)])"

definition scenario_snapshot :: "scenario_row option \<Rightarrow> json" where
  "scenario_snapshot s =
     (case s of
        None \<Rightarrow> JNull
      | Some x \<Rightarrow> JObj [(''id'', JStr (sc_id x)), (''status'', JStr (scenario_status_text (sc_status x))), (''shockConfig'', sc_shockConfig x)])"

definition price_snapshot :: "price_version \<Rightarrow> json" where
  "price_snapshot v = JObj
     [(''id'', JStr (pv_id v)), (''status'', JStr (price_status_text (pv_status v))), (''provider'', JStr (provider_text (pv_provider v))),
      (''instrument'', JStr (instrument_text (pv_instrument v))), (''checksum'', JStr (pv_checksum v)),
      (''effectiveFrom'', JStr (pv_effectiveFrom v)), (''effectiveTo'', opt_text (pv_effectiveTo v))]"

definition run_snapshot :: "string \<Rightarrow> int \<Rightarrow> run_request \<Rightarrow> resolved_inputs \<Rightarrow> (string \<times> json) list" where
  "run_snapshot new_id seed input resolved =
     [(''contract_version'', JStr ''optimizer-run-input-snapshot/v1''), (''run_id'', JStr new_id),
      (''forecast_run'', forecast_snapshot (ri_forecastRun resolved)), (''policy'', policy_snapshot_json (ri_policy resolved)),
      (''scenario'', scenario_snapshot (ri_scenario resolved)), (''provider'', JStr (provider_text (rrq_provider input))),
      (''instrument'', JStr (instrument_text (rrq_instrument input))),
      (''price_table_versions'', JArr (map price_snapshot (ri_priceTableVersions resolved))), (''random_seed'', JStr (show_int seed))]"

definition input_uri :: "string \<Rightarrow> string" where
  "input_uri new_id = ''optimizer-runs/'' @ new_id @ ''/input.json''"

section \<open>Inserting the run\<close>

definition run_row_check :: "run_row \<Rightarrow> bool" where
  "run_row_check r =
     (let run = d_run (j_data (rr_job r)) in
      isSupportedPair (r_provider run) (r_instrument run)
      \<and> r_priceTableVersionIds run \<noteq> [] \<and> length (r_priceTableVersionIds run) \<le> 16 \<and> distinct (r_priceTableVersionIds run)
      \<and> clean_column 2048 (r_inputSnapshotUri run) \<and> j_created_at (rr_job r) \<le> rc_updatedAt (rr_columns r))"

definition inactive_policy :: "string \<Rightarrow> string \<Rightarrow> policy_world \<Rightarrow> bool" where
  "inactive_policy tenantId i w = (case get_policy tenantId i w of None \<Rightarrow> False | Some p \<Rightarrow> op_status p \<noteq> PolicyActive)"

definition unready_scenario :: "string \<Rightarrow> string \<Rightarrow> scenario_world \<Rightarrow> bool" where
  "unready_scenario tenantId i w = (case get_scenario tenantId i w of None \<Rightarrow> False | Some s \<Rightarrow> sc_status s \<noteq> ScenarioReady)"

text \<open>The trigger of an INSERT.\<close>

definition run_trigger :: "run_row \<Rightarrow> request_world \<Rightarrow> bool" where
  "run_trigger r w =
     (let run = d_run (j_data (rr_job r)); c = rr_columns r in
      \<not> forecast_incomplete (r_tenantId run) (rc_forecastRunId c) (scw_forecasts (rq_tables w))
      \<and> \<not> inactive_policy (r_tenantId run) (rc_optimizerPolicyId c) (rq_policies w)
      \<and> option_check (\<lambda>i. \<not> unready_scenario (r_tenantId run) i (rq_tables w)) (rc_scenarioId c)
      \<and> length (filter (\<lambda>v. pv_id v \<in> set (r_priceTableVersionIds run)
            \<and> eligible_version (r_tenantId run) (r_provider run) (r_instrument run) v) (ptw_versions (rq_prices w)))
          = length (r_priceTableVersionIds run))"

definition run_references :: "run_row \<Rightarrow> request_world \<Rightarrow> bool" where
  "run_references r w =
     (let run = d_run (j_data (rr_job r)); c = rr_columns r in
      r_tenantId run \<in> set (scw_tenants (rq_tables w))
      \<and> find_forecast (r_tenantId run) (rc_forecastRunId c) (scw_forecasts (rq_tables w)) \<noteq> None
      \<and> option_check (\<lambda>i. get_scenario (r_tenantId run) i (rq_tables w) \<noteq> None) (rc_scenarioId c)
      \<and> get_policy (r_tenantId run) (rc_optimizerPolicyId c) (rq_policies w) \<noteq> None
      \<and> option_check (\<lambda>u. (r_tenantId run, u) \<in> set (scw_users (rq_tables w))) (rc_createdByUserId c))"

definition insert_run :: "run_row \<Rightarrow> request_world \<Rightarrow> request_world result" where
  "insert_run r w =
     (if rc_randomSeed (rr_columns r) < - (2 ^ 63) \<or> 2 ^ 63 \<le> rc_randomSeed (rr_columns r) then Inl (sqlstate ''22003'')
      else if \<not> run_trigger r w then Inl (sqlstate ''55000'')
      else if \<not> run_row_check r then Inl (sqlstate ''23514'')
      else if \<exists>x\<in>set (rq_runs w). j_id (rr_job x) = j_id (rr_job r) then Inl (sqlstate ''23505'')
      else if \<not> run_references r w then Inl (sqlstate ''23503'')
      else Inr (w\<lparr>rq_runs := rq_runs w @ [r]\<rparr>))"

definition new_run :: "int \<Rightarrow> pending_run \<Rightarrow> int \<Rightarrow> run_row" where
  "new_run seed p now =
     \<lparr>rr_job = \<lparr>j_id = pd_id p, j_status = Queued, j_created_at = now, j_data =
        \<lparr>d_run = \<lparr>r_id = pd_id p, r_tenantId = pd_tenantId p, r_provider = rrq_provider (pd_input p), r_instrument = rrq_instrument (pd_input p),
           r_priceTableVersionIds = pd_priceTableVersionIds p, r_inputSnapshotUri = input_uri (pd_id p)\<rparr>,
         d_outputUri = None, d_frontierUri = None, d_infeasibilityDetails = JObj [], d_errorDetails = JObj []\<rparr>\<rparr>,
      rr_columns = \<lparr>rc_forecastRunId = rrq_forecastRunId (pd_input p), rc_scenarioId = rrq_scenarioId (pd_input p),
        rc_optimizerPolicyId = rrq_optimizerPolicyId (pd_input p), rc_randomSeed = seed, rc_createdByUserId = pd_createdByUserId p,
        rc_updatedAt = now\<rparr>\<rparr>"

definition create_run :: "int \<Rightarrow> pending_run \<Rightarrow> request_world \<Rightarrow> run_row result \<times> request_world" where
  "create_run seed p w =
     (let r = new_run seed p (scw_now (rq_tables w)) in
      case insert_run r w of
        Inl e \<Rightarrow> (Inl (if e = sqlstate ''55000'' then run_input_invalid else e), w)
      | Inr w' \<Rightarrow> (Inr r, w'))"

section \<open>The service\<close>

definition runs_unavailable :: js_error where
  "runs_unavailable = AppError ''OPTIMIZER_RUNS_UNAVAILABLE'' ''Optimizer runs are temporarily unavailable.'' 503"

definition run_not_found :: js_error where
  "run_not_found = AppError ''NOT_FOUND'' ''The requested resource was not found.'' 404"

definition run_safe :: "'a result \<Rightarrow> 'a result" where
  "run_safe r = (case r of Inl (Thrown _) \<Rightarrow> Inl runs_unavailable | _ \<Rightarrow> r)"

definition toRun :: "run_row \<Rightarrow> json" where
  "toRun r =
     (let j = rr_job r; d = j_data j; run = d_run d; c = rr_columns r in JObj
       [(''id'', JStr (j_id j)), (''forecast_run_id'', JStr (rc_forecastRunId c)), (''scenario_id'', opt_text (rc_scenarioId c)),
        (''optimizer_policy_id'', JStr (rc_optimizerPolicyId c)), (''provider'', JStr (provider_text (r_provider run))),
        (''instrument'', JStr (instrument_text (r_instrument run))), (''price_table_version_ids'', JArr (map JStr (r_priceTableVersionIds run))),
        (''status'', JStr (run_status_text (j_status j))), (''random_seed'', JStr (show_int (rc_randomSeed c))),
        (''input_snapshot_uri'', JStr (r_inputSnapshotUri run)), (''output_uri'', opt_text (d_outputUri d)),
        (''frontier_uri'', opt_text (d_frontierUri d)), (''infeasibility_details'', d_infeasibilityDetails d),
        (''error_details'', d_errorDetails d), (''created_by_user_id'', opt_text (rc_createdByUserId c)),
        (''created_at'', JStr (micros_text (j_created_at j))), (''updated_at'', JStr (micros_text (rc_updatedAt c)))])"

text \<open>\<open>createRun\<close> from its resolved inputs to the snapshot; \<open>put_ok\<close> tells whether the object store took it.\<close>

definition begin_run :: "string \<Rightarrow> bool \<Rightarrow> int \<Rightarrow> request_reading \<Rightarrow> resolved_inputs option result \<Rightarrow> request_world
    \<Rightarrow> pending_run result \<times> request_world" where
  "begin_run new_id put_ok seed rd found w =
     (case bindR (run_safe found) (\<lambda>found.
         bindR (orElse found run_not_found) (\<lambda>resolved. if put_ok then Inr resolved else Inl runs_unavailable)) of
        Inl e \<Rightarrow> (Inl e, w)
      | Inr resolved \<Rightarrow>
          (let p = \<lparr>pd_id = new_id, pd_tenantId = rd_tenantId rd, pd_input = rd_input rd,
               pd_priceTableVersionIds = coalesce (rrq_priceTableVersionIds (rd_input rd)) (map pv_id (ri_priceTableVersions resolved)),
               pd_createdByUserId = rd_createdByUserId rd\<rparr> in
           (Inr p, w\<lparr>rq_objects := AList.update (input_uri new_id) (json_bytes (JObj (run_snapshot new_id seed (rd_input rd) resolved)))
               (rq_objects w), rq_pending := p # rq_pending w\<rparr>)))"

text \<open>\<open>createRun\<close> from the INSERT on.\<close>

definition finish_run :: "int \<Rightarrow> pending_run \<Rightarrow> request_world \<Rightarrow> json result \<times> request_world" where
  "finish_run seed p w =
     (case create_run seed p w of
        (r, w') \<Rightarrow> (bindR (run_safe r) (\<lambda>row. Inr (toRun row)), w'\<lparr>rq_pending := remove1 p (rq_pending w')\<rparr>))"

text \<open>With nothing between.\<close>

definition createRun :: "string \<Rightarrow> bool \<Rightarrow> int \<Rightarrow> request_context \<Rightarrow> json \<Rightarrow> request_world \<Rightarrow> json result \<times> request_world" where
  "createRun new_id put_ok seed context body w =
     (case parseOptimizerRunCreateBody body of
        Inl e \<Rightarrow> (Inl e, w)
      | Inr input \<Rightarrow>
          (let rd = read_prices w (read_scenario w (read_policy w (read_forecast w (new_reading context input)))) in
           case resolveInputs rd of
             None \<Rightarrow> (Inl runs_unavailable, w)
           | Some found \<Rightarrow>
               (case begin_run new_id put_ok seed rd found w of
                  (Inl e, w') \<Rightarrow> (Inl e, w')
                | (Inr p, w') \<Rightarrow> finish_run seed p w')))"

definition run_key :: "run_row \<Rightarrow> boundary" where
  "run_key r = (micros_text (j_created_at (rr_job r)), j_id (rr_job r))"

definition run_at :: "string \<Rightarrow> string \<Rightarrow> run_row \<Rightarrow> bool" where
  "run_at tenantId i r = (r_tenantId (d_run (j_data (rr_job r))) = tenantId \<and> j_id (rr_job r) = i)"

definition run_list_query :: "json \<Rightarrow> (nat \<times> job_status option) result" where
  "run_list_query query =
     (case query of
        JObj kvs \<Rightarrow>
          if \<exists>k\<in>set (object_keys kvs). k \<notin> {''limit'', ''status''} then Inl invalid_request
          else
            bindR (given (\<lambda>v. bindR (string_input v) (\<lambda>s. orElse (page_limit s) invalid_request)) (json_prop kvs ''limit'')) (\<lambda>limit.
            bindR (given (\<lambda>v. bindR (string_input v) (\<lambda>s. orElse (find (\<lambda>x. run_status_text x = s)
               [Queued, Running, Completed, Failed, Infeasible, Cancelled]) invalid_request)) (json_prop kvs ''status'')) (\<lambda>status.
            Inr (coalesce limit 50, status)))
      | _ \<Rightarrow> Inr (50, None))"

definition listRuns :: "request_context \<Rightarrow> json \<Rightarrow> request_world \<Rightarrow> json list result" where
  "listRuns context query w =
     bindR (run_list_query query) (\<lambda>(limit, status).
     Inr (map toRun (keyset_query run_key None limit
       (filter (\<lambda>r. r_tenantId (d_run (j_data (rr_job r))) = ctx_tenantId context \<and> given_is status (j_status (rr_job r))) (rq_runs w)))))"

definition readFrontierSummary :: "(string \<Rightarrow> json option) \<Rightarrow> string \<Rightarrow> request_world \<Rightarrow> json result" where
  "readFrontierSummary json_parse uri w =
     bindR (orElse (map_of (rq_objects w) uri) runs_unavailable) (\<lambda>bytes.
     bindR (orElse (json_parse bytes) runs_unavailable) (\<lambda>parsed.
     Inr (case parsed of JObj kvs \<Rightarrow> (case json_prop kvs ''summary'' of JObj s \<Rightarrow> JObj s | _ \<Rightarrow> JNull) | _ \<Rightarrow> JNull)))"

definition getRun :: "(string \<Rightarrow> json option) \<Rightarrow> request_context \<Rightarrow> json \<Rightarrow> request_world \<Rightarrow> (json \<times> json) result" where
  "getRun json_parse context idValue w =
     bindR (parseOptimizerRunId idValue) (\<lambda>i.
     bindR (orElse (find (run_at (ctx_tenantId context) i) (rq_runs w)) run_not_found) (\<lambda>r.
     bindR (case d_frontierUri (j_data (rr_job r)) of None \<Rightarrow> Inr JNull | Some uri \<Rightarrow> readFrontierSummary json_parse uri w) (\<lambda>summary.
     Inr (toRun r, summary))))"

text \<open>What the worker sees of this world.\<close>

definition worker_price :: "Price_Tables.price_row \<Rightarrow> Optimizer_Worker.price_row" where
  "worker_price x = \<lparr>pr_tenantId = pit_tenantId x, pr_versionId = pit_versionId x, pr_provider = pit_provider x,
     pr_instrument = pit_instrument x, pr_item = \<lparr>i_sku = pit_sku x, i_region = pit_region x, i_termMonths = pit_termMonths x,
       i_paymentOption = payment_text (pit_paymentOption x), i_hourlyRateCents = show_int (pit_hourlyRateCents x),
       i_upfrontCents = show_int (pit_upfrontCents x), i_coverageRules = as_object (pit_coverageRules x)\<rparr>\<rparr>"

definition worker_view :: "request_world \<Rightarrow> opt_world" where
  "worker_view w = \<lparr>w_runs = map rr_job (rq_runs w), w_prices = map worker_price (ptw_items (rq_prices w)),
     w_objects = rq_objects w, w_recommendations = []\<rparr>"

end
