(* ===== verification/Run_Request_Steps.thy ===== *)
theory Run_Request_Steps
  imports Run_Requests Optimizer_Policy_Claims Price_Table_Claims
begin

text \<open>
  Requests, price tables, policies, scenarios, forecasts and workers as one system, whose steps interleave
  freely between the statements of a request: every run names a snapshot that says what the tables say.
\<close>

section \<open>Steps\<close>

definition with_forecasts :: "forecast_data job list \<Rightarrow> request_world \<Rightarrow> request_world" where
  "with_forecasts js w = w\<lparr>rq_tables := (rq_tables w)\<lparr>scw_forecasts := js\<rparr>\<rparr>"

definition forecasts_of :: "request_world \<Rightarrow> forecast_data job list" where
  "forecasts_of w = scw_forecasts (rq_tables w)"

text \<open>A job of the optimizer changes its status and results; a row's other columns stay but for the time stamp.\<close>

definition update_run :: "string \<Rightarrow> job_status \<Rightarrow> job_status \<Rightarrow> (run_data \<Rightarrow> run_data) \<Rightarrow> int \<Rightarrow> run_row list \<Rightarrow> run_row list" where
  "update_run jid guard status set_data now rows =
     map (\<lambda>r. if j_id (rr_job r) = jid \<and> j_status (rr_job r) = guard
              then r\<lparr>rr_job := (rr_job r)\<lparr>j_status := status, j_data := set_data (j_data (rr_job r))\<rparr>,
                     rr_columns := (rr_columns r)\<lparr>rc_updatedAt := now\<rparr>\<rparr> else r) rows"

text \<open>A query of a request has run.\<close>

definition reread :: "request_reading \<Rightarrow> request_reading \<Rightarrow> request_world \<Rightarrow> request_world" where
  "reread rd rd' w = w\<lparr>rq_reading := rd' # remove1 rd (rq_reading w)\<rparr>"

inductive request_step :: "(string \<Rightarrow> int option) \<Rightarrow> (string \<Rightarrow> string) \<Rightarrow> (json \<Rightarrow> nat option) \<Rightarrow> jsonb \<Rightarrow> request_world \<Rightarrow> request_world \<Rightarrow> bool"
  for date_parse sha256_hex jsonb jsonb_of where
  run_received: "parseOptimizerRunCreateBody body = Inr input
    \<Longrightarrow> request_step date_parse sha256_hex jsonb jsonb_of w (w\<lparr>rq_reading := new_reading context input # rq_reading w\<rparr>)"
| forecast_read: "rd \<in> set (rq_reading w) \<Longrightarrow> rd_forecast rd = None
    \<Longrightarrow> request_step date_parse sha256_hex jsonb jsonb_of w (reread rd (read_forecast w rd) w)"
| policy_read: "rd \<in> set (rq_reading w) \<Longrightarrow> rd_policy rd = None
    \<Longrightarrow> request_step date_parse sha256_hex jsonb jsonb_of w (reread rd (read_policy w rd) w)"
| scenario_read: "rd \<in> set (rq_reading w) \<Longrightarrow> rd_scenario rd = None
    \<Longrightarrow> request_step date_parse sha256_hex jsonb jsonb_of w (reread rd (read_scenario w rd) w)"
| prices_read: "rd \<in> set (rq_reading w) \<Longrightarrow> rd_prices rd = None
    \<Longrightarrow> request_step date_parse sha256_hex jsonb jsonb_of w (reread rd (read_prices w rd) w)"
| run_begun: "rd \<in> set (rq_reading w) \<Longrightarrow> resolveInputs rd = Some found \<Longrightarrow> map_of (rq_objects w) (input_uri new_id) = None
    \<Longrightarrow> request_step date_parse sha256_hex jsonb jsonb_of w
          ((snd (begin_run new_id put_ok seed rd found w))\<lparr>rq_reading := remove1 rd (rq_reading w)\<rparr>)"
| run_finished: "p \<in> set (rq_pending w) \<Longrightarrow> request_step date_parse sha256_hex jsonb jsonb_of w (snd (finish_run seed p w))"
| prices_step: "price_step date_parse sha256_hex jsonb (rq_prices w) v \<Longrightarrow> request_step date_parse sha256_hex jsonb jsonb_of w (w\<lparr>rq_prices := v\<rparr>)"
| policies_step: "policy_step jsonb_of (rq_policies w) v \<Longrightarrow> request_step date_parse sha256_hex jsonb jsonb_of w (w\<lparr>rq_policies := v\<rparr>)"
| scenario_created: "request_step date_parse sha256_hex jsonb jsonb_of w (w\<lparr>rq_tables := snd (createScenario jsonb_of new_id context body (rq_tables w))\<rparr>)"
| forecast_queued: "j_status j = Queued \<Longrightarrow> request_step date_parse sha256_hex jsonb jsonb_of w (with_forecasts (forecasts_of w @ [j]) w)"
| forecast_claimed: "request_step date_parse sha256_hex jsonb jsonb_of w (with_forecasts (update_job jid Queued Running (\<lambda>d. d) (forecasts_of w)) w)"
| forecast_completed: "request_step date_parse sha256_hex jsonb jsonb_of w (with_forecasts (update_job jid Running Completed
    (\<lambda>d. d\<lparr>fd_outputUri := Some uri, fd_qualityMetrics := metrics, fd_errorDetails := JObj []\<rparr>) (forecasts_of w)) w)"
| forecast_failed: "request_step date_parse sha256_hex jsonb jsonb_of w (with_forecasts (update_job jid Running Failed
    (\<lambda>d. d\<lparr>fd_outputUri := None, fd_qualityMetrics := JObj [], fd_errorDetails := details\<rparr>) (forecasts_of w)) w)"
| run_worked: "status_transition guard status \<Longrightarrow> (\<And>d. d_run (f d) = d_run d)
    \<Longrightarrow> request_step date_parse sha256_hex jsonb jsonb_of w (w\<lparr>rq_runs := update_run jid guard status f now (rq_runs w)\<rparr>)"
| object_put: "(\<And>i. key \<noteq> input_uri i) \<Longrightarrow> request_step date_parse sha256_hex jsonb jsonb_of w (w\<lparr>rq_objects := AList.update key bytes (rq_objects w)\<rparr>)"
| tables_grew: "scw_scenarios v = scw_scenarios (rq_tables w) \<Longrightarrow> scw_forecasts v = scw_forecasts (rq_tables w)
    \<Longrightarrow> request_step date_parse sha256_hex jsonb jsonb_of w (w\<lparr>rq_tables := v\<rparr>)"

inductive request_reachable :: "(string \<Rightarrow> int option) \<Rightarrow> (string \<Rightarrow> string) \<Rightarrow> (json \<Rightarrow> nat option) \<Rightarrow> jsonb \<Rightarrow> request_world \<Rightarrow> bool"
  for date_parse sha256_hex jsonb jsonb_of where
  request_start: "ptw_versions (rq_prices w) = [] \<Longrightarrow> ptw_items (rq_prices w) = [] \<Longrightarrow> pw_policies (rq_policies w) = []
    \<Longrightarrow> scw_scenarios (rq_tables w) = [] \<Longrightarrow> scw_forecasts (rq_tables w) = [] \<Longrightarrow> rq_runs w = [] \<Longrightarrow> rq_reading w = [] \<Longrightarrow> rq_pending w = []
    \<Longrightarrow> request_reachable date_parse sha256_hex jsonb jsonb_of w"
| request_next: "request_reachable date_parse sha256_hex jsonb jsonb_of w \<Longrightarrow> request_step date_parse sha256_hex jsonb jsonb_of w w'
    \<Longrightarrow> request_reachable date_parse sha256_hex jsonb jsonb_of w'"

section \<open>What a snapshot says\<close>

text \<open>The numbers of a policy that the optimizer reads.\<close>

definition policy_numbers :: "policy_terms \<Rightarrow> policy_snapshot" where
  "policy_numbers t = \<lparr>maxDownsideLossCents = op_maxDownsideLossCents t, minExpectedSavingsCents = op_minExpectedSavingsCents t,
     maxUtilizationGapBps = op_maxUtilizationGapPct t, approvalThresholdCents = op_approvalThresholdCents t,
     liquidityPenaltyBps = integerAt (as_object (op_config t)) ''liquidity_penalty_bps'' 0\<rparr>"

lemma snapshot_policy:
  assumes "op_config (op_terms (ri_policy resolved)) = JObj config" and "0 \<le> op_maxUtilizationGapPct (op_terms (ri_policy resolved))"
  shows "policySnapshot (run_snapshot new_id seed input resolved) = Inr (policy_numbers (op_terms (ri_policy resolved)))"
  using assms percent_bps [OF assms(2)]
  by (simp add: policySnapshot_def objectAt_def stringAt_def json_prop_def run_snapshot_def policy_snapshot_json_def policy_numbers_def
      integerAt_def as_object_def Let_def)

lemma snapshot_forecast:
  "fd_outputUri (j_data (ri_forecastRun resolved)) = Some uri \<Longrightarrow> forecastOutputUri (run_snapshot new_id seed input resolved) = uri"
  by (simp add: forecastOutputUri_def objectAt_def stringAt_def json_prop_def run_snapshot_def forecast_snapshot_def opt_text_def)

text \<open>The document stored for a run names the terms of its policy and the output of its forecast.\<close>

definition policy_said :: "string \<Rightarrow> string \<Rightarrow> instrument \<Rightarrow> (string \<times> json) list \<Rightarrow> request_world \<Rightarrow> bool" where
  "policy_said t i instr kvs w \<longleftrightarrow> (\<exists>p\<in>set (pw_policies (rq_policies w)). policy_at t i p \<and> op_status p \<noteq> PolicyDraft
     \<and> policySnapshot kvs = Inr (policy_numbers (op_terms p)) \<and> instr \<in> set (op_allowedInstruments (op_terms p)))"

definition forecast_said :: "string \<Rightarrow> string \<Rightarrow> (string \<times> json) list \<Rightarrow> request_world \<Rightarrow> bool" where
  "forecast_said t i kvs w \<longleftrightarrow> (\<exists>j\<in>set (forecasts_of w). forecast_at t i j \<and> j_status j = Completed
     \<and> fd_outputUri (j_data j) = Some (forecastOutputUri kvs))"

definition snapshot_said :: "string \<Rightarrow> string \<Rightarrow> string \<Rightarrow> string \<Rightarrow> instrument \<Rightarrow> request_world \<Rightarrow> bool" where
  "snapshot_said run_id t policy_id forecast_id instr w \<longleftrightarrow>
     (\<exists>kvs. map_of (rq_objects w) (input_uri run_id) = Some (json_bytes (JObj kvs))
        \<and> policy_said t policy_id instr kvs w \<and> forecast_said t forecast_id kvs w)"

definition version_said :: "optimizer_run \<Rightarrow> string \<Rightarrow> request_world \<Rightarrow> bool" where
  "version_said run i w \<longleftrightarrow> (\<exists>v\<in>set (ptw_versions (rq_prices w)). pv_id v = i \<and> pv_tenantId v = r_tenantId run
     \<and> pv_provider v = r_provider run \<and> pv_instrument v = r_instrument run \<and> pv_status v \<noteq> PvDraft)"

section \<open>What every step keeps\<close>

definition version_kept :: "price_version \<Rightarrow> price_version \<Rightarrow> bool" where
  "version_kept v x = (pv_id x = pv_id v \<and> pv_tenantId x = pv_tenantId v \<and> pv_provider x = pv_provider v
     \<and> pv_instrument x = pv_instrument v \<and> pv_status x \<noteq> PvDraft)"

definition grows :: "request_world \<Rightarrow> request_world \<Rightarrow> bool" where
  "grows w w' \<longleftrightarrow>
     (\<forall>i x. map_of (rq_objects w) (input_uri i) = Some x \<longrightarrow> map_of (rq_objects w') (input_uri i) = Some x)
     \<and> (\<forall>p\<in>set (pw_policies (rq_policies w)). op_status p \<noteq> PolicyDraft \<longrightarrow> (\<exists>q\<in>set (pw_policies (rq_policies w')). settled_from p q))
     \<and> (\<forall>j\<in>set (forecasts_of w). j_status j = Completed \<longrightarrow> j \<in> set (forecasts_of w'))
     \<and> (\<forall>v\<in>set (ptw_versions (rq_prices w)). pv_status v \<noteq> PvDraft \<longrightarrow> (\<exists>x\<in>set (ptw_versions (rq_prices w')). version_kept v x))"

lemma settled_refl [simp, intro]: "settled_from p p"
  by (simp add: settled_from_def)

lemma grows_policy: "grows w w' \<Longrightarrow> policy_said t i instr kvs w \<Longrightarrow> policy_said t i instr kvs w'"
proof -
  assume g: "grows w w'" and "policy_said t i instr kvs w"
  then obtain p where p: "p \<in> set (pw_policies (rq_policies w))" "policy_at t i p" "op_status p \<noteq> PolicyDraft"
      "policySnapshot kvs = Inr (policy_numbers (op_terms p))" "instr \<in> set (op_allowedInstruments (op_terms p))"
    by (auto simp: policy_said_def)
  with g obtain q where q: "q \<in> set (pw_policies (rq_policies w'))" "settled_from p q" by (auto simp: grows_def)
  then have "policy_at t i q" "op_terms q = op_terms p" "op_status q \<noteq> PolicyDraft"
    using p(2,3) settled_not_draft [OF q(2)] by (auto simp: policy_at_def settled_from_def)
  with p(4,5) q(1) show ?thesis by (auto simp: policy_said_def)
qed

lemma grows_said: "grows w w' \<Longrightarrow> snapshot_said i t pid fid instr w \<Longrightarrow> snapshot_said i t pid fid instr w'"
proof -
  assume g: "grows w w'" and "snapshot_said i t pid fid instr w"
  then obtain kvs where kvs: "map_of (rq_objects w) (input_uri i) = Some (json_bytes (JObj kvs))" "policy_said t pid instr kvs w"
      "forecast_said t fid kvs w" by (auto simp: snapshot_said_def)
  have "forecast_said t fid kvs w'" using g kvs(3) by (auto simp: forecast_said_def grows_def)
  with g kvs(1) grows_policy [OF g kvs(2)] show ?thesis by (auto simp: snapshot_said_def grows_def)
qed

lemma grows_version: "grows w w' \<Longrightarrow> version_said run i w \<Longrightarrow> version_said run i w'"
  unfolding grows_def version_said_def version_kept_def by metis

lemma price_effect_kept:
  assumes "price_effect w w'" and "v \<in> set (ptw_versions w)" and "pv_status v \<noteq> PvDraft" and "price_tables_ok w"
  shows "\<exists>x\<in>set (ptw_versions w'). version_kept v x"
  using assms
proof (induction rule: price_effect.induct)
  case (price_stays w' w)
  then show ?case by (auto simp: version_kept_def)
next
  case (price_added w' w x rows)
  then show ?case by (auto simp: version_kept_def)
next
  case (price_moved w' s x w)
  then have s: "s \<noteq> PvDraft" by (auto simp: status_move_def)
  show ?case
  proof (cases "pv_id v = pv_id x")
    case True
    with price_moved.prems price_moved.hyps(2) have "v = x" using ok_unique by blast
    moreover have "restamp s (ptw_now w) x \<in> set (ptw_versions (with_status s x w))"
      using price_moved.hyps(2) by (force simp: with_status_def)
    ultimately show ?thesis using s unfolding price_moved.hyps(1) by (intro bexI) (simp_all add: version_kept_def)
  next
    case False
    with price_moved show ?thesis by (force simp: with_status_def version_kept_def)
  qed
qed

section \<open>The invariant\<close>

definition run_said :: "run_row \<Rightarrow> request_world \<Rightarrow> bool" where
  "run_said r w =
     (let run = d_run (j_data (rr_job r)); c = rr_columns r in
      rc_scenarioId c = None \<and> r_id run = j_id (rr_job r) \<and> r_inputSnapshotUri run = input_uri (j_id (rr_job r))
      \<and> distinct (r_priceTableVersionIds run) \<and> 1 \<le> length (r_priceTableVersionIds run) \<and> length (r_priceTableVersionIds run) \<le> 16
      \<and> snapshot_said (j_id (rr_job r)) (r_tenantId run) (rc_optimizerPolicyId c) (rc_forecastRunId c) (r_instrument run) w
      \<and> (\<forall>i\<in>set (r_priceTableVersionIds run). version_said run i w))"

definition pending_said :: "pending_run \<Rightarrow> request_world \<Rightarrow> bool" where
  "pending_said p w = (rrq_scenarioId (pd_input p) = None
     \<and> snapshot_said (pd_id p) (pd_tenantId p) (rrq_optimizerPolicyId (pd_input p)) (rrq_forecastRunId (pd_input p)) (rrq_instrument (pd_input p)) w)"

text \<open>What a query has read that the request needs is still so: a completed forecast, the terms of a policy that was
  active, and that no scenario is ready.\<close>

definition policy_read_said :: "jsonb \<Rightarrow> string \<Rightarrow> string \<Rightarrow> policy_row \<Rightarrow> request_world \<Rightarrow> bool" where
  "policy_read_said jsonb_of t i p w \<longleftrightarrow> policy_at t i p \<and> (op_status p = PolicyActive \<longrightarrow>
     policy_row_check jsonb_of p \<and> terms_ok (op_terms p) \<and> (\<exists>q\<in>set (pw_policies (rq_policies w)). settled_from p q))"

definition reading_said :: "jsonb \<Rightarrow> request_reading \<Rightarrow> request_world \<Rightarrow> bool" where
  "reading_said jsonb_of rd w =
     ((\<forall>j. rd_forecast rd = Some (Some j) \<longrightarrow> forecast_at (rd_tenantId rd) (rrq_forecastRunId (rd_input rd)) j
          \<and> (j_status j = Completed \<longrightarrow> j \<in> set (forecasts_of w)))
      \<and> (\<forall>p. rd_policy rd = Some (Some p) \<longrightarrow> policy_read_said jsonb_of (rd_tenantId rd) (rrq_optimizerPolicyId (rd_input rd)) p w)
      \<and> (\<forall>s. rd_scenario rd = Some (Some s) \<longrightarrow> sc_status s = ScenarioDraft))"

definition request_ok :: "jsonb \<Rightarrow> request_world \<Rightarrow> bool" where
  "request_ok jsonb_of w =
     (policies_ok jsonb_of (rq_policies w) \<and> price_tables_ok (rq_prices w)
      \<and> (\<forall>s\<in>set (scw_scenarios (rq_tables w)). sc_status s = ScenarioDraft)
      \<and> (\<forall>j\<in>set (forecasts_of w). j_status j = Completed \<longrightarrow> fd_outputUri (j_data j) \<noteq> None)
      \<and> distinct (map (j_id \<circ> rr_job) (rq_runs w))
      \<and> (\<forall>rd\<in>set (rq_reading w). reading_said jsonb_of rd w)
      \<and> (\<forall>p\<in>set (rq_pending w). pending_said p w) \<and> (\<forall>r\<in>set (rq_runs w). run_said r w))"

lemma grows_pending: "grows w w' \<Longrightarrow> pending_said p w \<Longrightarrow> pending_said p w'"
  using grows_said by (auto simp: pending_said_def)

lemma grows_run: "grows w w' \<Longrightarrow> run_said r w \<Longrightarrow> run_said r w'"
  using grows_said grows_version by (auto simp: run_said_def Let_def)

lemma grows_reading: "grows w w' \<Longrightarrow> reading_said jsonb_of rd w \<Longrightarrow> reading_said jsonb_of rd w'"
proof -
  assume g: "grows w w'" and said: "reading_said jsonb_of rd w"
  have "\<exists>q\<in>set (pw_policies (rq_policies w')). settled_from p q"
    if p: "op_status p = PolicyActive" "\<exists>q\<in>set (pw_policies (rq_policies w)). settled_from p q" for p
  proof -
    from p(2) obtain q where q: "q \<in> set (pw_policies (rq_policies w))" "settled_from p q" by blast
    with g settled_not_draft [OF q(2)] p(1) obtain r where "r \<in> set (pw_policies (rq_policies w'))" "settled_from q r"
      by (auto simp: grows_def)
    with settled_trans [OF q(2)] show ?thesis by blast
  qed
  with g said show ?thesis by (auto simp: reading_said_def policy_read_said_def grows_def)
qed

text \<open>A step that leaves runs alone and adds no request.\<close>

lemma ok_grown:
  assumes "request_ok jsonb_of w" and "grows w w'" and "rq_runs w' = rq_runs w" and "set (rq_pending w') \<subseteq> set (rq_pending w)"
    and "set (rq_reading w') \<subseteq> set (rq_reading w)"
    and "policies_ok jsonb_of (rq_policies w')" and "price_tables_ok (rq_prices w')"
    and "\<forall>s\<in>set (scw_scenarios (rq_tables w')). sc_status s = ScenarioDraft"
    and "\<forall>j\<in>set (forecasts_of w'). j_status j = Completed \<longrightarrow> fd_outputUri (j_data j) \<noteq> None"
  shows "request_ok jsonb_of w'"
  using assms grows_pending [OF assms(2)] grows_run [OF assms(2)] grows_reading [OF assms(2)] unfolding request_ok_def by auto

lemma grows_same:
  assumes "rq_objects w' = rq_objects w" "rq_policies w' = rq_policies w" "forecasts_of w' = forecasts_of w" "rq_prices w' = rq_prices w"
  shows "grows w w'"
  using assms by (auto simp: grows_def version_kept_def)

lemma grows_forecasts:
  assumes "\<And>j. j \<in> set (forecasts_of w) \<Longrightarrow> j_status j = Completed \<Longrightarrow> j \<in> set js"
  shows "grows w (with_forecasts js w)"
  using assms by (auto simp: grows_def version_kept_def with_forecasts_def forecasts_of_def)

lemma ok_forecasts:
  assumes "request_ok jsonb_of w" and "\<And>j. j \<in> set (forecasts_of w) \<Longrightarrow> j_status j = Completed \<Longrightarrow> j \<in> set js"
    and "\<And>j. j \<in> set js \<Longrightarrow> j_status j = Completed \<Longrightarrow> j \<in> set (forecasts_of w) \<or> fd_outputUri (j_data j) \<noteq> None"
  shows "request_ok jsonb_of (with_forecasts js w)"
proof (rule ok_grown [OF assms(1) grows_forecasts [OF assms(2)]])
  show "\<forall>j\<in>set (forecasts_of (with_forecasts js w)). j_status j = Completed \<longrightarrow> fd_outputUri (j_data j) \<noteq> None"
  proof (intro ballI impI)
    fix j assume "j \<in> set (forecasts_of (with_forecasts js w))" "j_status j = Completed"
    with assms(3) [of j] assms(1) show "fd_outputUri (j_data j) \<noteq> None" by (auto simp: with_forecasts_def forecasts_of_def request_ok_def)
  qed
qed (use assms(1) in \<open>auto simp: with_forecasts_def request_ok_def\<close>)

lemma update_job_completed: "g \<noteq> Completed \<Longrightarrow> j \<in> set js \<Longrightarrow> j_status j = Completed \<Longrightarrow> j \<in> set (update_job jid g s f js)"
  by (force simp: update_job_def)

section \<open>Beginning a request\<close>

lemma eligible_Some:
  assumes "eligible_inputs input forecast policy scenario prices = Inr (Some r)"
  shows "forecast = Some (ri_forecastRun r)" and "policy = Some (ri_policy r)" and "prices = Some (ri_priceTableVersions r)"
    and "scenario = ri_scenario r" and "rrq_scenarioId input \<noteq> None \<longrightarrow> scenario \<noteq> None"
    and "j_status (ri_forecastRun r) = Completed" and "op_status (ri_policy r) = PolicyActive"
    and "rrq_instrument input \<in> set (op_allowedInstruments (op_terms (ri_policy r)))"
    and "option_check (\<lambda>s. sc_status s = ScenarioReady) scenario" and "ri_priceTableVersions r \<noteq> []"
  using assms by (auto simp: eligible_inputs_def split: option.splits if_splits)

lemma resolved_facts:
  assumes r: "resolveInputs rd = Some (Inr (Some r))" and said: "reading_said jsonb_of rd w"
  shows "rrq_scenarioId (rd_input rd) = None" and "forecast_at (rd_tenantId rd) (rrq_forecastRunId (rd_input rd)) (ri_forecastRun r)"
    and "ri_forecastRun r \<in> set (forecasts_of w)" and "j_status (ri_forecastRun r) = Completed"
    and "policy_read_said jsonb_of (rd_tenantId rd) (rrq_optimizerPolicyId (rd_input rd)) (ri_policy r) w" and "op_status (ri_policy r) = PolicyActive"
    and "rrq_instrument (rd_input rd) \<in> set (op_allowedInstruments (op_terms (ri_policy r)))"
proof -
  from r obtain f p s v where fields: "rd_forecast rd = Some f" "rd_policy rd = Some p" "rd_scenario rd = Some s"
    and e: "eligible_inputs (rd_input rd) f p s v = Inr (Some r)" by (auto simp: resolveInputs_def split: option.splits)
  note el = eligible_Some [OF e]
  show "rrq_scenarioId (rd_input rd) = None" using el(5,9) said fields(3) by (cases s) (auto simp: option_check_def reading_said_def)
  show "j_status (ri_forecastRun r) = Completed" "op_status (ri_policy r) = PolicyActive"
    "rrq_instrument (rd_input rd) \<in> set (op_allowedInstruments (op_terms (ri_policy r)))" by (fact el)+
  show "forecast_at (rd_tenantId rd) (rrq_forecastRunId (rd_input rd)) (ri_forecastRun r)" "ri_forecastRun r \<in> set (forecasts_of w)"
    "policy_read_said jsonb_of (rd_tenantId rd) (rrq_optimizerPolicyId (rd_input rd)) (ri_policy r) w"
    using el(1,2,6) said fields by (auto simp: reading_said_def)
qed

lemma config_column_obj: "config_column jsonb_of v \<Longrightarrow> \<exists>kvs. v = JObj kvs"
  by (auto simp: config_column_def split: json.splits)

lemma resolved_said:
  assumes r: "resolveInputs rd = Some (Inr (Some r))" and ok: "request_ok jsonb_of w" and said: "reading_said jsonb_of rd w"
    and w': "map_of (rq_objects w') (input_uri i) = Some (json_bytes (JObj (run_snapshot i seed (rd_input rd) r)))"
    and same: "rq_policies w' = rq_policies w" "forecasts_of w' = forecasts_of w"
  shows "snapshot_said i (rd_tenantId rd) (rrq_optimizerPolicyId (rd_input rd)) (rrq_forecastRunId (rd_input rd)) (rrq_instrument (rd_input rd)) w'"
proof -
  let ?t = "rd_tenantId rd" and ?input = "rd_input rd"
  note facts = resolved_facts [OF r said]
  from facts(5,6) obtain q where q: "q \<in> set (pw_policies (rq_policies w))" "settled_from (ri_policy r) q"
    and p: "policy_at ?t (rrq_optimizerPolicyId ?input) (ri_policy r)" "policy_row_check jsonb_of (ri_policy r)" "terms_ok (op_terms (ri_policy r))"
    by (auto simp: policy_read_said_def)
  from p(2,3) obtain config where "op_config (op_terms (ri_policy r)) = JObj config" "0 \<le> op_maxUtilizationGapPct (op_terms (ri_policy r))"
    by (auto simp: policy_row_check_def policy_terms_check_def dest!: config_column_obj)
  note numbers = snapshot_policy [OF this, of i seed ?input]
  from facts(3,4) ok obtain uri where "fd_outputUri (j_data (ri_forecastRun r)) = Some uri" by (auto simp: request_ok_def)
  with snapshot_forecast [OF this, of i seed ?input] facts(2,3,4)
  have "forecast_said ?t (rrq_forecastRunId ?input) (run_snapshot i seed ?input r) w'"
    by (auto simp: forecast_said_def same)
  moreover have "policy_at ?t (rrq_optimizerPolicyId ?input) q" "op_terms q = op_terms (ri_policy r)" "op_status q \<noteq> PolicyDraft"
    using p(1) q(2) facts(6) by (auto simp: policy_at_def settled_from_def)
  then have "policy_said ?t (rrq_optimizerPolicyId ?input) (rrq_instrument ?input) (run_snapshot i seed ?input r) w'"
    using q(1) numbers facts(7) unfolding policy_said_def same by (intro bexI [of _ q]) auto
  ultimately show ?thesis unfolding snapshot_said_def using w' by blast
qed

lemma begin_cases:
  obtains (refused) e where "begin_run new_id put_ok seed rd found w = (Inl e, w)"
  | (begun) r p where "found = Inr (Some r)"
      and "p = \<lparr>pd_id = new_id, pd_tenantId = rd_tenantId rd, pd_input = rd_input rd,
               pd_priceTableVersionIds = coalesce (rrq_priceTableVersionIds (rd_input rd)) (map pv_id (ri_priceTableVersions r)),
               pd_createdByUserId = rd_createdByUserId rd\<rparr>"
      and "begin_run new_id put_ok seed rd found w = (Inr p,
         w\<lparr>rq_objects := AList.update (input_uri new_id) (json_bytes (JObj (run_snapshot new_id seed (rd_input rd) r))) (rq_objects w),
           rq_pending := p # rq_pending w\<rparr>)"
proof (cases "bindR (run_safe found) (\<lambda>found.
         bindR (orElse found run_not_found) (\<lambda>resolved. if put_ok then Inr resolved else Inl runs_unavailable))")
  case (Inl e)
  then show thesis by (intro refused) (simp add: begin_run_def)
next
  case (Inr r)
  then have "found = Inr (Some r)" by (auto simp: bindR_eq_Inr run_safe_def split: if_splits sum.splits js_error.splits)
  with Inr show thesis by (intro begun [OF _ refl]) (simp_all add: begin_run_def Let_def)
qed

lemma input_uri_inj [simp]: "input_uri i = input_uri k \<longleftrightarrow> i = k"
  by (simp add: input_uri_def)

lemma begin_ok:
  assumes ok: "request_ok jsonb_of w" and rd: "rd \<in> set (rq_reading w)" and found: "resolveInputs rd = Some found"
    and fresh: "map_of (rq_objects w) (input_uri new_id) = None"
  shows "request_ok jsonb_of ((snd (begin_run new_id put_ok seed rd found w))\<lparr>rq_reading := remove1 rd (rq_reading w)\<rparr>)"
proof (cases rule: begin_cases [of new_id put_ok seed rd found w])
  case (refused e)
  show ?thesis unfolding refused
    by (rule ok_grown [OF ok grows_same]) (use ok set_remove1_subset [of rd "rq_reading w"] in \<open>auto simp: request_ok_def forecasts_of_def\<close>)
next
  case (begun r p)
  let ?w = "(snd (begin_run new_id put_ok seed rd found w))\<lparr>rq_reading := remove1 rd (rq_reading w)\<rparr>"
  let ?bytes = "json_bytes (JObj (run_snapshot new_id seed (rd_input rd) r))"
  have w': "?w = w\<lparr>rq_objects := AList.update (input_uri new_id) ?bytes (rq_objects w), rq_reading := remove1 rd (rq_reading w),
      rq_pending := p # rq_pending w\<rparr>" using begun by simp
  have g: "grows w ?w" using fresh unfolding w' by (auto simp: grows_def version_kept_def forecasts_of_def update_conv)
  from ok rd have said: "reading_said jsonb_of rd w" by (simp add: request_ok_def)
  have resolved: "resolveInputs rd = Some (Inr (Some r))" using found begun(1) by simp
  have "snapshot_said new_id (rd_tenantId rd) (rrq_optimizerPolicyId (rd_input rd)) (rrq_forecastRunId (rd_input rd)) (rrq_instrument (rd_input rd)) ?w"
    by (rule resolved_said [OF resolved ok said]) (simp_all add: w' update_conv forecasts_of_def)
  then have "pending_said p ?w" using resolved_facts(1) [OF resolved said] by (simp add: pending_said_def begun(2))
  with ok grows_pending [OF g] grows_run [OF g] grows_reading [OF g] set_remove1_subset [of rd "rq_reading w"]
  show ?thesis by (auto simp: request_ok_def w' forecasts_of_def)
qed

text \<open>A query keeps the invariant when what it read is so.\<close>

lemma reread_ok:
  assumes ok: "request_ok jsonb_of w" and said: "reading_said jsonb_of rd' w"
  shows "request_ok jsonb_of (reread rd rd' w)"
proof -
  have g: "grows w (reread rd rd' w)" by (rule grows_same) (simp_all add: forecasts_of_def reread_def)
  from ok grows_pending [OF g] grows_run [OF g] grows_reading [OF g] said set_remove1_subset [of rd "rq_reading w"]
  show ?thesis by (auto simp: request_ok_def reread_def forecasts_of_def)
qed

lemma query_said:
  assumes ok: "request_ok jsonb_of w" and said: "reading_said jsonb_of rd w"
  shows "reading_said jsonb_of (read_forecast w rd) w" and "reading_said jsonb_of (read_policy w rd) w"
    and "reading_said jsonb_of (read_scenario w rd) w" and "reading_said jsonb_of (read_prices w rd) w"
proof -
  show "reading_said jsonb_of (read_forecast w rd) w" using said
    by (auto simp: reading_said_def read_forecast_def find_forecast_def find_Some_iff forecasts_of_def)
  have "policy_read_said jsonb_of t i p w" if "get_policy t i (rq_policies w) = Some p" for t i p
  proof -
    from that have p: "p \<in> set (pw_policies (rq_policies w))" "policy_at t i p" by (auto simp: get_policy_def find_Some_iff)
    with ok have "policy_row_check jsonb_of p" "terms_ok (op_terms p)" by (auto simp: request_ok_def policies_ok_def)
    with p show ?thesis by (auto simp: policy_read_said_def)
  qed
  with said show "reading_said jsonb_of (read_policy w rd) w" by (simp add: reading_said_def read_policy_def)
  have "sc_status s = ScenarioDraft" if "scenario_of t input (rq_tables w) = Some s" for t input s
    using that ok by (auto simp: request_ok_def scenario_of_def get_scenario_def find_Some_iff split: option.splits)
  with said show "reading_said jsonb_of (read_scenario w rd) w" by (simp add: reading_said_def read_scenario_def)
  from said show "reading_said jsonb_of (read_prices w rd) w" by (simp add: reading_said_def read_prices_def)
qed

lemma received_ok:
  assumes ok: "request_ok jsonb_of w"
  shows "request_ok jsonb_of (w\<lparr>rq_reading := new_reading context input # rq_reading w\<rparr>)"
proof -
  let ?w = "w\<lparr>rq_reading := new_reading context input # rq_reading w\<rparr>"
  have g: "grows w ?w" by (rule grows_same) (simp_all add: forecasts_of_def)
  have "reading_said jsonb_of (new_reading context input) ?w" by (simp add: reading_said_def new_reading_def)
  with ok grows_pending [OF g] grows_run [OF g] grows_reading [OF g] show ?thesis by (auto simp: request_ok_def forecasts_of_def)
qed

section \<open>Inserting the run\<close>

lemma insert_run_Inr:
  "insert_run r w = Inr w' \<Longrightarrow> w' = w\<lparr>rq_runs := rq_runs w @ [r]\<rparr> \<and> run_trigger r w \<and> run_row_check r \<and> run_references r w
     \<and> (\<forall>x\<in>set (rq_runs w). j_id (rr_job x) \<noteq> j_id (rr_job r))"
  by (auto simp: insert_run_def split: if_splits)

text \<open>As many distinct ids as rows that have one of them: each of them has a row.\<close>

lemma counted_ids:
  assumes "distinct is" and "distinct (map f xs)" and "length (filter (\<lambda>x. f x \<in> set is \<and> P x) xs) = length is" and "i \<in> set is"
  shows "\<exists>x\<in>set xs. f x = i \<and> P x"
proof -
  let ?ys = "filter (\<lambda>x. f x \<in> set is \<and> P x) xs"
  have "distinct (map f ?ys)" using assms(2) by (rule distinct_map_filter)
  then have "card (set (map f ?ys)) = length is" using assms(3) by (metis distinct_card length_map)
  moreover have "set (map f ?ys) \<subseteq> set is" by auto
  moreover have "card (set is) = length is" using assms(1) by (rule distinct_card)
  ultimately have "set (map f ?ys) = set is" by (intro card_subset_eq) auto
  with assms(4) have "i \<in> set (map f ?ys)" by blast
  then show ?thesis by auto
qed

lemma inserted_said:
  assumes ok: "request_ok jsonb_of w" and p: "pending_said p w" and ins: "insert_run (new_run seed p now) w = Inr w'"
  shows "run_said (new_run seed p now) w"
proof -
  let ?r = "new_run seed p now"
  note facts = insert_run_Inr [OF ins]
  then have ids: "distinct (pd_priceTableVersionIds p)" "1 \<le> length (pd_priceTableVersionIds p)" "length (pd_priceTableVersionIds p) \<le> 16"
    by (auto simp: run_row_check_def new_run_def Let_def Suc_le_eq)
  have "version_said (d_run (j_data (rr_job ?r))) i w" if i: "i \<in> set (pd_priceTableVersionIds p)" for i
  proof -
    have "distinct (map pv_id (ptw_versions (rq_prices w)))" using ok by (simp add: request_ok_def price_tables_ok_def)
    moreover have "length (filter (\<lambda>v. pv_id v \<in> set (pd_priceTableVersionIds p)
            \<and> eligible_version (pd_tenantId p) (rrq_provider (pd_input p)) (rrq_instrument (pd_input p)) v) (ptw_versions (rq_prices w)))
          = length (pd_priceTableVersionIds p)"
      using facts by (simp add: run_trigger_def new_run_def Let_def)
    ultimately obtain v where "v \<in> set (ptw_versions (rq_prices w))" "pv_id v = i"
        "eligible_version (pd_tenantId p) (rrq_provider (pd_input p)) (rrq_instrument (pd_input p)) v"
      using counted_ids [OF ids(1) _ _ i] by blast
    then show ?thesis by (auto simp: version_said_def new_run_def eligible_version_def)
  qed
  with ids p show ?thesis by (simp add: run_said_def new_run_def pending_said_def)
qed

lemma finish_cases:
  obtains (failed) e where "finish_run seed p w = (Inl e, w\<lparr>rq_pending := remove1 p (rq_pending w)\<rparr>)"
  | (inserted) r where "r = new_run seed p (scw_now (rq_tables w))" and "insert_run r w = Inr (w\<lparr>rq_runs := rq_runs w @ [r]\<rparr>)"
      and "finish_run seed p w = (Inr (toRun r), w\<lparr>rq_runs := rq_runs w @ [r], rq_pending := remove1 p (rq_pending w)\<rparr>)"
proof (cases "insert_run (new_run seed p (scw_now (rq_tables w))) w")
  case (Inl e)
  have "run_safe (Inl e' :: run_row result) = Inl (case e' of Thrown _ \<Rightarrow> runs_unavailable | _ \<Rightarrow> e')" for e'
    by (simp add: run_safe_def split: js_error.split)
  with Inl show thesis by (intro failed) (simp add: finish_run_def create_run_def Let_def)
next
  case (Inr w')
  from insert_run_Inr [OF Inr] have w': "w' = w\<lparr>rq_runs := rq_runs w @ [new_run seed p (scw_now (rq_tables w))]\<rparr>" by simp
  show thesis by (rule inserted [OF refl Inr [unfolded w']]) (simp add: finish_run_def create_run_def Let_def Inr w' run_safe_def)
qed

lemma run_finish_ok:
  assumes ok: "request_ok jsonb_of w" and p: "p \<in> set (rq_pending w)"
  shows "request_ok jsonb_of (snd (finish_run seed p w))"
proof (cases rule: finish_cases [of seed p w])
  case (failed e)
  show ?thesis unfolding failed
    by (rule ok_grown [OF ok grows_same]) (use ok set_remove1_subset [of p "rq_pending w"] in \<open>auto simp: request_ok_def forecasts_of_def\<close>)
next
  case (inserted r)
  let ?w = "w\<lparr>rq_runs := rq_runs w @ [r], rq_pending := remove1 p (rq_pending w)\<rparr>"
  have g: "grows w ?w" by (rule grows_same) (simp_all add: forecasts_of_def)
  from ok p have "pending_said p w" by (simp add: request_ok_def)
  from inserted_said [OF ok this inserted(2) [unfolded inserted(1)]] have "run_said r ?w" using grows_run [OF g] by (simp add: inserted(1))
  moreover have "j_id (rr_job r) \<notin> (j_id \<circ> rr_job) ` set (rq_runs w)" using insert_run_Inr [OF inserted(2)] by force
  ultimately have "request_ok jsonb_of ?w"
    using ok grows_pending [OF g] grows_run [OF g] grows_reading [OF g] set_remove1_subset [of p "rq_pending w"]
    by (auto simp: request_ok_def forecasts_of_def)
  then show ?thesis by (simp add: inserted(3))
qed

section \<open>The other steps\<close>

lemma ok_prices:
  assumes ok: "request_ok jsonb_of w" and step: "price_step date_parse sha256_hex jsonb (rq_prices w) v"
  shows "request_ok jsonb_of (w\<lparr>rq_prices := v\<rparr>)"
proof -
  from ok have p: "price_tables_ok (rq_prices w)" by (simp add: request_ok_def)
  note effect = step_effect [OF step p]
  have "grows w (w\<lparr>rq_prices := v\<rparr>)" using price_effect_kept [OF effect _ _ p] by (auto simp: grows_def forecasts_of_def)
  from ok_grown [OF ok this] show ?thesis using ok price_effect_ok [OF effect p] by (simp add: request_ok_def forecasts_of_def)
qed

lemma ok_policies:
  assumes ok: "request_ok jsonb_of w" and step: "policy_step jsonb_of (rq_policies w) v"
  shows "request_ok jsonb_of (w\<lparr>rq_policies := v\<rparr>)"
proof -
  from ok have p: "policies_ok jsonb_of (rq_policies w)" by (simp add: request_ok_def)
  note effect = policy_step_effect [OF step p]
  have "grows w (w\<lparr>rq_policies := v\<rparr>)" using effect_settled [OF effect p] by (auto simp: grows_def forecasts_of_def version_kept_def)
  from ok_grown [OF ok this] show ?thesis using ok policy_effect_ok [OF effect p] by (simp add: request_ok_def forecasts_of_def)
qed

lemma ok_tables:
  assumes ok: "request_ok jsonb_of w" and "scw_forecasts v = scw_forecasts (rq_tables w)"
    and "\<forall>s\<in>set (scw_scenarios v). sc_status s = ScenarioDraft"
  shows "request_ok jsonb_of (w\<lparr>rq_tables := v\<rparr>)"
  by (rule ok_grown [OF ok grows_same]) (use assms in \<open>auto simp: request_ok_def forecasts_of_def\<close>)

lemma ok_scenario:
  assumes ok: "request_ok jsonb_of w"
  shows "request_ok jsonb_of (w\<lparr>rq_tables := snd (createScenario jsonb_of new_id context body (rq_tables w))\<rparr>)"
proof (rule ok_tables [OF ok])
  from ok have draft: "\<forall>s\<in>set (scw_scenarios (rq_tables w)). sc_status s = ScenarioDraft" by (simp add: request_ok_def)
  show "scw_forecasts (snd (createScenario jsonb_of new_id context body (rq_tables w))) = scw_forecasts (rq_tables w)"
    "\<forall>s\<in>set (scw_scenarios (snd (createScenario jsonb_of new_id context body (rq_tables w)))). sc_status s = ScenarioDraft"
    using create_scenario_world [of jsonb_of new_id "context" body "rq_tables w"] draft by auto
qed

lemma update_run_row:
  assumes "\<And>d. d_run (f d) = d_run d" and "r \<in> set (update_run jid g s f now rows)"
  shows "\<exists>x\<in>set rows. j_id (rr_job r) = j_id (rr_job x) \<and> d_run (j_data (rr_job r)) = d_run (j_data (rr_job x))
    \<and> rc_scenarioId (rr_columns r) = rc_scenarioId (rr_columns x) \<and> rc_optimizerPolicyId (rr_columns r) = rc_optimizerPolicyId (rr_columns x)
    \<and> rc_forecastRunId (rr_columns r) = rc_forecastRunId (rr_columns x)"
  using assms by (auto simp: update_run_def)

lemma ok_worked:
  assumes ok: "request_ok jsonb_of w" and f: "\<And>d. d_run (f d) = d_run d"
  shows "request_ok jsonb_of (w\<lparr>rq_runs := update_run jid g s f now (rq_runs w)\<rparr>)"
proof -
  let ?w = "w\<lparr>rq_runs := update_run jid g s f now (rq_runs w)\<rparr>"
  have g: "grows w ?w" by (rule grows_same) (simp_all add: forecasts_of_def)
  have "run_said r ?w" if r: "r \<in> set (update_run jid g s f now (rq_runs w))" for r
  proof -
    from update_run_row [OF f r] obtain x where x: "x \<in> set (rq_runs w)" "j_id (rr_job r) = j_id (rr_job x)" "d_run (j_data (rr_job r)) = d_run (j_data (rr_job x))"
      "rc_scenarioId (rr_columns r) = rc_scenarioId (rr_columns x)" "rc_optimizerPolicyId (rr_columns r) = rc_optimizerPolicyId (rr_columns x)"
      "rc_forecastRunId (rr_columns r) = rc_forecastRunId (rr_columns x)" by blast
    have "run_said x ?w" using ok x(1) grows_run [OF g] by (simp add: request_ok_def)
    then show ?thesis by (simp add: run_said_def Let_def x(2-))
  qed
  moreover have "map (j_id \<circ> rr_job) (update_run jid g s f now (rq_runs w)) = map (j_id \<circ> rr_job) (rq_runs w)" by (auto simp: update_run_def)
  ultimately show ?thesis using ok grows_pending [OF g] grows_reading [OF g] by (auto simp: request_ok_def forecasts_of_def)
qed

lemma ok_object:
  assumes ok: "request_ok jsonb_of w" and key: "\<And>i. key \<noteq> input_uri i"
  shows "request_ok jsonb_of (w\<lparr>rq_objects := AList.update key bytes (rq_objects w)\<rparr>)"
proof -
  have "grows w (w\<lparr>rq_objects := AList.update key bytes (rq_objects w)\<rparr>)"
    using key by (auto simp: grows_def version_kept_def forecasts_of_def update_conv dest: not_sym)
  from ok_grown [OF ok this] show ?thesis using ok by (simp add: request_ok_def forecasts_of_def)
qed

lemma request_step_ok:
  assumes ok: "request_ok jsonb_of w" and "request_step date_parse sha256_hex jsonb jsonb_of w w'"
  shows "request_ok jsonb_of w'"
  using assms(2)
proof (cases rule: request_step.cases)
  case (run_received body input ctx)
  with received_ok [OF ok] show ?thesis by simp
next
  case (forecast_read rd)
  with reread_ok [OF ok query_said(1) [OF ok]] ok show ?thesis by (auto simp: request_ok_def)
next
  case (policy_read rd)
  with reread_ok [OF ok query_said(2) [OF ok]] ok show ?thesis by (auto simp: request_ok_def)
next
  case (scenario_read rd)
  with reread_ok [OF ok query_said(3) [OF ok]] ok show ?thesis by (auto simp: request_ok_def)
next
  case (prices_read rd)
  with reread_ok [OF ok query_said(4) [OF ok]] ok show ?thesis by (auto simp: request_ok_def)
next
  case (run_begun rd found new_id put_ok seed)
  with begin_ok [OF ok] show ?thesis by simp
next
  case (run_finished p seed)
  with run_finish_ok [OF ok] show ?thesis by simp
next
  case (prices_step v)
  with ok_prices [OF ok] show ?thesis by simp
next
  case (policies_step v)
  with ok_policies [OF ok] show ?thesis by simp
next
  case (scenario_created new_id ctx body)
  with ok_scenario [OF ok] show ?thesis by simp
next
  case (forecast_queued j)
  then show ?thesis by (auto intro!: ok_forecasts [OF ok])
next
  case (forecast_claimed jid)
  then show ?thesis
    by (auto intro!: ok_forecasts [OF ok] update_job_completed) (auto simp: update_job_def split: if_splits)
next
  case (forecast_completed jid uri metrics)
  then show ?thesis
    by (auto intro!: ok_forecasts [OF ok] update_job_completed) (auto simp: update_job_def split: if_splits)
next
  case (forecast_failed jid details)
  then show ?thesis
    by (auto intro!: ok_forecasts [OF ok] update_job_completed) (auto simp: update_job_def split: if_splits)
next
  case (run_worked g s f jid now)
  with ok_worked [OF ok] show ?thesis by simp
next
  case (object_put key bytes)
  with ok_object [OF ok] show ?thesis by simp
next
  case (tables_grew v)
  with ok_tables [OF ok] ok show ?thesis by (simp add: request_ok_def)
qed

lemma request_reachable_ok: "request_reachable date_parse sha256_hex jsonb jsonb_of w \<Longrightarrow> request_ok jsonb_of w"
proof (induction rule: request_reachable.induct)
  case (request_start w)
  then show ?case by (simp add: request_ok_def policies_ok_def price_tables_ok_def forecasts_of_def)
next
  case (request_next w w')
  then show ?case using request_step_ok by blast
qed

end
