(* ===== verification/Run_Request_Claims.thy ===== *)
theory Run_Request_Claims
  imports Run_Request_Steps
begin

text \<open>
  The outcome of a request for an optimizer run, and the properties of requests and runs: snapshots say what
  the tables say, every branch of the answer, and the fate of requests that name a scenario.
\<close>

section \<open>The outcome of a request\<close>


lemma filter_count: "length (filter P (js_sort cmp xs)) = length (filter P xs)"
  by (metis mset_filter mset_js_sort size_mset)

lemma uuidArray_ids: "uuidArray v = Inr is \<Longrightarrow> distinct is \<and> length is \<le> 16"
  by (auto simp: uuidArray_def bindR_eq_Inr not_less split: json.splits if_splits dest!: traverseR_length)

lemma parsed_ids:
  assumes "parseOptimizerRunCreateBody body = Inr input"
  shows "option_check (\<lambda>is. distinct is \<and> length is \<le> 16) (rrq_priceTableVersionIds input)"
    and "isSupportedPair (rrq_provider input) (rrq_instrument input)"
proof -
  from assms obtain kvs where "given uuidArray (json_prop kvs ''price_table_version_ids'') = Inr (rrq_priceTableVersionIds input)"
    and pair: "isSupportedPair (rrq_provider input) (rrq_instrument input)"
    by (auto simp: parseOptimizerRunCreateBody_def bindR_eq_Inr Let_def split: if_splits)
  then show "option_check (\<lambda>is. distinct is \<and> length is \<le> 16) (rrq_priceTableVersionIds input)"
    by (auto simp: given_Inr option_check_def dest: uuidArray_ids)
  show "isSupportedPair (rrq_provider input) (rrq_instrument input)" by (fact pair)
qed

text \<open>What the queries of a request give with nothing between them.\<close>

abbreviation inputs_now :: "string \<Rightarrow> run_request \<Rightarrow> request_world \<Rightarrow> resolved_inputs option result" where
  "inputs_now t input w \<equiv> eligible_inputs input (find_forecast t (rrq_forecastRunId input) (scw_forecasts (rq_tables w)))
     (get_policy t (rrq_optimizerPolicyId input) (rq_policies w)) (scenario_of t input (rq_tables w)) (priceSnapshots t input (rq_prices w))"

abbreviation read_inputs :: "request_context \<Rightarrow> run_request \<Rightarrow> request_world \<Rightarrow> request_reading" where
  "read_inputs context input w \<equiv> read_prices w (read_scenario w (read_policy w (read_forecast w (new_reading context input))))"

lemma resolved_now: "resolveInputs (read_inputs context input w) = Some (inputs_now (ctx_tenantId context) input w)"
  by (simp add: resolveInputs_def read_prices_def read_scenario_def read_policy_def read_forecast_def new_reading_def)

lemma read_inputs_of [simp]:
  "rd_tenantId (read_inputs context input w) = ctx_tenantId context" "rd_input (read_inputs context input w) = input"
  "rd_createdByUserId (read_inputs context input w) = ctx_actorUserId context"
  by (simp_all add: read_prices_def read_scenario_def read_policy_def read_forecast_def new_reading_def)

lemma read_inputs_said: "request_ok jsonb_of w \<Longrightarrow> reading_said jsonb_of (read_inputs context input w) w"
  by (intro query_said) (simp_all add: reading_said_def new_reading_def)

text \<open>The versions a request resolves to are the ones the trigger counts.\<close>

lemma resolved_versions:
  assumes r: "inputs_now t input w = Inr (Some r)" and ok: "request_ok jsonb_of w"
    and parsed: "parseOptimizerRunCreateBody body = Inr input"
    and ids: "ids = coalesce (rrq_priceTableVersionIds input) (map pv_id (ri_priceTableVersions r))"
  shows "distinct ids" and "ids \<noteq> []" and "length ids = length (ri_priceTableVersions r)"
    and "length (filter (\<lambda>v. pv_id v \<in> set ids \<and> eligible_version t (rrq_provider input) (rrq_instrument input) v) (ptw_versions (rq_prices w))) = length ids"
proof -
  let ?P = "\<lambda>v. eligible_version t (rrq_provider input) (rrq_instrument input) v \<and> option_check (\<lambda>is. pv_id v \<in> set is) (rrq_priceTableVersionIds input)"
  have rows: "ri_priceTableVersions r = js_sort price_order (filter ?P (ptw_versions (rq_prices w)))"
    and some: "option_check (\<lambda>is. length (ri_priceTableVersions r) = length is) (rrq_priceTableVersionIds input)" and ne: "ri_priceTableVersions r \<noteq> []"
    using eligible_Some(3,10) [OF r] by (auto simp: priceSnapshots_def Let_def simp del: length_js_sort split: if_splits)
  have explicit: "distinct is" if "rrq_priceTableVersionIds input = Some is" for "is"
    using parsed_ids [OF parsed] that by (auto simp: option_check_def)
  have dist: "distinct (map pv_id (ptw_versions (rq_prices w)))" using ok by (simp add: request_ok_def price_tables_ok_def)
  have same: "mset (map pv_id (ri_priceTableVersions r)) = mset (map pv_id (filter ?P (ptw_versions (rq_prices w))))"
    unfolding rows mset_map mset_js_sort ..
  from distinct_map_filter [OF dist, of ?P] have "distinct (map pv_id (ri_priceTableVersions r))"
    unfolding mset_eq_imp_distinct_iff [OF same] .
  with explicit show "distinct ids" by (cases "rrq_priceTableVersionIds input") (simp_all add: ids coalesce_def)
  show len: "length ids = length (ri_priceTableVersions r)"
    using some by (cases "rrq_priceTableVersionIds input") (simp_all add: ids coalesce_def option_check_def)
  with ne show "ids \<noteq> []" by auto
  have "filter (\<lambda>v. pv_id v \<in> set ids \<and> eligible_version t (rrq_provider input) (rrq_instrument input) v) (ptw_versions (rq_prices w))
      = filter ?P (ptw_versions (rq_prices w))"
  proof (rule filter_cong [OF refl])
    fix v assume v: "v \<in> set (ptw_versions (rq_prices w))"
    show "(pv_id v \<in> set ids \<and> eligible_version t (rrq_provider input) (rrq_instrument input) v) = ?P v"
    proof (cases "rrq_priceTableVersionIds input")
      case None
      then have "set ids = pv_id ` set (filter ?P (ptw_versions (rq_prices w)))" by (simp add: ids coalesce_def rows)
      then show ?thesis using None v by (auto simp: option_check_def)
    next
      case (Some xs)
      then show ?thesis by (auto simp: ids coalesce_def option_check_def)
    qed
  qed
  then show "length (filter (\<lambda>v. pv_id v \<in> set ids \<and> eligible_version t (rrq_provider input) (rrq_instrument input) v) (ptw_versions (rq_prices w))) = length ids"
    unfolding len rows length_js_sort by (rule arg_cong [of _ _ length])
qed

lemma uuid_plain:
  assumes "lower_uuid s"
  shows "length s = 36" and "\<not> hasControlCharacters s"
proof -
  from assms have m: "list_all2 (\<lambda>p c. p c) (uuid_shape hex_lower (digit_in 1 8) variant_lower) s" by (simp add: lower_uuid_def shape_match_def)
  then show "length s = 36" by (auto simp: uuid_shape_def dest!: list_all2_lengthD)
  have "33 \<le> code c \<and> code c \<le> 126" if "p c" "p \<in> set (uuid_shape hex_lower (digit_in 1 8) variant_lower)" for p c
    using that by (auto simp: uuid_shape_def hex_lower_def digit_in_def variant_lower_def is_digit_def code_def split: if_splits)
  moreover have "\<exists>p\<in>set (uuid_shape hex_lower (digit_in 1 8) variant_lower). p c" if "c \<in> set s" for c
    using m that by (metis in_set_conv_nth list_all2_conv_all_nth)
  ultimately have "33 \<le> code c \<and> code c \<le> 126" if "c \<in> set s" for c using that by blast
  then show "\<not> hasControlCharacters s" unfolding hasControlCharacters_def by fastforce
qed

lemma uri_clean: "lower_uuid i \<Longrightarrow> clean_column 2048 (input_uri i)"
proof -
  assume "lower_uuid i"
  note plain = uuid_plain [OF this]
  have "\<not> hasControlCharacters ''optimizer-runs/''" "\<not> hasControlCharacters ''/input.json''" by code_simp+
  with plain show ?thesis by (simp add: clean_column_def input_uri_def hasControlCharacters_def ball_Un)
qed

lemma inputs_error: "eligible_inputs input f p s v = Inl e \<Longrightarrow> e = run_input_invalid"
  by (auto simp: eligible_inputs_def split: option.splits if_splits)

lemma run_outcome:
  assumes "request_reachable date_parse sha256_hex jsonb jsonb_of w" and "parseOptimizerRunCreateBody body = Inr input"
    and "lower_uuid new_id" and "new_id \<notin> set (map (\<lambda>x. j_id (rr_job x)) (rq_runs w))"
    and "ctx_tenantId context \<in> set (scw_tenants (rq_tables w))"
    and "option_check (\<lambda>u. (ctx_tenantId context, u) \<in> set (scw_users (rq_tables w))) (ctx_actorUserId context)"
    and "- (2 ^ 63) \<le> seed" and "seed < 2 ^ 63"
  shows "createRun new_id put_ok seed context body w =
    (case inputs_now (ctx_tenantId context) input w of
       Inl e \<Rightarrow> (Inl run_input_invalid, w)
     | Inr None \<Rightarrow> (Inl run_not_found, w)
     | Inr (Some resolved) \<Rightarrow>
         (let stored = w\<lparr>rq_objects := AList.update (input_uri new_id) (json_bytes (JObj (run_snapshot new_id seed input resolved))) (rq_objects w)\<rparr>;
              row = new_run seed \<lparr>pd_id = new_id, pd_tenantId = ctx_tenantId context, pd_input = input,
                pd_priceTableVersionIds = coalesce (rrq_priceTableVersionIds input) (map pv_id (ri_priceTableVersions resolved)),
                pd_createdByUserId = ctx_actorUserId context\<rparr> (scw_now (rq_tables w))
          in if \<not> put_ok then (Inl runs_unavailable, w)
             else if 16 < length (ri_priceTableVersions resolved) then (Inl runs_unavailable, stored)
             else (Inr (toRun row), stored\<lparr>rq_runs := rq_runs w @ [row]\<rparr>)))"
proof (cases "inputs_now (ctx_tenantId context) input w")
  case (Inl e)
  with inputs_error [OF Inl] show ?thesis
    using assms(2) by (simp add: createRun_def Let_def resolved_now begin_run_def run_safe_def run_input_invalid_def)
next
  case found: (Inr r0)
  show ?thesis
  proof (cases r0)
    case None
    then show ?thesis using found assms(2) by (simp add: createRun_def Let_def resolved_now begin_run_def run_safe_def)
  next
    case (Some r)
    have ok: "request_ok jsonb_of w" by (rule request_reachable_ok [OF assms(1)])
    define p where "p = \<lparr>pd_id = new_id, pd_tenantId = ctx_tenantId context, pd_input = input,
        pd_priceTableVersionIds = coalesce (rrq_priceTableVersionIds input) (map pv_id (ri_priceTableVersions r)),
        pd_createdByUserId = ctx_actorUserId context\<rparr>"
    define v where "v = w\<lparr>rq_objects := AList.update (input_uri new_id) (json_bytes (JObj (run_snapshot new_id seed input r))) (rq_objects w)\<rparr>"
    have resolved: "inputs_now (ctx_tenantId context) input w = Inr (Some r)" using found Some by simp
    note facts = eligible_Some [OF resolved]
    have scenario: "rrq_scenarioId input = None"
      using resolved_facts(1) [OF resolved_now [of w "context" input, unfolded resolved] read_inputs_said [OF ok]] by simp
    note versions = resolved_versions [OF resolved ok assms(2) refl]
    have same: "rq_tables v = rq_tables w" "rq_runs v = rq_runs w" "rq_pending v = rq_pending w" by (simp_all add: v_def)
    let ?row = "new_run seed p (scw_now (rq_tables w))" and ?begun = "v\<lparr>rq_pending := p # rq_pending w\<rparr>"
    have begun: "begin_run new_id put_ok seed (read_inputs context input w) (inputs_now (ctx_tenantId context) input w) w
        = (if put_ok then (Inr p, ?begun) else (Inl runs_unavailable, w))"
      using resolved by (simp add: begin_run_def run_safe_def p_def v_def Let_def)
    have trigger: "run_trigger ?row ?begun"
      using facts versions(4) scenario
      by (simp add: run_trigger_def new_run_def p_def v_def Let_def forecast_incomplete_def inactive_policy_def option_check_def)
    have refs: "run_references ?row ?begun"
      using facts scenario assms(5,6) by (simp add: run_references_def new_run_def p_def v_def Let_def option_check_def cong: option.case_cong)
    have check: "run_row_check ?row \<longleftrightarrow> length (ri_priceTableVersions r) \<le> 16"
      using versions uri_clean [OF assms(3)] parsed_ids(2) [OF assms(2)] by (simp add: run_row_check_def new_run_def p_def Let_def)
    have fresh: "\<not> (\<exists>x\<in>set (rq_runs w). j_id (rr_job x) = j_id (rr_job ?row))"
      using assms(4) by (auto simp: new_run_def p_def)
    have seed: "\<not> (rc_randomSeed (rr_columns ?row) < - (2 ^ 63) \<or> 2 ^ 63 \<le> rc_randomSeed (rr_columns ?row))"
      using assms(7,8) by (simp add: new_run_def)
    have insert: "insert_run ?row ?begun =
        (if 16 < length (ri_priceTableVersions r) then Inl (sqlstate ''23514'')
         else Inr (v\<lparr>rq_runs := rq_runs w @ [?row], rq_pending := p # rq_pending w\<rparr>))"
      using trigger refs fresh seed check unfolding insert_run_def by (simp add: v_def)
    have "createRun new_id put_ok seed context body w =
        (if \<not> put_ok then (Inl runs_unavailable, w)
         else if 16 < length (ri_priceTableVersions r) then (Inl runs_unavailable, v) else (Inr (toRun ?row), v\<lparr>rq_runs := rq_runs w @ [?row]\<rparr>))"
      using assms(2)
      by (simp add: createRun_def Let_def resolved_now begun finish_run_def create_run_def insert same run_safe_def sqlstate_def run_input_invalid_def)
    then show ?thesis by (simp add: resolved p_def v_def Let_def)
  qed
qed

lemma answer_cases:
  "(case if missing then Inr None else if bad then Inl e else Inr (Some x) of Inl e' \<Rightarrow> a | Inr None \<Rightarrow> b | Inr (Some r) \<Rightarrow> g r)
     = (if missing then b else if bad then a else g x)"
  by simp

lemma answered:
  "(if missing then (Inl e, w) else if bad then (Inl e', w) else if lost then (Inl e'', w) else (if many then Inl e'' else Inr x, w')) = (Inr y, v)
     \<Longrightarrow> x = y"
  by (simp split: if_splits)

lemma parse_run_refusing: "refusing (parseOptimizerRunCreateBody body)"
  unfolding parseOptimizerRunCreateBody_def Let_def
  by (auto intro!: refusal simp: parseProvider_def parseInstrument_def uuid_input_def uuidArray_def split: json.splits)

text \<open>The inputs of a request, written out: which rows it names, and what makes them eligible.\<close>

lemma named_versions:
  assumes dist: "distinct (map pv_id vs)" and ids: "distinct is" and sub: "\<And>v. v \<in> set vs \<Longrightarrow> pv_id v \<in> set is"
  shows "length vs = length is \<longleftrightarrow> (\<forall>i\<in>set is. \<exists>v\<in>set vs. pv_id v = i)"
proof -
  have len: "length vs = card (pv_id ` set vs)" using distinct_card [OF dist] by simp
  have "length is = card (set is)" using distinct_card [OF ids] by simp
  moreover have subset: "pv_id ` set vs \<subseteq> set is" using sub by auto
  ultimately have "length vs = length is \<longleftrightarrow> pv_id ` set vs = set is" using len by (metis card_subset_eq finite_set)
  also have "\<dots> \<longleftrightarrow> (\<forall>i\<in>set is. \<exists>v\<in>set vs. pv_id v = i)" using subset by force
  finally show ?thesis .
qed

lemma price_order_strict:
  assumes "distinct (map pv_id vs)"
  shows "sorted_wrt (\<lambda>a b. pv_effectiveFrom b < pv_effectiveFrom a \<or> pv_effectiveFrom b = pv_effectiveFrom a \<and> pv_id b < pv_id a) (js_sort price_order vs)"
proof -
  have "distinct (map (\<lambda>v. (pv_effectiveFrom v, pv_id v)) vs)"
    using assms by (auto simp: distinct_map inj_on_def)
  from sorted_rows_strict [OF this] show ?thesis
    unfolding sorted_rows_def price_order_def [abs_def] boundary_less_def by simp
qed

lemma inputs_spelled:
  assumes ok: "request_ok jsonb_of w" and parsed: "parseOptimizerRunCreateBody body = Inr input"
    and versions: "versions = js_sort price_order (filter (\<lambda>v. pv_tenantId v = t \<and> pv_provider v = rrq_provider input
       \<and> pv_instrument v = rrq_instrument input \<and> pv_status v = PvActive
       \<and> (case rrq_priceTableVersionIds input of None \<Rightarrow> True | Some is \<Rightarrow> pv_id v \<in> set is)) (ptw_versions (rq_prices w)))"
    and forecast: "forecast = find (\<lambda>j. fr_tenantId (fd_run (j_data j)) = t \<and> j_id j = rrq_forecastRunId input) (scw_forecasts (rq_tables w))"
    and policy: "policy = find (\<lambda>p. op_tenantId p = t \<and> op_id p = rrq_optimizerPolicyId input) (pw_policies (rq_policies w))"
  shows "inputs_now t input w =
    (if forecast = None \<or> policy = None
        \<or> (\<exists>is. rrq_priceTableVersionIds input = Some is \<and> (\<exists>i\<in>set is. \<forall>v\<in>set versions. pv_id v \<noteq> i))
        \<or> (\<exists>i. rrq_scenarioId input = Some i \<and> (\<forall>s\<in>set (scw_scenarios (rq_tables w)). \<not> (sc_tenantId s = t \<and> sc_id s = i))) then Inr None
     else if j_status (the forecast) \<noteq> Completed \<or> op_status (the policy) \<noteq> PolicyActive
        \<or> rrq_instrument input \<notin> set (op_allowedInstruments (op_terms (the policy))) \<or> rrq_scenarioId input \<noteq> None \<or> versions = []
       then Inl run_input_invalid
     else Inr (Some \<lparr>ri_forecastRun = the forecast, ri_policy = the policy, ri_scenario = None, ri_priceTableVersions = versions\<rparr>))"
proof -
  let ?P = "\<lambda>v. pv_tenantId v = t \<and> pv_provider v = rrq_provider input \<and> pv_instrument v = rrq_instrument input \<and> pv_status v = PvActive
       \<and> (case rrq_priceTableVersionIds input of None \<Rightarrow> True | Some is \<Rightarrow> pv_id v \<in> set is)"
  have dist: "distinct (map pv_id (filter ?P (ptw_versions (rq_prices w))))"
    using ok by (intro distinct_map_filter) (simp add: request_ok_def price_tables_ok_def)
  have "mset (map pv_id versions) = mset (map pv_id (filter ?P (ptw_versions (rq_prices w))))" unfolding versions mset_map mset_js_sort ..
  with dist have ids: "distinct (map pv_id versions)" using mset_eq_imp_distinct_iff by blast
  have "(\<lambda>v. eligible_version t (rrq_provider input) (rrq_instrument input) v \<and> option_check (\<lambda>is. pv_id v \<in> set is) (rrq_priceTableVersionIds input)) = ?P"
    by (auto simp: fun_eq_iff eligible_version_def option_check_def split: option.split)
  then have snap: "priceSnapshots t input (rq_prices w) =
      (if option_check (\<lambda>is. length versions = length is) (rrq_priceTableVersionIds input) then Some versions else None)"
    by (simp add: priceSnapshots_def Let_def versions)
  have "length versions = length is \<longleftrightarrow> (\<forall>i\<in>set is. \<exists>v\<in>set versions. pv_id v = i)" if some: "rrq_priceTableVersionIds input = Some is" for "is"
    using parsed_ids(1) [OF parsed] some by (intro named_versions [OF ids]) (auto simp: option_check_def versions)
  then have prices: "priceSnapshots t input (rq_prices w) =
      (if \<exists>is. rrq_priceTableVersionIds input = Some is \<and> (\<exists>i\<in>set is. \<forall>v\<in>set versions. pv_id v \<noteq> i) then None else Some versions)"
    unfolding snap by (cases "rrq_priceTableVersionIds input") (auto simp: option_check_def)
  have fc: "find_forecast t (rrq_forecastRunId input) (scw_forecasts (rq_tables w)) = forecast"
    unfolding find_forecast_def forecast forecast_at_def [abs_def] ..
  have pol: "get_policy t (rrq_optimizerPolicyId input) (rq_policies w) = policy"
    unfolding get_policy_def policy policy_at_def [abs_def] ..
  have none: "scenario_of t input (rq_tables w) = None \<longleftrightarrow>
      (\<forall>i. rrq_scenarioId input = Some i \<longrightarrow> (\<forall>s\<in>set (scw_scenarios (rq_tables w)). \<not> (sc_tenantId s = t \<and> sc_id s = i)))"
    by (auto simp: scenario_of_def get_scenario_def scenario_at_def find_None_iff split: option.split)
  have draft: "sc_status s = ScenarioDraft" if "scenario_of t input (rq_tables w) = Some s" for s
    using that ok by (auto simp: request_ok_def scenario_of_def get_scenario_def find_Some_iff split: option.splits)
  show ?thesis
  proof (cases "rrq_scenarioId input")
    case None
    then have "scenario_of t input (rq_tables w) = None" by (simp add: scenario_of_def)
    with None show ?thesis unfolding fc pol prices by (cases forecast; cases policy) (simp_all add: eligible_inputs_def option_check_def)
  next
    case (Some i)
    show ?thesis
    proof (cases "scenario_of t input (rq_tables w)")
      case absent: None
      with none Some have "\<forall>s\<in>set (scw_scenarios (rq_tables w)). \<not> (sc_tenantId s = t \<and> sc_id s = i)" by simp
      with Some absent show ?thesis unfolding fc pol prices by (cases forecast; cases policy) (auto simp: eligible_inputs_def)
    next
      case there: (Some s)
      with none Some have "\<not> (\<forall>s\<in>set (scw_scenarios (rq_tables w)). \<not> (sc_tenantId s = t \<and> sc_id s = i))" by auto
      with Some there draft [OF there] show ?thesis
        unfolding fc pol prices by (cases forecast; cases policy) (auto simp: eligible_inputs_def option_check_def)
    qed
  qed
qed

section \<open>A sample\<close>

definition sample_forecast_id :: string where
  "sample_forecast_id = ''00000000-0000-4000-8000-000000000003''"

definition sample_run_id :: string where
  "sample_run_id = ''00000000-0000-4000-8000-000000000004''"

definition sample_forecast :: "job_status \<Rightarrow> forecast_data job" where
  "sample_forecast s = \<lparr>j_id = sample_forecast_id, j_status = s, j_created_at = 5, j_data =
     \<lparr>fd_run = \<lparr>fr_id = sample_forecast_id, fr_tenantId = ''t'', fr_forecastModelId = ''m'', fr_method = ''seasonal_naive'',
        fr_providerScope = [''aws''], fr_serviceScope = [''AmazonEC2''], fr_inputWindowStart = ''2026-01-01'',
        fr_inputWindowEnd = ''2026-06-30'', fr_horizonMonths = 1, fr_randomSeed = ''1''\<rparr>,
      fd_outputUri = (if s = Completed then Some ''f/o.json'' else None),
      fd_qualityMetrics = (if s = Completed then JObj [(''rows'', JInt 1)] else JObj []), fd_errorDetails = JObj []\<rparr>\<rparr>"

definition sample_world :: "price_world \<Rightarrow> policy_world \<Rightarrow> forecast_data job list \<Rightarrow> request_world" where
  "sample_world prices policies forecasts = \<lparr>rq_tables = \<lparr>scw_tenants = [''t''], scw_users = [(''t'', ''u'')], scw_forecasts = forecasts,
     scw_scenarios = [], scw_now = 20\<rparr>, rq_policies = policies, rq_prices = prices, rq_runs = [], rq_objects = [], rq_reading = [], rq_pending = []\<rparr>"

abbreviation ready_world :: request_world where
  "ready_world \<equiv> sample_world (sample_tables PvActive) (sample_policies [PolicyActive]) [sample_forecast Completed]"

definition sample_run_body :: json where
  "sample_run_body = JObj [(''forecast_run_id'', JStr sample_forecast_id), (''optimizer_policy_id'', JStr sample_policy_id)]"

definition sample_context :: request_context where
  "sample_context = createUserRequestContext ''t'' ''u'' FinopsAnalyst ''q''"

abbreviation sample_reaches :: "request_world \<Rightarrow> bool" where
  "sample_reaches \<equiv> request_reachable sample_dates sample_sha (\<lambda>_. Some 60) sample_jsonb"

lemma world_prices: "sample_reaches (sample_world a p f) \<Longrightarrow> price_step sample_dates sample_sha (\<lambda>_. Some 60) a b \<Longrightarrow> sample_reaches (sample_world b p f)"
  using request_next [OF _ prices_step, of sample_dates sample_sha "\<lambda>_. Some 60" sample_jsonb "sample_world a p f" b] by (simp add: sample_world_def)

lemma world_policies: "sample_reaches (sample_world a p f) \<Longrightarrow> policy_step sample_jsonb p q \<Longrightarrow> sample_reaches (sample_world a q f)"
  using request_next [OF _ policies_step, of sample_dates sample_sha "\<lambda>_. Some 60" sample_jsonb "sample_world a p f" q] by (simp add: sample_world_def)

lemma sample_forecast_moves:
  "update_job sample_forecast_id Queued Running (\<lambda>d. d) [sample_forecast Queued] = [sample_forecast Running]"
  "update_job sample_forecast_id Running Completed (\<lambda>d. d\<lparr>fd_outputUri := Some ''f/o.json'',
     fd_qualityMetrics := JObj [(''rows'', JInt 1)], fd_errorDetails := JObj []\<rparr>) [sample_forecast Running] = [sample_forecast Completed]"
  by (simp_all add: update_job_def sample_forecast_def)

lemma ready_reachable: "sample_reaches ready_world"
proof -
  have "sample_reaches (sample_world sample_prices (sample_policies []) [])"
    by (rule request_start) (simp_all add: sample_world_def sample_prices_def sample_policies_def)
  from world_prices [OF this step_create] sample_price_created
  have "sample_reaches (sample_world (sample_tables PvDraft) (sample_policies []) [])" by (metis snd_conv)
  from world_prices [OF this step_activate] sample_activated
  have "sample_reaches (sample_world (sample_tables PvActive) (sample_policies []) [])" by (metis snd_conv)
  from world_policies [OF this policy_created] sample_policy_created
  have "sample_reaches (sample_world (sample_tables PvActive) (sample_policies [PolicyDraft]) [])" by metis
  from world_policies [OF this policy_patched] sample_policy_activated
  have a: "sample_reaches (sample_world (sample_tables PvActive) (sample_policies [PolicyActive]) [])" by metis
  have "j_status (sample_forecast Queued) = Queued" by (simp add: sample_forecast_def)
  from request_next [OF a forecast_queued [OF this]]
  have b: "sample_reaches (sample_world (sample_tables PvActive) (sample_policies [PolicyActive]) [sample_forecast Queued])"
    by (simp add: with_forecasts_def forecasts_of_def sample_world_def)
  from request_next [OF b forecast_claimed [where jid = sample_forecast_id]]
  have c: "sample_reaches (sample_world (sample_tables PvActive) (sample_policies [PolicyActive]) [sample_forecast Running])"
    by (simp add: with_forecasts_def forecasts_of_def sample_world_def sample_forecast_moves)
  from request_next [OF c forecast_completed [where jid = sample_forecast_id and uri = "''f/o.json''" and metrics = "JObj [(''rows'', JInt 1)]"]]
  show ?thesis by (simp add: with_forecasts_def forecasts_of_def sample_world_def sample_forecast_moves)
qed

definition sample_request :: run_request where
  "sample_request = \<lparr>rrq_forecastRunId = sample_forecast_id, rrq_scenarioId = None, rrq_optimizerPolicyId = sample_policy_id,
     rrq_provider = Aws, rrq_instrument = AwsComputeSavingsPlan, rrq_priceTableVersionIds = None\<rparr>"

definition sample_resolved :: resolved_inputs where
  "sample_resolved = \<lparr>ri_forecastRun = sample_forecast Completed, ri_policy = sample_policy PolicyActive, ri_scenario = None,
     ri_priceTableVersions = [sample_version PvActive]\<rparr>"

definition sample_pending :: pending_run where
  "sample_pending = \<lparr>pd_id = sample_run_id, pd_tenantId = ''t'', pd_input = sample_request, pd_priceTableVersionIds = [sample_version_id],
     pd_createdByUserId = Some ''u''\<rparr>"

definition sample_row :: run_row where
  "sample_row = new_run 7 sample_pending 20"

definition stored_world :: request_world where
  "stored_world = ready_world\<lparr>rq_objects := [(input_uri sample_run_id, json_bytes (JObj (run_snapshot sample_run_id 7 sample_request sample_resolved)))]\<rparr>"

lemma sample_run_parsed: "parseOptimizerRunCreateBody sample_run_body = Inr sample_request"
  by code_simp

lemma sample_version_key: "pv_id (sample_version PvActive) = sample_version_id"
  by (simp add: sample_version_def draft_version_def)

lemma sample_run_resolved: "inputs_now ''t'' sample_request ready_world = Inr (Some sample_resolved)"
proof -
  have "find_forecast ''t'' (rrq_forecastRunId sample_request) (scw_forecasts (rq_tables ready_world)) = Some (sample_forecast Completed)"
    by (simp add: find_forecast_def forecast_at_def sample_world_def sample_forecast_def sample_request_def)
  moreover have "get_policy ''t'' (rrq_optimizerPolicyId sample_request) (rq_policies ready_world) = Some (sample_policy PolicyActive)"
    by (simp add: get_policy_def policy_at_def sample_world_def sample_policies_def sample_policy_def sample_request_def)
  moreover have "priceSnapshots ''t'' sample_request (rq_prices ready_world) = Some [sample_version PvActive]"
    by (simp add: priceSnapshots_def sample_world_def sample_tables_def sample_request_def option_check_def eligible_version_def
        sample_version_def draft_version_def sample_input_def)
  ultimately show ?thesis
    by (simp add: eligible_inputs_def scenario_of_def option_check_def sample_resolved_def sample_request_def sample_forecast_def
        sample_policy_def sample_terms_def)
qed

lemma sample_run_created:
  "createRun sample_run_id True 7 sample_context sample_run_body ready_world = (Inr (toRun sample_row), stored_world\<lparr>rq_runs := [sample_row]\<rparr>)"
proof -
  have "lower_uuid sample_run_id" by code_simp
  from run_outcome [OF ready_reachable sample_run_parsed this, of sample_context 7 True] sample_run_resolved
  show ?thesis
    by (simp add: sample_context_def createUserRequestContext_def option_check_def sample_resolved_def sample_row_def sample_pending_def
        coalesce_def sample_request_def sample_version_key stored_world_def Let_def)
      (simp add: sample_world_def)
qed






section \<open>Properties\<close>



text \<open>
  C14: What a request of a known tenant and user answers and changes when nothing comes between its statements, in
  every reachable state and on every branch, for a new id of the form of a UUID and a seed of 64 bits. A body that does not parse is answered with 400. A forecast, policy or scenario of the tenant that is
  not there, or an id of the request that no active price table of its market has, is answered with 404; a forecast
  that is not completed, a policy that is not active or does not allow the instrument, any scenario, and a market
  without active price tables with 409; a store that does not take the snapshot with 503: none of these changes
  anything. Otherwise the snapshot written out below is stored, with the active price tables of the market that
  the request names (all of them when it names none), latest first, and the answer is the new queued row, which is all
  that is inserted; but more than sixteen price tables end in 503, with the snapshot of the run that does not
  exist left in the store.
\<close>

theorem run_request_outcome:
  assumes "request_reachable date_parse sha256_hex jsonb jsonb_of w"
    and "lower_uuid new_id" and "new_id \<notin> set (map (\<lambda>x. j_id (rr_job x)) (rq_runs w))"
    and "ctx_tenantId context \<in> set (scw_tenants (rq_tables w))"
    and "option_check (\<lambda>u. (ctx_tenantId context, u) \<in> set (scw_users (rq_tables w))) (ctx_actorUserId context)"
    and "- (2 ^ 63) \<le> seed" and "seed < 2 ^ 63"
  shows "case parseOptimizerRunCreateBody body of
      Inl _ \<Rightarrow> createRun new_id put_ok seed context body w = (Inl (AppError ''VALIDATION_ERROR'' ''Request is invalid.'' 400), w)
    | Inr input \<Rightarrow>
        (let t = ctx_tenantId context; now = scw_now (rq_tables w); uri = ''optimizer-runs/'' @ new_id @ ''/input.json'';
             forecast = find (\<lambda>j. fr_tenantId (fd_run (j_data j)) = t \<and> j_id j = rrq_forecastRunId input) (scw_forecasts (rq_tables w));
             policy = find (\<lambda>p. op_tenantId p = t \<and> op_id p = rrq_optimizerPolicyId input) (pw_policies (rq_policies w));
             f = the forecast; p = the policy; terms = op_terms p in
         \<exists>versions ids. mset versions = mset (filter (\<lambda>v. pv_tenantId v = t \<and> pv_provider v = rrq_provider input
             \<and> pv_instrument v = rrq_instrument input \<and> pv_status v = PvActive
             \<and> (case rrq_priceTableVersionIds input of None \<Rightarrow> True | Some is \<Rightarrow> pv_id v \<in> set is)) (ptw_versions (rq_prices w)))
         \<and> sorted_wrt (\<lambda>a b. pv_effectiveFrom b < pv_effectiveFrom a \<or> pv_effectiveFrom b = pv_effectiveFrom a \<and> pv_id b < pv_id a) versions
         \<and> ids = (case rrq_priceTableVersionIds input of None \<Rightarrow> map pv_id versions | Some is \<Rightarrow> is)
         \<and> createRun new_id put_ok seed context body w =
          (if forecast = None \<or> policy = None
              \<or> (\<exists>is. rrq_priceTableVersionIds input = Some is \<and> (\<exists>i\<in>set is. \<forall>v\<in>set versions. pv_id v \<noteq> i))
              \<or> (\<exists>i. rrq_scenarioId input = Some i \<and> (\<forall>s\<in>set (scw_scenarios (rq_tables w)). \<not> (sc_tenantId s = t \<and> sc_id s = i)))
           then (Inl (AppError ''NOT_FOUND'' ''The requested resource was not found.'' 404), w)
           else if j_status f \<noteq> Completed \<or> op_status p \<noteq> PolicyActive \<or> rrq_instrument input \<notin> set (op_allowedInstruments terms)
              \<or> rrq_scenarioId input \<noteq> None \<or> versions = []
           then (Inl (AppError ''OPTIMIZER_RUN_INPUT_INVALID'' ''Optimizer run inputs are not eligible.'' 409), w)
           else if \<not> put_ok
           then (Inl (AppError ''OPTIMIZER_RUNS_UNAVAILABLE'' ''Optimizer runs are temporarily unavailable.'' 503), w)
           else
             (if 16 < length versions
              then Inl (AppError ''OPTIMIZER_RUNS_UNAVAILABLE'' ''Optimizer runs are temporarily unavailable.'' 503)
              else Inr (JObj
                [(''id'', JStr new_id), (''forecast_run_id'', JStr (rrq_forecastRunId input)), (''scenario_id'', JNull),
                 (''optimizer_policy_id'', JStr (rrq_optimizerPolicyId input)), (''provider'', JStr (provider_text (rrq_provider input))),
                 (''instrument'', JStr (instrument_text (rrq_instrument input))), (''price_table_version_ids'', JArr (map JStr ids)),
                 (''status'', JStr ''queued''), (''random_seed'', JStr (show_int seed)), (''input_snapshot_uri'', JStr uri),
                 (''output_uri'', JNull), (''frontier_uri'', JNull), (''infeasibility_details'', JObj []), (''error_details'', JObj []),
                 (''created_by_user_id'', opt_text (ctx_actorUserId context)),
                 (''created_at'', JStr (micros_text now)), (''updated_at'', JStr (micros_text now))]),
              w\<lparr>rq_objects := AList.update uri (json_bytes (JObj
                  [(''contract_version'', JStr ''optimizer-run-input-snapshot/v1''), (''run_id'', JStr new_id),
                   (''forecast_run'', JObj [(''id'', JStr (j_id f)), (''status'', JStr ''completed''), (''outputUri'', opt_text (fd_outputUri (j_data f))),
                      (''qualityMetrics'', fd_qualityMetrics (j_data f))]),
                   (''policy'', JObj [(''id'', JStr (op_id p)), (''status'', JStr ''active''), (''objective'', JStr (objective_text (op_objective terms))),
                      (''maxDownsideLossCents'', JStr (show_int (op_maxDownsideLossCents terms))),
                      (''minExpectedSavingsCents'', JStr (show_int (op_minExpectedSavingsCents terms))),
                      (''maxUtilizationGapPct'', JStr (percent_text (op_maxUtilizationGapPct terms))),
                      (''approvalThresholdCents'', JStr (show_int (op_approvalThresholdCents terms))),
                      (''allowedInstruments'', JArr (map (\<lambda>i. JStr (instrument_text i)) (op_allowedInstruments terms))),
                      (''config'', op_config terms)]),
                   (''scenario'', JNull), (''provider'', JStr (provider_text (rrq_provider input))),
                   (''instrument'', JStr (instrument_text (rrq_instrument input))),
                   (''price_table_versions'', JArr (map (\<lambda>v. JObj [(''id'', JStr (pv_id v)), (''status'', JStr ''active''),
                      (''provider'', JStr (provider_text (rrq_provider input))), (''instrument'', JStr (instrument_text (rrq_instrument input))),
                      (''checksum'', JStr (pv_checksum v)), (''effectiveFrom'', JStr (pv_effectiveFrom v)),
                      (''effectiveTo'', opt_text (pv_effectiveTo v))]) versions)),
                   (''random_seed'', JStr (show_int seed))])) (rq_objects w),
                rq_runs := rq_runs w @ (if 16 < length versions then [] else
                  [\<lparr>rr_job = \<lparr>j_id = new_id, j_status = Queued, j_created_at = now, j_data =
                      \<lparr>d_run = \<lparr>r_id = new_id, r_tenantId = t, r_provider = rrq_provider input, r_instrument = rrq_instrument input,
                         r_priceTableVersionIds = ids, r_inputSnapshotUri = uri\<rparr>,
                       d_outputUri = None, d_frontierUri = None, d_infeasibilityDetails = JObj [], d_errorDetails = JObj []\<rparr>\<rparr>,
                    rr_columns = \<lparr>rc_forecastRunId = rrq_forecastRunId input, rc_scenarioId = None,
                      rc_optimizerPolicyId = rrq_optimizerPolicyId input, rc_randomSeed = seed, rc_createdByUserId = ctx_actorUserId context,
                      rc_updatedAt = now\<rparr>\<rparr>])\<rparr>)))"
proof (cases "parseOptimizerRunCreateBody body")
  case (Inl e)
  then show ?thesis using parse_run_refusing [of body] by (simp add: refusing_def createRun_def invalid_request_def)
next
  case (Inr input)
  have ok: "request_ok jsonb_of w" by (rule request_reachable_ok [OF assms(1)])
  let ?t = "ctx_tenantId context"
  let ?vs = "filter (\<lambda>v. pv_tenantId v = ?t \<and> pv_provider v = rrq_provider input \<and> pv_instrument v = rrq_instrument input \<and> pv_status v = PvActive
      \<and> (case rrq_priceTableVersionIds input of None \<Rightarrow> True | Some is \<Rightarrow> pv_id v \<in> set is)) (ptw_versions (rq_prices w))"
  define versions where "versions = js_sort price_order ?vs"
  define forecast where "forecast = find (\<lambda>j. fr_tenantId (fd_run (j_data j)) = ?t \<and> j_id j = rrq_forecastRunId input) (scw_forecasts (rq_tables w))"
  define policy where "policy = find (\<lambda>p. op_tenantId p = ?t \<and> op_id p = rrq_optimizerPolicyId input) (pw_policies (rq_policies w))"
  define ids where "ids = (case rrq_priceTableVersionIds input of None \<Rightarrow> map pv_id versions | Some is \<Rightarrow> is)"
  have dist: "distinct (map pv_id ?vs)" using ok by (intro distinct_map_filter) (simp add: request_ok_def price_tables_ok_def)
  have active: "price_snapshot v = JObj [(''id'', JStr (pv_id v)), (''status'', JStr ''active''),
      (''provider'', JStr (provider_text (rrq_provider input))), (''instrument'', JStr (instrument_text (rrq_instrument input))),
      (''checksum'', JStr (pv_checksum v)), (''effectiveFrom'', JStr (pv_effectiveFrom v)), (''effectiveTo'', opt_text (pv_effectiveTo v))]"
    if "v \<in> set versions" for v using that by (auto simp: versions_def price_snapshot_def price_status_text_def)
  show ?thesis
    unfolding Inr sum.case Let_def
  proof (intro exI [of _ versions] exI [of _ ids] conjI, goal_cases)
    case 1
    show ?case by (simp add: versions_def mset_js_sort)
  next
    case 2
    show ?case unfolding versions_def by (rule price_order_strict [OF dist])
  next
    case 3
    show ?case by (simp add: ids_def)
  next
    case 4
    show ?case
      unfolding run_outcome [OF assms(1) Inr assms(2-7)] inputs_spelled [OF ok Inr versions_def forecast_def policy_def] answer_cases
        forecast_def [symmetric] policy_def [symmetric]
    proof (intro if_cong refl, goal_cases)
      case 1
      show ?case by (simp add: run_not_found_def)
    next
      case 2
      show ?case by (simp add: run_input_invalid_def)
    next
      case 3
      then have eligible: "j_status (the forecast) = Completed" "op_status (the policy) = PolicyActive" "rrq_scenarioId input = None" by auto
      show ?case unfolding Let_def
      proof (intro if_cong refl, goal_cases)
        case 1
        show ?case by (simp add: runs_unavailable_def)
      next
        case 2
        show ?case using eligible
          by (simp add: Let_def run_snapshot_def forecast_snapshot_def policy_snapshot_json_def scenario_snapshot_def new_run_def toRun_def
              runs_unavailable_def input_uri_def coalesce_def run_status_text_def policy_status_text_def opt_text_def active ids_def cong: map_cong)
      qed
    qed
  qed
qed

theorem run_request_outcome_witness:
  "createRun sample_run_id True 7 sample_context sample_run_body ready_world = (Inr (toRun sample_row), stored_world\<lparr>rq_runs := [sample_row]\<rparr>)
   \<and> property (toRun sample_row) ''created_by_user_id'' = JStr ''u''"
proof -
  have ids: "lower_uuid sample_run_id" "sample_run_id \<notin> set (map (\<lambda>x. j_id (rr_job x)) (rq_runs ready_world))"
    by code_simp (simp add: sample_world_def)
  have who: "ctx_tenantId sample_context \<in> set (scw_tenants (rq_tables ready_world))"
    "option_check (\<lambda>u. (ctx_tenantId sample_context, u) \<in> set (scw_users (rq_tables ready_world))) (ctx_actorUserId sample_context)"
    and user: "opt_text (ctx_actorUserId sample_context) = JStr ''u''"
    by (simp_all add: sample_context_def createUserRequestContext_def option_check_def opt_text_def sample_world_def)
  have seed: "- (2 ^ 63) \<le> (7 :: int)" "(7 :: int) < 2 ^ 63" by simp_all
  note outcome = run_request_outcome [OF ready_reachable ids who seed, of True sample_run_body, unfolded sample_run_parsed sum.case Let_def]
  from outcome have "property (toRun sample_row) ''created_by_user_id'' = JStr ''u''"
    unfolding sample_run_created
    by (elim exE conjE) (drule answered [OF sym], drule sym, simp add: property_def json_prop_def user)
  with sample_run_created show ?thesis by simp
qed

text \<open>
  C15: A request that names a scenario never gets a run: it is answered with 404 or 409 in every reachable state
  (no operation makes a scenario ready), and no run names a scenario.
\<close>

theorem scenario_runs_refused:
  assumes "request_reachable date_parse sha256_hex jsonb jsonb_of w" and "parseOptimizerRunCreateBody body = Inr input"
    and "rrq_scenarioId input \<noteq> None"
  shows "createRun new_id put_ok seed context body w \<in> {(Inl run_not_found, w), (Inl run_input_invalid, w)}
    \<and> set (map (\<lambda>r. rc_scenarioId (rr_columns r)) (rq_runs w)) \<subseteq> {None}"
proof -
  have ok: "request_ok jsonb_of w" by (rule request_reachable_ok [OF assms(1)])
  have "inputs_now (ctx_tenantId context) input w \<in> {Inr None, Inl run_input_invalid}"
  proof (cases "inputs_now (ctx_tenantId context) input w")
    case (Inl e)
    with inputs_error [OF Inl] show ?thesis by simp
  next
    case (Inr r0)
    with resolved_facts(1) [OF _ read_inputs_said [OF ok, of "context" input]] assms(3) show ?thesis
      by (cases r0) (auto simp: resolved_now)
  qed
  then have "createRun new_id put_ok seed context body w \<in> {(Inl run_not_found, w), (Inl run_input_invalid, w)}"
    using assms(2) by (auto simp: createRun_def Let_def resolved_now begin_run_def run_safe_def run_input_invalid_def)
  moreover have "rc_scenarioId (rr_columns r) = None" if "r \<in> set (rq_runs w)" for r
    using ok that by (auto simp: request_ok_def run_said_def Let_def)
  ultimately show ?thesis by auto
qed

theorem scenario_runs_refused_witness:
  "createRun sample_run_id True 7 sample_context
     (JObj [(''forecast_run_id'', JStr sample_forecast_id), (''optimizer_policy_id'', JStr sample_policy_id),
            (''scenario_id'', JStr sample_run_id)]) ready_world \<in> {(Inl run_not_found, ready_world), (Inl run_input_invalid, ready_world)}"
proof -
  have "parseOptimizerRunCreateBody (JObj [(''forecast_run_id'', JStr sample_forecast_id), (''optimizer_policy_id'', JStr sample_policy_id),
      (''scenario_id'', JStr sample_run_id)]) = Inr (sample_request\<lparr>rrq_scenarioId := Some sample_run_id\<rparr>)" by code_simp
  from scenario_runs_refused [OF ready_reachable this] show ?thesis by simp
qed

end
