(* ===== verification/Forecast_Requests.thy ===== *)
theory Forecast_Requests
  imports Scenarios
begin

text \<open>
  Forecast models and requests for forecasts: core/forecasting/forecast-input.ts, forecast-service.ts and the
  part of forecast-repository.ts they call, over the tables of migrations 0014 and 0015 with their
  constraints and triggers. A model is inserted as a draft and activated in one transaction; a run is queued
  for a model of its tenant. The worker that takes the runs is theory Forecast_Worker.
\<close>

section \<open>Types\<close>

datatype model_status = ModelDraft | ModelActive | ModelArchived

definition model_status_text :: "model_status \<Rightarrow> string" where
  "model_status_text x = (case x of ModelDraft \<Rightarrow> ''draft'' | ModelActive \<Rightarrow> ''active'' | ModelArchived \<Rightarrow> ''archived'')"

record model_input =
  min_name :: string
  min_providerScope :: "string list"
  min_serviceScope :: "string list"
  min_horizonMonths :: int
  min_method :: string
  min_config :: "(string \<times> json) list"

record forecast_run_input =
  frn_forecastModelId :: string
  frn_inputWindowStart :: string
  frn_inputWindowEnd :: string
  frn_horizonMonths :: int
  frn_randomSeed :: string

record model_list_query =
  mlq_limit :: nat
  mlq_status :: "model_status option"
  mlq_method :: "string option"

record forecast_list_query =
  flq_limit :: nat
  flq_status :: "job_status option"
  flq_forecastModelId :: "string option"

section \<open>Input\<close>

definition providerScope :: "json \<Rightarrow> string list result" where
  "providerScope v = (if v = JArr [JStr ''aws''] then Inr [''aws''] else Inl invalid_request)"

definition serviceScope :: "json \<Rightarrow> string list result" where
  "serviceScope v =
     (case v of
        JArr vs \<Rightarrow>
          if length vs < 1 \<or> length vs > 100 then Inl invalid_request
          else bindR (traverseR (cleanText 1 128) vs) (\<lambda>values. if distinct values then Inr values else Inl invalid_request)
      | _ \<Rightarrow> Inl invalid_request)"

definition parseMethod :: "json \<Rightarrow> string result" where
  "parseMethod v = (if v = JStr ''seasonal_naive'' then Inr ''seasonal_naive'' else Inl invalid_request)"

definition HORIZONS :: "int list" where
  "HORIZONS = [1, 3, 6, 12, 24, 36]"

definition horizon :: "json \<Rightarrow> int result" where
  "horizon v = (case v of JInt i \<Rightarrow> if i \<in> set HORIZONS then Inr i else Inl invalid_request | _ \<Rightarrow> Inl invalid_request)"

definition parseModelStatus :: "json \<Rightarrow> model_status result" where
  "parseModelStatus v = bindR (string_input v)
     (\<lambda>s. orElse (find (\<lambda>x. model_status_text x = s) [ModelDraft, ModelActive, ModelArchived]) invalid_request)"

definition forecast_status_text :: "job_status \<Rightarrow> string" where
  "forecast_status_text s = (case s of Queued \<Rightarrow> ''queued'' | Running \<Rightarrow> ''running'' | Completed \<Rightarrow> ''completed'' | Failed \<Rightarrow> ''failed''
     | Cancelled \<Rightarrow> ''cancelled'' | Infeasible \<Rightarrow> ''infeasible'')"

definition parseRunStatus :: "json \<Rightarrow> job_status result" where
  "parseRunStatus v = bindR (string_input v)
     (\<lambda>s. orElse (find (\<lambda>x. forecast_status_text x = s) [Queued, Running, Completed, Failed, Cancelled]) invalid_request)"

text \<open>\<open>/^-?(?:0|[1-9][0-9]\{0,18\})$/u\<close>, the bounds of a \<open>bigint\<close>, and the text of the number.\<close>

definition signedBigint :: "json \<Rightarrow> string result" where
  "signedBigint v = bindR (string_input v) (\<lambda>s.
     let digits = (if s \<noteq> [] \<and> hd s = CHR ''-'' then tl s else s);
         parsed = (if s \<noteq> [] \<and> hd s = CHR ''-'' then - int (dec_val digits) else int (dec_val digits)) in
     if \<not> unsigned_integer_pattern digits then Inl invalid_request
     else if parsed < - 9223372036854775808 \<or> parsed > 9223372036854775807 then Inl invalid_request
     else Inr (show_int parsed))"

definition parseForecastModelCreateBody :: "json \<Rightarrow> model_input result" where
  "parseForecastModelCreateBody body =
     bindR (closedRecord body [''name'', ''provider_scope'', ''service_scope'', ''horizon_months'', ''method'', ''config'']) (\<lambda>kvs.
     bindR (parseMethod (json_prop kvs ''method'')) (\<lambda>method.
     bindR (cleanText 1 200 (json_prop kvs ''name'')) (\<lambda>name.
     bindR (providerScope (json_prop kvs ''provider_scope'')) (\<lambda>providers.
     bindR (serviceScope (json_prop kvs ''service_scope'')) (\<lambda>services.
     bindR (horizon (json_prop kvs ''horizon_months'')) (\<lambda>months.
     bindR (coverage (json_prop kvs ''config'')) (\<lambda>config.
     Inr \<lparr>min_name = name, min_providerScope = providers, min_serviceScope = services, min_horizonMonths = months,
       min_method = method, min_config = config\<rparr>)))))))"

definition parseForecastRunCreateBody :: "(string \<Rightarrow> int option) \<Rightarrow> json \<Rightarrow> int \<Rightarrow> forecast_run_input result" where
  "parseForecastRunCreateBody date_parse body defaultSeed =
     bindR (closedRecord body [''forecast_model_id'', ''input_window_start'', ''input_window_end'', ''horizon_months'', ''random_seed'']) (\<lambda>kvs.
     bindR (dateValue date_parse (json_prop kvs ''input_window_start'')) (\<lambda>start.
     bindR (dateValue date_parse (json_prop kvs ''input_window_end'')) (\<lambda>last_day.
     if last_day < start then Inl invalid_request
     else
       bindR (uuid_input (json_prop kvs ''forecast_model_id'')) (\<lambda>model.
       bindR (horizon (json_prop kvs ''horizon_months'')) (\<lambda>months.
       bindR (if json_prop kvs ''random_seed'' = JUndefined then Inr (show_int defaultSeed) else signedBigint (json_prop kvs ''random_seed'')) (\<lambda>seed.
       Inr \<lparr>frn_forecastModelId = model, frn_inputWindowStart = start, frn_inputWindowEnd = last_day, frn_horizonMonths = months,
         frn_randomSeed = seed\<rparr>))))))"

definition parseForecastModelListQuery :: "json \<Rightarrow> model_list_query result" where
  "parseForecastModelListQuery query =
     bindR (closedRecord query [''limit'', ''cursor'', ''status'', ''method'']) (\<lambda>kvs.
     bindR (parseLimit (json_prop kvs ''limit'')) (\<lambda>limit.
     bindR (given parseModelStatus (json_prop kvs ''status'')) (\<lambda>status.
     bindR (given parseMethod (json_prop kvs ''method'')) (\<lambda>method.
     Inr \<lparr>mlq_limit = limit, mlq_status = status, mlq_method = method\<rparr>))))"

definition parseForecastRunListQuery :: "json \<Rightarrow> forecast_list_query result" where
  "parseForecastRunListQuery query =
     bindR (closedRecord query [''limit'', ''cursor'', ''status'', ''forecast_model_id'']) (\<lambda>kvs.
     bindR (parseLimit (json_prop kvs ''limit'')) (\<lambda>limit.
     bindR (given parseRunStatus (json_prop kvs ''status'')) (\<lambda>status.
     bindR (given uuid_input (json_prop kvs ''forecast_model_id'')) (\<lambda>model.
     Inr \<lparr>flq_limit = limit, flq_status = status, flq_forecastModelId = model\<rparr>))))"

definition parseForecastId :: "json \<Rightarrow> string result" where
  "parseForecastId v = uuid_input v"

section \<open>The tables\<close>

record model_row =
  fm_id :: string
  fm_tenantId :: string
  fm_name :: string
  fm_providerScope :: "string list"
  fm_serviceScope :: "string list"
  fm_horizonMonths :: int
  fm_method :: string
  fm_config :: json
  fm_status :: model_status
  fm_createdByUserId :: "string option"
  fm_createdAt :: int
  fm_updatedAt :: int

record forecast_columns =
  fc_tenantId :: string
  fc_forecastModelId :: string
  fc_inputWindowStart :: string
  fc_inputWindowEnd :: string
  fc_horizonMonths :: int
  fc_randomSeed :: int
  fc_outputUri :: "string option"
  fc_qualityMetrics :: json
  fc_errorDetails :: json
  fc_updatedAt :: int

record forecasts_world =
  fq_tenants :: "string list"
  fq_users :: "(string \<times> string) list"
  fq_models :: "model_row list"
  fq_runs :: "forecast_columns job list"
  fq_now :: int

definition scope_canonical :: "nat \<Rightarrow> string list \<Rightarrow> bool" where
  "scope_canonical max_items values =
     (1 \<le> length values \<and> length values \<le> max_items \<and> distinct values \<and> list_all (clean_column 128) values)"

text \<open>\<open>array_to_string(scope, ',')\<close>.\<close>

fun joined :: "string list \<Rightarrow> string" where
  "joined [] = []"
| "joined [s] = s"
| "joined (s # t # ts) = s @ [CHR '',''] @ joined (t # ts)"

definition model_row_check :: "jsonb \<Rightarrow> model_row \<Rightarrow> bool" where
  "model_row_check jsonb_of m =
     (clean_column 200 (fm_name m)
      \<and> scope_canonical 3 (fm_providerScope m) \<and> set (fm_providerScope m) \<subseteq> {''aws'', ''azure'', ''gcp''}
      \<and> scope_canonical 100 (fm_serviceScope m) \<and> length (utf8_bytes (joined (fm_serviceScope m))) \<le> 8192
      \<and> fm_horizonMonths m \<in> set HORIZONS
      \<and> fm_method m \<in> {''seasonal_naive'', ''exponential_smoothing'', ''quantile_bootstrap'', ''scenario_override''}
      \<and> config_column jsonb_of (fm_config m) \<and> fm_createdAt m \<le> fm_updatedAt m)"

definition insert_model :: "jsonb \<Rightarrow> model_row \<Rightarrow> forecasts_world \<Rightarrow> forecasts_world result" where
  "insert_model jsonb_of m w =
     (if fm_status m \<noteq> ModelDraft \<or> \<not> model_row_check jsonb_of m then Inl (sqlstate ''23514'')
      else if \<exists>x\<in>set (fq_models w). fm_id x = fm_id m \<or> fm_tenantId x = fm_tenantId m \<and> fm_name x = fm_name m then Inl (sqlstate ''23505'')
      else if fm_tenantId m \<notin> set (fq_tenants w)
          \<or> \<not> option_check (\<lambda>u. (fm_tenantId m, u) \<in> set (fq_users w)) (fm_createdByUserId m) then Inl (sqlstate ''23503'')
      else Inr (w\<lparr>fq_models := fq_models w @ [m]\<rparr>))"

text \<open>\<open>UPDATE forecast_models SET status = 'active' WHERE id = $1\<close>.\<close>

definition activate_row :: "int \<Rightarrow> model_row \<Rightarrow> model_row result" where
  "activate_row now m = (if fm_status m = ModelDraft then Inr (m\<lparr>fm_status := ModelActive, fm_updatedAt := now\<rparr>) else Inl (sqlstate ''55000''))"

definition activate_model :: "string \<Rightarrow> forecasts_world \<Rightarrow> forecasts_world result" where
  "activate_model i w =
     bindR (traverseR (\<lambda>m. if fm_id m = i then activate_row (fq_now w) m else Inr m) (fq_models w)) (\<lambda>ms. Inr (w\<lparr>fq_models := ms\<rparr>))"

definition model_at :: "string \<Rightarrow> string \<Rightarrow> model_row \<Rightarrow> bool" where
  "model_at tenantId i m = (fm_tenantId m = tenantId \<and> fm_id m = i)"

definition get_model :: "string \<Rightarrow> string \<Rightarrow> forecasts_world \<Rightarrow> model_row option" where
  "get_model tenantId i w = find (model_at tenantId i) (fq_models w)"

definition forecast_row_check :: "forecast_columns job \<Rightarrow> bool" where
  "forecast_row_check r =
     (let c = j_data r in
      fc_inputWindowStart c \<le> fc_inputWindowEnd c \<and> fc_horizonMonths c \<in> set HORIZONS \<and> j_created_at r \<le> fc_updatedAt c)"

definition model_missing :: js_error where
  "model_missing = sqlstate ''23503 forecast_runs_tenant_model_fkey''"

definition insert_forecast :: "forecast_columns job \<Rightarrow> forecasts_world \<Rightarrow> forecasts_world result" where
  "insert_forecast r w =
     (let c = j_data r; model = get_model (fc_tenantId c) (fc_forecastModelId c) w in
      if j_status r \<noteq> Queued then Inl (sqlstate ''23514'')
      else if option_check (\<lambda>m. fm_status m = ModelActive) model = False then Inl (sqlstate ''55000'')
      else if \<not> forecast_row_check r then Inl (sqlstate ''23514'')
      else if \<exists>x\<in>set (fq_runs w). j_id x = j_id r then Inl (sqlstate ''23505'')
      else if fc_tenantId c \<notin> set (fq_tenants w) then Inl (sqlstate ''23503'')
      else if model = None then Inl model_missing
      else Inr (w\<lparr>fq_runs := fq_runs w @ [r]\<rparr>))"

section \<open>The repository\<close>

definition withTenantTransaction :: "string \<Rightarrow> (forecasts_world \<Rightarrow> ('a \<times> forecasts_world) result) \<Rightarrow> forecasts_world \<Rightarrow> 'a result \<times> forecasts_world" where
  "withTenantTransaction tenantId operation w =
     (if tenantId \<notin> set (fq_tenants w) then (Inl (Thrown ''Authenticated tenant vanished.''), w)
      else case operation w of Inl e \<Rightarrow> (Inl e, w) | Inr (x, w') \<Rightarrow> (Inr x, w'))"

definition draft_model :: "string \<Rightarrow> string \<Rightarrow> string option \<Rightarrow> model_input \<Rightarrow> json \<Rightarrow> int \<Rightarrow> model_row" where
  "draft_model new_id tenantId createdByUserId input config now =
     \<lparr>fm_id = new_id, fm_tenantId = tenantId, fm_name = min_name input, fm_providerScope = min_providerScope input,
      fm_serviceScope = min_serviceScope input, fm_horizonMonths = min_horizonMonths input, fm_method = min_method input,
      fm_config = config, fm_status = ModelDraft, fm_createdByUserId = createdByUserId, fm_createdAt = now, fm_updatedAt = now\<rparr>"

definition create_model :: "jsonb \<Rightarrow> string \<Rightarrow> string \<Rightarrow> string option \<Rightarrow> model_input \<Rightarrow> forecasts_world \<Rightarrow> (model_row \<times> forecasts_world) result" where
  "create_model jsonb_of new_id tenantId createdByUserId input w =
     bindR (jsonb_cast jsonb_of (min_config input)) (\<lambda>config.
     bindR (insert_model jsonb_of (draft_model new_id tenantId createdByUserId input config (fq_now w)) w) (\<lambda>w1.
     bindR (activate_model new_id w1) (\<lambda>w2.
     bindR (orElse (get_model tenantId new_id w2) (Thrown ''TypeError'')) (\<lambda>m. Inr (m, w2)))))"

definition model_key :: "model_row \<Rightarrow> boundary" where
  "model_key m = (micros_text (fm_createdAt m), fm_id m)"

definition list_models :: "(string \<Rightarrow> int option) \<Rightarrow> (string \<Rightarrow> string option) \<Rightarrow> string \<Rightarrow> model_list_query \<Rightarrow> boundary option
    \<Rightarrow> forecasts_world \<Rightarrow> model_row list result" where
  "list_models timestamptz_of uuid_of tenantId query cursor w =
     bindR (cast_boundary timestamptz_of uuid_of cursor) (\<lambda>b.
     Inr (keyset_query model_key b (mlq_limit query + 1)
       (filter (\<lambda>m. fm_tenantId m = tenantId \<and> given_is (mlq_status query) (fm_status m) \<and> given_is (mlq_method query) (fm_method m)) (fq_models w))))"

text \<open>\<open>$3::date\<close> refuses the year 0000, \<open>$6::bigint\<close> what does not fit.\<close>

definition forecast_casts :: "forecast_run_input \<Rightarrow> int result" where
  "forecast_casts input =
     (if date_cast_fails (frn_inputWindowStart input) \<or> date_cast_fails (frn_inputWindowEnd input) then Inl (sqlstate ''22008'')
      else bindR (bigintR (frn_randomSeed input)) (\<lambda>seed. if - (2 ^ 63) \<le> seed \<and> seed < 2 ^ 63 then Inr seed else Inl (sqlstate ''22003'')))"

definition queued_forecast :: "string \<Rightarrow> string \<Rightarrow> forecast_run_input \<Rightarrow> int \<Rightarrow> int \<Rightarrow> forecast_columns job" where
  "queued_forecast new_id tenantId input seed now =
     \<lparr>j_id = new_id, j_status = Queued, j_created_at = now, j_data =
       \<lparr>fc_tenantId = tenantId, fc_forecastModelId = frn_forecastModelId input, fc_inputWindowStart = frn_inputWindowStart input,
        fc_inputWindowEnd = frn_inputWindowEnd input, fc_horizonMonths = frn_horizonMonths input, fc_randomSeed = seed,
        fc_outputUri = None, fc_qualityMetrics = JObj [], fc_errorDetails = JObj [], fc_updatedAt = now\<rparr>\<rparr>"

definition forecast_run_at :: "string \<Rightarrow> string \<Rightarrow> forecast_columns job \<Rightarrow> bool" where
  "forecast_run_at tenantId i r = (fc_tenantId (j_data r) = tenantId \<and> j_id r = i)"

definition get_run :: "string \<Rightarrow> string \<Rightarrow> forecasts_world \<Rightarrow> forecast_columns job option" where
  "get_run tenantId i w = find (forecast_run_at tenantId i) (fq_runs w)"

definition create_forecast :: "string \<Rightarrow> string \<Rightarrow> forecast_run_input \<Rightarrow> forecasts_world \<Rightarrow> forecast_columns job option result \<times> forecasts_world" where
  "create_forecast new_id tenantId input w =
     (case bindR (forecast_casts input) (\<lambda>seed. insert_forecast (queued_forecast new_id tenantId input seed (fq_now w)) w) of
        Inl e \<Rightarrow> (if e = model_missing then Inr None else Inl e, w)
      | Inr w' \<Rightarrow> (Inr (get_run tenantId new_id w'), w'))"

definition forecast_key :: "forecast_columns job \<Rightarrow> boundary" where
  "forecast_key r = (micros_text (j_created_at r), j_id r)"

definition list_forecasts :: "(string \<Rightarrow> int option) \<Rightarrow> (string \<Rightarrow> string option) \<Rightarrow> string \<Rightarrow> forecast_list_query \<Rightarrow> boundary option
    \<Rightarrow> forecasts_world \<Rightarrow> forecast_columns job list result" where
  "list_forecasts timestamptz_of uuid_of tenantId query cursor w =
     bindR (cast_boundary timestamptz_of uuid_of cursor) (\<lambda>b.
     Inr (keyset_query forecast_key b (flq_limit query + 1)
       (filter (\<lambda>r. fc_tenantId (j_data r) = tenantId \<and> given_is (flq_status query) (j_status r)
          \<and> given_is (flq_forecastModelId query) (fc_forecastModelId (j_data r))) (fq_runs w))))"

section \<open>The service\<close>

definition forecasts_unavailable :: js_error where
  "forecasts_unavailable = AppError ''FORECASTS_UNAVAILABLE'' ''Forecasts are temporarily unavailable.'' 503"

definition forecast_not_found :: js_error where
  "forecast_not_found = AppError ''NOT_FOUND'' ''The requested resource was not found.'' 404"

definition forecast_safe :: "'a result \<Rightarrow> 'a result" where
  "forecast_safe r = (case r of Inl (Thrown _) \<Rightarrow> Inl forecasts_unavailable | _ \<Rightarrow> r)"

definition toModel :: "model_row \<Rightarrow> json" where
  "toModel m = JObj
     [(''id'', JStr (fm_id m)), (''name'', JStr (fm_name m)), (''provider_scope'', JArr (map JStr (fm_providerScope m))),
      (''service_scope'', JArr (map JStr (fm_serviceScope m))), (''horizon_months'', JInt (fm_horizonMonths m)),
      (''method'', JStr (fm_method m)), (''config'', fm_config m), (''status'', JStr (model_status_text (fm_status m))),
      (''created_by_user_id'', opt_text (fm_createdByUserId m)), (''created_at'', JStr (micros_text (fm_createdAt m))),
      (''updated_at'', JStr (micros_text (fm_updatedAt m)))]"

definition toForecastRun :: "forecast_columns job \<Rightarrow> json" where
  "toForecastRun r =
     (let c = j_data r in JObj
       [(''id'', JStr (j_id r)), (''forecast_model_id'', JStr (fc_forecastModelId c)), (''status'', JStr (forecast_status_text (j_status r))),
        (''input_window_start'', JStr (fc_inputWindowStart c)), (''input_window_end'', JStr (fc_inputWindowEnd c)),
        (''horizon_months'', JInt (fc_horizonMonths c)), (''random_seed'', JStr (show_int (fc_randomSeed c))),
        (''output_uri'', opt_text (fc_outputUri c)), (''quality_metrics'', fc_qualityMetrics c), (''error_details'', fc_errorDetails c),
        (''created_at'', JStr (micros_text (j_created_at r))), (''updated_at'', JStr (micros_text (fc_updatedAt c)))])"

definition createModel :: "jsonb \<Rightarrow> string \<Rightarrow> request_context \<Rightarrow> json \<Rightarrow> forecasts_world \<Rightarrow> json result \<times> forecasts_world" where
  "createModel jsonb_of new_id context body w =
     (case parseForecastModelCreateBody body of
        Inl e \<Rightarrow> (Inl e, w)
      | Inr input \<Rightarrow>
          (case withTenantTransaction (ctx_tenantId context) (create_model jsonb_of new_id (ctx_tenantId context) (ctx_actorUserId context) input) w of
             (r, w') \<Rightarrow> (bindR (forecast_safe r) (\<lambda>m. Inr (toModel m)), w')))"

definition cursorFrom :: "(string \<Rightarrow> json option) \<Rightarrow> json \<Rightarrow> boundary option result" where
  "cursorFrom parse_bytes query =
     (case property query ''cursor'' of JStr c \<Rightarrow> bindR (decodeForecastCursor parse_bytes c) (\<lambda>b. Inr (Some b)) | _ \<Rightarrow> Inr None)"

definition forecast_page :: "nat \<Rightarrow> ('r \<Rightarrow> boundary) \<Rightarrow> ('r \<Rightarrow> json) \<Rightarrow> 'r list \<Rightarrow> json list \<times> string option" where
  "forecast_page limit key to_json rows =
     (let selected = take limit rows in
      (map to_json selected,
       if length rows > limit \<and> selected \<noteq> [] then Some (encodeForecastCursor (fst (key (last selected))) (snd (key (last selected)))) else None))"

definition listModels :: "(string \<Rightarrow> json option) \<Rightarrow> (string \<Rightarrow> int option) \<Rightarrow> (string \<Rightarrow> string option) \<Rightarrow> request_context \<Rightarrow> json
    \<Rightarrow> forecasts_world \<Rightarrow> (json list \<times> string option) result" where
  "listModels parse_bytes timestamptz_of uuid_of context query w =
     bindR (parseForecastModelListQuery query) (\<lambda>parsed.
     bindR (cursorFrom parse_bytes query) (\<lambda>cursor.
     bindR (forecast_safe (list_models timestamptz_of uuid_of (ctx_tenantId context) parsed cursor w)) (\<lambda>rows.
     Inr (forecast_page (mlq_limit parsed) model_key toModel rows))))"

definition createForecast :: "(string \<Rightarrow> int option) \<Rightarrow> string \<Rightarrow> int \<Rightarrow> request_context \<Rightarrow> json \<Rightarrow> forecasts_world \<Rightarrow> json result \<times> forecasts_world" where
  "createForecast date_parse new_id defaultSeed context body w =
     (case parseForecastRunCreateBody date_parse body defaultSeed of
        Inl e \<Rightarrow> (Inl e, w)
      | Inr input \<Rightarrow>
          (case create_forecast new_id (ctx_tenantId context) input w of
             (r, w') \<Rightarrow> (bindR (forecast_safe r) (\<lambda>row. bindR (orElse row forecast_not_found) (\<lambda>x. Inr (toForecastRun x))), w')))"

definition listForecasts :: "(string \<Rightarrow> json option) \<Rightarrow> (string \<Rightarrow> int option) \<Rightarrow> (string \<Rightarrow> string option) \<Rightarrow> request_context \<Rightarrow> json
    \<Rightarrow> forecasts_world \<Rightarrow> (json list \<times> string option) result" where
  "listForecasts parse_bytes timestamptz_of uuid_of context query w =
     bindR (parseForecastRunListQuery query) (\<lambda>parsed.
     bindR (cursorFrom parse_bytes query) (\<lambda>cursor.
     bindR (forecast_safe (list_forecasts timestamptz_of uuid_of (ctx_tenantId context) parsed cursor w)) (\<lambda>rows.
     Inr (forecast_page (flq_limit parsed) forecast_key toForecastRun rows))))"

definition getForecast :: "request_context \<Rightarrow> json \<Rightarrow> forecasts_world \<Rightarrow> json result" where
  "getForecast context idValue w =
     bindR (parseForecastId idValue) (\<lambda>i.
     bindR (orElse (get_run (ctx_tenantId context) i w) forecast_not_found) (\<lambda>r. Inr (toForecastRun r)))"

text \<open>What the worker sees: a run with the scopes of its model, and the ids of the models.\<close>

definition worker_run :: "forecasts_world \<Rightarrow> forecast_columns job \<Rightarrow> forecast_data job" where
  "worker_run w r =
     (let c = j_data r; model = get_model (fc_tenantId c) (fc_forecastModelId c) w in
      \<lparr>j_id = j_id r, j_status = j_status r, j_created_at = j_created_at r, j_data =
        \<lparr>fd_run = \<lparr>fr_id = j_id r, fr_tenantId = fc_tenantId c, fr_forecastModelId = fc_forecastModelId c,
           fr_method = (case model of None \<Rightarrow> [] | Some m \<Rightarrow> fm_method m),
           fr_providerScope = (case model of None \<Rightarrow> [] | Some m \<Rightarrow> fm_providerScope m),
           fr_serviceScope = (case model of None \<Rightarrow> [] | Some m \<Rightarrow> fm_serviceScope m),
           fr_inputWindowStart = fc_inputWindowStart c, fr_inputWindowEnd = fc_inputWindowEnd c, fr_horizonMonths = nat (fc_horizonMonths c),
           fr_randomSeed = show_int (fc_randomSeed c)\<rparr>,
         fd_outputUri = fc_outputUri c, fd_qualityMetrics = fc_qualityMetrics c, fd_errorDetails = fc_errorDetails c\<rparr>\<rparr>)"

definition forecast_view :: "stored_line list \<Rightarrow> (string \<times> string) list \<Rightarrow> forecasts_world \<Rightarrow> forecast_world" where
  "forecast_view usage objects w =
     \<lparr>fw_runs = map (worker_run w) (fq_runs w), fw_models = map fm_id (fq_models w), fw_usage = usage, fw_objects = objects\<rparr>"

end
