(* ===== verification/Forecast_Request_Claims.thy ===== *)
theory Forecast_Request_Claims
  imports Forecast_Requests Optimizer_Policy_Claims Price_Table_Claims
begin

text \<open>
  Forecast models, requests for forecasts and the forecast worker on the same tables: every run has an active
  model, the worker's calls are steps of the tables, and a request is answered on every branch.
\<close>

section \<open>Steps\<close>

text \<open>The statements of the worker, as they change the columns.\<close>

definition claim_forecast :: "string \<Rightarrow> forecasts_world \<Rightarrow> forecasts_world" where
  "claim_forecast jid w = w\<lparr>fq_runs := update_job jid Queued Running (\<lambda>d. d\<lparr>fc_updatedAt := fq_now w\<rparr>) (fq_runs w)\<rparr>"

definition complete_forecast :: "string \<Rightarrow> string \<Rightarrow> json \<Rightarrow> forecasts_world \<Rightarrow> forecasts_world" where
  "complete_forecast jid uri metrics w = w\<lparr>fq_runs := update_job jid Running Completed
     (\<lambda>d. d\<lparr>fc_outputUri := Some uri, fc_qualityMetrics := metrics, fc_errorDetails := JObj [], fc_updatedAt := fq_now w\<rparr>) (fq_runs w)\<rparr>"

definition fail_forecast :: "string \<Rightarrow> string \<Rightarrow> forecasts_world \<Rightarrow> forecasts_world" where
  "fail_forecast jid error_code w = w\<lparr>fq_runs := update_job jid Running Failed
     (\<lambda>d. d\<lparr>fc_outputUri := None, fc_qualityMetrics := JObj [], fc_errorDetails := JObj [(''code'', JStr error_code)], fc_updatedAt := fq_now w\<rparr>) (fq_runs w)\<rparr>"

inductive forecast_step :: "(string \<Rightarrow> int option) \<Rightarrow> jsonb \<Rightarrow> forecasts_world \<Rightarrow> forecasts_world \<Rightarrow> bool" for date_parse jsonb_of where
  model_created: "forecast_step date_parse jsonb_of w (snd (createModel jsonb_of new_id context body w))"
| forecast_requested: "forecast_step date_parse jsonb_of w (snd (createForecast date_parse new_id seed context body w))"
| forecast_taken: "forecast_step date_parse jsonb_of w (claim_forecast jid w)"
| forecast_done: "forecast_step date_parse jsonb_of w (complete_forecast jid uri metrics w)"
| forecast_given_up: "forecast_step date_parse jsonb_of w (fail_forecast jid error_code w)"
| forecast_account: "forecast_step date_parse jsonb_of w (w\<lparr>fq_tenants := tenants @ fq_tenants w, fq_users := users @ fq_users w\<rparr>)"
| forecast_tick: "forecast_step date_parse jsonb_of w (w\<lparr>fq_now := fq_now w + int d\<rparr>)"

inductive forecast_reachable :: "(string \<Rightarrow> int option) \<Rightarrow> jsonb \<Rightarrow> forecasts_world \<Rightarrow> bool" for date_parse jsonb_of where
  forecast_start: "fq_models w = [] \<Longrightarrow> fq_runs w = [] \<Longrightarrow> forecast_reachable date_parse jsonb_of w"
| forecast_next: "forecast_reachable date_parse jsonb_of w \<Longrightarrow> forecast_step date_parse jsonb_of w w' \<Longrightarrow> forecast_reachable date_parse jsonb_of w'"

section \<open>Parsed values\<close>

lemma horizon_range: "horizon v = Inr i \<Longrightarrow> i \<in> set HORIZONS"
  by (auto simp: horizon_def split: json.splits if_splits)

lemma signedBigint_range: "signedBigint v = Inr t \<Longrightarrow> \<exists>n. t = show_int n \<and> - (2 ^ 63) \<le> n \<and> n < 2 ^ 63"
  by (auto simp: signedBigint_def bindR_eq_Inr Let_def split: if_splits)

lemma parsed_model:
  assumes "parseForecastModelCreateBody body = Inr input"
  shows "min_providerScope input = [''aws'']" and "min_method input = ''seasonal_naive''" and "min_horizonMonths input \<in> set HORIZONS"
    and "min_serviceScope input \<noteq> []" and "clean_column 200 (min_name input)"
  using assms
  by (auto simp: parseForecastModelCreateBody_def bindR_eq_Inr providerScope_def parseMethod_def serviceScope_def
      intro: horizon_range cleanText_clean split: if_splits json.splits dest!: traverseR_length)

lemma parsed_seed:
  assumes "parseForecastRunCreateBody date_parse body seed = Inr input" and "- (2 ^ 63) \<le> seed" and "seed < 2 ^ 63"
  shows "\<exists>n. frn_randomSeed input = show_int n \<and> - (2 ^ 63) \<le> n \<and> n < 2 ^ 63"
  using assms by (auto simp: parseForecastRunCreateBody_def bindR_eq_Inr split: if_splits dest!: signedBigint_range)

lemma parsed_window:
  assumes "parseForecastRunCreateBody date_parse body seed = Inr input"
  shows "frn_inputWindowStart input \<le> frn_inputWindowEnd input" and "frn_horizonMonths input \<in> set HORIZONS"
  using assms
  by (auto simp: parseForecastRunCreateBody_def bindR_eq_Inr not_less intro: horizon_range split: if_splits)

lemma refusing_horizon [refusal]: "refusing (horizon v)" "refusing (signedBigint v)" "refusing (uuid_input v)"
  unfolding signedBigint_def Let_def uuid_input_def by (auto simp: horizon_def split: json.splits intro!: refusal)

lemma refusing_forecast_body: "refusing (parseForecastRunCreateBody date_parse body seed)"
  unfolding parseForecastRunCreateBody_def by (intro refusal)

section \<open>The invariant\<close>

definition model_sound :: "model_row \<Rightarrow> bool" where
  "model_sound m = (fm_status m = ModelActive \<and> fm_providerScope m = [''aws''] \<and> fm_method m = ''seasonal_naive''
     \<and> fm_serviceScope m \<noteq> [] \<and> fm_horizonMonths m \<in> set HORIZONS)"

definition run_of_model :: "model_row \<Rightarrow> forecast_columns \<Rightarrow> bool" where
  "run_of_model m c = (model_at (fc_tenantId c) (fc_forecastModelId c) m \<and> fc_inputWindowStart c \<le> fc_inputWindowEnd c
     \<and> fc_horizonMonths c \<in> set HORIZONS)"

definition forecasts_ok :: "forecasts_world \<Rightarrow> bool" where
  "forecasts_ok w =
     (distinct (map fm_id (fq_models w)) \<and> unique_ids (fq_runs w) \<and> (\<forall>m\<in>set (fq_models w). model_sound m)
      \<and> (\<forall>r\<in>set (fq_runs w). \<exists>m\<in>set (fq_models w). run_of_model m (j_data r)))"

lemma distinct_find: "distinct (map k xs) \<Longrightarrow> x \<in> set xs \<Longrightarrow> P x \<Longrightarrow> (\<And>y. P y \<Longrightarrow> k y = k x) \<Longrightarrow> find P xs = Some x"
proof (induction xs)
  case (Cons y ys)
  show ?case
  proof (cases "x = y")
    case False
    with Cons.prems(1,2) have "k x \<noteq> k y" by (auto simp: image_iff)
    with Cons.prems(4) have "\<not> P y" by metis
    then have "find P (y # ys) = find P ys" by simp
    also have "\<dots> = Some x" using Cons.prems(1,2) False by (intro Cons.IH [OF _ _ Cons.prems(3,4)]) auto
    finally show ?thesis .
  qed (use Cons.prems(3) in simp)
qed simp

lemma get_model_ok: "forecasts_ok w \<Longrightarrow> m \<in> set (fq_models w) \<Longrightarrow> model_at t i m \<Longrightarrow> get_model t i w = Some m"
  unfolding get_model_def by (rule distinct_find [of fm_id]) (auto simp: forecasts_ok_def model_at_def)

lemma get_model_in: "get_model t i w = Some m \<Longrightarrow> m \<in> set (fq_models w) \<and> model_at t i m"
  by (auto simp: get_model_def find_Some_iff)

text \<open>A worker's statement changes no column that says what is forecast.\<close>

lemma forecasts_ok_update:
  assumes "forecasts_ok w" and "\<And>d m. run_of_model m (f d) = run_of_model m d"
  shows "forecasts_ok (w\<lparr>fq_runs := update_job jid guard status f (fq_runs w)\<rparr>)"
  using assms by (auto simp: forecasts_ok_def) (auto simp: update_job_def)

lemma activate_all:
  assumes "\<forall>m\<in>set ms. fm_id m \<noteq> i" and "fm_id d = i" and "fm_status d = ModelDraft"
  shows "traverseR (\<lambda>m. if fm_id m = i then activate_row now m else Inr m) (ms @ [d]) = Inr (ms @ [d\<lparr>fm_status := ModelActive, fm_updatedAt := now\<rparr>])"
  using assms by (induction ms) (auto simp: activate_row_def)

lemma create_model_effect:
  assumes "create_model jsonb_of new_id t u input w = Inr (m, w')"
  shows "\<exists>config. m = (draft_model new_id t u input config (fq_now w))\<lparr>fm_status := ModelActive\<rparr>
    \<and> w' = w\<lparr>fq_models := fq_models w @ [m]\<rparr> \<and> (\<forall>x\<in>set (fq_models w). fm_id x \<noteq> new_id \<and> \<not> (fm_tenantId x = t \<and> fm_name x = min_name input))"
proof -
  from assms obtain config w1 w2 where c: "insert_model jsonb_of (draft_model new_id t u input config (fq_now w)) w = Inr w1"
    and a: "activate_model new_id w1 = Inr w2" and g: "get_model t new_id w2 = Some m" and w': "w' = w2"
    by (auto simp: create_model_def bindR_eq_Inr)
  let ?d = "draft_model new_id t u input config (fq_now w)"
  from c have w1: "w1 = w\<lparr>fq_models := fq_models w @ [?d]\<rparr>" and fresh: "\<forall>x\<in>set (fq_models w). fm_id x \<noteq> new_id"
      "\<forall>x\<in>set (fq_models w). \<not> (fm_tenantId x = t \<and> fm_name x = min_name input)"
    by (auto simp: insert_model_def draft_model_def split: if_splits)
  have d: "fm_id ?d = new_id" "fm_status ?d = ModelDraft" "?d\<lparr>fm_status := ModelActive, fm_updatedAt := fq_now w\<rparr> = ?d\<lparr>fm_status := ModelActive\<rparr>"
    by (simp_all add: draft_model_def)
  have w2: "w2 = w\<lparr>fq_models := fq_models w @ [?d\<lparr>fm_status := ModelActive\<rparr>]\<rparr>"
    using a activate_all [OF fresh(1) d(1,2), of "fq_now w"] d(3) by (auto simp: activate_model_def w1 cong: if_cong)
  have "find (model_at t new_id) (fq_models w) = None" using fresh(1) by (auto simp: find_None_iff model_at_def)
  with g have "m = ?d\<lparr>fm_status := ModelActive\<rparr>"
    by (auto simp: w2 get_model_def find_snoc split: if_splits)
  with w' w2 fresh show ?thesis by blast
qed

lemma insert_forecast_effect:
  assumes "insert_forecast r w = Inr w'"
  shows "w' = w\<lparr>fq_runs := fq_runs w @ [r]\<rparr> \<and> (\<forall>x\<in>set (fq_runs w). j_id x \<noteq> j_id r)
    \<and> (\<exists>m\<in>set (fq_models w). run_of_model m (j_data r))"
  using assms get_model_in [of "fc_tenantId (j_data r)" "fc_forecastModelId (j_data r)" w]
  by (auto simp: insert_forecast_def forecast_row_check_def run_of_model_def Let_def split: if_splits)

lemma forecast_step_ok:
  assumes "forecast_step date_parse jsonb_of w w'" and ok: "forecasts_ok w"
  shows "forecasts_ok w'"
  using assms(1)
proof cases
  case (model_created new_id ctx body)
  show ?thesis
  proof (cases "\<exists>input m v. parseForecastModelCreateBody body = Inr input
      \<and> create_model jsonb_of new_id (ctx_tenantId ctx) (ctx_actorUserId ctx) input w = Inr (m, v) \<and> w' = v")
    case False
    then have "w' = w"
      by (auto simp: model_created createModel_def withTenantTransaction_def split: sum.splits if_splits)
    then show ?thesis using ok by simp
  next
    case True
    then obtain input m v where p: "parseForecastModelCreateBody body = Inr input" and w': "w' = v"
      and c: "create_model jsonb_of new_id (ctx_tenantId ctx) (ctx_actorUserId ctx) input w = Inr (m, v)" by blast
    from create_model_effect [OF c] obtain config where m: "m = (draft_model new_id (ctx_tenantId ctx) (ctx_actorUserId ctx) input config (fq_now w))\<lparr>fm_status := ModelActive\<rparr>"
      and v: "v = w\<lparr>fq_models := fq_models w @ [m]\<rparr>" and fresh: "\<forall>x\<in>set (fq_models w). fm_id x \<noteq> new_id" by blast
    have "model_sound m" using parsed_model [OF p] by (simp add: m draft_model_def model_sound_def)
    moreover have "fm_id m \<notin> fm_id ` set (fq_models w)" using fresh by (auto simp: m draft_model_def)
    ultimately show ?thesis using ok by (auto simp: w' v forecasts_ok_def)
  qed
next
  case (forecast_requested new_id seed ctx body)
  then consider "w' = w" | r where "insert_forecast r w = Inr w'"
    by (auto simp: createForecast_def create_forecast_def bindR_eq_Inr split: sum.splits)
  then show ?thesis
  proof cases
    case 2
    from insert_forecast_effect [OF 2] ok show ?thesis by (auto simp: forecasts_ok_def unique_ids_def)
  qed (use ok in simp)
qed (auto simp: claim_forecast_def complete_forecast_def fail_forecast_def run_of_model_def ok intro!: forecasts_ok_update,
  use ok in \<open>simp_all add: forecasts_ok_def\<close>)

lemma forecast_reachable_ok: "forecast_reachable date_parse jsonb_of w \<Longrightarrow> forecasts_ok w"
proof (induction rule: forecast_reachable.induct)
  case (forecast_start w)
  then show ?case by (simp add: forecasts_ok_def unique_ids_def)
next
  case (forecast_next w w')
  then show ?case using forecast_step_ok by blast
qed

section \<open>The worker on the tables\<close>

text \<open>A queue seen through a map that keeps identity, status and age of the jobs.\<close>

locale job_view =
  fixes view :: "'d job \<Rightarrow> 'e job"
  assumes view_keeps: "j_id (view j) = j_id j" "j_status (view j) = j_status j" "j_created_at (view j) = j_created_at j"
begin

lemma view_order: "queue_order (view a) (view b) = queue_order a b"
  by (simp add: queue_order_def view_keeps)

lemma view_insert: "js_insert queue_order (view x) (map view xs) = map view (js_insert queue_order x xs)"
  by (induction xs) (simp_all add: view_order)

lemma view_sort: "js_sort queue_order (map view xs) = map view (js_sort queue_order xs)"
  by (induction xs) (simp_all add: view_insert)

lemma view_find: "find_job (map view xs) i = map_option view (find_job xs i)"
  by (induction xs) (simp_all add: find_job_def view_keeps)

lemma view_update:
  assumes "\<And>j. view (j\<lparr>j_status := status, j_data := f (j_data j)\<rparr>) = (view j)\<lparr>j_status := status, j_data := g (j_data (view j))\<rparr>"
  shows "map view (update_job i guard status f xs) = update_job i guard status g (map view xs)"
  using assms by (simp add: update_job_def view_keeps)

text \<open>The oldest job of the view is the view of the oldest job, whatever else the claim writes.\<close>

lemma view_claim:
  assumes "\<And>j. view (j\<lparr>j_status := Running, j_data := f (j_data j)\<rparr>) = (view j)\<lparr>j_status := Running\<rparr>" and "unique_ids xs"
  shows "case js_sort queue_order (filter (\<lambda>j. j_status j = Queued) xs) of
      [] \<Rightarrow> claim_next (map view xs) = (None, map view xs)
    | r # _ \<Rightarrow> claim_next (map view xs) = (Some ((view r)\<lparr>j_status := Running\<rparr>), map view (update_job (j_id r) Queued Running f xs))"
proof (cases "js_sort queue_order (filter (\<lambda>j. j_status j = Queued) xs)")
  case (Cons r rs)
  then have "r \<in> set (js_sort queue_order (filter (\<lambda>j. j_status j = Queued) xs))" by simp
  then have r: "r \<in> set xs" "j_status r = Queued" by simp_all
  have "map view (update_job (j_id r) Queued Running f xs) = update_job (j_id r) Queued Running (\<lambda>d. d) (map view xs)"
    using assms(1) by (intro view_update) (simp add: job.simps)
  moreover have "find_job (map view xs) (j_id r) = Some (view r)" using find_job_unique [OF assms(2) r(1)] by (simp add: view_find)
  ultimately show ?thesis using Cons r
    by (simp add: claim_next_def filter_map comp_def view_keeps view_sort find_job_update Let_def)
qed (simp add: claim_next_def filter_map comp_def view_keeps view_sort)

end

lemma worker_run_runs [simp]: "worker_run (w\<lparr>fq_runs := rs\<rparr>) = worker_run w"
  by (rule ext) (simp add: worker_run_def get_model_def)

interpretation wv: job_view "worker_run w" for w
  by unfold_locales (simp_all add: worker_run_def Let_def)

lemma claim_on_tables:
  assumes "forecasts_ok w"
  shows "case js_sort queue_order (filter (\<lambda>r. j_status r = Queued) (fq_runs w)) of
      [] \<Rightarrow> claimNextQueuedRun (forecast_view usage objects w) = (Inr None, forecast_view usage objects w)
    | r # _ \<Rightarrow> claimNextQueuedRun (forecast_view usage objects w)
        = (Inr (Some ((worker_run w r)\<lparr>j_status := Running\<rparr>)), forecast_view usage objects (claim_forecast (j_id r) w))"
proof -
  have u: "unique_ids (fq_runs w)" using assms by (simp add: forecasts_ok_def)
  have "worker_run w (j\<lparr>j_status := Running, j_data := j_data j\<lparr>fc_updatedAt := fq_now w\<rparr>\<rparr>) = (worker_run w j)\<lparr>j_status := Running\<rparr>" for j
    by (simp add: worker_run_def Let_def)
  note c = wv.view_claim [where w = w and f = "\<lambda>d. d\<lparr>fc_updatedAt := fq_now w\<rparr>", OF this u]
  show ?thesis
  proof (cases "js_sort queue_order (filter (\<lambda>r. j_status r = Queued) (fq_runs w))")
    case (Cons r rs)
    then have "r \<in> set (js_sort queue_order (filter (\<lambda>j. j_status j = Queued) (fq_runs w)))" by simp
    then have "r \<in> set (fq_runs w)" by simp
    with assms obtain m where "m \<in> set (fq_models w)" "model_at (fc_tenantId (j_data r)) (fc_forecastModelId (j_data r)) m"
      by (auto simp: forecasts_ok_def run_of_model_def)
    then have "fc_forecastModelId (j_data r) \<in> fm_id ` set (fq_models w)" by (metis imageI model_at_def)
    moreover have "fr_forecastModelId (fd_run (j_data (worker_run w r))) = fc_forecastModelId (j_data r)" by (simp add: worker_run_def Let_def)
    ultimately show ?thesis using c Cons by (simp add: claimNextQueuedRun_def forecast_view_def claim_forecast_def)
  qed (use c in \<open>simp add: claimNextQueuedRun_def forecast_view_def\<close>)
qed

lemma complete_on_tables:
  "snd (completeRun jid uri metrics (forecast_view usage objects w)) = forecast_view usage objects (complete_forecast jid uri metrics w)"
  by (simp add: completeRun_def forecast_view_def complete_forecast_def) (rule wv.view_update [symmetric], simp add: worker_run_def Let_def)

lemma fail_on_tables:
  "snd (failRun jid error_code (forecast_view usage objects w)) = forecast_view usage objects (fail_forecast jid error_code w)"
  by (simp add: failRun_def forecast_view_def fail_forecast_def) (rule wv.view_update [symmetric], simp add: worker_run_def Let_def)

section \<open>The outcome of a request\<close>

lemma forecast_outcome:
  assumes reach: "forecast_reachable date_parse jsonb_of w" and seed: "- (2 ^ 63) \<le> seed" "seed < 2 ^ 63"
    and fresh: "new_id \<notin> j_id ` set (fq_runs w)" and p: "parseForecastRunCreateBody date_parse body seed = Inr input"
  shows "createForecast date_parse new_id seed context body w =
    (let t = ctx_tenantId context; row = queued_forecast new_id t input (bigint (frn_randomSeed input)) (fq_now w) in
     if date_cast_fails (frn_inputWindowStart input) \<or> date_cast_fails (frn_inputWindowEnd input) \<or> t \<notin> set (fq_tenants w)
     then (Inl forecasts_unavailable, w)
     else if get_model t (frn_forecastModelId input) w = None then (Inl forecast_not_found, w)
     else (Inr (toForecastRun row), w\<lparr>fq_runs := fq_runs w @ [row]\<rparr>))"
proof -
  from parsed_seed [OF p seed] obtain n where n: "frn_randomSeed input = show_int n" "- (2 ^ 63) \<le> n" "n < 2 ^ 63" by blast
  define t where "t = ctx_tenantId context"
  define row where "row = queued_forecast new_id t input n (fq_now w)"
  define model where "model = get_model t (frn_forecastModelId input) w"
  have row: "j_id row = new_id" "j_status row = Queued" "fc_tenantId (j_data row) = t" "fc_forecastModelId (j_data row) = frn_forecastModelId input"
      "j_created_at row = fq_now w" "fc_updatedAt (j_data row) = fq_now w" "fc_inputWindowStart (j_data row) = frn_inputWindowStart input"
      "fc_inputWindowEnd (j_data row) = frn_inputWindowEnd input" "fc_horizonMonths (j_data row) = frn_horizonMonths input"
    by (simp_all add: row_def queued_forecast_def)
  have active: "option_check (\<lambda>m. fm_status m = ModelActive) model"
    using forecast_reachable_ok [OF reach] get_model_in [of t "frn_forecastModelId input" w]
    by (cases model) (auto simp: model_def option_check_def forecasts_ok_def model_sound_def)
  have "forecast_row_check row" using parsed_window [OF p] by (simp add: forecast_row_check_def row Let_def)
  with active fresh have insert: "insert_forecast row w =
      (if t \<notin> set (fq_tenants w) then Inl (sqlstate ''23503'') else if model = None then Inl model_missing else Inr (w\<lparr>fq_runs := fq_runs w @ [row]\<rparr>))"
    by (auto simp: insert_forecast_def row model_def Let_def)
  have "find (forecast_run_at t new_id) (fq_runs w) = None" using fresh by (auto simp: find_None_iff forecast_run_at_def)
  then have get: "get_run t new_id (w\<lparr>fq_runs := fq_runs w @ [row]\<rparr>) = Some row" by (simp add: get_run_def find_snoc forecast_run_at_def row)
  have casts: "forecast_casts input = (if date_cast_fails (frn_inputWindowStart input) \<or> date_cast_fails (frn_inputWindowEnd input)
      then Inl (sqlstate ''22008'') else Inr n)" using n by (simp add: forecast_casts_def)
  have seed_value: "bigint (frn_randomSeed input) = n" by (simp add: n)
  have differ: "sqlstate ''22008'' \<noteq> model_missing" "sqlstate ''23503'' \<noteq> model_missing"
    by (simp_all add: model_missing_def sqlstate_def)
  have "create_forecast new_id t input w =
      (if date_cast_fails (frn_inputWindowStart input) \<or> date_cast_fails (frn_inputWindowEnd input) then (Inl (sqlstate ''22008''), w)
       else if t \<notin> set (fq_tenants w) then (Inl (sqlstate ''23503''), w)
       else if model = None then (Inr None, w) else (Inr (Some row), w\<lparr>fq_runs := fq_runs w @ [row]\<rparr>))"
    using differ by (simp add: create_forecast_def casts insert get flip: row_def)
  then show ?thesis using p
    by (simp add: createForecast_def seed_value forecast_safe_def sqlstate_def Let_def flip: t_def row_def model_def)
qed

section \<open>A sample\<close>

definition sample_model_id :: string where
  "sample_model_id = ''00000000-0000-4000-8000-000000000005''"

definition sample_model_body :: json where
  "sample_model_body = JObj [(''name'', JStr ''base''), (''provider_scope'', JArr [JStr ''aws'']), (''service_scope'', JArr [JStr ''AmazonEC2'']),
     (''horizon_months'', JInt 12), (''method'', JStr ''seasonal_naive''), (''config'', JObj [])]"

definition sample_forecast_body :: json where
  "sample_forecast_body = JObj [(''forecast_model_id'', JStr sample_model_id), (''input_window_start'', JStr ''2026-07-01''),
     (''input_window_end'', JStr ''2026-07-01''), (''horizon_months'', JInt 3), (''random_seed'', JStr ''-5'')]"

definition sample_model :: model_row where
  "sample_model = \<lparr>fm_id = sample_model_id, fm_tenantId = ''t'', fm_name = ''base'', fm_providerScope = [''aws''], fm_serviceScope = [''AmazonEC2''],
     fm_horizonMonths = 12, fm_method = ''seasonal_naive'', fm_config = JObj [], fm_status = ModelActive, fm_createdByUserId = Some ''u'',
     fm_createdAt = 9, fm_updatedAt = 9\<rparr>"

definition sample_columns :: forecast_columns where
  "sample_columns = \<lparr>fc_tenantId = ''t'', fc_forecastModelId = sample_model_id, fc_inputWindowStart = ''2026-07-01'', fc_inputWindowEnd = ''2026-07-01'',
     fc_horizonMonths = 3, fc_randomSeed = - 5, fc_outputUri = None, fc_qualityMetrics = JObj [], fc_errorDetails = JObj [], fc_updatedAt = 9\<rparr>"

definition sample_forecast_row :: "forecast_columns job" where
  "sample_forecast_row = \<lparr>j_id = ''r'', j_status = Queued, j_created_at = 9, j_data = sample_columns\<rparr>"

definition forecast_tables :: "model_row list \<Rightarrow> forecast_columns job list \<Rightarrow> forecasts_world" where
  "forecast_tables models runs = \<lparr>fq_tenants = [''t''], fq_users = [(''t'', ''u'')], fq_models = models, fq_runs = runs, fq_now = 9\<rparr>"

definition sample_analyst :: request_context where
  "sample_analyst = createUserRequestContext ''t'' ''u'' FinopsAnalyst ''q''"

lemma sample_model_created:
  "snd (createModel sample_jsonb sample_model_id sample_analyst sample_model_body (forecast_tables [] [])) = forecast_tables [sample_model] []"
  by code_simp

lemma sample_forecast_parsed: "parseForecastRunCreateBody sample_dates sample_forecast_body 7 = Inr \<lparr>frn_forecastModelId = sample_model_id,
    frn_inputWindowStart = ''2026-07-01'', frn_inputWindowEnd = ''2026-07-01'', frn_horizonMonths = 3, frn_randomSeed = ''-5''\<rparr>"
  by code_simp

lemma sample_forecast_created:
  "createForecast sample_dates ''r'' 7 sample_analyst sample_forecast_body (forecast_tables [sample_model] [])
    = (Inr (toForecastRun sample_forecast_row), forecast_tables [sample_model] [sample_forecast_row])"
  by code_simp

lemma sample_model_reachable: "forecast_reachable sample_dates sample_jsonb (forecast_tables [sample_model] [])"
proof -
  have "forecast_reachable sample_dates sample_jsonb (forecast_tables [] [])" by (rule forecast_start) (simp_all add: forecast_tables_def)
  from forecast_next [OF this model_created] sample_model_created show ?thesis by metis
qed

lemma sample_forecast_reachable: "forecast_reachable sample_dates sample_jsonb (forecast_tables [sample_model] [sample_forecast_row])"
  using forecast_next [OF sample_model_reachable forecast_requested] sample_forecast_created by (metis snd_conv)

section \<open>Properties\<close>

text \<open>
  C16: The worker and the requests share the tables of models and runs, and in every reachable state a claim
  serves the queue: when a run is queued, the claim returns the oldest one, with the scopes of the active
  model it was requested for, so that no run is left running because its model is missing; when none is
  queued it returns nothing and changes nothing. Every statement of the worker (claim, completion, failure)
  has the effect of a step of the tables that leaves all models and requested inputs as they were.
\<close>

theorem forecast_worker_on_tables:
  assumes "forecast_reachable date_parse jsonb_of w"
  shows "(case fst (claimNextQueuedRun (forecast_view usage objects w)) of
      Inl e \<Rightarrow> False
    | Inr None \<Rightarrow> (\<forall>r\<in>set (fq_runs w). j_status r \<noteq> Queued)
        \<and> snd (claimNextQueuedRun (forecast_view usage objects w)) = forecast_view usage objects w
    | Inr (Some job) \<Rightarrow> (\<exists>r\<in>set (fq_runs w). \<exists>m\<in>set (fq_models w). j_status r = Queued
        \<and> (\<forall>x\<in>set (fq_runs w). j_status x = Queued \<longrightarrow> j_created_at r \<le> j_created_at x)
        \<and> j_id job = j_id r \<and> j_status job = Running \<and> fm_status m = ModelActive
        \<and> fd_run (j_data job) = \<lparr>fr_id = j_id r, fr_tenantId = fm_tenantId m, fr_forecastModelId = fm_id m, fr_method = ''seasonal_naive'',
             fr_providerScope = [''aws''], fr_serviceScope = fm_serviceScope m, fr_inputWindowStart = fc_inputWindowStart (j_data r),
             fr_inputWindowEnd = fc_inputWindowEnd (j_data r), fr_horizonMonths = nat (fc_horizonMonths (j_data r)),
             fr_randomSeed = show_int (fc_randomSeed (j_data r))\<rparr>
        \<and> fc_inputWindowStart (j_data r) \<le> fc_inputWindowEnd (j_data r) \<and> nat (fc_horizonMonths (j_data r)) \<in> {1, 3, 6, 12, 24, 36}
        \<and> snd (claimNextQueuedRun (forecast_view usage objects w)) = forecast_view usage objects (claim_forecast (j_id r) w)))
    \<and> snd (completeRun jid uri metrics (forecast_view usage objects w)) = forecast_view usage objects (complete_forecast jid uri metrics w)
    \<and> snd (failRun jid error_code (forecast_view usage objects w)) = forecast_view usage objects (fail_forecast jid error_code w)
    \<and> forecast_reachable date_parse jsonb_of (claim_forecast jid w) \<and> forecast_reachable date_parse jsonb_of (complete_forecast jid uri metrics w)
    \<and> forecast_reachable date_parse jsonb_of (fail_forecast jid error_code w)"
proof -
  have ok: "forecasts_ok w" by (rule forecast_reachable_ok [OF assms])
  note steps = forecast_next [OF assms forecast_taken] forecast_next [OF assms forecast_done] forecast_next [OF assms forecast_given_up]
  note claim = claim_on_tables [OF ok, of usage objects]
  let ?queue = "js_sort queue_order (filter (\<lambda>r. j_status r = Queued) (fq_runs w))"
  show ?thesis
  proof (cases ?queue)
    case Nil
    then have "filter (\<lambda>r. j_status r = Queued) (fq_runs w) = []" by (metis length_0_conv length_js_sort)
    then have "\<forall>r\<in>set (fq_runs w). j_status r \<noteq> Queued" by (simp add: filter_empty_conv)
    with Nil claim steps show ?thesis by (simp add: complete_on_tables fail_on_tables)
  next
    case (Cons r rs)
    then have "r \<in> set ?queue" by simp
    then have r: "r \<in> set (fq_runs w)" "j_status r = Queued" by simp_all
    have "\<forall>x\<in>set (fq_runs w). j_status x = Queued \<longrightarrow> queue_order r x \<le> 0" using qo.js_sort_first [OF Cons] by (simp add: qo.le_def)
    then have oldest: "\<forall>x\<in>set (fq_runs w). j_status x = Queued \<longrightarrow> j_created_at r \<le> j_created_at x"
      by (fastforce simp: queue_order_def split: if_splits)
    from ok r(1) obtain m where m: "m \<in> set (fq_models w)" "run_of_model m (j_data r)" "model_sound m" by (auto simp: forecasts_ok_def)
    then have at: "fc_tenantId (j_data r) = fm_tenantId m" "fc_forecastModelId (j_data r) = fm_id m"
      and window: "fc_inputWindowStart (j_data r) \<le> fc_inputWindowEnd (j_data r)" "nat (fc_horizonMonths (j_data r)) \<in> {1, 3, 6, 12, 24, 36}"
      by (auto simp: run_of_model_def model_at_def HORIZONS_def)
    have "get_model (fm_tenantId m) (fm_id m) w = Some m" using get_model_ok [OF ok m(1)] by (simp add: model_at_def)
    then have job: "fd_run (j_data (worker_run w r)) = \<lparr>fr_id = j_id r, fr_tenantId = fm_tenantId m, fr_forecastModelId = fm_id m,
        fr_method = ''seasonal_naive'', fr_providerScope = [''aws''], fr_serviceScope = fm_serviceScope m,
        fr_inputWindowStart = fc_inputWindowStart (j_data r), fr_inputWindowEnd = fc_inputWindowEnd (j_data r),
        fr_horizonMonths = nat (fc_horizonMonths (j_data r)), fr_randomSeed = show_int (fc_randomSeed (j_data r))\<rparr>"
      using m(3) by (simp add: worker_run_def Let_def at model_sound_def)
    have "fm_status m = ModelActive" using m(3) by (simp add: model_sound_def)
    with r m(1) oldest window job claim Cons steps show ?thesis
      by (simp add: complete_on_tables fail_on_tables wv.view_keeps) blast
  qed
qed

theorem forecast_worker_on_tables_witness:
  "map j_status (fw_runs (snd (claimNextQueuedRun (forecast_view [] [] (forecast_tables [sample_model] [sample_forecast_row]))))) = [Running]"
proof -
  note t = forecast_worker_on_tables [OF sample_forecast_reachable, where usage = "[]" and objects = "[]" and jid = "''r''" and uri = "''f''"
    and metrics = JNull and error_code = "''E''"]
  have "fst (claimNextQueuedRun (forecast_view [] [] (forecast_tables [sample_model] [sample_forecast_row]))) \<noteq> Inr None"
    using t by (auto simp: forecast_tables_def sample_forecast_row_def)
  with t show ?thesis
    by (auto simp: forecast_tables_def sample_forecast_row_def forecast_view_def claim_forecast_def update_job_def worker_run_def Let_def
        split: sum.splits option.splits)
qed

text \<open>
  C17: The outcome of a request for a forecast, in every reachable state. A body that does not parse is answered
  with 400; one that names a day of the year 0000, which the parser accepts and the database does not, with
  503, as for a tenant that is gone; one whose model the tenant does not have with 404. Every other request
  queues exactly the run it describes: since every model is active, none is refused for its model's status.
\<close>

theorem forecast_run_outcome:
  assumes "forecast_reachable date_parse jsonb_of w" and "- (2 ^ 63) \<le> seed" and "seed < 2 ^ 63" and "new_id \<notin> j_id ` set (fq_runs w)"
  shows "createForecast date_parse new_id seed context body w =
    (case parseForecastRunCreateBody date_parse body seed of
       Inl e \<Rightarrow> (Inl invalid_request, w)
     | Inr input \<Rightarrow>
         (let t = ctx_tenantId context; row = queued_forecast new_id t input (bigint (frn_randomSeed input)) (fq_now w) in
          if date_cast_fails (frn_inputWindowStart input) \<or> date_cast_fails (frn_inputWindowEnd input) \<or> t \<notin> set (fq_tenants w)
          then (Inl forecasts_unavailable, w)
          else if get_model t (frn_forecastModelId input) w = None then (Inl forecast_not_found, w)
          else (Inr (toForecastRun row), w\<lparr>fq_runs := fq_runs w @ [row]\<rparr>)))"
proof (cases "parseForecastRunCreateBody date_parse body seed")
  case (Inl e)
  then have "e = invalid_request" using refusing_forecast_body [of date_parse body seed] by (simp add: refusing_def)
  with Inl show ?thesis by (simp add: createForecast_def)
next
  case (Inr input)
  from forecast_outcome [OF assms this] Inr show ?thesis by simp
qed

theorem forecast_run_outcome_witness:
  "fst (createForecast sample_dates ''r'' 7 sample_analyst sample_forecast_body (forecast_tables [sample_model] [])) = Inr (toForecastRun sample_forecast_row)"
proof -
  have "\<not> date_cast_fails ''2026-07-01''" "get_model ''t'' sample_model_id (forecast_tables [sample_model] []) = Some sample_model" "bigint ''-5'' = - 5"
    by code_simp+
  then show ?thesis
    using forecast_run_outcome [OF sample_model_reachable, of 7 "''r''" sample_analyst sample_forecast_body]
    by (simp add: sample_forecast_parsed sample_analyst_def createUserRequestContext_def forecast_tables_def Let_def
        queued_forecast_def sample_forecast_row_def sample_columns_def)
qed

end
