(* ===== verification/Spec2Isabelle.thy ===== *)
theory Spec2Isabelle
  imports Csv Js_Dates Synthetic_Csv Canonical_Usage Aws_Cur Optimizer_Claims Optimizer_Worker_Claims
    Forecast_Worker_Claims Backtest_Claims Approvals_Operations Ecosystem_Drain Limiter_Properties
    Session_Claims Authentication_Claims Price_Table_Claims Notification_Claims
    Argon_Executor Optimizer_Policy_Claims Run_Request_Claims Forecast_Request_Claims
begin

text \<open>
  A verification development for the cloud commitment portfolio optimizer, a TypeScript service: tenants
  import the usage of their cloud accounts, forecast and backtest it, ask the optimizer which commitments
  to buy, and decide the recommendations; users and API keys authenticate, with roles that say who may do
  what; an outbox tells other systems. The sources named below are under \<open>src/core\<close> and \<open>src/apps\<close>.

  \<^bold>\<open>How the parts interact.\<close> The import parsers turn a file into usage lines and refuse it as a whole when a
  row or a control total is wrong. The lines are the table that the history query of the forecast and
  backtest workers aggregates. A forecast's points and the tenant's price items and policy are what the
  optimizer evaluates; its recommendation is what an approval is about. Workers claim queued runs from their
  table, and call the database and the object store; each call may fail, before or after it took effect. All
  routes are guarded by authentication, by the actions of the role and by rate limiters.

  \<^bold>\<open>Conventions.\<close> Exceptions are values of \<open>js_error\<close> (Prelude), functions that throw return a \<open>result\<close>.
  A string is a list of characters up to 255, so that texts are Latin-1 and \<open>normalize("NFC")\<close> is the
  identity on them; bytes are characters too. JavaScript numbers that the code keeps exact are integers,
  bigints are \<open>int\<close>. The tables are lists of records, one world record per group of tables, in the order of
  insertion; a statement is a function of the world, an SQL error is \<open>sqlstate\<close>, and a transaction that
  throws leaves the world as it was. The constraints and triggers of \<open>src/db/migrations\<close> are part of the
  statements that can violate them. What the code calls and does not contain is an argument: JSON.parse,
  Date.parse, SHA-256, argon2, signatures, random bytes and generated ids, Parquet, the size of jsonb.

  \<^bold>\<open>Theories.\<close>
  \<^item> Prelude: results, sorting with a comparator (locale \<open>comparator\<close>: the result of a stable sort is unique),
    the grouping of rows in a Map (locale \<open>grouping\<close>). Js_Text, Js_Dates: text, numbers, JSON values, ISO
    dates. Domain: providers, instruments, roles, request contexts. Inputs: what the input parsers share.
    Effects: computations whose calls may fail, with Hoare triples for every fault schedule. Job_Queue: the
    claim of the oldest queued run, and what every worker call does to the runs.
  \<^item> Csv (imports/csv.ts): the reader, its inverse on quoted tables. Usage_Types, Usage_Parser, Synthetic_Csv,
    Canonical_Usage, Aws_Cur (imports/*-parser.ts): header, rows and control totals of the imports;
    accepted rows are valid and reconcile, the first bad row is named, two parsers agree.
  \<^item> Optimizer, Optimizer_Claims (optimizer-runs/optimizer-worker.ts): evaluation of a price item against the
    forecast, ranking, feasibility, with the ranking as a \<open>comparator\<close> interpretation; Optimizer_Worker(_Claims):
    the worker loop under faults.
  \<^item> Usage_History, Forecast, Forecast_Worker and their claims (forecasting/forecast-worker.ts,
    forecast-repository.ts); Backtest, Backtest_Worker, Backtest_Claims (backtests/backtest-worker.ts,
    backtests-repository.ts): points are averages of the right months, a replay does not see the future, runs end.
  \<^item> Approvals_Input, Approvals, Approvals_Service, Approvals_Steps, Approvals_Claims, Approvals_Operations
    (approvals/*.ts): request, decision, expiry and publication over the tables of migrations 0019 and 0021;
    an invariant, and a refinement of the abstract life cycle of one recommendation.
  \<^item> Base64url, Cursors, Cursor_Claims, Paging (the *-cursor.ts files): every encoder and decoder, the locale
    \<open>cursor_codec\<close> interpreted on all of them, and pages that are complete.
  \<^item> Ecosystem, Ecosystem_Outbox, Ecosystem_Claims, Ecosystem_Drain (adapters/*.ts): the outbox, one call
    under faults, and the drain in at most five polls per event (the attempts the code allows).
  \<^item> Sliding_Window, Limiters, Limiter_Claims, Limiter_Properties (shared/rolling-window-limiter.ts and
    the limiters of tenant/): windows in process and as Lua scripts in Redis, shown equal and bounded.
  \<^item> Auth_Errors, Rbac (tenant/rbac.ts, protected-route-actions.ts): policies, endpoints and the guard. Credentials
    (tenant/auth-session-crypto.ts, password-*.ts, api-key-*.ts, request-credential.ts, auth-session-csrf.ts).
  \<^item> Sessions, Session_Service (tenant/auth-login-*.ts, auth-refresh-*.ts, auth-logout-repository.ts,
    auth-session-service.ts): families of refresh tokens. Users (users-*.ts, user-password-*.ts), Api_Keys
    (api-key-metadata-*.ts, api-key-rotation-*.ts). Session_Steps, Session_Claims: all of them as one state machine,
    whose invariant and four effects carry the properties; an abstract session is refined by it.
  \<^item> Authentication, Authentication_Claims (tenant/jwt-validation.ts, auth-repository.ts, auth-service.ts,
    auth-login-input.ts, auth-session-cookie.ts; apps/api/plugins/auth.ts): who is let in.
  \<^item> Price_Tables, Price_Table_Claims (price-tables/*.ts): versions and items over the tables of migrations 0012 and
    0013, as a step relation with an invariant; one active table a day, and the outcome of every call.
  \<^item> Notifications, Notification_Claims (notifications/*.ts): templates, preferences and the emission of an event over
    the tables of migrations 0024 and 0025; who is notified, and who may lock a preference.
  \<^item> Optimizer_Policies, Optimizer_Policy_Claims (optimizer-policies/*.ts): drafts, frozen active policies, the outcome of a patch.
  \<^item> Scenarios (scenarios/*.ts), Run_Requests, Run_Request_Steps, Run_Request_Claims (optimizer-runs-input.ts,
    -service.ts and -repository.ts): requests for optimizer runs over policies, price tables, scenarios and forecasts,
    with the two statements of a request as separate steps; what the worker reads is what the tables say.
  \<^item> Forecast_Requests, Forecast_Request_Claims (forecast-input.ts, -service.ts and -repository.ts): models and runs over the
    tables of migrations 0014 and 0015; the worker's statements are steps of these tables, and a claim serves the queue.
  \<^item> Argon_Executor (tenant/argon-executor.ts): the bounded queue in front of password hashing, as interleaved steps.

  \<^bold>\<open>Bounds and fuel.\<close> Recursion is structural or over a list that shrinks; \<open>follow_cursors\<close> and the drain take
  fuel, and their properties show that the number of rows plus one, and five polls per event, are
  enough. Integers of SQL that can overflow are checked where they are stored.

  \<^bold>\<open>Not modelled.\<close> Registration and first-run initialization, cloud accounts,
  import batches, the service that enqueues backtests, and the read-only queries of recommendations,
  reports, audit log and dashboard are left for an extension. The HTTP and web applications, the worker
  process, configuration, connections, migrations, logging and files are glue around the modelled parts
  (Fastify, pg, Redis, timers, the browser), and the Zig kernel is another language and is not called
  by the worker. Two transactions never interleave in the model: each runs as a step, which is what
  the row and advisory locks they take are for; statements outside a transaction are steps of their own.
\<close>

end
